(* ===== verification/Prelude.thy ===== *)
theory Prelude
  imports Complex_Main "HOL-Library.AList" "HOL-Library.Char_ord" "HOL-Library.List_Lexorder"
begin

text \<open>
  Shared vocabulary of the development.

  The program is Python, so its dynamic values are modelled by one datatype \<open>pyval\<close>;
  dictionaries are association lists in insertion order (\<open>dict\<close>), exceptions are values
  (\<open>pyexc\<close>: class name and message), and a call that may raise and that reads and writes a state
  is a function \<open>'s \<Rightarrow> (pyexc + 'a) \<times> 's\<close> (\<open>act\<close>): the state is returned also when an
  exception propagates, because what was committed before the exception stays committed.

  Idealisations: a string is a list of 8-bit characters read as code points (every string of the
  source is ASCII; \<open>str_upper\<close>, \<open>str_lower\<close> and \<open>str_strip\<close> are exact there); a finite float is the
  rational number it denotes, so comparisons are exact and the rounding of float arithmetic is not
  modelled.  \<open>repr\<close> of a float, \<open>float\<close> and \<open>int\<close> of a string and the parsing of ISO timestamps
  belong to the interpreter: they are the fields of \<open>pyrt\<close> and every theorem holds for any of them.
\<close>

named_theorems dict_simps "rewriting of dictionary operations"
named_theorems act_simps "unfolding of the state and exception combinators"
named_theorems preserves_intros "compositional proofs that an operation preserves a predicate"

section \<open>Exceptions, results, stateful operations\<close>

datatype pyexc = PyExc (exc_class: string) (exc_msg: string)

type_synonym ('s, 'a) act = "'s \<Rightarrow> (pyexc + 'a) \<times> 's"

abbreviation ValueError :: "string \<Rightarrow> pyexc" where "ValueError \<equiv> PyExc ''ValueError''"
abbreviation KeyError :: "string \<Rightarrow> pyexc" where "KeyError \<equiv> PyExc ''KeyError''"
abbreviation TypeError :: "string \<Rightarrow> pyexc" where "TypeError \<equiv> PyExc ''TypeError''"
abbreviation AttributeError :: "string \<Rightarrow> pyexc" where "AttributeError \<equiv> PyExc ''AttributeError''"
abbreviation RuntimeError :: "string \<Rightarrow> pyexc" where "RuntimeError \<equiv> PyExc ''RuntimeError''"
abbreviation IntegrityError :: "string \<Rightarrow> pyexc" where "IntegrityError \<equiv> PyExc ''IntegrityError''"

definition ret :: "'a \<Rightarrow> ('s, 'a) act" where
  "ret a s = (Inr a, s)"

definition raise :: "pyexc \<Rightarrow> ('s, 'a) act" where
  "raise e s = (Inl e, s)"

definition bindE :: "('s, 'a) act \<Rightarrow> ('a \<Rightarrow> ('s, 'b) act) \<Rightarrow> ('s, 'b) act" where
  "bindE m f s = (case m s of (Inl e, s') \<Rightarrow> (Inl e, s') | (Inr a, s') \<Rightarrow> f a s')"

text \<open>A pure computation that may raise, a read of the state, a state update.\<close>

definition liftE :: "(pyexc + 'a) \<Rightarrow> ('s, 'a) act" where
  "liftE r s = (r, s)"

definition gets :: "('s \<Rightarrow> 'a) \<Rightarrow> ('s, 'a) act" where
  "gets f s = (Inr (f s), s)"

definition modify :: "('s \<Rightarrow> 's) \<Rightarrow> ('s, unit) act" where
  "modify f s = (Inr (), f s)"

text \<open>Sequencing of pure computations that may raise.\<close>

definition bindR :: "(pyexc + 'a) \<Rightarrow> ('a \<Rightarrow> pyexc + 'b) \<Rightarrow> pyexc + 'b" where
  "bindR r f = (case r of Inl e \<Rightarrow> Inl e | Inr a \<Rightarrow> f a)"

lemma bindR_simps [simp]: "bindR (Inl e) f = Inl e" "bindR (Inr a) f = f a"
  by (simp_all add: bindR_def)

lemma bindR_eq_Inr: "bindR r f = Inr b \<longleftrightarrow> (\<exists>a. r = Inr a \<and> f a = Inr b)"
  by (cases r) simp_all

lemma bindR_cong [fundef_cong]:
  "r = r' \<Longrightarrow> (\<And>a. r' = Inr a \<Longrightarrow> f a = g a) \<Longrightarrow> bindR r f = bindR r' g"
  by (cases r') simp_all

text \<open>\<open>[f x for x in xs]\<close> where \<open>f\<close> may raise.\<close>

fun mapR :: "('a \<Rightarrow> pyexc + 'b) \<Rightarrow> 'a list \<Rightarrow> pyexc + 'b list" where
  "mapR f [] = Inr []"
| "mapR f (x # xs) = bindR (f x) (\<lambda>y. bindR (mapR f xs) (\<lambda>ys. Inr (y # ys)))"

lemma mapR_cong [fundef_cong]:
  "xs = ys \<Longrightarrow> (\<And>x. x \<in> set ys \<Longrightarrow> f x = g x) \<Longrightarrow> mapR f xs = mapR g ys"
proof (induction ys arbitrary: xs)
  case (Cons y ys)
  then show ?case by (auto intro: bindR_cong)
qed simp

lemma mapR_Inr: "(\<And>x. x \<in> set xs \<Longrightarrow> f x = Inr (g x)) \<Longrightarrow> mapR f xs = Inr (map g xs)"
  by (induction xs) simp_all

lemma mapR_length: "mapR f xs = Inr ys \<Longrightarrow> length ys = length xs"
  by (induction xs arbitrary: ys) (auto simp: bindR_eq_Inr)

text \<open>\<open>try: m finally: fin\<close> and \<open>try: m except Exception as e: h e\<close>.\<close>

definition try_finally :: "('s, 'a) act \<Rightarrow> ('s \<Rightarrow> 's) \<Rightarrow> ('s, 'a) act" where
  "try_finally m fin s = (case m s of (r, s') \<Rightarrow> (r, fin s'))"

definition try_except :: "('s, 'a) act \<Rightarrow> (pyexc \<Rightarrow> ('s, 'a) act) \<Rightarrow> ('s, 'a) act" where
  "try_except m h s = (case m s of (Inl e, s') \<Rightarrow> h e s' | (Inr a, s') \<Rightarrow> (Inr a, s'))"

lemma ret_simp [act_simps]: "ret a s = (Inr a, s)" by (simp add: ret_def)
lemma raise_simp [act_simps]: "raise e s = (Inl e, s)" by (simp add: raise_def)
lemma liftE_simp [act_simps]: "liftE r s = (r, s)" by (simp add: liftE_def)
lemma gets_simp [act_simps]: "gets f s = (Inr (f s), s)" by (simp add: gets_def)
lemma modify_simp [act_simps]: "modify f s = (Inr (), f s)" by (simp add: modify_def)

lemma bindE_Inl [act_simps]: "m s = (Inl e, s') \<Longrightarrow> bindE m f s = (Inl e, s')"
  by (simp add: bindE_def)

lemma bindE_Inr [act_simps]: "m s = (Inr a, s') \<Longrightarrow> bindE m f s = f a s'"
  by (simp add: bindE_def)

lemma bindE_basic [act_simps]:
  "bindE (ret a) f s = f a s" "bindE (raise e) f s = (Inl e, s)"
  "bindE (gets g) f s = f (g s) s" "bindE (modify u) f' s = f' () (u s)"
  by (simp_all add: bindE_def act_simps)

lemma bindE_eq_InrD:
  assumes "bindE m f s = (Inr b, s')"
  obtains a s1 where "m s = (Inr a, s1)" and "f a s1 = (Inr b, s')"
  using assms by (auto simp: bindE_def split: prod.splits sum.splits)

text \<open>
  \<open>preserves P m\<close>: whatever \<open>m\<close> returns or raises, a state with \<open>P\<close> goes to a state with \<open>P\<close>.
\<close>

definition preserves :: "('s \<Rightarrow> bool) \<Rightarrow> ('s, 'a) act \<Rightarrow> bool" where
  "preserves P m \<longleftrightarrow> (\<forall>s. P s \<longrightarrow> P (snd (m s)))"

lemma preservesI: "(\<And>s. P s \<Longrightarrow> P (snd (m s))) \<Longrightarrow> preserves P m"
  by (simp add: preserves_def)

lemma preservesD: "preserves P m \<Longrightarrow> P s \<Longrightarrow> m s = (r, s') \<Longrightarrow> P s'"
  by (auto simp: preserves_def dest: spec [of _ s])

lemma preserves_ret [preserves_intros]: "preserves P (ret a)"
  and preserves_raise [preserves_intros]: "preserves P (raise e)"
  and preserves_liftE [preserves_intros]: "preserves P (liftE r)"
  and preserves_gets [preserves_intros]: "preserves P (gets f)"
  by (simp_all add: preserves_def act_simps)

lemma preserves_modify [preserves_intros]: "(\<And>s. P s \<Longrightarrow> P (u s)) \<Longrightarrow> preserves P (modify u)"
  by (simp add: preserves_def act_simps)

lemma preserves_bindE [preserves_intros]:
  "preserves P m \<Longrightarrow> (\<And>a. preserves P (f a)) \<Longrightarrow> preserves P (bindE m f)"
  by (fastforce simp: preserves_def bindE_def split: prod.splits sum.splits)

lemma preserves_try_finally [preserves_intros]:
  "preserves P m \<Longrightarrow> (\<And>s. P s \<Longrightarrow> P (fin s)) \<Longrightarrow> preserves P (try_finally m fin)"
  by (fastforce simp: preserves_def try_finally_def split: prod.splits)

lemma preserves_try_except [preserves_intros]:
  "preserves P m \<Longrightarrow> (\<And>e. preserves P (h e)) \<Longrightarrow> preserves P (try_except m h)"
  by (fastforce simp: preserves_def try_except_def split: prod.splits sum.splits)

lemma preserves_if [preserves_intros]:
  "(b \<Longrightarrow> preserves P m) \<Longrightarrow> (\<not> b \<Longrightarrow> preserves P n) \<Longrightarrow> preserves P (if b then m else n)"
  by simp

lemma preserves_option [preserves_intros]:
  "(x = None \<Longrightarrow> preserves P m) \<Longrightarrow> (\<And>a. x = Some a \<Longrightarrow> preserves P (f a))
   \<Longrightarrow> preserves P (case x of None \<Rightarrow> m | Some a \<Rightarrow> f a)"
  by (cases x) simp_all

section \<open>Floats\<close>

datatype pyfloat = Fin rat | Inf | NegInf | NaN

fun float_less :: "pyfloat \<Rightarrow> pyfloat \<Rightarrow> bool" where
  "float_less (Fin a) (Fin b) = (a < b)"
| "float_less (Fin _) Inf = True"
| "float_less NegInf (Fin _) = True"
| "float_less NegInf Inf = True"
| "float_less _ _ = False"

definition float_eq :: "pyfloat \<Rightarrow> pyfloat \<Rightarrow> bool" where
  "float_eq a b \<longleftrightarrow> a = b \<and> a \<noteq> NaN"

definition float_le :: "pyfloat \<Rightarrow> pyfloat \<Rightarrow> bool" where
  "float_le a b \<longleftrightarrow> float_less a b \<or> float_eq a b"

text \<open>Python's \<open>max(a, b)\<close> and \<open>min(a, b)\<close> keep the first argument unless the second is better.\<close>

definition float_max :: "pyfloat \<Rightarrow> pyfloat \<Rightarrow> pyfloat" where
  "float_max a b = (if float_less a b then b else a)"

definition float_min :: "pyfloat \<Rightarrow> pyfloat \<Rightarrow> pyfloat" where
  "float_min a b = (if float_less b a then b else a)"


text \<open>Arithmetic, with the special values.\<close>

fun float_neg :: "pyfloat \<Rightarrow> pyfloat" where
  "float_neg (Fin a) = Fin (- a)"
| "float_neg Inf = NegInf"
| "float_neg NegInf = Inf"
| "float_neg NaN = NaN"

fun float_add :: "pyfloat \<Rightarrow> pyfloat \<Rightarrow> pyfloat" where
  "float_add (Fin a) (Fin b) = Fin (a + b)"
| "float_add NaN _ = NaN"
| "float_add _ NaN = NaN"
| "float_add Inf NegInf = NaN"
| "float_add NegInf Inf = NaN"
| "float_add Inf _ = Inf"
| "float_add NegInf _ = NegInf"
| "float_add (Fin _) b = b"

definition float_sub :: "pyfloat \<Rightarrow> pyfloat \<Rightarrow> pyfloat" where
  "float_sub a b = float_add a (float_neg b)"

fun float_scale :: "rat \<Rightarrow> pyfloat \<Rightarrow> pyfloat" where
  "float_scale c (Fin a) = Fin (c * a)"
| "float_scale c NaN = NaN"
| "float_scale c Inf = (if c > 0 then Inf else if c < 0 then NegInf else NaN)"
| "float_scale c NegInf = (if c > 0 then NegInf else if c < 0 then Inf else NaN)"

section \<open>Python values and dictionaries\<close>

datatype pyval =
    PyNone
  | PyBool bool
  | PyInt int
  | PyFloat pyfloat
  | PyStr string
  | PyList "pyval list"
  | PyDict "(string \<times> pyval) list"

type_synonym dict = "(string \<times> pyval) list"

text \<open>What the source takes from the interpreter and its library without defining it.\<close>

record pyrt =
  float_repr :: "pyfloat \<Rightarrow> string"
  float_parse :: "string \<Rightarrow> pyfloat option"
  int_parse :: "string \<Rightarrow> int option"
  iso_to_ms :: "string \<Rightarrow> int option"
  ms_to_iso :: "int \<Rightarrow> string"
  json_loads :: "string \<Rightarrow> pyval option"
  round_half_even :: "nat \<Rightarrow> pyfloat \<Rightarrow> pyfloat"
  float_fixed :: "nat \<Rightarrow> pyfloat \<Rightarrow> string"

text \<open>One concrete instance, for the closed examples.\<close>

definition sample_rt :: pyrt where
  "sample_rt = \<lparr>float_repr = (\<lambda>_. ''0.0''), float_parse = (\<lambda>_. None), int_parse = (\<lambda>_. None),
     iso_to_ms = (\<lambda>_. None), ms_to_iso = (\<lambda>_. ''1970-01-01T00:00:00Z''),
     json_loads = (\<lambda>_. None), round_half_even = (\<lambda>_ f. f),
     float_fixed = (\<lambda>_ _. ''0.0'')\<rparr>"

abbreviation dset :: "'k \<Rightarrow> 'v \<Rightarrow> ('k \<times> 'v) list \<Rightarrow> ('k \<times> 'v) list" where
  "dset \<equiv> AList.update"

definition dict_update :: "('k \<times> 'v) list \<Rightarrow> ('k \<times> 'v) list \<Rightarrow> ('k \<times> 'v) list" where
  "dict_update d kvs = fold (\<lambda>(k, v). dset k v) kvs d"

definition dget_or :: "('k \<times> 'v) list \<Rightarrow> 'k \<Rightarrow> 'v \<Rightarrow> 'v" where
  "dget_or d k v = (case map_of d k of None \<Rightarrow> v | Some x \<Rightarrow> x)"

text \<open>\<open>d.get(k)\<close>: \<open>None\<close> stands for a missing key and for a stored \<open>None\<close>.\<close>

definition pget :: "dict \<Rightarrow> string \<Rightarrow> pyval" where
  "pget d k = dget_or d k PyNone"

definition has_key :: "('k \<times> 'v) list \<Rightarrow> 'k \<Rightarrow> bool" where
  "has_key d k \<longleftrightarrow> map_of d k \<noteq> None"

lemma map_of_dset [dict_simps]: "map_of (dset k v d) = (map_of d)(k \<mapsto> v)"
  by (simp add: update_conv')

lemma dict_update_simps [dict_simps, simp]:
  "dict_update d [] = d" "dict_update d ((k, v) # kvs) = dict_update (dset k v d) kvs"
  by (simp_all add: dict_update_def)

lemma dict_update_append [dict_simps]:
  "dict_update d (xs @ ys) = dict_update (dict_update d xs) ys"
  by (simp add: dict_update_def)

lemma map_of_dict_update [dict_simps]:
  "map_of (dict_update d kvs) = map_of d ++ map_of (rev kvs)"
proof (induction kvs arbitrary: d)
  case (Cons p kvs)
  then show ?case by (cases p) (simp add: map_of_dset map_add_def fun_eq_iff split: option.splits)
qed simp

lemma distinct_dset [simp]: "distinct (map fst d) \<Longrightarrow> distinct (map fst (dset k v d))"
  by (rule distinct_update)

lemma distinct_dict_update [simp]:
  "distinct (map fst d) \<Longrightarrow> distinct (map fst (dict_update d kvs))"
proof (induction kvs arbitrary: d)
  case (Cons p kvs)
  then show ?case by (cases p) simp
qed simp

lemma dget_or_dset [simp]:
  "dget_or (dset k v d) k' w = (if k = k' then v else dget_or d k' w)"
  by (simp add: dget_or_def map_of_dset)

lemma pget_dset [simp]: "pget (dset k v d) k' = (if k = k' then v else pget d k')"
  by (simp add: pget_def)

lemma dget_or_simps [simp]:
  "dget_or [] k w = w" "dget_or ((k', v) # d) k w = (if k = k' then v else dget_or d k w)"
  by (simp_all add: dget_or_def)

lemma pget_simps [simp]:
  "pget [] k = PyNone" "pget ((k', v) # d) k = (if k = k' then v else pget d k)"
  by (simp_all add: pget_def)

lemma has_key_simps [simp]:
  "\<not> has_key [] k" "has_key ((k', v) # d) k \<longleftrightarrow> k = k' \<or> has_key d k"
  by (simp_all add: has_key_def)

lemma has_key_dset [simp]: "has_key (dset k v d) k' \<longleftrightarrow> k = k' \<or> has_key d k'"
  by (simp add: has_key_def map_of_dset)

subsection \<open>Truth, numbers, equality, order\<close>

fun truthy :: "pyval \<Rightarrow> bool" where
  "truthy PyNone = False"
| "truthy (PyBool b) = b"
| "truthy (PyInt i) = (i \<noteq> 0)"
| "truthy (PyFloat f) = (f \<noteq> Fin 0)"
| "truthy (PyStr s) = (s \<noteq> [])"
| "truthy (PyList xs) = (xs \<noteq> [])"
| "truthy (PyDict d) = (d \<noteq> [])"

text \<open>\<open>a or b\<close>.\<close>

definition por :: "pyval \<Rightarrow> pyval \<Rightarrow> pyval" where
  "por a b = (if truthy a then a else b)"

fun num_of :: "pyval \<Rightarrow> pyfloat option" where
  "num_of (PyBool b) = Some (Fin (if b then 1 else 0))"
| "num_of (PyInt i) = Some (Fin (of_int i))"
| "num_of (PyFloat f) = Some f"
| "num_of _ = None"

text \<open>\<open>==\<close>: numbers by value (\<open>True == 1 == 1.0\<close>), dictionaries without regard to order.\<close>

function (sequential) py_eq :: "pyval \<Rightarrow> pyval \<Rightarrow> bool"
  and py_eq_list :: "pyval list \<Rightarrow> pyval list \<Rightarrow> bool"
  and py_eq_dict :: "dict \<Rightarrow> dict \<Rightarrow> bool" where
  "py_eq PyNone PyNone = True"
| "py_eq (PyStr a) (PyStr b) = (a = b)"
| "py_eq (PyList xs) (PyList ys) = py_eq_list xs ys"
| "py_eq (PyDict d) (PyDict e) = (length d = length e \<and> py_eq_dict d e)"
| "py_eq a b = (case (num_of a, num_of b) of (Some x, Some y) \<Rightarrow> float_eq x y | _ \<Rightarrow> False)"
| "py_eq_list [] [] = True"
| "py_eq_list (x # xs) (y # ys) = (py_eq x y \<and> py_eq_list xs ys)"
| "py_eq_list _ _ = False"
| "py_eq_dict [] e = True"
| "py_eq_dict ((k, v) # d) e =
     ((case map_of e k of None \<Rightarrow> False | Some w \<Rightarrow> py_eq v w) \<and> py_eq_dict d e)"
  by pat_completeness auto
termination
  by (relation "measure (case_sum (\<lambda>p. size (fst p))
        (case_sum (\<lambda>p. size_list size (fst p)) (\<lambda>p. size_list (size_prod (\<lambda>_. 0) size) (fst p))))") auto

lemma num_of_py_eq [simp]:
  "py_eq (PyInt i) (PyInt j) = (i = j)" "py_eq (PyBool b) (PyBool c) = (b = c)"
  by (auto simp: float_eq_def)

datatype cmpop = Lt | Le | Gt | Ge

fun cmp_float :: "cmpop \<Rightarrow> pyfloat \<Rightarrow> pyfloat \<Rightarrow> bool" where
  "cmp_float Lt a b = float_less a b"
| "cmp_float Le a b = float_le a b"
| "cmp_float Gt a b = float_less b a"
| "cmp_float Ge a b = float_le b a"

fun cmp_str :: "cmpop \<Rightarrow> string \<Rightarrow> string \<Rightarrow> bool" where
  "cmp_str Lt a b = (a < b)"
| "cmp_str Le a b = (a \<le> b)"
| "cmp_str Gt a b = (b < a)"
| "cmp_str Ge a b = (b \<le> a)"

fun cmp_nat :: "cmpop \<Rightarrow> nat \<Rightarrow> nat \<Rightarrow> bool" where
  "cmp_nat Lt a b = (a < b)"
| "cmp_nat Le a b = (a \<le> b)"
| "cmp_nat Gt a b = (b < a)"
| "cmp_nat Ge a b = (b \<le> a)"

fun type_name :: "pyval \<Rightarrow> string" where
  "type_name PyNone = ''NoneType''"
| "type_name (PyBool _) = ''bool''"
| "type_name (PyInt _) = ''int''"
| "type_name (PyFloat _) = ''float''"
| "type_name (PyStr _) = ''str''"
| "type_name (PyList _) = ''list''"
| "type_name (PyDict _) = ''dict''"

fun op_text :: "cmpop \<Rightarrow> string" where
  "op_text Lt = ''<''" | "op_text Le = ''<=''" | "op_text Gt = ''>''" | "op_text Ge = ''>=''"

definition not_supported :: "cmpop \<Rightarrow> pyval \<Rightarrow> pyval \<Rightarrow> pyexc" where
  "not_supported c a b = TypeError (CHR 0x27 # op_text c @ [CHR 0x27]
     @ '' not supported between instances of '' @ CHR 0x27 # type_name a @ [CHR 0x27]
     @ '' and '' @ CHR 0x27 # type_name b @ [CHR 0x27])"

text \<open>
  The order comparisons: numbers with numbers, strings with strings, lists with lists by their first
  differing elements; every other pair raises \<open>TypeError\<close>.
\<close>

function (sequential) py_cmp :: "cmpop \<Rightarrow> pyval \<Rightarrow> pyval \<Rightarrow> pyexc + bool"
  and py_cmp_list :: "cmpop \<Rightarrow> pyval list \<Rightarrow> pyval list \<Rightarrow> pyexc + bool" where
  "py_cmp c (PyStr a) (PyStr b) = Inr (cmp_str c a b)"
| "py_cmp c (PyList xs) (PyList ys) = py_cmp_list c xs ys"
| "py_cmp c a b = (case (num_of a, num_of b) of
      (Some x, Some y) \<Rightarrow> Inr (cmp_float c x y)
    | _ \<Rightarrow> Inl (not_supported c a b))"
| "py_cmp_list c (x # xs) (y # ys) =
     (if py_eq x y then py_cmp_list c xs ys else py_cmp c x y)"
| "py_cmp_list c xs ys = Inr (cmp_nat c (length xs) (length ys))"
  by pat_completeness auto
termination
  by (relation "measure (case_sum (\<lambda>p. size (fst (snd p))) (\<lambda>p. size_list size (fst (snd p))))")
     auto


section \<open>Strings\<close>

definition is_space :: "char \<Rightarrow> bool" where
  "is_space c \<longleftrightarrow> (of_char c :: nat) \<in> {9, 10, 11, 12, 13, 28, 29, 30, 31, 32, 133, 160}"

definition str_lstrip :: "string \<Rightarrow> string" where
  "str_lstrip s = dropWhile is_space s"

definition str_rstrip :: "string \<Rightarrow> string" where
  "str_rstrip s = rev (dropWhile is_space (rev s))"

definition str_strip :: "string \<Rightarrow> string" where
  "str_strip s = str_rstrip (str_lstrip s)"

definition char_upper :: "char \<Rightarrow> char" where
  "char_upper c = (let n = (of_char c :: nat) in if 97 \<le> n \<and> n \<le> 122 then char_of (n - 32) else c)"

definition char_lower :: "char \<Rightarrow> char" where
  "char_lower c = (let n = (of_char c :: nat) in if 65 \<le> n \<and> n \<le> 90 then char_of (n + 32) else c)"

definition str_upper :: "string \<Rightarrow> string" where "str_upper = map char_upper"

definition str_lower :: "string \<Rightarrow> string" where "str_lower = map char_lower"

definition is_line_break :: "char \<Rightarrow> bool" where
  "is_line_break c \<longleftrightarrow> (of_char c :: nat) \<in> {10, 11, 12, 13, 28, 29, 30, 133}"

text \<open>\<open>s.splitlines()\<close>, with the reversed current line as the first argument.\<close>

fun str_lines :: "string \<Rightarrow> string \<Rightarrow> string list" where
  "str_lines cur [] = (if cur = [] then [] else [rev cur])"
| "str_lines cur (c # s) =
     (if c = CHR 0x0D \<and> s \<noteq> [] \<and> hd s = CHR 0x0A then rev cur # str_lines [] (tl s)
      else if is_line_break c then rev cur # str_lines [] s
      else str_lines (c # cur) s)"

text \<open>\<open>s.startswith(p)\<close>, \<open>s.endswith(p)\<close>, \<open>p in s\<close>, \<open>sep.join(xs)\<close>, \<open>s.split(c)\<close>, \<open>s.split(c, 1)\<close>.\<close>

fun starts_with :: "string \<Rightarrow> string \<Rightarrow> bool" where
  "starts_with [] s = True"
| "starts_with (p # ps) [] = False"
| "starts_with (p # ps) (c # s) = (p = c \<and> starts_with ps s)"

definition ends_with :: "string \<Rightarrow> string \<Rightarrow> bool" where
  "ends_with p s = starts_with (rev p) (rev s)"

fun contains :: "string \<Rightarrow> string \<Rightarrow> bool" where
  "contains p [] = (p = [])"
| "contains p (c # s) = (starts_with p (c # s) \<or> contains p s)"

fun str_join :: "string \<Rightarrow> string list \<Rightarrow> string" where
  "str_join sep [] = []"
| "str_join sep [x] = x"
| "str_join sep (x # xs) = x @ sep @ str_join sep xs"

fun split_on :: "char \<Rightarrow> string \<Rightarrow> string list" where
  "split_on c [] = [[]]"
| "split_on c (x # s) =
     (if x = c then [] # split_on c s
      else case split_on c s of [] \<Rightarrow> [[x]] | t # ts \<Rightarrow> (x # t) # ts)"

definition split_once :: "char \<Rightarrow> string \<Rightarrow> string \<times> string" where
  "split_once c s = (takeWhile (\<lambda>x. x \<noteq> c) s, drop 1 (dropWhile (\<lambda>x. x \<noteq> c) s))"

lemma starts_with_iff_take: "starts_with p s \<longleftrightarrow> take (length p) s = p"
  by (induction p s rule: starts_with.induct) auto

lemma starts_with_append [simp]: "starts_with p (p @ s)"
  by (induction p) auto

lemma contains_iff: "contains p s \<longleftrightarrow> (\<exists>a b. s = a @ p @ b)"
proof (induction s)
  case (Cons c s)
  have "contains p (c # s) \<longleftrightarrow> (\<exists>b. c # s = p @ b) \<or> (\<exists>a b. s = a @ p @ b)"
    using Cons by (simp add: starts_with_iff_take) (metis append_eq_conv_conj append_take_drop_id)
  also have "\<dots> \<longleftrightarrow> (\<exists>a b. c # s = a @ p @ b)"
    by (metis append_Cons append_Nil neq_Nil_conv list.inject)
  finally show ?case .
qed simp

lemma split_on_not_Nil [simp]: "split_on c s \<noteq> []"
  by (induction s) (auto split: list.splits)

lemma split_on_no_sep: "c \<notin> set s \<Longrightarrow> split_on c s = [s]"
  by (induction s) auto

lemma split_on_append_sep: "c \<notin> set s \<Longrightarrow> split_on c (s @ c # t) = s # split_on c t"
  by (induction s) auto

text \<open>\<open>split\<close> undoes \<open>join\<close> on pieces without the separator.\<close>

lemma split_on_join:
  "xs \<noteq> [] \<Longrightarrow> (\<And>x. x \<in> set xs \<Longrightarrow> c \<notin> set x) \<Longrightarrow> split_on c (str_join [c] xs) = xs"
proof (induction xs rule: induct_list012)
  case (3 x y ys)
  then show ?case by (simp add: split_on_append_sep)
qed (simp_all add: split_on_no_sep)

subsection \<open>\<open>str\<close> and \<open>repr\<close>\<close>

definition digit_char :: "nat \<Rightarrow> char" where
  "digit_char n = char_of (48 + n)"

fun nat_str :: "nat \<Rightarrow> string" where
  "nat_str n = (if n < 10 then [digit_char n] else nat_str (n div 10) @ [digit_char (n mod 10)])"

declare nat_str.simps [simp del]

definition int_str :: "int \<Rightarrow> string" where
  "int_str i = (if i < 0 then CHR ''-'' # nat_str (nat (- i)) else nat_str (nat i))"

definition hex_digit :: "nat \<Rightarrow> char" where
  "hex_digit n = (if n < 10 then char_of (48 + n) else char_of (87 + n))"

definition repr_char :: "char \<Rightarrow> char \<Rightarrow> string" where
  "repr_char q c =
     (let n = (of_char c :: nat) in
      if c = q \<or> n = 92 then [char_of (92::nat), c]
      else if n = 9 then [char_of (92::nat), CHR ''t'']
      else if n = 10 then [char_of (92::nat), CHR ''n'']
      else if n = 13 then [char_of (92::nat), CHR ''r'']
      else if n < 32 \<or> n = 127 then [char_of (92::nat), CHR ''x'', hex_digit (n div 16), hex_digit (n mod 16)]
      else [c])"

definition str_repr :: "string \<Rightarrow> string" where
  "str_repr s =
     (let q = (if CHR 0x27 \<in> set s \<and> CHR 0x22 \<notin> set s then CHR 0x22 else CHR 0x27)
      in q # concat (map (repr_char q) s) @ [q])"

fun py_repr :: "pyrt \<Rightarrow> pyval \<Rightarrow> string" where
  "py_repr rt PyNone = ''None''"
| "py_repr rt (PyBool b) = (if b then ''True'' else ''False'')"
| "py_repr rt (PyInt i) = int_str i"
| "py_repr rt (PyFloat f) = float_repr rt f"
| "py_repr rt (PyStr s) = str_repr s"
| "py_repr rt (PyList xs) = ''['' @ str_join '', '' (map (py_repr rt) xs) @ '']''"
| "py_repr rt (PyDict d) =
     ''{'' @ str_join '', '' (map (\<lambda>(k, v). str_repr k @ '': '' @ py_repr rt v) d) @ ''}''"

fun py_str :: "pyrt \<Rightarrow> pyval \<Rightarrow> string" where
  "py_str rt (PyStr s) = s"
| "py_str rt v = py_repr rt v"

definition list_repr :: "string list \<Rightarrow> string" where
  "list_repr xs = ''['' @ str_join '', '' (map str_repr xs) @ '']''"

text \<open>\<open>str(x or "").strip()\<close> and \<open>... or None\<close>, which the source uses throughout.\<close>

definition text_of :: "pyrt \<Rightarrow> pyval \<Rightarrow> string" where
  "text_of rt v = str_strip (py_str rt (por v (PyStr [])))"

definition nonempty :: "string \<Rightarrow> string option" where
  "nonempty s = (if s = [] then None else Some s)"

fun opt_str :: "string option \<Rightarrow> pyval" where
  "opt_str None = PyNone"
| "opt_str (Some s) = PyStr s"

fun opt_float :: "pyfloat option \<Rightarrow> pyval" where
  "opt_float None = PyNone"
| "opt_float (Some f) = PyFloat f"

definition str_list :: "string list \<Rightarrow> pyval" where
  "str_list xs = PyList (map PyStr xs)"

text \<open>\<open>float(x)\<close>.\<close>

fun py_float :: "pyrt \<Rightarrow> pyval \<Rightarrow> pyexc + pyfloat" where
  "py_float rt (PyStr s) = (case float_parse rt s of
      None \<Rightarrow> Inl (ValueError (''could not convert string to float: '' @ str_repr s))
    | Some f \<Rightarrow> Inr f)"
| "py_float rt v = (case num_of v of
      None \<Rightarrow> Inl (TypeError (''float() argument must be a string or a real number, not ''
                 @ CHR 0x27 # type_name v @ [CHR 0x27]))
    | Some f \<Rightarrow> Inr f)"

subsection \<open>Dynamic dispatch\<close>

text \<open>The value on which the source calls \<open>.get\<close>, the elements a \<open>for\<close> loop visits, \<open>isinstance(x, int)\<close>.\<close>

definition no_attribute_get :: "string \<Rightarrow> pyexc" where
  "no_attribute_get t = AttributeError (str_repr t @ '' object has no attribute '' @ str_repr ''get'')"

fun as_dict :: "pyval \<Rightarrow> pyexc + dict" where
  "as_dict (PyDict d) = Inr d"
| "as_dict v = Inl (no_attribute_get (type_name v))"

fun py_iter :: "pyval \<Rightarrow> pyexc + pyval list" where
  "py_iter (PyList xs) = Inr xs"
| "py_iter (PyStr s) = Inr (map (\<lambda>c. PyStr [c]) s)"
| "py_iter (PyDict d) = Inr (map (\<lambda>(k, _). PyStr k) d)"
| "py_iter v = Inl (TypeError (str_repr (type_name v) @ '' object is not iterable''))"

text \<open>\<open>str(e)\<close>: a \<open>KeyError\<close> shows the representation of its key.\<close>

definition exc_str :: "pyexc \<Rightarrow> string" where
  "exc_str e = (if exc_class e = ''KeyError'' then str_repr (exc_msg e) else exc_msg e)"

fun as_int :: "pyval \<Rightarrow> int option" where
  "as_int (PyInt i) = Some i"
| "as_int (PyBool b) = Some (if b then 1 else 0)"
| "as_int _ = None"

definition dpop :: "'k \<Rightarrow> ('k \<times> 'v) list \<Rightarrow> ('k \<times> 'v) list" where
  "dpop k d = filter (\<lambda>(k', _). k' \<noteq> k) d"

text \<open>\<open>x or dflt\<close> on an optional float: zero counts as absent.\<close>

definition float_or :: "pyfloat option \<Rightarrow> pyfloat \<Rightarrow> pyfloat" where
  "float_or x dflt = (case x of None \<Rightarrow> dflt | Some f \<Rightarrow> if f = Fin 0 then dflt else f)"

end
