(* ===== verification/Ids.thy ===== *)
theory Ids
  imports Prelude
begin

text \<open>
  \<open>wallee_v6/wallee_v6/ids.py\<close>: canonical JSON, content hashes and identifiers.  \<open>json_text\<close> is
  \<open>json.dumps\<close> for the options the source uses; \<open>hashlib.sha256\<close> and \<open>uuid4\<close> are the parameters
  \<open>sha\<close> and the hex text of each new id.  The lemmas show that the canonical text depends only on the
  value up to the order of dictionary keys, and that it determines the value up to that order.
\<close>

section \<open>JSON texts\<close>

definition json_char :: "bool \<Rightarrow> char \<Rightarrow> string" where
  "json_char ascii c =
     (let n = (of_char c :: nat); bs = char_of (92 :: nat) in
      if n = 34 \<or> n = 92 then [bs, c]
      else if n = 10 then [bs, char_of (110 :: nat)]
      else if n = 13 then [bs, char_of (114 :: nat)]
      else if n = 9 then [bs, char_of (116 :: nat)]
      else if n = 12 then [bs, char_of (102 :: nat)]
      else if n = 8 then [bs, char_of (98 :: nat)]
      else if n < 32 \<or> ascii \<and> 127 \<le> n
        then [bs, char_of (117 :: nat), CHR ''0'', CHR ''0'', hex_digit (n div 16), hex_digit (n mod 16)]
      else [c])"

definition json_str :: "bool \<Rightarrow> string \<Rightarrow> string" where
  "json_str ascii s = CHR 0x22 # concat (map (json_char ascii) s) @ [CHR 0x22]"

fun json_float :: "pyrt \<Rightarrow> pyfloat \<Rightarrow> string" where
  "json_float rt (Fin q) = float_repr rt (Fin q)"
| "json_float rt Inf = ''Infinity''"
| "json_float rt NegInf = ''-Infinity''"
| "json_float rt NaN = ''NaN''"

text \<open>\<open>json.dumps(v, sort_keys=True, separators=(isep, ksep), ensure_ascii=ascii)\<close>.\<close>

fun json_text :: "pyrt \<Rightarrow> bool \<Rightarrow> string \<Rightarrow> string \<Rightarrow> pyval \<Rightarrow> string" where
  "json_text rt ascii isep ksep PyNone = ''null''"
| "json_text rt ascii isep ksep (PyBool b) = (if b then ''true'' else ''false'')"
| "json_text rt ascii isep ksep (PyInt i) = int_str i"
| "json_text rt ascii isep ksep (PyFloat f) = json_float rt f"
| "json_text rt ascii isep ksep (PyStr s) = json_str ascii s"
| "json_text rt ascii isep ksep (PyList xs) =
     ''['' @ str_join isep (map (json_text rt ascii isep ksep) xs) @ '']''"
| "json_text rt ascii isep ksep (PyDict d) =
     ''{'' @ str_join isep (map (\<lambda>(k, t). json_str ascii k @ ksep @ t)
        (sort_key fst (map (\<lambda>(k, v). (k, json_text rt ascii isep ksep v)) d))) @ ''}''"

definition canonical_json :: "pyrt \<Rightarrow> pyval \<Rightarrow> string" where
  "canonical_json rt v = json_text rt False '','' '':'' v"

text \<open>\<open>json.dumps(v, sort_keys=True)\<close> with the default separators.\<close>

definition json_dumps :: "pyrt \<Rightarrow> pyval \<Rightarrow> string" where
  "json_dumps rt v = json_text rt True '', '' '': '' v"

section \<open>Hashes and identifiers\<close>

definition action_args_hash :: "pyrt \<Rightarrow> (string \<Rightarrow> string) \<Rightarrow> string \<Rightarrow> dict \<Rightarrow> string" where
  "action_args_hash rt sha verb args =
     sha (canonical_json rt (PyDict [(''verb'', PyStr verb), (''args'', PyDict args)]))"

definition idempotency_key ::
    "pyrt \<Rightarrow> (string \<Rightarrow> string) \<Rightarrow> string \<Rightarrow> string \<Rightarrow> string \<Rightarrow> string \<Rightarrow> string" where
  "idempotency_key rt sha plan_id action_id verb args_hash =
     sha (canonical_json rt (PyDict [(''plan_id'', PyStr plan_id), (''action_id'', PyStr action_id),
        (''verb'', PyStr verb), (''args_hash'', PyStr args_hash)]))"

definition new_id :: "string \<Rightarrow> string \<Rightarrow> string" where
  "new_id prefix hex = prefix @ ''_'' @ take 12 hex"

section \<open>The canonical text depends on the value up to key order only\<close>

text \<open>What \<open>json.loads\<close> of a canonical text returns: the same value with sorted keys.\<close>

fun json_norm :: "pyval \<Rightarrow> pyval" where
  "json_norm (PyList xs) = PyList (map json_norm xs)"
| "json_norm (PyDict d) = PyDict (sort_key fst (map (\<lambda>(k, v). (k, json_norm v)) d))"
| "json_norm v = v"

definition norm_dict :: "dict \<Rightarrow> dict" where
  "norm_dict d = sort_key fst (map (\<lambda>(k, v). (k, json_norm v)) d)"

text \<open>The text of a value whose keys are taken in the order they have.\<close>

fun plain_text :: "pyrt \<Rightarrow> bool \<Rightarrow> string \<Rightarrow> string \<Rightarrow> pyval \<Rightarrow> string" where
  "plain_text rt ascii isep ksep (PyList xs) =
     ''['' @ str_join isep (map (plain_text rt ascii isep ksep) xs) @ '']''"
| "plain_text rt ascii isep ksep (PyDict d) =
     ''{'' @ str_join isep (map (\<lambda>(k, v). json_str ascii k @ ksep @ plain_text rt ascii isep ksep v) d) @ ''}''"
| "plain_text rt ascii isep ksep v = json_text rt ascii isep ksep v"

lemma insort_key_map: "insort_key f (g x) (map g xs) = map g (insort_key (\<lambda>x. f (g x)) x xs)"
  by (induction xs) auto

lemma sort_key_map: "sort_key f (map g xs) = map g (sort_key (\<lambda>x. f (g x)) xs)"
  by (induction xs) (simp_all add: insort_key_map)

lemma sort_key_fst_map:
  "sort_key fst (map (\<lambda>(k, v). (k, h v)) d) = map (\<lambda>(k, v). (k, h v)) (sort_key fst d)"
  by (simp add: sort_key_map case_prod_unfold)

lemma json_text_plain: "json_text rt ascii isep ksep v = plain_text rt ascii isep ksep (json_norm v)"
proof (induction v rule: json_norm.induct)
  case (1 xs)
  then show ?case by (simp add: comp_def cong: map_cong)
next
  case (2 d)
  then have "map (\<lambda>(k, v). (k, json_text rt ascii isep ksep v)) d
      = map (\<lambda>(k, v). (k, plain_text rt ascii isep ksep (json_norm v))) d"
    by (auto simp: fsts.simps)
  then show ?case
    by (simp only: json_text.simps json_norm.simps plain_text.simps sort_key_fst_map map_map)
      (simp add: comp_def case_prod_unfold)
qed simp_all

lemma canonical_json_plain: "canonical_json rt v = plain_text rt False '','' '':'' (json_norm v)"
  by (simp add: canonical_json_def json_text_plain)

text \<open>Dictionaries with the same items in any order have the same normal form.\<close>

lemma norm_dict_perm:
  assumes "distinct (map fst d)" and "set d = set e" and "distinct (map fst e)"
  shows "norm_dict d = norm_dict e"
proof -
  let ?h = "\<lambda>(k, v). (k, json_norm v)"
  have "sort_key fst d = sort_key fst e"
  proof (rule map_sorted_distinct_set_unique [where f = fst])
    show "inj_on fst (set (sort_key fst d) \<union> set (sort_key fst e))"
      using assms by (simp add: distinct_map)
    show "distinct (map fst (sort_key fst d))" "distinct (map fst (sort_key fst e))"
      using assms by (simp_all add: distinct_map)
  qed (simp_all add: assms(2))
  then show ?thesis by (simp add: norm_dict_def sort_key_fst_map)
qed

section \<open>The canonical text determines the value\<close>

text \<open>Reading back one character of a string literal.\<close>

definition hex_val :: "char \<Rightarrow> nat" where
  "hex_val c = (let n = (of_char c :: nat) in if n < 58 then n - 48 else n - 87)"

lemma hex_val_digit: "n < 16 \<Longrightarrow> hex_val (hex_digit n) = n"
  by (simp add: hex_val_def hex_digit_def Let_def)

fun read_char :: "string \<Rightarrow> (char \<times> string) option" where
  "read_char [] = None"
| "read_char (c # s) =
     (if of_char c = (34 :: nat) then None
      else if of_char c \<noteq> (92 :: nat) then Some (c, s)
      else case s of
        [] \<Rightarrow> None
      | x # s' \<Rightarrow>
          if of_char x = (110 :: nat) then Some (char_of (10 :: nat), s')
          else if of_char x = (114 :: nat) then Some (char_of (13 :: nat), s')
          else if of_char x = (116 :: nat) then Some (char_of (9 :: nat), s')
          else if of_char x = (102 :: nat) then Some (char_of (12 :: nat), s')
          else if of_char x = (98 :: nat) then Some (char_of (8 :: nat), s')
          else if of_char x = (117 :: nat)
            then Some (char_of (16 * hex_val (s' ! 2) + hex_val (s' ! 3)), drop 4 s')
          else Some (x, s'))"

lemma read_json_char: "read_char (json_char ascii c @ s) = Some (c, s)"
proof -
  define n where "n = (of_char c :: nat)"
  have c: "c = char_of n" by (simp add: n_def)
  have n: "n < 256"
    unfolding n_def by (metis of_char_mod_256 mod_less_divisor zero_less_numeral)
  have hex: "16 * hex_val (hex_digit (n div 16)) + hex_val (hex_digit (n mod 16)) = n"
    using n by (simp add: hex_val_digit)
  show ?thesis
    using n hex by (simp add: json_char_def Let_def c)
qed

lemma json_str_body_inj:
  "concat (map (json_char a) u) @ CHR 0x22 # s = concat (map (json_char a) v) @ CHR 0x22 # t
   \<Longrightarrow> u = v \<and> s = t"
proof (induction u arbitrary: v)
  case Nil
  show ?case
  proof (cases v)
    case (Cons d v')
    then have "read_char (CHR 0x22 # s)
        = read_char (json_char a d @ concat (map (json_char a) v') @ CHR 0x22 # t)"
      using Nil by simp
    then show ?thesis by (simp only: read_json_char) simp
  qed (use Nil in simp)
next
  case (Cons c u)
  have l: "read_char (json_char a c @ concat (map (json_char a) u) @ CHR 0x22 # s)
      = read_char (concat (map (json_char a) v) @ CHR 0x22 # t)"
    using Cons.prems by simp
  show ?case
  proof (cases v)
    case Nil
    then show ?thesis using l by (simp only: read_json_char) simp
  next
    case (Cons d v')
    then have "c = d \<and> concat (map (json_char a) u) @ CHR 0x22 # s = concat (map (json_char a) v') @ CHR 0x22 # t"
      using l by (simp only: list.map concat.simps append_assoc read_json_char) simp
    then show ?thesis using Cons.IH [of v'] Cons by simp
  qed
qed

lemma json_str_inj: "json_str a u @ s = json_str a v @ t \<Longrightarrow> u = v \<and> s = t"
  using json_str_body_inj [of a u s v t] by (simp add: json_str_def)

text \<open>The characters that end a value inside a list or a dictionary.\<close>

definition is_delim :: "char \<Rightarrow> bool" where
  "is_delim c \<longleftrightarrow> of_char c \<in> {44, 93, 125 :: nat}"

definition delimited :: "string \<Rightarrow> bool" where
  "delimited s \<longleftrightarrow> s = [] \<or> is_delim (hd s)"

definition uniquely_read :: "('a \<Rightarrow> string) \<Rightarrow> 'a \<Rightarrow> bool" where
  "uniquely_read f x \<longleftrightarrow> f x \<noteq> [] \<and> \<not> is_delim (hd (f x)) \<and>
     (\<forall>y s t. f x @ s = f y @ t \<longrightarrow> delimited s \<longrightarrow> delimited t \<longrightarrow> x = y \<and> s = t)"

lemma str_join_concat: "str_join sep (x # xs) = x @ concat (map (\<lambda>y. sep @ y) xs)"
  by (induction xs arbitrary: x) simp_all

lemma tail_inj:
  assumes "\<And>x. x \<in> set xs \<Longrightarrow> uniquely_read f x" and "is_delim c" and "c \<noteq> CHR '',''"
  shows "concat (map (\<lambda>x. CHR '','' # f x) xs) @ c # s = concat (map (\<lambda>x. CHR '','' # f x) ys) @ c # t
     \<Longrightarrow> xs = ys \<and> s = t"
  using assms(1)
proof (induction xs arbitrary: ys)
  case Nil
  then show ?case using assms(3) by (cases ys) auto
next
  case (Cons x xs)
  let ?tl = "\<lambda>zs r. concat (map (\<lambda>x. CHR '','' # f x) zs) @ c # r"
  have d: "delimited (?tl zs r)" for zs r
    using assms(2) by (cases zs) (simp_all add: delimited_def is_delim_def)
  obtain y ys' where ys: "ys = y # ys'"
    using Cons.prems(1) assms(3) by (cases ys) auto
  have "f x @ ?tl xs s = f y @ ?tl ys' t" using Cons.prems(1) ys by simp
  then have "x = y \<and> ?tl xs s = ?tl ys' t"
    using Cons.prems(2) [of x] d unfolding uniquely_read_def by (metis list.set_intros(1))
  then show ?case using Cons.IH Cons.prems(2) ys by simp
qed

lemma sequence_inj:
  assumes u: "\<And>x. x \<in> set xs \<Longrightarrow> uniquely_read f x" and c: "is_delim c" "c \<noteq> CHR '',''"
    and hd: "\<And>y. f y \<noteq> [] \<and> \<not> is_delim (hd (f y))"
    and eq: "str_join '','' (map f xs) @ c # s = str_join '','' (map f ys) @ c # t"
  shows "xs = ys \<and> s = t"
proof -
  have j: "CHR '','' # str_join '','' (map f (z # zs)) @ c # r = concat (map (\<lambda>x. CHR '','' # f x) (z # zs)) @ c # r"
    for z zs r by (simp add: str_join_concat comp_def del: str_join.simps)
  have e: "str_join '','' (map f (z # zs)) @ c # r \<noteq> c # r'" for z zs r r'
    using hd [of z] c(1) by (cases "f z") (auto simp: str_join_concat simp del: str_join.simps)
  show ?thesis
  proof (cases xs)
    case Nil
    then show ?thesis using eq e [of _ _ t s] by (cases ys) (auto simp del: str_join.simps(3))
  next
    case (Cons x xs')
    then obtain y ys' where ys: "ys = y # ys'"
      using eq e [of x xs' s t] by (cases ys) auto
    show ?thesis
      by (rule tail_inj [OF u c]) (use arg_cong [OF eq, of "\<lambda>l. CHR '','' # l"] Cons ys j in metis)+
  qed
qed

text \<open>Numbers.\<close>

definition nat_val :: "string \<Rightarrow> nat" where
  "nat_val s = foldl (\<lambda>a c. 10 * a + (of_char c - 48)) 0 s"

lemma nat_val_nat_str: "nat_val (nat_str n) = n"
proof (induction n rule: nat_str.induct)
  case (1 n)
  show ?case
  proof (cases "n < 10")
    case True
    then show ?thesis by (simp add: nat_str.simps [of n] nat_val_def digit_char_def)
  next
    case False
    then show ?thesis using 1 by (simp add: nat_str.simps [of n] nat_val_def digit_char_def)
  qed
qed

definition is_digit :: "char \<Rightarrow> bool" where
  "is_digit c \<longleftrightarrow> 48 \<le> (of_char c :: nat) \<and> of_char c \<le> (57 :: nat)"

lemma is_digit_digit_char: "n < 10 \<Longrightarrow> is_digit (digit_char n)"
  by (simp add: is_digit_def digit_char_def)

lemma nat_str_chars: "nat_str n \<noteq> [] \<and> list_all is_digit (nat_str n)"
proof (induction n rule: nat_str.induct)
  case (1 n)
  then show ?case
    by (cases "n < 10") (simp_all add: nat_str.simps [of n] is_digit_digit_char)
qed

lemma int_str_chars: "int_str i \<noteq> [] \<and> list_all (\<lambda>c. is_digit c \<or> c = CHR ''-'') (int_str i)"
  using nat_str_chars [of "nat i"] nat_str_chars [of "nat (- i)"]
  by (auto simp: int_str_def list_all_iff)

lemma int_str_inj: "int_str i = int_str j \<Longrightarrow> i = j"
proof -
  assume eq: "int_str i = int_str j"
  have minus: "nat_str n \<noteq> CHR ''-'' # s" for n s
    using nat_str_chars [of n] by (auto simp: is_digit_def)
  have inj: "nat_str m = nat_str n \<Longrightarrow> m = n" for m n
    by (metis nat_val_nat_str)
  show "i = j"
    using eq minus minus [symmetric] inj [of "nat i" "nat j"] inj [of "nat (- i)" "nat (- j)"]
    by (auto simp: int_str_def split: if_splits)
qed

text \<open>What is used of \<open>float.__repr__\<close> on finite floats: it is injective and reads as a float.\<close>

definition float_char :: "char \<Rightarrow> bool" where
  "float_char c \<longleftrightarrow> is_digit c \<or> of_char c \<in> {43, 45, 46, 101 :: nat}"

definition floats_faithful :: "pyrt \<Rightarrow> bool" where
  "floats_faithful rt \<longleftrightarrow>
     (\<forall>p q. float_repr rt (Fin p) = float_repr rt (Fin q) \<longrightarrow> p = q) \<and>
     (\<forall>q. list_all float_char (float_repr rt (Fin q)) \<and>
          list_ex (\<lambda>c. c = CHR ''.'' \<or> c = CHR ''e'') (float_repr rt (Fin q)))"

fun atomic :: "pyval \<Rightarrow> bool" where
  "atomic (PyStr _) = False"
| "atomic (PyList _) = False"
| "atomic (PyDict _) = False"
| "atomic _ = True"

text \<open>The characters of the text of an atomic value: none of them is a delimiter, a quote or a bracket.\<close>

definition token_char :: "char \<Rightarrow> bool" where
  "token_char c \<longleftrightarrow> of_char c \<notin> {34, 44, 91, 93, 123, 125 :: nat}"

lemma token_char_simps:
  "is_digit c \<Longrightarrow> token_char c" "float_char c \<Longrightarrow> token_char c" "token_char c \<Longrightarrow> \<not> is_delim c"
  by (auto simp: token_char_def is_digit_def float_char_def is_delim_def)

lemma json_float_text:
  assumes "floats_faithful rt"
  shows "json_float rt f \<noteq> []" and "list_all token_char (json_float rt f)"
    and "json_float rt f \<noteq> int_str i"
    and "json_float rt f = json_float rt g \<Longrightarrow> f = g"
proof -
  have q: "list_all float_char (float_repr rt (Fin q))"
    "list_ex (\<lambda>c. c = CHR ''.'' \<or> c = CHR ''e'') (float_repr rt (Fin q))" for q
    using assms by (simp_all add: floats_faithful_def)
  have inj: "float_repr rt (Fin p) = float_repr rt (Fin r) \<Longrightarrow> p = r" for p r
    using assms by (simp add: floats_faithful_def)
  have ne: "float_repr rt (Fin r) \<noteq> []" for r
    using q(2) [of r] by auto
  show "json_float rt f \<noteq> []"
    by (cases f) (simp_all add: ne)
  show "list_all token_char (json_float rt f)"
    by (cases f) (use q(1) in \<open>auto simp: list_all_iff token_char_simps\<close>, simp_all add: token_char_def)
  show "json_float rt f \<noteq> int_str i"
  proof
    assume eq: "json_float rt f = int_str i"
    have i: "list_all (\<lambda>c. is_digit c \<or> c = CHR ''-'') (json_float rt f)"
      using int_str_chars eq by simp
    show False
    proof (cases f)
      case (Fin r)
      then show False using i q(2) [of r] by (auto simp: list_all_iff list_ex_iff is_digit_def)
    qed (use i in \<open>simp_all add: is_digit_def\<close>)
  qed
  have lit: "float_repr rt (Fin r) \<noteq> ''Infinity''" "float_repr rt (Fin r) \<noteq> ''-Infinity''"
    "float_repr rt (Fin r) \<noteq> ''NaN''" for r
    using q(1) [of r] by (auto simp: float_char_def is_digit_def)
  show "json_float rt f = json_float rt g \<Longrightarrow> f = g"
    by (cases f; cases g) (use lit inj in \<open>auto simp: lit [symmetric]\<close>)
qed

lemma atomic_text:
  assumes "floats_faithful rt" and "atomic v"
  shows "plain_text rt a is ks v \<noteq> []" and "list_all token_char (plain_text rt a is ks v)"
proof -
  have i: "list_all token_char (int_str i)" for i
    by (rule list.pred_mono_strong [OF conjunct2 [OF int_str_chars]])
      (auto simp: token_char_def is_digit_def)
  show "plain_text rt a is ks v \<noteq> []"
    using assms(2) json_float_text(1) [OF assms(1)] int_str_chars by (cases v) simp_all
  show "list_all token_char (plain_text rt a is ks v)"
    using assms(2) json_float_text(2) [OF assms(1)] i by (cases v) (simp_all add: token_char_def)
qed

lemma atomic_text_inj:
  assumes ff: "floats_faithful rt" and "atomic v" "atomic w"
    and eq: "plain_text rt a is ks v = plain_text rt a is ks w"
  shows "v = w"
proof -
  have lit: "c = CHR ''-'' \<or> is_digit c" if "int_str i = c # s" for i c s
    using int_str_chars [of i] that by auto
  have num: "int_str i \<noteq> ''null''" "int_str i \<noteq> ''true''" "int_str i \<noteq> ''false''" for i
    using lit [of i] by (auto simp: is_digit_def)
  have flt: "json_float rt f \<noteq> ''null''" "json_float rt f \<noteq> ''true''" "json_float rt f \<noteq> ''false''" for f
  proof -
    have "list_all float_char (float_repr rt (Fin q))" for q
      using ff by (simp add: floats_faithful_def)
    from this [of "case f of Fin q \<Rightarrow> q | _ \<Rightarrow> 0"]
    show "json_float rt f \<noteq> ''null''" "json_float rt f \<noteq> ''true''" "json_float rt f \<noteq> ''false''"
      by (cases f; auto simp: float_char_def is_digit_def)+
  qed
  note sym = num [symmetric] flt [symmetric]
    json_float_text(3) [OF ff] json_float_text(3) [OF ff, symmetric]
  show ?thesis
    by (cases v; cases w) (use assms(2-4) in \<open>auto simp: num flt sym
      dest: int_str_inj json_float_text(4) [OF ff] split: if_splits\<close>)
qed

text \<open>A text of an atomic value is the longest prefix of token characters.\<close>

lemma token_split:
  assumes "list_all token_char u" "list_all token_char v" "delimited s" "delimited t" "u @ s = v @ t"
  shows "u = v \<and> s = t"
proof -
  have tw: "takeWhile token_char (x @ r) = x" if "list_all token_char x" "delimited r" for x r
    using that by (cases r) (auto simp: takeWhile_append list_all_iff delimited_def is_delim_def token_char_def)
  have "u = v" using tw [OF assms(1,3)] tw [OF assms(2,4)] assms(5) by simp
  then show ?thesis using assms(5) by simp
qed

abbreviation ctext :: "pyrt \<Rightarrow> pyval \<Rightarrow> string" where
  "ctext rt \<equiv> plain_text rt False '','' '':''"

lemma ctext_hd:
  assumes "floats_faithful rt"
  shows "ctext rt v \<noteq> [] \<and> \<not> is_delim (hd (ctext rt v))"
proof (cases "atomic v")
  case True
  then show ?thesis
    using atomic_text [OF assms True, of False "'',''" "'':''"] token_char_simps(3)
    by (cases "ctext rt v") auto
next
  case False
  then show ?thesis by (cases v) (simp_all add: is_delim_def json_str_def)
qed

text \<open>What begins the text of a value that is not atomic.\<close>

lemma compound_first:
  assumes "floats_faithful rt" and "atomic v" and "\<not> atomic w"
  shows "ctext rt v @ s \<noteq> ctext rt w @ t"
proof -
  obtain c r where "ctext rt v = c # r" "token_char c"
    using atomic_text [OF assms(1,2), of False "'',''" "'':''"] by (cases "ctext rt v") auto
  moreover obtain d r' where "ctext rt w = d # r'" "\<not> token_char d"
    using assms(3) by (cases w) (simp_all add: token_char_def json_str_def)
  ultimately show ?thesis by auto
qed

definition item_text :: "pyrt \<Rightarrow> string \<times> pyval \<Rightarrow> string" where
  "item_text rt p = json_str False (fst p) @ '':'' @ ctext rt (snd p)"

lemma item_text_read:
  assumes "uniquely_read (ctext rt) (snd p)"
  shows "uniquely_read (item_text rt) p"
  unfolding uniquely_read_def
proof (intro conjI allI impI)
  show "item_text rt p \<noteq> []" "\<not> is_delim (hd (item_text rt p))"
    by (simp_all add: item_text_def json_str_def is_delim_def)
next
  fix q s t
  assume eq: "item_text rt p @ s = item_text rt q @ t" and d: "delimited s" "delimited t"
  then have "fst p = fst q \<and> ctext rt (snd p) @ s = ctext rt (snd q) @ t"
    using json_str_inj [of False "fst p" _ "fst q"] by (fastforce simp: item_text_def)
  then show "p = q" "s = t"
    using assms d by (auto simp: uniquely_read_def prod_eq_iff)
qed

lemma ctext_unfold:
  "ctext rt (PyList xs) = CHR ''['' # str_join '','' (map (ctext rt) xs) @ '']''"
  "ctext rt (PyDict d) = CHR ''{'' # str_join '','' (map (item_text rt) d) @ ''}''"
  by (simp_all add: item_text_def [abs_def] case_prod_unfold)

lemma ctext_read:
  assumes ff: "floats_faithful rt"
  shows "uniquely_read (ctext rt) v"
proof (induction v)
  case (PyStr u)
  have "PyStr u = w \<and> s = t" if "ctext rt (PyStr u) @ s = ctext rt w @ t" for w s t
  proof (cases w)
    case (PyStr u')
    then show ?thesis using that json_str_inj [of False u s u' t] by simp
  qed (use that compound_first [OF ff, of w "PyStr u" t s] in \<open>simp_all add: json_str_def\<close>)
  then show ?case using ctext_hd [OF ff, of "PyStr u"] unfolding uniquely_read_def by blast
next
  case (PyList xs)
  have "PyList xs = w \<and> s = t" if eq: "ctext rt (PyList xs) @ s = ctext rt w @ t" for w s t
  proof (cases w)
    case (PyList ys)
    then have "str_join '','' (map (ctext rt) xs) @ CHR '']'' # s = str_join '','' (map (ctext rt) ys) @ CHR '']'' # t"
      using eq by (simp only: ctext_unfold) simp
    from sequence_inj [OF _ _ _ _ this] show ?thesis
      using PyList.IH ctext_hd [OF ff] \<open>w = PyList ys\<close> by (simp add: is_delim_def)
  qed (use eq compound_first [OF ff, of w "PyList xs" t s] in \<open>simp_all add: json_str_def\<close>)
  then show ?case using ctext_hd [OF ff, of "PyList xs"] unfolding uniquely_read_def by blast
next
  case (PyDict d)
  have items: "uniquely_read (item_text rt) p" if "p \<in> set d" for p
    by (rule item_text_read) (use PyDict.IH [OF that] in \<open>auto simp: snds.simps\<close>)
  have hd: "item_text rt p \<noteq> [] \<and> \<not> is_delim (hd (item_text rt p))" for p
    by (simp add: item_text_def json_str_def is_delim_def)
  have "PyDict d = w \<and> s = t" if eq: "ctext rt (PyDict d) @ s = ctext rt w @ t" for w s t
  proof (cases w)
    case (PyDict e)
    then have "str_join '','' (map (item_text rt) d) @ CHR ''}'' # s = str_join '','' (map (item_text rt) e) @ CHR ''}'' # t"
      using eq by (simp only: ctext_unfold) simp
    from sequence_inj [OF items _ _ hd this] show ?thesis
      using \<open>w = PyDict e\<close> by (simp add: is_delim_def)
  qed (use eq compound_first [OF ff, of w "PyDict d" t s] in \<open>simp_all add: json_str_def\<close>)
  then show ?case using ctext_hd [OF ff, of "PyDict d"] unfolding uniquely_read_def by blast
qed (use atomic_text_inj [OF ff] atomic_text [OF ff] token_split compound_first [OF ff] ctext_hd [OF ff]
     in \<open>(simp only: uniquely_read_def, metis atomic.simps)+\<close>)

lemma canonical_json_inj:
  assumes "floats_faithful rt" and "canonical_json rt v = canonical_json rt w"
  shows "json_norm v = json_norm w"
  using ctext_read [OF assms(1), of "json_norm v"] assms(2)
  unfolding canonical_json_plain uniquely_read_def delimited_def by (metis append_Nil2)

text \<open>An interpreter whose floats print as a quotient, for the closed examples.\<close>

definition quotient_repr :: "pyfloat \<Rightarrow> string" where
  "quotient_repr f = (case f of
      Fin q \<Rightarrow> int_str (fst (quotient_of q)) @ ''.'' @ int_str (snd (quotient_of q)) | _ \<Rightarrow> [])"

definition quotient_rt :: pyrt where
  "quotient_rt = sample_rt\<lparr>float_repr := quotient_repr\<rparr>"

lemma floats_faithful_quotient_rt: "floats_faithful quotient_rt"
proof -
  have split: "int_str a @ CHR ''.'' # s = int_str b @ CHR ''.'' # t \<Longrightarrow> a = b \<and> s = t" for a b s t
  proof -
    assume eq: "int_str a @ CHR ''.'' # s = int_str b @ CHR ''.'' # t"
    have tw: "takeWhile (\<lambda>c. c \<noteq> CHR ''.'') (int_str i @ CHR ''.'' # r) = int_str i" for i r
      using int_str_chars [of i] by (auto simp: takeWhile_append list_all_iff is_digit_def)
    have "int_str a = int_str b" using tw [of a s] tw [of b t] eq by simp
    with eq int_str_inj show ?thesis by auto
  qed
  have "p = q" if "quotient_repr (Fin p) = quotient_repr (Fin q)" for p q
  proof -
    have "fst (quotient_of p) = fst (quotient_of q)
        \<and> int_str (snd (quotient_of p)) = int_str (snd (quotient_of q))"
      by (rule split) (use that in \<open>simp add: quotient_repr_def\<close>)
    then have "quotient_of p = quotient_of q"
      using int_str_inj by (simp add: prod_eq_iff)
    then show ?thesis by (rule quotient_of_inject)
  qed
  moreover have "list_all float_char (quotient_repr (Fin q))" for q
  proof -
    have "list_all float_char (int_str i)" for i
      by (rule list.pred_mono_strong [OF conjunct2 [OF int_str_chars]]) (auto simp: float_char_def)
    then show ?thesis by (simp add: quotient_repr_def float_char_def)
  qed
  ultimately show ?thesis
    by (auto simp: floats_faithful_def quotient_rt_def quotient_repr_def)
qed

text \<open>
  C38: the canonical text is a faithful serialisation: two payloads have the same text exactly when
  they are the same value up to the order of dictionary keys at every level.  Bools, integers, floats
  and strings never collide, and no string content can imitate the structure around it.
\<close>

theorem canonical_json_iff:
  assumes "floats_faithful rt"
  shows "canonical_json rt v = canonical_json rt w \<longleftrightarrow> json_norm v = json_norm w"
  using canonical_json_inj [OF assms] by (auto simp: canonical_json_plain)

theorem canonical_json_iff_witness:
  "canonical_json quotient_rt (PyDict [(''b'', PyStr ''1''), (''a'', PyInt 1)])
     = canonical_json quotient_rt (PyDict [(''a'', PyInt 1), (''b'', PyStr ''1'')])
   \<and> canonical_json quotient_rt (PyDict [(''a'', PyStr ''1'')]) \<noteq> canonical_json quotient_rt (PyDict [(''a'', PyInt 1)])"
  unfolding canonical_json_iff [OF floats_faithful_quotient_rt] by simp

text \<open>
  approval binding: if two action payloads have the same \<open>action_args_hash\<close>, then either verb and
  arguments agree (the arguments up to key order), or the two canonical texts are different and are an
  explicit collision of the hash function.
\<close>

theorem action_args_hash_binds:
  assumes "floats_faithful rt" and "action_args_hash rt sha verb args = action_args_hash rt sha verb' args'"
  shows "verb = verb' \<and> norm_dict args = norm_dict args'
    \<or> (let s = canonical_json rt (PyDict [(''verb'', PyStr verb), (''args'', PyDict args)]);
           t = canonical_json rt (PyDict [(''verb'', PyStr verb'), (''args'', PyDict args')])
       in s \<noteq> t \<and> sha s = sha t)"
proof -
  have "verb = verb' \<and> norm_dict args = norm_dict args'"
    if "canonical_json rt (PyDict [(''verb'', PyStr verb), (''args'', PyDict args)])
      = canonical_json rt (PyDict [(''verb'', PyStr verb'), (''args'', PyDict args')])"
    using canonical_json_inj [OF assms(1) that] by (simp add: norm_dict_def)
  then show ?thesis using assms(2) by (auto simp: action_args_hash_def Let_def)
qed

theorem action_args_hash_binds_witness:
  "norm_dict [(''x'', PyInt 1), (''y'', PyInt 2)] = norm_dict [(''y'', PyInt 2), (''x'', PyInt 1)]"
proof -
  have "action_args_hash quotient_rt (\<lambda>s. s) ''move'' [(''x'', PyInt 1), (''y'', PyInt 2)]
      = action_args_hash quotient_rt (\<lambda>s. s) ''move'' [(''y'', PyInt 2), (''x'', PyInt 1)]"
    by (simp add: action_args_hash_def canonical_json_def)
  from action_args_hash_binds [OF floats_faithful_quotient_rt this] show ?thesis
    by (auto simp: Let_def)
qed

lemma action_args_hash_perm:
  assumes "distinct (map fst d)" "set d = set e" "distinct (map fst e)"
  shows "action_args_hash rt sha verb d = action_args_hash rt sha verb e"
  using norm_dict_perm [OF assms]
  by (simp add: action_args_hash_def canonical_json_plain norm_dict_def)

end
