(* ===== verification/Models.thy ===== *)
theory Models
  imports Prelude
begin

text \<open>
  \<open>wallee_v6/wallee_v6/models.py\<close>: the data contracts (classes as records, enumerations as
  datatypes) and the helpers that read an action id.  A field declared \<open>JsonDict\<close> or
  \<open>dict[str, Scalar]\<close> is a \<open>dict\<close>; pydantic's own type checks are not modelled, the validators
  written in the source are.
\<close>

section \<open>Enumerations\<close>

datatype hazard_class = LOW | MEDIUM | HIGH

fun hazard_value :: "hazard_class \<Rightarrow> string" where
  "hazard_value LOW = ''low''"
| "hazard_value MEDIUM = ''medium''"
| "hazard_value HIGH = ''high''"

datatype run_status =
    PROPOSED | WAITING_APPROVAL | AUTHORIZED | DISPATCHED | DONE | FAILED | ABORTED | REPLAN_REQUIRED | UNKNOWN

fun status_value :: "run_status \<Rightarrow> string" where
  "status_value PROPOSED = ''PROPOSED''"
| "status_value WAITING_APPROVAL = ''WAITING_APPROVAL''"
| "status_value AUTHORIZED = ''AUTHORIZED''"
| "status_value DISPATCHED = ''DISPATCHED''"
| "status_value DONE = ''DONE''"
| "status_value FAILED = ''FAILED''"
| "status_value ABORTED = ''ABORTED''"
| "status_value REPLAN_REQUIRED = ''REPLAN_REQUIRED''"
| "status_value UNKNOWN = ''UNKNOWN''"

lemma status_value_inj [simp]: "status_value s = status_value t \<longleftrightarrow> s = t"
  by (cases s; cases t) simp_all

text \<open>\<open>ExecJournalStatus\<close> and the four outcomes of \<open>ExecutionResult\<close>.\<close>

datatype journal_status = IN_FLIGHT | SUCCESS | JFAILED | EXPIRED

datatype exec_outcome = Success | Failed | Expired | InFlight

section \<open>Records\<close>

record device_summary =
  ds_device_id :: string
  ds_display_name :: string
  ds_category :: string
  ds_mode :: string
  ds_health :: string
  ds_summary :: string

record resource_state =
  rs_id :: string
  rs_kind :: string
  rs_owner :: string
  rs_state :: string
  rs_attributes :: dict

record delta =
  dl_device_id :: string
  dl_fact :: string
  dl_old :: pyval
  dl_new :: pyval
  dl_note :: string

record normalized_state =
  ns_summary :: device_summary
  ns_facts :: dict
  ns_resources :: "resource_state list"
  ns_blockers :: "string list"

record legal_action =
  la_action_id :: string
  la_verb :: string
  la_description :: string
  la_owner_pack :: string
  la_execute_ref :: string
  la_args :: dict
  la_required_locks :: "string list"
  la_hazard_class :: hazard_class
  la_approval_required :: bool
  la_preconditions :: pyval
  la_verify :: pyval
  la_expected_delta :: "pyval list"
  la_target_device :: "string option"
  la_rank_hint :: int

record compilation_context =
  cc_compiled_at :: string
  cc_compiled_ts_ms :: int
  cc_whiteboard_sequence :: nat
  cc_live_state_summary :: dict
  cc_raw_snapshot :: dict

record world_packet =
  wp_goal :: string
  wp_device_summaries :: "device_summary list"
  wp_facts :: dict
  wp_resources :: "resource_state list"
  wp_blockers :: "string list"
  wp_deltas :: "delta list"
  wp_frontier :: "legal_action list"
  wp_last_result :: dict
  wp_recent_results :: "dict list"
  wp_pending_human :: "string list"
  wp_compilation :: "compilation_context option"
  wp_prompt_frontier_limit :: "int option"

datatype decision = NO_ACTION | EXECUTE | CALL_HUMAN

fun decision_value :: "decision \<Rightarrow> string" where
  "decision_value NO_ACTION = ''NO_ACTION''"
| "decision_value EXECUTE = ''EXECUTE''"
| "decision_value CALL_HUMAN = ''CALL_HUMAN''"

record tuning_choice =
  tc_family :: string
  tc_direction :: string
  tc_magnitude :: string

record plan_ir =
  pi_decision :: decision
  pi_sequence :: "string list"
  pi_why :: string
  pi_call_human_message :: "string option"
  pi_tuning_choice :: "tuning_choice option"

record plan_record =
  pr_plan_id :: string
  pr_run_scope :: "string option"
  pr_goal :: string
  pr_world_packet :: dict
  pr_world_compilation :: dict
  pr_plan_ir :: dict
  pr_created_ts_ms :: int

record action_run =
  ar_action_run_id :: string
  ar_plan_id :: string
  ar_run_scope :: "string option"
  ar_action_id :: string
  ar_verb :: string
  ar_owner_pack :: string
  ar_args :: dict
  ar_args_hash :: string
  ar_idempotency_key :: string
  ar_required_locks :: "string list"
  ar_status :: run_status
  ar_hazard_class :: hazard_class
  ar_verify :: pyval
  ar_expected_delta :: "pyval list"
  ar_target_device :: "string option"
  ar_created_ts_ms :: int
  ar_updated_ts_ms :: int
  ar_result :: "dict option"
  ar_error :: "dict option"

record journal_entry =
  je_idempotency_key :: string
  je_action_run_id :: string
  je_verb :: string
  je_args_hash :: string
  je_exec_state :: journal_status
  je_started_mono_ms :: int
  je_ended_mono_ms :: "int option"
  je_result :: "dict option"
  je_error :: "dict option"

record exec_result =
  er_status :: exec_outcome
  er_result :: dict
  er_error :: "dict option"

datatype approval_decision = APPROVE | REJECT

record approval_record =
  ap_approval_id :: string
  ap_action_run_id :: string
  ap_args_hash :: string
  ap_approved_by :: string
  ap_decision :: approval_decision
  ap_created_ts_ms :: int
  ap_expires_ts_ms :: int

section \<open>Plans\<close>

text \<open>\<open>PlanIR(...)\<close>: the validator of \<open>sequence\<close> runs on construction and raises.\<close>

definition validate_sequence :: "string list \<Rightarrow> pyexc + string list" where
  "validate_sequence sequence =
     (if length sequence > 3 then Inl (ValueError ''plan horizon exceeds 3 actions'')
      else if card (set sequence) \<noteq> length sequence
        then Inl (ValueError ''sequence contains duplicate action IDs'')
      else Inr sequence)"

definition mk_plan ::
    "decision \<Rightarrow> string list \<Rightarrow> string \<Rightarrow> string option \<Rightarrow> tuning_choice option \<Rightarrow> pyexc + plan_ir" where
  "mk_plan decision sequence why message choice =
     bindR (validate_sequence sequence) (\<lambda>sequence.
       Inr \<lparr>pi_decision = decision, pi_sequence = sequence, pi_why = why,
            pi_call_human_message = message, pi_tuning_choice = choice\<rparr>)"

text \<open>A plan with no sequence and no choice, which the source builds in many places.\<close>

definition no_action_plan :: "string \<Rightarrow> plan_ir" where
  "no_action_plan why = \<lparr>pi_decision = NO_ACTION, pi_sequence = [], pi_why = why,
     pi_call_human_message = None, pi_tuning_choice = None\<rparr>"

definition plan_ok :: "plan_ir \<Rightarrow> bool" where
  "plan_ok p \<longleftrightarrow> length (pi_sequence p) \<le> 3 \<and> distinct (pi_sequence p)"

lemma validate_sequence_iff: "validate_sequence xs = Inr ys \<longleftrightarrow> length xs \<le> 3 \<and> distinct xs \<and> ys = xs"
  by (auto simp: validate_sequence_def card_distinct distinct_card)

lemma mk_plan_ok: "mk_plan d xs w m c = Inr p \<Longrightarrow> plan_ok p"
  by (auto simp: mk_plan_def bindR_eq_Inr validate_sequence_iff plan_ok_def)

lemma no_action_plan_ok [simp]: "plan_ok (no_action_plan why)"
  by (simp add: plan_ok_def no_action_plan_def)

definition choice_dump :: "tuning_choice option \<Rightarrow> pyval" where
  "choice_dump c = (case c of None \<Rightarrow> PyNone
    | Some c \<Rightarrow> PyDict [(''family'', PyStr (tc_family c)), (''direction'', PyStr (tc_direction c)),
        (''magnitude'', PyStr (tc_magnitude c))])"

definition plan_dump :: "plan_ir \<Rightarrow> dict" where
  "plan_dump p = [(''decision'', PyStr (decision_value (pi_decision p))),
     (''sequence'', str_list (pi_sequence p)), (''why'', PyStr (pi_why p)),
     (''call_human_message'', opt_str (pi_call_human_message p)),
     (''tuning_choice'', choice_dump (pi_tuning_choice p))]"

definition summary_dump :: "device_summary \<Rightarrow> pyval" where
  "summary_dump s = PyDict [(''device_id'', PyStr (ds_device_id s)), (''display_name'', PyStr (ds_display_name s)),
     (''category'', PyStr (ds_category s)), (''mode'', PyStr (ds_mode s)), (''health'', PyStr (ds_health s)),
     (''summary'', PyStr (ds_summary s))]"

definition resource_dump :: "resource_state \<Rightarrow> pyval" where
  "resource_dump r = PyDict [(''id'', PyStr (rs_id r)), (''kind'', PyStr (rs_kind r)), (''owner'', PyStr (rs_owner r)),
     (''state'', PyStr (rs_state r)), (''attributes'', PyDict (rs_attributes r))]"

definition delta_dump :: "delta \<Rightarrow> pyval" where
  "delta_dump d = PyDict [(''device_id'', PyStr (dl_device_id d)), (''fact'', PyStr (dl_fact d)), (''old'', dl_old d),
     (''new'', dl_new d), (''note'', PyStr (dl_note d))]"

definition compilation_dump :: "compilation_context \<Rightarrow> dict" where
  "compilation_dump c = [(''compiled_at'', PyStr (cc_compiled_at c)), (''compiled_ts_ms'', PyInt (cc_compiled_ts_ms c)),
     (''whiteboard_sequence'', PyInt (int (cc_whiteboard_sequence c))),
     (''live_state_summary'', PyDict (cc_live_state_summary c)), (''raw_snapshot'', PyDict (cc_raw_snapshot c))]"

section \<open>Legal actions\<close>

text \<open>The default of each optional field, for building an action.\<close>

definition base_action :: "string \<Rightarrow> string \<Rightarrow> string \<Rightarrow> string \<Rightarrow> string \<Rightarrow> legal_action" where
  "base_action action_id verb description owner execute_ref =
     \<lparr>la_action_id = action_id, la_verb = verb, la_description = description, la_owner_pack = owner,
      la_execute_ref = execute_ref, la_args = [], la_required_locks = [], la_hazard_class = LOW,
      la_approval_required = False, la_preconditions = PyDict [(''all'', PyList [])], la_verify = PyNone,
      la_expected_delta = [], la_target_device = None, la_rank_hint = 100\<rparr>"

definition action_prompt_view :: "legal_action \<Rightarrow> pyval" where
  "action_prompt_view a = PyDict [(''id'', PyStr (la_action_id a)), (''verb'', PyStr (la_verb a)),
     (''description'', PyStr (la_description a)), (''args'', PyDict (la_args a)),
     (''target_device'', opt_str (la_target_device a)),
     (''hazard_class'', PyStr (hazard_value (la_hazard_class a))),
     (''approval_required'', PyBool (la_approval_required a)),
     (''expected_delta'', PyList (la_expected_delta a))]"

section \<open>Reading an action id\<close>

definition action_family_from_id :: "string \<Rightarrow> string option" where
  "action_family_from_id action_id =
     (let text = str_upper action_id in
      if contains ''_TRIM_SPEED_'' text then Some ''speed''
      else if contains ''_TRIM_FLOW_'' text then Some ''flow''
      else if contains ''_TRIM_NOZZLE_'' text then Some ''nozzle''
      else if contains ''_TRIM_BED_'' text then Some ''bed''
      else if contains ''_TRIM_PRESSURE_ADVANCE_'' text then Some ''pressure_advance''
      else if contains ''_TRIM_ACCEL_'' text then Some ''accel''
      else None)"

definition action_direction_from_id :: "string \<Rightarrow> string option" where
  "action_direction_from_id action_id =
     (let text = str_upper action_id in
      if contains ''_DOWN_'' text then Some ''down''
      else if contains ''_UP_'' text then Some ''up''
      else None)"

definition action_magnitude_from_id :: "string \<Rightarrow> string option" where
  "action_magnitude_from_id action_id =
     (let text = str_upper action_id in
      if contains ''_BIG'' text then Some ''big''
      else if contains ''_SMALL'' text then Some ''small''
      else None)"

definition is_tuning_action :: "legal_action \<Rightarrow> bool" where
  "is_tuning_action a \<longleftrightarrow> action_family_from_id (la_action_id a) \<noteq> None"

definition hidden_tuning_families :: "string list" where
  "hidden_tuning_families = [''accel'']"

definition tuning_family_summary :: "string \<Rightarrow> string" where
  "tuning_family_summary family =
     (if family = ''speed'' then ''Adjust print motion rate.''
      else if family = ''flow'' then ''Adjust commanded extrusion amount.''
      else if family = ''nozzle'' then ''Adjust nozzle target temperature.''
      else if family = ''bed'' then ''Adjust bed target temperature.''
      else if family = ''pressure_advance'' then ''Adjust how aggressively the printer bleeds off leftover nozzle pressure during starts, stops, and direction changes.''
      else ''Adjust how gently or aggressively the printer pulls away from features and changes speed.'')"

text \<open>One entry of the tuning action space: the allowed directions and magnitudes of a family.\<close>

record tuning_entry =
  te_directions :: "string list"
  te_magnitudes :: "string list"

type_synonym tuning_space = "(string \<times> tuning_entry) list"

definition append_new :: "'a \<Rightarrow> 'a list \<Rightarrow> 'a list" where
  "append_new x xs = (if x \<in> set xs then xs else xs @ [x])"

definition tuning_space_step :: "tuning_space \<Rightarrow> legal_action \<Rightarrow> tuning_space" where
  "tuning_space_step space action =
     (case (action_family_from_id (la_action_id action), action_direction_from_id (la_action_id action),
            action_magnitude_from_id (la_action_id action)) of
        (Some family, Some direction, Some magnitude) \<Rightarrow>
          if family \<in> set hidden_tuning_families then space
          else (let entry = dget_or space family \<lparr>te_directions = [], te_magnitudes = []\<rparr>
                in dset family \<lparr>te_directions = append_new direction (te_directions entry),
                                te_magnitudes = append_new magnitude (te_magnitudes entry)\<rparr> space)
      | _ \<Rightarrow> space)"

definition planner_tuning_action_space :: "legal_action list \<Rightarrow> tuning_space" where
  "planner_tuning_action_space frontier = foldl tuning_space_step [] frontier"

definition tuning_space_dump :: "tuning_space \<Rightarrow> dict" where
  "tuning_space_dump space = map (\<lambda>(family, entry). (family,
     PyDict [(''family'', PyStr family), (''summary'', PyStr (tuning_family_summary family)),
       (''allowed_directions'', str_list (te_directions entry)),
       (''allowed_magnitudes'', str_list (te_magnitudes entry))])) space"

section \<open>Reading a fact\<close>

definition split_blockers :: "pyrt \<Rightarrow> pyval \<Rightarrow> string list" where
  "split_blockers rt value =
     (if value = PyNone then []
      else let text = str_strip (py_str rt value) in
        if text = [] then [] else filter (\<lambda>item. item \<noteq> []) (split_on (CHR ''|'') text))"

definition string_or_none :: "pyrt \<Rightarrow> pyval \<Rightarrow> string option" where
  "string_or_none rt value = (if value = PyNone then None else nonempty (str_strip (py_str rt value)))"

definition float_or_none :: "pyrt \<Rightarrow> pyval \<Rightarrow> pyfloat option" where
  "float_or_none rt value =
     (if value = PyNone \<or> value = PyStr [] then None
      else case py_float rt value of Inl _ \<Rightarrow> None | Inr f \<Rightarrow> Some f)"

definition json_from_fact :: "pyrt \<Rightarrow> pyval \<Rightarrow> pyval" where
  "json_from_fact rt value = (case value of
      PyStr s \<Rightarrow> (let text = str_strip s in
        if text = [] then PyNone
        else case json_loads rt text of None \<Rightarrow> PyNone | Some v \<Rightarrow> v)
    | _ \<Rightarrow> PyNone)"


end
