(* ===== verification/PlannerSignals.thy ===== *)
theory PlannerSignals
  imports Ids Models
begin

text \<open>
  The planner-facing half of \<open>wallee_v6/wallee_v6/models.py\<close>: what \<open>WorldPacket.prompt_view\<close> derives from
  the facts and from the last results.  A function that reads the wall clock takes the reading as an
  argument (\<open>now_ms\<close>); a function that can raise on malformed stored results returns a sum.  Results
  that other functions read again are records, with a \<open>dump\<close> to the dictionary the source builds.
\<close>

section \<open>Normalising words\<close>

definition normalize_to :: "pyrt \<Rightarrow> string list \<Rightarrow> pyval \<Rightarrow> string option" where
  "normalize_to rt allowed value = (case string_or_none rt value of
      None \<Rightarrow> None | Some text \<Rightarrow> if text \<in> set allowed then Some text else None)"

definition normalize_comparison_delta :: "pyrt \<Rightarrow> pyval \<Rightarrow> string option" where
  "normalize_comparison_delta rt = normalize_to rt [''better'', ''same'', ''worse'', ''unknown'']"

definition normalize_strength :: "pyrt \<Rightarrow> pyval \<Rightarrow> string option" where
  "normalize_strength rt = normalize_to rt [''weak'', ''moderate'', ''strong'']"

definition normalize_issue_level :: "pyrt \<Rightarrow> pyval \<Rightarrow> string option" where
  "normalize_issue_level rt = normalize_to rt [''low'', ''medium'', ''high'']"

definition vision_issue_level :: "string list \<Rightarrow> string option" where
  "vision_issue_level finding_types =
     (if finding_types = [] then None
      else if ''spaghetti'' \<in> set finding_types \<or> ''stringing'' \<in> set finding_types \<or> ''blob'' \<in> set finding_types
        then Some ''high''
      else Some ''low'')"

definition issue_level_rank :: "string option \<Rightarrow> int" where
  "issue_level_rank v = (if v = Some ''low'' then 0 else if v = Some ''medium'' then 1
     else if v = Some ''high'' then 2 else -1)"

section \<open>Actions by their text\<close>

definition action_family :: "string \<Rightarrow> string \<Rightarrow> string" where
  "action_family action_id verb =
     (let text = str_upper (action_id @ '' '' @ verb) in
      if contains ''PRESSURE_ADVANCE'' text then ''pressure_advance''
      else if contains ''_ACCEL_'' text \<or> contains ''PRINT_ACCEL'' text \<or> contains ''ACCELERATION'' text then ''accel''
      else if contains ''SPEED'' text then ''speed''
      else if contains ''FLOW'' text then ''flow''
      else if contains ''NOZZLE'' text then ''nozzle''
      else if contains ''BED'' text then ''bed''
      else ''other'')"

definition action_direction :: "string \<Rightarrow> string option" where
  "action_direction action_id =
     (let text = str_upper action_id in
      if contains ''RESTORE'' text then Some ''restore''
      else if contains ''_DOWN_'' text then Some ''down''
      else if contains ''_UP_'' text then Some ''up''
      else None)"

definition action_size :: "string \<Rightarrow> string option" where
  "action_size action_id =
     (let text = str_upper action_id in
      if contains ''RESTORE'' text then Some ''restore''
      else if contains ''_BIG'' text then Some ''big''
      else if contains ''_SMALL'' text then Some ''small''
      else None)"

section \<open>Vision\<close>

record vision_signal =
  vs_usable :: bool
  vs_summary :: "string option"
  vs_finding_types :: "string list"
  vs_strength :: "string option"
  vs_issue_level :: "string option"

definition planner_vision_signal :: "pyrt \<Rightarrow> dict \<Rightarrow> vision_signal" where
  "planner_vision_signal rt facts =
     (let summary = string_or_none rt (por (pget facts ''printer_1.vision_signal_summary'')
            (pget facts ''printer_1.vision_advisory_summary''));
          finding_types = split_blockers rt (por (pget facts ''printer_1.vision_signal_finding_types'')
            (pget facts ''printer_1.vision_advisory_finding_types''));
          strength = normalize_strength rt (por (pget facts ''printer_1.vision_signal_strength'')
            (pget facts ''printer_1.vision_advisory_strength''));
          usable = (truthy (dget_or facts ''printer_1.nozzle_cam_usable'' (PyBool False)) \<and> summary \<noteq> None);
          level = normalize_issue_level rt (por (pget facts ''printer_1.vision_signal_issue_level'')
            (pget facts ''printer_1.vision_advisory_issue_level''));
          issue_level = (if level = None \<and> usable then vision_issue_level finding_types else level)
      in \<lparr>vs_usable = usable, vs_summary = (if usable then summary else None),
          vs_finding_types = (if usable then finding_types else []),
          vs_strength = (if usable then strength else None),
          vs_issue_level = (if usable then issue_level else None)\<rparr>)"

definition vision_dump :: "vision_signal \<Rightarrow> dict" where
  "vision_dump s = [(''usable'', PyBool (vs_usable s)), (''summary'', opt_str (vs_summary s)),
     (''finding_types'', str_list (vs_finding_types s)), (''strength'', opt_str (vs_strength s)),
     (''issue_level'', opt_str (vs_issue_level s))]"

text \<open>The signal stored with a result; the early returns lack the comparison keys, which then read as \<open>None\<close>.\<close>

record result_signal =
  rv_usable :: bool
  rv_finding_types :: "string list"
  rv_strength :: "string option"
  rv_issue_level :: "string option"
  rv_comparison_delta :: "string option"
  rv_comparison_confidence :: "string option"
  rv_comparison_summary :: "string option"

definition no_result_signal :: result_signal where
  "no_result_signal = \<lparr>rv_usable = False, rv_finding_types = [], rv_strength = None, rv_issue_level = None,
     rv_comparison_delta = None, rv_comparison_confidence = None, rv_comparison_summary = None\<rparr>"

definition result_vision_signal :: "pyrt \<Rightarrow> pyval \<Rightarrow> result_signal" where
  "result_vision_signal rt result = (case result of
      PyDict r \<Rightarrow> (case por (pget r ''post_action_vision_signal'') (PyDict []) of
          PyDict payload \<Rightarrow>
            (let finding_types = (case pget payload ''finding_types'' of PyList xs \<Rightarrow> xs | _ \<Rightarrow> [])
             in \<lparr>rv_usable = (truthy (pget payload ''usable'') \<and> finding_types \<noteq> []),
                 rv_finding_types = filter (\<lambda>s. str_strip s \<noteq> []) (map (py_str rt) finding_types),
                 rv_strength = normalize_strength rt (pget payload ''strength''),
                 rv_issue_level = normalize_issue_level rt (pget payload ''issue_level''),
                 rv_comparison_delta = normalize_comparison_delta rt (pget payload ''comparison_delta''),
                 rv_comparison_confidence = normalize_strength rt (pget payload ''comparison_confidence''),
                 rv_comparison_summary = string_or_none rt (pget payload ''comparison_summary'')\<rparr>)
        | _ \<Rightarrow> no_result_signal)
    | _ \<Rightarrow> no_result_signal)"

section \<open>Time\<close>

definition ts_ms_to_iso :: "pyrt \<Rightarrow> pyval \<Rightarrow> string" where
  "ts_ms_to_iso rt v = (case as_int v of None \<Rightarrow> [] | Some ms \<Rightarrow> ms_to_iso rt ms)"

definition seconds_between :: "pyrt \<Rightarrow> int \<Rightarrow> int \<Rightarrow> pyfloat" where
  "seconds_between rt now_ms then_ms =
     float_max (Fin 0) (round_half_even rt 3 (Fin (of_int (now_ms - then_ms) / 1000)))"

text \<open>\<open>iso_to_ms\<close> is \<open>fromisoformat(value.replace("Z", "+00:00"))\<close> as epoch milliseconds, or \<open>None\<close>.\<close>

definition seconds_since_iso :: "pyrt \<Rightarrow> string option \<Rightarrow> int \<Rightarrow> pyfloat option" where
  "seconds_since_iso rt value now_ms = (case value of
      None \<Rightarrow> None
    | Some s \<Rightarrow> if s = [] then None
        else (case iso_to_ms rt s of None \<Rightarrow> None | Some ms \<Rightarrow> Some (seconds_between rt now_ms ms)))"

record freshness_signal =
  fr_now_at :: string
  fr_raw_observed_at :: "string option"
  fr_since_raw :: "pyfloat option"
  fr_vision_observed_at :: "string option"
  fr_since_vision :: "pyfloat option"
  fr_camera_last_capture_at :: "string option"
  fr_camera_frame_age_s :: "pyfloat option"
  fr_vision_usable :: bool

definition planner_freshness :: "pyrt \<Rightarrow> int \<Rightarrow> dict \<Rightarrow> freshness_signal" where
  "planner_freshness rt now_ms facts =
     (let raw_observed_at = string_or_none rt (por (pget facts ''printer_1.raw_observed_at'')
            (pget facts ''printer_1.raw.observed_at''));
          vision_observed_at = string_or_none rt (pget facts ''printer_1.vision_observed_at'');
          age = float_or_none rt (pget facts ''printer_1.nozzle_cam_frame_age_s'');
          vision_usable = (truthy (dget_or facts ''printer_1.nozzle_cam_usable'' (PyBool False)) \<and>
            string_or_none rt (por (pget facts ''printer_1.vision_signal_summary'')
              (pget facts ''printer_1.vision_advisory_summary'')) \<noteq> None)
      in \<lparr>fr_now_at = ms_to_iso rt now_ms, fr_raw_observed_at = raw_observed_at,
          fr_since_raw = seconds_since_iso rt raw_observed_at now_ms,
          fr_vision_observed_at = vision_observed_at,
          fr_since_vision = seconds_since_iso rt vision_observed_at now_ms,
          fr_camera_last_capture_at = string_or_none rt (pget facts ''printer_1.nozzle_cam_last_capture_at''),
          fr_camera_frame_age_s = map_option (round_half_even rt 3) age,
          fr_vision_usable = vision_usable\<rparr>)"

definition freshness_dump :: "freshness_signal \<Rightarrow> dict" where
  "freshness_dump f = [(''now_at'', PyStr (fr_now_at f)), (''raw_observed_at'', opt_str (fr_raw_observed_at f)),
     (''seconds_since_raw_observation'', opt_float (fr_since_raw f)),
     (''vision_observed_at'', opt_str (fr_vision_observed_at f)),
     (''seconds_since_vision_observation'', opt_float (fr_since_vision f)),
     (''camera_last_capture_at'', opt_str (fr_camera_last_capture_at f)),
     (''camera_frame_age_s'', opt_float (fr_camera_frame_age_s f)),
     (''vision_usable'', PyBool (fr_vision_usable f))]"

section \<open>The settle window\<close>

definition settle_window_for_family :: "pyrt \<Rightarrow> dict \<Rightarrow> string option \<Rightarrow> pyfloat" where
  "settle_window_for_family rt facts family =
     (if family = Some ''nozzle'' \<or> family = Some ''bed''
        then float_or (float_or_none rt (pget facts ''printer_1.thermal_tuning_settle_window_s'')) (Fin 60)
      else if family = Some ''pressure_advance''
        then float_or (float_or_none rt (pget facts ''printer_1.pressure_advance_tuning_settle_window_s'')) (Fin 45)
      else if family = Some ''accel''
        then float_or (float_or_none rt (pget facts ''printer_1.accel_tuning_settle_window_s'')) (Fin 45)
      else float_or (float_or_none rt (pget facts ''printer_1.tuning_settle_window_s'')) (Fin 25))"

definition fresh_strong_vision_for_cross_family_settle :: "pyrt \<Rightarrow> int \<Rightarrow> dict \<Rightarrow> bool" where
  "fresh_strong_vision_for_cross_family_settle rt now_ms facts =
     (let signal = planner_vision_signal rt facts;
          frame_age_s = fr_camera_frame_age_s (planner_freshness rt now_ms facts);
          interval_s = float_or (float_or_none rt (pget facts ''printer_1.vision_advisory_interval_s'')) (Fin 10);
          fresh_window_s = float_max (Fin 15) (float_scale (3/2) interval_s)
      in vs_usable signal \<and> vs_issue_level signal = Some ''high''
         \<and> vs_strength signal \<in> {Some ''moderate'', Some ''strong''}
         \<and> (case frame_age_s of None \<Rightarrow> False | Some age \<Rightarrow> float_le age fresh_window_s))"

definition tuning_families :: "string list" where
  "tuning_families = [''speed'', ''flow'', ''nozzle'', ''bed'', ''pressure_advance'', ''accel'']"

record settle_context =
  sc_active :: bool
  sc_family :: "string option"
  sc_action_id :: "string option"
  sc_window_s :: "pyfloat option"
  sc_remaining_s :: "pyfloat option"
  sc_cross_family_allows :: bool

definition planner_tuning_settle_context :: "pyrt \<Rightarrow> int \<Rightarrow> int \<Rightarrow> dict \<Rightarrow> dict \<Rightarrow> settle_context" where
  "planner_tuning_settle_context rt now_ms now_ms' facts last_result =
     (let action_id = text_of rt (pget last_result ''action_id'');
          family = (if action_id = [] then None
             else Some (action_family action_id (py_str rt (por (pget last_result ''verb'') (PyStr [])))));
          status = str_upper (text_of rt (pget last_result ''status''));
          window_s = settle_window_for_family rt facts family;
          since = as_int (pget last_result ''updated_ts_ms'')
      in case (family, since) of
           (Some fam, Some updated) \<Rightarrow>
             if fam \<in> set tuning_families \<and> status = ''DONE'' then
               (let remaining_s = float_max (Fin 0)
                      (round_half_even rt 3 (float_sub window_s (seconds_between rt now_ms updated)));
                    active = float_less (Fin 0) remaining_s
                in \<lparr>sc_active = active, sc_family = (if active then Some fam else None),
                    sc_action_id = (if active then Some action_id else None),
                    sc_window_s = (if active then Some window_s else None),
                    sc_remaining_s = (if active then Some remaining_s else None),
                    sc_cross_family_allows =
                      (active \<and> fresh_strong_vision_for_cross_family_settle rt now_ms' facts)\<rparr>)
             else \<lparr>sc_active = False, sc_family = None, sc_action_id = None, sc_window_s = None,
                   sc_remaining_s = None, sc_cross_family_allows = False\<rparr>
         | _ \<Rightarrow> \<lparr>sc_active = False, sc_family = None, sc_action_id = None, sc_window_s = None,
                 sc_remaining_s = None, sc_cross_family_allows = False\<rparr>)"

definition settle_dump :: "settle_context \<Rightarrow> dict" where
  "settle_dump s = [(''active'', PyBool (sc_active s)), (''family'', opt_str (sc_family s)),
     (''action_id'', opt_str (sc_action_id s)), (''window_s'', opt_float (sc_window_s s)),
     (''remaining_s'', opt_float (sc_remaining_s s)), (''blocks_same_family'', PyBool (sc_active s)),
     (''cross_family_requires_fresh_strong_signal'', PyBool (sc_active s)),
     (''cross_family_signal_allows_action'', PyBool (sc_cross_family_allows s))]"

section \<open>Blockers per family\<close>

definition raw_family_blockers :: "pyrt \<Rightarrow> dict \<Rightarrow> (string \<times> string list) list" where
  "raw_family_blockers rt facts =
     [(''speed'', split_blockers rt (pget facts ''printer_1.speed_autonomy_blockers'')),
      (''flow'', split_blockers rt (pget facts ''printer_1.flow_shadow_blockers'')),
      (''nozzle'', split_blockers rt (pget facts ''printer_1.nozzle_shadow_blockers'')),
      (''bed'', split_blockers rt (pget facts ''printer_1.bed_shadow_blockers'')),
      (''pressure_advance'', split_blockers rt (pget facts ''printer_1.pressure_advance_shadow_blockers'')),
      (''accel'', split_blockers rt (pget facts ''printer_1.accel_shadow_blockers''))]"

definition planner_family_blockers :: "pyrt \<Rightarrow> int \<Rightarrow> int \<Rightarrow> dict \<Rightarrow> dict \<Rightarrow> (string \<times> string list) list" where
  "planner_family_blockers rt now_ms now_ms' facts last_result =
     (let settle = planner_tuning_settle_context rt now_ms now_ms' facts last_result;
          blockers = (if sc_active settle
            then map (\<lambda>(family, bs).
                if sc_family settle = Some family then (family, bs @ [''same_family_settle_active''])
                else if \<not> sc_cross_family_allows settle
                  then (family, bs @ [''settle_waiting_for_fresh_strong_signal''])
                else (family, bs)) (raw_family_blockers rt facts)
            else raw_family_blockers rt facts)
      in filter (\<lambda>(family, _). family \<notin> set hidden_tuning_families) blockers)"

definition blockers_dump :: "(string \<times> string list) list \<Rightarrow> dict" where
  "blockers_dump bs = map (\<lambda>(family, xs). (family, str_list xs)) bs"

end
