(* ===== verification/PromptView.thy ===== *)
theory PromptView
  imports PlannerSignals
begin

text \<open>
  The rest of \<open>WorldPacket.prompt_view\<close> (\<open>wallee_v6/wallee_v6/models.py\<close>): notes on the last results,
  consequence of the last action, symptom feedback, notebook notes, filtered facts, and the view itself.
\<close>

section \<open>Notes on results\<close>

record result_note =
  rn_action_id :: string
  rn_family :: string
  rn_outcome :: string
  rn_summary :: string
  rn_reason_tags :: "string list"
  rn_observed_at :: string

definition last_result_summary :: "pyrt \<Rightarrow> string \<Rightarrow> string \<Rightarrow> pyval \<Rightarrow> pyval \<Rightarrow> string" where
  "last_result_summary rt action_id outcome result err =
     (let post_signal = result_vision_signal rt result in
      if outcome = ''verified_effect'' then
        (if rv_usable post_signal \<and> rv_finding_types post_signal \<noteq> [] then
           action_id @ '' produced a verified actuator change, but the post-action symptom signal still showed ''
           @ str_join '','' (rv_finding_types post_signal) @ '' (''
           @ (case rv_issue_level post_signal of None \<Rightarrow> ''unknown'' | Some l \<Rightarrow> l) @ '').''
         else action_id @ '' produced a verified effect.'')
      else if outcome = ''reset_restored'' then action_id @ '' restored the baseline.''
      else if outcome = ''verification_mismatch'' then action_id @ '' did not verify on supported surfaces.''
      else if outcome = ''suppressed'' then action_id @ '' was suppressed or aborted.''
      else if outcome = ''no_action'' then action_id @ '' resulted in no state change.''
      else if truthy err then action_id @ '' was blocked: '' @ take 160 (json_dumps rt err)
      else if truthy result then action_id @ '' completed with result '' @ take 160 (json_dumps rt result)
      else action_id @ '' completed with outcome '' @ outcome @ ''.'')"

text \<open>The outcome and the reason tags of one result, by its status; \<open>result.get\<close> raises unless it is a dictionary.\<close>

definition done_outcome :: "pyrt \<Rightarrow> string \<Rightarrow> pyval \<Rightarrow> pyexc + string \<times> string list" where
  "done_outcome rt action_id result =
     bindR (as_dict result) (\<lambda>r.
       let effect = py_str rt (por (pget r ''effect'') (PyStr []));
           base = (if starts_with ''noop'' effect then (''no_action'', [''noop''])
                   else if contains ''no_effect'' effect then (''verified_no_effect'', [''verified_no_effect''])
                   else if contains ''RESTORE'' action_id then (''reset_restored'', [''reset''])
                   else (''verified_effect'', [''verified'']));
           post_signal = result_vision_signal rt result;
           extra = (if rv_usable post_signal \<and> rv_finding_types post_signal \<noteq> []
                    then ''post_action_symptom_present''
                       # (if rv_issue_level post_signal \<in> {Some ''medium'', Some ''high''}
                          then [''post_action_not_cleared''] else [])
                    else [])
       in Inr (fst base, snd base @ extra))"

definition result_outcome :: "pyrt \<Rightarrow> string \<Rightarrow> string \<Rightarrow> pyval \<Rightarrow> pyval \<Rightarrow> pyexc + string \<times> string list" where
  "result_outcome rt status action_id result err =
     (if status = ''DONE'' then done_outcome rt action_id result
      else if status = ''FAILED'' then
        (let message = (if truthy err then json_dumps rt err else []) in
         if contains ''expected post-state'' message \<or> contains ''verify'' (str_lower message)
         then Inr (''verification_mismatch'', [''verification'']) else Inr (''blocked'', [''failed'']))
      else if status = ''REPLAN_REQUIRED'' then Inr (''blocked'', [''replan''])
      else if status = ''ABORTED'' then Inr (''suppressed'', [''aborted''])
      else Inr (''blocked'', []))"

definition planner_last_result_notes :: "pyrt \<Rightarrow> dict \<Rightarrow> pyexc + result_note option" where
  "planner_last_result_notes rt last_result =
     (let action_id = text_of rt (pget last_result ''action_id'');
          verb = text_of rt (pget last_result ''verb'');
          status = str_upper (text_of rt (pget last_result ''status''));
          result = por (pget last_result ''result'') (PyDict []);
          err = por (pget last_result ''error'') (PyDict [])
      in if last_result = [] \<or> action_id = [] then Inr None
         else bindR (result_outcome rt status action_id result err) (\<lambda>(outcome, reason_tags).
           Inr (Some \<lparr>rn_action_id = action_id, rn_family = action_family action_id verb, rn_outcome = outcome,
             rn_summary = last_result_summary rt action_id outcome result err,
             rn_reason_tags = reason_tags,
             rn_observed_at = ts_ms_to_iso rt (pget last_result ''updated_ts_ms'')\<rparr>)))"

definition note_dump :: "result_note \<Rightarrow> dict" where
  "note_dump n = [(''action_id'', PyStr (rn_action_id n)), (''family'', PyStr (rn_family n)),
     (''outcome'', PyStr (rn_outcome n)), (''summary'', PyStr (rn_summary n)),
     (''reason_tags'', str_list (rn_reason_tags n)), (''observed_at'', PyStr (rn_observed_at n))]"

definition notes_dump :: "result_note option \<Rightarrow> pyval" where
  "notes_dump n = PyList (case n of None \<Rightarrow> [] | Some n \<Rightarrow> [PyDict (note_dump n)])"

record temporal_context =
  tm_available :: bool
  tm_now_at :: string
  tm_action_id :: "string option"
  tm_family :: "string option"
  tm_status :: "string option"
  tm_outcome :: "string option"
  tm_summary :: "string option"
  tm_reason_tags :: "string list"
  tm_why :: "string option"
  tm_observed_at :: "string option"
  tm_seconds_since :: "pyfloat option"

definition planner_temporal_action_context :: "pyrt \<Rightarrow> int \<Rightarrow> dict \<Rightarrow> pyexc + temporal_context" where
  "planner_temporal_action_context rt now_ms last_result =
     (if last_result = [] then Inr \<lparr>tm_available = False, tm_now_at = ms_to_iso rt now_ms, tm_action_id = None,
        tm_family = None, tm_status = None, tm_outcome = None, tm_summary = None, tm_reason_tags = [],
        tm_why = None, tm_observed_at = None, tm_seconds_since = None\<rparr>
      else bindR (planner_last_result_notes rt last_result) (\<lambda>note.
        Inr \<lparr>tm_available = (note \<noteq> None), tm_now_at = ms_to_iso rt now_ms,
          tm_action_id = nonempty (text_of rt (pget last_result ''action_id'')),
          tm_family = map_option rn_family note,
          tm_status = nonempty (str_upper (text_of rt (pget last_result ''status''))),
          tm_outcome = map_option rn_outcome note, tm_summary = map_option rn_summary note,
          tm_reason_tags = (case note of None \<Rightarrow> [] | Some n \<Rightarrow> rn_reason_tags n),
          tm_why = nonempty (text_of rt (pget last_result ''plan_why'')),
          tm_observed_at = (case note of None \<Rightarrow> None | Some n \<Rightarrow> nonempty (rn_observed_at n)),
          tm_seconds_since = map_option (seconds_between rt now_ms) (as_int (pget last_result ''updated_ts_ms''))\<rparr>))"

definition temporal_dump :: "temporal_context \<Rightarrow> dict" where
  "temporal_dump t = [(''available'', PyBool (tm_available t)), (''now_at'', PyStr (tm_now_at t)),
     (''last_action_id'', opt_str (tm_action_id t)), (''last_action_family'', opt_str (tm_family t)),
     (''last_action_status'', opt_str (tm_status t)), (''last_action_outcome'', opt_str (tm_outcome t)),
     (''last_action_summary'', opt_str (tm_summary t)), (''last_action_reason_tags'', str_list (tm_reason_tags t)),
     (''last_action_why'', opt_str (tm_why t)), (''last_action_observed_at'', opt_str (tm_observed_at t)),
     (''seconds_since_last_action'', opt_float (tm_seconds_since t))]"

section \<open>Consequence of the last action\<close>

definition material_issue_types :: "string list \<Rightarrow> string list" where
  "material_issue_types issue_types = filter (\<lambda>item. item \<noteq> ''residue'') issue_types"

record consequence =
  aq_action_id :: "string option"
  aq_family :: "string option"
  aq_status :: "string option"
  aq_time_since :: "pyfloat option"
  aq_post_types :: "string list"
  aq_current_types :: "string list"
  aq_issue :: string
  aq_confidence :: "string option"
  aq_summary :: "string option"
  aq_compared_against :: "string option"
  aq_valid_for_escalation :: bool

definition planner_action_consequence :: "pyrt \<Rightarrow> int \<Rightarrow> dict \<Rightarrow> dict \<Rightarrow> pyexc + consequence" where
  "planner_action_consequence rt now_ms facts last_result =
     bindR (planner_temporal_action_context rt now_ms last_result) (\<lambda>temporal.
       let action_id = tm_action_id temporal;
           signal = result_vision_signal rt (por (pget last_result ''result'') (PyDict []));
           delta0 = rv_comparison_delta signal;
           confidence = rv_comparison_confidence signal;
           post = rv_finding_types signal;
           current = vs_finding_types (planner_vision_signal rt facts);
           comparable_issues = (set (material_issue_types post) \<inter> set (material_issue_types current) \<noteq> {});
           persisted = (delta0 = Some ''same'' \<or> delta0 = Some ''worse'');
           repeated_non_threat_only = (persisted \<and> \<not> comparable_issues);
           comparison_delta = (if repeated_non_threat_only then Some ''unknown'' else delta0)
       in Inr \<lparr>aq_action_id = action_id, aq_family = tm_family temporal, aq_status = tm_status temporal,
            aq_time_since = tm_seconds_since temporal, aq_post_types = post, aq_current_types = current,
            aq_issue = (case comparison_delta of None \<Rightarrow> ''unknown'' | Some d \<Rightarrow> d),
            aq_confidence = confidence,
            aq_summary = (if repeated_non_threat_only
              then Some ''Only non-threatening repeated residue was comparable; ignore it for escalation.''
              else case rv_comparison_summary signal of None \<Rightarrow> tm_summary temporal | Some s \<Rightarrow> Some s),
            aq_compared_against =
              (if comparison_delta \<in> {Some ''better'', Some ''same'', Some ''worse''} then action_id else None),
            aq_valid_for_escalation =
              (persisted \<and> confidence \<in> {Some ''moderate'', Some ''strong''} \<and> comparable_issues)\<rparr>)"

definition consequence_dump :: "consequence \<Rightarrow> dict" where
  "consequence_dump q = [(''available'', PyBool (aq_action_id q \<noteq> None)), (''action_id'', opt_str (aq_action_id q)),
     (''family'', opt_str (aq_family q)), (''status'', opt_str (aq_status q)),
     (''time_since_action_s'', opt_float (aq_time_since q)),
     (''post_action_issue_types'', str_list (aq_post_types q)),
     (''current_issue_types'', str_list (aq_current_types q)), (''issue'', PyStr (aq_issue q)),
     (''confidence'', opt_str (aq_confidence q)), (''summary'', opt_str (aq_summary q)),
     (''compared_against_action_id'', opt_str (aq_compared_against q)),
     (''valid_for_escalation'', PyBool (aq_valid_for_escalation q))]"

definition recent_family_action :: "pyrt \<Rightarrow> int \<Rightarrow> dict \<Rightarrow> pyexc + pyval list" where
  "recent_family_action rt now_ms item =
     (let action_id = text_of rt (pget item ''action_id'') in
      if action_id = [] then Inr []
      else bindR (planner_last_result_notes rt item) (\<lambda>note.
        let family = (case note of Some n \<Rightarrow> rn_family n
              | None \<Rightarrow> action_family action_id (py_str rt (por (pget item ''verb'') (PyStr []))));
            summary = (case note of Some n \<Rightarrow> rn_summary n
              | None \<Rightarrow> last_result_summary rt action_id ''blocked''
                  (por (pget item ''result'') (PyDict [])) (por (pget item ''error'') (PyDict [])))
        in Inr [PyDict [(''action_id'', PyStr action_id), (''family'', PyStr family),
          (''status'', PyStr (str_upper (text_of rt (pget item ''status'')))),
          (''outcome'', opt_str (map_option rn_outcome note)),
          (''direction'', opt_str (action_direction action_id)), (''size'', opt_str (action_size action_id)),
          (''summary'', PyStr summary),
          (''observed_at'', opt_str (case note of None \<Rightarrow> None | Some n \<Rightarrow> nonempty (rn_observed_at n))),
          (''seconds_since_action'',
            opt_float (map_option (seconds_between rt now_ms) (as_int (pget item ''updated_ts_ms''))))]]))"

definition planner_recent_family_actions :: "pyrt \<Rightarrow> int \<Rightarrow> dict list \<Rightarrow> pyexc + pyval" where
  "planner_recent_family_actions rt now_ms recent_results =
     bindR (mapR (recent_family_action rt now_ms) (take 3 recent_results)) (\<lambda>xs. Inr (PyList (concat xs)))"

section \<open>Baselines, trends, symptoms\<close>

definition cumulative_delta_entry :: "pyrt \<Rightarrow> pyval \<Rightarrow> pyval \<Rightarrow> string \<Rightarrow> pyval" where
  "cumulative_delta_entry rt current dflt unit =
     (let c = float_or_none rt current; d = float_or_none rt dflt;
          delta = (case (c, d) of (Some x, Some y) \<Rightarrow> Some (round_half_even rt 4 (float_sub x y)) | _ \<Rightarrow> None)
      in PyDict [(''current'', opt_float c), (''default'', opt_float d), (''delta'', opt_float delta),
           (''unit'', PyStr unit)])"

definition planner_cumulative_family_deltas :: "pyrt \<Rightarrow> dict \<Rightarrow> dict" where
  "planner_cumulative_family_deltas rt facts =
     filter (\<lambda>(family, _). family \<notin> set hidden_tuning_families)
      [(''speed'', cumulative_delta_entry rt (pget facts ''printer_1.speed_pct'')
          (pget facts ''printer_1.speed_default_pct'') ''pct''),
       (''flow'', cumulative_delta_entry rt (pget facts ''printer_1.flow_pct'')
          (pget facts ''printer_1.flow_default_pct'') ''pct''),
       (''nozzle'', cumulative_delta_entry rt (pget facts ''printer_1.nozzle_target_c'')
          (pget facts ''printer_1.job_nozzle_target_c_default'') ''c''),
       (''bed'', cumulative_delta_entry rt (pget facts ''printer_1.bed_target_c'')
          (pget facts ''printer_1.job_bed_target_c_default'') ''c''),
       (''pressure_advance'', cumulative_delta_entry rt (pget facts ''printer_1.pressure_advance'')
          (pget facts ''printer_1.active_pressure_advance_baseline'') ''ratio''),
       (''accel'', cumulative_delta_entry rt (pget facts ''printer_1.print_accel_mm_s2'')
          (pget facts ''printer_1.active_print_accel_baseline_mm_s2'') ''mm_s2'')]"

definition planner_runtime_trends :: "pyrt \<Rightarrow> dict \<Rightarrow> dict" where
  "planner_runtime_trends rt facts =
     (let flt = (\<lambda>k. opt_float (float_or_none rt (pget facts k)));
          str = (\<lambda>k. PyStr (case string_or_none rt (pget facts k) of None \<Rightarrow> ''unknown'' | Some s \<Rightarrow> s));
          flag = (\<lambda>k. PyBool (truthy (dget_or facts k (PyBool False))))
      in [(''sample_elapsed_s'', flt ''printer_1.trend_sample_elapsed_s''),
          (''job_time_delta_s'', flt ''printer_1.job_time_delta_s''),
          (''progress_delta_pct'', flt ''printer_1.progress_delta_pct''),
          (''nozzle_temp_delta_c'', flt ''printer_1.nozzle_temp_delta_c''),
          (''bed_temp_delta_c'', flt ''printer_1.bed_temp_delta_c''),
          (''nozzle_temp_trend'', str ''printer_1.nozzle_temp_trend''),
          (''bed_temp_trend'', str ''printer_1.bed_temp_trend''),
          (''job_time_advancing'', flag ''printer_1.job_time_advancing''),
          (''progress_advancing'', flag ''printer_1.progress_advancing''),
          (''targets_nonzero'', flag ''printer_1.targets_nonzero''),
          (''thermal_ramp_active'', flag ''printer_1.thermal_ramp_active''),
          (''pre_tuning_window'', flag ''printer_1.pre_tuning_window''),
          (''active_print_evidence'', str ''printer_1.active_print_evidence''),
          (''motion_confirmed'', case pget facts ''printer_1.motion_confirmed'' of PyBool b \<Rightarrow> PyBool b | _ \<Rightarrow> PyNone)])"

record symptom_feedback =
  sf_current_types :: "string list"
  sf_current_strength :: "string option"
  sf_current_level :: "string option"
  sf_last_types :: "string list"
  sf_last_strength :: "string option"
  sf_last_level :: "string option"
  sf_persisted :: bool
  sf_not_improving :: bool

definition planner_symptom_feedback :: "pyrt \<Rightarrow> dict \<Rightarrow> dict \<Rightarrow> symptom_feedback" where
  "planner_symptom_feedback rt facts last_result =
     (let current = planner_vision_signal rt facts;
          lst = result_vision_signal rt (por (pget last_result ''result'') (PyDict []));
          overlap = (set (vs_finding_types current) \<inter> set (rv_finding_types lst) \<noteq> {});
          current_level = normalize_issue_level rt (opt_str (vs_issue_level current));
          last_level = normalize_issue_level rt (opt_str (rv_issue_level lst));
          persisted = (vs_usable current \<and> rv_usable lst \<and> overlap)
      in \<lparr>sf_current_types = vs_finding_types current,
          sf_current_strength = normalize_strength rt (opt_str (vs_strength current)),
          sf_current_level = current_level, sf_last_types = rv_finding_types lst,
          sf_last_strength = normalize_strength rt (opt_str (rv_strength lst)), sf_last_level = last_level,
          sf_persisted = persisted,
          sf_not_improving = (persisted \<and> issue_level_rank last_level \<le> issue_level_rank current_level)\<rparr>)"

definition symptom_dump :: "symptom_feedback \<Rightarrow> dict" where
  "symptom_dump s = [(''current_finding_types'', str_list (sf_current_types s)),
     (''current_strength'', opt_str (sf_current_strength s)), (''current_issue_level'', opt_str (sf_current_level s)),
     (''last_verified_finding_types'', str_list (sf_last_types s)),
     (''last_verified_strength'', opt_str (sf_last_strength s)),
     (''last_verified_issue_level'', opt_str (sf_last_level s)),
     (''same_issue_persisted'', PyBool (sf_persisted s)),
     (''not_improving_after_last_action'', PyBool (sf_not_improving s))]"

section \<open>Notebook notes\<close>

definition sanitize_active_note_view :: "pyrt \<Rightarrow> pyval \<Rightarrow> pyval" where
  "sanitize_active_note_view rt note = (case note of
      PyDict n \<Rightarrow> (case pget n ''suggested_families'' of
          PyList fs \<Rightarrow> PyDict (dset ''suggested_families''
            (str_list (filter (\<lambda>f. f \<notin> set hidden_tuning_families) (map (py_str rt) fs))) n)
        | _ \<Rightarrow> PyDict n)
    | _ \<Rightarrow> PyDict [])"

definition sanitize_planner_facts :: "dict \<Rightarrow> dict" where
  "sanitize_planner_facts planner_facts = (case pget planner_facts ''active_section'' of
      PyDict sec \<Rightarrow> dset ''active_section'' (PyDict (case pget sec ''gcode_facts'' of
          PyDict g \<Rightarrow> dset ''gcode_facts''
            (PyDict (filter (\<lambda>(key, _). \<not> contains ''m204'' (str_lower key)) g)) sec
        | _ \<Rightarrow> sec)) planner_facts
    | _ \<Rightarrow> planner_facts)"

definition sanitized_notes :: "pyrt \<Rightarrow> dict \<Rightarrow> string \<Rightarrow> pyexc + pyval" where
  "sanitized_notes rt payload key =
     bindR (py_iter (por (dget_or payload key (PyList [])) (PyList []))) (\<lambda>notes.
       Inr (PyList (map (sanitize_active_note_view rt) notes)))"

definition planner_notebook_notes :: "pyrt \<Rightarrow> dict \<Rightarrow> pyexc + dict" where
  "planner_notebook_notes rt facts = (case json_from_fact rt (pget facts ''printer_1.active_notes_json'') of
      PyDict payload \<Rightarrow>
        bindR (sanitized_notes rt payload ''global_notes'') (\<lambda>global_notes.
        bindR (sanitized_notes rt payload ''local_notes'') (\<lambda>local_notes.
          Inr [(''global'', global_notes), (''local'', local_notes),
            (''merged_reason_tags'', por (dget_or payload ''merged_reason_tags'' (PyList [])) (PyList [])),
            (''planner_facts'', case por (dget_or payload ''planner_facts'' (PyDict [])) (PyDict []) of
               PyDict pf \<Rightarrow> PyDict (sanitize_planner_facts pf) | _ \<Rightarrow> PyDict [])]))
    | _ \<Rightarrow> Inr [(''global'', PyList []), (''local'', PyList []), (''merged_reason_tags'', PyList []),
        (''planner_facts'', PyDict [])])"

section \<open>Facts shown to the planner\<close>

definition prompt_hidden_suffixes :: "string list" where
  "prompt_hidden_suffixes = [''_shadow_eligible'', ''_shadow_actions'', ''_shadow_blockers'',
     ''_autonomy_eligible'', ''_autonomy_actions'', ''_autonomy_blockers'', ''_autonomy_boundary'']"

definition prompt_hidden_keys :: "string list" where
  "prompt_hidden_keys = [''printer_1.active_notes_json'', ''printer_1.vision_observation_ref'',
     ''printer_1.vision_frame_ref'']"

definition prompt_hides_fact_key :: "string \<Rightarrow> bool" where
  "prompt_hides_fact_key key \<longleftrightarrow> key \<in> set prompt_hidden_keys
     \<or> list_ex (\<lambda>suffix. ends_with suffix key) prompt_hidden_suffixes
     \<or> starts_with ''printer_1.'' key \<and> (contains ''accel'' key \<or> contains ''m204'' (str_lower key))"

definition rename_fact :: "string \<Rightarrow> string \<Rightarrow> dict \<Rightarrow> dict" where
  "rename_fact old new d = (case map_of d old of None \<Rightarrow> d | Some v \<Rightarrow> dset new v (dpop old d))"

definition planner_prompt_facts :: "dict \<Rightarrow> dict" where
  "planner_prompt_facts facts =
     rename_fact ''printer_1.vision_advisory_issue_level'' ''printer_1.vision_signal_issue_level''
      (rename_fact ''printer_1.vision_advisory_strength'' ''printer_1.vision_signal_strength''
        (rename_fact ''printer_1.vision_advisory_finding_types'' ''printer_1.vision_signal_finding_types''
          (rename_fact ''printer_1.vision_advisory_summary'' ''printer_1.vision_signal_summary''
            (filter (\<lambda>(key, _). \<not> prompt_hides_fact_key key) facts))))"

section \<open>The view\<close>

definition decision_contract :: dict where
  "decision_contract = [(''explicit_frontier_non_tuning_only'', PyBool True),
     (''tuning_action_space_independently_legal'', PyBool True),
     (''do_not_infer_tuning_illegality_from_explicit_frontier'', PyBool True), (''max_actions'', PyInt 1),
     (''prefer_bounded_action_when_supported'', PyBool True), (''one_family_at_a_time'', PyBool True),
     (''fresh_supported_signals_are_actionable'', PyBool True),
     (''vision_signals_support_action_selection'', PyBool True),
     (''notebook_signals_support_action_selection'', PyBool True),
     (''blockers_and_legality_dominate'', PyBool True), (''no_bundled_family_actions'', PyBool True)]"

definition explicit_frontier :: "world_packet \<Rightarrow> legal_action list" where
  "explicit_frontier w =
     (let non_tuning = filter (\<lambda>a. \<not> is_tuning_action a) (wp_frontier w)
      in case wp_prompt_frontier_limit w of None \<Rightarrow> non_tuning
         | Some limit \<Rightarrow> take (nat (max 0 limit)) non_tuning)"

definition allowed_frontier_ids :: "world_packet \<Rightarrow> string list" where
  "allowed_frontier_ids w = map la_action_id (explicit_frontier w)"

definition decision_signals :: "pyrt \<Rightarrow> (nat \<Rightarrow> int) \<Rightarrow> world_packet \<Rightarrow> pyexc + dict" where
  "decision_signals rt now w =
     (let facts = wp_facts w; last_result = wp_last_result w in
      bindR (planner_notebook_notes rt facts) (\<lambda>notebook.
      bindR (planner_last_result_notes rt last_result) (\<lambda>notes.
      bindR (planner_recent_family_actions rt (now 0) (wp_recent_results w)) (\<lambda>recent.
      bindR (planner_temporal_action_context rt (now 1) last_result) (\<lambda>temporal.
      bindR (planner_action_consequence rt (now 2) facts last_result) (\<lambda>conseq.
        Inr [(''notebook_notes'', PyDict notebook),
             (''vision_signal'', PyDict (vision_dump (planner_vision_signal rt facts))),
             (''last_result_notes'', notes_dump notes),
             (''recent_family_actions'', recent),
             (''temporal_action_context'', PyDict (temporal_dump temporal)),
             (''freshness'', PyDict (freshness_dump (planner_freshness rt (now 3) facts))),
             (''runtime_trends'', PyDict (planner_runtime_trends rt facts)),
             (''symptom_feedback'', PyDict (symptom_dump (planner_symptom_feedback rt facts last_result))),
             (''action_consequence'', PyDict (consequence_dump conseq)),
             (''tuning_settle_context'',
               PyDict (settle_dump (planner_tuning_settle_context rt (now 4) (now 5) facts last_result))),
             (''cumulative_family_deltas'', PyDict (planner_cumulative_family_deltas rt facts)),
             (''family_blockers'',
               PyDict (blockers_dump (planner_family_blockers rt (now 6) (now 7) facts last_result))),
             (''allowed_frontier_ids'', str_list (allowed_frontier_ids w)),
             (''tuning_action_space'',
               PyDict (tuning_space_dump (planner_tuning_action_space (wp_frontier w))))]))))))"

definition prompt_view :: "pyrt \<Rightarrow> (nat \<Rightarrow> int) \<Rightarrow> world_packet \<Rightarrow> pyexc + dict" where
  "prompt_view rt now w =
     bindR (decision_signals rt now w) (\<lambda>signals.
       Inr [(''goal'', PyStr (wp_goal w)), (''devices'', PyList (map summary_dump (wp_device_summaries w))),
         (''facts'', PyDict (planner_prompt_facts (wp_facts w))),
         (''resources'', PyList (map resource_dump (wp_resources w))),
         (''blockers'', str_list (wp_blockers w)), (''deltas'', PyList (map delta_dump (wp_deltas w))),
         (''frontier'', PyList (map action_prompt_view (explicit_frontier w))),
         (''last_result'', PyDict (wp_last_result w)), (''pending_human'', str_list (wp_pending_human w)),
         (''decision_contract'', PyDict decision_contract), (''decision_signals'', PyDict signals)])"

section \<open>What the planner can be offered\<close>

text \<open>The entry of a family lists what the frontier offers for it.\<close>

definition offers :: "legal_action list \<Rightarrow> string \<Rightarrow> string option \<Rightarrow> string option \<Rightarrow> bool" where
  "offers frontier f d m \<longleftrightarrow> (\<exists>a\<in>set frontier. action_family_from_id (la_action_id a) = Some f
     \<and> action_direction_from_id (la_action_id a) \<noteq> None \<and> action_magnitude_from_id (la_action_id a) \<noteq> None
     \<and> (d \<noteq> None \<longrightarrow> action_direction_from_id (la_action_id a) = d)
     \<and> (m \<noteq> None \<longrightarrow> action_magnitude_from_id (la_action_id a) = m))"

definition space_exact :: "legal_action list \<Rightarrow> tuning_space \<Rightarrow> bool" where
  "space_exact frontier space \<longleftrightarrow> (\<forall>f. case map_of space f of
      None \<Rightarrow> f \<in> set hidden_tuning_families \<or> \<not> offers frontier f None None
    | Some e \<Rightarrow> f \<notin> set hidden_tuning_families \<and> offers frontier f None None
        \<and> (\<forall>d. d \<in> set (te_directions e) \<longleftrightarrow> offers frontier f (Some d) None)
        \<and> (\<forall>m. m \<in> set (te_magnitudes e) \<longleftrightarrow> offers frontier f None (Some m)))"

lemma offers_snoc: "offers (frontier @ [a]) f d m \<longleftrightarrow> offers frontier f d m \<or> offers [a] f d m"
  by (auto simp: offers_def)

lemma set_append_new [simp]: "set (append_new x xs) = insert x (set xs)"
  by (auto simp: append_new_def)

lemma space_step_exact:
  assumes "space_exact frontier space"
  shows "space_exact (frontier @ [a]) (tuning_space_step space a)"
proof (cases "\<exists>f d m. action_family_from_id (la_action_id a) = Some f \<and> f \<notin> set hidden_tuning_families
    \<and> action_direction_from_id (la_action_id a) = Some d \<and> action_magnitude_from_id (la_action_id a) = Some m")
  case False
  then have "tuning_space_step space a = space"
    by (auto simp: tuning_space_step_def split: option.splits)
  moreover have "offers [a] f d m \<Longrightarrow> f \<in> set hidden_tuning_families" for f d m
    using False by (auto simp: offers_def)
  ultimately show ?thesis
    using assms unfolding space_exact_def offers_snoc by (fastforce split: option.splits)
next
  case True
  then obtain f d m where a: "action_family_from_id (la_action_id a) = Some f" "f \<notin> set hidden_tuning_families"
    "action_direction_from_id (la_action_id a) = Some d" "action_magnitude_from_id (la_action_id a) = Some m"
    by blast
  have o: "offers [a] g x y \<longleftrightarrow> g = f \<and> (x = None \<or> x = Some d) \<and> (y = None \<or> y = Some m)" for g x y
    using a by (auto simp: offers_def)
  define entry where "entry = dget_or space f \<lparr>te_directions = [], te_magnitudes = []\<rparr>"
  have none: "map_of space f = None \<Longrightarrow> \<not> offers frontier f None None"
    and some: "\<And>e. map_of space f = Some e \<Longrightarrow>
      (\<forall>d. d \<in> set (te_directions e) \<longleftrightarrow> offers frontier f (Some d) None)
      \<and> (\<forall>m. m \<in> set (te_magnitudes e) \<longleftrightarrow> offers frontier f None (Some m))"
    using assms [unfolded space_exact_def, rule_format, of f] a(2) by simp_all
  have weak: "offers frontier f x y \<Longrightarrow> offers frontier f None None" for x y
    by (auto simp: offers_def)
  have e: "x \<in> set (te_directions entry) \<longleftrightarrow> offers frontier f (Some x) None"
    "y \<in> set (te_magnitudes entry) \<longleftrightarrow> offers frontier f None (Some y)" for x y
    using none some weak by (cases "map_of space f"; auto simp: entry_def dget_or_def)+
  have step: "map_of (tuning_space_step space a) = (map_of space)(f \<mapsto>
      \<lparr>te_directions = append_new d (te_directions entry), te_magnitudes = append_new m (te_magnitudes entry)\<rparr>)"
    using a by (simp add: tuning_space_step_def entry_def map_of_dset Let_def)
  show ?thesis
    unfolding space_exact_def offers_snoc o step
  proof
    fix g
    show "case ((map_of space)(f \<mapsto> \<lparr>te_directions = append_new d (te_directions entry),
          te_magnitudes = append_new m (te_magnitudes entry)\<rparr>)) g of
        None \<Rightarrow> g \<in> set hidden_tuning_families
          \<or> \<not> (offers frontier g None None \<or> g = f \<and> (None = None \<or> None = Some d) \<and> (None = None \<or> None = Some m))
      | Some e \<Rightarrow> g \<notin> set hidden_tuning_families
          \<and> (offers frontier g None None \<or> g = f \<and> (None = None \<or> None = Some d) \<and> (None = None \<or> None = Some m))
          \<and> (\<forall>x. x \<in> set (te_directions e) \<longleftrightarrow>
              offers frontier g (Some x) None \<or> g = f \<and> (Some x = None \<or> Some x = Some d) \<and> (None = None \<or> None = Some m))
          \<and> (\<forall>y. y \<in> set (te_magnitudes e) \<longleftrightarrow>
              offers frontier g None (Some y) \<or> g = f \<and> (None = None \<or> None = Some d) \<and> (Some y = None \<or> Some y = Some m))"
      using assms [unfolded space_exact_def, rule_format, of g] a(2) e
      by (cases "g = f"; cases "map_of space g") auto
  qed
qed

lemma tuning_space_exact: "space_exact frontier (planner_tuning_action_space frontier)"
proof (induction frontier rule: rev_induct)
  case Nil
  show ?case by (simp add: space_exact_def planner_tuning_action_space_def offers_def)
next
  case (snoc a frontier)
  then show ?case
    using space_step_exact by (simp add: planner_tuning_action_space_def)
qed

text \<open>
  the tuning action space shown to the planner is exact per axis: a family is listed exactly when it
  is not hidden and the frontier holds a complete tuning action for it, and a direction or a magnitude is
  listed for it exactly when some such action has it.
\<close>

theorem tuning_action_space_exact:
  "((\<exists>e. map_of (planner_tuning_action_space frontier) f = Some e \<and> d \<in> set (te_directions e))
     \<longleftrightarrow> f \<notin> set hidden_tuning_families \<and> offers frontier f (Some d) None)
   \<and> ((\<exists>e. map_of (planner_tuning_action_space frontier) f = Some e \<and> m \<in> set (te_magnitudes e))
     \<longleftrightarrow> f \<notin> set hidden_tuning_families \<and> offers frontier f None (Some m))"
proof -
  have weak: "offers frontier f x y \<Longrightarrow> offers frontier f None None" for x y
    by (auto simp: offers_def)
  show ?thesis
    using tuning_space_exact [of frontier, unfolded space_exact_def, rule_format, of f] weak
    by (auto split: option.splits)
qed

text \<open>
  the explicit frontier ids offered to the planner are ids of frontier actions and never name a
  tuning action, whatever the prompt limit is.
\<close>

theorem allowed_frontier_ids_non_tuning:
  "set (allowed_frontier_ids w) \<subseteq> la_action_id ` {a \<in> set (wp_frontier w). \<not> is_tuning_action a}"
  by (auto simp: allowed_frontier_ids_def explicit_frontier_def Let_def split: option.splits dest: in_set_takeD)

text \<open>
  while a tuning action settles, no visible family is free of blockers, except for another family
  when a fresh and strong vision signal reports a high-level issue.
\<close>

theorem settle_blocks_families:
  assumes "sc_active (planner_tuning_settle_context rt now_ms now_ms' facts last_result)"
    and "(family, []) \<in> set (planner_family_blockers rt now_ms now_ms' facts last_result)"
  shows "sc_family (planner_tuning_settle_context rt now_ms now_ms' facts last_result) \<noteq> Some family
    \<and> vs_usable (planner_vision_signal rt facts)
    \<and> vs_issue_level (planner_vision_signal rt facts) = Some ''high''
    \<and> vs_strength (planner_vision_signal rt facts) \<noteq> Some ''weak''"
proof -
  let ?s = "planner_tuning_settle_context rt now_ms now_ms' facts last_result"
  have "sc_family ?s \<noteq> Some family \<and> sc_cross_family_allows ?s"
    using assms by (auto simp: planner_family_blockers_def Let_def split: if_splits)
  moreover have "sc_cross_family_allows ?s \<Longrightarrow> fresh_strong_vision_for_cross_family_settle rt now_ms' facts"
    by (auto simp: planner_tuning_settle_context_def Let_def split: option.splits if_splits)
  ultimately show ?thesis
    by (auto simp: fresh_strong_vision_for_cross_family_settle_def Let_def)
qed

definition settling_facts :: dict where
  "settling_facts = [(''printer_1.nozzle_cam_usable'', PyBool True),
     (''printer_1.vision_advisory_summary'', PyStr ''blob on the nozzle''),
     (''printer_1.vision_advisory_strength'', PyStr ''strong''),
     (''printer_1.vision_advisory_issue_level'', PyStr ''high''),
     (''printer_1.nozzle_cam_frame_age_s'', PyInt 3)]"

definition settling_result :: dict where
  "settling_result = [(''action_id'', PyStr ''A_PRUSA_TRIM_SPEED_UP_SMALL''), (''verb'', PyStr ''TUNE_SPEED''),
     (''status'', PyStr ''DONE''), (''updated_ts_ms'', PyInt 1000)]"

theorem settle_blocks_families_witness:
  "sc_family (planner_tuning_settle_context sample_rt 2000 2000 settling_facts settling_result) \<noteq> Some ''flow''"
proof -
  have 1: "sc_active (planner_tuning_settle_context sample_rt 2000 2000 settling_facts settling_result)"
    by code_simp
  have 2: "(''flow'', []) \<in> set (planner_family_blockers sample_rt 2000 2000 settling_facts settling_result)"
    by code_simp
  show ?thesis using settle_blocks_families [OF 1 2] by blast
qed

text \<open>
  an escalation is only declared valid when the last comparison says that the issue persisted with at
  least moderate confidence, and some finding other than residue is present both after the action and now.
\<close>

theorem escalation_needs_material_issue:
  assumes "planner_action_consequence rt now_ms facts last_result = Inr q" and "aq_valid_for_escalation q"
  shows "aq_issue q \<in> {''same'', ''worse''} \<and> aq_confidence q \<in> {Some ''moderate'', Some ''strong''}
    \<and> (\<exists>t. t \<noteq> ''residue'' \<and> t \<in> set (aq_post_types q) \<and> t \<in> set (aq_current_types q))
    \<and> aq_compared_against q = aq_action_id q"
proof -
  obtain t where t: "planner_temporal_action_context rt now_ms last_result = Inr t"
    using assms(1) by (auto simp: planner_action_consequence_def bindR_eq_Inr)
  note eq = sum.inject(2) [THEN iffD1, symmetric,
      OF assms(1) [unfolded planner_action_consequence_def t bindR_simps Let_def]]
  show ?thesis
    using assms(2) unfolding eq consequence.simps material_issue_types_def by auto
qed

definition stringing_result :: dict where
  "stringing_result = [(''action_id'', PyStr ''A1''), (''status'', PyStr ''DONE''),
     (''result'', PyDict [(''post_action_vision_signal'', PyDict [(''usable'', PyBool True),
        (''finding_types'', PyList [PyStr ''stringing'']), (''comparison_delta'', PyStr ''same''),
        (''comparison_confidence'', PyStr ''strong'')])])]"

definition stringing_facts :: dict where
  "stringing_facts = [(''printer_1.nozzle_cam_usable'', PyBool True),
     (''printer_1.vision_signal_summary'', PyStr ''strings''),
     (''printer_1.vision_signal_finding_types'', PyStr ''residue|stringing'')]"

theorem escalation_needs_material_issue_witness:
  "case planner_action_consequence sample_rt 0 stringing_facts stringing_result of
     Inl _ \<Rightarrow> False | Inr q \<Rightarrow> aq_issue q \<in> {''same'', ''worse''}"
proof -
  have "case planner_action_consequence sample_rt 0 stringing_facts stringing_result of
     Inl _ \<Rightarrow> False | Inr q \<Rightarrow> aq_valid_for_escalation q"
    by code_simp
  then obtain q where "planner_action_consequence sample_rt 0 stringing_facts stringing_result = Inr q"
    "aq_valid_for_escalation q"
    by (auto split: sum.splits)
  with escalation_needs_material_issue [OF this] show ?thesis by simp
qed

end
