(* ===== verification/PromptSchema.thy ===== *)
theory PromptSchema
  imports PromptView
begin

text \<open>
  \<open>world_packet_prompt_schema\<close> of \<open>wallee_v6/wallee_v6/models.py\<close>, the published JSON schema of the
  planner prompt, and a validator for the keywords it uses.  The lemmas check the dictionaries that
  \<open>prompt_view\<close> builds against their schemas.
\<close>

section \<open>The validator\<close>

fun json_type_ok :: "string \<Rightarrow> pyval \<Rightarrow> bool" where
  "json_type_ok t PyNone = (t = ''null'')"
| "json_type_ok t (PyBool _) = (t = ''boolean'')"
| "json_type_ok t (PyInt _) = (t = ''integer'' \<or> t = ''number'')"
| "json_type_ok t (PyFloat f) = (t = ''number'' \<or> t = ''integer'' \<and>
      (case f of Fin q \<Rightarrow> q = of_int \<lfloor>q\<rfloor> | _ \<Rightarrow> False))"
| "json_type_ok t (PyStr _) = (t = ''string'')"
| "json_type_ok t (PyList _) = (t = ''array'')"
| "json_type_ok t (PyDict _) = (t = ''object'')"

definition keyword_ok :: "string \<Rightarrow> pyval \<Rightarrow> pyval \<Rightarrow> bool" where
  "keyword_ok k x v =
     (if k = ''type'' then (case x of PyStr t \<Rightarrow> json_type_ok t v
          | PyList ts \<Rightarrow> list_ex (\<lambda>t. case t of PyStr t \<Rightarrow> json_type_ok t v | _ \<Rightarrow> False) ts | _ \<Rightarrow> True)
      else if k = ''enum'' then (case x of PyList xs \<Rightarrow> v \<in> set xs | _ \<Rightarrow> True)
      else if k = ''const'' then v = x
      else if k = ''required'' then (case (x, v) of
          (PyList ks, PyDict d) \<Rightarrow> list_all (\<lambda>k. case k of PyStr k \<Rightarrow> has_key d k | _ \<Rightarrow> True) ks | _ \<Rightarrow> True)
      else True)"

definition declares :: "(string \<times> pyval) list \<Rightarrow> string \<Rightarrow> bool" where
  "declares s p = (case map_of s ''properties'' of Some (PyDict ps) \<Rightarrow> has_key ps p | _ \<Rightarrow> False)"

lemma size_item: "(k, x) \<in> set s \<Longrightarrow> size x < Suc (size_list (size_prod (\<lambda>_. 0) size) s)"
  by (induction s) auto

lemma size_member: "(x :: pyval) \<in> set xs \<Longrightarrow> size x < Suc (size_list size xs)"
  by (induction xs) auto

function (sequential) schema_ok :: "pyval \<Rightarrow> pyval \<Rightarrow> bool" where
  "schema_ok (PyDict s) v = list_all (\<lambda>(k, x).
     if k = ''properties'' then (case (x, v) of
         (PyDict ps, PyDict d) \<Rightarrow>
           list_all (\<lambda>(p, sub). case map_of d p of None \<Rightarrow> True | Some w \<Rightarrow> schema_ok sub w) ps
       | _ \<Rightarrow> True)
     else if k = ''items'' then (case v of PyList xs \<Rightarrow> list_all (\<lambda>w. schema_ok x w) xs | _ \<Rightarrow> True)
     else if k = ''additionalProperties'' then (case v of
         PyDict d \<Rightarrow> list_all (\<lambda>(p, w). declares s p \<or> schema_ok x w) d | _ \<Rightarrow> True)
     else if k = ''anyOf'' then (case x of PyList ss \<Rightarrow> list_ex (\<lambda>sub. schema_ok sub v) ss | _ \<Rightarrow> True)
     else keyword_ok k x v) s"
| "schema_ok (PyBool b) v = b"
| "schema_ok _ v = True"
  by pat_completeness auto
termination
  by (relation "measure (\<lambda>p. size (fst p))") (auto dest!: size_item size_member)

section \<open>The schema\<close>

definition typed :: "string \<Rightarrow> pyval" where
  "typed t = PyDict [(''type'', PyStr t)]"

definition nullable :: "string \<Rightarrow> pyval" where
  "nullable t = PyDict [(''type'', str_list [t, ''null''])]"

definition closed_object :: "(string \<times> pyval) list \<Rightarrow> string list \<Rightarrow> pyval" where
  "closed_object props required = PyDict [(''type'', PyStr ''object''), (''additionalProperties'', PyBool False),
     (''properties'', PyDict props), (''required'', str_list required)]"

definition scalar_schema :: pyval where
  "scalar_schema =
     PyDict [(''anyOf'', PyList [typed ''string'', typed ''integer'', typed ''number'', typed ''boolean'',
       typed ''null''])]"

definition active_note_view_schema :: pyval where
  "active_note_view_schema =
     closed_object [(''note_id'', typed ''string''),
       (''scope'', PyDict [(''enum'', str_list [''global'', ''local'']), (''type'', PyStr ''string'')]),
       (''title'', typed ''string''),
       (''text'', typed ''string''),
       (''confidence'', PyDict [(''enum'', str_list [''low'', ''medium'', ''high'']), (''type'',
       PyStr ''string'')]),
       (''reason_tags'', PyDict [(''type'', PyStr ''array''), (''items'', typed ''string'')]),
       (''suggested_families'', PyDict [(''type'', PyStr ''array''), (''items'',
       PyDict [(''enum'', str_list [''speed'', ''flow'', ''nozzle'', ''bed'', ''pressure_advance'']),
       (''type'', PyStr ''string'')])]),
       (''section_ids'', PyDict [(''type'', PyStr ''array''), (''items'', typed ''string'')])]
       [''note_id'', ''scope'', ''title'', ''text'', ''confidence'', ''reason_tags'', ''suggested_families'',
       ''section_ids'']"

definition last_result_note_schema :: pyval where
  "last_result_note_schema =
     closed_object [(''action_id'', typed ''string''),
       (''family'', PyDict [(''enum'', str_list [''speed'', ''flow'', ''nozzle'', ''bed'',
       ''pressure_advance'', ''accel'', ''other'']), (''type'', PyStr ''string'')]),
       (''outcome'', PyDict [(''enum'', str_list [''verified_effect'', ''verified_no_effect'',
       ''suppressed'', ''blocked'', ''verification_mismatch'', ''reset_restored'', ''no_action'']),
       (''type'', PyStr ''string'')]),
       (''summary'', typed ''string''),
       (''reason_tags'', PyDict [(''type'', PyStr ''array''), (''items'', typed ''string'')]),
       (''observed_at'', typed ''string'')]
       [''action_id'', ''family'', ''outcome'', ''summary'', ''reason_tags'', ''observed_at'']"

definition recent_family_action_schema :: pyval where
  "recent_family_action_schema =
     closed_object [(''action_id'', typed ''string''),
       (''family'', PyDict [(''enum'', str_list [''speed'', ''flow'', ''nozzle'', ''bed'',
       ''pressure_advance'', ''accel'', ''other'']), (''type'', PyStr ''string'')]),
       (''status'', typed ''string''),
       (''outcome'', PyDict [(''type'', str_list [''string'', ''null'']), (''enum'',
       PyList [PyStr ''verified_effect'', PyStr ''verified_no_effect'', PyStr ''suppressed'',
       PyStr ''blocked'', PyStr ''verification_mismatch'', PyStr ''reset_restored'', PyStr ''no_action'',
       PyNone])]),
       (''direction'', PyDict [(''type'', str_list [''string'', ''null'']), (''enum'', PyList [PyStr ''up'',
       PyStr ''down'', PyStr ''restore'', PyNone])]),
       (''size'', PyDict [(''type'', str_list [''string'', ''null'']), (''enum'', PyList [PyStr ''small'',
       PyStr ''big'', PyStr ''restore'', PyNone])]),
       (''summary'', typed ''string''),
       (''observed_at'', nullable ''string''),
       (''seconds_since_action'', nullable ''number'')]
       [''action_id'', ''family'', ''status'', ''outcome'', ''direction'', ''size'', ''summary'',
       ''observed_at'', ''seconds_since_action'']"

definition cumulative_family_deltas_schema :: pyval where
  "cumulative_family_deltas_schema =
     closed_object [(''speed'', closed_object [(''current'', nullable ''number''),
       (''default'', nullable ''number''),
       (''delta'', nullable ''number''),
       (''unit'', PyDict [(''const'', PyStr ''pct'')])]
       [''current'', ''default'', ''delta'', ''unit'']),
       (''flow'', closed_object [(''current'', nullable ''number''),
       (''default'', nullable ''number''),
       (''delta'', nullable ''number''),
       (''unit'', PyDict [(''const'', PyStr ''pct'')])]
       [''current'', ''default'', ''delta'', ''unit'']),
       (''nozzle'', closed_object [(''current'', nullable ''number''),
       (''default'', nullable ''number''),
       (''delta'', nullable ''number''),
       (''unit'', PyDict [(''const'', PyStr ''c'')])]
       [''current'', ''default'', ''delta'', ''unit'']),
       (''bed'', closed_object [(''current'', nullable ''number''),
       (''default'', nullable ''number''),
       (''delta'', nullable ''number''),
       (''unit'', PyDict [(''const'', PyStr ''c'')])]
       [''current'', ''default'', ''delta'', ''unit'']),
       (''pressure_advance'', closed_object [(''current'', nullable ''number''),
       (''default'', nullable ''number''),
       (''delta'', nullable ''number''),
       (''unit'', PyDict [(''const'', PyStr ''ratio'')])]
       [''current'', ''default'', ''delta'', ''unit''])]
       [''speed'', ''flow'', ''nozzle'', ''bed'', ''pressure_advance'']"

definition tuning_family_option_schema :: pyval where
  "tuning_family_option_schema =
     closed_object [(''family'', PyDict [(''enum'', str_list [''speed'', ''flow'', ''nozzle'', ''bed'',
       ''pressure_advance'']), (''type'', PyStr ''string'')]),
       (''summary'', typed ''string''),
       (''allowed_directions'', PyDict [(''type'', PyStr ''array''), (''items'',
       PyDict [(''enum'', str_list [''up'', ''down'']), (''type'', PyStr ''string'')])]),
       (''allowed_magnitudes'', PyDict [(''type'', PyStr ''array''), (''items'',
       PyDict [(''enum'', str_list [''small'', ''big'']), (''type'', PyStr ''string'')])])]
       [''family'', ''summary'', ''allowed_directions'', ''allowed_magnitudes'']"

definition tuning_action_space_schema :: pyval where
  "tuning_action_space_schema =
     PyDict [(''type'', PyStr ''object''), (''additionalProperties'', PyBool False), (''properties'',
       PyDict [(''speed'', tuning_family_option_schema), (''flow'', tuning_family_option_schema),
       (''nozzle'', tuning_family_option_schema), (''bed'', tuning_family_option_schema),
       (''pressure_advance'', tuning_family_option_schema)])]"

definition temporal_action_context_schema :: pyval where
  "temporal_action_context_schema =
     closed_object [(''available'', typed ''boolean''),
       (''now_at'', typed ''string''),
       (''last_action_id'', nullable ''string''),
       (''last_action_family'', PyDict [(''type'', str_list [''string'', ''null'']), (''enum'',
       PyList [PyStr ''speed'', PyStr ''flow'', PyStr ''nozzle'', PyStr ''bed'', PyStr ''pressure_advance'',
       PyStr ''accel'', PyStr ''other'', PyNone])]),
       (''last_action_status'', nullable ''string''),
       (''last_action_outcome'', PyDict [(''type'', str_list [''string'', ''null'']), (''enum'',
       PyList [PyStr ''verified_effect'', PyStr ''verified_no_effect'', PyStr ''suppressed'',
       PyStr ''blocked'', PyStr ''verification_mismatch'', PyStr ''reset_restored'', PyStr ''no_action'',
       PyNone])]),
       (''last_action_summary'', nullable ''string''),
       (''last_action_reason_tags'', PyDict [(''type'', PyStr ''array''), (''items'', typed ''string'')]),
       (''last_action_why'', nullable ''string''),
       (''last_action_observed_at'', nullable ''string''),
       (''seconds_since_last_action'', nullable ''number'')]
       [''available'', ''now_at'', ''last_action_id'', ''last_action_family'', ''last_action_status'',
       ''last_action_outcome'', ''last_action_summary'', ''last_action_reason_tags'', ''last_action_why'',
       ''last_action_observed_at'', ''seconds_since_last_action'']"

definition freshness_schema :: pyval where
  "freshness_schema =
     closed_object [(''now_at'', typed ''string''),
       (''raw_observed_at'', nullable ''string''),
       (''seconds_since_raw_observation'', nullable ''number''),
       (''vision_observed_at'', nullable ''string''),
       (''seconds_since_vision_observation'', nullable ''number''),
       (''camera_last_capture_at'', nullable ''string''),
       (''camera_frame_age_s'', nullable ''number''),
       (''vision_usable'', typed ''boolean'')]
       [''now_at'', ''raw_observed_at'', ''seconds_since_raw_observation'', ''vision_observed_at'',
       ''seconds_since_vision_observation'', ''camera_last_capture_at'', ''camera_frame_age_s'',
       ''vision_usable'']"

definition action_consequence_schema :: pyval where
  "action_consequence_schema =
     closed_object [(''available'', typed ''boolean''),
       (''action_id'', nullable ''string''),
       (''family'', PyDict [(''type'', str_list [''string'', ''null'']), (''enum'', PyList [PyStr ''speed'',
       PyStr ''flow'', PyStr ''nozzle'', PyStr ''bed'', PyStr ''pressure_advance'', PyStr ''accel'',
       PyStr ''other'', PyNone])]),
       (''status'', nullable ''string''),
       (''time_since_action_s'', nullable ''number''),
       (''post_action_issue_types'', PyDict [(''type'', PyStr ''array''), (''items'', typed ''string'')]),
       (''current_issue_types'', PyDict [(''type'', PyStr ''array''), (''items'', typed ''string'')]),
       (''issue'', PyDict [(''type'', PyStr ''string''), (''enum'', str_list [''better'', ''same'',
       ''worse'', ''unknown''])]),
       (''confidence'', PyDict [(''type'', str_list [''string'', ''null'']), (''enum'',
       PyList [PyStr ''weak'', PyStr ''moderate'', PyStr ''strong'', PyNone])]),
       (''summary'', nullable ''string''),
       (''compared_against_action_id'', nullable ''string''),
       (''valid_for_escalation'', typed ''boolean'')]
       [''available'', ''action_id'', ''family'', ''status'', ''time_since_action_s'',
       ''post_action_issue_types'', ''current_issue_types'', ''issue'', ''confidence'', ''summary'',
       ''compared_against_action_id'', ''valid_for_escalation'']"

definition tuning_settle_context_schema :: pyval where
  "tuning_settle_context_schema =
     closed_object [(''active'', typed ''boolean''),
       (''family'', PyDict [(''type'', str_list [''string'', ''null'']), (''enum'', PyList [PyStr ''speed'',
       PyStr ''flow'', PyStr ''nozzle'', PyStr ''bed'', PyStr ''pressure_advance'', PyStr ''accel'', PyNone])]),
       (''action_id'', nullable ''string''),
       (''window_s'', nullable ''number''),
       (''remaining_s'', nullable ''number''),
       (''blocks_same_family'', typed ''boolean''),
       (''cross_family_requires_fresh_strong_signal'', typed ''boolean''),
       (''cross_family_signal_allows_action'', typed ''boolean'')]
       [''active'', ''family'', ''action_id'', ''window_s'', ''remaining_s'', ''blocks_same_family'',
       ''cross_family_requires_fresh_strong_signal'', ''cross_family_signal_allows_action'']"

definition action_view_schema :: pyval where
  "action_view_schema =
     closed_object [(''id'', typed ''string''),
       (''verb'', typed ''string''),
       (''description'', typed ''string''),
       (''args'', PyDict [(''type'', PyStr ''object''), (''additionalProperties'', scalar_schema)]),
       (''target_device'', PyDict [(''anyOf'', PyList [typed ''string'', typed ''null''])]),
       (''hazard_class'', PyDict [(''enum'', str_list [''low'', ''medium'', ''high'']), (''type'',
       PyStr ''string'')]),
       (''approval_required'', typed ''boolean''),
       (''expected_delta'', PyDict [(''type'', PyStr ''array''), (''items'', PyDict [(''type'',
       PyStr ''object''), (''additionalProperties'', PyBool True)])])]
       [''id'', ''verb'', ''description'', ''args'', ''target_device'', ''hazard_class'',
       ''approval_required'', ''expected_delta'']"

definition device_view_schema :: pyval where
  "device_view_schema =
     closed_object [(''device_id'', typed ''string''),
       (''display_name'', typed ''string''),
       (''category'', typed ''string''),
       (''mode'', typed ''string''),
       (''health'', typed ''string''),
       (''summary'', typed ''string'')]
       [''device_id'', ''display_name'', ''category'', ''mode'', ''health'', ''summary'']"

definition resource_view_schema :: pyval where
  "resource_view_schema =
     closed_object [(''id'', typed ''string''),
       (''kind'', typed ''string''),
       (''owner'', typed ''string''),
       (''state'', typed ''string''),
       (''attributes'', PyDict [(''type'', PyStr ''object''), (''additionalProperties'', scalar_schema)])]
       [''id'', ''kind'', ''owner'', ''state'', ''attributes'']"

definition delta_view_schema :: pyval where
  "delta_view_schema =
     closed_object [(''device_id'', typed ''string''),
       (''fact'', typed ''string''),
       (''old'', scalar_schema),
       (''new'', scalar_schema),
       (''note'', typed ''string'')]
       [''device_id'', ''fact'', ''old'', ''new'', ''note'']"

definition decision_contract_schema :: pyval where
  "decision_contract_schema =
     closed_object [(''explicit_frontier_non_tuning_only'', PyDict [(''const'', PyBool True)]),
       (''tuning_action_space_independently_legal'', PyDict [(''const'', PyBool True)]),
       (''do_not_infer_tuning_illegality_from_explicit_frontier'', PyDict [(''const'', PyBool True)]),
       (''max_actions'', PyDict [(''const'', PyInt 1)]),
       (''prefer_bounded_action_when_supported'', PyDict [(''const'', PyBool True)]),
       (''one_family_at_a_time'', PyDict [(''const'', PyBool True)]),
       (''fresh_supported_signals_are_actionable'', PyDict [(''const'', PyBool True)]),
       (''vision_signals_support_action_selection'', PyDict [(''const'', PyBool True)]),
       (''notebook_signals_support_action_selection'', PyDict [(''const'', PyBool True)]),
       (''blockers_and_legality_dominate'', PyDict [(''const'', PyBool True)]),
       (''no_bundled_family_actions'', PyDict [(''const'', PyBool True)])]
       [''explicit_frontier_non_tuning_only'', ''tuning_action_space_independently_legal'',
       ''do_not_infer_tuning_illegality_from_explicit_frontier'', ''max_actions'',
       ''prefer_bounded_action_when_supported'', ''one_family_at_a_time'',
       ''fresh_supported_signals_are_actionable'', ''vision_signals_support_action_selection'',
       ''notebook_signals_support_action_selection'', ''blockers_and_legality_dominate'',
       ''no_bundled_family_actions'']"

definition notebook_notes_schema :: pyval where
  "notebook_notes_schema =
     closed_object [(''global'', PyDict [(''type'', PyStr ''array''), (''items'', active_note_view_schema)]),
       (''local'', PyDict [(''type'', PyStr ''array''), (''items'', active_note_view_schema)]),
       (''merged_reason_tags'', PyDict [(''type'', PyStr ''array''), (''items'', typed ''string'')]),
       (''planner_facts'', PyDict [(''type'', PyStr ''object''), (''additionalProperties'', PyBool True)])]
       [''global'', ''local'', ''merged_reason_tags'', ''planner_facts'']"

definition vision_signal_schema :: pyval where
  "vision_signal_schema =
     closed_object [(''usable'', typed ''boolean''),
       (''summary'', nullable ''string''),
       (''finding_types'', PyDict [(''type'', PyStr ''array''), (''items'', typed ''string'')]),
       (''strength'', PyDict [(''type'', str_list [''string'', ''null'']), (''enum'', PyList [PyStr ''weak'',
       PyStr ''moderate'', PyStr ''strong'', PyNone])]),
       (''issue_level'', PyDict [(''type'', str_list [''string'', ''null'']), (''enum'',
       PyList [PyStr ''low'', PyStr ''medium'', PyStr ''high'', PyNone])])]
       [''usable'', ''summary'', ''finding_types'', ''strength'', ''issue_level'']"

definition symptom_feedback_schema :: pyval where
  "symptom_feedback_schema =
     closed_object [(''current_finding_types'', PyDict [(''type'', PyStr ''array''), (''items'',
       typed ''string'')]),
       (''current_strength'', PyDict [(''type'', str_list [''string'', ''null'']), (''enum'',
       PyList [PyStr ''weak'', PyStr ''moderate'', PyStr ''strong'', PyNone])]),
       (''current_issue_level'', PyDict [(''type'', str_list [''string'', ''null'']), (''enum'',
       PyList [PyStr ''low'', PyStr ''medium'', PyStr ''high'', PyNone])]),
       (''last_verified_finding_types'', PyDict [(''type'', PyStr ''array''), (''items'', typed ''string'')]),
       (''last_verified_strength'', PyDict [(''type'', str_list [''string'', ''null'']), (''enum'',
       PyList [PyStr ''weak'', PyStr ''moderate'', PyStr ''strong'', PyNone])]),
       (''last_verified_issue_level'', PyDict [(''type'', str_list [''string'', ''null'']), (''enum'',
       PyList [PyStr ''low'', PyStr ''medium'', PyStr ''high'', PyNone])]),
       (''same_issue_persisted'', typed ''boolean''),
       (''not_improving_after_last_action'', typed ''boolean'')]
       [''current_finding_types'', ''current_strength'', ''current_issue_level'',
       ''last_verified_finding_types'', ''last_verified_strength'', ''last_verified_issue_level'',
       ''same_issue_persisted'', ''not_improving_after_last_action'']"

definition family_blockers_schema :: pyval where
  "family_blockers_schema =
     closed_object [(''speed'', PyDict [(''type'', PyStr ''array''), (''items'', typed ''string'')]),
       (''flow'', PyDict [(''type'', PyStr ''array''), (''items'', typed ''string'')]),
       (''nozzle'', PyDict [(''type'', PyStr ''array''), (''items'', typed ''string'')]),
       (''bed'', PyDict [(''type'', PyStr ''array''), (''items'', typed ''string'')]),
       (''pressure_advance'', PyDict [(''type'', PyStr ''array''), (''items'', typed ''string'')])]
       [''speed'', ''flow'', ''nozzle'', ''bed'', ''pressure_advance'']"

definition decision_signals_schema :: pyval where
  "decision_signals_schema =
     closed_object [(''notebook_notes'', notebook_notes_schema),
       (''vision_signal'', vision_signal_schema),
       (''last_result_notes'', PyDict [(''type'', PyStr ''array''), (''items'', last_result_note_schema)]),
       (''recent_family_actions'', PyDict [(''type'', PyStr ''array''),
       (''items'', recent_family_action_schema)]),
       (''temporal_action_context'', temporal_action_context_schema),
       (''freshness'', freshness_schema),
       (''symptom_feedback'', symptom_feedback_schema),
       (''action_consequence'', action_consequence_schema),
       (''tuning_settle_context'', tuning_settle_context_schema),
       (''cumulative_family_deltas'', cumulative_family_deltas_schema),
       (''family_blockers'', family_blockers_schema),
       (''allowed_frontier_ids'', PyDict [(''type'', PyStr ''array''), (''items'', typed ''string'')]),
       (''tuning_action_space'', tuning_action_space_schema)]
       [''notebook_notes'', ''vision_signal'', ''last_result_notes'', ''recent_family_actions'',
       ''temporal_action_context'', ''freshness'', ''symptom_feedback'', ''action_consequence'',
       ''tuning_settle_context'', ''cumulative_family_deltas'', ''family_blockers'',
       ''allowed_frontier_ids'', ''tuning_action_space'']"

definition world_packet_prompt_schema :: pyval where
  "world_packet_prompt_schema =
     PyDict [(''$schema'', PyStr ''https://json-schema.org/draft/2020-12/schema''), (''title'',
       PyStr ''WorldPacketPromptView''), (''type'', PyStr ''object''), (''additionalProperties'',
       PyBool False), (''properties'', PyDict [(''goal'', typed ''string''), (''devices'', PyDict [(''type'',
       PyStr ''array''), (''items'', device_view_schema)]), (''facts'', PyDict [(''type'', PyStr ''object''),
       (''additionalProperties'', scalar_schema)]), (''resources'', PyDict [(''type'', PyStr ''array''),
       (''items'', resource_view_schema)]), (''blockers'', PyDict [(''type'', PyStr ''array''),
       (''items'', typed ''string'')]), (''deltas'', PyDict [(''type'', PyStr ''array''),
       (''items'', delta_view_schema)]), (''frontier'', PyDict [(''type'', PyStr ''array''),
       (''items'', action_view_schema)]), (''last_result'', PyDict [(''type'', PyStr ''object''),
       (''additionalProperties'', PyBool True)]), (''pending_human'', PyDict [(''type'', PyStr ''array''),
       (''items'', typed ''string'')]), (''decision_contract'', decision_contract_schema),
       (''decision_signals'', decision_signals_schema)]), (''required'', str_list [''goal'', ''devices'',
       ''facts'', ''resources'', ''blockers'', ''deltas'', ''frontier'', ''last_result'', ''pending_human'',
       ''decision_contract'', ''decision_signals''])]"


section \<open>Conformance of the derived signals\<close>

named_theorems schema_simps "evaluation of the validator"

lemma schema_leaf [schema_simps]:
  "schema_ok (typed t) v = json_type_ok t v"
  "schema_ok (nullable ''string'') (opt_str x)"
  "schema_ok (nullable ''number'') (opt_float y)"
  "schema_ok (PyDict [(''const'', c)]) v = (v = c)"
  "schema_ok (PyDict [(''enum'', PyList es), (''type'', PyStr t)]) v = (v \<in> set es \<and> json_type_ok t v)"
  "schema_ok (PyDict [(''type'', ty), (''enum'', PyList es)]) v = (keyword_ok ''type'' ty v \<and> v \<in> set es)"
  "schema_ok (PyDict [(''type'', ty), (''enum'', str_list ks)]) v = (keyword_ok ''type'' ty v \<and> v \<in> PyStr ` set ks)"
  "schema_ok (PyDict [(''enum'', str_list ks), (''type'', PyStr t)]) v = (v \<in> PyStr ` set ks \<and> json_type_ok t v)"
  by (cases x; cases y; simp add: typed_def nullable_def str_list_def keyword_ok_def)+

lemma schema_array [schema_simps]:
  "schema_ok (PyDict [(''type'', PyStr ''array''), (''items'', s)]) (PyList xs) = list_all (schema_ok s) xs"
  "schema_ok (PyDict [(''type'', PyStr ''array''), (''items'', s)]) (str_list ys)
     = list_all (\<lambda>y. schema_ok s (PyStr y)) ys"
  by (simp_all add: keyword_ok_def str_list_def list.pred_map comp_def)

lemma schema_closed [schema_simps]:
  "schema_ok (closed_object props required) (PyDict d) \<longleftrightarrow>
     list_all (\<lambda>(p, sub). case map_of d p of None \<Rightarrow> True | Some w \<Rightarrow> schema_ok sub w) props
     \<and> list_all (\<lambda>(p, _). has_key props p) d \<and> list_all (has_key d) required"
  by (simp add: closed_object_def keyword_ok_def declares_def str_list_def list.pred_map comp_def)
    (simp add: case_prod_unfold conj_left_commute)

lemma schema_open [schema_simps]:
  "schema_ok (PyDict [(''type'', PyStr ''object''), (''additionalProperties'', PyBool False), (''properties'', PyDict props)])
     (PyDict d) \<longleftrightarrow>
     list_all (\<lambda>(p, sub). case map_of d p of None \<Rightarrow> True | Some w \<Rightarrow> schema_ok sub w) props
     \<and> list_all (\<lambda>(p, _). has_key props p) d"
  by (simp add: keyword_ok_def declares_def) (simp add: case_prod_unfold conj_commute)

declare schema_ok.simps [simp del]

lemma list_all_trivial [schema_simps]: "list_all (\<lambda>_. True) xs"
  by (simp add: list_all_iff)

lemma type_null_string [schema_simps]: "keyword_ok ''type'' (str_list [''string'', ''null'']) (opt_str x)"
  by (cases x) (simp_all add: keyword_ok_def str_list_def)

lemma type_plain [schema_simps]: "keyword_ok ''type'' (PyStr t) v = json_type_ok t v"
  by (simp add: keyword_ok_def)

lemma json_string_ok [schema_simps]: "json_type_ok ''string'' (PyStr s)" "json_type_ok ''boolean'' (PyBool b)"
  by simp_all

lemma map_of_hit [schema_simps]:
  "map_of ((k, v) # d) k' = (if k = k' then Some v else map_of d k')" "map_of [] k' = None"
  by simp_all

text \<open>The closed vocabularies.\<close>

lemma normalize_to_cases: "normalize_to rt allowed v \<in> insert None (Some ` set allowed)"
  by (auto simp: normalize_to_def split: option.splits)

lemma normalize_cases:
  "normalize_strength rt v \<in> {None, Some ''weak'', Some ''moderate'', Some ''strong''}"
  "normalize_issue_level rt v \<in> {None, Some ''low'', Some ''medium'', Some ''high''}"
  "normalize_comparison_delta rt v \<in> {None, Some ''better'', Some ''same'', Some ''worse'', Some ''unknown''}"
  unfolding normalize_strength_def normalize_issue_level_def normalize_comparison_delta_def
  by (rule subsetD [OF _ normalize_to_cases], simp)+

lemma opt_str_mem:
  "x \<in> {None, Some a, Some b, Some c} \<Longrightarrow> opt_str x \<in> {PyStr a, PyStr b, PyStr c, PyNone}"
  by auto

lemma action_family_cases:
  "action_family a v \<in> {''speed'', ''flow'', ''nozzle'', ''bed'', ''pressure_advance'', ''accel'', ''other''}"
  by (simp add: action_family_def Let_def)

lemma vision_vocabulary:
  "vs_strength (planner_vision_signal rt facts) \<in> {None, Some ''weak'', Some ''moderate'', Some ''strong''}"
  "vs_issue_level (planner_vision_signal rt facts) \<in> {None, Some ''low'', Some ''medium'', Some ''high''}"
  using normalize_cases(1,2)
  by (auto simp: planner_vision_signal_def Let_def vision_issue_level_def)

lemma vision_signal_conforms:
  "schema_ok vision_signal_schema (PyDict (vision_dump (planner_vision_signal rt facts)))"
  using vision_vocabulary [of rt facts, THEN opt_str_mem]
  by (simp add: vision_signal_schema_def vision_dump_def schema_simps)

lemma freshness_conforms:
  "schema_ok freshness_schema (PyDict (freshness_dump (planner_freshness rt now_ms facts)))"
  by (simp add: freshness_schema_def freshness_dump_def schema_simps)

definition note_outcomes :: "string list" where
  "note_outcomes = [''verified_effect'', ''verified_no_effect'', ''suppressed'', ''blocked'',
     ''verification_mismatch'', ''reset_restored'', ''no_action'']"

lemma result_outcome_vocabulary:
  "result_outcome rt status action_id result err = Inr (outcome, tags) \<Longrightarrow> outcome \<in> set note_outcomes"
  by (auto simp: result_outcome_def done_outcome_def note_outcomes_def bindR_eq_Inr Let_def split: if_splits)

lemma note_vocabulary:
  assumes "planner_last_result_notes rt last_result = Inr (Some n)"
  shows "rn_outcome n \<in> set note_outcomes"
    "rn_family n \<in> {''speed'', ''flow'', ''nozzle'', ''bed'', ''pressure_advance'', ''accel'', ''other''}"
proof -
  obtain o' tags st where "result_outcome rt st (text_of rt (pget last_result ''action_id''))
      (por (pget last_result ''result'') (PyDict [])) (por (pget last_result ''error'') (PyDict [])) = Inr (o', tags)"
    and n: "rn_outcome n = o'"
      "rn_family n = action_family (text_of rt (pget last_result ''action_id'')) (text_of rt (pget last_result ''verb''))"
    using assms by (auto simp: planner_last_result_notes_def bindR_eq_Inr Let_def split: if_splits)
  then show "rn_outcome n \<in> set note_outcomes" using result_outcome_vocabulary by blast
  show "rn_family n \<in> {''speed'', ''flow'', ''nozzle'', ''bed'', ''pressure_advance'', ''accel'', ''other''}"
    unfolding n by (rule action_family_cases)
qed

lemma note_conforms:
  assumes "planner_last_result_notes rt last_result = Inr nt"
  shows "schema_ok (PyDict [(''type'', PyStr ''array''), (''items'', last_result_note_schema)]) (notes_dump nt)"
proof (cases nt)
  case (Some n)
  then show ?thesis
    using note_vocabulary [of rt last_result n] assms
    by (simp add: last_result_note_schema_def notes_dump_def note_dump_def schema_simps note_outcomes_def)
qed (simp add: notes_dump_def schema_simps)

text \<open>The optional words of the temporal context come from the note.\<close>

lemma temporal_vocabulary:
  assumes "planner_temporal_action_context rt now_ms last_result = Inr t"
  shows "tm_outcome t \<in> insert None (Some ` set note_outcomes)"
    "tm_family t \<in> insert None (Some ` {''speed'', ''flow'', ''nozzle'', ''bed'', ''pressure_advance'', ''accel'', ''other''})"
  using assms note_vocabulary
  by (fastforce simp: planner_temporal_action_context_def bindR_eq_Inr split: if_splits option.splits)+

lemma opt_str_image: "x \<in> insert None (Some ` A) \<Longrightarrow> opt_str x \<in> insert PyNone (PyStr ` A)"
  by auto

lemma temporal_conforms:
  assumes "planner_temporal_action_context rt now_ms last_result = Inr t"
  shows "schema_ok temporal_action_context_schema (PyDict (temporal_dump t))"
  using temporal_vocabulary [OF assms, THEN opt_str_image]
  by (simp add: temporal_action_context_schema_def temporal_dump_def schema_simps note_outcomes_def) blast

lemma consequence_conforms:
  assumes "planner_action_consequence rt now_ms facts last_result = Inr q"
  shows "schema_ok action_consequence_schema (PyDict (consequence_dump q))"
proof -
  let ?sig = "result_vision_signal rt (por (pget last_result ''result'') (PyDict []))"
  obtain t where t: "planner_temporal_action_context rt now_ms last_result = Inr t"
    using assms by (auto simp: planner_action_consequence_def bindR_eq_Inr)
  have sig: "rv_comparison_confidence ?sig \<in> {None, Some ''weak'', Some ''moderate'', Some ''strong''}"
    "rv_comparison_delta ?sig \<in> {None, Some ''better'', Some ''same'', Some ''worse'', Some ''unknown''}"
    using normalize_cases(1,3) by (auto simp: result_vision_signal_def no_result_signal_def Let_def split: pyval.splits)
  note eq = sum.inject(2) [THEN iffD1, symmetric,
      OF assms [unfolded planner_action_consequence_def t bindR_simps Let_def]]
  have q: "aq_family q = tm_family t" "aq_confidence q = rv_comparison_confidence ?sig"
    by (simp_all only: eq consequence.simps)
  have "aq_issue q = ''unknown'' \<or> Some (aq_issue q) = rv_comparison_delta ?sig"
    unfolding eq consequence.simps by (simp split: option.split)
  then have "aq_issue q \<in> {''better'', ''same'', ''worse'', ''unknown''}"
    using sig(2) by auto
  moreover have "opt_str (aq_confidence q) \<in> {PyStr ''weak'', PyStr ''moderate'', PyStr ''strong'', PyNone}"
    unfolding q(2) by (rule opt_str_mem [OF sig(1)])
  moreover have "opt_str (aq_family q) \<in> insert PyNone (PyStr ` {''speed'', ''flow'', ''nozzle'', ''bed'',
      ''pressure_advance'', ''accel'', ''other''})"
    unfolding q(1) by (rule opt_str_image [OF temporal_vocabulary(2) [OF t]])
  ultimately show ?thesis
    by (simp add: action_consequence_schema_def consequence_dump_def schema_simps) blast
qed

lemma settle_vocabulary:
  "sc_family (planner_tuning_settle_context rt now_ms now_ms' facts last_result) \<in> insert None (Some ` set tuning_families)"
  by (auto simp: planner_tuning_settle_context_def Let_def split: option.splits)

lemma settle_conforms:
  "schema_ok tuning_settle_context_schema
     (PyDict (settle_dump (planner_tuning_settle_context rt now_ms now_ms' facts last_result)))"
  using opt_str_image [OF settle_vocabulary [of rt now_ms now_ms' facts last_result]]
  by (simp add: tuning_settle_context_schema_def settle_dump_def schema_simps tuning_families_def) blast

lemma symptom_conforms:
  "schema_ok symptom_feedback_schema (PyDict (symptom_dump (planner_symptom_feedback rt facts last_result)))"
proof -
  let ?s = "planner_symptom_feedback rt facts last_result"
  have "opt_str (sf_current_strength ?s) \<in> {PyStr ''weak'', PyStr ''moderate'', PyStr ''strong'', PyNone}"
    "opt_str (sf_last_strength ?s) \<in> {PyStr ''weak'', PyStr ''moderate'', PyStr ''strong'', PyNone}"
    "opt_str (sf_current_level ?s) \<in> {PyStr ''low'', PyStr ''medium'', PyStr ''high'', PyNone}"
    "opt_str (sf_last_level ?s) \<in> {PyStr ''low'', PyStr ''medium'', PyStr ''high'', PyNone}"
    unfolding planner_symptom_feedback_def Let_def symptom_feedback.simps
    by (rule opt_str_mem [OF normalize_cases(1)] opt_str_mem [OF normalize_cases(2)])+
  then show ?thesis
    by (simp add: symptom_feedback_schema_def symptom_dump_def schema_simps)
qed

lemma cumulative_conforms:
  "schema_ok cumulative_family_deltas_schema (PyDict (planner_cumulative_family_deltas rt facts))"
  by (simp add: cumulative_family_deltas_schema_def planner_cumulative_family_deltas_def
      cumulative_delta_entry_def Let_def hidden_tuning_families_def schema_simps)

lemma blocker_families:
  "map fst (planner_family_blockers rt now_ms now_ms' facts last_result)
     = [''speed'', ''flow'', ''nozzle'', ''bed'', ''pressure_advance'']"
  by (simp add: planner_family_blockers_def Let_def raw_family_blockers_def hidden_tuning_families_def)

lemma blockers_conform:
  "schema_ok family_blockers_schema
     (PyDict (blockers_dump (planner_family_blockers rt now_ms now_ms' facts last_result)))"
proof -
  obtain a b c d e where "planner_family_blockers rt now_ms now_ms' facts last_result
      = [(''speed'', a), (''flow'', b), (''nozzle'', c), (''bed'', d), (''pressure_advance'', e)]"
    using blocker_families [of rt now_ms now_ms' facts last_result]
    by (auto simp: map_eq_Cons_conv)
  then show ?thesis
    by (simp add: family_blockers_schema_def blockers_dump_def schema_simps)
qed

text \<open>The tuning action space.\<close>

definition space_entry_ok :: "string \<times> tuning_entry \<Rightarrow> bool" where
  "space_entry_ok p \<longleftrightarrow> fst p \<in> {''speed'', ''flow'', ''nozzle'', ''bed'', ''pressure_advance''}
     \<and> set (te_directions (snd p)) \<subseteq> {''up'', ''down''} \<and> set (te_magnitudes (snd p)) \<subseteq> {''small'', ''big''}"

lemma family_from_id_cases:
  "action_family_from_id a \<in> insert None (Some ` set tuning_families)"
  "action_direction_from_id a \<in> {None, Some ''up'', Some ''down''}"
  "action_magnitude_from_id a \<in> {None, Some ''small'', Some ''big''}"
  by (simp_all add: action_family_from_id_def action_direction_from_id_def action_magnitude_from_id_def
      tuning_families_def Let_def)

lemma set_dset: "p \<in> set (dset k v d) \<Longrightarrow> p = (k, v) \<or> p \<in> set d"
  by (induction d) (auto split: if_splits)

lemma space_step_ok:
  assumes "\<And>p. p \<in> set space \<Longrightarrow> space_entry_ok p" and "p \<in> set (tuning_space_step space a)"
  shows "space_entry_ok p"
proof (cases "p \<in> set space")
  case False
  define entry where "entry f = dget_or space f \<lparr>te_directions = [], te_magnitudes = []\<rparr>" for f
  have e: "set (te_directions (entry f)) \<subseteq> {''up'', ''down''} \<and> set (te_magnitudes (entry f)) \<subseteq> {''small'', ''big''}" for f
  proof (cases "map_of space f")
    case (Some en)
    then show ?thesis
      using assms(1) [OF map_of_SomeD [OF Some]] by (simp add: entry_def dget_or_def space_entry_ok_def)
  qed (simp add: entry_def dget_or_def)
  obtain f d m where f: "action_family_from_id (la_action_id a) = Some f" "f \<notin> set hidden_tuning_families"
    and d: "action_direction_from_id (la_action_id a) = Some d"
    and m: "action_magnitude_from_id (la_action_id a) = Some m"
    and p: "p = (f, \<lparr>te_directions = append_new d (te_directions (entry f)), te_magnitudes = append_new m (te_magnitudes (entry f))\<rparr>)"
    using assms(2) False
    by (auto simp: tuning_space_step_def Let_def entry_def split: option.splits if_splits dest!: set_dset)
  show ?thesis
    using e [of f] family_from_id_cases [of "la_action_id a"] f d m
    by (auto simp: p space_entry_ok_def append_new_def tuning_families_def hidden_tuning_families_def)
qed (use assms(1) in blast)

lemma space_ok: "p \<in> set (planner_tuning_action_space frontier) \<Longrightarrow> space_entry_ok p"
proof -
  have "(\<And>p. p \<in> set space \<Longrightarrow> space_entry_ok p) \<Longrightarrow> p \<in> set (foldl tuning_space_step space frontier) \<Longrightarrow> space_entry_ok p"
    for space p
    by (induction frontier arbitrary: space) (simp, metis foldl_Cons space_step_ok)
  then show "p \<in> set (planner_tuning_action_space frontier) \<Longrightarrow> space_entry_ok p"
    unfolding planner_tuning_action_space_def by (metis emptyE list.set(1))
qed

lemma entry_conforms:
  assumes "space_entry_ok (f, e)"
  shows "schema_ok tuning_family_option_schema
     (PyDict [(''family'', PyStr f), (''summary'', PyStr (tuning_family_summary f)),
       (''allowed_directions'', str_list (te_directions e)), (''allowed_magnitudes'', str_list (te_magnitudes e))])"
  using assms
  by (simp add: tuning_family_option_schema_def schema_simps space_entry_ok_def list_all_iff subset_iff)

lemma space_conforms:
  "schema_ok tuning_action_space_schema (PyDict (tuning_space_dump (planner_tuning_action_space frontier)))"
proof -
  let ?sp = "planner_tuning_action_space frontier"
  have dump: "map_of (tuning_space_dump ?sp) f = Some w \<Longrightarrow> schema_ok tuning_family_option_schema w" for f w
    using space_ok entry_conforms
    by (fastforce simp: tuning_space_dump_def dest!: map_of_SomeD)
  have keys: "fst p \<in> {''speed'', ''flow'', ''nozzle'', ''bed'', ''pressure_advance''}" if "p \<in> set (tuning_space_dump ?sp)" for p
    using that space_ok by (fastforce simp: tuning_space_dump_def space_entry_ok_def)
  have "list_all (\<lambda>(p, _). has_key [(''speed'', tuning_family_option_schema), (''flow'', tuning_family_option_schema),
      (''nozzle'', tuning_family_option_schema), (''bed'', tuning_family_option_schema),
      (''pressure_advance'', tuning_family_option_schema)] p) (tuning_space_dump ?sp)"
    unfolding list_all_iff by (intro ballI) (drule keys, auto)
  then show ?thesis
    by (simp add: tuning_action_space_schema_def schema_simps dump split: option.split)
qed

lemma recent_action_conforms:
  assumes "recent_family_action rt now_ms item = Inr xs"
  shows "list_all (schema_ok recent_family_action_schema) xs"
proof (cases "text_of rt (pget item ''action_id'') = []")
  case False
  let ?a = "text_of rt (pget item ''action_id'')"
  obtain nt where nt: "planner_last_result_notes rt item = Inr nt"
    using assms False by (auto simp: recent_family_action_def Let_def bindR_eq_Inr)
  have o: "opt_str (map_option rn_outcome nt) \<in> insert PyNone (PyStr ` set note_outcomes)"
    using note_vocabulary(1) nt by (cases nt) auto
  have f: "(case nt of Some n \<Rightarrow> rn_family n | None \<Rightarrow> action_family ?a v)
      \<in> {''speed'', ''flow'', ''nozzle'', ''bed'', ''pressure_advance'', ''accel'', ''other''}" for v
    using note_vocabulary(2) nt action_family_cases by (cases nt) auto
  have d: "opt_str (action_direction ?a) \<in> {PyStr ''up'', PyStr ''down'', PyStr ''restore'', PyNone}"
    "opt_str (action_size ?a) \<in> {PyStr ''small'', PyStr ''big'', PyStr ''restore'', PyNone}"
    by (simp_all add: action_direction_def action_size_def Let_def)
  show ?thesis
    using assms f o d
    by (simp add: recent_family_action_def False nt recent_family_action_schema_def note_outcomes_def Let_def)
      (erule subst, simp add: schema_simps, blast)
qed (use assms in \<open>simp add: recent_family_action_def\<close>)

lemma mapR_all: "mapR f xs = Inr yss \<Longrightarrow> (\<And>x ys. f x = Inr ys \<Longrightarrow> list_all P ys) \<Longrightarrow> list_all P (concat yss)"
  by (induction xs arbitrary: yss) (auto simp: bindR_eq_Inr)

lemma recent_conforms:
  assumes "planner_recent_family_actions rt now_ms rs = Inr v"
  shows "schema_ok (PyDict [(''type'', PyStr ''array''), (''items'', recent_family_action_schema)]) v"
  using assms mapR_all recent_action_conforms
  by (fastforce simp: planner_recent_family_actions_def bindR_eq_Inr schema_simps)

section \<open>The whole view\<close>

definition schema_property :: "pyval \<Rightarrow> string \<Rightarrow> pyval option" where
  "schema_property s k = (case s of PyDict d \<Rightarrow>
      (case map_of d ''properties'' of Some (PyDict ps) \<Rightarrow> map_of ps k | _ \<Rightarrow> None) | _ \<Rightarrow> None)"

lemma schema_property_closed: "schema_property (closed_object ps req) k = map_of ps k"
  by (simp add: schema_property_def closed_object_def)

lemma signal_schemas:
  "schema_property decision_signals_schema ''vision_signal'' = Some vision_signal_schema"
  "schema_property decision_signals_schema ''last_result_notes''
     = Some (PyDict [(''type'', PyStr ''array''), (''items'', last_result_note_schema)])"
  "schema_property decision_signals_schema ''recent_family_actions''
     = Some (PyDict [(''type'', PyStr ''array''), (''items'', recent_family_action_schema)])"
  "schema_property decision_signals_schema ''temporal_action_context'' = Some temporal_action_context_schema"
  "schema_property decision_signals_schema ''freshness'' = Some freshness_schema"
  "schema_property decision_signals_schema ''symptom_feedback'' = Some symptom_feedback_schema"
  "schema_property decision_signals_schema ''action_consequence'' = Some action_consequence_schema"
  "schema_property decision_signals_schema ''tuning_settle_context'' = Some tuning_settle_context_schema"
  "schema_property decision_signals_schema ''cumulative_family_deltas'' = Some cumulative_family_deltas_schema"
  "schema_property decision_signals_schema ''family_blockers'' = Some family_blockers_schema"
  "schema_property decision_signals_schema ''allowed_frontier_ids''
     = Some (PyDict [(''type'', PyStr ''array''), (''items'', typed ''string'')])"
  "schema_property decision_signals_schema ''tuning_action_space'' = Some tuning_action_space_schema"
  by (simp_all add: decision_signals_schema_def schema_property_closed)

lemma ids_conform:
  "schema_ok (PyDict [(''type'', PyStr ''array''), (''items'', typed ''string'')]) (str_list ids)"
  by (simp add: schema_simps)


definition empty_world :: world_packet where
  "empty_world = \<lparr>wp_goal = [], wp_device_summaries = [], wp_facts = [], wp_resources = [], wp_blockers = [],
     wp_deltas = [], wp_frontier = [], wp_last_result = [], wp_recent_results = [], wp_pending_human = [],
     wp_compilation = None, wp_prompt_frontier_limit = None\<rparr>"

lemma empty_world_signals: "\<exists>d. decision_signals sample_rt (\<lambda>_. 0) empty_world = Inr d \<and> (''allowed_frontier_ids'', PyList []) \<in> set d"
  by (simp add: decision_signals_def empty_world_def planner_notebook_notes_def json_from_fact_def
      planner_last_result_notes_def planner_recent_family_actions_def planner_temporal_action_context_def
      planner_action_consequence_def Let_def allowed_frontier_ids_def explicit_frontier_def str_list_def)


text \<open>
  the published prompt schema rejects every prompt the code produces: \<open>prompt_view\<close> emits the signal
  \<open>runtime_trends\<close>, and the closed schema of \<open>decision_signals\<close> does not declare it.
\<close>

theorem prompt_view_violates_schema:
  assumes "prompt_view rt now w = Inr view"
  shows "\<not> schema_ok world_packet_prompt_schema (PyDict view)"
proof -
  obtain signals where s: "decision_signals rt now w = Inr signals"
    and v: "map_of view ''decision_signals'' = Some (PyDict signals)"
    using assms by (auto simp: prompt_view_def bindR_eq_Inr)
  have "(''runtime_trends'', PyDict (planner_runtime_trends rt (wp_facts w))) \<in> set signals"
    using s unfolding decision_signals_def Let_def by (auto simp only: bindR_eq_Inr sum.inject list.set insert_iff simp_thms)
  then have "\<not> schema_ok decision_signals_schema (PyDict signals)"
    by (force simp: decision_signals_schema_def schema_simps list_all_iff)
  then show ?thesis
    using v by (simp add: world_packet_prompt_schema_def schema_ok.simps)
qed

theorem prompt_view_violates_schema_witness:
  "\<exists>view. prompt_view sample_rt (\<lambda>_. 0) empty_world = Inr view
     \<and> \<not> schema_ok world_packet_prompt_schema (PyDict view)"
proof -
  obtain view where "prompt_view sample_rt (\<lambda>_. 0) empty_world = Inr view"
    using empty_world_signals by (auto simp: prompt_view_def bindR_def)
  with prompt_view_violates_schema [OF this] show ?thesis by blast
qed

end
