(* ===== verification/Predicates.thy ===== *)
theory Predicates
  imports Prelude
begin

text \<open>
  \<open>wallee_v6/wallee_v6/predicates.py\<close>: the predicate language of legality and verification checks.
  A predicate is the JSON-like dictionary the source builds (\<open>atom\<close>, \<open>all_of\<close>, \<open>any_of\<close>, \<open>negate\<close>)
  and stores, so the evaluator works on \<open>pyval\<close> and raises where the source raises.  The theorems
  relate it to an abstract formula type: on well-formed predicates the evaluator is the three-valued
  reading of the formula in which a comparison of incomparable values is an exception and a missing
  fact makes an atom false.
\<close>

section \<open>Building predicates\<close>

definition atom :: "string \<Rightarrow> string \<Rightarrow> pyval \<Rightarrow> pyval" where
  "atom fct op v = PyDict [(''fact'', PyStr fct), (''op'', PyStr op), (''value'', v)]"

definition all_of :: "pyval list \<Rightarrow> pyval" where
  "all_of ps = PyDict [(''all'', PyList ps)]"

definition any_of :: "pyval list \<Rightarrow> pyval" where
  "any_of ps = PyDict [(''any'', PyList ps)]"

definition negate :: "pyval \<Rightarrow> pyval" where
  "negate p = PyDict [(''not'', p)]"

section \<open>The evaluator\<close>

text \<open>\<open>_ATOM_OPS\<close>: \<open>None\<close> for a string that is no operator.\<close>

definition atom_op :: "string \<Rightarrow> (pyval \<Rightarrow> pyval \<Rightarrow> pyexc + bool) option" where
  "atom_op op =
     (if op = ''=='' then Some (\<lambda>l r. Inr (py_eq l r))
      else if op = ''!='' then Some (\<lambda>l r. Inr (\<not> py_eq l r))
      else if op = ''>'' then Some (py_cmp Gt)
      else if op = ''>='' then Some (py_cmp Ge)
      else if op = ''<'' then Some (py_cmp Lt)
      else if op = ''<='' then Some (py_cmp Le)
      else None)"

text \<open>
  The atom case.  \<open>op not in _ATOM_OPS\<close> raises \<open>TypeError\<close> for an unhashable operator, and so does
  \<open>fact_name not in facts\<close> for an unhashable name; the keys of \<open>facts\<close> are strings.
\<close>

fun unhashable :: "pyval \<Rightarrow> bool" where
  "unhashable (PyList _) = True"
| "unhashable (PyDict _) = True"
| "unhashable _ = False"

definition eval_atom :: "pyrt \<Rightarrow> dict \<Rightarrow> dict \<Rightarrow> pyexc + bool" where
  "eval_atom rt d facts =
     (let fact_name = pget d ''fact''; op = pget d ''op''; expected = pget d ''value'';
          invalid = ValueError (''invalid predicate structure: '' @ py_repr rt (PyDict d))
      in if fact_name = PyNone then Inl invalid
         else if unhashable op then Inl (TypeError (''unhashable type: '' @ str_repr (type_name op)))
         else (case op of
             PyStr s \<Rightarrow> (case atom_op s of
                 None \<Rightarrow> Inl invalid
               | Some f \<Rightarrow>
                   if unhashable fact_name
                   then Inl (TypeError (''unhashable type: '' @ str_repr (type_name fact_name)))
                   else (case fact_name of
                       PyStr k \<Rightarrow> (case map_of facts k of
                           None \<Rightarrow> Inr False
                         | Some actual \<Rightarrow> f actual expected)
                     | _ \<Rightarrow> Inr False))
           | _ \<Rightarrow> Inl invalid))"

text \<open>
  \<open>evaluate\<close>.  A predicate that is no dictionary meets \<open>"all" in predicate\<close> and then fails: on a
  string the test is a substring test, on a list a membership test, on a number it raises.
  \<open>all(...)\<close> and \<open>any(...)\<close> stop at the first child that decides, or raises; their argument may be
  any iterable, so a string or a dictionary in its place is walked character by character, key by key.
\<close>

lemma size_map_of: "map_of d k = Some v \<Longrightarrow> size v < size_list (size_prod (\<lambda>_. 0) size) d + 1"
  by (induction d) (auto split: if_splits)

definition non_dict_error :: "pyval \<Rightarrow> pyexc" where
  "non_dict_error v = (case v of
      PyStr s \<Rightarrow> if contains ''all'' s \<or> contains ''any'' s \<or> contains ''not'' s
                then TypeError ''string indices must be integers''
                else no_attribute_get ''str''
    | PyList xs \<Rightarrow> if PyStr ''all'' \<in> set xs \<or> PyStr ''any'' \<in> set xs \<or> PyStr ''not'' \<in> set xs
                then TypeError ''list indices must be integers or slices, not str''
                else no_attribute_get ''list''
    | v \<Rightarrow> TypeError (''argument of type '' @ str_repr (type_name v) @ '' is not iterable''))"

fun str_children_error :: "pyval \<Rightarrow> pyexc option" where
  "str_children_error (PyStr []) = None"
| "str_children_error (PyStr (c # _)) = Some (non_dict_error (PyStr [c]))"
| "str_children_error (PyDict []) = None"
| "str_children_error (PyDict ((k, _) # _)) = Some (non_dict_error (PyStr k))"
| "str_children_error v = Some (TypeError (str_repr (type_name v) @ '' object is not iterable''))"

function (sequential) evaluate :: "pyrt \<Rightarrow> pyval \<Rightarrow> dict \<Rightarrow> pyexc + bool"
  and evaluate_all :: "pyrt \<Rightarrow> pyval list \<Rightarrow> dict \<Rightarrow> pyexc + bool"
  and evaluate_any :: "pyrt \<Rightarrow> pyval list \<Rightarrow> dict \<Rightarrow> pyexc + bool" where
  "evaluate rt PyNone facts = Inr True"
| "evaluate rt (PyDict d) facts =
     (case map_of d ''all'' of
        Some (PyList cs) \<Rightarrow> evaluate_all rt cs facts
      | Some v \<Rightarrow> (case str_children_error v of None \<Rightarrow> Inr True | Some e \<Rightarrow> Inl e)
      | None \<Rightarrow>
     (case map_of d ''any'' of
        Some (PyList cs) \<Rightarrow> evaluate_any rt cs facts
      | Some v \<Rightarrow> (case str_children_error v of None \<Rightarrow> Inr False | Some e \<Rightarrow> Inl e)
      | None \<Rightarrow>
     (case map_of d ''not'' of
        Some p \<Rightarrow> (case evaluate rt p facts of Inl e \<Rightarrow> Inl e | Inr b \<Rightarrow> Inr (\<not> b))
      | None \<Rightarrow> eval_atom rt d facts)))"
| "evaluate rt v facts = Inl (non_dict_error v)"
| "evaluate_all rt [] facts = Inr True"
| "evaluate_all rt (c # cs) facts =
     (case evaluate rt c facts of
        Inl e \<Rightarrow> Inl e
      | Inr b \<Rightarrow> if b then evaluate_all rt cs facts else Inr False)"
| "evaluate_any rt [] facts = Inr False"
| "evaluate_any rt (c # cs) facts =
     (case evaluate rt c facts of
        Inl e \<Rightarrow> Inl e
      | Inr b \<Rightarrow> if b then Inr True else evaluate_any rt cs facts)"
  by pat_completeness auto
termination
  by (relation "measure (case_sum (\<lambda>p. size (fst (snd p)))
        (case_sum (\<lambda>p. size_list size (fst (snd p))) (\<lambda>p. size_list size (fst (snd p)))))")
     (auto dest!: size_map_of)


text \<open>\<open>describe\<close>: the text of a predicate; the three keys of an atom must exist.\<close>

definition describe_atom :: "pyrt \<Rightarrow> dict \<Rightarrow> pyexc + string" where
  "describe_atom rt d = (case (map_of d ''fact'', map_of d ''op'', map_of d ''value'') of
      (Some f, Some op, Some v) \<Rightarrow> Inr (py_str rt f @ '' '' @ py_str rt op @ '' '' @ py_repr rt v)
    | (None, _, _) \<Rightarrow> Inl (KeyError ''fact'')
    | (_, None, _) \<Rightarrow> Inl (KeyError ''op'')
    | _ \<Rightarrow> Inl (KeyError ''value''))"

function (sequential) describe :: "pyrt \<Rightarrow> pyval \<Rightarrow> pyexc + string" where
  "describe rt PyNone = Inr ''always''"
| "describe rt (PyDict d) =
     (case map_of d ''all'' of
        Some (PyList cs) \<Rightarrow> bindR (mapR (\<lambda>c. describe rt c) cs)
          (\<lambda>ts. Inr (str_join '' AND '' (map (\<lambda>t. ''('' @ t @ '')'') ts)))
      | Some v \<Rightarrow> (case str_children_error v of None \<Rightarrow> Inr [] | Some e \<Rightarrow> Inl e)
      | None \<Rightarrow>
     (case map_of d ''any'' of
        Some (PyList cs) \<Rightarrow> bindR (mapR (\<lambda>c. describe rt c) cs)
          (\<lambda>ts. Inr (str_join '' OR '' (map (\<lambda>t. ''('' @ t @ '')'') ts)))
      | Some v \<Rightarrow> (case str_children_error v of None \<Rightarrow> Inr [] | Some e \<Rightarrow> Inl e)
      | None \<Rightarrow>
     (case map_of d ''not'' of
        Some p \<Rightarrow> bindR (describe rt p) (\<lambda>t. Inr (''NOT ('' @ t @ '')''))
      | None \<Rightarrow> describe_atom rt d)))"
| "describe rt v = Inl (non_dict_error v)"
  by pat_completeness auto
termination
  by (relation "measure (\<lambda>p. size (snd p))") (auto dest!: size_map_of intro: le_less_trans [OF size_list_estimation'])

section \<open>Abstract predicates\<close>

datatype formula =
    FTrue
  | FAtom string string pyval
  | FAll "formula list"
  | FAny "formula list"
  | FNot formula

fun encode :: "formula \<Rightarrow> pyval" where
  "encode FTrue = PyNone"
| "encode (FAtom k op v) = atom k op v"
| "encode (FAll ps) = all_of (map encode ps)"
| "encode (FAny ps) = any_of (map encode ps)"
| "encode (FNot p) = negate (encode p)"

definition atom_holds :: "(string \<rightharpoonup> pyval) \<Rightarrow> string \<Rightarrow> string \<Rightarrow> pyval \<Rightarrow> bool" where
  "atom_holds m k op v \<longleftrightarrow>
     (\<exists>actual f. m k = Some actual \<and> atom_op op = Some f \<and> f actual v = Inr True)"

fun sat :: "(string \<rightharpoonup> pyval) \<Rightarrow> formula \<Rightarrow> bool" where
  "sat m FTrue = True"
| "sat m (FAtom k op v) = atom_holds m k op v"
| "sat m (FAll ps) = (\<forall>p\<in>set ps. sat m p)"
| "sat m (FAny ps) = (\<exists>p\<in>set ps. sat m p)"
| "sat m (FNot p) = (\<not> sat m p)"

text \<open>Every operator is one of the six, and every comparison with a present fact is defined.\<close>

fun comparable :: "(string \<rightharpoonup> pyval) \<Rightarrow> formula \<Rightarrow> bool" where
  "comparable m FTrue = True"
| "comparable m (FAtom k op v) = (case atom_op op of
      None \<Rightarrow> False
    | Some f \<Rightarrow> (case m k of None \<Rightarrow> True | Some a \<Rightarrow> (\<exists>b. f a v = Inr b)))"
| "comparable m (FAll ps) = (\<forall>p\<in>set ps. comparable m p)"
| "comparable m (FAny ps) = (\<forall>p\<in>set ps. comparable m p)"
| "comparable m (FNot p) = comparable m p"

fun positive :: "formula \<Rightarrow> bool" where
  "positive FTrue = True"
| "positive (FAtom _ _ _) = True"
| "positive (FAll ps) = (\<forall>p\<in>set ps. positive p)"
| "positive (FAny ps) = (\<forall>p\<in>set ps. positive p)"
| "positive (FNot _) = False"

text \<open>The evaluator on the four constructors.\<close>

lemma evaluate_atom:
  "evaluate rt (atom k op v) facts =
     (case atom_op op of
        None \<Rightarrow> Inl (ValueError (''invalid predicate structure: '' @ py_repr rt (atom k op v)))
      | Some f \<Rightarrow> (case map_of facts k of None \<Rightarrow> Inr False | Some a \<Rightarrow> f a v))"
  by (simp add: atom_def eval_atom_def Let_def split: option.splits)

lemma evaluate_connectives [simp]:
  "evaluate rt (all_of ps) facts = evaluate_all rt ps facts"
  "evaluate rt (any_of ps) facts = evaluate_any rt ps facts"
  "evaluate rt (negate p) facts =
     (case evaluate rt p facts of Inl e \<Rightarrow> Inl e | Inr b \<Rightarrow> Inr (\<not> b))"
  by (simp_all add: all_of_def any_of_def negate_def)

lemma evaluate_all_sound:
  "(\<And>p. p \<in> set ps \<Longrightarrow> evaluate rt (g p) facts = Inr (h p))
   \<Longrightarrow> evaluate_all rt (map g ps) facts = Inr (\<forall>p\<in>set ps. h p)"
  by (induction ps) auto

lemma evaluate_any_sound:
  "(\<And>p. p \<in> set ps \<Longrightarrow> evaluate rt (g p) facts = Inr (h p))
   \<Longrightarrow> evaluate_any rt (map g ps) facts = Inr (\<exists>p\<in>set ps. h p)"
  by (induction ps) auto

lemma evaluate_encode:
  "comparable (map_of facts) p \<Longrightarrow> evaluate rt (encode p) facts = Inr (sat (map_of facts) p)"
proof (induction p)
  case (FAtom k op v)
  then show ?case
    by (auto simp: evaluate_atom atom_holds_def split: option.splits)
next
  case (FAll ps)
  then have "evaluate_all rt (map encode ps) facts = Inr (\<forall>p\<in>set ps. sat (map_of facts) p)"
    by (intro evaluate_all_sound) auto
  then show ?case by simp
next
  case (FAny ps)
  then have "evaluate_any rt (map encode ps) facts = Inr (\<exists>p\<in>set ps. sat (map_of facts) p)"
    by (intro evaluate_any_sound) auto
  then show ?case by simp
qed auto


definition unload_formula :: formula where
  "unload_formula = FAll [FAtom ''part_present'' ''=='' (PyBool True), FAtom ''part_temp_c'' ''<='' (PyInt 35)]"


section \<open>Missing facts\<close>

lemma evaluate_all_True:
  "evaluate_all rt ps facts = Inr True \<longleftrightarrow> (\<forall>p\<in>set ps. evaluate rt p facts = Inr True)"
  by (induction ps) (auto split: sum.splits)

text \<open>
  missing facts fail closed for conjunctions: when a list of preconditions contains an atom
  on a fact that is not observed, \<open>all_of\<close> never evaluates to true, whatever the other preconditions are.
\<close>

theorem all_of_missing_fails_closed:
  assumes "atom k op v \<in> set ps" and "map_of facts k = None"
  shows "evaluate rt (all_of ps) facts \<noteq> Inr True"
proof -
  have "evaluate rt (atom k op v) facts \<noteq> Inr True"
    using assms(2) by (simp add: evaluate_atom split: option.splits)
  with assms(1) show ?thesis by (auto simp: evaluate_all_True)
qed

theorem all_of_missing_fails_closed_witness:
  "evaluate sample_rt (all_of [atom ''arm_1.available'' ''=='' (PyBool True),
                        atom ''tray_A.state'' ''=='' (PyStr ''EMPTY'')])
     [(''arm_1.available'', PyBool True)] \<noteq> Inr True"
  by (rule all_of_missing_fails_closed [where k = "''tray_A.state''" and op = "''==''" and v = "PyStr ''EMPTY''"]) simp_all

text \<open>
  under \<open>not\<close> the same atom fails open: a negated atom on a missing fact evaluates to true,
  so the statement that missing facts fail closed holds for the atoms only and not for the language.
\<close>

theorem negated_missing_fails_open:
  assumes "map_of facts k = None" and "atom_op op \<noteq> None"
  shows "evaluate rt (negate (atom k op v)) facts = Inr True"
  using assms by (auto simp: evaluate_atom split: option.splits)

theorem negated_missing_fails_open_witness:
  "evaluate sample_rt (negate (atom ''printer_1.job_active'' ''=='' (PyBool True))) [] = Inr True"
  by (rule negated_missing_fails_open) (simp_all add: atom_op_def)

text \<open>
  predicates without \<open>not\<close> are monotone in what is observed: a check that passed keeps its
  answer when more facts are published and none of the old ones changes.
\<close>

theorem positive_monotone:
  assumes "positive p" and "map_of facts \<subseteq>\<^sub>m map_of facts'"
    and "comparable (map_of facts) p" and "comparable (map_of facts') p"
    and "evaluate rt (encode p) facts = Inr True"
  shows "evaluate rt (encode p) facts' = Inr True"
proof -
  have "sat (map_of facts) q \<Longrightarrow> sat (map_of facts') q" if "positive q" for q
    using that
  proof (induction q)
    case (FAtom k op v)
    then show ?case
      using assms(2) by (auto simp: atom_holds_def map_le_def dom_def)
  qed auto
  moreover have "sat (map_of facts) p"
    using assms(5) evaluate_encode [OF assms(3)] by simp
  ultimately show ?thesis
    using assms(1) evaluate_encode [OF assms(4)] by simp
qed

theorem positive_monotone_witness:
  "evaluate sample_rt (encode unload_formula)
     [(''part_present'', PyBool True), (''part_temp_c'', PyInt 30), (''mode'', PyStr ''IDLE'')] = Inr True"
  by (rule positive_monotone [where facts = "[(''part_present'', PyBool True), (''part_temp_c'', PyInt 30)]"])
    (auto simp: unload_formula_def map_le_def atom_op_def evaluate_atom float_le_def float_eq_def)

end
