(* ===== verification/Whiteboard.thy ===== *)
theory Whiteboard
  imports Prelude
begin

text \<open>
  \<open>wallee_v6/wallee_v6/whiteboard.py\<close>: the in-memory whiteboard.  The lock makes every method atomic,
  so each is one state transition; the record holds \<open>_values\<close>, \<open>_seq\<close> and \<open>_changes\<close>, and
  \<open>wb_reads\<close> counts the readings of the wall clock made so far (\<open>clk n\<close> is the n-th reading in
  milliseconds).  The interface \<open>BaseWhiteboard\<close> is the locale \<open>whiteboard_spec\<close>, whose client lemma is
  that a reader can rebuild the current values from an old snapshot and \<open>changes_since\<close>.
\<close>

type_synonym change = "nat \<times> string \<times> pyval \<times> pyval \<times> int"

record wb =
  wb_values :: dict
  wb_seq :: nat
  wb_changes :: "change list"
  wb_reads :: nat

record wb_snapshot =
  snap_values :: dict
  snap_sequence :: nat

definition new_whiteboard :: wb where
  "new_whiteboard = \<lparr>wb_values = [], wb_seq = 0, wb_changes = [], wb_reads = 0\<rparr>"

definition publish :: "(nat \<Rightarrow> int) \<Rightarrow> string \<Rightarrow> pyval \<Rightarrow> wb \<Rightarrow> nat \<times> wb" where
  "publish clk key value w =
     (let old = pget (wb_values w) key;
          sq = wb_seq w + 1
      in (sq, w\<lparr>wb_seq := sq,
                wb_values := dset key value (wb_values w),
                wb_changes := wb_changes w @ [(sq, key, old, value, clk (wb_reads w))],
                wb_reads := wb_reads w + 1\<rparr>))"

fun batch_loop :: "(nat \<Rightarrow> int) \<Rightarrow> dict \<Rightarrow> nat \<Rightarrow> wb \<Rightarrow> nat \<times> wb" where
  "batch_loop clk [] last_seq w = (last_seq, w)"
| "batch_loop clk ((key, value) # items) last_seq w =
     (let old = pget (wb_values w) key;
          sq = wb_seq w + 1;
          w' = w\<lparr>wb_seq := sq,
                 wb_values := dset key value (wb_values w),
                 wb_changes := wb_changes w @ [(sq, key, old, value, clk (wb_reads w))],
                 wb_reads := wb_reads w + 1\<rparr>
      in batch_loop clk items sq w')"

definition batch_publish :: "(nat \<Rightarrow> int) \<Rightarrow> dict \<Rightarrow> wb \<Rightarrow> nat \<times> wb" where
  "batch_publish clk mapping w = batch_loop clk mapping (wb_seq w) w"

definition wb_get :: "wb \<Rightarrow> string \<Rightarrow> pyval \<Rightarrow> pyval" where
  "wb_get w key dflt = dget_or (wb_values w) key dflt"

definition snapshot :: "wb \<Rightarrow> wb_snapshot" where
  "snapshot w = \<lparr>snap_values = wb_values w, snap_sequence = wb_seq w\<rparr>"

definition changes_since :: "wb \<Rightarrow> nat \<Rightarrow> change list" where
  "changes_since w sequence = filter (\<lambda>c. sequence < fst c) (wb_changes w)"

section \<open>The interface and its client\<close>

text \<open>
  What a reader relies on: publishing writes the value, appends one change with a fresh sequence
  number that records the previous value, and leaves the other keys alone.
\<close>

definition replay :: "change list \<Rightarrow> dict \<Rightarrow> dict" where
  "replay cs d = fold (\<lambda>(_, k, _, v, _). dset k v) cs d"

locale whiteboard_spec =
  fixes pub :: "string \<Rightarrow> pyval \<Rightarrow> 'w \<Rightarrow> nat \<times> 'w"
    and snap :: "'w \<Rightarrow> wb_snapshot"
    and since :: "'w \<Rightarrow> nat \<Rightarrow> change list"
    and wb_ok :: "'w \<Rightarrow> bool"
  assumes pub_ok: "wb_ok w \<Longrightarrow> wb_ok (snd (pub k v w))"
    and pub_values: "snap_values (snap (snd (pub k v w))) = dset k v (snap_values (snap w))"
    and pub_sequence: "snap_sequence (snap (snd (pub k v w))) = snap_sequence (snap w) + 1"
    and pub_since: "wb_ok w \<Longrightarrow> s \<le> snap_sequence (snap w) \<Longrightarrow>
      \<exists>t. since (snd (pub k v w)) s
        = since w s @ [(snap_sequence (snap w) + 1, k, pget (snap_values (snap w)) k, v, t)]"
    and since_now: "wb_ok w \<Longrightarrow> since w (snap_sequence (snap w)) = []"
begin

lemma pub_all_ok: "wb_ok w \<Longrightarrow> wb_ok (fold (\<lambda>(k, v) w. snd (pub k v w)) kvs w)"
  by (induction kvs arbitrary: w) (auto simp: pub_ok)

lemma pub_all_values:
  "snap_values (snap (fold (\<lambda>(k, v) w. snd (pub k v w)) kvs w)) = dict_update (snap_values (snap w)) kvs"
  by (induction kvs arbitrary: w) (auto simp: pub_values)

lemma pub_all_sequence:
  "snap_sequence (snap (fold (\<lambda>(k, v) w. snd (pub k v w)) kvs w)) = snap_sequence (snap w) + length kvs"
  by (induction kvs arbitrary: w) (auto simp: pub_sequence)

lemma since_pub_all:
  "wb_ok w \<Longrightarrow> s \<le> snap_sequence (snap w) \<Longrightarrow> replay (since w s) base = snap_values (snap w) \<Longrightarrow>
   replay (since (fold (\<lambda>(k, v) w. snd (pub k v w)) kvs w) s) base
     = snap_values (snap (fold (\<lambda>(k, v) w. snd (pub k v w)) kvs w))"
proof (induction kvs arbitrary: w)
  case (Cons p kvs)
  obtain k v where p: "p = (k, v)" by (cases p)
  obtain t where t: "since (snd (pub k v w)) s
      = since w s @ [(snap_sequence (snap w) + 1, k, pget (snap_values (snap w)) k, v, t)]"
    using pub_since [OF Cons.prems(1,2)] by blast
  have "replay (since (snd (pub k v w)) s) base = snap_values (snap (snd (pub k v w)))"
    using Cons.prems by (simp add: t replay_def pub_values)
  with Cons.IH [OF pub_ok [OF Cons.prems(1)]] Cons.prems show ?case
    by (simp add: p pub_sequence)
qed simp

text \<open>A reader that kept a snapshot catches up by replaying the changes after its sequence number.\<close>

lemma catch_up:
  assumes "wb_ok w"
  shows "replay (since (fold (\<lambda>(k, v) w. snd (pub k v w)) kvs w) (snap_sequence (snap w))) (snap_values (snap w))
         = snap_values (snap (fold (\<lambda>(k, v) w. snd (pub k v w)) kvs w))"
  using since_pub_all [OF assms order_refl, where base = "snap_values (snap w)"]
  by (simp add: since_now assms replay_def)

end

section \<open>The in-memory whiteboard meets the interface\<close>

definition seqs_ok :: "wb \<Rightarrow> bool" where
  "seqs_ok w \<longleftrightarrow> map fst (wb_changes w) = [1..<wb_seq w + 1]"

lemma seqs_ok_le:
  assumes "seqs_ok w" and "c \<in> set (wb_changes w)"
  shows "fst c \<le> wb_seq w"
proof -
  have "fst c \<in> set (map fst (wb_changes w))" using assms(2) by simp
  then show ?thesis unfolding assms(1) [unfolded seqs_ok_def] by auto
qed

lemma publish_simps:
  "wb_values (snd (publish clk k v w)) = dset k v (wb_values w)"
  "wb_seq (snd (publish clk k v w)) = wb_seq w + 1"
  "fst (publish clk k v w) = wb_seq w + 1"
  "wb_changes (snd (publish clk k v w))
    = wb_changes w @ [(wb_seq w + 1, k, pget (wb_values w) k, v, clk (wb_reads w))]"
  by (simp_all add: publish_def Let_def)

interpretation imwb: whiteboard_spec "publish clk" snapshot changes_since seqs_ok for clk
proof
  show "seqs_ok w \<Longrightarrow> seqs_ok (snd (publish clk k v w))" for w k v
    by (simp add: seqs_ok_def publish_simps)
  show "seqs_ok w \<Longrightarrow> changes_since w (snap_sequence (snapshot w)) = []" for w
    by (auto simp: changes_since_def snapshot_def filter_empty_conv not_less dest: seqs_ok_le)
  show "seqs_ok w \<Longrightarrow> s \<le> snap_sequence (snapshot w) \<Longrightarrow>
      \<exists>t. changes_since (snd (publish clk k v w)) s
        = changes_since w s @ [(snap_sequence (snapshot w) + 1, k, pget (snap_values (snapshot w)) k, v, t)]"
    for w k v s
    by (auto simp: changes_since_def publish_simps snapshot_def)
qed (simp_all add: snapshot_def publish_simps)

lemma batch_loop_eq:
  "batch_loop clk items lst w
   = (if items = [] then lst else wb_seq w + length items,
      fold (\<lambda>(k, v) w. snd (publish clk k v w)) items w)"
proof (induction clk items lst w rule: batch_loop.induct)
  case (2 clk key v items lst w)
  then show ?case by (simp add: Let_def publish_def)
qed simp

lemma batch_publish_eq:
  "batch_publish clk kvs w
   = (wb_seq w + length kvs, fold (\<lambda>(k, v) w. snd (publish clk k v w)) kvs w)"
  by (simp add: batch_publish_def batch_loop_eq)

lemma batch_values [simp]: "wb_values (snd (batch_publish clk kvs w)) = dict_update (wb_values w) kvs"
  using imwb.pub_all_values [of clk kvs w] by (simp add: batch_publish_eq snapshot_def)

text \<open>
  publishing a batch behaves as one publication per item: the sequence number grows by the
  number of items and is returned, and replaying \<open>changes_since\<close> of the old sequence number on the old
  snapshot gives the new snapshot, so a reader that polls misses nothing.
\<close>

theorem batch_publish_catch_up:
  assumes "seqs_ok w" and "batch_publish clk kvs w = (n, w')"
  shows "n = snap_sequence (snapshot w) + length kvs
       \<and> snap_sequence (snapshot w') = n
       \<and> replay (changes_since w' (snap_sequence (snapshot w))) (snap_values (snapshot w))
           = snap_values (snapshot w')
       \<and> seqs_ok w'"
  using assms(2) imwb.catch_up [OF assms(1), of clk kvs] imwb.pub_all_ok [OF assms(1), of clk kvs]
    imwb.pub_all_sequence [of clk kvs w]
  by (auto simp: batch_publish_eq snapshot_def)

theorem batch_publish_catch_up_witness:
  "let w = snd (publish (\<lambda>_. 5) ''a'' (PyInt 1) new_whiteboard);
       w' = snd (batch_publish (\<lambda>_. 7) [(''a'', PyInt 2), (''b'', PyNone)] w)
   in replay (changes_since w' 1) [(''a'', PyInt 1)] = [(''a'', PyInt 2), (''b'', PyNone)]"
proof -
  let ?w = "snd (publish (\<lambda>_. 5) ''a'' (PyInt 1) new_whiteboard)"
  have "seqs_ok ?w" by (simp add: seqs_ok_def publish_simps new_whiteboard_def)
  then show ?thesis
    using batch_publish_catch_up [OF _ surjective_pairing, of ?w "\<lambda>_. 7" "[(''a'', PyInt 2), (''b'', PyNone)]"]
    by (simp add: Let_def snapshot_def publish_simps new_whiteboard_def)
qed

end
