(* ===== verification/Rows.thy ===== *)
theory Rows
  imports Prelude
begin

text \<open>
  What the two databases of the program share: an SQLite table is the list of its rows in rowid order,
  a primary key is looked up and updated by \<open>find_row\<close> and \<open>update_row\<close>, \<open>ORDER BY\<close> is a stable sort,
  and a violated constraint is an \<open>IntegrityError\<close>.
\<close>

section \<open>Tables\<close>

definition find_row :: "('r \<Rightarrow> 'k) \<Rightarrow> 'k \<Rightarrow> 'r list \<Rightarrow> 'r option" where
  "find_row key k rows = find (\<lambda>r. key r = k) rows"

definition update_row :: "('r \<Rightarrow> 'k) \<Rightarrow> 'k \<Rightarrow> ('r \<Rightarrow> 'r) \<Rightarrow> 'r list \<Rightarrow> 'r list" where
  "update_row key k f rows = map (\<lambda>r. if key r = k then f r else r) rows"

definition unique_failed :: "string \<Rightarrow> pyexc" where
  "unique_failed column = IntegrityError (''UNIQUE constraint failed: '' @ column)"

definition foreign_key_failed :: pyexc where
  "foreign_key_failed = IntegrityError ''FOREIGN KEY constraint failed''"

definition sql_limit :: "int \<Rightarrow> 'r list \<Rightarrow> 'r list" where
  "sql_limit n rows = (if n < 0 then rows else take (nat n) rows)"

definition order_desc :: "('r \<Rightarrow> 'v :: linordered_idom) \<Rightarrow> 'r list \<Rightarrow> 'r list" where
  "order_desc key rows = sort_key (\<lambda>r. - key r) rows"

section \<open>Rows by key\<close>

lemma find_row_simps [simp]:
  "find_row key k [] = None"
  "find_row key k (r # rows) = (if key r = k then Some r else find_row key k rows)"
  by (simp_all add: find_row_def)

lemma find_row_append: "find_row key k (xs @ ys) = (case find_row key k xs of None \<Rightarrow> find_row key k ys | Some r \<Rightarrow> Some r)"
  by (induction xs) simp_all

lemma find_row_key: "find_row key k rows = Some r \<Longrightarrow> key r = k \<and> r \<in> set rows"
  by (induction rows) (auto split: if_splits)

lemma find_row_None: "find_row key k rows = None \<longleftrightarrow> k \<notin> key ` set rows"
  by (induction rows) auto

lemma find_row_distinct: "distinct (map key rows) \<Longrightarrow> find_row key k rows = Some r \<longleftrightarrow> r \<in> set rows \<and> key r = k"
  by (induction rows) (auto simp: image_iff)

lemma find_row_filter: "find_row key k (filter P rows) = Some r \<Longrightarrow> r \<in> set rows \<and> key r = k \<and> P r"
  by (induction rows) (auto split: if_splits)

lemma find_row_filter_keep:
  "(\<And>r. r \<in> set rows \<Longrightarrow> key r = k \<Longrightarrow> P r) \<Longrightarrow> find_row key k (filter P rows) = find_row key k rows"
  by (induction rows) auto

lemma find_update_row:
  assumes "\<And>r. key r = k \<Longrightarrow> key (f r) = k"
  shows "find_row key k' (update_row key k f rows)
    = (if k' = k then map_option f (find_row key k rows) else find_row key k' rows)"
  using assms by (induction rows) (auto simp: update_row_def)

lemma update_row_keys: "(\<And>r. key r = k \<Longrightarrow> key (f r) = k) \<Longrightarrow> map key (update_row key k f rows) = map key rows"
  by (induction rows) (auto simp: update_row_def)

lemma set_update_row: "set (update_row key k f rows) \<subseteq> set rows \<union> f ` {r \<in> set rows. key r = k}"
  by (auto simp: update_row_def)

end
