(* ===== verification/RuntimeDb.thy ===== *)
theory RuntimeDb
  imports Ids Models Rows
begin

text \<open>
  \<open>wallee_v6/wallee_v6/runtime_db.py\<close>: the durable database.  Each SQLite table is the list of its rows
  in rowid order; a JSON column holds the value with sorted keys, which is what \<open>json.loads\<close> of the
  stored canonical text returns; primary and foreign keys raise \<open>IntegrityError\<close> and leave the table
  unchanged.  The lock makes every method one transition, and every writing method commits before it
  returns.  \<open>clk n\<close> is the n-th reading of the wall clock (\<open>db_reads\<close> counts them).  \<open>ORDER BY\<close>
  is a stable sort: rows with equal keys keep their rowid order.  Schema creation and migration are not
  modelled.
\<close>

record event =
  ev_event_id :: nat
  ev_ts_ms :: int
  ev_component :: string
  ev_level :: string
  ev_message :: string
  ev_context :: dict

record db =
  db_plans :: "plan_record list"
  db_runs :: "action_run list"
  db_approvals :: "approval_record list"
  db_journal :: "journal_entry list"
  db_events :: "event list"
  db_next_event :: nat
  db_reads :: nat

definition empty_db :: db where
  "empty_db = \<lparr>db_plans = [], db_runs = [], db_approvals = [], db_journal = [], db_events = [],
     db_next_event = 1, db_reads = 0\<rparr>"

fun allowed_transitions :: "run_status \<Rightarrow> run_status list" where
  "allowed_transitions PROPOSED = [WAITING_APPROVAL, AUTHORIZED, ABORTED]"
| "allowed_transitions WAITING_APPROVAL = [AUTHORIZED, ABORTED]"
| "allowed_transitions AUTHORIZED = [DISPATCHED, ABORTED]"
| "allowed_transitions DISPATCHED = [DONE, FAILED, REPLAN_REQUIRED, UNKNOWN]"
| "allowed_transitions DONE = []"
| "allowed_transitions FAILED = []"
| "allowed_transitions ABORTED = []"
| "allowed_transitions REPLAN_REQUIRED = []"
| "allowed_transitions UNKNOWN = [FAILED, REPLAN_REQUIRED]"

section \<open>Rows\<close>

text \<open>What a JSON column gives back.\<close>

definition norm_plan :: "plan_record \<Rightarrow> plan_record" where
  "norm_plan p = p\<lparr>pr_world_packet := norm_dict (pr_world_packet p),
     pr_world_compilation := norm_dict (pr_world_compilation p), pr_plan_ir := norm_dict (pr_plan_ir p)\<rparr>"

definition norm_run :: "action_run \<Rightarrow> action_run" where
  "norm_run r = r\<lparr>ar_args := norm_dict (ar_args r), ar_verify := json_norm (ar_verify r),
     ar_expected_delta := map json_norm (ar_expected_delta r), ar_result := map_option norm_dict (ar_result r),
     ar_error := map_option norm_dict (ar_error r)\<rparr>"

section \<open>Plans and action runs\<close>

definition db_now_ms :: "(nat \<Rightarrow> int) \<Rightarrow> (db, int) act" where
  "db_now_ms clk s = (Inr (clk (db_reads s)), s\<lparr>db_reads := db_reads s + 1\<rparr>)"

definition clear_runtime_state :: "(db, unit) act" where
  "clear_runtime_state = modify (\<lambda>s. s\<lparr>db_plans := [], db_runs := [], db_approvals := [], db_journal := [], db_events := []\<rparr>)"

text \<open>\<open>INSERT OR REPLACE\<close> deletes the old plan first; the foreign keys cascade.\<close>

definition delete_plan :: "string \<Rightarrow> db \<Rightarrow> db" where
  "delete_plan plan_id s =
     (let gone = map ar_action_run_id (filter (\<lambda>r. ar_plan_id r = plan_id) (db_runs s))
      in s\<lparr>db_plans := filter (\<lambda>p. pr_plan_id p \<noteq> plan_id) (db_plans s),
           db_runs := filter (\<lambda>r. ar_plan_id r \<noteq> plan_id) (db_runs s),
           db_approvals := filter (\<lambda>a. ap_action_run_id a \<notin> set gone) (db_approvals s)\<rparr>)"

definition store_plan :: "plan_record \<Rightarrow> (db, unit) act" where
  "store_plan record = modify (\<lambda>s. let s = delete_plan (pr_plan_id record) s
     in s\<lparr>db_plans := db_plans s @ [norm_plan record]\<rparr>)"

definition get_plan_run_scope :: "string \<Rightarrow> (db, string option) act" where
  "get_plan_run_scope plan_id = gets (\<lambda>s. case find_row pr_plan_id plan_id (db_plans s) of
      None \<Rightarrow> None
    | Some p \<Rightarrow> (case pr_run_scope p of None \<Rightarrow> None | Some scope \<Rightarrow> nonempty (str_strip scope)))"

definition create_action_run :: "action_run \<Rightarrow> (db, unit) act" where
  "create_action_run run s =
     (if find_row ar_action_run_id (ar_action_run_id run) (db_runs s) \<noteq> None
        then (Inl (unique_failed ''action_runs.action_run_id''), s)
      else if find_row pr_plan_id (ar_plan_id run) (db_plans s) = None then (Inl foreign_key_failed, s)
      else (Inr (), s\<lparr>db_runs := db_runs s @ [norm_run run]\<rparr>))"

definition get_action_run :: "string \<Rightarrow> (db, action_run option) act" where
  "get_action_run action_run_id = gets (\<lambda>s. find_row ar_action_run_id action_run_id (db_runs s))"

text \<open>
  The new value of a JSON column: \<open>canonical_json(new) if new is not None else old and canonical_json(old)\<close>.
  An old empty dictionary is falsy, so the dictionary itself is bound and SQLite refuses it.
\<close>

definition keep_column :: "dict option \<Rightarrow> dict option \<Rightarrow> pyexc + dict option" where
  "keep_column new old = (case new of
      Some d \<Rightarrow> Inr (Some (norm_dict d))
    | None \<Rightarrow> if old = Some []
        then Inl (PyExc ''InterfaceError'' ''Error binding parameter - probably unsupported type.'')
        else Inr old)"

definition transition_action_run ::
    "(nat \<Rightarrow> int) \<Rightarrow> string \<Rightarrow> run_status \<Rightarrow> dict option \<Rightarrow> dict option \<Rightarrow> (db, action_run) act" where
  "transition_action_run clk action_run_id new_status result err =
     bindE (get_action_run action_run_id) (\<lambda>current. case current of
         None \<Rightarrow> raise (KeyError (''unknown action_run_id='' @ action_run_id))
       | Some current \<Rightarrow>
           if new_status \<notin> set (allowed_transitions (ar_status current))
           then raise (ValueError (''illegal transition '' @ status_value (ar_status current) @ '' -> '' @ status_value new_status))
           else bindE (db_now_ms clk) (\<lambda>updated_ts_ms.
                bindE (liftE (keep_column result (ar_result current))) (\<lambda>result.
                bindE (liftE (keep_column err (ar_error current))) (\<lambda>err.
                let change = (\<lambda>r. r\<lparr>ar_status := new_status, ar_updated_ts_ms := updated_ts_ms, ar_result := result, ar_error := err\<rparr>)
                in bindE (modify (\<lambda>s. s\<lparr>db_runs := update_row ar_action_run_id action_run_id change (db_runs s)\<rparr>)) (\<lambda>_.
                   ret (change current))))))"

definition list_action_runs_by_status :: "run_status list \<Rightarrow> (db, action_run list) act" where
  "list_action_runs_by_status statuses =
     gets (\<lambda>s. sort_key ar_created_ts_ms (filter (\<lambda>r. ar_status r \<in> set statuses) (db_runs s)))"

definition list_action_runs_for_scope :: "string \<Rightarrow> (db, action_run list) act" where
  "list_action_runs_for_scope scope =
     gets (\<lambda>s. sort_key ar_created_ts_ms (filter (\<lambda>r. ar_run_scope r = Some scope) (db_runs s)))"

section \<open>Approvals and events\<close>

definition record_approval :: "approval_record \<Rightarrow> (db, unit) act" where
  "record_approval a s =
     (if find_row ap_approval_id (ap_approval_id a) (db_approvals s) \<noteq> None
        then (Inl (unique_failed ''approvals.approval_id''), s)
      else if find_row ar_action_run_id (ap_action_run_id a) (db_runs s) = None then (Inl foreign_key_failed, s)
      else (Inr (), s\<lparr>db_approvals := db_approvals s @ [a]\<rparr>))"

text \<open>\<open>now_ts_ms or self._now_ms()\<close>: a given zero also reads the clock.\<close>

definition has_valid_approval :: "(nat \<Rightarrow> int) \<Rightarrow> string \<Rightarrow> string \<Rightarrow> int option \<Rightarrow> (db, bool) act" where
  "has_valid_approval clk action_run_id args_hash now_ts_ms =
     bindE (if now_ts_ms = None \<or> now_ts_ms = Some 0 then db_now_ms clk else ret (the now_ts_ms)) (\<lambda>ts_ms.
       gets (\<lambda>s. list_ex (\<lambda>a. ap_action_run_id a = action_run_id \<and> ap_args_hash a = args_hash
         \<and> ap_decision a = APPROVE \<and> ts_ms \<le> ap_expires_ts_ms a) (db_approvals s)))"

definition record_event :: "(nat \<Rightarrow> int) \<Rightarrow> string \<Rightarrow> string \<Rightarrow> string \<Rightarrow> dict \<Rightarrow> (db, unit) act" where
  "record_event clk component level message ctx =
     bindE (db_now_ms clk) (\<lambda>ts. modify (\<lambda>s. s\<lparr>
       db_events := db_events s @ [\<lparr>ev_event_id = db_next_event s, ev_ts_ms = ts, ev_component = component,
         ev_level = level, ev_message = message, ev_context = norm_dict ctx\<rparr>],
       db_next_event := db_next_event s + 1\<rparr>))"

section \<open>Completed actions\<close>

definition terminal_report_statuses :: "run_status list" where
  "terminal_report_statuses = [DONE, FAILED, REPLAN_REQUIRED, ABORTED]"

definition opt_dict :: "dict option \<Rightarrow> pyval" where
  "opt_dict d = PyDict (case d of None \<Rightarrow> [] | Some d \<Rightarrow> d)"

definition completed_row :: "pyrt \<Rightarrow> action_run \<times> plan_record \<Rightarrow> pyexc + dict" where
  "completed_row rt p = (case p of (r, plan) \<Rightarrow>
     bindR (py_iter (por (pget (pr_plan_ir plan) ''sequence'') (PyList []))) (\<lambda>sequence.
       Inr [(''action_id'', PyStr (ar_action_id r)), (''run_scope'', opt_str (ar_run_scope r)),
         (''verb'', PyStr (ar_verb r)), (''status'', PyStr (status_value (ar_status r))),
         (''result'', opt_dict (ar_result r)), (''error'', opt_dict (ar_error r)),
         (''updated_ts_ms'', PyInt (ar_updated_ts_ms r)),
         (''plan_why'', opt_str (nonempty (text_of rt (pget (pr_plan_ir plan) ''why'')))),
         (''plan_decision'', opt_str (nonempty (text_of rt (pget (pr_plan_ir plan) ''decision'')))),
         (''plan_sequence'', PyList sequence)]))"

text \<open>The rows of the join, newest first.\<close>

definition completed_join :: "(action_run \<Rightarrow> bool) \<Rightarrow> db \<Rightarrow> (action_run \<times> plan_record) list" where
  "completed_join P s = order_desc (\<lambda>(r, _). ar_updated_ts_ms r)
     [(r, p). r \<leftarrow> db_runs s, p \<leftarrow> db_plans s, pr_plan_id p = ar_plan_id r,
        ar_status r \<in> set terminal_report_statuses, P r]"

definition latest_completed_action :: "pyrt \<Rightarrow> (db, dict) act" where
  "latest_completed_action rt s = (case completed_join (\<lambda>_. True) s of
      [] \<Rightarrow> (Inr [], s) | row # _ \<Rightarrow> (completed_row rt row, s))"

definition fetch_completed :: "pyrt \<Rightarrow> string option \<Rightarrow> int \<Rightarrow> db \<Rightarrow> pyexc + dict list" where
  "fetch_completed rt scope limit s =
     mapR (completed_row rt) (sql_limit limit (completed_join
       (case scope of None \<Rightarrow> (\<lambda>_. True) | Some sc \<Rightarrow> if sc = [] then (\<lambda>_. True) else (\<lambda>r. ar_run_scope r = Some sc)) s))"

definition recent_completed_actions :: "pyrt \<Rightarrow> string option \<Rightarrow> int \<Rightarrow> (db, dict list) act" where
  "recent_completed_actions rt run_scope limit s =
     (bindR (fetch_completed rt run_scope limit s) (\<lambda>scoped.
        if scoped \<noteq> [] \<or> run_scope = None then Inr scoped else fetch_completed rt None limit s), s)"

section \<open>The execution journal\<close>

definition get_exec_journal :: "string \<Rightarrow> (db, journal_entry option) act" where
  "get_exec_journal key = gets (\<lambda>s. find_row je_idempotency_key key (db_journal s))"

definition start_exec_journal :: "string \<Rightarrow> string \<Rightarrow> string \<Rightarrow> string \<Rightarrow> int \<Rightarrow> (db, journal_entry) act" where
  "start_exec_journal key action_run_id verb args_hash started_mono_ms =
     bindE (get_exec_journal key) (\<lambda>existing. case existing of
         Some e \<Rightarrow> ret e
       | None \<Rightarrow>
           let e = \<lparr>je_idempotency_key = key, je_action_run_id = action_run_id, je_verb = verb, je_args_hash = args_hash,
                    je_exec_state = IN_FLIGHT, je_started_mono_ms = started_mono_ms, je_ended_mono_ms = None,
                    je_result = None, je_error = None\<rparr>
           in bindE (modify (\<lambda>s. s\<lparr>db_journal := db_journal s @ [e]\<rparr>)) (\<lambda>_. ret e))"

text \<open>An unknown key updates nothing, and the method then returns \<open>None\<close>.\<close>

definition finish_exec_journal ::
    "string \<Rightarrow> journal_status \<Rightarrow> int \<Rightarrow> dict option \<Rightarrow> dict option \<Rightarrow> (db, journal_entry option) act" where
  "finish_exec_journal key new_status ended_mono_ms result err =
     bindE (modify (\<lambda>s. s\<lparr>db_journal := update_row je_idempotency_key key (\<lambda>e. e\<lparr>je_exec_state := new_status,
         je_ended_mono_ms := Some ended_mono_ms, je_result := map_option norm_dict result,
         je_error := map_option norm_dict err\<rparr>) (db_journal s)\<rparr>)) (\<lambda>_. get_exec_journal key)"

section \<open>What the columns keep\<close>

lemma norm_keys [simp]:
  "pr_plan_id (norm_plan p) = pr_plan_id p" "ar_action_run_id (norm_run r) = ar_action_run_id r"
  "ar_plan_id (norm_run r) = ar_plan_id r" "ar_status (norm_run r) = ar_status r"
  "ar_args_hash (norm_run r) = ar_args_hash r" "ar_idempotency_key (norm_run r) = ar_idempotency_key r"
  by (simp_all add: norm_plan_def norm_run_def)

section \<open>Integrity\<close>

definition db_ok :: "db \<Rightarrow> bool" where
  "db_ok s \<longleftrightarrow> distinct (map pr_plan_id (db_plans s)) \<and> distinct (map ar_action_run_id (db_runs s))
     \<and> distinct (map ap_approval_id (db_approvals s)) \<and> distinct (map je_idempotency_key (db_journal s))
     \<and> ar_plan_id ` set (db_runs s) \<subseteq> pr_plan_id ` set (db_plans s)
     \<and> ap_action_run_id ` set (db_approvals s) \<subseteq> ar_action_run_id ` set (db_runs s)
     \<and> sorted_wrt (<) (map ev_event_id (db_events s)) \<and> (\<forall>e\<in>set (db_events s). ev_event_id e < db_next_event s)"

lemma distinct_map_filter': "distinct (map f xs) \<Longrightarrow> distinct (map f (filter P xs))"
  by (induction xs) auto

lemma db_ok_empty [simp]: "db_ok empty_db"
  by (simp add: db_ok_def empty_db_def)

lemma db_now_ms_ok [preserves_intros]: "preserves db_ok (db_now_ms clk)"
  by (rule preservesI) (simp add: db_now_ms_def db_ok_def)

lemma store_plan_ok [preserves_intros]: "preserves db_ok (store_plan p)"
proof (rule preservesI)
  fix s assume ok: "db_ok s"
  let ?s = "delete_plan (pr_plan_id p) s"
  have "db_ok ?s"
    unfolding db_ok_def
  proof (intro conjI)
    show "ar_plan_id ` set (db_runs ?s) \<subseteq> pr_plan_id ` set (db_plans ?s)"
    proof (rule image_subsetI)
      fix r assume "r \<in> set (db_runs ?s)"
      then have r: "r \<in> set (db_runs s)" "ar_plan_id r \<noteq> pr_plan_id p" by (auto simp: delete_plan_def Let_def)
      then obtain q where "q \<in> set (db_plans s)" "pr_plan_id q = ar_plan_id r"
        using ok unfolding db_ok_def by (metis imageE image_subset_iff)
      with r show "ar_plan_id r \<in> pr_plan_id ` set (db_plans ?s)"
        by (auto simp: delete_plan_def Let_def intro!: image_eqI [of _ _ q])
    qed
    show "ap_action_run_id ` set (db_approvals ?s) \<subseteq> ar_action_run_id ` set (db_runs ?s)"
    proof (rule image_subsetI)
      fix a assume "a \<in> set (db_approvals ?s)"
      then have a: "a \<in> set (db_approvals s)"
        "\<And>r. r \<in> set (db_runs s) \<Longrightarrow> ar_action_run_id r = ap_action_run_id a \<Longrightarrow> ar_plan_id r \<noteq> pr_plan_id p"
        by (auto simp: delete_plan_def Let_def image_iff)
      then obtain r where "r \<in> set (db_runs s)" "ar_action_run_id r = ap_action_run_id a"
        using ok unfolding db_ok_def by (metis imageE image_subset_iff)
      with a(2) show "ap_action_run_id a \<in> ar_action_run_id ` set (db_runs ?s)"
        by (auto simp: delete_plan_def Let_def intro!: image_eqI [of _ _ r])
    qed
  qed (use ok in \<open>simp_all add: db_ok_def delete_plan_def Let_def distinct_map_filter'\<close>)
  moreover have "pr_plan_id p \<notin> pr_plan_id ` set (db_plans ?s)"
    by (auto simp: delete_plan_def Let_def)
  ultimately show "db_ok (snd (store_plan p s))"
    by (auto simp: store_plan_def act_simps db_ok_def Let_def)
qed

lemma create_action_run_ok [preserves_intros]: "preserves db_ok (create_action_run r)"
  by (rule preservesI)
    (simp add: create_action_run_def db_ok_def find_row_None image_subset_iff del: not_None_eq)

lemma record_approval_ok [preserves_intros]: "preserves db_ok (record_approval a)"
  by (rule preservesI)
    (simp add: record_approval_def db_ok_def find_row_None image_subset_iff del: not_None_eq)

lemma record_event_ok [preserves_intros]: "preserves db_ok (record_event clk c l m ctx)"
  by (rule preservesI)
    (auto simp: record_event_def act_simps bindE_def db_now_ms_def db_ok_def sorted_wrt_append less_SucI)

lemma transition_modify_ok:
  assumes "\<And>r. ar_action_run_id (f r) = ar_action_run_id r" and "\<And>r. ar_plan_id (f r) = ar_plan_id r" and "db_ok s"
  shows "db_ok (s\<lparr>db_runs := update_row ar_action_run_id k f (db_runs s)\<rparr>)"
proof -
  have keys: "map ar_action_run_id (update_row ar_action_run_id k f (db_runs s)) = map ar_action_run_id (db_runs s)"
    by (rule update_row_keys) (simp add: assms)
  have plans: "map ar_plan_id (update_row ar_action_run_id k f (db_runs s)) = map ar_plan_id (db_runs s)"
    by (simp add: update_row_def assms)
  show ?thesis
    using assms(3) arg_cong [OF keys, of set, unfolded set_map] arg_cong [OF plans, of set, unfolded set_map]
    by (simp add: db_ok_def keys)
qed

lemma transition_ok [preserves_intros]: "preserves db_ok (transition_action_run clk rid st res err)"
  unfolding transition_action_run_def get_action_run_def Let_def
  by (intro preserves_intros transition_modify_ok) simp_all

lemma start_journal_ok [preserves_intros]: "preserves db_ok (start_exec_journal k r v h t)"
  by (rule preservesI) (auto simp: start_exec_journal_def get_exec_journal_def act_simps bindE_def db_ok_def
      find_row_None Let_def split: option.splits)

lemma finish_journal_ok [preserves_intros]: "preserves db_ok (finish_exec_journal k st t res err)"
proof (rule preservesI)
  fix s assume "db_ok s"
  then show "db_ok (snd (finish_exec_journal k st t res err s))"
    by (simp add: finish_exec_journal_def get_exec_journal_def act_simps bindE_def db_ok_def update_row_keys)
qed

lemma has_valid_approval_ok [preserves_intros]: "preserves db_ok (has_valid_approval clk r h n)"
  unfolding has_valid_approval_def by (intro preserves_intros)

lemma clear_ok [preserves_intros]: "preserves db_ok clear_runtime_state"
  by (rule preservesI) (simp add: clear_runtime_state_def act_simps db_ok_def)

section \<open>The journal interface\<close>

text \<open>
  What the packs rely on: a key is opened once, opening it again returns the entry and changes nothing,
  closing it changes that entry only.
\<close>

locale journal_spec =
  fixes lookup :: "'s \<Rightarrow> string \<Rightarrow> journal_entry option"
    and start :: "string \<Rightarrow> string \<Rightarrow> string \<Rightarrow> string \<Rightarrow> int \<Rightarrow> ('s, journal_entry) act"
    and finish :: "string \<Rightarrow> journal_status \<Rightarrow> int \<Rightarrow> dict option \<Rightarrow> dict option \<Rightarrow> ('s, journal_entry option) act"
  assumes start_old: "lookup s k = Some e \<Longrightarrow> start k r v h t s = (Inr e, s)"
    and start_new: "lookup s k = None \<Longrightarrow> \<exists>e s'. start k r v h t s = (Inr e, s') \<and> lookup s' = (lookup s)(k \<mapsto> e)
      \<and> je_exec_state e = IN_FLIGHT \<and> je_action_run_id e = r \<and> je_args_hash e = h \<and> je_result e = None"
    and finish_known: "lookup s k = Some e \<Longrightarrow> \<exists>e' s'. finish k st t res err s = (Inr (Some e'), s')
      \<and> lookup s' = (lookup s)(k \<mapsto> e') \<and> je_exec_state e' = st \<and> je_action_run_id e' = je_action_run_id e
      \<and> je_args_hash e' = je_args_hash e \<and> je_result e' = map_option norm_dict res
      \<and> je_error e' = map_option norm_dict err"
begin

lemma start_lookup:
  assumes "start k r v h t s = (Inr e, s')"
  shows "lookup s' k = Some e \<and> (\<forall>k'. k' \<noteq> k \<longrightarrow> lookup s' k' = lookup s k')"
proof (cases "lookup s k")
  case None
  from start_new [OF this, of r v h t] assms show ?thesis by auto
next
  case (Some a)
  from start_old [OF this, of r v h t] assms Some show ?thesis by auto
qed

lemma start_total: "\<exists>e s'. start k r v h t s = (Inr e, s')"
  using start_old start_new by (cases "lookup s k") blast+

text \<open>Opening a key twice: the second call sees the entry of the first, whatever it is asked for.\<close>

lemma start_twice:
  "start k r v h t s = (Inr e, s') \<Longrightarrow> start k r' v' h' t' s' = (Inr e, s')"
  using start_lookup start_old by blast

text \<open>After the entry is closed, a retry sees the outcome and never \<open>IN_FLIGHT\<close> again.\<close>

lemma start_finish_start:
  assumes "start k r v h t s = (Inr e, s1)" and "finish k st t1 res err s1 = (Inr e1, s2)"
  shows "\<exists>e2. e1 = Some e2 \<and> start k r' v' h' t' s2 = (Inr e2, s2) \<and> je_exec_state e2 = st
    \<and> je_result e2 = map_option norm_dict res \<and> (\<forall>k'. k' \<noteq> k \<longrightarrow> lookup s2 k' = lookup s k')"
proof -
  have e: "lookup s1 k = Some e" "\<And>k'. k' \<noteq> k \<Longrightarrow> lookup s1 k' = lookup s k'"
    using start_lookup [OF assms(1)] by simp_all
  from finish_known [OF e(1), of st t1 res err] assms(2) obtain e2 where
    "e1 = Some e2" "lookup s2 = (lookup s1)(k \<mapsto> e2)" "je_exec_state e2 = st" "je_result e2 = map_option norm_dict res"
    by auto
  with e(2) start_old [of s2 k e2] show ?thesis by simp
qed

end

definition journal_lookup :: "db \<Rightarrow> string \<Rightarrow> journal_entry option" where
  "journal_lookup s k = find_row je_idempotency_key k (db_journal s)"

interpretation dbj: journal_spec journal_lookup start_exec_journal finish_exec_journal
proof
  show "journal_lookup s k = Some e \<Longrightarrow> start_exec_journal k r v h t s = (Inr e, s)" for s k e r v h t
    by (simp add: journal_lookup_def start_exec_journal_def get_exec_journal_def act_simps)
  show "journal_lookup s k = None \<Longrightarrow> \<exists>e s'. start_exec_journal k r v h t s = (Inr e, s')
      \<and> journal_lookup s' = (journal_lookup s)(k \<mapsto> e) \<and> je_exec_state e = IN_FLIGHT \<and> je_action_run_id e = r
      \<and> je_args_hash e = h \<and> je_result e = None" for s k r v h t
    by (auto simp: journal_lookup_def start_exec_journal_def get_exec_journal_def act_simps Let_def
        find_row_append fun_eq_iff split: option.split)
  show "journal_lookup s k = Some e \<Longrightarrow> \<exists>e' s'. finish_exec_journal k st t res err s = (Inr (Some e'), s')
      \<and> journal_lookup s' = (journal_lookup s)(k \<mapsto> e') \<and> je_exec_state e' = st \<and> je_action_run_id e' = je_action_run_id e
      \<and> je_args_hash e' = je_args_hash e \<and> je_result e' = map_option norm_dict res
      \<and> je_error e' = map_option norm_dict err" for s k e st t res err
    by (auto simp: journal_lookup_def finish_exec_journal_def get_exec_journal_def act_simps
        find_update_row fun_eq_iff)
qed

text \<open>
  primary keys stay unique and foreign keys stay satisfied: every operation of the database, also one
  that raises in the middle, leaves a database in which every run has its plan and every approval its run.
\<close>

theorem db_operations_keep_integrity:
  "preserves db_ok (store_plan p) \<and> preserves db_ok (create_action_run r)
   \<and> preserves db_ok (transition_action_run clk rid st res err) \<and> preserves db_ok (record_approval a)
   \<and> preserves db_ok (record_event clk component level message ctx)
   \<and> preserves db_ok (start_exec_journal key rid verb h t) \<and> preserves db_ok (finish_exec_journal key jst t res err)
   \<and> preserves db_ok (has_valid_approval clk rid h now) \<and> preserves db_ok clear_runtime_state"
  by (intro conjI preserves_intros)

section \<open>Transitions\<close>

definition db_transition :: "string \<Rightarrow> run_status \<Rightarrow> int \<Rightarrow> dict option \<Rightarrow> dict option \<Rightarrow> action_run \<Rightarrow> action_run" where
  "db_transition rid st ts res err r =
     r\<lparr>ar_status := st, ar_updated_ts_ms := ts, ar_result := res, ar_error := err\<rparr>"

lemma keep_column_Inr:
  "keep_column new old = Inr c \<Longrightarrow> c = (case new of Some d \<Rightarrow> Some (norm_dict d) | None \<Rightarrow> old)"
  by (auto simp: keep_column_def split: option.splits if_splits)

lemma keep_column_raises: "keep_column new old = Inl e \<longleftrightarrow>
    new = None \<and> old = Some [] \<and> e = PyExc ''InterfaceError'' ''Error binding parameter - probably unsupported type.''"
  by (auto simp: keep_column_def split: option.splits)

text \<open>The possible outcomes of a transition.\<close>

lemma transition_cases:
  assumes "transition_action_run clk rid st res err s = (x, s')"
  obtains
    (unknown) "find_row ar_action_run_id rid (db_runs s) = None" "s' = s"
      "x = Inl (KeyError (''unknown action_run_id='' @ rid))"
  | (illegal) r where "find_row ar_action_run_id rid (db_runs s) = Some r"
      "st \<notin> set (allowed_transitions (ar_status r))" "s' = s"
      "x = Inl (ValueError (''illegal transition '' @ status_value (ar_status r) @ '' -> '' @ status_value st))"
  | (unbindable) r e where "find_row ar_action_run_id rid (db_runs s) = Some r"
      "st \<in> set (allowed_transitions (ar_status r))"
      "res = None \<and> ar_result r = Some [] \<or> err = None \<and> ar_error r = Some []"
      "s' = s\<lparr>db_reads := db_reads s + 1\<rparr>" "x = Inl e"
  | (moved) r res' err' where "find_row ar_action_run_id rid (db_runs s) = Some r"
      "st \<in> set (allowed_transitions (ar_status r))"
      "res' = (case res of Some d \<Rightarrow> Some (norm_dict d) | None \<Rightarrow> ar_result r)"
      "err' = (case err of Some d \<Rightarrow> Some (norm_dict d) | None \<Rightarrow> ar_error r)"
      "s' = s\<lparr>db_reads := db_reads s + 1, db_runs := update_row ar_action_run_id rid
         (db_transition rid st (clk (db_reads s)) res' err') (db_runs s)\<rparr>"
      "x = Inr (db_transition rid st (clk (db_reads s)) res' err' r)"
proof (cases "find_row ar_action_run_id rid (db_runs s)")
  case None
  then show thesis
    using assms by (intro unknown) (auto simp: transition_action_run_def get_action_run_def act_simps)
next
  case (Some r)
  show thesis
  proof (cases "st \<in> set (allowed_transitions (ar_status r))")
    case False
    then show thesis
      using assms Some by (intro illegal) (auto simp: transition_action_run_def get_action_run_def act_simps)
  next
    case True
    have run: "transition_action_run clk rid st res err s =
        (case (keep_column res (ar_result r), keep_column err (ar_error r)) of
          (Inr res', Inr err') \<Rightarrow> (Inr (db_transition rid st (clk (db_reads s)) res' err' r),
            s\<lparr>db_reads := db_reads s + 1, db_runs := update_row ar_action_run_id rid
              (db_transition rid st (clk (db_reads s)) res' err') (db_runs s)\<rparr>)
        | (Inl e, _) \<Rightarrow> (Inl e, s\<lparr>db_reads := db_reads s + 1\<rparr>)
        | (_, Inl e) \<Rightarrow> (Inl e, s\<lparr>db_reads := db_reads s + 1\<rparr>))"
      using True Some
      by (simp add: transition_action_run_def get_action_run_def act_simps db_now_ms_def bindE_def Let_def
          db_transition_def [abs_def] split: sum.split)
    show thesis
      using assms unfolding run
      by (auto split: sum.splits simp: keep_column_raises dest!: keep_column_Inr
          intro: unbindable [OF Some True] moved [OF Some True])
  qed
qed

inductive db_step :: "(nat \<Rightarrow> int) \<Rightarrow> db \<Rightarrow> db \<Rightarrow> bool" for clk where
  store: "find_row pr_plan_id (pr_plan_id p) (db_plans s) = None \<Longrightarrow> db_step clk s (snd (store_plan p s))"
| create: "db_step clk s (snd (create_action_run r s))"
| transition: "db_step clk s (snd (transition_action_run clk rid st res err s))"
| approval: "db_step clk s (snd (record_approval a s))"
| event: "db_step clk s (snd (record_event clk component level message ctx s))"
| check: "db_step clk s (snd (has_valid_approval clk rid h now s))"
| start: "db_step clk s (snd (start_exec_journal key rid verb h t s))"
| finish: "db_step clk s (snd (finish_exec_journal key jst t res err s))"

definition status_le :: "run_status \<Rightarrow> run_status \<Rightarrow> bool" where
  "status_le = (\<lambda>a b. b \<in> set (allowed_transitions a))\<^sup>*\<^sup>*"

text \<open>The part of a row that no transition touches, and how far its status can move.\<close>

definition request :: "action_run \<Rightarrow> action_run" where
  "request r = r\<lparr>ar_status := PROPOSED, ar_updated_ts_ms := 0, ar_result := None, ar_error := None\<rparr>"

definition evolves :: "action_run \<Rightarrow> action_run \<Rightarrow> bool" where
  "evolves r r' \<longleftrightarrow> status_le (ar_status r) (ar_status r') \<and> request r' = request r
     \<and> (allowed_transitions (ar_status r) = [] \<longrightarrow> r' = r)"

lemma evolves_refl [simp]: "evolves r r"
  by (simp add: evolves_def status_le_def)

lemma evolves_trans: "evolves a b \<Longrightarrow> evolves b c \<Longrightarrow> evolves a c"
  unfolding evolves_def status_le_def by (auto intro: rtranclp_trans)

lemma evolves_transition:
  assumes "st \<in> set (allowed_transitions (ar_status r))"
  shows "evolves r (db_transition rid st ts res err r)"
proof -
  have "status_le (ar_status r) st"
    unfolding status_le_def using assms by blast
  then show ?thesis using assms by (auto simp: evolves_def db_transition_def request_def)
qed

lemma db_step_run:
  assumes "db_step clk s s'" and "find_row ar_action_run_id rid (db_runs s) = Some r" and "db_ok s"
  shows "\<exists>r'. find_row ar_action_run_id rid (db_runs s') = Some r' \<and> evolves r r'"
  using assms
proof (induction rule: db_step.induct)
  case (store p s)
  then have "\<And>q. q \<in> set (db_runs s) \<Longrightarrow> ar_plan_id q \<noteq> pr_plan_id p"
    unfolding db_ok_def find_row_None by (metis image_subset_iff)
  then show ?case
    using store by (simp add: store_plan_def act_simps delete_plan_def Let_def find_row_filter_keep)
next
  case (create s r')
  then show ?case by (auto simp: create_action_run_def find_row_append)
next
  case (transition s rid' st res err)
  obtain x s' where run: "transition_action_run clk rid' st res err s = (x, s')" by fastforce
  then show ?case
  proof (cases rule: transition_cases)
    case (moved q res' err')
    then show ?thesis
      using transition(1) evolves_transition [of st q]
      by (auto simp: run find_update_row db_transition_def)
  qed (use transition(1) in \<open>auto simp: run intro: exI [of _ r]\<close>)
qed (auto simp: record_approval_def record_event_def bindE_def act_simps db_now_ms_def has_valid_approval_def
    start_exec_journal_def get_exec_journal_def finish_exec_journal_def Let_def split: option.splits)

lemma db_step_ok: "db_step clk s s' \<Longrightarrow> db_ok s \<Longrightarrow> db_ok s'"
  by (induction rule: db_step.induct)
    (auto intro: preservesD [OF _ _ surjective_pairing] preserves_intros)

lemma db_steps_run:
  assumes "(db_step clk)\<^sup>*\<^sup>* s s'" and "find_row ar_action_run_id rid (db_runs s) = Some r" and "db_ok s"
  shows "db_ok s' \<and> (\<exists>r'. find_row ar_action_run_id rid (db_runs s') = Some r' \<and> evolves r r')"
  using assms
proof (induction rule: rtranclp_induct)
  case (step s1 s2)
  then show ?case using db_step_run db_step_ok evolves_trans by meson
qed auto

lemma db_steps_ok: "(db_step clk)\<^sup>*\<^sup>* s s' \<Longrightarrow> db_ok s \<Longrightarrow> db_ok s'"
  by (induction rule: rtranclp_induct) (auto intro: db_step_ok)

text \<open>The steps that store no plan.\<close>

definition db_work :: "(nat \<Rightarrow> int) \<Rightarrow> db \<Rightarrow> db \<Rightarrow> bool" where
  "db_work clk s s' \<longleftrightarrow> db_step clk s s' \<and> db_plans s' = db_plans s"

lemma transition_plans: "db_plans (snd (transition_action_run clk rid st res err s)) = db_plans s"
proof -
  obtain x s' where run: "transition_action_run clk rid st res err s = (x, s')" by fastforce
  then show ?thesis by (cases rule: transition_cases) (simp_all add: run)
qed

lemma db_works:
  "db_work clk s (snd (create_action_run r s))"
  "db_work clk s (snd (transition_action_run clk rid st res err s))"
  "db_work clk s (snd (record_approval a s))"
  "db_work clk s (snd (record_event clk component level message ctx s))"
  "db_work clk s (snd (has_valid_approval clk rid h now s))"
  "db_work clk s (snd (start_exec_journal key rid verb h t s))"
  "db_work clk s (snd (finish_exec_journal key jst t res err s))"
  unfolding db_work_def
  by (intro conjI db_step.intros, (auto simp: transition_plans create_action_run_def record_approval_def record_event_def
      bindE_def act_simps db_now_ms_def has_valid_approval_def start_exec_journal_def get_exec_journal_def
      finish_exec_journal_def Let_def split: option.splits)[1])+

lemma db_work_steps: "(db_work clk)\<^sup>*\<^sup>* s s' \<Longrightarrow> (db_step clk)\<^sup>*\<^sup>* s s'"
  by (induction rule: rtranclp_induct) (auto simp: db_work_def)

lemma db_work_plans: "(db_work clk)\<^sup>*\<^sup>* s s' \<Longrightarrow> db_plans s' = db_plans s"
  by (induction rule: rtranclp_induct) (auto simp: db_work_def)


definition sample_plan :: plan_record where
  "sample_plan = \<lparr>pr_plan_id = ''plan_1'', pr_run_scope = None, pr_goal = ''g'', pr_world_packet = [],
     pr_world_compilation = [], pr_plan_ir = [], pr_created_ts_ms = 1\<rparr>"

definition sample_run :: action_run where
  "sample_run = \<lparr>ar_action_run_id = ''run_1'', ar_plan_id = ''plan_1'', ar_run_scope = None, ar_action_id = ''A1'',
     ar_verb = ''PAUSE'', ar_owner_pack = ''sim'', ar_args = [], ar_args_hash = ''h'', ar_idempotency_key = ''k'',
     ar_required_locks = [''lock''], ar_status = PROPOSED, ar_hazard_class = LOW, ar_verify = PyNone,
     ar_expected_delta = [], ar_target_device = None, ar_created_ts_ms = 1, ar_updated_ts_ms = 1,
     ar_result = None, ar_error = None\<rparr>"

definition sample_db :: db where
  "sample_db = empty_db\<lparr>db_plans := [sample_plan], db_runs := [sample_run]\<rparr>"

lemma sample_db_ok: "db_ok sample_db"
  by (simp add: db_ok_def sample_db_def empty_db_def sample_plan_def sample_run_def)

lemma sample_db_run: "find_row ar_action_run_id ''run_1'' (db_runs sample_db) = Some sample_run"
  by (simp add: sample_db_def sample_run_def)


text \<open>
  a requested status change either happens exactly as requested, on that run only and only when the
  table allows it, or it raises and no run changes: an unknown id is a \<open>KeyError\<close>, a move outside the
  table a \<open>ValueError\<close>.
\<close>

theorem transition_sound:
  assumes "transition_action_run clk rid st res err s = (x, s')"
  shows "(case x of
      Inr r' \<Rightarrow> (\<exists>r. find_row ar_action_run_id rid (db_runs s) = Some r \<and> st \<in> set (allowed_transitions (ar_status r))
         \<and> ar_status r' = st \<and> request r' = request r
         \<and> find_row ar_action_run_id rid (db_runs s') = Some r')
    | Inl e \<Rightarrow> db_runs s' = db_runs s)
    \<and> (\<forall>k. k \<noteq> rid \<longrightarrow> find_row ar_action_run_id k (db_runs s') = find_row ar_action_run_id k (db_runs s))
    \<and> (find_row ar_action_run_id rid (db_runs s) = None \<longrightarrow> (\<exists>m. x = Inl (KeyError m)))
    \<and> (\<forall>r. find_row ar_action_run_id rid (db_runs s) = Some r \<and> st \<notin> set (allowed_transitions (ar_status r))
        \<longrightarrow> (\<exists>m. x = Inl (ValueError m)))"
  using assms
proof (cases rule: transition_cases)
  case (moved r res' err')
  have u: "find_row ar_action_run_id k (db_runs s')
      = (if k = rid then Some (db_transition rid st (clk (db_reads s)) res' err' r)
         else find_row ar_action_run_id k (db_runs s))" for k
    using moved(1) by (simp add: moved(5) find_update_row db_transition_def)
  show ?thesis
    using moved(1,2) by (simp add: moved(6) u) (simp add: db_transition_def request_def)
qed auto

theorem transition_sound_witness:
  "db_runs (snd (transition_action_run (\<lambda>_. 5) ''run_1'' DISPATCHED None None sample_db)) = [sample_run]
   \<and> (\<exists>m. fst (transition_action_run (\<lambda>_. 5) ''run_1'' DISPATCHED None None sample_db) = Inl (ValueError m))"
proof -
  have "DISPATCHED \<notin> set (allowed_transitions (ar_status sample_run))" by (simp add: sample_run_def)
  with transition_sound [OF surjective_pairing, of "\<lambda>_. 5" "''run_1''" DISPATCHED None None sample_db] sample_db_run
  show ?thesis by (auto simp: sample_db_def empty_db_def)
qed

text \<open>
  the execution journal opens a key once: whatever a second attempt asks for, it gets the entry of the
  first and writes nothing, and after the entry was closed a retry sees the recorded outcome and never
  \<open>IN_FLIGHT\<close> again; entries of other keys are untouched.
\<close>

theorem journal_exactly_once:
  assumes "start_exec_journal k r v h t s = (Inr e, s1)"
  shows "start_exec_journal k r' v' h' t' s1 = (Inr e, s1)
    \<and> (\<exists>e2 s2. finish_exec_journal k jst t1 res err s1 = (Inr (Some e2), s2)
         \<and> start_exec_journal k r' v' h' t' s2 = (Inr e2, s2) \<and> je_exec_state e2 = jst
         \<and> (\<forall>k'. k' \<noteq> k \<longrightarrow> journal_lookup s2 k' = journal_lookup s k'))"
proof -
  have "journal_lookup s1 k = Some e" using dbj.start_lookup [OF assms] by simp
  from dbj.finish_known [OF this, of jst t1 res err] obtain e2 s2
    where f: "finish_exec_journal k jst t1 res err s1 = (Inr (Some e2), s2)" by auto
  from dbj.start_finish_start [OF assms f, of r' v' h' t'] f dbj.start_twice [OF assms] show ?thesis
    by auto
qed

theorem journal_exactly_once_witness:
  "start_exec_journal ''k'' ''run_2'' ''PAUSE'' ''h'' 9 (snd (start_exec_journal ''k'' ''run_1'' ''PAUSE'' ''h'' 1 empty_db))
   = start_exec_journal ''k'' ''run_1'' ''PAUSE'' ''h'' 1 empty_db"
proof -
  obtain e s1 where s: "start_exec_journal ''k'' ''run_1'' ''PAUSE'' ''h'' 1 empty_db = (Inr e, s1)"
    using dbj.start_total by blast
  from journal_exactly_once [OF s, of "''run_2''" "''PAUSE''" "''h''" 9] s show ?thesis by simp
qed

text \<open>
  an approval counts exactly when some recorded \<open>APPROVE\<close> names this run and these arguments and has
  not expired; recording a later rejection never withdraws it, because rejections are not consulted.
\<close>

theorem valid_approval_iff:
  assumes "t \<noteq> 0"
  shows "has_valid_approval clk rid h (Some t) s
      = (Inr (\<exists>a\<in>set (db_approvals s). ap_action_run_id a = rid \<and> ap_args_hash a = h
           \<and> ap_decision a = APPROVE \<and> t \<le> ap_expires_ts_ms a), s)
    \<and> (fst (has_valid_approval clk rid h (Some t) s) = Inr True
       \<longrightarrow> fst (has_valid_approval clk rid h (Some t) (snd (record_approval r s))) = Inr True)"
  using assms
  by (simp add: has_valid_approval_def act_simps bindE_def list_ex_iff record_approval_def)

definition sample_approval :: approval_record where
  "sample_approval = \<lparr>ap_approval_id = ''a1'', ap_action_run_id = ''run_1'', ap_args_hash = ''h'',
     ap_approved_by = ''op'', ap_decision = APPROVE, ap_created_ts_ms = 1, ap_expires_ts_ms = 100\<rparr>"

theorem valid_approval_iff_witness:
  "fst (has_valid_approval (\<lambda>_. 0) ''run_1'' ''h'' (Some 50)
     (snd (record_approval (sample_approval\<lparr>ap_approval_id := ''a2'', ap_decision := REJECT\<rparr>)
       (snd (record_approval sample_approval sample_db))))) = Inr True"
proof -
  have "fst (has_valid_approval (\<lambda>_. 0) ''run_1'' ''h'' (Some 50) (snd (record_approval sample_approval sample_db))) = Inr True"
    by (simp add: has_valid_approval_def act_simps record_approval_def sample_db_def empty_db_def
        sample_approval_def sample_run_def)
  with valid_approval_iff [of 50 "\<lambda>_. 0" "''run_1''" "''h''" "snd (record_approval sample_approval sample_db)"]
  show ?thesis by simp
qed

section \<open>The completed actions\<close>

lemma completed_row_fields:
  "completed_row rt (r, p) = Inr d \<Longrightarrow> pget d ''updated_ts_ms'' = PyInt (ar_updated_ts_ms r)
     \<and> pget d ''run_scope'' = opt_str (ar_run_scope r) \<and> pget d ''status'' = PyStr (status_value (ar_status r))"
  by (auto simp: completed_row_def bindR_eq_Inr)

lemma completed_rows_fields:
  "mapR (completed_row rt) xs = Inr rows \<Longrightarrow>
     map (\<lambda>d. pget d ''updated_ts_ms'') rows = map (\<lambda>(r, _). PyInt (ar_updated_ts_ms r)) xs
     \<and> map (\<lambda>d. pget d ''run_scope'') rows = map (\<lambda>(r, _). opt_str (ar_run_scope r)) xs
     \<and> map (\<lambda>d. pget d ''status'') rows = map (\<lambda>(r, _). PyStr (status_value (ar_status r))) xs"
proof (induction xs arbitrary: rows)
  case (Cons x xs)
  then obtain d ds where "rows = d # ds" "completed_row rt x = Inr d" "mapR (completed_row rt) xs = Inr ds"
    by (auto simp: bindR_eq_Inr)
  then show ?case using Cons.IH [of ds] completed_row_fields [of rt "fst x" "snd x" d] by (cases x) simp
qed simp

lemma set_sql_limit: "set (sql_limit n xs) \<subseteq> set xs"
  by (auto simp: sql_limit_def dest: in_set_takeD)

lemma completed_join_set:
  "(r, p) \<in> set (completed_join P s) \<longleftrightarrow> r \<in> set (db_runs s) \<and> p \<in> set (db_plans s) \<and> pr_plan_id p = ar_plan_id r
     \<and> ar_status r \<in> set terminal_report_statuses \<and> P r"
  by (auto simp: completed_join_def order_desc_def)

definition newest_first :: "dict list \<Rightarrow> bool" where
  "newest_first rows \<longleftrightarrow> (\<exists>ts. map (\<lambda>d. pget d ''updated_ts_ms'') rows = map PyInt ts \<and> sorted (rev ts))"

lemma sorted_wrt_ge_rev: "sorted (map (\<lambda>x. - f x :: int) xs) \<Longrightarrow> sorted (rev (map f xs))"
  by (simp add: sorted_wrt_rev sorted_map sorted_wrt_map)

lemma fetch_newest_first:
  assumes "fetch_completed rt scope limit s = Inr rows"
  shows "newest_first rows"
proof -
  obtain P where "mapR (completed_row rt) (sql_limit limit (completed_join P s)) = Inr rows"
    using assms by (auto simp: fetch_completed_def)
  then have "map (\<lambda>d. pget d ''updated_ts_ms'') rows
      = map PyInt (map (\<lambda>(r, _). ar_updated_ts_ms r) (sql_limit limit (completed_join P s)))"
    using completed_rows_fields by (fastforce simp: case_prod_unfold comp_def)
  moreover have "sorted (map (\<lambda>x. - (\<lambda>(r, _). ar_updated_ts_ms r) x) (sql_limit limit (completed_join P s)))"
    unfolding completed_join_def order_desc_def sql_limit_def
    by (simp add: sorted_wrt_take take_map [symmetric])
  ultimately show ?thesis unfolding newest_first_def using sorted_wrt_ge_rev by blast
qed

lemma fetch_from_scope:
  assumes "fetch_completed rt (Some scope) limit s = Inr rows" and "scope \<noteq> []" and "d \<in> set rows"
  shows "pget d ''run_scope'' = PyStr scope"
proof -
  let ?xs = "sql_limit limit (completed_join (\<lambda>r. ar_run_scope r = Some scope) s)"
  have m: "map (\<lambda>d. pget d ''run_scope'') rows = map (\<lambda>(r, _). opt_str (ar_run_scope r)) ?xs"
    using assms(1,2) completed_rows_fields by (auto simp: fetch_completed_def)
  have "pget d ''run_scope'' \<in> set (map (\<lambda>d. pget d ''run_scope'') rows)" using assms(3) by simp
  then show ?thesis
    unfolding m by (auto simp: completed_join_set dest!: subsetD [OF set_sql_limit])
qed

lemma fetch_length:
  "fetch_completed rt scope limit s = Inr rows \<Longrightarrow> 0 \<le> limit \<Longrightarrow> length rows \<le> nat limit"
  by (auto simp: fetch_completed_def sql_limit_def dest!: mapR_length)

text \<open>
  the recent results shown to the planner: at most \<open>limit\<close> rows, newest first; with a run scope given
  they all belong to it, or else no reported run belongs to it and the rows are the global fallback; the
  query writes nothing.
\<close>

theorem recent_completed_actions_correct:
  assumes "recent_completed_actions rt scope limit s = (Inr rows, s')" and "0 \<le> limit"
  shows "s' = s \<and> length rows \<le> nat limit \<and> newest_first rows
    \<and> (\<forall>sc. scope = Some sc \<and> sc \<noteq> [] \<longrightarrow>
        (\<forall>d\<in>set rows. pget d ''run_scope'' = PyStr sc)
        \<or> fetch_completed rt scope limit s = Inr [] \<and> fetch_completed rt None limit s = Inr rows)"
proof -
  have s': "s' = s" and r0: "bindR (fetch_completed rt scope limit s) (\<lambda>scoped.
      if scoped \<noteq> [] \<or> scope = None then Inr scoped else fetch_completed rt None limit s) = Inr rows"
    using assms(1) unfolding recent_completed_actions_def prod.inject by blast+
  then obtain scoped where sc: "fetch_completed rt scope limit s = Inr scoped"
    and r: "(if scoped \<noteq> [] \<or> scope = None then Inr scoped else fetch_completed rt None limit s) = Inr rows"
    unfolding bindR_eq_Inr by blast
  show ?thesis
  proof (cases "scoped \<noteq> [] \<or> scope = None")
    case True
    then have "rows = scoped" using r by simp
    then show ?thesis
      using s' sc fetch_length [OF sc assms(2)] fetch_newest_first [OF sc] fetch_from_scope [of rt _ limit s rows]
      by blast
  next
    case False
    then have "fetch_completed rt None limit s = Inr rows" using r by (cases scope) auto
    then show ?thesis
      using s' sc False fetch_length [OF \<open>fetch_completed rt None limit s = Inr rows\<close> assms(2)]
        fetch_newest_first [OF \<open>fetch_completed rt None limit s = Inr rows\<close>] by blast
  qed
qed

definition done_db :: db where
  "done_db = empty_db\<lparr>db_plans := [sample_plan],
     db_runs := [sample_run\<lparr>ar_status := DONE, ar_updated_ts_ms := 3, ar_run_scope := Some ''job''\<rparr>,
       sample_run\<lparr>ar_action_run_id := ''run_2'', ar_status := FAILED, ar_updated_ts_ms := 7, ar_run_scope := Some ''job''\<rparr>]\<rparr>"

theorem recent_completed_actions_correct_witness:
  "case recent_completed_actions sample_rt (Some ''job'') 3 done_db of
     (Inr rows, s') \<Rightarrow> s' = done_db \<and> length rows = 2 \<and> newest_first rows | _ \<Rightarrow> False"
proof -
  have "case recent_completed_actions sample_rt (Some ''job'') 3 done_db of (Inr rows, s') \<Rightarrow> length rows = 2 | _ \<Rightarrow> False"
    by code_simp
  then obtain rows s' where "recent_completed_actions sample_rt (Some ''job'') 3 done_db = (Inr rows, s')" "length rows = 2"
    by (auto split: prod.splits sum.splits)
  with recent_completed_actions_correct [OF this(1)] show ?thesis by simp
qed

end
