(* ===== verification/Control.thy ===== *)
theory Control
  imports Prelude
begin

text \<open>
  The small stateful guards of the runtime: \<open>SafetyKernel\<close> (\<open>wallee_v6/wallee_v6/safety.py\<close>), the
  process-level \<open>ControlLease\<close> (\<open>runtime_control.py\<close>) and the in-process \<open>LockManager\<close> (\<open>engine.py\<close>).
  Readings of the monotonic clock are arguments; a callback of the kernel is a name, and
  \<open>sk_called\<close> records the invocations.  Whether \<open>flock\<close> succeeds is the argument of \<open>lease_acquire\<close>.
\<close>

section \<open>Safety kernel\<close>

record safety =
  sk_timeout_s :: rat
  sk_last_beat :: rat
  sk_engaged :: bool
  sk_reason :: "string option"
  sk_callbacks :: "string list"
  sk_called :: "(string \<times> string) list"

definition new_safety :: "rat \<Rightarrow> rat \<Rightarrow> safety" where
  "new_safety timeout_s mono_s = \<lparr>sk_timeout_s = timeout_s, sk_last_beat = mono_s, sk_engaged = False,
     sk_reason = None, sk_callbacks = [], sk_called = []\<rparr>"

definition register_interlock_callback :: "string \<Rightarrow> safety \<Rightarrow> safety" where
  "register_interlock_callback callback k = k\<lparr>sk_callbacks := sk_callbacks k @ [callback]\<rparr>"

definition beat :: "rat \<Rightarrow> safety \<Rightarrow> safety" where
  "beat mono_s k = k\<lparr>sk_last_beat := mono_s\<rparr>"

definition trip :: "string \<Rightarrow> safety \<Rightarrow> safety" where
  "trip reason k = (if sk_engaged k then k
     else k\<lparr>sk_engaged := True, sk_reason := Some reason,
            sk_called := sk_called k @ map (\<lambda>c. (c, reason)) (sk_callbacks k)\<rparr>)"

definition clear_interlock :: "rat \<Rightarrow> safety \<Rightarrow> safety" where
  "clear_interlock mono_s k = k\<lparr>sk_engaged := False, sk_reason := None, sk_last_beat := mono_s\<rparr>"

definition poll :: "pyrt \<Rightarrow> rat \<Rightarrow> safety \<Rightarrow> bool \<times> safety" where
  "poll rt mono_s k =
     (let age = mono_s - sk_last_beat k;
          k' = (if age > sk_timeout_s k
                then trip (''heartbeat stale ('' @ float_fixed rt 2 (Fin age) @ ''s)'') k else k)
      in (sk_engaged k', k'))"

datatype safety_op = OpBeat rat | OpTrip string | OpClear rat | OpPoll rat | OpRegister string

fun safety_step :: "pyrt \<Rightarrow> safety_op \<Rightarrow> safety \<Rightarrow> safety" where
  "safety_step rt (OpBeat m) k = beat m k"
| "safety_step rt (OpTrip r) k = trip r k"
| "safety_step rt (OpClear m) k = clear_interlock m k"
| "safety_step rt (OpPoll m) k = snd (poll rt m k)"
| "safety_step rt (OpRegister c) k = register_interlock_callback c k"

fun is_clear :: "safety_op \<Rightarrow> bool" where
  "is_clear (OpClear _) = True"
| "is_clear _ = False"

lemma trip_engaged [simp]: "sk_engaged (trip r k)" "sk_engaged k \<Longrightarrow> trip r k = k"
  by (simp_all add: trip_def)

lemma engaged_step:
  assumes "sk_engaged k" and "\<not> is_clear op"
  shows "sk_engaged (safety_step rt op k) \<and> sk_reason (safety_step rt op k) = sk_reason k
    \<and> sk_called (safety_step rt op k) = sk_called k"
  using assms by (cases op) (simp_all add: beat_def poll_def Let_def register_interlock_callback_def)

lemma engaged_steps:
  assumes "sk_engaged k" and "\<not> list_ex is_clear ops"
  shows "sk_engaged (fold (safety_step rt) ops k) \<and> sk_reason (fold (safety_step rt) ops k) = sk_reason k
    \<and> sk_called (fold (safety_step rt) ops k) = sk_called k"
  using assms by (induction ops arbitrary: k) (auto simp: engaged_step)

text \<open>
  the interlock latches: once tripped it stays engaged with its first reason, and no callback runs a
  second time, through any heartbeats, trips and polls, until it is explicitly cleared.
\<close>

theorem interlock_latches:
  assumes "\<not> sk_engaged k" and "\<not> list_ex is_clear ops"
  shows "sk_engaged (fold (safety_step rt) ops (trip reason k))
    \<and> sk_reason (fold (safety_step rt) ops (trip reason k)) = Some reason
    \<and> sk_called (fold (safety_step rt) ops (trip reason k)) = sk_called k @ map (\<lambda>c. (c, reason)) (sk_callbacks k)"
  using engaged_steps [OF _ assms(2), of "trip reason k" rt] assms(1) by (simp add: trip_def)

theorem interlock_latches_witness:
  "sk_reason (fold (safety_step sample_rt) [OpBeat 9, OpTrip ''second'', OpPoll 100] (trip ''first'' (new_safety 3 0)))
     = Some ''first''"
proof -
  have "\<not> sk_engaged (new_safety 3 0)" "\<not> list_ex is_clear [OpBeat 9, OpTrip ''second'', OpPoll 100]"
    by (simp_all add: new_safety_def)
  from interlock_latches [OF this, of sample_rt "''first''"] show ?thesis by blast
qed

lemma poll_iff: "fst (poll rt mono_s k) \<longleftrightarrow> sk_engaged k \<or> mono_s - sk_last_beat k > sk_timeout_s k"
  by (simp add: poll_def Let_def)

text \<open>
  a stale heartbeat trips the watchdog exactly when it is polled more than the timeout after the last
  beat: between polls nothing happens, however old the heartbeat is.
\<close>

theorem watchdog_trips_iff_stale:
  assumes "\<not> sk_engaged k"
  shows "sk_engaged (snd (poll rt mono_s (beat m k))) \<longleftrightarrow> mono_s - m > sk_timeout_s k"
  using assms by (simp add: poll_def Let_def beat_def)

theorem watchdog_trips_iff_stale_witness:
  "sk_engaged (snd (poll sample_rt 10 (beat 5 (new_safety 3 0))))"
proof -
  have "\<not> sk_engaged (new_safety 3 0)" by (simp add: new_safety_def)
  from watchdog_trips_iff_stale [OF this, of sample_rt 10 5] show ?thesis by (simp add: new_safety_def)
qed

section \<open>Control lease and lock manager\<close>

definition lease_acquire :: "bool \<Rightarrow> bool \<Rightarrow> bool \<times> bool" where
  "lease_acquire flock_ok held = (if held then (True, True) else if flock_ok then (True, True) else (False, False))"

definition lease_release :: "bool \<Rightarrow> bool" where
  "lease_release held = False"

text \<open>The set \<open>_held\<close> as a list without regard to order.\<close>

definition lock_acquire :: "string list \<Rightarrow> string set \<Rightarrow> bool \<times> string set" where
  "lock_acquire keys held = (if \<exists>k\<in>set keys. k \<in> held then (False, held) else (True, held \<union> set keys))"

definition lock_release :: "string list \<Rightarrow> string set \<Rightarrow> string set" where
  "lock_release keys held = held - set keys"

text \<open>The contract of a lock table: all or nothing, and a release gives back what was taken.\<close>

locale lock_table =
  fixes acquire :: "string list \<Rightarrow> 'l \<Rightarrow> bool \<times> 'l"
    and release :: "string list \<Rightarrow> 'l \<Rightarrow> 'l"
    and held :: "'l \<Rightarrow> string set"
  assumes acquire_fails: "set keys \<inter> held l \<noteq> {} \<Longrightarrow> acquire keys l = (False, l)"
    and acquire_ok: "set keys \<inter> held l = {} \<Longrightarrow> fst (acquire keys l) \<and> held (snd (acquire keys l)) = held l \<union> set keys"
    and release_held: "held (release keys l) = held l - set keys"
begin

lemma acquire_release: "acquire keys l = (True, l') \<Longrightarrow> held (release keys l') = held l"
  using acquire_fails [of keys l] acquire_ok [of keys l] release_held [of keys l']
  by (cases "set keys \<inter> held l = {}") auto

text \<open>Holders of disjoint parts of the table: a granted request never overlaps one that is still held.\<close>

definition owned :: "'l \<Rightarrow> string list list \<Rightarrow> bool" where
  "owned l hs \<longleftrightarrow> held l = \<Union> (set ` set hs) \<and> sorted_wrt (\<lambda>a b. set a \<inter> set b = {}) hs"

lemma grant_exclusive:
  assumes "owned l hs" and "acquire keys l = (True, l')"
  shows "owned l' (keys # hs)"
proof -
  have "set keys \<inter> held l = {}" using acquire_fails [of keys l] assms(2) by auto
  with acquire_ok [of keys l] assms show ?thesis by (auto simp: owned_def)
qed

end

interpretation lm: lock_table lock_acquire lock_release "\<lambda>l. l"
  by unfold_locales (auto simp: lock_acquire_def lock_release_def)

end
