(* ===== verification/Runtime.thy ===== *)
theory Runtime
  imports Predicates Whiteboard RuntimeDb Control PromptView "HOL-Library.Multiset" "HOL-Library.Product_Lexorder"
begin

text \<open>
  The assembled runtime: the state of all components (\<open>sys\<close>), what it takes from outside (\<open>env\<close>), the
  human gateway (\<open>wallee_v6/wallee_v6/human.py\<close>), the pack registry (\<open>registry.py\<close>) and the world
  compiler (\<open>planning_context.py\<close>).

  The n-th reading of a clock, the n-th uuid and the n-th \<open>flock\<close> are functions of \<open>env\<close>, with counters
  in \<open>sys\<close>, so every theorem holds for all of them.  A pack (\<open>BasePack\<close>) is given by its four
  operations over its own state \<open>'p\<close>.  \<open>e_interfere n\<close> is what other threads publish on the
  whiteboard before the n-th compilation; the outbox directory is the list of its files.
\<close>

section \<open>Environment and state\<close>

record config =
  cfg_frontier_limit :: int
  cfg_delta_limit_per_device :: int
  cfg_approval_ttl_seconds :: int
  cfg_auto_approve_low_hazard :: bool
  cfg_control_lock_path :: string

record 'p env =
  e_rt :: pyrt
  e_sha :: "string \<Rightarrow> string"
  e_cfg :: config
  e_clk :: "nat \<Rightarrow> int"
  e_db_clk :: "nat \<Rightarrow> int"
  e_wb_clk :: "nat \<Rightarrow> int"
  e_mono :: "nat \<Rightarrow> rat"
  e_uuid :: "nat \<Rightarrow> string"
  e_flock :: "nat \<Rightarrow> bool"
  e_interfere :: "nat \<Rightarrow> dict"
  e_hook :: "string \<Rightarrow> pyexc option"
  e_fuel :: nat
  e_publish :: "string \<Rightarrow> ('p \<times> wb, unit) act"
  e_normalize :: "dict \<Rightarrow> ('p, normalized_state) act"
  e_candidates :: "world_packet \<Rightarrow> ('p, legal_action list) act"
  e_realize :: "legal_action \<Rightarrow> ('p \<times> wb, dict) act"

record 'p sys =
  s_db :: db
  s_wb :: wb
  s_packs :: "(string \<times> 'p) list"
  s_last_facts :: dict
  s_last_seq :: nat
  s_locks :: "string set"
  s_lease :: bool
  s_safety :: safety
  s_outbox :: "(string \<times> dict) list"
  s_uuids :: nat
  s_walls :: nat
  s_monos :: nat
  s_flocks :: nat
  s_compiles :: nat

definition on_db :: "(db, 'a) act \<Rightarrow> ('p sys, 'a) act" where
  "on_db m s = (case m (s_db s) of (r, d) \<Rightarrow> (r, s\<lparr>s_db := d\<rparr>))"

definition on_pack :: "string \<Rightarrow> ('p, 'a) act \<Rightarrow> ('p sys, 'a) act" where
  "on_pack pack_id m s = (case map_of (s_packs s) pack_id of
      None \<Rightarrow> (Inl (KeyError pack_id), s)
    | Some p \<Rightarrow> (case m p of (r, p') \<Rightarrow> (r, s\<lparr>s_packs := dset pack_id p' (s_packs s)\<rparr>)))"

definition on_pack_wb :: "string \<Rightarrow> ('p \<times> wb, 'a) act \<Rightarrow> ('p sys, 'a) act" where
  "on_pack_wb pack_id m s = (case map_of (s_packs s) pack_id of
      None \<Rightarrow> (Inl (KeyError pack_id), s)
    | Some p \<Rightarrow> (case m (p, s_wb s) of (r, p', w) \<Rightarrow>
        (r, s\<lparr>s_packs := dset pack_id p' (s_packs s), s_wb := w\<rparr>)))"

fun mapE :: "('a \<Rightarrow> ('s, 'b) act) \<Rightarrow> 'a list \<Rightarrow> ('s, 'b list) act" where
  "mapE f [] = ret []"
| "mapE f (x # xs) = bindE (f x) (\<lambda>y. bindE (mapE f xs) (\<lambda>ys. ret (y # ys)))"

definition wall_ms :: "'p env \<Rightarrow> ('p sys, int) act" where
  "wall_ms env s = (Inr (e_clk env (s_walls s)), s\<lparr>s_walls := s_walls s + 1\<rparr>)"

definition monotonic :: "'p env \<Rightarrow> ('p sys, rat) act" where
  "monotonic env s = (Inr (e_mono env (s_monos s)), s\<lparr>s_monos := s_monos s + 1\<rparr>)"

definition mono_ms :: "'p env \<Rightarrow> ('p sys, int) act" where
  "mono_ms env = bindE (monotonic env) (\<lambda>t. ret \<lfloor>t * 1000\<rfloor>)"

definition fresh_id :: "'p env \<Rightarrow> string \<Rightarrow> ('p sys, string) act" where
  "fresh_id env prefix s = (Inr (new_id prefix (e_uuid env (s_uuids s))), s\<lparr>s_uuids := s_uuids s + 1\<rparr>)"

definition log_event :: "'p env \<Rightarrow> string \<Rightarrow> string \<Rightarrow> string \<Rightarrow> dict \<Rightarrow> ('p sys, unit) act" where
  "log_event env component level message ctx = on_db (record_event (e_db_clk env) component level message ctx)"

definition safety_beat :: "'p env \<Rightarrow> ('p sys, unit) act" where
  "safety_beat env = bindE (monotonic env) (\<lambda>t. modify (\<lambda>s. s\<lparr>s_safety := beat t (s_safety s)\<rparr>))"

section \<open>Human gateway\<close>

definition submit_goal :: "'p env \<Rightarrow> string \<Rightarrow> ('p sys, unit) act" where
  "submit_goal env goal = log_event env ''human_gateway'' ''INFO'' ''goal_submitted'' [(''goal'', PyStr goal)]"

definition call_human :: "'p env \<Rightarrow> string \<Rightarrow> string \<Rightarrow> string \<Rightarrow> bool \<Rightarrow> dict \<Rightarrow> ('p sys, string) act" where
  "call_human env title body severity require_ack ctx =
     bindE (fresh_id env ''human'') (\<lambda>request_id.
     bindE (wall_ms env) (\<lambda>now.
       let payload = [(''request_id'', PyStr request_id), (''severity'', PyStr severity),
             (''require_ack'', PyBool require_ack), (''title'', PyStr title), (''body'', PyStr body),
             (''context'', PyDict ctx), (''created_ts_ms'', PyInt now)]
       in bindE (modify (\<lambda>s. s\<lparr>s_outbox := dset (request_id @ ''.json'') payload (s_outbox s)\<rparr>)) (\<lambda>_.
          bindE (log_event env ''human_gateway'' ''WARN'' title payload) (\<lambda>_. ret request_id))))"

text \<open>\<open>ttl_seconds or self.config.approval_ttl_seconds\<close>: a requested zero takes the configured time.\<close>

definition decide :: "'p env \<Rightarrow> approval_decision \<Rightarrow> string \<Rightarrow> string \<Rightarrow> string \<Rightarrow> int option \<Rightarrow> ('p sys, approval_record) act" where
  "decide env verdict action_run_id args_hash approved_by ttl_seconds =
     bindE (fresh_id env ''approval'') (\<lambda>approval_id.
     bindE (wall_ms env) (\<lambda>created. bindE (wall_ms env) (\<lambda>now.
       let ttl = (case ttl_seconds of None \<Rightarrow> cfg_approval_ttl_seconds (e_cfg env)
             | Some t \<Rightarrow> if t = 0 then cfg_approval_ttl_seconds (e_cfg env) else t);
           approval = \<lparr>ap_approval_id = approval_id, ap_action_run_id = action_run_id, ap_args_hash = args_hash,
             ap_approved_by = approved_by, ap_decision = verdict, ap_created_ts_ms = created,
             ap_expires_ts_ms = now + ttl * 1000\<rparr>
       in bindE (on_db (record_approval approval)) (\<lambda>_. ret approval))))"

definition approve :: "'p env \<Rightarrow> string \<Rightarrow> string \<Rightarrow> string \<Rightarrow> int option \<Rightarrow> ('p sys, approval_record) act" where
  "approve env = decide env APPROVE"

definition reject :: "'p env \<Rightarrow> string \<Rightarrow> string \<Rightarrow> string \<Rightarrow> int option \<Rightarrow> ('p sys, approval_record) act" where
  "reject env = decide env REJECT"

definition request_approval :: "'p env \<Rightarrow> string \<Rightarrow> string \<Rightarrow> hazard_class \<Rightarrow> string \<Rightarrow> ('p sys, bool) act" where
  "request_approval env action_run_id args_hash hazard reason =
     (if hazard = LOW \<and> cfg_auto_approve_low_hazard (e_cfg env)
      then bindE (approve env action_run_id args_hash ''auto.low'' None) (\<lambda>_. ret True)
      else bindE (on_db (has_valid_approval (e_db_clk env) action_run_id args_hash None)) (\<lambda>ok.
        if ok then ret True
        else bindE (call_human env ''Approval required'' reason ''warn'' True
          [(''action_run_id'', PyStr action_run_id), (''args_hash'', PyStr args_hash),
           (''hazard_class'', PyStr (hazard_value hazard))]) (\<lambda>_. ret False)))"

definition pending_message :: "pyrt \<Rightarrow> string \<times> dict \<Rightarrow> string" where
  "pending_message rt p = str_upper (py_str rt (dget_or (snd p) ''severity'' (PyStr ''info''))) @ '': ''
     @ py_str rt (dget_or (snd p) ''title'' (PyStr (fst p)))"

definition pending_messages :: "'p env \<Rightarrow> ('p sys, string list) act" where
  "pending_messages env = gets (\<lambda>s. map (pending_message (e_rt env)) (sort_key fst (s_outbox s)))"

section \<open>Pack registry\<close>

definition pack_ids :: "'p sys \<Rightarrow> string list" where
  "pack_ids s = map fst (s_packs s)"

definition for_packs :: "(string \<Rightarrow> ('p sys, 'a) act) \<Rightarrow> ('p sys, 'a list) act" where
  "for_packs f = bindE (gets pack_ids) (mapE f)"

definition registry_get :: "string \<Rightarrow> ('p sys, unit) act" where
  "registry_get pack_id s = (if has_key (s_packs s) pack_id then (Inr (), s) else (Inl (KeyError pack_id), s))"

definition publish_all_raw_state :: "'p env \<Rightarrow> string \<Rightarrow> ('p sys, unit) act" where
  "publish_all_raw_state env md = bindE (for_packs (\<lambda>pid. on_pack_wb pid (e_publish env md))) (\<lambda>_. ret ())"

section \<open>World compiler\<close>

definition summary_field :: "string \<Rightarrow> string option" where
  "summary_field remainder = map_of
     [(''raw.observed_at'', ''raw_observed_at''), (''raw.lifecycle'', ''lifecycle''), (''raw.health'', ''health''),
      (''raw.job_active'', ''job_active''), (''raw.job_progress_pct'', ''job_progress_pct''),
      (''raw.job_id'', ''job_id''), (''raw.current_file'', ''current_file''),
      (''vision_observed_at'', ''vision_observed_at''),
      (''nozzle_cam_last_capture_at'', ''camera_last_capture_at''),
      (''nozzle_cam_frame_age_s'', ''camera_frame_age_s'')] remainder"

definition live_summary_step :: "dict \<Rightarrow> string \<Rightarrow> (string \<times> dict) list \<Rightarrow> (string \<times> dict) list" where
  "live_summary_step raw key summary =
     (if CHR ''.'' \<notin> set key then summary
      else let (device_id, remainder) = split_once (CHR ''.'') key;
               entry = dget_or summary device_id []
           in dset device_id (case summary_field remainder of None \<Rightarrow> entry
                | Some f \<Rightarrow> dset f (pget raw key) entry) summary)"

definition build_live_state_summary :: "dict \<Rightarrow> dict" where
  "build_live_state_summary raw =
     map (\<lambda>(device_id, data). (device_id, PyDict data))
       (filter (\<lambda>(_, data). data \<noteq> [])
         (fold (live_summary_step raw) (sort_key (\<lambda>k. k) (map fst raw)) []))"

definition run_scope_from_facts :: "pyrt \<Rightarrow> dict \<Rightarrow> string option" where
  "run_scope_from_facts rt facts =
     (let token = nonempty (text_of rt (pget facts ''printer_1.job_scope_token''));
          current_file = nonempty (text_of rt (pget facts ''printer_1.current_file''));
          requested_file = nonempty (text_of rt (pget facts ''printer_1.requested_file''));
          scope = (case token of Some t \<Rightarrow> Some t
             | None \<Rightarrow> (case current_file of Some f \<Rightarrow> Some f | None \<Rightarrow> requested_file))
      in case scope of None \<Rightarrow> None
         | Some t \<Rightarrow>
           if pget facts ''printer_1.job_id'' \<noteq> PyNone
           then Some (''job:'' @ py_str rt (pget facts ''printer_1.job_id'') @ '':'' @ t)
           else Some (''state:'' @ (case nonempty (text_of rt (pget facts ''printer_1.lifecycle'')) of
                 None \<Rightarrow> ''unknown'' | Some l \<Rightarrow> l) @ '':'' @ t))"

text \<open>\<open>xs[:n]\<close>.\<close>

definition slice_to :: "int \<Rightarrow> 'a list \<Rightarrow> 'a list" where
  "slice_to n xs = (if 0 \<le> n then take (nat n) xs else take (length xs - nat (- n)) xs)"

definition group_delta :: "delta \<Rightarrow> (string \<times> delta list) list \<Rightarrow> (string \<times> delta list) list" where
  "group_delta d groups = dset (dl_device_id d) (dget_or groups (dl_device_id d) [] @ [d]) groups"

definition changed_facts :: "pyrt \<Rightarrow> dict \<Rightarrow> dict \<Rightarrow> delta list" where
  "changed_facts rt old_facts facts =
     map (\<lambda>(k, v). \<lparr>dl_device_id = fst (split_once (CHR ''.'') k), dl_fact = k, dl_old = pget old_facts k, dl_new = v,
        dl_note = k @ '' changed from '' @ py_repr rt (pget old_facts k) @ '' to '' @ py_repr rt v\<rparr>)
       (filter (\<lambda>(k, v). \<not> py_eq (pget old_facts k) v) facts)"

definition compute_deltas :: "pyrt \<Rightarrow> int \<Rightarrow> dict \<Rightarrow> dict \<Rightarrow> delta list" where
  "compute_deltas rt limit old_facts facts =
     concat (map (\<lambda>(_, items). slice_to limit items)
       (sort_key fst (fold group_delta (changed_facts rt old_facts facts) [])))"

definition compiler_is_tuning :: "legal_action \<Rightarrow> bool" where
  "compiler_is_tuning a = starts_with ''TUNE_'' (la_verb a)"

definition active_locks :: "('p sys, string list) act" where
  "active_locks = bindE (on_db (list_action_runs_by_status [DISPATCHED])) (\<lambda>runs.
     ret (concat (map ar_required_locks runs)))"

fun legal_only :: "pyrt \<Rightarrow> string list \<Rightarrow> dict \<Rightarrow> legal_action list \<Rightarrow> pyexc + legal_action list" where
  "legal_only rt locked facts [] = Inr []"
| "legal_only rt locked facts (a # as) =
     (if \<exists>l\<in>set (la_required_locks a). l \<in> set locked then legal_only rt locked facts as
      else bindR (evaluate rt (la_preconditions a) facts) (\<lambda>ok.
        bindR (legal_only rt locked facts as) (\<lambda>rest. Inr (if ok then a # rest else rest))))"

definition order_frontier :: "legal_action list \<Rightarrow> legal_action list" where
  "order_frontier legal =
     (let sorted_legal = sort_key (\<lambda>a. (la_rank_hint a, la_action_id a)) legal
      in filter (\<lambda>a. \<not> compiler_is_tuning a) sorted_legal @ filter compiler_is_tuning sorted_legal)"

definition build_frontier :: "'p env \<Rightarrow> world_packet \<Rightarrow> ('p sys, legal_action list) act" where
  "build_frontier env world =
     bindE (for_packs (\<lambda>pid. on_pack pid (e_candidates env world))) (\<lambda>candidates.
     bindE active_locks (\<lambda>locked.
     bindE (liftE (legal_only (e_rt env) locked (wp_facts world) (concat candidates))) (\<lambda>legal.
       ret (order_frontier legal))))"

definition interference :: "'p env \<Rightarrow> ('p sys, unit) act" where
  "interference env = modify (\<lambda>s. s\<lparr>s_wb := snd (batch_publish (e_wb_clk env) (e_interfere env (s_compiles s)) (s_wb s)),
     s_compiles := s_compiles s + 1\<rparr>)"

definition merge_facts :: "normalized_state list \<Rightarrow> dict" where
  "merge_facts items = fold (\<lambda>item facts. dict_update facts (ns_facts item)) items []"

definition compile_world :: "'p env \<Rightarrow> string \<Rightarrow> string list \<Rightarrow> ('p sys, world_packet) act" where
  "compile_world env goal pending_human =
     bindE (interference env) (\<lambda>_.
     bindE (gets (\<lambda>s. snapshot (s_wb s))) (\<lambda>snap.
     bindE (wall_ms env) (\<lambda>compiled_ts_ms.
     bindE (for_packs (\<lambda>pid. on_pack pid (e_normalize env (snap_values snap)))) (\<lambda>normalized.
     bindE (gets s_last_facts) (\<lambda>last_facts.
       let facts = merge_facts normalized;
           deltas = compute_deltas (e_rt env) (cfg_delta_limit_per_device (e_cfg env)) last_facts facts
       in bindE (on_db (recent_completed_actions (e_rt env) (run_scope_from_facts (e_rt env) facts) 3)) (\<lambda>recent_results.
       let preliminary = \<lparr>wp_goal = goal, wp_device_summaries = map ns_summary normalized, wp_facts = facts,
             wp_resources = concat (map ns_resources normalized), wp_blockers = concat (map ns_blockers normalized),
             wp_deltas = deltas, wp_frontier = [], wp_last_result = (case recent_results of [] \<Rightarrow> [] | r # _ \<Rightarrow> r),
             wp_recent_results = recent_results, wp_pending_human = pending_human,
             wp_compilation = Some \<lparr>cc_compiled_at = ms_to_iso (e_rt env) compiled_ts_ms,
               cc_compiled_ts_ms = compiled_ts_ms, cc_whiteboard_sequence = snap_sequence snap,
               cc_live_state_summary = build_live_state_summary (snap_values snap),
               cc_raw_snapshot = snap_values snap\<rparr>,
             wp_prompt_frontier_limit = Some (cfg_frontier_limit (e_cfg env))\<rparr>
       in bindE (build_frontier env preliminary) (\<lambda>frontier.
          bindE (modify (\<lambda>s. s\<lparr>s_last_facts := facts, s_last_seq := snap_sequence snap\<rparr>)) (\<lambda>_.
            ret (preliminary\<lparr>wp_frontier := frontier\<rparr>)))))))))"

definition compile_now :: "'p env \<Rightarrow> string \<Rightarrow> ('p sys, world_packet) act" where
  "compile_now env goal = bindE (pending_messages env) (compile_world env goal)"

section \<open>The frontier\<close>

text \<open>
  Legal now: no lock in common with a run that is dispatched, and the preconditions evaluate to true.
\<close>

definition legal_now :: "pyrt \<Rightarrow> action_run list \<Rightarrow> dict \<Rightarrow> legal_action \<Rightarrow> bool" where
  "legal_now rt runs facts a \<longleftrightarrow>
     (\<forall>r\<in>set runs. ar_status r = DISPATCHED \<longrightarrow> set (la_required_locks a) \<inter> set (ar_required_locks r) = {})
     \<and> evaluate rt (la_preconditions a) facts = Inr True"

lemma legal_only_filter:
  "legal_only rt locked facts as = Inr legal \<Longrightarrow>
     legal = filter (\<lambda>a. set (la_required_locks a) \<inter> set locked = {} \<and> evaluate rt (la_preconditions a) facts = Inr True) as"
proof (induction as arbitrary: legal)
  case (Cons a as)
  then show ?case
    by (cases "\<exists>l\<in>set (la_required_locks a). l \<in> set locked") (auto simp: bindR_eq_Inr disjoint_iff)
qed simp

lemma order_frontier_mset: "mset (order_frontier legal) = mset legal"
proof -
  have "mset (filter (\<lambda>a. \<not> Q a) xs @ filter Q xs) = mset xs" for Q and xs :: "legal_action list"
    by (induction xs) auto
  then show ?thesis by (simp add: order_frontier_def Let_def del: mset_append mset_filter)
qed

lemma order_frontier_sorted:
  "sorted (map (\<lambda>a. (compiler_is_tuning a, la_rank_hint a, la_action_id a)) (order_frontier legal))"
proof -
  let ?s = "sort_key (\<lambda>a. (la_rank_hint a, la_action_id a)) legal"
  have "sorted (map (\<lambda>a. (la_rank_hint a, la_action_id a)) (filter Q ?s))" for Q
    by (simp add: sorted_filter)
  then have part: "sorted (map (\<lambda>a. (b, la_rank_hint a, la_action_id a)) (filter Q ?s))" for Q and b :: bool
    by (simp add: sorted_map less_eq_prod_def)
  have "sorted (map (\<lambda>a. (compiler_is_tuning a, la_rank_hint a, la_action_id a)) (filter compiler_is_tuning ?s))"
    using part [of True compiler_is_tuning] by (subst map_cong [OF refl, where g = "\<lambda>a. (True, la_rank_hint a, la_action_id a)"]) auto
  moreover have "sorted (map (\<lambda>a. (compiler_is_tuning a, la_rank_hint a, la_action_id a)) (filter (\<lambda>a. \<not> compiler_is_tuning a) ?s))"
    using part [of False "\<lambda>a. \<not> compiler_is_tuning a"]
    by (subst map_cong [OF refl, where g = "\<lambda>a. (False, la_rank_hint a, la_action_id a)"]) auto
  ultimately show ?thesis
    unfolding order_frontier_def Let_def map_append sorted_append by (auto simp: less_eq_prod_def)
qed

lemma mapE_keeps_gen: "(\<And>x. preserves P (f x)) \<Longrightarrow> preserves P (mapE f xs)"
  by (induction xs) (auto intro!: preserves_intros)



lemma for_packs_view:
  assumes "for_packs (\<lambda>pid. on_pack pid (f pid)) s = (x, s')"
  shows "(s_db s', s_wb s', s_locks s', s_last_facts s', s_last_seq s') = (s_db s, s_wb s, s_locks s, s_last_facts s, s_last_seq s)"
proof -
  have "preserves (\<lambda>s'. (s_db s', s_wb s', s_locks s', s_last_facts s', s_last_seq s') = v) (on_pack pid m)" for v pid and m :: "('b, 'c) act"
    by (rule preservesI) (auto simp: on_pack_def split: option.split prod.split)
  then have "preserves (\<lambda>s'. (s_db s', s_wb s', s_locks s', s_last_facts s', s_last_seq s') = v) (for_packs (\<lambda>pid. on_pack pid (f pid)))" for v
    unfolding for_packs_def by (intro preserves_intros mapE_keeps_gen)
  from preservesD [OF this refl assms] show ?thesis .
qed

lemma for_packs_db: "preserves (\<lambda>s. s_db s = d) (for_packs (\<lambda>pid. on_pack pid (f pid)))"
proof (rule preservesI)
  fix s :: "'a sys" assume s: "s_db s = d"
  obtain x s' where run: "for_packs (\<lambda>pid. on_pack pid (f pid)) s = (x, s')" by fastforce
  with for_packs_view [OF run] s show "s_db (snd (for_packs (\<lambda>pid. on_pack pid (f pid)) s)) = d" by simp
qed

lemma active_locks_run:
  "active_locks s = (Inr (concat (map ar_required_locks (sort_key ar_created_ts_ms
      (filter (\<lambda>r. ar_status r = DISPATCHED) (db_runs (s_db s)))))), s)"
  by (simp add: active_locks_def on_db_def list_action_runs_by_status_def act_simps bindE_def)

lemma legal_only_now:
  assumes "legal_only rt (concat (map ar_required_locks (sort_key ar_created_ts_ms
      (filter (\<lambda>r. ar_status r = DISPATCHED) runs)))) facts cands = Inr legal"
  shows "legal = filter (legal_now rt runs facts) cands"
  unfolding legal_only_filter [OF assms] by (rule filter_cong) (auto simp: legal_now_def)

lemma build_frontier_exact:
  assumes "for_packs (\<lambda>pid. on_pack pid (e_candidates env world)) s = (Inr cands, s1)"
    and "build_frontier env world s = (Inr frontier, s')"
  shows "mset frontier = filter_mset (legal_now (e_rt env) (db_runs (s_db s)) (wp_facts world)) (mset (concat cands))
    \<and> sorted (map (\<lambda>a. (compiler_is_tuning a, la_rank_hint a, la_action_id a)) frontier)
    \<and> s' = s1 \<and> s_db s' = s_db s"
proof -
  have d: "s_db s1 = s_db s" using for_packs_view [OF assms(1)] by simp
  obtain legal where l: "legal_only (e_rt env) (concat (map ar_required_locks (sort_key ar_created_ts_ms
      (filter (\<lambda>r. ar_status r = DISPATCHED) (db_runs (s_db s1)))))) (wp_facts world) (concat cands) = Inr legal"
    and f: "frontier = order_frontier legal" "s' = s1"
    using assms(2) unfolding build_frontier_def bindE_def [where s = s] bindE_def [where s = s1] assms(1) prod.case sum.case
      active_locks_run liftE_def ret_def by (auto split: sum.splits)
  from legal_only_now [OF l] d f show ?thesis
    by (simp add: order_frontier_mset order_frontier_sorted)
qed

text \<open>
  a compiled world packet: its frontier is exactly the candidate actions of the packs whose
  preconditions evaluate to true on the compiled facts and whose locks no dispatched run holds, each as
  often as it was proposed, the control actions before the tuning actions and both by rank and id; its
  facts are remembered for the next deltas, it belongs to the whiteboard snapshot taken after whatever
  others published, and neither the database nor the locks are touched.
\<close>

theorem compile_now_sound:
  assumes "compile_now env goal s = (Inr w, s')"
  shows "(\<exists>cands s1. for_packs (\<lambda>pid. on_pack pid (e_candidates env (w\<lparr>wp_frontier := []\<rparr>))) s1 = (Inr cands, s'\<lparr>s_last_facts := s_last_facts s, s_last_seq := s_last_seq s\<rparr>)
      \<and> mset (wp_frontier w) = filter_mset (legal_now (e_rt env) (db_runs (s_db s)) (wp_facts w)) (mset (concat cands)))
    \<and> sorted (map (\<lambda>a. (compiler_is_tuning a, la_rank_hint a, la_action_id a)) (wp_frontier w))
    \<and> wp_deltas w = compute_deltas (e_rt env) (cfg_delta_limit_per_device (e_cfg env)) (s_last_facts s) (wp_facts w)
    \<and> s_last_facts s' = wp_facts w \<and> s_last_seq s' = wb_seq (s_wb s')
    \<and> s_wb s' = snd (batch_publish (e_wb_clk env) (e_interfere env (s_compiles s)) (s_wb s))
    \<and> s_db s' = s_db s \<and> s_locks s' = s_locks s"
proof -
  let ?wb = "snd (batch_publish (e_wb_clk env) (e_interfere env (s_compiles s)) (s_wb s))"
  let ?view = "\<lambda>s. (s_db s, s_wb s, s_locks s, s_last_facts s, s_last_seq s)"
  let ?sB = "s\<lparr>s_wb := ?wb, s_compiles := s_compiles s + 1, s_walls := s_walls s + 1\<rparr>"
  let ?ts = "e_clk env (s_walls s)"
  have "compile_world env goal (map (pending_message (e_rt env)) (sort_key fst (s_outbox s))) s = (Inr w, s')"
    using assms by (simp add: compile_now_def pending_messages_def act_simps)
  then obtain norm sC recent sD sE frontier where
      n: "for_packs (\<lambda>pid. on_pack pid (e_normalize env (wb_values ?wb))) ?sB = (Inr norm, sC)"
    and r: "on_db (recent_completed_actions (e_rt env) (run_scope_from_facts (e_rt env) (merge_facts norm)) 3) sC = (Inr recent, sD)"
    and f: "build_frontier env (w\<lparr>wp_frontier := []\<rparr>) sD = (Inr frontier, sE)"
    and s': "s' = sE\<lparr>s_last_facts := merge_facts norm, s_last_seq := wb_seq ?wb\<rparr>"
    and w: "wp_frontier w = frontier" "wp_facts w = merge_facts norm"
      "wp_deltas w = compute_deltas (e_rt env) (cfg_delta_limit_per_device (e_cfg env)) (s_last_facts sC) (merge_facts norm)"
    unfolding compile_world_def Let_def
    by (elim bindE_eq_InrD) (auto simp: interference_def wall_ms_def act_simps snapshot_def)
  have "sD = sC" using r by (auto simp: on_db_def recent_completed_actions_def)
  have "?view sC = ?view ?sB" using for_packs_view [OF n] .
  moreover obtain cands where c: "for_packs (\<lambda>pid. on_pack pid (e_candidates env (w\<lparr>wp_frontier := []\<rparr>))) sD = (Inr cands, sE)"
    using f unfolding build_frontier_def by (elim bindE_eq_InrD) (auto simp: active_locks_run act_simps)
  note for_packs_view [OF c] build_frontier_exact [OF c f]
  ultimately show ?thesis
    using \<open>sD = sC\<close> w s' c
    by (intro conjI exI [of _ cands] exI [of _ sD]) (auto intro!: sys.equality)
qed

lemma compile_now_db: "preserves (\<lambda>s. s_db s = d) (compile_now env goal)"
proof -
  have q: "preserves (\<lambda>s. s_db s = d) (on_db m)" if "\<And>d. snd (m d) = d" for m :: "(db, 'b) act"
    using that by (auto simp: preserves_def on_db_def case_prod_unfold)
  have "preserves (\<lambda>s. s_db s = d) active_locks"
    by (simp add: preserves_def active_locks_run)
  then show ?thesis
    unfolding compile_now_def compile_world_def pending_messages_def build_frontier_def interference_def wall_ms_def Let_def
    by (intro preserves_intros for_packs_db q) (auto simp: preserves_def recent_completed_actions_def)
qed

text \<open>A runtime with one pack that offers one action, locked by \<open>arm\<close>, and one that is not legal.\<close>

definition sample_action :: legal_action where
  "sample_action = \<lparr>la_action_id = ''SIM-A001'', la_verb = ''MOVE'', la_description = ''move'', la_owner_pack = ''sim'',
     la_execute_ref = ''sim.move'', la_args = [], la_required_locks = [''arm''], la_hazard_class = LOW,
     la_approval_required = False, la_preconditions = atom ''sim.ready'' ''==''  (PyBool True), la_verify = PyNone,
     la_expected_delta = [], la_target_device = None, la_rank_hint = 10\<rparr>"

definition sample_config :: config where
  "sample_config = \<lparr>cfg_frontier_limit = 8, cfg_delta_limit_per_device = 2, cfg_approval_ttl_seconds = 300,
     cfg_auto_approve_low_hazard = True, cfg_control_lock_path = ''control.lock''\<rparr>"

definition sample_env :: "unit env" where
  "sample_env = \<lparr>e_rt = sample_rt, e_sha = (\<lambda>x. x), e_cfg = sample_config, e_clk = (\<lambda>_. 1), e_db_clk = (\<lambda>_. 1),
     e_wb_clk = (\<lambda>_. 1), e_mono = (\<lambda>n. of_nat n), e_uuid = (\<lambda>n. replicate n (CHR ''u'')), e_flock = (\<lambda>_. True),
     e_interfere = (\<lambda>_. []), e_hook = (\<lambda>_. None), e_fuel = 3, e_publish = (\<lambda>_. ret ()),
     e_normalize = (\<lambda>_. ret \<lparr>ns_summary = \<lparr>ds_device_id = ''sim'', ds_display_name = ''Sim'',
         ds_category = ''arm'', ds_mode = ''ready'', ds_health = ''ok'', ds_summary = ''s''\<rparr>, ns_facts = [(''sim.ready'', PyBool True)], ns_resources = [], ns_blockers = []\<rparr>),
     e_candidates = (\<lambda>_. ret [sample_action, sample_action\<lparr>la_action_id := ''SIM-A002'',
         la_preconditions := atom ''sim.ready'' ''==''  (PyBool False)\<rparr>]),
     e_realize = (\<lambda>_. ret [(''moved'', PyBool True)])\<rparr>"

definition sample_sys :: "unit sys" where
  "sample_sys = \<lparr>s_db = empty_db, s_wb = new_whiteboard, s_packs = [(''sim'', ())], s_last_facts = [], s_last_seq = 0,
     s_locks = {}, s_lease = False, s_safety = new_safety 30 0, s_outbox = [], s_uuids = 0, s_walls = 0, s_monos = 0,
     s_flocks = 0, s_compiles = 0\<rparr>"

theorem compile_now_sound_witness:
  "case compile_now sample_env ''g'' sample_sys of
     (Inr w, s') \<Rightarrow> wp_frontier w = [sample_action] \<and> s_last_facts s' = wp_facts w | _ \<Rightarrow> False"
proof -
  have "case compile_now sample_env ''g'' sample_sys of (Inr w, s') \<Rightarrow> wp_frontier w = [sample_action] | _ \<Rightarrow> False"
    by code_simp
  then obtain w s' where "compile_now sample_env ''g'' sample_sys = (Inr w, s')" "wp_frontier w = [sample_action]"
    by (auto split: prod.splits sum.splits)
  with compile_now_sound [OF this(1)] show ?thesis by simp
qed

text \<open>The deltas of one device.\<close>

lemma group_fold:
  "dget_or (fold group_delta ds g) k [] = dget_or g k [] @ filter (\<lambda>x. dl_device_id x = k) ds"
  by (induction ds arbitrary: g) (auto simp: group_delta_def)

lemma group_fold_distinct:
  "distinct (map fst g) \<Longrightarrow> distinct (map fst (fold group_delta ds g))"
  by (induction ds arbitrary: g) (auto simp: group_delta_def)

lemma concat_single_group:
  assumes "distinct (map fst groups)" and "\<And>k items x. (k, items) \<in> set groups \<Longrightarrow> x \<in> set items \<Longrightarrow> key x = k"
    and "\<And>xs. set (f xs) \<subseteq> set xs" and "f [] = []"
  shows "filter (\<lambda>x. key x = k) (concat (map (\<lambda>(_, items). f items) groups)) = f (dget_or groups k [])"
  using assms(1,2)
proof (induction groups)
  case (Cons g gs)
  obtain k' items where g: "g = (k', items)" by (cases g)
  have k': "\<And>x. x \<in> set (f items) \<Longrightarrow> key x = k'" using Cons.prems(2) [of k' items] assms(3) [of items] g by auto
  have IH: "filter (\<lambda>x. key x = k) (concat (map (\<lambda>(_, items). f items) gs)) = f (dget_or gs k [])"
    using Cons.IH Cons.prems g by (metis distinct.simps(2) list.set_intros(2) list.simps(9))
  show ?case
  proof (cases "k' = k")
    case True
    then have "filter (\<lambda>x. key x = k) (f items) = f items" using k' by (simp add: filter_True)
    moreover have "dget_or gs k [] = []"
      using Cons.prems(1) g True by (force simp: dget_or_def split: option.split dest: map_of_SomeD)
    ultimately show ?thesis using IH g True assms(4) by simp
  next
    case False
    then have "filter (\<lambda>x. key x = k) (f items) = []" using k' by (auto simp: filter_empty_conv)
    then show ?thesis using IH g False by simp
  qed
qed (simp add: assms(4))

lemma set_slice_to: "set (slice_to n xs) \<subseteq> set xs"
  by (auto simp: slice_to_def dest: in_set_takeD)

text \<open>
  the deltas shown for a device are the first \<open>delta_limit_per_device\<close> of its facts whose value
  differs from the one of the last compilation, in the order of the facts, each with its old and new
  value; no other device's changes use up the limit.
\<close>

theorem deltas_of_device:
  "filter (\<lambda>x. dl_device_id x = k) (compute_deltas rt limit old_facts facts)
     = slice_to limit (filter (\<lambda>x. dl_device_id x = k) (changed_facts rt old_facts facts))
   \<and> map (\<lambda>x. (dl_fact x, dl_new x)) (changed_facts rt old_facts facts)
     = filter (\<lambda>(f, v). \<not> py_eq (pget old_facts f) v) facts"
proof -
  let ?g = "fold group_delta (changed_facts rt old_facts facts) []"
  have dg: "distinct (map fst ?g)"
    by (rule group_fold_distinct) simp
  then have dist: "distinct (map fst (sort_key fst ?g))"
    by (simp add: distinct_map)
  have "map_of (sort_key fst ?g) = map_of ?g"
    using map_of_inject_set [OF dist dg] by simp
  then have look: "dget_or (sort_key fst ?g) k' [] = dget_or ?g k' []" for k'
    by (simp only: dget_or_def)
  have keys: "dl_device_id x = k'" if "(k', items) \<in> set (sort_key fst ?g)" "x \<in> set items" for k' items x
  proof -
    have "items = dget_or (sort_key fst ?g) k' []" using that dist by (simp add: dget_or_def map_of_is_SomeI)
    then have "items = filter (\<lambda>x. dl_device_id x = k') (changed_facts rt old_facts facts)"
      by (simp add: look group_fold)
    with that show ?thesis by simp
  qed
  have "filter (\<lambda>x. dl_device_id x = k) (compute_deltas rt limit old_facts facts)
      = slice_to limit (dget_or (sort_key fst ?g) k [])"
    unfolding compute_deltas_def
    by (rule concat_single_group [OF dist keys set_slice_to]) (simp_all add: slice_to_def)
  then have "filter (\<lambda>x. dl_device_id x = k) (compute_deltas rt limit old_facts facts)
      = slice_to limit (filter (\<lambda>x. dl_device_id x = k) (changed_facts rt old_facts facts))"
    by (simp add: look group_fold)
  moreover have "map (\<lambda>x. (dl_fact x, dl_new x)) (changed_facts rt old_facts facts)
      = filter (\<lambda>(f, v). \<not> py_eq (pget old_facts f) v) facts"
    by (simp add: changed_facts_def case_prod_unfold comp_def)
  ultimately show ?thesis ..
qed

section \<open>What every operation leaves alone\<close>

text \<open>The interleavings of database operations that the runtime performs on a known plan.\<close>

abbreviation db_runs_to :: "'p env \<Rightarrow> db \<Rightarrow> db \<Rightarrow> bool" where
  "db_runs_to env \<equiv> (db_step (e_db_clk env))\<^sup>*\<^sup>*"

abbreviation db_works_to :: "'p env \<Rightarrow> db \<Rightarrow> db \<Rightarrow> bool" where
  "db_works_to env \<equiv> (db_work (e_db_clk env))\<^sup>*\<^sup>*"

text \<open>The id of the plan that the \<open>n\<close>-th call of \<open>uuid4\<close> names, and that the next ones are not in use.\<close>

definition plan_id_at :: "'p env \<Rightarrow> nat \<Rightarrow> string" where
  "plan_id_at env n = new_id ''plan'' (e_uuid env n)"

definition plan_ids_free :: "'p env \<Rightarrow> nat \<Rightarrow> 'p sys \<Rightarrow> bool" where
  "plan_ids_free env bound s \<longleftrightarrow>
     (\<forall>i\<in>{s_uuids s..<bound}. find_row pr_plan_id (plan_id_at env i) (db_plans (s_db s)) = None)"

text \<open>
  A predicate of the system that survives the elementary effects survives the operations built of them.
  It may speak of the locks: no operation up to the body of the action loop changes them.
\<close>

locale sys_frame =
  fixes env :: "'p env" and P :: "'p sys \<Rightarrow> bool"
  assumes db_eff: "db_works_to env (s_db s) d \<Longrightarrow> P s \<Longrightarrow> P (s\<lparr>s_db := d\<rparr>)"
    and packs_eff: "P s \<Longrightarrow> P (s\<lparr>s_packs := ps\<rparr>)"
    and publish_eff: "P s \<Longrightarrow> P (snd (on_pack_wb pid (e_publish env md) s))"
    and realize_eff: "P s \<Longrightarrow> P (snd (on_pack_wb pid (e_realize env a) s))"
    and interfere_eff: "P s \<Longrightarrow> P (s\<lparr>s_wb := snd (batch_publish (e_wb_clk env) kvs (s_wb s)), s_compiles := n\<rparr>)"
    and memory_eff: "P s \<Longrightarrow> P (s\<lparr>s_last_facts := fs, s_last_seq := n\<rparr>)"
    and safety_eff: "P s \<Longrightarrow> P (s\<lparr>s_safety := k\<rparr>)"
    and outbox_eff: "P s \<Longrightarrow> P (s\<lparr>s_outbox := os\<rparr>)"
    and uuids_eff: "P s \<Longrightarrow> s_uuids s \<le> n \<Longrightarrow> P (s\<lparr>s_uuids := n\<rparr>)"
    and walls_eff: "P s \<Longrightarrow> P (s\<lparr>s_walls := n\<rparr>)"
    and monos_eff: "P s \<Longrightarrow> P (s\<lparr>s_monos := n\<rparr>)"
    and lease_eff: "P s \<Longrightarrow> P (s\<lparr>s_lease := b, s_flocks := n\<rparr>)"
begin

lemma on_db_keeps: "(\<And>d. db_works_to env d (snd (m d))) \<Longrightarrow> preserves P (on_db m)"
  by (rule preservesI) (simp add: on_db_def case_prod_unfold db_eff)

lemma on_pack_keeps [preserves_intros]: "preserves P (on_pack pid m)"
  by (rule preservesI) (auto simp: on_pack_def split: option.split prod.split intro: packs_eff)

lemma publish_keeps [preserves_intros]: "preserves P (on_pack_wb pid (e_publish env md))"
  by (rule preservesI) (rule publish_eff)

lemma realize_keeps [preserves_intros]: "preserves P (on_pack_wb pid (e_realize env a))"
  by (rule preservesI) (rule realize_eff)

lemma mapE_keeps [preserves_intros]: "(\<And>x. preserves P (f x)) \<Longrightarrow> preserves P (mapE f xs)"
  by (induction xs) (auto intro!: preserves_intros)

lemma clocks_keep [preserves_intros]:
  "preserves P (wall_ms env)" "preserves P (monotonic env)" "preserves P (fresh_id env pre)"
  by (simp_all add: preserves_def wall_ms_def monotonic_def fresh_id_def walls_eff monos_eff uuids_eff)

lemma mono_ms_keeps [preserves_intros]: "preserves P (mono_ms env)"
  unfolding mono_ms_def by (intro preserves_intros)

text \<open>The database operations of the engine.\<close>

lemma db_op_keeps:
  "(\<And>d. db_work (e_db_clk env) d (snd (m d))) \<Longrightarrow> preserves P (on_db m)"
  "(\<And>d. snd (m d) = d) \<Longrightarrow> preserves P (on_db m)"
  by (intro on_db_keeps r_into_rtranclp; assumption) (simp add: on_db_keeps)

lemma db_ops_keep [preserves_intros]:
  "preserves P (on_db (create_action_run r))"
  "preserves P (on_db (transition_action_run (e_db_clk env) rid st res err))"
  "preserves P (on_db (record_approval a))"
  "preserves P (on_db (record_event (e_db_clk env) c l m ctx))"
  "preserves P (on_db (has_valid_approval (e_db_clk env) rid h now))"
  "preserves P (on_db (start_exec_journal k rid v h t))"
  "preserves P (on_db (finish_exec_journal k jst t res err))"
  by (intro db_op_keeps(1) db_works)+

lemma db_queries_keep [preserves_intros]:
  "preserves P (on_db (get_plan_run_scope plan_id))"
  "preserves P (on_db (list_action_runs_by_status sts))"
  "preserves P (on_db (recent_completed_actions rt scope limit))"
  "preserves P (on_db (get_exec_journal k))"
  by (intro db_op_keeps(2); simp add: get_plan_run_scope_def list_action_runs_by_status_def
      recent_completed_actions_def get_exec_journal_def act_simps)+

lemma log_event_keeps [preserves_intros]: "preserves P (log_event env c l m ctx)"
  unfolding log_event_def by (intro preserves_intros)

lemma safety_beat_keeps [preserves_intros]: "preserves P (safety_beat env)"
  unfolding safety_beat_def by (intro preserves_intros) (rule safety_eff)

lemma call_human_keeps [preserves_intros]: "preserves P (call_human env title body sev ack ctx)"
  unfolding call_human_def Let_def by (intro preserves_intros outbox_eff)

lemma decide_keeps [preserves_intros]: "preserves P (decide env v rid h by_whom ttl)"
  unfolding decide_def Let_def by (intro preserves_intros)

lemma request_approval_keeps [preserves_intros]: "preserves P (request_approval env rid h hz reason)"
  unfolding request_approval_def approve_def by (intro preserves_intros)

lemma publish_all_keeps [preserves_intros]: "preserves P (publish_all_raw_state env md)"
  unfolding publish_all_raw_state_def for_packs_def by (intro preserves_intros)

lemma compile_now_keeps [preserves_intros]: "preserves P (compile_now env goal)"
  unfolding compile_now_def compile_world_def pending_messages_def interference_def build_frontier_def
    for_packs_def active_locks_def Let_def
  by (intro preserves_intros interfere_eff memory_eff)

end

text \<open>
  The frames in use: the history of the database, the locks in use, and, as long as no more than \<open>bound\<close> ids
  are drawn, both the history and the freshness of the ids still to come.
\<close>

definition book :: "'p env \<Rightarrow> db \<Rightarrow> nat \<Rightarrow> 'p sys \<Rightarrow> bool" where
  "book env d bound s \<longleftrightarrow> (inj_on (plan_id_at env) {..<bound} \<longrightarrow> s_uuids s \<le> bound \<longrightarrow>
     db_runs_to env d (s_db s) \<and> plan_ids_free env bound s)"

lemma bookD:
  "book env d bound s \<Longrightarrow> inj_on (plan_id_at env) {..<bound} \<Longrightarrow> s_uuids s \<le> bound \<Longrightarrow> db_runs_to env d (s_db s)"
  by (simp add: book_def)

interpretation hist: sys_frame env "\<lambda>s. db_runs_to env d (s_db s)" for env d
  by unfold_locales (auto simp: on_pack_wb_def split: option.splits prod.splits dest: db_work_steps)

interpretation lk: sys_frame env "\<lambda>s. s_locks s = held" for env held
  by unfold_locales (auto simp: on_pack_wb_def split: option.splits prod.splits)

interpretation bk: sys_frame env "book env d bound" for env d bound
proof unfold_locales
  fix s :: "'a sys" and d'
  assume w: "db_works_to env (s_db s) d'" and b: "book env d bound s"
  then have "db_runs_to env d (s_db s) \<Longrightarrow> db_runs_to env d d'" "db_plans d' = db_plans (s_db s)"
    by (auto dest: db_work_steps db_work_plans)
  with b show "book env d bound (s\<lparr>s_db := d'\<rparr>)" by (auto simp: book_def plan_ids_free_def)
qed (auto simp: book_def plan_ids_free_def on_pack_wb_def split: option.splits prod.splits)

end
