(* ===== verification/Engine.thy ===== *)
theory Engine
  imports Runtime "HOL-Library.Sublist"
begin

text \<open>
  The execution path: \<open>BasePack.execute\<close> (\<open>wallee_v6/wallee_v6/packs/base.py\<close>) with its journal barrier and
  the \<open>Engine\<close> (\<open>engine.py\<close>).  A \<open>break\<close> of the action loop is the flag \<open>st_break\<close> of the step
  result.  The waiting loop of \<open>WAIT_UNTIL\<close> takes its fuel from \<open>e_fuel\<close>; running out of fuel is the
  exception \<open>OutOfFuel\<close>, which no code raises, and \<open>wait_loop_returns\<close> shows how much fuel is enough.
\<close>

section \<open>The journal barrier of a pack\<close>

definition result_of :: "exec_outcome \<Rightarrow> dict \<Rightarrow> dict option \<Rightarrow> exec_result" where
  "result_of outcome result err = \<lparr>er_status = outcome, er_result = result, er_error = err\<rparr>"

definition journal_result :: "journal_entry \<Rightarrow> exec_result" where
  "journal_result e = (case je_exec_state e of
      IN_FLIGHT \<Rightarrow> result_of InFlight [] (Some [(''reason'', PyStr ''already_in_flight'')])
    | EXPIRED \<Rightarrow> result_of Expired [] (Some [(''reason'', PyStr ''expired'')])
    | SUCCESS \<Rightarrow> result_of Success (case je_result e of None \<Rightarrow> [] | Some r \<Rightarrow> r) None
    | JFAILED \<Rightarrow> result_of Failed [] (case je_error e of
          None \<Rightarrow> Some [(''reason'', PyStr ''previous_failure'')]
        | Some [] \<Rightarrow> Some [(''reason'', PyStr ''previous_failure'')]
        | Some err \<Rightarrow> Some err))"

definition exc_payload :: "pyexc \<Rightarrow> dict" where
  "exc_payload e = [(''type'', PyStr (exc_class e)), (''message'', PyStr (exc_str e))]"

definition pack_execute :: "'p env \<Rightarrow> legal_action \<Rightarrow> string \<Rightarrow> string \<Rightarrow> string \<Rightarrow> ('p sys, exec_result) act" where
  "pack_execute env action action_run_id key args_hash =
     bindE (mono_ms env) (\<lambda>now_mono.
     bindE (on_db (get_exec_journal key)) (\<lambda>existing. case existing of
         Some e \<Rightarrow> ret (journal_result e)
       | None \<Rightarrow>
         bindE (on_db (start_exec_journal key action_run_id (la_verb action) args_hash now_mono)) (\<lambda>_.
         bindE (case e_hook env key of None \<Rightarrow> ret () | Some e \<Rightarrow> raise e) (\<lambda>_.
         bindE (try_except (bindE (on_pack_wb (la_owner_pack action) (e_realize env action)) (\<lambda>r. ret (Inr r)))
                  (\<lambda>e. ret (Inl e))) (\<lambda>outcome.
         bindE (mono_ms env) (\<lambda>ended. case outcome of
             Inl e \<Rightarrow>
               bindE (on_db (finish_exec_journal key JFAILED ended None (Some (exc_payload e)))) (\<lambda>_.
                 ret (result_of Failed [] (Some (exc_payload e))))
           | Inr result \<Rightarrow>
               bindE (on_db (finish_exec_journal key SUCCESS ended (Some result) None)) (\<lambda>_.
                 ret (result_of Success result None))))))))"

section \<open>Plans against the frontier\<close>

definition matching_actions :: "world_packet \<Rightarrow> tuning_choice \<Rightarrow> string list" where
  "matching_actions world c = map la_action_id (filter (\<lambda>a.
     action_family_from_id (la_action_id a) = Some (tc_family c)
     \<and> action_direction_from_id (la_action_id a) = Some (tc_direction c)
     \<and> action_magnitude_from_id (la_action_id a) = Some (tc_magnitude c)) (wp_frontier world))"

definition malformed_plan_why :: string where
  "malformed_plan_why = ''Malformed planner output included both an explicit sequence and a tuning choice, and the tuning choice did not resolve cleanly to one legal action. Skip this cycle.''"

definition materialize_plan :: "world_packet \<Rightarrow> plan_ir \<Rightarrow> pyexc + plan_ir" where
  "materialize_plan world plan =
     (case pi_tuning_choice plan of
        None \<Rightarrow> Inr plan
      | Some c \<Rightarrow>
        if pi_decision plan \<noteq> EXECUTE then Inr plan
        else (case matching_actions world c of
            [m] \<Rightarrow> Inr (plan\<lparr>pi_sequence := [m], pi_tuning_choice := None\<rparr>)
          | matches \<Rightarrow>
            if pi_sequence plan \<noteq> [] then Inr (no_action_plan malformed_plan_why)
            else Inl (ValueError (''compact tuning choice did not resolve to exactly one legal frontier action (plan.tuning_choice.family=''
              @ str_repr (tc_family c) @ '' plan.tuning_choice.direction='' @ str_repr (tc_direction c)
              @ '' plan.tuning_choice.magnitude='' @ str_repr (tc_magnitude c) @ '' matches='' @ list_repr matches @ '')''))))"

text \<open>\<open>{action.action_id: action for ...}\<close>: the last action with an id wins.\<close>

definition frontier_map :: "legal_action list \<Rightarrow> string \<Rightarrow> legal_action option" where
  "frontier_map frontier = map_of (rev (map (\<lambda>a. (la_action_id a, a)) frontier))"

definition validate_plan :: "world_packet \<Rightarrow> plan_ir \<Rightarrow> pyexc + legal_action list" where
  "validate_plan world plan =
     bindR (materialize_plan world plan) (\<lambda>plan.
       if pi_decision plan \<noteq> EXECUTE then Inr []
       else if pi_sequence plan = [] then Inl (ValueError ''EXECUTE decision requires at least one action ID'')
       else mapR (\<lambda>action_id. case frontier_map (wp_frontier world) action_id of
           None \<Rightarrow> Inl (ValueError (''plan referenced unknown frontier action '' @ str_repr action_id))
         | Some a \<Rightarrow> Inr a) (pi_sequence plan))"

section \<open>Reports\<close>

record report =
  rp_plan_id :: string
  rp_executed_action_ids :: "string list"
  rp_blocked_action_run_id :: "string option"
  rp_replan_required :: bool
  rp_failed_action_run_id :: "string option"
  rp_human_request_ids :: "string list"
  rp_notes :: "string list"
  rp_post_execution_world :: "world_packet option"

definition new_report :: "string \<Rightarrow> report" where
  "new_report plan_id = \<lparr>rp_plan_id = plan_id, rp_executed_action_ids = [], rp_blocked_action_run_id = None,
     rp_replan_required = False, rp_failed_action_run_id = None, rp_human_request_ids = [], rp_notes = [],
     rp_post_execution_world = None\<rparr>"

definition add_note :: "string \<Rightarrow> report \<Rightarrow> report" where
  "add_note n r = r\<lparr>rp_notes := rp_notes r @ [n]\<rparr>"

section \<open>Results after verification\<close>

definition engine_word :: "pyrt \<Rightarrow> string list \<Rightarrow> pyval \<Rightarrow> string option" where
  "engine_word rt allowed v = (if text_of rt v \<in> set allowed then Some (text_of rt v) else None)"

definition split_fact_text :: "pyrt \<Rightarrow> pyval \<Rightarrow> string list" where
  "split_fact_text rt v = (if text_of rt v = [] then []
     else filter (\<lambda>item. item \<noteq> []) (split_on (CHR ''|'') (text_of rt v)))"

definition world_vision_signal :: "pyrt \<Rightarrow> world_packet \<Rightarrow> dict" where
  "world_vision_signal rt world =
     (let facts = wp_facts world;
          summary = nonempty (text_of rt (pget facts ''printer_1.vision_advisory_summary''));
          usable = (truthy (dget_or facts ''printer_1.nozzle_cam_usable'' (PyBool False)) \<and> summary \<noteq> None);
          word = (\<lambda>x. if usable then opt_str x else PyNone)
      in [(''usable'', PyBool usable), (''summary'', word summary),
          (''finding_types'', str_list (if usable
             then split_fact_text rt (pget facts ''printer_1.vision_advisory_finding_types'') else [])),
          (''strength'', word (engine_word rt [''weak'', ''moderate'', ''strong'']
             (pget facts ''printer_1.vision_advisory_strength''))),
          (''issue_level'', word (engine_word rt [''low'', ''medium'', ''high'']
             (pget facts ''printer_1.vision_advisory_issue_level''))),
          (''comparison_delta'', word (nonempty (text_of rt (pget facts ''printer_1.vision_comparison_delta'')))),
          (''comparison_confidence'', word (engine_word rt [''weak'', ''moderate'', ''strong'']
             (pget facts ''printer_1.vision_comparison_confidence''))),
          (''comparison_summary'', word (nonempty (text_of rt (pget facts ''printer_1.vision_comparison_summary''))))])"

definition enrich_result :: "pyrt \<Rightarrow> dict \<Rightarrow> world_packet \<Rightarrow> dict" where
  "enrich_result rt result world =
     (let facts = wp_facts world
      in dset ''post_action_world'' (PyDict
          [(''compiled_at'', case wp_compilation world of None \<Rightarrow> PyNone | Some c \<Rightarrow> PyStr (cc_compiled_at c)),
           (''compiled_ts_ms'', case wp_compilation world of None \<Rightarrow> PyNone | Some c \<Rightarrow> PyInt (cc_compiled_ts_ms c)),
           (''job_progress_pct'', pget facts ''printer_1.job_progress_pct''),
           (''raw_observed_at'', pget facts ''printer_1.raw_observed_at''),
           (''vision_observed_at'', pget facts ''printer_1.vision_observed_at'')])
         (dset ''post_action_vision_signal'' (PyDict (world_vision_signal rt world)) result))"

definition verify_action :: "pyrt \<Rightarrow> legal_action \<Rightarrow> dict \<Rightarrow> pyexc + bool" where
  "verify_action rt action facts =
     (if la_verify action \<noteq> PyNone then evaluate rt (la_verify action) facts
      else if la_expected_delta action \<noteq> [] then evaluate rt (all_of (la_expected_delta action)) facts
      else Inr True)"

section \<open>Engine operations\<close>

definition transition :: "'p env \<Rightarrow> string \<Rightarrow> run_status \<Rightarrow> dict option \<Rightarrow> dict option \<Rightarrow> ('p sys, action_run) act" where
  "transition env rid st result err = on_db (transition_action_run (e_db_clk env) rid st result err)"

definition create_run :: "'p env \<Rightarrow> string \<Rightarrow> legal_action \<Rightarrow> ('p sys, action_run) act" where
  "create_run env plan_id action =
     bindE (wall_ms env) (\<lambda>now_ms.
     bindE (on_db (get_plan_run_scope plan_id)) (\<lambda>run_scope.
     let args_hash = action_args_hash (e_rt env) (e_sha env) (la_verb action) (la_args action)
     in bindE (fresh_id env ''run'') (\<lambda>run_id.
        let run = \<lparr>ar_action_run_id = run_id, ar_plan_id = plan_id, ar_run_scope = run_scope,
              ar_action_id = la_action_id action, ar_verb = la_verb action, ar_owner_pack = la_owner_pack action,
              ar_args = la_args action, ar_args_hash = args_hash,
              ar_idempotency_key = idempotency_key (e_rt env) (e_sha env) plan_id (la_action_id action) (la_verb action) args_hash,
              ar_required_locks = la_required_locks action, ar_status = PROPOSED,
              ar_hazard_class = la_hazard_class action, ar_verify = la_verify action,
              ar_expected_delta = la_expected_delta action, ar_target_device = la_target_device action,
              ar_created_ts_ms = now_ms, ar_updated_ts_ms = now_ms, ar_result = None, ar_error = None\<rparr>
        in bindE (on_db (create_action_run run)) (\<lambda>_. ret run))))"

text \<open>
  The loop of \<open>WAIT_UNTIL\<close>: the clock is read before and after each compilation.  \<open>None\<close>: out of fuel.
\<close>

fun wait_loop :: "'p env \<Rightarrow> string \<Rightarrow> pyval \<Rightarrow> pyfloat \<Rightarrow> nat \<Rightarrow> ('p sys, bool option) act" where
  "wait_loop env goal predicate deadline 0 = ret None"
| "wait_loop env goal predicate deadline (Suc fuel) =
     bindE (monotonic env) (\<lambda>t.
       if \<not> float_less (Fin t) deadline then ret (Some False)
       else bindE (compile_now env goal) (\<lambda>world.
         bindE (liftE (evaluate (e_rt env) predicate (wp_facts world))) (\<lambda>ok.
           if ok then ret (Some True)
           else bindE (monotonic env) (\<lambda>t'.
             if float_le (float_sub deadline (Fin t')) (Fin 0) then ret (Some False)
             else wait_loop env goal predicate deadline fuel))))"

definition nonneg_float_arg :: "pyrt \<Rightarrow> pyval \<Rightarrow> pyfloat \<Rightarrow> pyexc + pyfloat" where
  "nonneg_float_arg rt v dflt =
     (if v = PyNone then Inr dflt else bindR (py_float rt v) (\<lambda>f. Inr (float_max (Fin 0) f)))"

definition execute_wait_until :: "'p env \<Rightarrow> legal_action \<Rightarrow> string \<Rightarrow> ('p sys, exec_result) act" where
  "execute_wait_until env action goal =
     bindE (liftE (nonneg_float_arg (e_rt env) (dget_or (la_args action) ''timeout_s'' (PyInt 1)) (Fin 1))) (\<lambda>timeout_s.
     bindE (liftE (nonneg_float_arg (e_rt env) (dget_or (la_args action) ''slice_s'' (PyFloat (Fin 2))) (Fin 2))) (\<lambda>slice_s.
     let nonfatal = truthy (dget_or (la_args action) ''nonfatal_timeout'' (PyBool False));
         wait_slice_s = float_min timeout_s slice_s;
         predicate = por (la_verify action) (la_preconditions action)
     in bindE (monotonic env) (\<lambda>t0.
        bindE (wait_loop env goal predicate (float_add (Fin t0) wait_slice_s) (e_fuel env)) (\<lambda>satisfied.
          case satisfied of
            None \<Rightarrow> raise (PyExc ''OutOfFuel'' [])
          | Some True \<Rightarrow> ret (result_of Success [(''waited'', PyBool True)] None)
          | Some False \<Rightarrow>
              ret (if nonfatal then result_of Success
                    [(''waited'', PyBool True), (''predicate_satisfied'', PyBool False), (''wait_pending'', PyBool True),
                     (''wait_slice_s'', PyFloat wait_slice_s), (''wait_timed_out'', PyBool True),
                     (''nonfatal_timeout'', PyBool True)] None
                  else result_of Failed [] (Some [(''reason'', PyStr ''wait_until_timeout'')]))))))"

definition execute_builtin :: "'p env \<Rightarrow> legal_action \<Rightarrow> string \<Rightarrow> ('p sys, exec_result) act" where
  "execute_builtin env action goal =
     (if la_verb action = ''WAIT_UNTIL'' then execute_wait_until env action goal
      else if la_verb action = ''CALL_HUMAN'' then
        bindE (call_human env ''Operator attention requested''
            (py_str (e_rt env) (dget_or (la_args action) ''message'' (PyStr (la_description action)))) ''warn'' False [])
          (\<lambda>request_id. ret (result_of Success [(''request_id'', PyStr request_id)] None))
      else if la_verb action = ''WAIT'' then
        bindE (liftE (py_float (e_rt env) (dget_or (la_args action) ''seconds'' (PyInt 1)))) (\<lambda>duration_s.
          ret (result_of Success [(''slept_s'', PyFloat duration_s)] None))
      else ret (result_of Failed [] (Some [(''reason'', PyStr (''unknown builtin verb '' @ la_verb action))])))"

text \<open>\<open>_publish_raw_state\<close> retries without the mode when a registry does not take it.\<close>

definition publish_raw_state :: "'p env \<Rightarrow> string \<Rightarrow> ('p sys, unit) act" where
  "publish_raw_state env md = try_except (publish_all_raw_state env md) (\<lambda>e.
     if exc_class e = ''TypeError''
        \<and> contains (''unexpected keyword argument '' @ str_repr ''mode'') (exc_str e)
     then publish_all_raw_state env ''full'' else raise e)"

definition finalize_action :: "'p env \<Rightarrow> string \<Rightarrow> legal_action \<Rightarrow> string \<Rightarrow> exec_result \<Rightarrow> ('p sys, report) act" where
  "finalize_action env rid action goal result =
     (case er_status result of
        InFlight \<Rightarrow>
          bindE (transition env rid UNKNOWN None (er_error result)) (\<lambda>_.
          bindE (modify (\<lambda>s. s\<lparr>s_safety := trip ''daemon reported in_flight ambiguity'' (s_safety s)\<rparr>)) (\<lambda>_.
          bindE (call_human env ''Unsafe ambiguity detected''
              (la_verb action @ '' may already have started; manual intervention required'') ''critical'' True
              [(''action_run_id'', PyStr rid)]) (\<lambda>request_id.
            ret ((new_report [])\<lparr>rp_human_request_ids := [request_id], rp_failed_action_run_id := Some rid\<rparr>))))
      | Success \<Rightarrow>
          bindE (publish_raw_state env ''verify'') (\<lambda>_.
          bindE (compile_now env goal) (\<lambda>verified_world.
          let enriched = enrich_result (e_rt env) (er_result result) verified_world;
              wait_pending = (la_verb action = ''WAIT_UNTIL'' \<and> truthy (pget (er_result result) ''nonfatal_timeout''))
          in if wait_pending then
               bindE (transition env rid DONE (Some enriched) None) (\<lambda>_.
                 ret (add_note (''wait still pending for '' @ la_action_id action)
                   ((new_report [])\<lparr>rp_post_execution_world := Some verified_world\<rparr>)))
             else bindE (liftE (verify_action (e_rt env) action (wp_facts verified_world))) (\<lambda>verified.
               if verified then
                 bindE (transition env rid DONE (Some enriched) None) (\<lambda>_.
                   ret ((new_report [])\<lparr>rp_post_execution_world := Some verified_world\<rparr>))
               else
                 bindE (transition env rid REPLAN_REQUIRED None
                     (Some [(''reason'', PyStr ''verification_mismatch''),
                            (''expected_delta'', PyList (la_expected_delta action))])) (\<lambda>_.
                   ret (add_note (''verification mismatch for '' @ la_action_id action)
                     ((new_report [])\<lparr>rp_replan_required := True\<rparr>))))))
      | _ \<Rightarrow>
          bindE (transition env rid FAILED None (er_error result)) (\<lambda>_.
            ret (add_note (''execution failed for '' @ la_action_id action)
              ((new_report [])\<lparr>rp_failed_action_run_id := Some rid\<rparr>))))"

section \<open>The action loop\<close>

text \<open>What one action does to the report, and whether the loop stops.\<close>

record step_result =
  st_break :: bool
  st_report :: report

definition stop :: "report \<Rightarrow> step_result" where
  "stop r = \<lparr>st_break = True, st_report = r\<rparr>"

definition merge_outcome :: "report \<Rightarrow> legal_action \<Rightarrow> report \<Rightarrow> report" where
  "merge_outcome r action outcome =
     (let r = r\<lparr>rp_executed_action_ids := rp_executed_action_ids r @ [la_action_id action],
            rp_notes := rp_notes r @ rp_notes outcome,
            rp_human_request_ids := rp_human_request_ids r @ rp_human_request_ids outcome,
            rp_post_execution_world := (case rp_post_execution_world outcome of
               None \<Rightarrow> rp_post_execution_world r | Some w \<Rightarrow> Some w)\<rparr>
      in if rp_replan_required outcome then r\<lparr>rp_replan_required := True\<rparr>
         else case rp_failed_action_run_id outcome of
            None \<Rightarrow> r
          | Some f \<Rightarrow> if f = [] then r else r\<lparr>rp_failed_action_run_id := Some f\<rparr>)"

definition outcome_stops :: "report \<Rightarrow> bool" where
  "outcome_stops outcome \<longleftrightarrow> rp_replan_required outcome
     \<or> (case rp_failed_action_run_id outcome of None \<Rightarrow> False | Some f \<Rightarrow> f \<noteq> [])"

definition dispatch_action :: "'p env \<Rightarrow> string \<Rightarrow> legal_action \<Rightarrow> action_run \<Rightarrow> ('p sys, exec_result) act" where
  "dispatch_action env goal action run =
     (if la_owner_pack action = ''builtin'' then execute_builtin env action goal
      else bindE (registry_get (la_owner_pack action)) (\<lambda>_.
        pack_execute env action (ar_action_run_id run) (ar_idempotency_key run) (ar_args_hash run)))"

text \<open>From the approval check to the end of the iteration: the body of the \<open>try\<close>.\<close>

definition authorized_part :: "'p env \<Rightarrow> string \<Rightarrow> legal_action \<Rightarrow> action_run \<Rightarrow> report \<Rightarrow> ('p sys, step_result) act" where
  "authorized_part env goal action run r =
     (let rid = ar_action_run_id run in
      bindE (transition env rid AUTHORIZED None None) (\<lambda>_.
      bindE (compile_now env goal) (\<lambda>latest_world.
      bindE (liftE (evaluate (e_rt env) (la_preconditions action) (wp_facts latest_world))) (\<lambda>holds.
        if \<not> holds then
          bindE (transition env rid REPLAN_REQUIRED None None) (\<lambda>_.
            ret (stop (add_note (''TOCTOU predicate failed for '' @ la_action_id action) (r\<lparr>rp_replan_required := True\<rparr>))))
        else
          bindE (transition env rid DISPATCHED None None) (\<lambda>_.
          bindE (dispatch_action env goal action run) (\<lambda>result.
          bindE (finalize_action env rid action goal result) (\<lambda>outcome.
            if outcome_stops outcome then ret (stop (merge_outcome r action outcome))
            else bindE (safety_beat env) (\<lambda>_.
              ret \<lparr>st_break = False, st_report = merge_outcome r action outcome\<rparr>))))))))"

definition guarded_part :: "'p env \<Rightarrow> string \<Rightarrow> legal_action \<Rightarrow> action_run \<Rightarrow> report \<Rightarrow> ('p sys, step_result) act" where
  "guarded_part env goal action run r =
     (let rid = ar_action_run_id run in
      if la_approval_required action then
        bindE (transition env rid WAITING_APPROVAL None None) (\<lambda>_.
        bindE (request_approval env rid (ar_args_hash run) (la_hazard_class action)
            (la_verb action @ '' requires approval: '' @ la_description action)) (\<lambda>approved.
          if \<not> approved
          then ret (stop (add_note (''waiting for approval for '' @ rid) (r\<lparr>rp_blocked_action_run_id := Some rid\<rparr>)))
          else authorized_part env goal action run r))
      else authorized_part env goal action run r)"

text \<open>Lock, run the body, release in any case; a conflict is reported as a replan.\<close>

definition locked_part :: "'p env \<Rightarrow> string \<Rightarrow> legal_action \<Rightarrow> action_run \<Rightarrow> report \<Rightarrow> ('p sys, step_result) act" where
  "locked_part env goal action run r s =
     (case lock_acquire (la_required_locks action) (s_locks s) of
        (True, held) \<Rightarrow>
          try_finally (guarded_part env goal action run r)
            (\<lambda>s. s\<lparr>s_locks := lock_release (la_required_locks action) (s_locks s)\<rparr>) (s\<lparr>s_locks := held\<rparr>)
      | (False, _) \<Rightarrow>
          bindE (transition env (ar_action_run_id run) REPLAN_REQUIRED None None) (\<lambda>_.
            ret (stop (add_note (''lock conflict on '' @ list_repr (la_required_locks action))
              (r\<lparr>rp_replan_required := True\<rparr>)))) s)"

definition refresh_action :: "'p env \<Rightarrow> string \<Rightarrow> bool \<Rightarrow> legal_action \<Rightarrow> ('p sys, legal_action option) act" where
  "refresh_action env goal refresh action =
     (if refresh then bindE (compile_now env goal) (\<lambda>w. ret (frontier_map (wp_frontier w) (la_action_id action)))
      else ret (Some action))"

definition execute_one :: "'p env \<Rightarrow> string \<Rightarrow> string \<Rightarrow> bool \<Rightarrow> legal_action \<Rightarrow> report \<Rightarrow> ('p sys, step_result) act" where
  "execute_one env plan_id goal refresh action r =
     bindE (refresh_action env goal refresh action) (\<lambda>current. case current of
         None \<Rightarrow>
           bindE (log_event env ''engine'' ''WARN'' ''replan_required_frontier_changed''
               [(''plan_id'', PyStr plan_id), (''action_id'', PyStr (la_action_id action))]) (\<lambda>_.
             ret (stop (add_note (''frontier no longer contains '' @ la_action_id action) (r\<lparr>rp_replan_required := True\<rparr>))))
       | Some action \<Rightarrow>
           bindE (create_run env plan_id action) (\<lambda>run. locked_part env goal action run r))"

fun execute_loop :: "'p env \<Rightarrow> string \<Rightarrow> string \<Rightarrow> bool \<Rightarrow> legal_action list \<Rightarrow> report \<Rightarrow> ('p sys, report) act" where
  "execute_loop env plan_id goal refresh [] r = ret r"
| "execute_loop env plan_id goal refresh (a # as) r =
     bindE (execute_one env plan_id goal refresh a r) (\<lambda>st.
       if st_break st then ret (st_report st) else execute_loop env plan_id goal refresh as (st_report st))"

definition acquire_lease :: "'p env \<Rightarrow> ('p sys, bool) act" where
  "acquire_lease env s = (case lease_acquire (e_flock env (s_flocks s)) (s_lease s) of
     (ok, held) \<Rightarrow> (Inr ok, s\<lparr>s_lease := held, s_flocks := (if s_lease s then s_flocks s else s_flocks s + 1)\<rparr>))"

definition execute_actions :: "'p env \<Rightarrow> string \<Rightarrow> string \<Rightarrow> legal_action list \<Rightarrow> bool \<Rightarrow> ('p sys, report) act" where
  "execute_actions env plan_id goal actions refresh =
     bindE (if actions = [] then ret True else acquire_lease env) (\<lambda>lease.
       if \<not> lease then
         bindE (log_event env ''engine'' ''WARN'' ''control_lease_unavailable''
             [(''plan_id'', PyStr plan_id), (''lock_path'', PyStr (cfg_control_lock_path (e_cfg env)))]) (\<lambda>_.
           ret (add_note ''control lease unavailable'' ((new_report plan_id)\<lparr>rp_replan_required := True\<rparr>)))
       else execute_loop env plan_id goal refresh actions (new_report plan_id))"

definition prompt_view_now :: "'p env \<Rightarrow> world_packet \<Rightarrow> ('p sys, dict) act" where
  "prompt_view_now env w s =
     (prompt_view (e_rt env) (\<lambda>i. e_clk env (s_walls s + i)) w, s\<lparr>s_walls := s_walls s + 8\<rparr>)"

definition persist_plan :: "'p env \<Rightarrow> string \<Rightarrow> world_packet \<Rightarrow> plan_ir \<Rightarrow> ('p sys, string) act" where
  "persist_plan env goal world plan =
     bindE (fresh_id env ''plan'') (\<lambda>plan_id.
     bindE (prompt_view_now env world) (\<lambda>view.
     bindE (wall_ms env) (\<lambda>now.
     bindE (on_db (store_plan \<lparr>pr_plan_id = plan_id, pr_run_scope = run_scope_from_facts (e_rt env) (wp_facts world),
         pr_goal = goal, pr_world_packet = view,
         pr_world_compilation = (case wp_compilation world of None \<Rightarrow> [] | Some c \<Rightarrow> compilation_dump c),
         pr_plan_ir = plan_dump plan, pr_created_ts_ms = now\<rparr>)) (\<lambda>_.
       ret plan_id))))"

definition execute_plan :: "'p env \<Rightarrow> string \<Rightarrow> world_packet \<Rightarrow> plan_ir \<Rightarrow> ('p sys, report) act" where
  "execute_plan env goal world plan =
     bindE (liftE (materialize_plan world plan)) (\<lambda>plan.
     bindE (persist_plan env goal world plan) (\<lambda>plan_id.
       case pi_decision plan of
         NO_ACTION \<Rightarrow>
           bindE (log_event env ''engine'' ''INFO'' ''no_action'' [(''plan_id'', PyStr plan_id)]) (\<lambda>_.
           bindE (safety_beat env) (\<lambda>_. ret (add_note ''planner selected no action'' (new_report plan_id))))
       | CALL_HUMAN \<Rightarrow>
           bindE (call_human env ''Planner escalation''
               (case pi_call_human_message plan of None \<Rightarrow> pi_why plan
                  | Some m \<Rightarrow> if m = [] then pi_why plan else m) ''warn'' False
               [(''plan_id'', PyStr plan_id)]) (\<lambda>request_id.
           bindE (safety_beat env) (\<lambda>_. ret ((new_report plan_id)\<lparr>rp_human_request_ids := [request_id]\<rparr>)))
       | EXECUTE \<Rightarrow>
           bindE (liftE (validate_plan world plan)) (\<lambda>actions.
             execute_actions env plan_id goal actions True)))"

definition execute_operator_action :: "'p env \<Rightarrow> string \<Rightarrow> world_packet \<Rightarrow> legal_action \<Rightarrow> string \<Rightarrow> ('p sys, report) act" where
  "execute_operator_action env goal world action why =
     bindE (persist_plan env goal world \<lparr>pi_decision = EXECUTE, pi_sequence = [la_action_id action], pi_why = why,
         pi_call_human_message = None, pi_tuning_choice = None\<rparr>) (\<lambda>plan_id.
       execute_actions env plan_id goal [action] False)"

section \<open>What the engine leaves alone\<close>

context sys_frame
begin

lemma pack_execute_keeps [preserves_intros]: "preserves P (pack_execute env a rid key h)"
  unfolding pack_execute_def
  by (intro preserves_intros) (auto intro!: preserves_intros split: sum.split)

lemma transition_keeps [preserves_intros]: "preserves P (transition env rid st res err)"
  unfolding transition_def by (intro preserves_intros)

lemma create_run_keeps [preserves_intros]: "preserves P (create_run env plan_id a)"
  unfolding create_run_def Let_def by (intro preserves_intros)

lemma wait_loop_keeps [preserves_intros]: "preserves P (wait_loop env goal pr dl fuel)"
  by (induction fuel) (auto intro!: preserves_intros)

lemma execute_builtin_keeps [preserves_intros]: "preserves P (execute_builtin env a goal)"
  unfolding execute_builtin_def execute_wait_until_def Let_def
  by (intro preserves_intros) (auto intro!: preserves_intros split: bool.split)

lemma publish_raw_state_keeps [preserves_intros]: "preserves P (publish_raw_state env md)"
  unfolding publish_raw_state_def by (intro preserves_intros)

lemma finalize_action_keeps [preserves_intros]: "preserves P (finalize_action env rid a goal result)"
  unfolding finalize_action_def Let_def
  by (cases "er_status result") (auto intro!: preserves_intros safety_eff)

lemma registry_get_keeps [preserves_intros]: "preserves P (registry_get pid)"
  by (simp add: preserves_def registry_get_def)

lemma dispatch_action_keeps [preserves_intros]: "preserves P (dispatch_action env goal a run)"
  unfolding dispatch_action_def by (intro preserves_intros)

lemma authorized_part_keeps [preserves_intros]: "preserves P (authorized_part env goal a run r)"
  unfolding authorized_part_def Let_def by (intro preserves_intros)

lemma guarded_part_keeps [preserves_intros]: "preserves P (guarded_part env goal a run r)"
  unfolding guarded_part_def Let_def by (intro preserves_intros)

lemma locked_part_keeps:
  assumes "\<And>s l. P s \<Longrightarrow> P (s\<lparr>s_locks := l\<rparr>)"
  shows "preserves P (locked_part env goal a run r)"
proof (rule preservesI)
  fix s assume "P s"
  obtain ok held where l: "lock_acquire (la_required_locks a) (s_locks s) = (ok, held)" by fastforce
  have "preserves P (try_finally (guarded_part env goal a run r)
      (\<lambda>s. s\<lparr>s_locks := lock_release (la_required_locks a) (s_locks s)\<rparr>))"
    by (intro preserves_intros assms)
  moreover have "preserves P (bindE (transition env (ar_action_run_id run) REPLAN_REQUIRED None None) (\<lambda>_. ret x))" for x :: step_result
    by (intro preserves_intros)
  ultimately show "P (snd (locked_part env goal a run r s))"
    using \<open>P s\<close> assms by (auto simp: locked_part_def l preserves_def split: bool.split)
qed

lemma prompt_view_now_keeps [preserves_intros]: "preserves P (prompt_view_now env w)"
  by (rule preservesI) (simp add: prompt_view_now_def walls_eff)

lemma refresh_action_keeps [preserves_intros]: "preserves P (refresh_action env goal refresh a)"
  unfolding refresh_action_def by (intro preserves_intros)

lemma acquire_lease_keeps [preserves_intros]: "preserves P (acquire_lease env)"
proof (rule preservesI)
  fix s assume s: "P s"
  show "P (snd (acquire_lease env s))"
    using lease_eff [OF s] lease_eff [OF s, where n = "s_flocks s"] by (simp add: acquire_lease_def split: prod.split)
qed

end

text \<open>Predicates that also survive a locked step survive the whole action loop.\<close>

locale run_frame = sys_frame +
  assumes locked_eff: "preserves P (locked_part env goal a run r)"
begin

lemma execute_one_keeps [preserves_intros]: "preserves P (execute_one env plan_id goal refresh a r)"
  unfolding execute_one_def by (intro preserves_intros locked_eff)

lemma execute_loop_keeps [preserves_intros]: "preserves P (execute_loop env plan_id goal refresh as r)"
  by (induction as arbitrary: r) (auto intro!: preserves_intros)

lemma execute_actions_keeps [preserves_intros]: "preserves P (execute_actions env plan_id goal as refresh)"
  unfolding execute_actions_def by (intro preserves_intros)

end

interpretation hist: run_frame env "\<lambda>s. db_runs_to env d (s_db s)" for env d
  by unfold_locales (rule hist.locked_part_keeps, simp)

interpretation lk: run_frame env "\<lambda>s. s_locks s = held" for env held
proof unfold_locales
  fix goal a run r
  show "preserves (\<lambda>s. s_locks s = held) (locked_part env goal a run r)"
  proof (rule preservesI)
    fix s :: "'a sys" assume s: "s_locks s = held"
    obtain ok h where l: "lock_acquire (la_required_locks a) (s_locks s) = (ok, h)" by fastforce
    show "s_locks (snd (locked_part env goal a run r s)) = held"
    proof (cases ok)
      case True
      obtain x s' where g: "guarded_part env goal a run r (s\<lparr>s_locks := h\<rparr>) = (x, s')" by fastforce
      have "s_locks s' = h" using preservesD [OF lk.guarded_part_keeps _ g] by simp
      then show ?thesis
        using lm.acquire_release [of "la_required_locks a" "s_locks s" h] l True s
        by (simp add: locked_part_def try_finally_def g)
    next
      case False
      have "preserves (\<lambda>s. s_locks s = held) (bindE (transition env (ar_action_run_id run) REPLAN_REQUIRED None None) (\<lambda>_. ret x))"
        for x :: step_result by (intro preserves_intros lk.transition_keeps)
      then show ?thesis using l False s by (simp add: locked_part_def preserves_def)
    qed
  qed
qed

interpretation bk: run_frame env "book env d bound" for env d bound
  by unfold_locales (rule bk.locked_part_keeps, simp add: book_def plan_ids_free_def)

section \<open>The engine as a whole\<close>

text \<open>Predicates that also survive the storing of a plan survive the entry points of the engine.\<close>

locale plan_frame = run_frame +
  assumes persist_eff: "preserves P (persist_plan env goal w plan)"
begin

lemma execute_plan_keeps [preserves_intros]: "preserves P (execute_plan env goal w plan)"
  unfolding execute_plan_def
  by (intro preserves_intros persist_eff) (auto intro!: preserves_intros split: decision.split)

lemma execute_operator_action_keeps [preserves_intros]: "preserves P (execute_operator_action env goal w a why)"
  unfolding execute_operator_action_def by (intro preserves_intros persist_eff)

end

lemma prompt_view_now_run:
  "prompt_view_now env w s = (prompt_view (e_rt env) (\<lambda>i. e_clk env (s_walls s + i)) w, s\<lparr>s_walls := s_walls s + 8\<rparr>)"
  by (simp add: prompt_view_now_def)

lemma lk_on_db: "preserves (\<lambda>s. s_locks s = held) (on_db m)"
  by (rule preservesI) (simp add: on_db_def case_prod_unfold)

interpretation lk: plan_frame env "\<lambda>s. s_locks s = held" for env held
proof unfold_locales
  show "preserves (\<lambda>s. s_locks s = held) (persist_plan env goal w plan)" for goal w plan
    unfolding persist_plan_def by (intro preserves_intros lk_on_db lk.clocks_keep lk.prompt_view_now_keeps)
qed

text \<open>
  C14: locks are never leaked: whatever a plan or an operator action does, also when a step raises in the
  middle, the lock table afterwards is the lock table before.
\<close>

theorem locks_always_released:
  "preserves (\<lambda>s. s_locks s = held) (execute_plan env goal w plan)
   \<and> preserves (\<lambda>s. s_locks s = held) (execute_operator_action env goal w a why)"
  by (intro conjI lk.execute_plan_keeps lk.execute_operator_action_keeps)

text \<open>Storing a plan under the id of the next \<open>uuid4\<close>, or not at all when the prompt cannot be built.\<close>

lemma persist_plan_db:
  obtains "s_db (snd (persist_plan env goal w plan s)) = s_db s" "s_uuids (snd (persist_plan env goal w plan s)) = Suc (s_uuids s)"
  | p where "pr_plan_id p = plan_id_at env (s_uuids s)" "s_db (snd (persist_plan env goal w plan s)) = snd (store_plan p (s_db s))"
      "s_uuids (snd (persist_plan env goal w plan s)) = Suc (s_uuids s)"
proof (cases "prompt_view (e_rt env) (\<lambda>i. e_clk env (s_walls s + i)) w")
  case (Inl e)
  then show ?thesis by (intro that(1)) (simp_all add: persist_plan_def fresh_id_def prompt_view_now_run bindE_def)
next
  case (Inr view)
  let ?p = "\<lparr>pr_plan_id = plan_id_at env (s_uuids s), pr_run_scope = run_scope_from_facts (e_rt env) (wp_facts w),
     pr_goal = goal, pr_world_packet = view,
     pr_world_compilation = (case wp_compilation w of None \<Rightarrow> [] | Some c \<Rightarrow> compilation_dump c),
     pr_plan_ir = plan_dump plan, pr_created_ts_ms = e_clk env (s_walls s + 8)\<rparr>"
  from Inr show ?thesis
    by (intro that(2) [of ?p])
      (simp_all add: persist_plan_def fresh_id_def prompt_view_now_run bindE_def wall_ms_def on_db_def store_plan_def
        act_simps plan_id_at_def)
qed

lemma persist_history:
  assumes "find_row pr_plan_id (plan_id_at env (s_uuids s)) (db_plans (s_db s)) = None"
  shows "db_runs_to env (s_db s) (s_db (snd (persist_plan env goal w plan s)))"
proof (cases rule: persist_plan_db [of env goal w plan s])
  case (2 p)
  then show ?thesis using assms by (simp add: r_into_rtranclp db_step.store)
qed simp

lemma store_plan_ids: "pr_plan_id ` set (db_plans (snd (store_plan p d))) = insert (pr_plan_id p) (pr_plan_id ` set (db_plans d))"
  by (auto simp: store_plan_def delete_plan_def act_simps Let_def norm_plan_def)

interpretation bk: plan_frame env "book env d bound" for env d bound
proof unfold_locales
  fix goal w plan
  show "preserves (book env d bound) (persist_plan env goal w plan)"
  proof (rule preservesI)
    fix s :: "'a sys" assume b: "book env d bound s"
    show "book env d bound (snd (persist_plan env goal w plan s))" (is "book _ _ _ ?s'")
      unfolding book_def
    proof (intro impI conjI)
      assume inj: "inj_on (plan_id_at env) {..<bound}" and "s_uuids ?s' \<le> bound"
      moreover have u: "s_uuids ?s' = Suc (s_uuids s)" by (rule persist_plan_db) auto
      ultimately have i: "s_uuids s < bound" and h: "db_runs_to env d (s_db s)" "plan_ids_free env bound s"
        using b by (auto simp: book_def)
      then have "find_row pr_plan_id (plan_id_at env (s_uuids s)) (db_plans (s_db s)) = None"
        by (simp add: plan_ids_free_def)
      from rtranclp_trans [OF h(1) persist_history [OF this]] show "db_runs_to env d (s_db ?s')" .
      have other: "plan_id_at env i \<noteq> plan_id_at env (s_uuids s)" if "i \<in> {Suc (s_uuids s)..<bound}" for i
        using inj_onD [OF inj, of i "s_uuids s"] that by auto
      show "plan_ids_free env bound ?s'"
      proof (cases rule: persist_plan_db [of env goal w plan s])
        case 1
        with h(2) show ?thesis by (auto simp: plan_ids_free_def)
      next
        case (2 p)
        have "plan_id_at env i \<notin> pr_plan_id ` set (db_plans (s_db ?s'))" if "i \<in> {Suc (s_uuids s)..<bound}" for i
          using other [OF that] h(2) that by (auto simp: 2 store_plan_ids plan_ids_free_def find_row_None)
        then show ?thesis by (auto simp: plan_ids_free_def find_row_None u)
      qed
    qed
  qed
qed

lemma execute_plan_history:
  assumes "find_row pr_plan_id (new_id ''plan'' (e_uuid env (s_uuids s))) (db_plans (s_db s)) = None"
  shows "db_runs_to env (s_db s) (s_db (snd (execute_plan env goal w plan s)))"
proof (cases "materialize_plan w plan")
  case (Inl e)
  then show ?thesis by (simp add: execute_plan_def bindE_def act_simps)
next
  case (Inr plan')
  obtain x s1 where p: "persist_plan env goal w plan' s = (x, s1)" by fastforce
  have h: "db_runs_to env (s_db s) (s_db s1)"
    using persist_history [of env s goal w plan'] assms by (simp add: p plan_id_at_def)
  have keep: "preserves (\<lambda>s'. db_runs_to env (s_db s1) (s_db s')) (case pi_decision plan' of
         NO_ACTION \<Rightarrow>
           bindE (log_event env ''engine'' ''INFO'' ''no_action'' [(''plan_id'', PyStr plan_id)]) (\<lambda>_.
           bindE (safety_beat env) (\<lambda>_. ret (add_note ''planner selected no action'' (new_report plan_id))))
       | CALL_HUMAN \<Rightarrow>
           bindE (call_human env ''Planner escalation''
               (case pi_call_human_message plan' of None \<Rightarrow> pi_why plan'
                  | Some m \<Rightarrow> if m = [] then pi_why plan' else m) ''warn'' False
               [(''plan_id'', PyStr plan_id)]) (\<lambda>request_id.
           bindE (safety_beat env) (\<lambda>_. ret ((new_report plan_id)\<lparr>rp_human_request_ids := [request_id]\<rparr>)))
       | EXECUTE \<Rightarrow>
           bindE (liftE (validate_plan w plan')) (\<lambda>actions.
             execute_actions env plan_id goal actions True))" for plan_id
    by (auto intro!: preserves_intros hist.log_event_keeps hist.safety_beat_keeps hist.call_human_keeps
        hist.execute_actions_keeps split: decision.split)
  show ?thesis
  proof (cases x)
    case (Inl e)
    then show ?thesis using h p \<open>materialize_plan w plan = Inr plan'\<close> by (simp add: execute_plan_def bindE_def act_simps)
  next
    case (Inr plan_id)
    have "db_runs_to env (s_db s1) (s_db (snd (execute_plan env goal w plan s)))"
      using preservesD [OF keep _ surjective_pairing, of s1 plan_id] p Inr \<open>materialize_plan w plan = Inr plan'\<close>
      by (simp add: execute_plan_def bindE_def act_simps)
    with h show ?thesis by (rule rtranclp_trans)
  qed
qed

text \<open>
  the engine and the official notebook: executing a plan under a fresh plan id leaves every run that
  was already recorded with its request, moves it only along the transition table and never touches a
  terminal one, and keeps the keys of the database sound, whether the execution returns or raises.
\<close>

theorem execute_plan_keeps_notebook:
  assumes "find_row pr_plan_id (new_id ''plan'' (e_uuid env (s_uuids s))) (db_plans (s_db s)) = None"
    and "db_ok (s_db s)" and "find_row ar_action_run_id rid (db_runs (s_db s)) = Some q"
  shows "db_ok (s_db (snd (execute_plan env goal w plan s)))
    \<and> (\<exists>q'. find_row ar_action_run_id rid (db_runs (s_db (snd (execute_plan env goal w plan s)))) = Some q'
        \<and> request q' = request q \<and> status_le (ar_status q) (ar_status q')
        \<and> (allowed_transitions (ar_status q) = [] \<longrightarrow> q' = q))"
  using db_steps_run [OF execute_plan_history [OF assms(1), of goal w plan] assms(3,2)] by (auto simp: evolves_def)

definition sample_world :: world_packet where
  "sample_world = \<lparr>wp_goal = ''g'', wp_device_summaries = [], wp_facts = [], wp_resources = [], wp_blockers = [],
     wp_deltas = [], wp_frontier = [sample_action], wp_last_result = [], wp_recent_results = [], wp_pending_human = [],
     wp_compilation = None, wp_prompt_frontier_limit = None\<rparr>"

definition execute_ids :: "string list \<Rightarrow> plan_ir" where
  "execute_ids ids = \<lparr>pi_decision = EXECUTE, pi_sequence = ids, pi_why = ''w'', pi_call_human_message = None, pi_tuning_choice = None\<rparr>"

theorem execute_plan_keeps_notebook_witness:
  "\<exists>q'. find_row ar_action_run_id ''run_1'' (db_runs (s_db (snd (execute_plan sample_env ''g''
      sample_world (execute_ids [''SIM-A001'']) (sample_sys\<lparr>s_db := sample_db\<rparr>))))) = Some q' \<and> request q' = request sample_run"
proof -
  let ?s = "sample_sys\<lparr>s_db := sample_db\<rparr>"
  have "find_row pr_plan_id (new_id ''plan'' (e_uuid sample_env (s_uuids ?s))) (db_plans (s_db ?s)) = None"
    by (simp add: sample_env_def sample_sys_def sample_db_def empty_db_def sample_plan_def new_id_def)
  from execute_plan_keeps_notebook [OF this, of "''run_1''" sample_run "''g''" sample_world "execute_ids [''SIM-A001'']"] sample_db_ok sample_db_run
  show ?thesis by auto
qed

section \<open>The journal barrier\<close>

lemma mono_ms_run: "mono_ms env s = (Inr \<lfloor>e_mono env (s_monos s) * 1000\<rfloor>, s\<lparr>s_monos := s_monos s + 1\<rparr>)"
  by (simp add: mono_ms_def monotonic_def bindE_def act_simps)

lemma pack_execute_known:
  "journal_lookup (s_db s) key = Some e \<Longrightarrow>
     pack_execute env a rid key h s = (Inr (journal_result e), s\<lparr>s_monos := s_monos s + 1\<rparr>)"
  by (simp add: pack_execute_def bindE_def mono_ms_run on_db_def get_exec_journal_def act_simps journal_lookup_def)

lemma on_pack_wb_db: "s_db (snd (on_pack_wb pid m s)) = s_db s"
  by (simp add: on_pack_wb_def split: option.split prod.split)

lemma finish_lookup:
  assumes "journal_lookup d key = Some e"
  shows "\<exists>e'. fst (finish_exec_journal key jst t res err d) = Inr (Some e')
    \<and> journal_lookup (snd (finish_exec_journal key jst t res err d)) key = Some e' \<and> je_exec_state e' = jst"
  using dbj.finish_known [OF assms, of jst t res err] by auto

lemma pack_execute_journals:
  assumes "pack_execute env a rid key h s = (x, s1)"
  shows "\<exists>e. journal_lookup (s_db s1) key = Some e
    \<and> (case x of Inr r \<Rightarrow> er_status r = er_status (journal_result e) | Inl _ \<Rightarrow> je_exec_state e = IN_FLIGHT)"
proof (cases "journal_lookup (s_db s) key")
  case (Some e)
  then show ?thesis using assms pack_execute_known [OF Some, of env a rid h] by auto
next
  case None
  let ?sA = "s\<lparr>s_monos := s_monos s + 1\<rparr>"
  obtain e d where st: "start_exec_journal key rid (la_verb a) h \<lfloor>e_mono env (s_monos s) * 1000\<rfloor> (s_db s) = (Inr e, d)"
    using dbj.start_total by blast
  have e: "journal_lookup d key = Some e" "je_exec_state e = IN_FLIGHT"
    using dbj.start_new [OF None, of rid "la_verb a" h "\<lfloor>e_mono env (s_monos s) * 1000\<rfloor>"] st by auto
  let ?sB = "?sA\<lparr>s_db := d\<rparr>"
  show ?thesis
  proof (cases "e_hook env key")
    case (Some exc)
    then show ?thesis
      using assms e None st
      by (auto simp: pack_execute_def bindE_def mono_ms_run on_db_def get_exec_journal_def act_simps journal_lookup_def)
  next
    case hook: None
    obtain y sC where r: "on_pack_wb (la_owner_pack a) (e_realize env a) ?sB = (y, sC)" by fastforce
    have dC: "journal_lookup (s_db sC) key = Some e" using on_pack_wb_db [of "la_owner_pack a" "e_realize env a" ?sB] r e by simp
    note unf = pack_execute_def bindE_def mono_ms_run on_db_def get_exec_journal_def act_simps try_except_def
    note none = None [unfolded journal_lookup_def]
    show ?thesis
    proof (cases y)
      case (Inl exc)
      obtain e' d' where "finish_exec_journal key JFAILED \<lfloor>e_mono env (s_monos sC) * 1000\<rfloor> None (Some (exc_payload exc)) (s_db sC)
          = (Inr (Some e'), d')" "journal_lookup d' key = Some e'" "je_exec_state e' = JFAILED"
        using finish_lookup [OF dC] by (metis prod.collapse)
      then show ?thesis
        using assms none st r hook Inl by (auto simp: unf journal_result_def result_of_def)
    next
      case (Inr result)
      obtain e' d' where "finish_exec_journal key SUCCESS \<lfloor>e_mono env (s_monos sC) * 1000\<rfloor> (Some result) None (s_db sC)
          = (Inr (Some e'), d')" "journal_lookup d' key = Some e'" "je_exec_state e' = SUCCESS"
        using finish_lookup [OF dC] by (metis prod.collapse)
      then show ?thesis
        using assms none st r hook Inr by (auto simp: unf journal_result_def result_of_def)
    qed
  qed
qed


section \<open>Dispatch\<close>

lemma transition_sys:
  "transition env rid st res err s = (x, s') \<Longrightarrow>
     transition_action_run (e_db_clk env) rid st res err (s_db s) = (x, s_db s') \<and> s' = s\<lparr>s_db := s_db s'\<rparr>"
  by (auto simp: transition_def on_db_def split: prod.splits)

lemma transition_illegal:
  assumes "find_row ar_action_run_id rid (db_runs (s_db s)) = Some q" and "st \<notin> set (allowed_transitions (ar_status q))"
  shows "transition env rid st res err s = (Inl (ValueError (''illegal transition '' @ status_value (ar_status q)
    @ '' -> '' @ status_value st)), s)"
  using assms by (simp add: transition_def on_db_def transition_action_run_def get_action_run_def bindE_def act_simps)

lemma transition_moved:
  assumes "transition env rid st res err s = (Inr q, s')"
  shows "find_row ar_action_run_id rid (db_runs (s_db s')) = Some q \<and> ar_status q = st
    \<and> (\<exists>p. find_row ar_action_run_id rid (db_runs (s_db s)) = Some p \<and> st \<in> set (allowed_transitions (ar_status p)))"
proof -
  have "transition_action_run (e_db_clk env) rid st res err (s_db s) = (Inr q, s_db s')"
    using transition_sys [OF assms] by simp
  then show ?thesis
    by (cases rule: transition_cases) (auto simp: find_update_row db_transition_def)
qed

lemma transition_goes:
  assumes "find_row ar_action_run_id rid (db_runs (s_db s)) = Some q" and "st \<in> set (allowed_transitions (ar_status q))"
    and "ar_result q = None" and "ar_error q = None"
  shows "\<exists>q' s'. transition env rid st None None s = (Inr q', s') \<and> db_approvals (s_db s') = db_approvals (s_db s)"
proof -
  obtain x d where run: "transition_action_run (e_db_clk env) rid st None None (s_db s) = (x, d)" by fastforce
  then show ?thesis
    using assms by (cases rule: transition_cases) (auto simp: transition_def on_db_def run)
qed

text \<open>
  C8: the check before dispatch: when the preconditions no longer hold on the world compiled after the
  authorisation, nothing is dispatched: no pack is called and the run stays \<open>AUTHORIZED\<close>.  But the move to
  \<open>REPLAN_REQUIRED\<close> that the code attempts there is not in the transition table, so the caller gets a
  \<open>ValueError\<close> and not the report that asks for a new plan.
\<close>

theorem toctou_refuses_dispatch:
  assumes "transition env (ar_action_run_id run) AUTHORIZED None None s = (Inr q, s1)"
    and "compile_now env goal s1 = (Inr w, s2)"
    and "evaluate (e_rt env) (la_preconditions a) (wp_facts w) = Inr False"
  shows "(\<exists>m. authorized_part env goal a run r s = (Inl (ValueError m), s2))
    \<and> (\<exists>q. find_row ar_action_run_id (ar_action_run_id run) (db_runs (s_db s2)) = Some q \<and> ar_status q = AUTHORIZED)"
proof -
  have q: "find_row ar_action_run_id (ar_action_run_id run) (db_runs (s_db s2)) = Some q" "ar_status q = AUTHORIZED"
    using transition_moved [OF assms(1)] preservesD [OF compile_now_db refl assms(2)] by simp_all
  then show ?thesis
    using assms transition_illegal [OF q(1), of REPLAN_REQUIRED env None None]
    by (simp add: authorized_part_def Let_def bindE_def act_simps)
qed

theorem toctou_refuses_dispatch_witness:
  "\<exists>m s'. authorized_part sample_env ''g'' (sample_action\<lparr>la_preconditions := atom ''sim.ready'' ''=='' (PyBool False)\<rparr>)
     sample_run (new_report ''plan_1'') (sample_sys\<lparr>s_db := sample_db\<rparr>) = (Inl (ValueError m), s')"
proof -
  let ?s = "sample_sys\<lparr>s_db := sample_db\<rparr>" and ?a = "sample_action\<lparr>la_preconditions := atom ''sim.ready'' ''=='' (PyBool False)\<rparr>"
  have "case transition sample_env ''run_1'' AUTHORIZED None None ?s of (Inr q, s1) \<Rightarrow>
      (case compile_now sample_env ''g'' s1 of (Inr w, s2) \<Rightarrow>
         evaluate sample_rt (la_preconditions ?a) (wp_facts w) = Inr False | _ \<Rightarrow> False) | _ \<Rightarrow> False"
    by code_simp
  then obtain q s1 w s2 where "transition sample_env ''run_1'' AUTHORIZED None None ?s = (Inr q, s1)"
    "compile_now sample_env ''g'' s1 = (Inr w, s2)" "evaluate sample_rt (la_preconditions ?a) (wp_facts w) = Inr False"
    by (auto split: prod.splits sum.splits)
  moreover have "ar_action_run_id sample_run = ''run_1''" "e_rt sample_env = sample_rt"
    by (simp_all add: sample_run_def sample_env_def)
  ultimately show ?thesis
    using toctou_refuses_dispatch [of sample_env sample_run ?s q s1 "''g''" w s2 ?a "new_report ''plan_1''"] by metis
qed

text \<open>What a new run changes, and an approval request that finds no approval.\<close>

lemma create_run_cases:
  assumes "create_run env plan_id a s = (x, s')"
  obtains (refused) e where "x = Inl e" "s_packs s' = s_packs s" "s_wb s' = s_wb s" "s_locks s' = s_locks s"
  | (created) run where "x = Inr run" "s_packs s' = s_packs s" "s_wb s' = s_wb s" "s_locks s' = s_locks s"
      "find_row ar_action_run_id (ar_action_run_id run) (db_runs (s_db s)) = None"
      "find_row ar_action_run_id (ar_action_run_id run) (db_runs (s_db s')) = Some (norm_run run)"
      "ar_status run = PROPOSED" "ar_result run = None" "ar_error run = None"
      "db_approvals (s_db s') = db_approvals (s_db s)"
proof (cases x)
  case (Inl e)
  have "preserves (\<lambda>t. s_packs t = s_packs s \<and> s_wb t = s_wb s \<and> s_locks t = s_locks s) (create_run env plan_id a)"
    unfolding create_run_def Let_def
    by (intro preserves_intros) (auto simp: preserves_def wall_ms_def fresh_id_def on_db_def split: prod.split)
  from preservesD [OF this _ assms] Inl show thesis by (intro refused) auto
next
  case (Inr run)
  show thesis
    using assms Inr
    by (intro created [of run])
      (auto simp: create_run_def Let_def wall_ms_def fresh_id_def on_db_def bindE_def act_simps get_plan_run_scope_def
        create_action_run_def find_row_append norm_run_def split: if_splits)
qed

lemma no_approval_yet:
  assumes "db_ok d" and "find_row ar_action_run_id rid (db_runs d) = None" and "ap \<in> set (db_approvals d)"
  shows "ap_action_run_id ap \<noteq> rid"
  using assms by (auto simp: db_ok_def find_row_None)

lemma request_unapproved:
  assumes "\<not> (hz = LOW \<and> cfg_auto_approve_low_hazard (e_cfg env))"
    and "\<And>ap. ap \<in> set (db_approvals (s_db s)) \<Longrightarrow> ap_action_run_id ap \<noteq> rid"
  shows "\<exists>s'. request_approval env rid h hz reason s = (Inr False, s') \<and> s_packs s' = s_packs s \<and> s_wb s' = s_wb s
    \<and> s_locks s' = s_locks s \<and> db_runs (s_db s') = db_runs (s_db s)"
proof -
  let ?s = "s\<lparr>s_db := (s_db s)\<lparr>db_reads := db_reads (s_db s) + 1\<rparr>\<rparr>"
  have "\<not> list_ex (\<lambda>ap. ap_action_run_id ap = rid \<and> P ap) (db_approvals (s_db s))" for P
    using assms(2) by (auto simp: list_ex_iff)
  then have "on_db (has_valid_approval (e_db_clk env) rid h None) s = (Inr False, ?s)"
    by (simp add: on_db_def has_valid_approval_def db_now_ms_def bindE_def act_simps)
  then show ?thesis
    using assms(1)
    by (auto simp: request_approval_def call_human_def Let_def bindE_def act_simps fresh_id_def wall_ms_def log_event_def
        on_db_def record_event_def db_now_ms_def)
qed


definition guarded_action :: legal_action where
  "guarded_action = sample_action\<lparr>la_hazard_class := MEDIUM, la_approval_required := True\<rparr>"


text \<open>
  C11: an ambiguous execution (the journal says the hardware may already be running it) is never retried or
  reported as done: the run becomes \<open>UNKNOWN\<close>, the interlock is engaged, a critical request for a human is
  written to the outbox, and no pack is called.
\<close>

theorem in_flight_trips_safety:
  assumes "er_status res = InFlight" and "finalize_action env rid a goal res s = (Inr rep, s')"
  shows "rp_failed_action_run_id rep = Some rid \<and> rp_executed_action_ids rep = []
    \<and> sk_engaged (s_safety s') \<and> s_packs s' = s_packs s \<and> s_wb s' = s_wb s
    \<and> (\<exists>q. find_row ar_action_run_id rid (db_runs (s_db s')) = Some q \<and> ar_status q = UNKNOWN)
    \<and> (\<exists>f p. (f, p) \<in> set (s_outbox s') \<and> pget p ''severity'' = PyStr ''critical'')"
proof -
  obtain q s1 where w: "transition env rid UNKNOWN None (er_error res) s = (Inr q, s1)"
    using assms by (auto simp: finalize_action_def elim: bindE_eq_InrD)
  have s1: "s1 = s\<lparr>s_db := s_db s1\<rparr>" using transition_sys [OF w] by simp
  have dset_in: "(k, v) \<in> set (dset k v d)" for k v and d :: "(string \<times> dict) list"
    by (induction d) auto
  show ?thesis
    using assms transition_moved [OF w] arg_cong [OF s1, of s_packs] arg_cong [OF s1, of s_wb]
    by (auto simp: finalize_action_def w bindE_def act_simps call_human_def Let_def fresh_id_def wall_ms_def
        log_event_def on_db_def record_event_def db_now_ms_def new_report_def intro!: exI dset_in)
qed

theorem in_flight_trips_safety_witness:
  "case finalize_action sample_env ''run_1'' sample_action ''g'' (result_of InFlight [] None)
      (sample_sys\<lparr>s_db := sample_db\<lparr>db_runs := [sample_run\<lparr>ar_status := DISPATCHED\<rparr>]\<rparr>\<rparr>) of
     (Inr rep, s') \<Rightarrow> sk_engaged (s_safety s') | _ \<Rightarrow> False"
proof -
  let ?f = "finalize_action sample_env ''run_1'' sample_action ''g'' (result_of InFlight [] None)
      (sample_sys\<lparr>s_db := sample_db\<lparr>db_runs := [sample_run\<lparr>ar_status := DISPATCHED\<rparr>]\<rparr>\<rparr>)"
  have "case ?f of (Inr _, _) \<Rightarrow> True | _ \<Rightarrow> False" by code_simp
  then obtain rep s' where "?f = (Inr rep, s')" by (auto split: prod.splits sum.splits)
  with in_flight_trips_safety [OF _ this] show ?thesis by (simp add: result_of_def)
qed

lemma call_human_runs: "preserves (\<lambda>s. db_runs (s_db s) = rs) (call_human env title body sev ack ctx)"
  unfolding call_human_def Let_def log_event_def
  by (intro preserves_intros)
    (auto simp: preserves_def fresh_id_def wall_ms_def on_db_def record_event_def db_now_ms_def bindE_def act_simps)



section \<open>Plans and reports\<close>

lemma frontier_map_Some: "frontier_map frontier i = Some a \<Longrightarrow> a \<in> set frontier \<and> la_action_id a = i"
  by (auto simp: frontier_map_def dest!: map_of_SomeD)

lemma mapR_frontier:
  "mapR (\<lambda>i. case frontier_map frontier i of None \<Rightarrow> Inl (e i) | Some a \<Rightarrow> Inr a) ids = Inr actions
     \<Longrightarrow> map la_action_id actions = ids \<and> set actions \<subseteq> set frontier"
proof (induction ids arbitrary: actions)
  case (Cons i ids)
  then show ?case
    by (auto simp: bindR_eq_Inr split: option.splits dest: frontier_map_Some)
qed simp

lemma validate_cases:
  assumes "validate_plan w plan = Inr actions"
  obtains plan' where "materialize_plan w plan = Inr plan'"
    "pi_decision plan' = EXECUTE \<longrightarrow> actions \<noteq> [] \<and> map la_action_id actions = pi_sequence plan'"
    "pi_decision plan' \<noteq> EXECUTE \<longrightarrow> actions = []" "set actions \<subseteq> set (wp_frontier w)"
proof -
  obtain plan' where m: "materialize_plan w plan = Inr plan'"
    and v: "(if pi_decision plan' \<noteq> EXECUTE then Inr []
       else if pi_sequence plan' = [] then Inl (ValueError ''EXECUTE decision requires at least one action ID'')
       else mapR (\<lambda>action_id. case frontier_map (wp_frontier w) action_id of
           None \<Rightarrow> Inl (ValueError (''plan referenced unknown frontier action '' @ str_repr action_id))
         | Some a \<Rightarrow> Inr a) (pi_sequence plan')) = Inr actions"
    using assms unfolding validate_plan_def bindR_eq_Inr by blast
  show thesis
    by (rule that [OF m]) (use v in \<open>auto split: if_splits dest!: mapR_frontier\<close>)
qed

text \<open>
  C13: a plan only ever selects actions from the frontier it was made for: the validated actions are frontier
  actions in the order of the plan's sequence, an executing plan selects at least one, and a compact tuning
  choice selects the one frontier action with its family, direction and magnitude or nothing at all.
\<close>

theorem plan_selects_frontier_actions:
  assumes "validate_plan w plan = Inr actions"
  shows "set actions \<subseteq> set (wp_frontier w)
    \<and> (pi_tuning_choice plan = None \<longrightarrow> map la_action_id actions = (if pi_decision plan = EXECUTE then pi_sequence plan else []))
    \<and> (\<forall>c. pi_tuning_choice plan = Some c \<and> pi_decision plan = EXECUTE \<longrightarrow>
         map la_action_id actions = matching_actions w c \<and> length actions = 1 \<or> actions = [] \<and> pi_sequence plan \<noteq> [])"
proof -
  from assms obtain plan' where m: "materialize_plan w plan = Inr plan'"
    "pi_decision plan' = EXECUTE \<longrightarrow> actions \<noteq> [] \<and> map la_action_id actions = pi_sequence plan'"
    "pi_decision plan' \<noteq> EXECUTE \<longrightarrow> actions = []" "set actions \<subseteq> set (wp_frontier w)" by (rule validate_cases) blast
  moreover have "map la_action_id actions = matching_actions w c \<and> length actions = 1 \<or> actions = [] \<and> pi_sequence plan \<noteq> []"
    if "pi_tuning_choice plan = Some c" "pi_decision plan = EXECUTE" for c
  proof (cases "\<exists>i. matching_actions w c = [i]")
    case True
    then obtain i where "matching_actions w c = [i]" ..
    then have "plan' = plan\<lparr>pi_sequence := [i], pi_tuning_choice := None\<rparr>" using m(1) that by (simp add: materialize_plan_def)
    then show ?thesis using m(2) that \<open>matching_actions w c = [i]\<close> by (auto simp: map_eq_Cons_conv)
  next
    case False
    then have "pi_sequence plan \<noteq> [] \<and> plan' = no_action_plan malformed_plan_why"
      using m(1) that by (auto simp: materialize_plan_def split: list.splits if_splits)
    then show ?thesis using m(3) by (simp add: no_action_plan_def)
  qed
  ultimately show ?thesis by (auto simp: materialize_plan_def)
qed

theorem plan_selects_frontier_actions_witness:
  "\<exists>actions. validate_plan sample_world (execute_ids [''SIM-A001'']) = Inr actions \<and> map la_action_id actions = [''SIM-A001'']"
proof -
  have "validate_plan sample_world (execute_ids [''SIM-A001'']) = Inr [sample_action]" by code_simp
  from plan_selects_frontier_actions [OF this] show ?thesis
    using \<open>validate_plan sample_world (execute_ids [''SIM-A001'']) = Inr [sample_action]\<close> by (auto simp: execute_ids_def)
qed

section \<open>What the report says\<close>

definition returns :: "('a \<Rightarrow> bool) \<Rightarrow> ('s, 'a) act \<Rightarrow> bool" where
  "returns Q m \<longleftrightarrow> (\<forall>s x s'. m s = (Inr x, s') \<longrightarrow> Q x)"

named_theorems returns_intros "compositional proofs about the value an operation returns"

lemma returns_basic [returns_intros]: "Q x \<Longrightarrow> returns Q (ret x)" "returns Q (raise e)"
  "(\<And>x. r = Inr x \<Longrightarrow> Q x) \<Longrightarrow> returns Q (liftE r)"
  by (simp_all add: returns_def act_simps)

lemma returns_bindE [returns_intros]: "(\<And>x. returns Q (f x)) \<Longrightarrow> returns Q (bindE m f)"
  unfolding returns_def by (metis bindE_eq_InrD)

lemma returns_bindE_strong: "returns R m \<Longrightarrow> (\<And>x. R x \<Longrightarrow> returns Q (f x)) \<Longrightarrow> returns Q (bindE m f)"
  unfolding returns_def by (metis bindE_eq_InrD)

lemma returns_if [returns_intros]:
  "(b \<Longrightarrow> returns Q m) \<Longrightarrow> (\<not> b \<Longrightarrow> returns Q n) \<Longrightarrow> returns Q (if b then m else n)"
  by simp

text \<open>One step either runs its action or says why it did not.\<close>

definition flagged :: "report \<Rightarrow> bool" where
  "flagged r \<longleftrightarrow> rp_replan_required r \<or> rp_blocked_action_run_id r \<noteq> None \<or> rp_failed_action_run_id r \<noteq> None"

definition step_ok :: "report \<Rightarrow> string \<Rightarrow> step_result \<Rightarrow> bool" where
  "step_ok r i st \<longleftrightarrow> (st_break st \<longrightarrow> flagged (st_report st))
     \<and> (rp_executed_action_ids (st_report st) = rp_executed_action_ids r \<and> st_break st
        \<or> rp_executed_action_ids (st_report st) = rp_executed_action_ids r @ [i])"

lemma step_ok_stop:
  "step_ok r i (stop (add_note n (r\<lparr>rp_replan_required := True\<rparr>)))"
  "step_ok r i (stop (add_note n (r\<lparr>rp_blocked_action_run_id := Some x\<rparr>)))"
  by (simp_all add: step_ok_def stop_def add_note_def flagged_def)

lemma step_ok_merge:
  "outcome_stops o1 \<Longrightarrow> step_ok r (la_action_id a) (stop (merge_outcome r a o1))"
  "step_ok r (la_action_id a) \<lparr>st_break = False, st_report = merge_outcome r a o1\<rparr>"
  by (auto simp: step_ok_def stop_def merge_outcome_def outcome_stops_def flagged_def Let_def split: option.splits)

lemma authorized_part_step: "returns (step_ok r (la_action_id a)) (authorized_part env goal a run r)"
  unfolding authorized_part_def Let_def
  by (intro returns_intros step_ok_stop step_ok_merge)

lemma guarded_part_step: "returns (step_ok r (la_action_id a)) (guarded_part env goal a run r)"
  unfolding guarded_part_def Let_def
  by (intro returns_intros authorized_part_step step_ok_stop)

lemma locked_part_step: "returns (step_ok r (la_action_id a)) (locked_part env goal a run r)"
proof -
  have "returns (step_ok r (la_action_id a)) (try_finally (guarded_part env goal a run r) fin)" for fin
    using guarded_part_step [of r a env goal run] by (auto simp: returns_def try_finally_def split: prod.splits)
  moreover have "returns (step_ok r (la_action_id a)) (bindE (transition env (ar_action_run_id run) REPLAN_REQUIRED None None)
      (\<lambda>_. ret (stop (add_note n (r\<lparr>rp_replan_required := True\<rparr>)))))" for n
    by (intro returns_intros step_ok_stop)
  ultimately show ?thesis
    unfolding returns_def locked_part_def by (simp split: prod.splits bool.splits)
qed

lemma refresh_action_id: "returns (\<lambda>x. \<forall>a'. x = Some a' \<longrightarrow> la_action_id a' = la_action_id a) (refresh_action env goal refresh a)"
  unfolding refresh_action_def by (intro returns_intros) (auto dest: frontier_map_Some)

lemma execute_one_step: "returns (step_ok r (la_action_id a)) (execute_one env plan_id goal refresh a r)"
  unfolding execute_one_def
proof (rule returns_bindE_strong [OF refresh_action_id])
  fix x :: "legal_action option" assume x: "\<forall>a'. x = Some a' \<longrightarrow> la_action_id a' = la_action_id a"
  show "returns (step_ok r (la_action_id a)) (case x of
      None \<Rightarrow> bindE (log_event env ''engine'' ''WARN'' ''replan_required_frontier_changed''
               [(''plan_id'', PyStr plan_id), (''action_id'', PyStr (la_action_id a))]) (\<lambda>_.
             ret (stop (add_note (''frontier no longer contains '' @ la_action_id a) (r\<lparr>rp_replan_required := True\<rparr>))))
    | Some action \<Rightarrow> bindE (create_run env plan_id action) (\<lambda>run. locked_part env goal action run r))"
  proof (cases x)
    case (Some a')
    with x have "la_action_id a' = la_action_id a" by simp
    then show ?thesis using Some locked_part_step [of r a'] by (auto intro: returns_intros)
  qed (auto intro!: returns_intros step_ok_stop)
qed

lemma execute_loop_ids:
  assumes "execute_loop env plan_id goal refresh as r s = (Inr rep, s')"
  shows "\<exists>ids. rp_executed_action_ids rep = rp_executed_action_ids r @ ids \<and> prefix ids (map la_action_id as)
    \<and> (flagged rep \<or> ids = map la_action_id as)"
  using assms
proof (induction as arbitrary: r s)
  case Nil
  then show ?case by (simp add: act_simps)
next
  case (Cons a as)
  obtain st s1 where one: "execute_one env plan_id goal refresh a r s = (Inr st, s1)"
    and rest: "(if st_break st then ret (st_report st) else execute_loop env plan_id goal refresh as (st_report st)) s1 = (Inr rep, s')"
    using Cons.prems by (auto elim: bindE_eq_InrD)
  have ok: "step_ok r (la_action_id a) st" using execute_one_step [of r a] one unfolding returns_def by blast
  show ?case
  proof (cases "st_break st")
    case True
    then have "rep = st_report st" using rest by (simp add: act_simps)
    then show ?thesis using ok True by (auto simp: step_ok_def)
  next
    case False
    then obtain ids where "rp_executed_action_ids rep = rp_executed_action_ids (st_report st) @ ids"
      "prefix ids (map la_action_id as)" "flagged rep \<or> ids = map la_action_id as" using Cons.IH rest by fastforce
    then show ?thesis using ok False by (intro exI [of _ "la_action_id a # ids"]) (auto simp: step_ok_def)
  qed
qed

lemma execute_actions_ids:
  assumes "execute_actions env plan_id goal as refresh s = (Inr rep, s')"
  shows "prefix (rp_executed_action_ids rep) (map la_action_id as)
    \<and> (flagged rep \<or> rp_executed_action_ids rep = map la_action_id as)"
proof -
  obtain ok s1 where l: "(if as = [] then ret True else acquire_lease env) s = (Inr ok, s1)"
    and rest: "(if \<not> ok then
         bindE (log_event env ''engine'' ''WARN'' ''control_lease_unavailable''
             [(''plan_id'', PyStr plan_id), (''lock_path'', PyStr (cfg_control_lock_path (e_cfg env)))]) (\<lambda>_.
           ret (add_note ''control lease unavailable'' ((new_report plan_id)\<lparr>rp_replan_required := True\<rparr>)))
       else execute_loop env plan_id goal refresh as (new_report plan_id)) s1 = (Inr rep, s')"
    using assms unfolding execute_actions_def by (elim bindE_eq_InrD)
  show ?thesis
  proof (cases ok)
    case True
    then show ?thesis using rest execute_loop_ids [of env plan_id goal refresh as "new_report plan_id" s1 rep s']
      by (auto simp: new_report_def)
  next
    case False
    then have "rep = add_note ''control lease unavailable'' ((new_report plan_id)\<lparr>rp_replan_required := True\<rparr>)"
      using rest by (auto elim!: bindE_eq_InrD simp: act_simps)
    then show ?thesis by (simp add: add_note_def new_report_def flagged_def)
  qed
qed

text \<open>
  C12: the report is complete: when executing a plan returns, the executed action ids are an initial piece of
  the plan's (resolved) sequence, all of them frontier actions, and if any action was left out the report
  says so: a new plan is required, or a run is blocked on an approval, or a run failed.
\<close>

theorem report_accounts_for_plan:
  assumes "execute_plan env goal w plan s = (Inr rep, s')"
  shows "\<exists>plan'. materialize_plan w plan = Inr plan'
    \<and> prefix (rp_executed_action_ids rep) (if pi_decision plan' = EXECUTE then pi_sequence plan' else [])
    \<and> set (rp_executed_action_ids rep) \<subseteq> la_action_id ` set (wp_frontier w)
    \<and> (pi_decision plan' = EXECUTE \<longrightarrow> rp_executed_action_ids rep = pi_sequence plan'
         \<or> rp_replan_required rep \<or> rp_blocked_action_run_id rep \<noteq> None \<or> rp_failed_action_run_id rep \<noteq> None)"
proof -
  obtain plan' plan_id s1 where m: "materialize_plan w plan = Inr plan'" and p: "persist_plan env goal w plan' s = (Inr plan_id, s1)"
    using assms by (auto simp: execute_plan_def act_simps elim!: bindE_eq_InrD)
  show ?thesis
  proof (cases "pi_decision plan'")
    case EXECUTE
    then obtain actions where v: "validate_plan w plan' = Inr actions"
      and x: "execute_actions env plan_id goal actions True s1 = (Inr rep, s')"
      using assms m p by (auto simp: execute_plan_def bindE_def act_simps split: sum.splits)
    have "materialize_plan w plan' = Inr plan'"
      using m EXECUTE by (auto simp: materialize_plan_def no_action_plan_def split: option.splits if_splits list.splits)
    with v EXECUTE have "map la_action_id actions = pi_sequence plan'" "set actions \<subseteq> set (wp_frontier w)"
      by (auto elim: validate_cases)
    moreover have "set (rp_executed_action_ids rep) \<subseteq> set (map la_action_id actions)"
      using execute_actions_ids [OF x] by (blast dest: set_mono_prefix)
    ultimately have "set (rp_executed_action_ids rep) \<subseteq> la_action_id ` set (wp_frontier w)"
      unfolding set_map by (meson image_mono order_trans)
    with execute_actions_ids [OF x] m EXECUTE \<open>map la_action_id actions = pi_sequence plan'\<close> show ?thesis
      by (auto simp: flagged_def)
  next
    case NO_ACTION
    then have "rp_executed_action_ids rep = []"
      using assms m p by (auto simp: execute_plan_def bindE_def act_simps add_note_def new_report_def split: prod.splits sum.splits)
    then show ?thesis using m NO_ACTION by simp
  next
    case CALL_HUMAN
    then have "rp_executed_action_ids rep = []"
      using assms m p by (auto simp: execute_plan_def bindE_def act_simps new_report_def split: prod.splits sum.splits)
    then show ?thesis using m CALL_HUMAN by simp
  qed
qed

lemma sample_view: "\<exists>v. prompt_view sample_rt now sample_world = Inr v"
proof -
  have "\<exists>d. decision_signals sample_rt now sample_world = Inr d"
    by (simp add: decision_signals_def sample_world_def planner_notebook_notes_def json_from_fact_def
      planner_last_result_notes_def planner_recent_family_actions_def planner_temporal_action_context_def
      planner_action_consequence_def Let_def)
  then show ?thesis by (auto simp: prompt_view_def)
qed

theorem report_accounts_for_plan_witness:
  "case execute_plan (sample_env\<lparr>e_flock := \<lambda>_. False\<rparr>) ''g'' sample_world (execute_ids [''SIM-A001'']) sample_sys of
     (Inr rep, s') \<Rightarrow> rp_executed_action_ids rep \<noteq> [''SIM-A001''] \<longrightarrow>
       rp_replan_required rep \<or> rp_blocked_action_run_id rep \<noteq> None \<or> rp_failed_action_run_id rep \<noteq> None | _ \<Rightarrow> False"
proof -
  let ?env = "sample_env\<lparr>e_flock := \<lambda>_. False\<rparr>"
  have v: "validate_plan sample_world (execute_ids [''SIM-A001'']) = Inr [sample_action]" by code_simp
  have m: "materialize_plan sample_world (execute_ids [''SIM-A001'']) = Inr (execute_ids [''SIM-A001''])"
    by (simp add: materialize_plan_def execute_ids_def)
  obtain w where w: "prompt_view sample_rt (\<lambda>i. e_clk ?env (0 + i)) sample_world = Inr w" using sample_view by blast
  have e: "e_rt ?env = sample_rt" "e_flock ?env n = False" "pi_decision (execute_ids ids) = EXECUTE" for n ids
    by (simp_all add: sample_env_def execute_ids_def)
  have "\<exists>rep s'. execute_plan ?env ''g'' sample_world (execute_ids [''SIM-A001'']) sample_sys = (Inr rep, s')"
    using w
    by (simp add: execute_plan_def m v e bindE_def act_simps persist_plan_def fresh_id_def prompt_view_now_def sample_sys_def
        wall_ms_def on_db_def store_plan_def execute_actions_def acquire_lease_def lease_acquire_def log_event_def
        record_event_def db_now_ms_def)
  then obtain rep s' where r: "execute_plan ?env ''g'' sample_world (execute_ids [''SIM-A001'']) sample_sys = (Inr rep, s')" by blast
  from report_accounts_for_plan [OF r] show ?thesis unfolding r m by (auto simp: execute_ids_def)
qed

section \<open>The bounded wait\<close>

lemma compile_now_monos: "preserves (\<lambda>s. s_monos s = n) (compile_now env goal)"
proof -
  have "preserves (\<lambda>s. s_monos s = n) (on_pack pid m)" for pid and m :: "('a, 'b) act"
    by (rule preservesI) (auto simp: on_pack_def split: option.split prod.split)
  moreover have "preserves (\<lambda>s. s_monos s = n) (on_pack pid m)" for pid and m :: "('a, normalized_state) act"
    by (rule preservesI) (auto simp: on_pack_def split: option.split prod.split)
  moreover have "preserves (\<lambda>s. s_monos s = n) (on_pack pid m)" for pid and m :: "('a, legal_action list) act"
    by (rule preservesI) (auto simp: on_pack_def split: option.split prod.split)
  moreover have "preserves (\<lambda>s. s_monos s = n) (on_db m)" for m :: "(db, dict list) act"
    by (rule preservesI) (auto simp: on_db_def split: prod.split)
  moreover have "preserves (\<lambda>s. s_monos s = n) (active_locks)"
    by (simp add: preserves_def active_locks_run)
  moreover have "preserves (\<lambda>s. s_monos s = n) (wall_ms env)"
    by (simp add: preserves_def wall_ms_def)
  ultimately show ?thesis
    unfolding compile_now_def compile_world_def pending_messages_def build_frontier_def interference_def for_packs_def Let_def
    by (intro preserves_intros mapE_keeps_gen) auto
qed

text \<open>One round of the loop, when the deadline has not passed.\<close>

lemma wait_loop_round:
  assumes "float_less (Fin (e_mono env (s_monos s))) deadline"
    and "compile_now env goal (s\<lparr>s_monos := s_monos s + 1\<rparr>) = (x, s2)"
  shows "wait_loop env goal predicate deadline (Suc fuel) s = (case x of
      Inl e \<Rightarrow> (Inl e, s2)
    | Inr w \<Rightarrow> (case evaluate (e_rt env) predicate (wp_facts w) of
        Inl e \<Rightarrow> (Inl e, s2)
      | Inr ok \<Rightarrow> if ok then (Inr (Some True), s2)
          else let t = s2\<lparr>s_monos := s_monos s2 + 1\<rparr>
          in if float_le (float_sub deadline (Fin (e_mono env (s_monos s2)))) (Fin 0) then (Inr (Some False), t)
             else wait_loop env goal predicate deadline fuel t))"
  using assms by (simp add: bindE_def monotonic_def act_simps Let_def split: sum.split)

lemma wait_loop_over:
  "\<not> float_less (Fin (e_mono env (s_monos s))) deadline \<Longrightarrow>
     wait_loop env goal predicate deadline (Suc fuel) s = (Inr (Some False), s\<lparr>s_monos := s_monos s + 1\<rparr>)"
  by (simp add: bindE_def monotonic_def act_simps)

lemma wait_loop_ends:
  "\<not> float_less (Fin (e_mono env (s_monos s + 2 * k))) deadline \<Longrightarrow> k < fuel \<Longrightarrow>
     fst (wait_loop env goal predicate deadline fuel s) \<noteq> Inr None"
proof (induction k arbitrary: s fuel)
  case 0
  then obtain fuel' where "fuel = Suc fuel'" by (cases fuel) auto
  moreover have over: "\<not> float_less (Fin (e_mono env (s_monos s))) deadline" using 0 by simp
  ultimately show ?case unfolding \<open>fuel = Suc fuel'\<close> wait_loop_over [OF over] by simp
next
  case (Suc k)
  then obtain fuel' where fuel: "fuel = Suc fuel'" "k < fuel'" by (cases fuel) auto
  obtain x s2 where c: "compile_now env goal (s\<lparr>s_monos := s_monos s + 1\<rparr>) = (x, s2)" by fastforce
  have m: "s_monos s2 = s_monos s + 1" using preservesD [OF compile_now_monos _ c] by simp
  have IH: "fst (wait_loop env goal predicate deadline fuel' (s2\<lparr>s_monos := s_monos s2 + 1\<rparr>)) \<noteq> Inr None"
    by (rule Suc.IH) (use Suc.prems m fuel in simp_all)
  show ?case
  proof (cases "float_less (Fin (e_mono env (s_monos s))) deadline")
    case True
    show ?thesis
      unfolding fuel(1) wait_loop_round [OF True c] using IH by (simp add: Let_def split: sum.split)
  next
    case False
    show ?thesis unfolding fuel(1) wait_loop_over [OF False] by simp
  qed
qed

lemma wait_loop_success:
  "wait_loop env goal predicate deadline fuel s = (Inr (Some True), s') \<Longrightarrow>
     \<exists>s1 w s2 n. compile_now env goal s1 = (Inr w, s2) \<and> s_monos s1 = n + 1 \<and> s_monos s \<le> n
       \<and> float_less (Fin (e_mono env n)) deadline \<and> evaluate (e_rt env) predicate (wp_facts w) = Inr True"
proof (induction fuel arbitrary: s)
  case (Suc fuel)
  let ?s = "s\<lparr>s_monos := s_monos s + 1\<rparr>"
  obtain x s2 where c: "compile_now env goal ?s = (x, s2)" by fastforce
  have m: "s_monos s2 = s_monos s + 1" using preservesD [OF compile_now_monos _ c] by simp
  have before: "float_less (Fin (e_mono env (s_monos s))) deadline"
    using Suc.prems wait_loop_over [of env s deadline goal predicate fuel] by (cases "float_less (Fin (e_mono env (s_monos s))) deadline") simp_all
  from Suc.prems [unfolded wait_loop_round [OF before c]]
  obtain w ok where w: "x = Inr w" "evaluate (e_rt env) predicate (wp_facts w) = Inr ok"
    by (auto split: sum.splits)
  show ?case
  proof (cases ok)
    case True
    have "s_monos ?s = s_monos s + 1" by simp
    with before c w True show ?thesis by (intro exI [of _ ?s] exI [of _ w] exI [of _ s2] exI [of _ "s_monos s"]) simp
  next
    case False
    then have "wait_loop env goal predicate deadline fuel (s2\<lparr>s_monos := s_monos s2 + 1\<rparr>) = (Inr (Some True), s')"
      using Suc.prems [unfolded wait_loop_round [OF before c]] w by (simp add: Let_def split: if_splits)
    from Suc.IH [OF this] obtain s1 w' s2' n where "compile_now env goal s1 = (Inr w', s2')" "s_monos s1 = n + 1"
      "s_monos (s2\<lparr>s_monos := s_monos s2 + 1\<rparr>) \<le> n" "float_less (Fin (e_mono env n)) deadline"
      "evaluate (e_rt env) predicate (wp_facts w') = Inr True" by blast
    with m show ?thesis by (intro exI [of _ s1] exI [of _ w'] exI [of _ s2'] exI [of _ n]) simp
  qed
qed (simp add: act_simps)

text \<open>
  C22: the waiting loop comes to an end: once some pair of its clock readings is not before the deadline, the
  loop has returned within that many rounds (it is satisfied, timed out, or a step raised), so it runs out
  of fuel only if the clock stands still; and when it reports success, the predicate held on a world
  compiled before the deadline.
\<close>

theorem wait_loop_returns:
  assumes "\<not> float_less (Fin (e_mono env (s_monos s + 2 * k))) deadline" and "k < fuel"
  shows "fst (wait_loop env goal predicate deadline fuel s) \<noteq> Inr None
    \<and> (fst (wait_loop env goal predicate deadline fuel s) = Inr (Some True) \<longrightarrow>
        (\<exists>s1 w s2 n. compile_now env goal s1 = (Inr w, s2) \<and> s_monos s1 = n + 1 \<and> s_monos s \<le> n
          \<and> float_less (Fin (e_mono env n)) deadline \<and> evaluate (e_rt env) predicate (wp_facts w) = Inr True))"
  using wait_loop_ends [OF assms] wait_loop_success by (metis prod.collapse)

theorem wait_loop_returns_witness:
  "fst (wait_loop sample_env ''g'' (atom ''sim.ready'' ''=='' (PyBool False)) (Fin 3) 3 sample_sys) \<noteq> Inr None"
proof -
  have "\<not> float_less (Fin (e_mono sample_env (s_monos sample_sys + 2 * 2))) (Fin 3)"
    by (simp add: sample_env_def sample_sys_def)
  from wait_loop_returns [OF this, of 3] show ?thesis by simp
qed

end
