(* ===== verification/Openrouter.thy ===== *)
theory Openrouter
  imports Prelude
begin

text \<open>
  The normalisation of provider metadata (\<open>wallee_v6/wallee_v6/openrouter_observability.py\<close>): what is
  recorded about a planner request, whatever JSON the provider returned.
\<close>

section \<open>Coercions\<close>

definition coerce_str :: "pyrt \<Rightarrow> pyval \<Rightarrow> string option" where
  "coerce_str rt v = (if v = PyNone then None else nonempty (str_strip (py_str rt v)))"

text \<open>\<open>int(v)\<close>: a float is truncated, an infinite one raises \<open>OverflowError\<close>.\<close>

fun py_int :: "pyrt \<Rightarrow> pyval \<Rightarrow> pyexc + int" where
  "py_int rt (PyInt i) = Inr i"
| "py_int rt (PyBool b) = Inr (if b then 1 else 0)"
| "py_int rt (PyFloat (Fin q)) = Inr (if 0 \<le> q then \<lfloor>q\<rfloor> else \<lceil>q\<rceil>)"
| "py_int rt (PyFloat NaN) = Inl (ValueError ''cannot convert float NaN to integer'')"
| "py_int rt (PyFloat _) = Inl (PyExc ''OverflowError'' ''cannot convert float infinity to integer'')"
| "py_int rt (PyStr s) = (case int_parse rt s of
      None \<Rightarrow> Inl (ValueError (''invalid literal for int() with base 10: '' @ str_repr s))
    | Some i \<Rightarrow> Inr i)"
| "py_int rt v = Inl (TypeError (''int() argument must be a string, a bytes-like object or a real number, not ''
     @ CHR 0x27 # type_name v @ [CHR 0x27]))"

text \<open>\<open>except (TypeError, ValueError): return None\<close>.\<close>

definition none_on_value_error :: "(pyexc + 'a) \<Rightarrow> pyexc + 'a option" where
  "none_on_value_error r = (case r of
      Inr x \<Rightarrow> Inr (Some x)
    | Inl e \<Rightarrow> if exc_class e = ''TypeError'' \<or> exc_class e = ''ValueError'' then Inr None else Inl e)"

definition coerce_int :: "pyrt \<Rightarrow> pyval \<Rightarrow> pyexc + int option" where
  "coerce_int rt v = (if v = PyNone \<or> v = PyStr [] then Inr None else none_on_value_error (py_int rt v))"

definition coerce_float :: "pyrt \<Rightarrow> pyval \<Rightarrow> pyexc + pyfloat option" where
  "coerce_float rt v = (if v = PyNone \<or> v = PyStr [] then Inr None
     else none_on_value_error (bindR (py_float rt v) (\<lambda>f. Inr (round_half_even rt 3 f))))"

section \<open>Lookup\<close>

fun lookup_value :: "pyval \<Rightarrow> string list \<Rightarrow> pyval" where
  "lookup_value current [] = current"
| "lookup_value (PyDict d) (key # path) = (case map_of d key of None \<Rightarrow> PyNone | Some v \<Rightarrow> lookup_value v path)"
| "lookup_value _ (key # path) = PyNone"

text \<open>The first path whose value can be read.\<close>

fun lookup_first :: "(pyval \<Rightarrow> pyexc + 'a option) \<Rightarrow> pyval \<Rightarrow> string list list \<Rightarrow> pyexc + 'a option" where
  "lookup_first coerce payload [] = Inr None"
| "lookup_first coerce payload (path # paths) =
     bindR (coerce (lookup_value payload path)) (\<lambda>v. case v of
         Some x \<Rightarrow> Inr (Some x)
       | None \<Rightarrow> lookup_first coerce payload paths)"

definition lookup_int :: "pyrt \<Rightarrow> pyval \<Rightarrow> string list list \<Rightarrow> pyexc + int option" where
  "lookup_int rt = lookup_first (coerce_int rt)"

definition lookup_float :: "pyrt \<Rightarrow> pyval \<Rightarrow> string list list \<Rightarrow> pyexc + pyfloat option" where
  "lookup_float rt = lookup_first (coerce_float rt)"

fun first_name :: "pyrt \<Rightarrow> dict \<Rightarrow> string list \<Rightarrow> string option" where
  "first_name rt d [] = None"
| "first_name rt d (k # ks) = (case coerce_str rt (pget d k) of Some v \<Rightarrow> Some v | None \<Rightarrow> first_name rt d ks)"

definition provider_name :: "pyrt \<Rightarrow> pyval \<Rightarrow> string option" where
  "provider_name rt provider = (case provider of
      PyStr s \<Rightarrow> nonempty (str_strip s)
    | PyDict d \<Rightarrow> first_name rt d [''name'', ''provider_name'', ''slug'']
    | _ \<Rightarrow> None)"

section \<open>The metadata record\<close>

definition opt_int :: "int option \<Rightarrow> pyval" where
  "opt_int x = (case x of None \<Rightarrow> PyNone | Some i \<Rightarrow> PyInt i)"

text \<open>\<open>a or b\<close> on optional texts, which are never empty.\<close>

definition or_else :: "'a option \<Rightarrow> 'a option \<Rightarrow> 'a option" where
  "or_else a b = (case a of None \<Rightarrow> b | Some _ \<Rightarrow> a)"

definition header_map :: "dict \<Rightarrow> dict" where
  "header_map headers = dict_update [] (map (\<lambda>(k, v). (str_lower k, v)) headers)"

definition first_choice :: "dict \<Rightarrow> dict" where
  "first_choice response = (case por (pget response ''choices'') (PyList []) of
      PyList (PyDict c # _) \<Rightarrow> c
    | _ \<Rightarrow> [])"

definition normalize_openrouter_metadata ::
    "pyrt \<Rightarrow> pyval \<Rightarrow> string \<Rightarrow> pyfloat option \<Rightarrow> int option \<Rightarrow> int \<Rightarrow> bool \<Rightarrow> string \<Rightarrow> string \<Rightarrow> dict \<Rightarrow> pyexc + dict" where
  "normalize_openrouter_metadata rt payload requested_model latency_ms response_size_bytes retry_count schema_valid
      request_started_at response_received_at headers =
     bindR (as_dict (por payload (PyDict []))) (\<lambda>response.
     let usage_payload = (case pget response ''usage'' of PyDict u \<Rightarrow> PyDict u | _ \<Rightarrow> PyNone);
         hmap = header_map headers;
         provider = pget response ''provider'';
         finish_reason = pget (first_choice response) ''finish_reason''
     in bindR (coerce_float rt (opt_float latency_ms)) (\<lambda>latency.
        bindR (lookup_float rt (PyDict response) [[''generation_time_ms''], [''generation_time''], [''provider_latency_ms''],
            [''usage'', ''generation_time_ms''], [''usage'', ''generation_time'']]) (\<lambda>generation.
        bindR (lookup_int rt (PyDict response) [[''usage'', ''prompt_tokens''], [''prompt_tokens'']]) (\<lambda>tokens_prompt.
        bindR (lookup_int rt (PyDict response) [[''usage'', ''completion_tokens''], [''completion_tokens'']]) (\<lambda>tokens_completion.
        bindR (lookup_int rt (PyDict response) [[''usage'', ''native_tokens_prompt''], [''native_tokens_prompt'']]) (\<lambda>native_prompt.
        bindR (lookup_int rt (PyDict response) [[''usage'', ''native_tokens_completion''], [''native_tokens_completion'']]) (\<lambda>native_completion.
        bindR (lookup_int rt (PyDict response) [[''usage'', ''native_tokens_reasoning''], [''native_tokens_reasoning'']]) (\<lambda>native_reasoning.
          Inr [(''request_id'', opt_str (or_else (coerce_str rt (pget response ''id'')) (coerce_str rt (pget hmap ''x-request-id'')))),
            (''generation_id'', opt_str (coerce_str rt (pget response ''id''))),
            (''provider_name'', opt_str (or_else (provider_name rt provider) (coerce_str rt (pget hmap ''x-openrouter-provider'')))),
            (''model'', opt_str (or_else (coerce_str rt (pget response ''model'')) (coerce_str rt (PyStr requested_model)))),
            (''latency_ms'', opt_float latency), (''generation_time_ms'', opt_float generation),
            (''tokens_prompt'', opt_int tokens_prompt), (''tokens_completion'', opt_int tokens_completion),
            (''native_tokens_prompt'', opt_int native_prompt), (''native_tokens_completion'', opt_int native_completion),
            (''native_tokens_reasoning'', opt_int native_reasoning),
            (''usage'', usage_payload), (''finish_reason'', opt_str (coerce_str rt finish_reason)),
            (''retry_count'', PyInt retry_count), (''schema_valid'', PyBool schema_valid),
            (''response_size_bytes'', opt_int response_size_bytes),
            (''request_started_at'', PyStr request_started_at), (''response_received_at'', PyStr response_received_at),
            (''raw_provider_metadata'', PyDict [(''id'', pget response ''id''), (''provider'', provider),
               (''model'', pget response ''model''), (''usage'', usage_payload), (''finish_reason'', finish_reason),
               (''headers'', PyDict headers)])]))))))))"

end
