(* ===== verification/Planner.thy ===== *)
theory Planner
  imports Engine Openrouter PromptSchema
begin

text \<open>
  The planner backends (\<open>wallee_v6/wallee_v6/planner.py\<close>): the local heuristic planner and the OpenRouter
  planner with its prompt, the reading of the provider's answer and the deterministic corrections applied
  to it.

  A planner runs over the system together with its own record of the last exchange
  (\<open>planner_state\<close>).  The HTTP exchange is a function of the request payload; the texts of the prompt
  files are the fields of \<open>prompt_package\<close>.  The JSON Schema and the pydantic model of a plan are the
  definitions \<open>plan_ir_schema\<close> and \<open>plan_of_json\<close>; the message texts of their validation errors are not
  modelled.
\<close>

section \<open>Heuristic planner\<close>

definition heuristic_plan :: "world_packet \<Rightarrow> plan_ir" where
  "heuristic_plan world = (case wp_frontier world of
      [] \<Rightarrow> no_action_plan ''No legal actions available''
    | first # _ \<Rightarrow> (case filter (\<lambda>a. la_verb a = ''WAIT_UNTIL'') (wp_frontier world) of
        wait # _ \<Rightarrow> \<lparr>pi_decision = EXECUTE, pi_sequence = [la_action_id wait],
          pi_why = ''A blocker is expected to clear without hardware intervention'',
          pi_call_human_message = None, pi_tuning_choice = None\<rparr>
      | [] \<Rightarrow> (case filter (\<lambda>a. la_verb a \<noteq> ''CALL_HUMAN'') (wp_frontier world) of
          a # _ \<Rightarrow> \<lparr>pi_decision = EXECUTE, pi_sequence = [la_action_id a],
            pi_why = ''Selected lowest-rank legal action '' @ la_verb a,
            pi_call_human_message = None, pi_tuning_choice = None\<rparr>
        | [] \<Rightarrow> \<lparr>pi_decision = CALL_HUMAN, pi_sequence = [], pi_why = ''Only escalation remains legal'',
            pi_call_human_message = Some (la_description first), pi_tuning_choice = None\<rparr>)))"

section \<open>The request\<close>

definition nl :: string where
  "nl = [CHR 0x0A]"

record prompt_package =
  pp_contract_text :: string
  pp_rubric_text :: string
  pp_examples_text :: string

record openrouter_config =
  oc_model :: string
  oc_response_healing :: bool
  oc_reasoning_effort :: string
  oc_retry_backoff_seconds :: pyfloat

definition developer_prompt_text :: string where
  "developer_prompt_text =
     ''<task>'' @ nl @
     ''Return only valid PlanIR JSON for one bounded planner decision.'' @ nl @
     ''</task>'' @ nl @
     nl @
     ''<decision_principles>'' @ nl @
     ''- Choose exactly one legal bounded action when fresh grounded evidence supports it.'' @ nl @
     ''- `decision_signals.allowed_frontier_ids` lists only legal non-tuning explicit safety or operator actions.'' @ nl @
     ''- Legal tuning choices are listed separately in `decision_signals.tuning_action_space` and are independently legal.'' @ nl @
     ''- If `decision_signals.tuning_action_space` is non-empty, legal bounded tuning remains available even when `decision_signals.allowed_frontier_ids` is empty or contains only `A_PRUSA_PAUSE` or `A_PRUSA_CANCEL`.'' @ nl @
     ''- Do not infer tuning illegality from `decision_signals.allowed_frontier_ids` being empty or safety-only.'' @ nl @
     ''- Respect blockers, cooldowns, settle context, terminal phase, and the one-family-at-a-time rule.'' @ nl @
     ''- Use `action_consequence`, `vision_signal`, `freshness`, `recent_family_actions`, and `cumulative_family_deltas` to judge whether a previous action helped.'' @ nl @
     ''- Prefer `NO_ACTION` when evidence is stale, still settling, weak, conflicting, or no legal follow-up is clearly supported.'' @ nl @
     ''- Treat nozzle residue alone as observational. Ignore it unless it is visibly causing print defects, dragging filament, forming a blob, contacting the part, or co-occurring with stringing, spaghetti, or adhesion failure.'' @ nl @
     ''- Use `CALL_HUMAN` only for true operator intervention, fault, or recovery conditions, not when bounded tuning remains legal.'' @ nl @
     ''</decision_principles>'' @ nl @
     nl @
     ''<ambiguity_policy>'' @ nl @
     ''- If legal actions remain but the evidence is genuinely weak or conflicting, prefer `NO_ACTION`.'' @ nl @
     ''- Do not use `CALL_HUMAN` for residue-only observations during a healthy advancing print.'' @ nl @
     ''- If bounded tuning remains legal during a healthy active print, prefer tuning or `NO_ACTION` over `CALL_HUMAN`.'' @ nl @
     ''</ambiguity_policy>'' @ nl @
     nl @
     ''<output_contract>'' @ nl @
     ''- Return only valid PlanIR JSON.'' @ nl @
     ''- Emit exactly one of:'' @ nl @
     ''  - one legal explicit action ID in `sequence`'' @ nl @
     ''  - one legal `tuning_choice`'' @ nl @
     ''  - `NO_ACTION`'' @ nl @
     ''  - `CALL_HUMAN`'' @ nl @
     ''- Never emit IDs outside the non-tuning explicit safety/operator IDs in `decision_signals.allowed_frontier_ids`.'' @ nl @
     ''- Never emit a `tuning_choice` outside `decision_signals.tuning_action_space`.'' @ nl @
     ''</output_contract>''"

definition cacheable_message :: "string \<Rightarrow> string \<Rightarrow> pyval" where
  "cacheable_message role content = PyDict [(''role'', PyStr role), (''content'', PyStr content),
     (''cache_control'', PyDict [(''type'', PyStr ''ephemeral'')])]"

definition rubric_intro :: string where
  "rubric_intro =
     ''Planning rubric and examples. Keep horizons short and one-family-at-a-time. When fresh grounded evidence supports one legal bounded action, take it. If a recent action verified and the same issue persists across fresh later observations, choose one additional legal follow-up action instead of waiting indefinitely. Treat `decision_signals.allowed_frontier_ids` as non-tuning explicit safety/operator actions only; tuning legality comes from `decision_signals.tuning_action_space`. If that tuning space is non-empty, legal bounded tuning remains available even when `decision_signals.allowed_frontier_ids` is empty or only contains pause/cancel.'' @ nl @ nl"

text \<open>The JSON Schema of a plan (\<open>schemas/plan_ir.schema.json\<close>), with its reference written out.\<close>

definition enum_of :: "string list \<Rightarrow> string \<Rightarrow> pyval" where
  "enum_of values title = PyDict [(''enum'', str_list values), (''title'', PyStr title), (''type'', PyStr ''string'')]"

definition tuning_choice_schema :: pyval where
  "tuning_choice_schema = PyDict [(''additionalProperties'', PyBool False),
     (''description'', PyStr ''Compact tuning selector returned by the planner.''),
     (''properties'', PyDict [(''direction'', enum_of [''up'', ''down''] ''Direction''),
        (''family'', enum_of [''speed'', ''flow'', ''nozzle'', ''bed'', ''pressure_advance'', ''accel''] ''Family''),
        (''magnitude'', enum_of [''small'', ''big''] ''Magnitude'')]),
     (''required'', str_list [''family'', ''direction'', ''magnitude'']),
     (''title'', PyStr ''TuningChoice''), (''type'', PyStr ''object'')]"

definition plan_properties :: dict where
  "plan_properties =
     [(''call_human_message'', PyDict [(''anyOf'', PyList [PyDict [(''type'', PyStr ''string'')], PyDict [(''type'', PyStr ''null'')]]),
         (''default'', PyNone), (''title'', PyStr ''Call Human Message'')]),
      (''decision'', enum_of [''NO_ACTION'', ''EXECUTE'', ''CALL_HUMAN''] ''Decision''),
      (''sequence'', PyDict [(''items'', PyDict [(''type'', PyStr ''string'')]), (''title'', PyStr ''Sequence''),
         (''type'', PyStr ''array'')]),
      (''tuning_choice'', PyDict [(''anyOf'', PyList [tuning_choice_schema, PyDict [(''type'', PyStr ''null'')]]),
         (''default'', PyNone)]),
      (''why'', PyDict [(''title'', PyStr ''Why''), (''type'', PyStr ''string'')])]"

definition plan_ir_schema :: dict where
  "plan_ir_schema =
     [(''additionalProperties'', PyBool False),
      (''description'', PyStr (''Canonical planner output contract.'' @ nl @ nl
         @ ''The planner may either choose an explicit non-tuning frontier action ID or a'' @ nl
         @ ''compact tuning choice that deterministic code resolves into one exact legal'' @ nl @ ''action ID.'')),
      (''properties'', PyDict plan_properties),
      (''required'', str_list [''decision'', ''why'']), (''title'', PyStr ''PlanIR''), (''type'', PyStr ''object'')]"

definition transport_plan_schema :: "dict \<Rightarrow> dict" where
  "transport_plan_schema schema = (case pget schema ''properties'' of
      PyDict props \<Rightarrow> dset ''required'' (str_list (sort_key (\<lambda>k. k) (map fst props))) schema
    | _ \<Rightarrow> schema)"

definition build_payload :: "pyrt \<Rightarrow> openrouter_config \<Rightarrow> prompt_package \<Rightarrow> string \<Rightarrow> dict \<Rightarrow> dict" where
  "build_payload rt cfg pkg response_format view =
     (let payload = [(''model'', PyStr (oc_model cfg)), (''stream'', PyBool False), (''temperature'', PyFloat (Fin (1 / 10))),
            (''messages'', PyList [cacheable_message ''system'' (pp_contract_text pkg),
               cacheable_message ''developer'' developer_prompt_text,
               cacheable_message ''user'' (rubric_intro @ pp_rubric_text pkg @ nl @ nl @ pp_examples_text pkg),
               PyDict [(''role'', PyStr ''user''), (''content'', PyStr (json_dumps rt (PyDict view)))]])];
          payload = (if response_format = ''json_schema'' then
             (let p = dset ''response_format'' (PyDict [(''type'', PyStr ''json_schema''),
                 (''json_schema'', PyDict [(''name'', PyStr ''plan_ir''), (''strict'', PyBool True),
                    (''schema'', PyDict (transport_plan_schema plan_ir_schema))])]) payload
              in if oc_response_healing cfg
                 then dset ''plugins'' (PyList [PyDict [(''id'', PyStr ''response-healing'')]]) p else p)
           else if response_format = ''json_object''
             then dset ''response_format'' (PyDict [(''type'', PyStr ''json_object'')]) payload
           else payload)
      in if oc_reasoning_effort cfg \<noteq> []
         then dset ''reasoning'' (PyDict [(''effort'', PyStr (oc_reasoning_effort cfg))]) payload else payload)"

definition prompt_stack_view :: "openrouter_config \<Rightarrow> prompt_package \<Rightarrow> dict" where
  "prompt_stack_view cfg pkg = [(''system_prompt'', PyStr (pp_contract_text pkg)),
     (''developer_prompt'', PyStr developer_prompt_text), (''rubric_text'', PyStr (pp_rubric_text pkg)),
     (''examples_text'', PyStr (pp_examples_text pkg)), (''provider_name'', PyStr ''openrouter''),
     (''model'', PyStr (oc_model cfg))]"

section \<open>The answer\<close>

text \<open>\<open>x[0]\<close> of a truthy value.\<close>

fun py_first :: "pyval \<Rightarrow> pyexc + pyval" where
  "py_first (PyList (x # _)) = Inr x"
| "py_first (PyStr (c # _)) = Inr (PyStr [c])"
| "py_first (PyDict d) = Inl (KeyError ''0'')"
| "py_first (PyList []) = Inl (PyExc ''IndexError'' ''list index out of range'')"
| "py_first (PyStr []) = Inl (PyExc ''IndexError'' ''string index out of range'')"
| "py_first v = Inl (TypeError (str_repr (type_name v) @ '' object is not subscriptable''))"

definition text_part :: "pyval \<Rightarrow> pyexc + pyval list" where
  "text_part item = bindR (as_dict item) (\<lambda>d.
     Inr (if py_eq (pget d ''type'') (PyStr ''text'') then [dget_or d ''text'' (PyStr [])] else []))"

fun joined_text :: "pyval list \<Rightarrow> pyexc + string" where
  "joined_text [] = Inr []"
| "joined_text (PyStr s # xs) = bindR (joined_text xs) (\<lambda>t. Inr (s @ t))"
| "joined_text (x # xs) = Inl (TypeError ''sequence item: expected str instance'')"

definition content_text :: "pyrt \<Rightarrow> pyval \<Rightarrow> pyexc + string" where
  "content_text rt content = (case content of
      PyList items \<Rightarrow> bindR (mapR text_part items) (\<lambda>parts. joined_text (concat parts))
    | v \<Rightarrow> Inr (py_str rt (por v (PyStr []))))"

abbreviation ValidationError :: "string \<Rightarrow> pyexc" where "ValidationError \<equiv> PyExc ''ValidationError''"

text \<open>\<open>PlanIR.model_validate\<close>.\<close>

definition one_of :: "string list \<Rightarrow> pyval \<Rightarrow> pyexc + string" where
  "one_of values v = (case v of PyStr s \<Rightarrow> if s \<in> set values then Inr s else Inl (ValidationError s)
    | _ \<Rightarrow> Inl (ValidationError ''literal''))"

definition str_field :: "pyval \<Rightarrow> pyexc + string" where
  "str_field v = (case v of PyStr s \<Rightarrow> Inr s | _ \<Rightarrow> Inl (ValidationError ''string''))"

definition closed_dict :: "string list \<Rightarrow> pyval \<Rightarrow> pyexc + dict" where
  "closed_dict names v = (case v of
      PyDict d \<Rightarrow> if list_all (\<lambda>(k, _). k \<in> set names) d then Inr d else Inl (ValidationError ''extra'')
    | _ \<Rightarrow> Inl (ValidationError ''model''))"

definition field :: "dict \<Rightarrow> string \<Rightarrow> pyexc + pyval" where
  "field d k = (case map_of d k of None \<Rightarrow> Inl (ValidationError k) | Some v \<Rightarrow> Inr v)"

definition choice_of_json :: "pyval \<Rightarrow> pyexc + tuning_choice option" where
  "choice_of_json v = (if v = PyNone then Inr None else
     bindR (closed_dict [''family'', ''direction'', ''magnitude''] v) (\<lambda>d.
     bindR (bindR (field d ''family'') (one_of [''speed'', ''flow'', ''nozzle'', ''bed'', ''pressure_advance'', ''accel''])) (\<lambda>f.
     bindR (bindR (field d ''direction'') (one_of [''up'', ''down''])) (\<lambda>dir.
     bindR (bindR (field d ''magnitude'') (one_of [''small'', ''big''])) (\<lambda>m.
       Inr (Some \<lparr>tc_family = f, tc_direction = dir, tc_magnitude = m\<rparr>))))))"

definition decision_of :: "string \<Rightarrow> decision" where
  "decision_of s = (if s = ''NO_ACTION'' then NO_ACTION else if s = ''EXECUTE'' then EXECUTE else CALL_HUMAN)"

definition plan_of_json :: "pyval \<Rightarrow> pyexc + plan_ir" where
  "plan_of_json v =
     bindR (closed_dict [''decision'', ''sequence'', ''why'', ''call_human_message'', ''tuning_choice''] v) (\<lambda>d.
     bindR (bindR (field d ''decision'') (one_of [''NO_ACTION'', ''EXECUTE'', ''CALL_HUMAN''])) (\<lambda>dec.
     bindR (case dget_or d ''sequence'' (PyList []) of PyList xs \<Rightarrow> mapR str_field xs | _ \<Rightarrow> Inl (ValidationError ''list'')) (\<lambda>sequence.
     bindR (bindR (field d ''why'') str_field) (\<lambda>why.
     bindR (case dget_or d ''call_human_message'' PyNone of PyNone \<Rightarrow> Inr None | x \<Rightarrow> bindR (str_field x) (\<lambda>s. Inr (Some s))) (\<lambda>message.
     bindR (choice_of_json (dget_or d ''tuning_choice'' PyNone)) (\<lambda>choice.
       mk_plan (decision_of dec) sequence why message choice))))))"

definition parse_response :: "pyrt \<Rightarrow> (pyval \<Rightarrow> bool) \<Rightarrow> pyval \<Rightarrow> pyexc + plan_ir" where
  "parse_response rt valid payload =
     bindR (as_dict payload) (\<lambda>d.
     let choices = por (pget d ''choices'') (PyList []) in
     if \<not> truthy choices then Inl (ValueError ''OpenRouter returned no choices'')
     else bindR (bindR (py_first choices) as_dict) (\<lambda>choice.
       bindR (as_dict (por (pget choice ''message'') (PyDict []))) (\<lambda>message.
       bindR (content_text rt (pget message ''content'')) (\<lambda>text.
         case json_loads rt text of
           None \<Rightarrow> Inl (PyExc ''JSONDecodeError'' text)
         | Some plan_json \<Rightarrow>
             if \<not> valid plan_json then Inl (ValidationError ''schema'') else plan_of_json plan_json))))"

section \<open>Deterministic corrections\<close>

definition fact_text :: "pyrt \<Rightarrow> world_packet \<Rightarrow> string \<Rightarrow> string" where
  "fact_text rt world k = text_of rt (pget (wp_facts world) k)"

definition health_fault :: "pyrt \<Rightarrow> world_packet \<Rightarrow> bool" where
  "health_fault rt world \<longleftrightarrow>
     str_upper (fact_text rt world ''printer_1.health'') \<in> {''ATTENTION'', ''ERROR'', ''OFFLINE''}"

definition printing :: "pyrt \<Rightarrow> world_packet \<Rightarrow> bool" where
  "printing rt world \<longleftrightarrow> str_upper (fact_text rt world ''printer_1.lifecycle'') = ''PRINTING''"

definition active_phase :: "pyrt \<Rightarrow> world_packet \<Rightarrow> bool" where
  "active_phase rt world \<longleftrightarrow> str_lower (fact_text rt world ''printer_1.printing_phase'') = ''active_printing''"

text \<open>\<open>world.prompt_view().get("decision_signals", {}).get(name, {})\<close>.\<close>

definition signal :: "'p env \<Rightarrow> world_packet \<Rightarrow> string \<Rightarrow> ('p sys, pyval) act" where
  "signal env world name =
     bindE (prompt_view_now env world) (\<lambda>view.
     bindE (liftE (as_dict (dget_or view ''decision_signals'' (PyDict [])))) (\<lambda>signals.
       ret (dget_or signals name (PyDict []))))"

definition tuning_exists :: "'p env \<Rightarrow> world_packet \<Rightarrow> ('p sys, bool) act" where
  "tuning_exists env world = bindE (signal env world ''tuning_action_space'') (\<lambda>space.
     ret (case space of PyDict d \<Rightarrow> d \<noteq> [] | _ \<Rightarrow> False))"

definition should_suppress_active_print_pause :: "'p env \<Rightarrow> plan_ir \<Rightarrow> world_packet \<Rightarrow> ('p sys, bool) act" where
  "should_suppress_active_print_pause env plan world =
     (if pi_decision plan \<noteq> EXECUTE \<or> pi_sequence plan \<noteq> [''A_PRUSA_PAUSE''] then ret False
      else if \<not> printing (e_rt env) world \<or> \<not> active_phase (e_rt env) world then ret False
      else if health_fault (e_rt env) world then ret False
      else tuning_exists env world)"

definition frontier_is_pause_cancel_only :: "world_packet \<Rightarrow> bool" where
  "frontier_is_pause_cancel_only world = list_all (\<lambda>a.
     str_upper (str_strip (la_verb a)) = ''PAUSE'' \<or> str_upper (str_strip (la_verb a)) = ''CANCEL''
     \<or> contains ''PAUSE'' (str_upper (str_strip (la_action_id a)))
     \<or> contains ''CANCEL'' (str_upper (str_strip (la_action_id a)))) (wp_frontier world)"

text \<open>The blockers of all families; each is a string in every prompt view.\<close>

definition startup_blocker :: "pyval \<Rightarrow> bool" where
  "startup_blocker v = (case v of
      PyStr b \<Rightarrow> contains ''progress_not_ready'' b \<or> starts_with ''startup_'' b \<or> b = ''startup_printing''
    | _ \<Rightarrow> False)"

definition should_suppress_startup_call_human :: "'p env \<Rightarrow> plan_ir \<Rightarrow> world_packet \<Rightarrow> ('p sys, bool) act" where
  "should_suppress_startup_call_human env plan world =
     (if pi_decision plan \<noteq> CALL_HUMAN then ret False
      else if wp_frontier world = [] \<or> \<not> frontier_is_pause_cancel_only world then ret False
      else if \<not> printing (e_rt env) world \<or> \<not> truthy (pget (wp_facts world) ''printer_1.job_active'') then ret False
      else if health_fault (e_rt env) world then ret False
      else bindE (signal env world ''family_blockers'') (\<lambda>blockers.
        bindE (liftE (as_dict blockers)) (\<lambda>families.
        bindE (liftE (mapR (\<lambda>(_, bs). py_iter bs) families)) (\<lambda>startup_blockers.
          ret (list_ex startup_blocker (concat startup_blockers)
            \<or> (case float_or_none (e_rt env) (pget (wp_facts world) ''printer_1.job_progress_pct'') of
                 None \<Rightarrow> True | Some progress \<Rightarrow> float_le progress (Fin 2)))))))"

definition impact_terms :: "string list" where
  "impact_terms = [''blob'', ''drag'', ''contact'', ''string'', ''spaghetti'', ''adhesion'', ''failed'', ''detached'']"

definition should_suppress_residue_only_call_human :: "'p env \<Rightarrow> plan_ir \<Rightarrow> world_packet \<Rightarrow> ('p sys, bool) act" where
  "should_suppress_residue_only_call_human env plan world =
     (if pi_decision plan \<noteq> CALL_HUMAN then ret False
      else if \<not> printing (e_rt env) world \<or> health_fault (e_rt env) world \<or> \<not> active_phase (e_rt env) world then ret False
      else bindE (signal env world ''vision_signal'') (\<lambda>sig. case sig of
          PyDict d \<Rightarrow>
            if \<not> truthy (pget d ''usable'') then ret False
            else bindE (liftE (py_iter (por (pget d ''finding_types'') (PyList [])))) (\<lambda>items.
              if set (map (py_str (e_rt env)) items) \<noteq> {''residue''} then ret False
              else ret (\<not> list_ex (\<lambda>term. contains term
                (str_lower (py_str (e_rt env) (por (pget d ''summary'') (PyStr []))))) impact_terms))
        | _ \<Rightarrow> ret False))"

definition healthy_active_print_with_tuning :: "'p env \<Rightarrow> world_packet \<Rightarrow> ('p sys, bool) act" where
  "healthy_active_print_with_tuning env world =
     (if \<not> printing (e_rt env) world \<or> \<not> active_phase (e_rt env) world then ret False
      else if health_fault (e_rt env) world then ret False
      else tuning_exists env world)"

definition severe_findings :: "string list" where
  "severe_findings = [''spaghetti'', ''adhesion_failure'', ''detached_part'', ''collision'', ''obstruction'', ''jam'']"

definition severe_terms :: "string list" where
  "severe_terms = [''contact'', ''collision'', ''detached'', ''failed'', ''failure'', ''obstruction'', ''jam'', ''spaghetti'',
     ''adhesion failure'', ''recovery'']"

definition has_real_fault_or_operator_condition :: "'p env \<Rightarrow> world_packet \<Rightarrow> ('p sys, bool) act" where
  "has_real_fault_or_operator_condition env world =
     (if health_fault (e_rt env) world then ret True
      else if wp_pending_human world \<noteq> [] then ret True
      else bindE (signal env world ''vision_signal'') (\<lambda>sig. case sig of
          PyDict d \<Rightarrow> bindE (liftE (py_iter (por (pget d ''finding_types'') (PyList [])))) (\<lambda>items.
            if \<exists>i\<in>set items. str_lower (str_strip (py_str (e_rt env) i)) \<in> set severe_findings then ret True
            else ret (list_ex (\<lambda>term. contains term
              (str_lower (py_str (e_rt env) (por (pget d ''summary'') (PyStr []))))) severe_terms))
        | _ \<Rightarrow> ret False))"

definition should_suppress_call_human_when_tuning_exists :: "'p env \<Rightarrow> plan_ir \<Rightarrow> world_packet \<Rightarrow> ('p sys, bool) act" where
  "should_suppress_call_human_when_tuning_exists env plan world =
     (if pi_decision plan \<noteq> CALL_HUMAN then ret False
      else bindE (healthy_active_print_with_tuning env world) (\<lambda>healthy.
        if \<not> healthy then ret False
        else bindE (has_real_fault_or_operator_condition env world) (\<lambda>fault. ret (\<not> fault))))"

text \<open>
  The helpers that read an action id are not imported by \<open>planner.py\<close>: the first frontier action that the
  comprehension looks at raises \<open>NameError\<close>.
\<close>

definition tuning_choice_resolves_cleanly :: "plan_ir \<Rightarrow> world_packet \<Rightarrow> pyexc + bool" where
  "tuning_choice_resolves_cleanly plan world =
     (if pi_decision plan \<noteq> EXECUTE \<or> pi_tuning_choice plan = None then Inr False
      else if wp_frontier world \<noteq> []
        then Inl (PyExc ''NameError'' (''name '' @ str_repr ''_action_family_from_id'' @ '' is not defined''))
      else Inr False)"

definition normalize_malformed_execute_plan :: "plan_ir \<Rightarrow> world_packet \<Rightarrow> pyexc + plan_ir" where
  "normalize_malformed_execute_plan plan world =
     (if pi_decision plan \<noteq> EXECUTE \<or> pi_sequence plan = [] \<or> pi_tuning_choice plan = None then Inr plan
      else bindR (tuning_choice_resolves_cleanly plan world) (\<lambda>clean.
        Inr (if clean then \<lparr>pi_decision = EXECUTE, pi_sequence = [], pi_why = pi_why plan, pi_call_human_message = None,
               pi_tuning_choice = pi_tuning_choice plan\<rparr>
             else no_action_plan ''Malformed planner output contained both an explicit sequence and a tuning choice without one clean legal tuning resolution. Skip this cycle.'')))"

text \<open>The corrections, tried in this order.\<close>

fun first_suppression :: "(('s, bool) act \<times> string) list \<Rightarrow> plan_ir \<Rightarrow> ('s, plan_ir) act" where
  "first_suppression [] plan = ret plan"
| "first_suppression ((suppress, why) # rest) plan =
     bindE suppress (\<lambda>yes. if yes then ret (no_action_plan why) else first_suppression rest plan)"

definition suppressions :: "'p env \<Rightarrow> plan_ir \<Rightarrow> world_packet \<Rightarrow> (('p sys, bool) act \<times> string) list" where
  "suppressions env plan world =
     [(should_suppress_startup_call_human env plan world,
         ''Healthy print startup still has bounded tuning gated off, so wait instead of escalating while only pause or cancel are legal.''),
      (should_suppress_active_print_pause env plan world,
         ''Healthy active printing still has bounded tuning available, so do not pause solely on a residue observation. Wait for a legal bounded tuning move or stronger recovery evidence.''),
      (should_suppress_residue_only_call_human env plan world,
         ''Healthy active print has only a residue observation without evidence that it is affecting the print, so ignore it instead of calling a human.''),
      (should_suppress_call_human_when_tuning_exists env plan world,
         ''Healthy active print still has bounded tuning available, so do not call a human while legal tuning choices remain and no real fault or operator condition is present.'')]"

definition normalize_plan :: "'p env \<Rightarrow> plan_ir \<Rightarrow> world_packet \<Rightarrow> ('p sys, plan_ir) act" where
  "normalize_plan env plan world =
     bindE (liftE (normalize_malformed_execute_plan plan world)) (\<lambda>plan.
       first_suppression (suppressions env plan world) plan)"

section \<open>The OpenRouter planner\<close>

text \<open>What the transport returns; the text is the decoded body.\<close>

datatype http_reply =
    Reply string dict
  | HttpError string dict pyexc
  | UrlError pyexc

record planner_state =
  pl_request :: "dict option"
  pl_response :: "pyval option"
  pl_metadata :: "dict option"

definition on_sys :: "('s, 'a) act \<Rightarrow> ('s \<times> 'q, 'a) act" where
  "on_sys m s = (case m (fst s) of (r, s') \<Rightarrow> (r, s', snd s))"

definition set_planner :: "('q \<Rightarrow> 'q) \<Rightarrow> ('s \<times> 'q, unit) act" where
  "set_planner f = modify (\<lambda>(s, q). (s, f q))"

definition decode_error_payload :: "pyrt \<Rightarrow> string \<Rightarrow> pyexc \<Rightarrow> pyval" where
  "decode_error_payload rt text exc =
     (let fallback = PyDict [(''error'', PyDict [(''message'', PyStr (if text = [] then exc_str exc else text))])]
      in case json_loads rt text of Some (PyDict d) \<Rightarrow> PyDict d | _ \<Rightarrow> fallback)"

text \<open>One record of metadata; latency in milliseconds since the request started.\<close>

definition record_metadata ::
    "'p env \<Rightarrow> openrouter_config \<Rightarrow> pyval \<Rightarrow> int \<Rightarrow> int option \<Rightarrow> bool \<Rightarrow> dict \<Rightarrow> ('p sys \<times> planner_state, unit) act" where
  "record_metadata env cfg payload started size_bytes valid headers =
     bindE (on_sys (wall_ms env)) (\<lambda>received.
     bindE (liftE (normalize_openrouter_metadata (e_rt env) payload (oc_model cfg)
         (Some (round_half_even (e_rt env) 1 (Fin (of_int (received - started))))) size_bytes 0 valid
         (ms_to_iso (e_rt env) started) (ms_to_iso (e_rt env) received) headers)) (\<lambda>metadata.
       set_planner (\<lambda>q. q\<lparr>pl_metadata := Some metadata\<rparr>)))"

definition openrouter_plan ::
    "'p env \<Rightarrow> openrouter_config \<Rightarrow> prompt_package \<Rightarrow> (pyval \<Rightarrow> bool) \<Rightarrow> (dict \<Rightarrow> http_reply) \<Rightarrow> world_packet
      \<Rightarrow> ('p sys \<times> planner_state, plan_ir) act" where
  "openrouter_plan env cfg pkg valid http world =
     bindE (on_sys (prompt_view_now env world)) (\<lambda>view.
     let payload = build_payload (e_rt env) cfg pkg ''json_schema'' view in
     bindE (on_sys (wall_ms env)) (\<lambda>started.
     bindE (set_planner (\<lambda>_. \<lparr>pl_request = Some payload, pl_response = None, pl_metadata = None\<rparr>)) (\<lambda>_.
     case http payload of
       UrlError e \<Rightarrow> bindE (record_metadata env cfg PyNone started None False []) (\<lambda>_. raise e)
     | HttpError body headers e \<Rightarrow>
         (let data = decode_error_payload (e_rt env) body e in
          bindE (set_planner (\<lambda>q. q\<lparr>pl_response := Some data\<rparr>)) (\<lambda>_.
          bindE (record_metadata env cfg data started (Some (int (length body))) False headers) (\<lambda>_. raise e)))
     | Reply body headers \<Rightarrow> (case json_loads (e_rt env) body of
           None \<Rightarrow> raise (PyExc ''JSONDecodeError'' body)
         | Some data \<Rightarrow>
             bindE (set_planner (\<lambda>q. q\<lparr>pl_response := Some data\<rparr>)) (\<lambda>_.
             bindE (try_except
                 (bindE (liftE (parse_response (e_rt env) valid data)) (\<lambda>plan. on_sys (normalize_plan env plan world)))
                 (\<lambda>e. bindE (record_metadata env cfg data started (Some (int (length body))) False headers) (\<lambda>_. raise e))) (\<lambda>plan.
             bindE (record_metadata env cfg data started (Some (int (length body))) True headers) (\<lambda>_.
               ret plan)))))))"

section \<open>What planning leaves alone\<close>

context sys_frame
begin

lemma signal_keeps [preserves_intros]: "preserves P (signal env world name)"
  unfolding signal_def by (intro preserves_intros)

lemma tuning_exists_keeps [preserves_intros]: "preserves P (tuning_exists env world)"
  unfolding tuning_exists_def by (intro preserves_intros)

lemma suppress_keeps [preserves_intros]:
  "preserves P (should_suppress_active_print_pause env plan world)"
  "preserves P (should_suppress_startup_call_human env plan world)"
  "preserves P (should_suppress_residue_only_call_human env plan world)"
  "preserves P (healthy_active_print_with_tuning env world)"
  "preserves P (has_real_fault_or_operator_condition env world)"
  unfolding should_suppress_active_print_pause_def should_suppress_startup_call_human_def
    should_suppress_residue_only_call_human_def healthy_active_print_with_tuning_def
    has_real_fault_or_operator_condition_def
  by (auto intro!: preserves_intros split: pyval.split)

lemma suppress_tuning_keeps [preserves_intros]: "preserves P (should_suppress_call_human_when_tuning_exists env plan world)"
  unfolding should_suppress_call_human_when_tuning_exists_def by (intro preserves_intros)

lemma normalize_plan_keeps [preserves_intros]: "preserves P (normalize_plan env plan world)"
  unfolding normalize_plan_def suppressions_def by (auto intro!: preserves_intros)

lemma on_sys_keeps [preserves_intros]: "preserves P m \<Longrightarrow> preserves (\<lambda>s. P (fst s)) (on_sys m)"
  by (simp add: preserves_def on_sys_def case_prod_unfold)

lemma set_planner_keeps [preserves_intros]: "preserves (\<lambda>s. P (fst s)) (set_planner f)"
  by (simp add: preserves_def set_planner_def act_simps case_prod_unfold)

lemma record_metadata_keeps [preserves_intros]:
  "preserves (\<lambda>s. P (fst s)) (record_metadata env cfg payload started size_bytes valid headers)"
  unfolding record_metadata_def by (intro preserves_intros)

lemma openrouter_plan_keeps: "preserves (\<lambda>s. P (fst s)) (openrouter_plan env cfg pkg valid http world)"
  unfolding openrouter_plan_def Let_def by (auto intro!: preserves_intros split: http_reply.split)

end

section \<open>The contract of a plan\<close>

definition choice_ok :: "tuning_choice option \<Rightarrow> bool" where
  "choice_ok c = (case c of None \<Rightarrow> True
     | Some c \<Rightarrow> tc_family c \<in> {''speed'', ''flow'', ''nozzle'', ''bed'', ''pressure_advance'', ''accel''}
         \<and> tc_direction c \<in> {''up'', ''down''} \<and> tc_magnitude c \<in> {''small'', ''big''})"

lemma str_fields: "mapR str_field (map PyStr xs) = Inr xs"
  by (induction xs) (simp_all add: str_field_def)

lemma choice_roundtrip: "choice_ok c \<Longrightarrow> choice_of_json (choice_dump c) = Inr c"
  by (cases c) (auto simp: choice_ok_def choice_of_json_def choice_dump_def closed_dict_def field_def one_of_def)

lemma decision_roundtrip: "decision_of (decision_value d) = d"
  by (cases d) (simp_all add: decision_of_def)

lemma mk_plan_same: "plan_ok p \<Longrightarrow>
    mk_plan (pi_decision p) (pi_sequence p) (pi_why p) (pi_call_human_message p) (pi_tuning_choice p) = Inr p"
  by (simp add: mk_plan_def plan_ok_def validate_sequence_iff [THEN iffD2])

lemma choice_schema: "choice_ok c \<Longrightarrow>
    schema_ok (PyDict [(''anyOf'', PyList [tuning_choice_schema, PyDict [(''type'', PyStr ''null'')]]), (''default'', PyNone)])
      (choice_dump c)"
  by (cases c) (auto simp: choice_ok_def choice_dump_def tuning_choice_schema_def enum_of_def schema_ok.simps keyword_ok_def
      declares_def str_list_def)

text \<open>
  C37: the plan contract: the JSON form of every well-formed plan satisfies the JSON Schema given to the
  provider, and reading it back gives the same plan.
\<close>

theorem plan_json_roundtrip:
  assumes "plan_ok p" and "choice_ok (pi_tuning_choice p)"
  shows "schema_ok (PyDict plan_ir_schema) (PyDict (plan_dump p)) \<and> plan_of_json (PyDict (plan_dump p)) = Inr p"
proof
  show "plan_of_json (PyDict (plan_dump p)) = Inr p"
    using choice_roundtrip [OF assms(2)] mk_plan_same [OF assms(1)]
    by (cases "pi_decision p"; cases "pi_call_human_message p")
      (simp_all add: plan_of_json_def plan_dump_def closed_dict_def field_def one_of_def str_list_def str_fields decision_of_def
        str_field_def)
  show "schema_ok (PyDict plan_ir_schema) (PyDict (plan_dump p))"
    using choice_schema [OF assms(2)]
    by (cases "pi_decision p"; cases "pi_call_human_message p")
      (simp_all add: plan_ir_schema_def plan_properties_def plan_dump_def enum_of_def schema_ok.simps keyword_ok_def
      declares_def str_list_def list.pred_map comp_def list_all_trivial)
qed

definition tuning_plan :: plan_ir where
  "tuning_plan = \<lparr>pi_decision = EXECUTE, pi_sequence = [], pi_why = ''stringing'', pi_call_human_message = None,
     pi_tuning_choice = Some \<lparr>tc_family = ''nozzle'', tc_direction = ''down'', tc_magnitude = ''small''\<rparr>\<rparr>"

theorem plan_json_roundtrip_witness:
  "plan_of_json (PyDict (plan_dump tuning_plan)) = Inr tuning_plan"
proof -
  have "plan_ok tuning_plan" "choice_ok (pi_tuning_choice tuning_plan)"
    by (simp_all add: plan_ok_def choice_ok_def tuning_plan_def)
  from plan_json_roundtrip [OF this] show ?thesis ..
qed

text \<open>What a plan read from the provider can contain, whatever the provider sent.\<close>

lemma one_of_Inr: "one_of values v = Inr s \<Longrightarrow> s \<in> set values"
  by (auto simp: one_of_def split: pyval.splits if_splits)

lemma choice_of_json_ok: "choice_of_json v = Inr c \<Longrightarrow> choice_ok c"
  by (auto simp: choice_of_json_def choice_ok_def bindR_eq_Inr dest!: one_of_Inr split: if_splits)

lemma plan_of_json_ok:
  assumes "plan_of_json v = Inr p"
  shows "plan_ok p \<and> choice_ok (pi_tuning_choice p)"
proof -
  obtain dec sequence why message choice where "choice_ok choice"
    and mk: "mk_plan dec sequence why message choice = Inr p"
    using assms unfolding plan_of_json_def bindR_eq_Inr by (blast dest: choice_of_json_ok)
  moreover have "pi_tuning_choice p = choice" using mk by (auto simp: mk_plan_def bindR_eq_Inr)
  ultimately show ?thesis using mk_plan_ok [OF mk] by simp
qed

lemma parse_response_ok: "parse_response rt valid payload = Inr p \<Longrightarrow> plan_ok p \<and> choice_ok (pi_tuning_choice p)"
  by (auto simp: parse_response_def bindR_eq_Inr Let_def dest: plan_of_json_ok split: if_splits option.splits)

lemma first_suppression_cases:
  "returns (\<lambda>p. p = plan \<or> (\<exists>why. p = no_action_plan why)) (first_suppression ss plan)"
proof (induction ss)
  case (Cons x ss)
  then show ?case by (cases x) (auto intro!: returns_intros)
qed (auto intro: returns_intros)

lemma normalize_malformed_cases:
  assumes "normalize_malformed_execute_plan plan world = Inr p"
  shows "p = plan \<and> (pi_decision plan \<noteq> EXECUTE \<or> pi_sequence plan = [] \<or> pi_tuning_choice plan = None)
    \<or> (\<exists>why. p = no_action_plan why)"
  using assms by (auto simp: normalize_malformed_execute_plan_def tuning_choice_resolves_cleanly_def bindR_eq_Inr split: if_splits)

lemma normalize_plan_cases:
  "returns (\<lambda>p. p = plan \<and> (pi_decision plan \<noteq> EXECUTE \<or> pi_sequence plan = [] \<or> pi_tuning_choice plan = None)
     \<or> (\<exists>why. p = no_action_plan why)) (normalize_plan env plan world)"
proof -
  have "returns (\<lambda>q. q = p \<or> (\<exists>why. q = no_action_plan why)) (first_suppression (suppressions env p world) p)" for p
    by (rule first_suppression_cases)
  then show ?thesis
    unfolding normalize_plan_def returns_def
    by (auto elim!: bindE_eq_InrD simp: act_simps dest!: normalize_malformed_cases) blast+
qed

text \<open>
  the corrections are conservative: an accepted answer is executed as the provider gave it or not at
  all (it becomes \<open>NO_ACTION\<close>), never both an explicit sequence and a tuning choice; and a call for a human
  is passed on untouched whenever the printer's health is \<open>ATTENTION\<close>, \<open>ERROR\<close> or \<open>OFFLINE\<close>.
\<close>

theorem corrections_are_conservative:
  "(case normalize_plan env plan world s of
      (Inr p, s') \<Rightarrow> (p = plan \<or> (\<exists>why. p = no_action_plan why))
        \<and> (pi_decision p \<noteq> EXECUTE \<or> pi_sequence p = [] \<or> pi_tuning_choice p = None)
    | (Inl e, s') \<Rightarrow> True)
   \<and> (pi_decision plan = CALL_HUMAN \<and> health_fault (e_rt env) world \<longrightarrow> normalize_plan env plan world s = (Inr plan, s))"
proof
  show "case normalize_plan env plan world s of
      (Inr p, s') \<Rightarrow> (p = plan \<or> (\<exists>why. p = no_action_plan why))
        \<and> (pi_decision p \<noteq> EXECUTE \<or> pi_sequence p = [] \<or> pi_tuning_choice p = None)
    | (Inl e, s') \<Rightarrow> True"
  proof (cases "normalize_plan env plan world s")
    case (Pair r s')
    show ?thesis
    proof (cases r)
      case (Inr p)
      then have "p = plan \<and> (pi_decision plan \<noteq> EXECUTE \<or> pi_sequence plan = [] \<or> pi_tuning_choice plan = None)
          \<or> (\<exists>why. p = no_action_plan why)"
        using normalize_plan_cases [of plan env world, unfolded returns_def, rule_format, of s p s'] Pair by simp
      then show ?thesis using Pair Inr by (auto simp: no_action_plan_def)
    qed (simp add: Pair)
  qed
  show "pi_decision plan = CALL_HUMAN \<and> health_fault (e_rt env) world \<longrightarrow> normalize_plan env plan world s = (Inr plan, s)"
    by (simp add: normalize_plan_def normalize_malformed_execute_plan_def suppressions_def bindE_def act_simps
        should_suppress_startup_call_human_def should_suppress_active_print_pause_def
        should_suppress_residue_only_call_human_def should_suppress_call_human_when_tuning_exists_def
        healthy_active_print_with_tuning_def)
qed

definition escalation_plan :: plan_ir where
  "escalation_plan = \<lparr>pi_decision = CALL_HUMAN, pi_sequence = [], pi_why = ''fault'', pi_call_human_message = None,
     pi_tuning_choice = None\<rparr>"

theorem corrections_are_conservative_witness:
  "fst (normalize_plan sample_env escalation_plan (sample_world\<lparr>wp_facts := [(''printer_1.health'', PyStr ''error'')]\<rparr>) sample_sys)
     = Inr escalation_plan"
proof -
  have "health_fault (e_rt sample_env) (sample_world\<lparr>wp_facts := [(''printer_1.health'', PyStr ''error'')]\<rparr>)"
    "pi_decision escalation_plan = CALL_HUMAN"
    by code_simp+
  with corrections_are_conservative [where env = sample_env and plan = escalation_plan and s = sample_sys
      and world = "sample_world\<lparr>wp_facts := [(''printer_1.health'', PyStr ''error'')]\<rparr>"]
  show ?thesis by simp
qed

text \<open>
  the resolution of a redundant answer never happens: for an \<open>EXECUTE\<close> answer with both a sequence and
  a tuning choice the code asks helpers that the module does not import, so on any non-empty frontier the
  planner raises \<open>NameError\<close>, where the engine alone would resolve the choice or decline the plan.
\<close>

theorem redundant_answer_raises:
  assumes "pi_decision plan = EXECUTE" and "pi_sequence plan \<noteq> []" and "pi_tuning_choice plan = Some c"
    and "wp_frontier world \<noteq> []"
  shows "(\<exists>m. normalize_plan env plan world s = (Inl (PyExc ''NameError'' m), s))
    \<and> (\<exists>p. materialize_plan world plan = Inr p)"
  using assms
  by (auto simp: normalize_plan_def normalize_malformed_execute_plan_def tuning_choice_resolves_cleanly_def bindE_def act_simps
      materialize_plan_def split: list.split)

theorem redundant_answer_raises_witness:
  "\<exists>m. fst (normalize_plan sample_env (tuning_plan\<lparr>pi_sequence := [''SIM-A001'']\<rparr>) sample_world sample_sys) = Inl (PyExc ''NameError'' m)"
proof -
  have "pi_decision (tuning_plan\<lparr>pi_sequence := [''SIM-A001'']\<rparr>) = EXECUTE" "pi_sequence (tuning_plan\<lparr>pi_sequence := [''SIM-A001'']\<rparr>) \<noteq> []"
    "pi_tuning_choice (tuning_plan\<lparr>pi_sequence := [''SIM-A001'']\<rparr>) = Some \<lparr>tc_family = ''nozzle'', tc_direction = ''down'', tc_magnitude = ''small''\<rparr>"
    "wp_frontier sample_world \<noteq> []"
    by (simp_all add: tuning_plan_def sample_world_def)
  from redundant_answer_raises [OF this, where env = sample_env and s = sample_sys] show ?thesis by auto
qed

lemma frontier_map_mem:
  "a \<in> set frontier \<Longrightarrow> \<exists>b. frontier_map frontier (la_action_id a) = Some b \<and> la_action_id b = la_action_id a"
proof -
  assume "a \<in> set frontier"
  then have "la_action_id a \<in> fst ` set (rev (map (\<lambda>a. (la_action_id a, a)) frontier))" by force
  then obtain b where "frontier_map frontier (la_action_id a) = Some b"
    unfolding frontier_map_def by (metis map_of_eq_None_iff not_None_eq)
  with frontier_map_Some [OF this] show ?thesis by blast
qed

lemma filter_hd: "filter P xs = y # ys \<Longrightarrow> y \<in> set xs \<and> P y"
proof -
  assume "filter P xs = y # ys"
  then have "y \<in> set (filter P xs)" by simp
  then show ?thesis by simp
qed

lemma validate_single:
  assumes "a \<in> set (wp_frontier world)"
    and "plan = \<lparr>pi_decision = EXECUTE, pi_sequence = [la_action_id a], pi_why = why, pi_call_human_message = None, pi_tuning_choice = None\<rparr>"
  shows "\<exists>b. validate_plan world plan = Inr [b] \<and> la_action_id b = la_action_id a"
  using frontier_map_mem [OF assms(1)] assms(2)
  by (auto simp: validate_plan_def materialize_plan_def)

text \<open>
  the fallback planner always gives a plan the engine accepts: it selects at most one frontier action,
  selects none only when the frontier is empty or only escalation is left, and prefers to wait when waiting
  is legal.
\<close>

theorem heuristic_plan_valid:
  "\<exists>actions. validate_plan world (heuristic_plan world) = Inr actions \<and> length actions \<le> 1
     \<and> map la_action_id actions = pi_sequence (heuristic_plan world) \<and> plan_ok (heuristic_plan world)
     \<and> (actions = [] \<longleftrightarrow> (\<forall>a\<in>set (wp_frontier world). la_verb a = ''CALL_HUMAN''))
     \<and> (\<forall>w\<in>set (wp_frontier world). la_verb w = ''WAIT_UNTIL'' \<longrightarrow>
          (\<exists>x\<in>set (wp_frontier world). la_verb x = ''WAIT_UNTIL'' \<and> pi_sequence (heuristic_plan world) = [la_action_id x]))"
proof (cases "wp_frontier world")
  case Nil
  then show ?thesis
    by (simp add: heuristic_plan_def no_action_plan_def validate_plan_def materialize_plan_def plan_ok_def)
next
  case (Cons first rest)
  show ?thesis
  proof (cases "filter (\<lambda>a. la_verb a = ''WAIT_UNTIL'') (wp_frontier world)")
    case w: (Cons w ws)
    note m = filter_hd [OF w]
    have h: "heuristic_plan world = \<lparr>pi_decision = EXECUTE, pi_sequence = [la_action_id w],
        pi_why = ''A blocker is expected to clear without hardware intervention'', pi_call_human_message = None, pi_tuning_choice = None\<rparr>"
      unfolding heuristic_plan_def w by (simp add: Cons)
    then obtain b where "validate_plan world (heuristic_plan world) = Inr [b]" "la_action_id b = la_action_id w"
      using m validate_single by blast
    moreover have "pi_sequence (heuristic_plan world) = [la_action_id w]" using h by simp
    moreover have "plan_ok (heuristic_plan world)" using h by (simp add: plan_ok_def)
    ultimately show ?thesis using m by (intro exI [of _ "[b]"]) (auto intro: bexI [of _ w])
  next
    case nw: Nil
    show ?thesis
    proof (cases "filter (\<lambda>a. la_verb a \<noteq> ''CALL_HUMAN'') (wp_frontier world)")
      case a: (Cons a as)
      note m = filter_hd [OF a]
      have "heuristic_plan world = \<lparr>pi_decision = EXECUTE, pi_sequence = [la_action_id a],
          pi_why = ''Selected lowest-rank legal action '' @ la_verb a, pi_call_human_message = None, pi_tuning_choice = None\<rparr>"
        unfolding heuristic_plan_def nw a by (simp add: Cons)
      moreover obtain b where "validate_plan world (heuristic_plan world) = Inr [b]" "la_action_id b = la_action_id a"
        using m validate_single calculation by blast
      ultimately show ?thesis
        using m nw by (intro exI [of _ "[b]"]) (auto simp: plan_ok_def filter_empty_conv)
    next
      case Nil
      have "heuristic_plan world = \<lparr>pi_decision = CALL_HUMAN, pi_sequence = [], pi_why = ''Only escalation remains legal'',
            pi_call_human_message = Some (la_description first), pi_tuning_choice = None\<rparr>"
        unfolding heuristic_plan_def nw Nil by (simp add: Cons)
      then show ?thesis
        using nw Nil by (intro exI [of _ "[]"]) (auto simp: validate_plan_def materialize_plan_def plan_ok_def filter_empty_conv)
    qed
  qed
qed

theorem heuristic_plan_valid_witness:
  "\<exists>actions. validate_plan sample_world (heuristic_plan sample_world) = Inr actions \<and> length actions \<le> 1 \<and> actions \<noteq> []"
proof -
  have "\<not> (\<forall>a\<in>set (wp_frontier sample_world). la_verb a = ''CALL_HUMAN'')"
    by (simp add: sample_world_def sample_action_def)
  with heuristic_plan_valid [of sample_world] show ?thesis by blast
qed

end
