(* ===== verification/MainLoop.thy ===== *)
theory MainLoop
  imports Planner
begin

text \<open>
  The runtime loop (\<open>wallee_v6/wallee_v6/main.py\<close>): planning with retries, the gates before planning and
  before execution, the derived payloads of the artifacts, one cycle and the loop.

  The state of the loop (\<open>main_state\<close>) holds the planner's record, the loop's local variables and the
  written runtime states and cycle artifacts; the timestamps of \<open>cycle_timing\<close>, printing, sleeping and the
  copying of files are not modelled.
\<close>

section \<open>Reading a world\<close>

definition signal_of :: "'p env \<Rightarrow> world_packet \<Rightarrow> string \<Rightarrow> ('p sys, pyval) act" where
  "signal_of env world name = bindE (prompt_view_now env world) (\<lambda>view.
     ret (case pget view ''decision_signals'' of PyDict signals \<Rightarrow> pget signals name | _ \<Rightarrow> PyNone))"

definition world_allowed_frontier_ids :: "world_packet \<Rightarrow> string list" where
  "world_allowed_frontier_ids world = map la_action_id (wp_frontier world)"

definition ids_or :: "pyrt \<Rightarrow> pyval \<Rightarrow> string list \<Rightarrow> string list" where
  "ids_or rt v fallback = (case v of PyList xs \<Rightarrow> map (py_str rt) xs | _ \<Rightarrow> fallback)"

definition verb_tunes :: "legal_action \<Rightarrow> bool" where
  "verb_tunes a \<longleftrightarrow> starts_with ''TUNE_'' (la_verb a)"

definition world_explicit_frontier_ids :: "'p env \<Rightarrow> world_packet \<Rightarrow> ('p sys, string list) act" where
  "world_explicit_frontier_ids env world = bindE (signal_of env world ''allowed_frontier_ids'') (\<lambda>v.
     ret (ids_or (e_rt env) v (map la_action_id (filter (\<lambda>a. \<not> verb_tunes a) (wp_frontier world)))))"

definition world_prompt_allowed_frontier_ids :: "'p env \<Rightarrow> world_packet \<Rightarrow> ('p sys, string list) act" where
  "world_prompt_allowed_frontier_ids env world = bindE (signal_of env world ''allowed_frontier_ids'') (\<lambda>v.
     ret (ids_or (e_rt env) v (world_allowed_frontier_ids world)))"

definition world_tuning_frontier_ids :: "world_packet \<Rightarrow> string list" where
  "world_tuning_frontier_ids world = map la_action_id (filter verb_tunes (wp_frontier world))"

definition world_tuning_action_space :: "'p env \<Rightarrow> world_packet \<Rightarrow> ('p sys, dict) act" where
  "world_tuning_action_space env world = bindE (signal_of env world ''tuning_action_space'') (\<lambda>v.
     ret (case v of PyDict d \<Rightarrow> d | _ \<Rightarrow> []))"

definition artifact_action_family :: "string \<Rightarrow> string option" where
  "artifact_action_family action_id =
     (let text = str_upper action_id in
      if contains ''PRESSURE_ADVANCE'' text then Some ''pressure_advance''
      else if contains ''_ACCEL_'' text then Some ''accel''
      else if contains ''SPEED'' text then Some ''speed''
      else if contains ''FLOW'' text then Some ''flow''
      else if contains ''NOZZLE'' text then Some ''nozzle''
      else if contains ''BED'' text then Some ''bed''
      else None)"

definition family_visible :: "dict \<Rightarrow> legal_action \<Rightarrow> bool" where
  "family_visible space a = (case artifact_action_family (la_action_id a) of
      None \<Rightarrow> False | Some f \<Rightarrow> has_key space f)"

definition world_visible_allowed_frontier_ids :: "world_packet \<Rightarrow> dict \<Rightarrow> string list" where
  "world_visible_allowed_frontier_ids world space =
     map la_action_id (filter (\<lambda>a. \<not> verb_tunes a \<or> family_visible space a) (wp_frontier world))"

definition world_visible_tuning_frontier_ids :: "world_packet \<Rightarrow> dict \<Rightarrow> string list" where
  "world_visible_tuning_frontier_ids world space =
     map la_action_id (filter (\<lambda>a. verb_tunes a \<and> family_visible space a) (wp_frontier world))"

definition world_planner_option_count :: "'p env \<Rightarrow> world_packet \<Rightarrow> ('p sys, nat) act" where
  "world_planner_option_count env world =
     bindE (world_prompt_allowed_frontier_ids env world) (\<lambda>ids.
     bindE (world_tuning_action_space env world) (\<lambda>space.
       ret (length ids + length (filter (\<lambda>(_, v). case v of PyDict _ \<Rightarrow> True | _ \<Rightarrow> False) space))))"

definition world_has_active_print :: "pyrt \<Rightarrow> world_packet \<Rightarrow> bool" where
  "world_has_active_print rt world \<longleftrightarrow> printing rt world \<and> truthy (pget (wp_facts world) ''printer_1.job_active'')"

definition world_is_actionable_print :: "pyrt \<Rightarrow> world_packet \<Rightarrow> bool" where
  "world_is_actionable_print rt world \<longleftrightarrow> world_has_active_print rt world
     \<and> (case pget (wp_facts world) ''printer_1.active_printing'' of PyBool b \<Rightarrow> b | _ \<Rightarrow> active_phase rt world)"

section \<open>Plans of the loop\<close>

definition planner_degraded_no_action_plan :: "int \<Rightarrow> pyexc \<Rightarrow> plan_ir" where
  "planner_degraded_no_action_plan consecutive_failures e = no_action_plan
     (''Planner generation failed on repeated consecutive cycles after bounded retries; degrading to NO_ACTION after ''
      @ int_str consecutive_failures @ '' failures ('' @ exc_class e @ '': '' @ exc_str e @ '').'')"

definition planner_bypass_no_action_plan :: "string \<Rightarrow> plan_ir" where
  "planner_bypass_no_action_plan reason = no_action_plan reason"

definition planner_pre_execution_guard_no_action_plan :: "plan_ir \<Rightarrow> string \<Rightarrow> plan_ir" where
  "planner_pre_execution_guard_no_action_plan original reason =
     (let selected = (case pi_tuning_choice original of None \<Rightarrow> []
            | Some c \<Rightarrow> [tc_family c @ '':'' @ tc_direction c @ '':'' @ tc_magnitude c]) @ pi_sequence original;
          selected_text = (if selected = [] then ''tuning action'' else str_join '', '' selected)
      in no_action_plan (''Pre-execution terminal guard skipped '' @ selected_text @ '': '' @ reason))"

fun sequence_tunes :: "world_packet \<Rightarrow> string list \<Rightarrow> bool" where
  "sequence_tunes world [] = False"
| "sequence_tunes world (i # is) =
     ((case frontier_map (wp_frontier world) i of None \<Rightarrow> False | Some a \<Rightarrow> verb_tunes a)
      \<or> starts_with ''A_PRUSA_TRIM_'' i \<or> sequence_tunes world is)"

definition plan_requests_tuning_action :: "plan_ir \<Rightarrow> world_packet \<Rightarrow> bool" where
  "plan_requests_tuning_action plan world \<longleftrightarrow> pi_decision plan = EXECUTE
     \<and> (pi_tuning_choice plan \<noteq> None \<or> sequence_tunes world (pi_sequence plan))"

definition loop_float_or_none :: "pyrt \<Rightarrow> pyval \<Rightarrow> pyfloat option" where
  "loop_float_or_none rt v = (if v = PyNone then None
     else case py_float rt v of Inl _ \<Rightarrow> None | Inr f \<Rightarrow> Some f)"

definition terminal_guard_reason :: "pyrt \<Rightarrow> world_packet \<Rightarrow> string option" where
  "terminal_guard_reason rt world =
     (let facts = wp_facts world;
          word = (\<lambda>k. case nonempty (fact_text rt world k) of None \<Rightarrow> ''unknown'' | Some t \<Rightarrow> t);
          num = (\<lambda>k. loop_float_or_none rt (pget facts k))
      in if \<not> world_is_actionable_print rt world
           then Some (''fresh world is no longer actionable (lifecycle='' @ word ''printer_1.lifecycle''
             @ '', phase='' @ word ''printer_1.printing_phase'' @ '')'')
         else if pget facts ''printer_1.targets_nonzero'' = PyBool False
           then Some ''fresh world reports zero nozzle/bed targets''
         else case (num ''printer_1.job_progress_pct'', num ''printer_1.nozzle_target_c'', num ''printer_1.bed_target_c'') of
             (Some progress, Some nozzle_target, Some bed_target) \<Rightarrow>
               if float_le (Fin 99) progress \<and> float_le nozzle_target (Fin (1 / 2)) \<and> float_le bed_target (Fin (1 / 2))
               then Some (''fresh world is terminal ('' @ float_fixed rt 1 progress @ ''% complete, targets=''
                 @ float_fixed rt 1 nozzle_target @ ''/'' @ float_fixed rt 1 bed_target @ '')'')
               else None
           | _ \<Rightarrow> None)"

section \<open>Derived payloads\<close>

fun float_abs :: "pyfloat \<Rightarrow> pyfloat" where
  "float_abs (Fin a) = Fin \<bar>a\<bar>"
| "float_abs NaN = NaN"
| "float_abs _ = Inf"

definition verified_value_of :: "pyrt \<Rightarrow> string \<Rightarrow> string \<Rightarrow> dict \<Rightarrow> pyfloat option" where
  "verified_value_of rt family result_field item =
     (if string_or_none rt (pget item ''status'') \<noteq> Some ''DONE'' then None
      else case string_or_none rt (pget item ''action_id'') of
          None \<Rightarrow> None
        | Some i \<Rightarrow> if artifact_action_family i \<noteq> Some family then None
            else (case pget item ''result'' of
                PyDict r \<Rightarrow> float_or_none rt (pget r result_field)
              | _ \<Rightarrow> None))"

fun first_some :: "('a \<Rightarrow> 'b option) \<Rightarrow> 'a list \<Rightarrow> 'b option" where
  "first_some f [] = None"
| "first_some f (x # xs) = (case f x of Some y \<Rightarrow> Some y | None \<Rightarrow> first_some f xs)"

definition recent_verified_family_result_value :: "pyrt \<Rightarrow> world_packet \<Rightarrow> string \<Rightarrow> string \<Rightarrow> pyfloat option" where
  "recent_verified_family_result_value rt world family result_field =
     first_some (verified_value_of rt family result_field)
       ((if wp_last_result world = [] then [] else [wp_last_result world]) @ wp_recent_results world)"

definition stabilize_relative_scalar_current ::
    "pyfloat option \<Rightarrow> pyfloat option \<Rightarrow> rat \<Rightarrow> nat \<Rightarrow> pyfloat option \<times> string" where
  "stabilize_relative_scalar_current live baseline small_step_pct precision = (case live of
      None \<Rightarrow> (None, ''missing_live_readback'')
    | Some live_value \<Rightarrow> (case baseline of
        None \<Rightarrow> (Some live_value, ''live_readback'')
      | Some baseline_value \<Rightarrow>
          (let minimum_tolerance = (if precision \<ge> 4 then Fin (5 / 10000) else Fin 1);
               half_small_step = float_scale (max 0 small_step_pct / 100 / 2) (float_abs baseline_value);
               trust_tolerance = float_max minimum_tolerance half_small_step
           in if float_less trust_tolerance (float_abs (float_sub live_value baseline_value))
              then (Some baseline_value, ''stabilized_baseline'') else (Some live_value, ''live_readback''))))"

definition planning_current_entry :: "pyrt \<Rightarrow> world_packet \<Rightarrow> string \<times> string \<times> string \<times> string \<times> rat \<times> nat \<Rightarrow> string \<times> pyval" where
  "planning_current_entry rt world spec = (case spec of
      (family, result_field, live_key, baseline_key, small_step_pct, precision) \<Rightarrow>
        let live = float_or_none rt (pget (wp_facts world) live_key);
            baseline = float_or_none rt (pget (wp_facts world) baseline_key);
            (effective, source) = (case recent_verified_family_result_value rt world family result_field of
                Some v \<Rightarrow> (Some v, ''recent_verified_result'')
              | None \<Rightarrow> stabilize_relative_scalar_current live baseline small_step_pct precision)
        in (family, PyDict [(''observed_live_value'', opt_float live),
              (''live_value'', opt_float (if source = ''live_readback'' then live else effective)),
              (''baseline_value'', opt_float baseline), (''effective_value'', opt_float effective),
              (''source'', PyStr source)]))"

definition artifact_planning_current :: "pyrt \<Rightarrow> world_packet \<Rightarrow> dict" where
  "artifact_planning_current rt world = map (planning_current_entry rt world)
     [(''pressure_advance'', ''pressure_advance'', ''printer_1.pressure_advance'', ''printer_1.active_pressure_advance_baseline'', 10, 4),
      (''accel'', ''print_accel_mm_s2'', ''printer_1.print_accel_mm_s2'', ''printer_1.active_print_accel_baseline_mm_s2'', 10, 1)]"

definition artifact_split_actions :: "pyrt \<Rightarrow> pyval \<Rightarrow> pyval" where
  "artifact_split_actions rt v = (case string_or_none rt v of None \<Rightarrow> PyNone
     | Some text \<Rightarrow> str_list (filter (\<lambda>item. item \<noteq> []) (split_on (CHR ''|'') text)))"

definition artifact_capability_actions :: "pyrt \<Rightarrow> world_packet \<Rightarrow> dict" where
  "artifact_capability_actions rt world =
     map (\<lambda>(family, key). (family, artifact_split_actions rt (pget (wp_facts world) key)))
       [(''speed'', ''printer_1.speed_shadow_actions''), (''flow'', ''printer_1.flow_shadow_actions''),
        (''nozzle'', ''printer_1.nozzle_shadow_actions''), (''bed'', ''printer_1.bed_shadow_actions''),
        (''pressure_advance'', ''printer_1.pressure_advance_shadow_actions''), (''accel'', ''printer_1.accel_shadow_actions'')]"

definition executable_step :: "dict \<Rightarrow> legal_action \<Rightarrow> (string \<times> string list) list \<Rightarrow> (string \<times> string list) list" where
  "executable_step space a payload = (case artifact_action_family (la_action_id a) of
      None \<Rightarrow> payload
    | Some f \<Rightarrow> if has_key space f then dset f (dget_or payload f [] @ [la_action_id a]) payload else payload)"

definition artifact_executable_actions_by_family :: "world_packet \<Rightarrow> dict \<Rightarrow> dict" where
  "artifact_executable_actions_by_family world space =
     map (\<lambda>(f, ids). (f, str_list ids)) (fold (executable_step space) (wp_frontier world) [])"

definition artifact_family_blockers :: "pyrt \<Rightarrow> pyval \<Rightarrow> dict" where
  "artifact_family_blockers rt v = (case v of
      PyDict d \<Rightarrow> concat (map (\<lambda>(f, bs). case bs of PyList xs \<Rightarrow> [(f, str_list (map (py_str rt) xs))] | _ \<Rightarrow> []) d)
    | _ \<Rightarrow> [])"

definition world_artifact_payload :: "'p env \<Rightarrow> world_packet \<Rightarrow> ('p sys, dict) act" where
  "world_artifact_payload env world =
     bindE (prompt_view_now env world) (\<lambda>view.
     bindE (world_explicit_frontier_ids env world) (\<lambda>ids.
     let rt = e_rt env;
         compilation = (case wp_compilation world of None \<Rightarrow> [] | Some c \<Rightarrow> compilation_dump c);
         signals = (case pget view ''decision_signals'' of PyDict d \<Rightarrow> d | _ \<Rightarrow> []);
         explicit = str_list (ids_or rt (pget signals ''allowed_frontier_ids'') ids);
         space = (case pget signals ''tuning_action_space'' of PyDict d \<Rightarrow> d | _ \<Rightarrow> []);
         visible = str_list (world_visible_allowed_frontier_ids world space);
         visible_tuning = str_list (world_visible_tuning_frontier_ids world space);
         blockers = PyDict (artifact_family_blockers rt (pget signals ''family_blockers''));
         capability = PyDict (artifact_capability_actions rt world);
         executable = PyDict (artifact_executable_actions_by_family world space);
         current = PyDict (artifact_planning_current rt world);
         frontier_ids = str_list (world_allowed_frontier_ids world);
         facts = dict_update (wp_facts world)
           [(''printer_1.frontier_ids_json'', PyStr (json_dumps rt frontier_ids)),
            (''printer_1.explicit_frontier_ids_json'', PyStr (json_dumps rt explicit)),
            (''printer_1.allowed_frontier_ids_json'', PyStr (json_dumps rt visible)),
            (''printer_1.tuning_frontier_ids_json'', PyStr (json_dumps rt visible_tuning)),
            (''printer_1.tuning_action_space_json'', PyStr (json_dumps rt (PyDict space))),
            (''printer_1.shadow_actions_json'', PyStr (json_dumps rt capability)),
            (''printer_1.capability_actions_json'', PyStr (json_dumps rt capability)),
            (''printer_1.executable_actions_by_family_json'', PyStr (json_dumps rt executable)),
            (''printer_1.family_blockers_json'', PyStr (json_dumps rt blockers)),
            (''printer_1.planning_current_json'', PyStr (json_dumps rt current)),
            (''printer_1.compact_tuning_space_json'', PyStr (json_dumps rt (PyDict space)))]
     in ret [(''live_state_snapshot'', PyDict compilation), (''planner_world_packet'', PyDict view),
          (''frontier_ids'', frontier_ids), (''explicit_frontier_ids'', explicit), (''allowed_frontier_ids'', visible),
          (''tuning_frontier_ids'', visible_tuning), (''tuning_action_space'', PyDict space),
          (''capability_actions'', capability), (''executable_actions_by_family'', executable),
          (''family_blockers'', blockers), (''shadow_actions'', capability), (''planning_current'', current),
          (''compact_tuning_space'', PyDict space), (''blockers'', str_list (wp_blockers world)),
          (''facts'', PyDict facts), (''pending_human'', str_list (wp_pending_human world))]))"

section \<open>The loop's state\<close>

record 'q main_state =
  ms_planner :: 'q
  ms_cycle_index :: nat
  ms_planner_failures :: int
  ms_cycle_failures :: int
  ms_last_attempt :: "rat option"
  ms_runtime_states :: "dict list"
  ms_artifacts :: "dict list"

record main_config =
  mc_retry_attempts :: int
  mc_failures_before_no_action :: int
  mc_min_interval_seconds :: pyfloat
  mc_monitor_when_inactive :: bool

record run_args =
  ra_once :: bool
  ra_forever :: bool
  ra_cycles :: "nat option"

text \<open>
  A planner: its call, what it does with the number of the attempt (\<open>retry_count\<close>), and the metadata it
  shows afterwards.
\<close>

record ('p, 'q) planner =
  pn_plan :: "world_packet \<Rightarrow> ('p sys \<times> 'q, plan_ir) act"
  pn_set_retry :: "nat \<Rightarrow> 'q \<Rightarrow> 'q"
  pn_metadata :: "'q \<Rightarrow> pyval"

definition heuristic_planner :: "('p, unit) planner" where
  "heuristic_planner = \<lparr>pn_plan = (\<lambda>world. ret (heuristic_plan world)), pn_set_retry = (\<lambda>_ q. q), pn_metadata = (\<lambda>_. PyNone)\<rparr>"

definition openrouter_planner ::
    "'p env \<Rightarrow> openrouter_config \<Rightarrow> prompt_package \<Rightarrow> (pyval \<Rightarrow> bool) \<Rightarrow> (dict \<Rightarrow> http_reply) \<Rightarrow> ('p, planner_state) planner" where
  "openrouter_planner env cfg pkg valid http =
     \<lparr>pn_plan = openrouter_plan env cfg pkg valid http,
      pn_set_retry = (\<lambda>n q. q\<lparr>pl_metadata := map_option (dset ''retry_count'' (PyInt (int n))) (pl_metadata q)\<rparr>),
      pn_metadata = (\<lambda>q. case pl_metadata q of None \<Rightarrow> PyNone | Some d \<Rightarrow> PyDict d)\<rparr>"

type_synonym ('p, 'q, 'a) step = "('p sys \<times> 'q main_state, 'a) act"

definition with_planner :: "('p sys \<times> 'q, 'a) act \<Rightarrow> ('p, 'q, 'a) step" where
  "with_planner m s = (case m (fst s, ms_planner (snd s)) of (r, s', q) \<Rightarrow> (r, s', (snd s)\<lparr>ms_planner := q\<rparr>))"

definition set_main :: "('q main_state \<Rightarrow> 'q main_state) \<Rightarrow> ('p, 'q, unit) step" where
  "set_main f = modify (\<lambda>(s, m). (s, f m))"

definition get_main :: "('q main_state \<Rightarrow> 'a) \<Rightarrow> ('p, 'q, 'a) step" where
  "get_main f = gets (\<lambda>(s, m). f m)"

section \<open>Planning with retries\<close>

fun retry_loop :: "('p, 'q) planner \<Rightarrow> world_packet \<Rightarrow> nat \<Rightarrow> nat \<Rightarrow> ('p sys \<times> 'q, plan_ir) act" where
  "retry_loop pn world attempt 0 = raise (PyExc ''AssertionError'' [])"
| "retry_loop pn world attempt (Suc remaining) =
     try_except
       (bindE (pn_plan pn world) (\<lambda>plan.
        bindE (liftE (validate_plan world plan)) (\<lambda>_.
        bindE (set_planner (pn_set_retry pn attempt)) (\<lambda>_. ret plan))))
       (\<lambda>e. bindE (set_planner (pn_set_retry pn attempt)) (\<lambda>_.
          if remaining = 0 then raise e else retry_loop pn world (attempt + 1) remaining))"

definition plan_with_retry :: "('p, 'q) planner \<Rightarrow> world_packet \<Rightarrow> int \<Rightarrow> ('p sys \<times> 'q, plan_ir) act" where
  "plan_with_retry pn world max_attempts = retry_loop pn world 0 (nat max_attempts)"

section \<open>Artifacts\<close>

definition report_dump :: "report \<Rightarrow> pyval" where
  "report_dump r = PyDict [(''plan_id'', PyStr (rp_plan_id r)), (''executed_action_ids'', str_list (rp_executed_action_ids r)),
     (''blocked_action_run_id'', opt_str (rp_blocked_action_run_id r)), (''replan_required'', PyBool (rp_replan_required r)),
     (''failed_action_run_id'', opt_str (rp_failed_action_run_id r)), (''human_request_ids'', str_list (rp_human_request_ids r)),
     (''notes'', str_list (rp_notes r))]"

definition world_summary_keys :: "string list" where
  "world_summary_keys = [''planner_world_packet'', ''frontier_ids'', ''explicit_frontier_ids'', ''allowed_frontier_ids'',
     ''tuning_frontier_ids'', ''tuning_action_space'', ''capability_actions'', ''executable_actions_by_family'',
     ''family_blockers'', ''shadow_actions'', ''planning_current'', ''compact_tuning_space'', ''blockers'', ''facts'',
     ''pending_human'']"

definition world_summary :: "dict \<Rightarrow> pyval" where
  "world_summary payload = PyDict (map (\<lambda>k. (k, pget payload k)) world_summary_keys)"

definition write_runtime_state ::
    "'p env \<Rightarrow> string \<Rightarrow> string \<Rightarrow> world_packet \<Rightarrow> plan_ir option \<Rightarrow> report option \<Rightarrow> ('p, 'q, unit) step" where
  "write_runtime_state env phase goal world plan rep =
     bindE (on_sys (world_artifact_payload env world)) (\<lambda>artifact.
     bindE (on_sys (wall_ms env)) (\<lambda>now.
     bindE (get_main ms_cycle_index) (\<lambda>cycle_index.
     let payload = [(''cycle_index'', PyInt (int cycle_index + 1)), (''phase'', PyStr phase), (''goal'', PyStr goal),
           (''ts'', PyStr (ms_to_iso (e_rt env) now)), (''run_scope'', pget (wp_facts world) ''printer_1.job_scope_token''),
           (''live_state_snapshot'', pget artifact ''live_state_snapshot''), (''world_summary'', world_summary artifact),
           (''planner_output'', case plan of None \<Rightarrow> PyNone | Some p \<Rightarrow> PyDict (plan_dump p)),
           (''execution_report'', case rep of None \<Rightarrow> PyNone | Some r \<Rightarrow> report_dump r)]
     in set_main (\<lambda>m. m\<lparr>ms_runtime_states := ms_runtime_states m @ [payload]\<rparr>))))"

definition write_cycle_artifact ::
    "'p env \<Rightarrow> ('p, 'q) planner \<Rightarrow> bool \<Rightarrow> string \<Rightarrow> world_packet \<Rightarrow> world_packet \<Rightarrow> plan_ir \<Rightarrow> report \<Rightarrow> ('p, 'q, unit) step" where
  "write_cycle_artifact env pn bypassed goal decision_world post_world plan rep =
     bindE (on_sys (world_artifact_payload env decision_world)) (\<lambda>decision.
     bindE (on_sys (world_artifact_payload env post_world)) (\<lambda>post.
     bindE (get_main (\<lambda>m. (ms_cycle_index m, pn_metadata pn (ms_planner m)))) (\<lambda>(cycle_index, metadata).
     let payload = [(''cycle_index'', PyInt (int cycle_index + 1)), (''goal'', PyStr goal),
           (''run_scope'', pget (wp_facts post_world) ''printer_1.job_scope_token''),
           (''live_state_snapshot'', pget post ''live_state_snapshot''), (''world_summary'', world_summary post),
           (''decision_input'', PyDict decision), (''post_execution'', PyDict post),
           (''planner_output'', PyDict (plan_dump plan)),
           (''planner_provider_metadata'', if bypassed then PyNone else metadata),
           (''execution_report'', report_dump rep)]
     in set_main (\<lambda>m. m\<lparr>ms_artifacts := ms_artifacts m @ [payload]\<rparr>))))"

section \<open>One cycle\<close>

text \<open>Why the planner is not called; the second component: stop after this cycle.\<close>

definition cadence_gate :: "'p env \<Rightarrow> main_config \<Rightarrow> ('p, 'q, string option) step" where
  "cadence_gate env mc = bindE (get_main ms_last_attempt) (\<lambda>last_attempt. case last_attempt of
      None \<Rightarrow> ret None
    | Some attempt_s \<Rightarrow>
        if \<not> float_less (Fin 0) (mc_min_interval_seconds mc) then ret None
        else bindE (on_sys (monotonic env)) (\<lambda>now.
          if \<not> float_less (Fin (now - attempt_s)) (mc_min_interval_seconds mc) then ret None
          else bindE (on_sys (monotonic env)) (\<lambda>now'.
            ret (Some (''Planner cadence gate is holding to avoid over-calling the model; next slot in about ''
              @ float_fixed (e_rt env) 1 (float_max (Fin 0) (float_sub (mc_min_interval_seconds mc) (Fin (now' - attempt_s))))
              @ ''s.'')))))"

definition bypass_reason :: "'p env \<Rightarrow> main_config \<Rightarrow> world_packet \<Rightarrow> nat \<Rightarrow> ('p, 'q, string option \<times> bool) step" where
  "bypass_reason env mc world option_count =
     (if \<not> world_has_active_print (e_rt env) world
        then ret (Some ''No active print is running, so skip planner calls.'', \<not> mc_monitor_when_inactive mc)
      else if \<not> world_is_actionable_print (e_rt env) world
        then ret (Some ''A print is present but not in an actionable live-print phase yet, so skip planner calls until active printing resumes.'', False)
      else if option_count = 0
        then ret (Some ''No legal planner-visible actions are available, so skip planner calls.'', False)
      else bindE (cadence_gate env mc) (\<lambda>r. ret (r, False)))"

text \<open>The planner's answer: a plan, or the exception of the last attempt.\<close>

definition call_planner :: "'p env \<Rightarrow> main_config \<Rightarrow> ('p, 'q) planner \<Rightarrow> world_packet \<Rightarrow> ('p, 'q, pyexc + plan_ir) step" where
  "call_planner env mc pn world =
     bindE (on_sys (monotonic env)) (\<lambda>now.
     bindE (set_main (\<lambda>m. m\<lparr>ms_last_attempt := Some now\<rparr>)) (\<lambda>_.
       try_except
         (bindE (with_planner (plan_with_retry pn world (mc_retry_attempts mc))) (\<lambda>plan.
          bindE (set_main (\<lambda>m. m\<lparr>ms_planner_failures := 0\<rparr>)) (\<lambda>_. ret (Inr plan))))
         (\<lambda>e. bindE (set_main (\<lambda>m. m\<lparr>ms_planner_failures := ms_planner_failures m + 1\<rparr>)) (\<lambda>_. ret (Inl e)))))"

text \<open>Events with the fields that identify the cycle; the other context fields are timings and counts.\<close>

definition loop_event :: "'p env \<Rightarrow> string \<Rightarrow> string \<Rightarrow> string \<Rightarrow> dict \<Rightarrow> ('p, 'q, unit) step" where
  "loop_event env component level message ctx =
     bindE (get_main ms_cycle_index) (\<lambda>i.
       on_sys (log_event env component level message ((''cycle_index'', PyInt (int i + 1)) # ctx)))"

definition failure_fields :: "int \<Rightarrow> pyexc \<Rightarrow> dict" where
  "failure_fields n e = [(''exception_type'', PyStr (exc_class e)), (''exception_message'', PyStr (exc_str e)),
     (''consecutive_failures'', PyInt n)]"

text \<open>\<open>None\<close>: the planner failed and the cycle ends without execution.\<close>

definition choose_plan ::
    "'p env \<Rightarrow> main_config \<Rightarrow> ('p, 'q) planner \<Rightarrow> string \<Rightarrow> world_packet \<Rightarrow> string option \<Rightarrow> ('p, 'q, plan_ir option) step" where
  "choose_plan env mc pn goal world bypass = (case bypass of
      Some reason \<Rightarrow>
        bindE (set_main (\<lambda>m. m\<lparr>ms_planner_failures := 0\<rparr>)) (\<lambda>_.
        bindE (loop_event env ''planner'' ''INFO'' ''planner_call_bypassed'' [(''reason'', PyStr reason)]) (\<lambda>_.
          ret (Some (planner_bypass_no_action_plan reason))))
    | None \<Rightarrow>
        bindE (call_planner env mc pn world) (\<lambda>answer. case answer of
            Inr plan \<Rightarrow> ret (Some plan)
          | Inl e \<Rightarrow>
              bindE (get_main ms_planner_failures) (\<lambda>n.
              bindE (loop_event env ''planner'' ''WARN'' ''planner_cycle_failed'' (failure_fields n e)) (\<lambda>_.
                if n < mc_failures_before_no_action mc then
                  bindE (write_runtime_state env ''planner_failed'' goal world None None) (\<lambda>_. ret None)
                else
                  bindE (loop_event env ''planner'' ''WARN'' ''planner_degraded_to_no_action'' (failure_fields n e)) (\<lambda>_.
                    ret (Some (planner_degraded_no_action_plan n e)))))))"

text \<open>The guard before execution: the world and the plan that are executed.\<close>

definition pre_execution_guard :: "'p env \<Rightarrow> string \<Rightarrow> world_packet \<Rightarrow> plan_ir \<Rightarrow> ('p, 'q, world_packet \<times> plan_ir) step" where
  "pre_execution_guard env goal world plan =
     (if \<not> plan_requests_tuning_action plan world then ret (world, plan)
      else
        bindE (on_sys (publish_all_raw_state env ''full'')) (\<lambda>_.
        bindE (on_sys (compile_now env goal)) (\<lambda>fresh. case terminal_guard_reason (e_rt env) fresh of
            None \<Rightarrow> ret (world, plan)
          | Some reason \<Rightarrow>
              bindE (loop_event env ''runtime'' ''INFO'' ''pre_execution_terminal_guard_skipped_tuning''
                  [(''reason'', PyStr reason), (''original_plan'', PyDict (plan_dump plan)),
                   (''fresh_lifecycle'', pget (wp_facts fresh) ''printer_1.lifecycle''),
                   (''fresh_printing_phase'', pget (wp_facts fresh) ''printer_1.printing_phase''),
                   (''fresh_targets_nonzero'', pget (wp_facts fresh) ''printer_1.targets_nonzero''),
                   (''fresh_progress_pct'', pget (wp_facts fresh) ''printer_1.job_progress_pct''),
                   (''fresh_nozzle_target_c'', pget (wp_facts fresh) ''printer_1.nozzle_target_c''),
                   (''fresh_bed_target_c'', pget (wp_facts fresh) ''printer_1.bed_target_c'')]) (\<lambda>_.
                ret (fresh, planner_pre_execution_guard_no_action_plan plan reason)))))"

definition safety_poll :: "'p env \<Rightarrow> ('p sys, bool) act" where
  "safety_poll env = bindE (monotonic env) (\<lambda>t.
     bindE (gets (\<lambda>s. fst (poll (e_rt env) t (s_safety s)))) (\<lambda>engaged.
     bindE (modify (\<lambda>s. s\<lparr>s_safety := snd (poll (e_rt env) t (s_safety s))\<rparr>)) (\<lambda>_. ret engaged)))"

text \<open>What ends a cycle: \<open>continue\<close>, \<open>break\<close>, or running to its end.\<close>

datatype cycle_end = Continue | Break | Completed

definition cycle_body ::
    "'p env \<Rightarrow> main_config \<Rightarrow> ('p, 'q) planner \<Rightarrow> string \<Rightarrow> ('p, 'q, cycle_end) step" where
  "cycle_body env mc pn goal =
     bindE (on_sys (publish_all_raw_state env ''full'')) (\<lambda>_.
     bindE (on_sys (compile_now env goal)) (\<lambda>world.
     bindE (write_runtime_state env ''decision_input_ready'' goal world None None) (\<lambda>_.
     bindE (on_sys (world_tuning_action_space env world)) (\<lambda>_.
     bindE (on_sys (world_planner_option_count env world)) (\<lambda>option_count.
     bindE (bypass_reason env mc world option_count) (\<lambda>(bypass, stop_after_cycle).
     bindE (choose_plan env mc pn goal world bypass) (\<lambda>chosen. case chosen of
         None \<Rightarrow> ret Continue
       | Some plan \<Rightarrow>
           bindE (pre_execution_guard env goal world plan) (\<lambda>(world, plan).
           bindE (on_sys (execute_plan env goal world plan)) (\<lambda>rep.
           bindE (on_sys (safety_poll env)) (\<lambda>_.
           let post_world = (case rp_post_execution_world rep of None \<Rightarrow> world | Some w \<Rightarrow> w) in
           bindE (write_cycle_artifact env pn (bypass \<noteq> None) goal world post_world plan rep) (\<lambda>_.
           bindE (write_runtime_state env ''post_execution_ready'' goal post_world (Some plan) (Some rep)) (\<lambda>_.
             if stop_after_cycle then
               bindE (loop_event env ''runtime'' ''INFO'' ''runtime_stopped_inactive'' [(''reason'', PyStr ''no_active_print'')])
                 (\<lambda>_. ret Break)
             else bindE (set_main (\<lambda>m. m\<lparr>ms_cycle_failures := 0\<rparr>)) (\<lambda>_. ret Completed)))))))))))))"

definition runtime_cycle_failures_before_persistent :: int where
  "runtime_cycle_failures_before_persistent = 3"

text \<open>The \<open>try ... except\<close> around a cycle.\<close>

definition guarded_cycle ::
    "'p env \<Rightarrow> main_config \<Rightarrow> ('p, 'q) planner \<Rightarrow> string \<Rightarrow> ('p, 'q, cycle_end) step" where
  "guarded_cycle env mc pn goal = try_except (cycle_body env mc pn goal) (\<lambda>e.
     bindE (set_main (\<lambda>m. m\<lparr>ms_cycle_failures := ms_cycle_failures m + 1\<rparr>)) (\<lambda>_.
     bindE (get_main ms_cycle_failures) (\<lambda>n.
     bindE (loop_event env ''runtime'' ''ERROR'' ''runtime_cycle_failed'' (failure_fields n e
         @ [(''persistent_failure'', PyBool (n \<ge> runtime_cycle_failures_before_persistent))])) (\<lambda>_.
       ret Completed))))"

definition should_stop :: "run_args \<Rightarrow> nat \<Rightarrow> bool" where
  "should_stop args cycle_index \<longleftrightarrow> ra_once args
     \<or> (\<not> ra_forever args \<and> (case ra_cycles args of None \<Rightarrow> False | Some n \<Rightarrow> cycle_index \<ge> n))"

text \<open>The loop, with fuel; \<open>False\<close>: out of fuel.\<close>

fun run_loop :: "'p env \<Rightarrow> main_config \<Rightarrow> run_args \<Rightarrow> ('p, 'q) planner \<Rightarrow> string \<Rightarrow> nat \<Rightarrow> ('p, 'q, bool) step" where
  "run_loop env mc args pn goal 0 = ret False"
| "run_loop env mc args pn goal (Suc fuel) =
     bindE (guarded_cycle env mc pn goal) (\<lambda>outcome.
       if outcome = Break then ret True
       else bindE (set_main (\<lambda>m. m\<lparr>ms_cycle_index := ms_cycle_index m + 1\<rparr>)) (\<lambda>_.
         bindE (get_main ms_cycle_index) (\<lambda>i.
           if should_stop args i then ret True else run_loop env mc args pn goal fuel)))"

text \<open>\<open>parser.error\<close> for inconsistent options.\<close>

definition args_error :: "run_args \<Rightarrow> string option" where
  "args_error args =
     (if ra_once args \<and> ra_forever args then Some ''choose only one of --once or --forever''
      else if ra_once args \<and> ra_cycles args \<noteq> None then Some ''--once cannot be combined with --cycles''
      else if ra_forever args \<and> ra_cycles args \<noteq> None then Some ''--forever cannot be combined with --cycles''
      else if \<not> ra_once args \<and> \<not> ra_forever args \<and> ra_cycles args = None
        then Some ''choose one of --once, --forever, or explicit --cycles N''
      else None)"

text \<open>A flush at the start also removes the lock file, whoever holds it.\<close>

definition reset_runtime_start_state :: "bool \<Rightarrow> ('p sys, unit) act" where
  "reset_runtime_start_state flush = (if flush then on_db clear_runtime_state else ret ())"

section \<open>What the loop leaves alone\<close>

context sys_frame
begin

lemma signal_of_keeps [preserves_intros]: "preserves P (signal_of env world name)"
  unfolding signal_of_def by (intro preserves_intros)

lemma world_signals_keep [preserves_intros]:
  "preserves P (world_explicit_frontier_ids env world)"
  "preserves P (world_prompt_allowed_frontier_ids env world)"
  "preserves P (world_tuning_action_space env world)"
  unfolding world_explicit_frontier_ids_def world_prompt_allowed_frontier_ids_def world_tuning_action_space_def
  by (intro preserves_intros)+

lemma option_count_keeps [preserves_intros]: "preserves P (world_planner_option_count env world)"
  unfolding world_planner_option_count_def by (intro preserves_intros)

lemma world_artifact_keeps [preserves_intros]: "preserves P (world_artifact_payload env world)"
  unfolding world_artifact_payload_def Let_def by (intro preserves_intros)

lemma safety_poll_keeps [preserves_intros]: "preserves P (safety_poll env)"
  unfolding safety_poll_def by (intro preserves_intros safety_eff)

end

text \<open>
  A predicate of the system and one of the loop's variables that survive the steps of a cycle. The loop's
  index is not a step of a cycle.
\<close>

locale loop_frame = plan_frame env P for env :: "'p env" and P +
  fixes pn :: "('p, 'q) planner" and R :: "'q main_state \<Rightarrow> bool"
  assumes planner_eff: "preserves (\<lambda>s. P (fst s)) (pn_plan pn world)"
    and planner_var: "R m \<Longrightarrow> R (m\<lparr>ms_planner := q\<rparr>)"
    and failures_var: "R m \<Longrightarrow> R (m\<lparr>ms_planner_failures := n\<rparr>)"
    and cycle_failures_var: "R m \<Longrightarrow> R (m\<lparr>ms_cycle_failures := n\<rparr>)"
    and attempt_var: "R m \<Longrightarrow> R (m\<lparr>ms_last_attempt := t\<rparr>)"
    and states_var: "R m \<Longrightarrow> R (m\<lparr>ms_runtime_states := ds\<rparr>)"
    and artifacts_var: "R m \<Longrightarrow> R (m\<lparr>ms_artifacts := ds\<rparr>)"
begin

definition both :: "'p sys \<times> 'q main_state \<Rightarrow> bool" where
  "both s \<longleftrightarrow> P (fst s) \<and> R (snd s)"

lemma lift_sys [preserves_intros]: "preserves P m \<Longrightarrow> preserves both (on_sys m)"
  by (simp add: preserves_def both_def on_sys_def case_prod_unfold)

lemma lift_main [preserves_intros]: "(\<And>m. R m \<Longrightarrow> R (f m)) \<Longrightarrow> preserves both (set_main f)"
  "preserves both (get_main g)"
  by (simp_all add: preserves_def both_def set_main_def get_main_def act_simps case_prod_unfold)

lemma lift_planner [preserves_intros]:
  "preserves (\<lambda>s. P (fst s)) m \<Longrightarrow> preserves both (with_planner m)"
  by (auto simp: preserves_def both_def with_planner_def planner_var split: prod.splits)
    (metis fst_conv snd_conv)

lemma retry_loop_keeps: "preserves (\<lambda>s. P (fst s)) (retry_loop pn world k n)"
  by (induction n arbitrary: k) (auto intro!: preserves_intros planner_eff)

lemma plan_with_retry_keeps [preserves_intros]: "preserves (\<lambda>s. P (fst s)) (plan_with_retry pn world n)"
  unfolding plan_with_retry_def by (rule retry_loop_keeps)

lemma write_runtime_state_keeps [preserves_intros]: "preserves both (write_runtime_state env phase goal world plan rep)"
  unfolding write_runtime_state_def Let_def by (intro preserves_intros states_var)

lemma write_cycle_artifact_keeps [preserves_intros]:
  "preserves both (write_cycle_artifact env pn b goal w w' plan rep)"
  unfolding write_cycle_artifact_def Let_def by (auto intro!: preserves_intros artifacts_var)

lemma loop_event_keeps [preserves_intros]: "preserves both (loop_event env c l m ctx)"
  unfolding loop_event_def by (intro preserves_intros)

lemma bypass_reason_keeps [preserves_intros]: "preserves both (bypass_reason env mc world n)"
  unfolding bypass_reason_def cadence_gate_def by (intro preserves_intros)

lemma call_planner_keeps [preserves_intros]: "preserves both (call_planner env mc pn world)"
  unfolding call_planner_def by (intro preserves_intros attempt_var failures_var)

lemma choose_plan_keeps [preserves_intros]: "preserves both (choose_plan env mc pn goal world bypass)"
  unfolding choose_plan_def by (auto intro!: preserves_intros failures_var split: option.split sum.split)

lemma pre_execution_guard_keeps [preserves_intros]: "preserves both (pre_execution_guard env goal world plan)"
  unfolding pre_execution_guard_def by (intro preserves_intros)

lemma cycle_body_keeps: "preserves both (cycle_body env mc pn goal)"
  unfolding cycle_body_def Let_def case_prod_unfold by (intro preserves_intros cycle_failures_var)

lemma guarded_cycle_keeps: "preserves both (guarded_cycle env mc pn goal)"
  unfolding guarded_cycle_def by (intro preserves_intros cycle_body_keeps cycle_failures_var)

lemma run_loop_keeps:
  assumes "\<And>m. R m \<Longrightarrow> R (m\<lparr>ms_cycle_index := ms_cycle_index m + 1\<rparr>)"
  shows "preserves both (run_loop env mc args pn goal fuel)"
  by (induction fuel) (auto intro!: preserves_intros guarded_cycle_keeps assms)

end

interpretation idx: plan_frame env "\<lambda>_. True" for env
  by unfold_locales (simp_all add: preserves_def)

interpretation ix: loop_frame env "\<lambda>_. True" pn "\<lambda>m. ms_cycle_index m = i" for env pn i
  by unfold_locales (simp_all add: preserves_def)

text \<open>The two planners leave alone whatever the engine leaves alone.\<close>

lemma heuristic_keeps: "preserves Q (pn_plan heuristic_planner world)"
  by (simp add: heuristic_planner_def preserves_ret)

interpretation lkh: loop_frame env "\<lambda>s. s_locks s = held" heuristic_planner "\<lambda>_. True" for env held
  by unfold_locales (simp_all add: heuristic_keeps)

interpretation lko: loop_frame env "\<lambda>s. s_locks s = held" "openrouter_planner env cfg pkg valid http" "\<lambda>_. True"
  for env held cfg pkg valid http
  by unfold_locales (simp_all add: openrouter_planner_def lk.openrouter_plan_keeps)

interpretation bkh: loop_frame env "book env d bound" heuristic_planner "\<lambda>_. True" for env d bound
  by unfold_locales (simp_all add: heuristic_keeps)

interpretation bko: loop_frame env "book env d bound" "openrouter_planner env cfg pkg valid http" "\<lambda>_. True"
  for env d bound cfg pkg valid http
  by unfold_locales (simp_all add: openrouter_planner_def bk.openrouter_plan_keeps)

section \<open>The end of the loop\<close>

lemma loop_event_run: "\<exists>s'. loop_event env c l m ctx s = (Inr (), s')"
  by (simp add: loop_event_def get_main_def on_sys_def log_event_def on_db_def record_event_def db_now_ms_def bindE_def
      act_simps case_prod_unfold)

lemma guarded_cycle_run:
  obtains outcome s' where "guarded_cycle env mc pn goal s = (Inr outcome, s')"
    "ms_cycle_index (snd s') = ms_cycle_index (snd s)"
    "outcome = Break \<Longrightarrow> \<exists>s'. cycle_body env mc pn goal s = (Inr Break, s')"
proof -
  obtain x s1 where b: "cycle_body env mc pn goal s = (x, s1)" by (rule prod.exhaust)
  have "\<exists>outcome s'. guarded_cycle env mc pn goal s = (Inr outcome, s')
      \<and> (outcome = Break \<longrightarrow> (\<exists>s'. cycle_body env mc pn goal s = (Inr Break, s')))"
  proof (cases x)
    case (Inl e)
    let ?m = "\<lambda>m. m\<lparr>ms_cycle_failures := ms_cycle_failures m + 1\<rparr>"
    let ?n = "ms_cycle_failures (?m (snd s1))"
    obtain s' where "loop_event env ''runtime'' ''ERROR'' ''runtime_cycle_failed'' (failure_fields ?n e
         @ [(''persistent_failure'', PyBool (?n \<ge> runtime_cycle_failures_before_persistent))]) (fst s1, ?m (snd s1)) = (Inr (), s')"
      using loop_event_run by blast
    then show ?thesis
      by (simp add: guarded_cycle_def try_except_def b Inl set_main_def get_main_def bindE_def act_simps case_prod_unfold)
  next
    case (Inr outcome)
    then show ?thesis by (auto simp: guarded_cycle_def try_except_def b)
  qed
  then obtain outcome s' where g: "guarded_cycle env mc pn goal s = (Inr outcome, s')"
    and brk: "outcome = Break \<longrightarrow> (\<exists>s'. cycle_body env mc pn goal s = (Inr Break, s'))" by blast
  have "ms_cycle_index (snd s') = ms_cycle_index (snd s)"
    using preservesD [OF ix.guarded_cycle_keeps [where i = "ms_cycle_index (snd s)"] _ g] by (simp add: ix.both_def)
  with g brk that show thesis by blast
qed

text \<open>One round of the loop: the cycle never raises, and the loop stops or goes on with the next index.\<close>

lemma run_loop_round:
  obtains s' where "run_loop env mc args pn goal (Suc fuel) s = (Inr True, s')"
      "ms_cycle_index (snd s') = ms_cycle_index (snd s)" "\<exists>s'. cycle_body env mc pn goal s = (Inr Break, s')"
  | s' where "ms_cycle_index (snd s') = Suc (ms_cycle_index (snd s))" "should_stop args (ms_cycle_index (snd s'))"
      "run_loop env mc args pn goal (Suc fuel) s = (Inr True, s')"
  | s' where "ms_cycle_index (snd s') = Suc (ms_cycle_index (snd s))" "\<not> should_stop args (ms_cycle_index (snd s'))"
      "run_loop env mc args pn goal (Suc fuel) s = run_loop env mc args pn goal fuel s'"
proof (rule guarded_cycle_run [of env mc pn goal s])
  fix outcome s1
  assume g: "guarded_cycle env mc pn goal s = (Inr outcome, s1)" "ms_cycle_index (snd s1) = ms_cycle_index (snd s)"
    "outcome = Break \<Longrightarrow> \<exists>s'. cycle_body env mc pn goal s = (Inr Break, s')"
  let ?s = "(fst s1, (snd s1)\<lparr>ms_cycle_index := ms_cycle_index (snd s1) + 1\<rparr>)"
  show thesis
  proof (cases "outcome = Break")
    case True
    then show ?thesis using g by (intro that(1) [of s1]) (simp_all add: bindE_def act_simps)
  next
    case False
    then have "run_loop env mc args pn goal (Suc fuel) s =
        (if should_stop args (ms_cycle_index (snd ?s)) then (Inr True, ?s) else run_loop env mc args pn goal fuel ?s)"
      using g by (simp add: bindE_def act_simps set_main_def get_main_def case_prod_unfold)
    moreover have "ms_cycle_index (snd ?s) = Suc (ms_cycle_index (snd s))" using g by simp
    ultimately show ?thesis
      using that(2) [of ?s] that(3) [of ?s] by (cases "should_stop args (ms_cycle_index (snd ?s))") (simp_all only: if_True if_False simp_thms)
  qed
qed

text \<open>
  C15: the loop ends: with consistent options other than \<open>--forever\<close>, from the first cycle on, the loop
  returns after at most \<open>--cycles\<close> rounds (one with \<open>--once\<close>), whatever the planner and the devices do or raise.
\<close>

theorem loop_ends:
  assumes "args_error args = None" and "\<not> ra_forever args" and "ms_cycle_index (snd s) = 0"
  shows "\<exists>s'. run_loop env mc args pn goal (case ra_cycles args of None \<Rightarrow> 1 | Some n \<Rightarrow> max 1 n) s = (Inr True, s')
    \<and> ms_cycle_index (snd s') \<le> (case ra_cycles args of None \<Rightarrow> 1 | Some n \<Rightarrow> max 1 n)"
proof -
  let ?rounds = "case ra_cycles args of None \<Rightarrow> 1 | Some n \<Rightarrow> max 1 n"
  have stop: "should_stop args k" if "(case ra_cycles args of None \<Rightarrow> 1 | Some n \<Rightarrow> max 1 n) \<le> k" for k
    using assms that by (auto simp: args_error_def should_stop_def split: if_splits option.splits)
  have "\<exists>s'. run_loop env mc args pn goal (Suc fuel) s = (Inr True, s') \<and> ms_cycle_index (snd s') \<le> Suc (k + fuel)"
    if "ms_cycle_index (snd s) = k" "(case ra_cycles args of None \<Rightarrow> 1 | Some n \<Rightarrow> max 1 n) \<le> Suc (k + fuel)" for k fuel s
    using that
  proof (induction fuel arbitrary: k s)
    case 0
    then show ?case using stop [of "Suc k"] by (cases rule: run_loop_round [of env mc args pn goal 0 s]) auto
  next
    case (Suc fuel)
    then show ?case
    proof (cases rule: run_loop_round [of env mc args pn goal "Suc fuel" s])
      case (3 s')
      then show ?thesis using Suc.IH [of s' "Suc k"] Suc.prems by simp
    qed auto
  qed
  from this [OF assms(3), of "?rounds - 1"]
  have "\<exists>s'. run_loop env mc args pn goal (Suc (?rounds - 1)) s = (Inr True, s')
      \<and> ms_cycle_index (snd s') \<le> Suc (0 + (?rounds - 1))" by simp
  moreover have "Suc (?rounds - 1) = ?rounds" by (simp split: option.split)
  ultimately show ?thesis by (simp only: add_0)
qed

definition cycles_args :: "nat \<Rightarrow> run_args" where
  "cycles_args n = \<lparr>ra_once = False, ra_forever = False, ra_cycles = Some n\<rparr>"

definition sample_main_config :: main_config where
  "sample_main_config = \<lparr>mc_retry_attempts = 3, mc_failures_before_no_action = 3, mc_min_interval_seconds = Fin 0,
     mc_monitor_when_inactive = True\<rparr>"

definition sample_main :: "unit main_state" where
  "sample_main = \<lparr>ms_planner = (), ms_cycle_index = 0, ms_planner_failures = 0, ms_cycle_failures = 0,
     ms_last_attempt = None, ms_runtime_states = [], ms_artifacts = []\<rparr>"

theorem loop_ends_witness:
  "\<exists>s'. run_loop sample_env sample_main_config (cycles_args 2) heuristic_planner ''g'' 2 (sample_sys, sample_main) = (Inr True, s')
    \<and> ms_cycle_index (snd s') \<le> 2"
  using loop_ends [of "cycles_args 2" "(sample_sys, sample_main)" sample_env sample_main_config heuristic_planner "''g''"]
  by (simp add: args_error_def cycles_args_def sample_main_def numeral_2_eq_2 del: run_loop.simps)

lemma returns_try_except [returns_intros]:
  "returns Q m \<Longrightarrow> (\<And>e. returns Q (h e)) \<Longrightarrow> returns Q (try_except m h)"
  by (fastforce simp: returns_def try_except_def split: prod.splits sum.splits)

lemma returns_option [returns_intros]:
  "(x = None \<Longrightarrow> returns Q m) \<Longrightarrow> (\<And>a. x = Some a \<Longrightarrow> returns Q (f a))
   \<Longrightarrow> returns Q (case x of None \<Rightarrow> m | Some a \<Rightarrow> f a)"
  by (cases x) simp_all

lemma returnsD: "returns Q m \<Longrightarrow> m s = (Inr x, s') \<Longrightarrow> Q x"
  unfolding returns_def by blast

lemma monitoring_never_breaks:
  assumes "mc_monitor_when_inactive mc"
  shows "returns (\<lambda>out. out \<noteq> Break) (cycle_body env mc pn goal)"
proof -
  have reason: "returns (\<lambda>x. \<not> snd x) (bypass_reason env mc world n)" for world n
    unfolding bypass_reason_def using assms by (intro returns_intros) simp_all
  show ?thesis
    unfolding cycle_body_def Let_def case_prod_unfold
    by (intro returns_basic(1) returns_option returns_if returns_bindE returns_bindE_strong [OF reason]) simp_all
qed

text \<open>
  the loop goes on: with \<open>--forever\<close> and monitoring of idle printers no cycle, whatever it or the planner
  raises, ends the loop or escapes from it; each is followed by the next.
\<close>

theorem loop_goes_on:
  assumes "ra_forever args" and "\<not> ra_once args" and "mc_monitor_when_inactive mc"
  shows "\<exists>s'. run_loop env mc args pn goal fuel s = (Inr False, s')
    \<and> ms_cycle_index (snd s') = ms_cycle_index (snd s) + fuel"
proof (induction fuel arbitrary: s)
  case (Suc fuel)
  have no_break: "cycle_body env mc pn goal s \<noteq> (Inr Break, s')" for s'
    by (rule notI) (use returnsD [OF monitoring_never_breaks [OF assms(3)]] in blast)
  have no_stop: "\<not> should_stop args k" for k using assms by (simp add: should_stop_def)
  show ?case
  proof (cases rule: run_loop_round [of env mc args pn goal fuel s])
    case (3 s')
    then show ?thesis using Suc.IH [of s'] by auto
  qed (use no_break no_stop in auto)
qed (simp add: act_simps)

theorem loop_goes_on_witness:
  "\<exists>s'. run_loop sample_env sample_main_config \<lparr>ra_once = False, ra_forever = True, ra_cycles = None\<rparr> heuristic_planner
      ''g'' 5 (sample_sys, sample_main) = (Inr False, s') \<and> ms_cycle_index (snd s') = 5"
  using loop_goes_on [of "\<lparr>ra_once = False, ra_forever = True, ra_cycles = None\<rparr>" sample_main_config sample_env
      heuristic_planner "''g''" 5 "(sample_sys, sample_main)"]
  by (simp add: sample_main_config_def sample_main_def del: run_loop.simps)

section \<open>What a cycle executes\<close>

lemma retry_loop_validated: "returns (\<lambda>plan. \<exists>as. validate_plan world plan = Inr as) (retry_loop pn world k n)"
proof (induction n arbitrary: k)
  case (Suc n)
  have attempt: "returns (\<lambda>plan. \<exists>as. validate_plan world plan = Inr as) (bindE (pn_plan pn world) (\<lambda>plan.
        bindE (liftE (validate_plan world plan)) (\<lambda>_. bindE (set_planner (pn_set_retry pn k)) (\<lambda>_. ret plan))))"
  proof (rule returns_bindE)
    fix plan
    show "returns (\<lambda>plan. \<exists>as. validate_plan world plan = Inr as)
        (bindE (liftE (validate_plan world plan)) (\<lambda>_. bindE (set_planner (pn_set_retry pn k)) (\<lambda>_. ret plan)))"
      by (cases "validate_plan world plan") (simp_all add: returns_def bindE_def act_simps set_planner_def)
  qed
  have handler: "returns (\<lambda>plan. \<exists>as. validate_plan world plan = Inr as)
      (bindE (set_planner (pn_set_retry pn k)) (\<lambda>_. if n = 0 then raise e else retry_loop pn world (k + 1) n))" for e
    by (intro returns_intros Suc.IH)
  show ?case
    unfolding retry_loop.simps by (intro returns_try_except attempt handler)
qed (simp add: returns_def act_simps)

lemma call_planner_answer:
  assumes "call_planner env mc pn world s = (Inr answer, s')"
  shows "(\<forall>plan. answer = Inr plan \<longrightarrow> (\<exists>as. validate_plan world plan = Inr as))
    \<and> (\<forall>e. answer = Inl e \<longrightarrow> ms_planner_failures (snd s') = ms_planner_failures (snd s) + 1)"
proof -
  let ?now = "e_mono env (s_monos (fst s))"
  let ?sys = "(fst s)\<lparr>s_monos := s_monos (fst s) + 1\<rparr>"
  obtain r sys q where p: "plan_with_retry pn world (mc_retry_attempts mc) (?sys, ms_planner (snd s)) = (r, sys, q)"
    using prod_cases3 by blast
  show ?thesis
  proof (cases r)
    case (Inl e)
    then show ?thesis using assms p
      by (auto simp: call_planner_def monotonic_def on_sys_def bindE_def set_main_def act_simps try_except_def
          with_planner_def case_prod_unfold)
  next
    case (Inr plan)
    have "\<exists>as. validate_plan world plan = Inr as"
      using returnsD [OF retry_loop_validated p [unfolded Inr plan_with_retry_def]] .
    then show ?thesis using assms p Inr
      by (auto simp: call_planner_def monotonic_def on_sys_def bindE_def set_main_def act_simps try_except_def
          with_planner_def case_prod_unfold)
  qed
qed

lemma loop_event_main: "loop_event env c l m ctx s = (r, s') \<Longrightarrow> snd s' = snd s"
  by (auto simp: loop_event_def get_main_def on_sys_def bindE_def act_simps case_prod_unfold)



lemma loop_event_then: "bindE (loop_event env c l m ctx) k s = k () (snd (loop_event env c l m ctx s))"
  using loop_event_run [of env c l m ctx s] by (auto simp: bindE_def)

text \<open>
  the guard before execution: what is executed is the chosen plan on its world or NO_ACTION, and a plan
  that tunes is executed only after a fresh compilation showed an active print that is not about to end.
\<close>

theorem guard_stops_terminal_tuning:
  assumes "pre_execution_guard env goal world plan s = (Inr (w, p), s')"
  shows "(p = plan \<and> w = world \<or> pi_decision p = NO_ACTION)
    \<and> (plan_requests_tuning_action p w \<longrightarrow> (\<exists>s1 fresh s2.
        publish_all_raw_state env ''full'' (fst s) = (Inr (), s1) \<and> compile_now env goal s1 = (Inr fresh, s2)
        \<and> world_is_actionable_print (e_rt env) fresh \<and> pget (wp_facts fresh) ''printer_1.targets_nonzero'' \<noteq> PyBool False))"
proof (cases "plan_requests_tuning_action plan world")
  case False
  then show ?thesis using assms by (simp add: pre_execution_guard_def act_simps)
next
  case True
  obtain x s1 where pub: "publish_all_raw_state env ''full'' (fst s) = (x, s1)" by (rule prod.exhaust)
  show ?thesis
  proof (cases x)
    case (Inl e)
    then show ?thesis using assms True pub by (simp add: pre_execution_guard_def bindE_def on_sys_def)
  next
    case (Inr u)
    obtain y s2 where comp: "compile_now env goal s1 = (y, s2)" by (rule prod.exhaust)
    show ?thesis
    proof (cases y)
      case (Inl e)
      then show ?thesis using assms True pub comp Inr by (simp add: pre_execution_guard_def bindE_def on_sys_def)
    next
      case (Inr fresh)
      show ?thesis
      proof (cases "terminal_guard_reason (e_rt env) fresh")
        case None
        then have "p = plan" "w = world"
          using assms True pub comp Inr \<open>x = Inr u\<close> by (auto simp: pre_execution_guard_def bindE_def on_sys_def act_simps)
        moreover have "world_is_actionable_print (e_rt env) fresh"
          "pget (wp_facts fresh) ''printer_1.targets_nonzero'' \<noteq> PyBool False"
          using None by (auto simp: terminal_guard_reason_def Let_def split: if_splits)
        ultimately show ?thesis using pub comp Inr \<open>x = Inr u\<close> by auto
      next
        case (Some reason)
        then have "p = planner_pre_execution_guard_no_action_plan plan reason"
          using assms True pub comp Inr \<open>x = Inr u\<close>
          by (simp add: pre_execution_guard_def on_sys_def bindE_basic bindE_Inr loop_event_then ret_simp)
        then have "pi_decision p = NO_ACTION"
          by (simp add: planner_pre_execution_guard_no_action_plan_def no_action_plan_def Let_def)
        then show ?thesis by (simp add: plan_requests_tuning_action_def)
      qed
    qed
  qed
qed

definition tuning_action :: legal_action where
  "tuning_action = sample_action\<lparr>la_action_id := ''A_PRUSA_TRIM_SPEED_UP_SMALL'', la_verb := ''TUNE_SPEED''\<rparr>"

theorem guard_stops_terminal_tuning_witness:
  "case pre_execution_guard sample_env ''g'' (sample_world\<lparr>wp_frontier := [tuning_action]\<rparr>)
      (execute_ids [''A_PRUSA_TRIM_SPEED_UP_SMALL'']) (sample_sys, sample_main) of
     (Inr (w, p), _) \<Rightarrow> pi_decision p = NO_ACTION | _ \<Rightarrow> False"
proof -
  let ?g = "pre_execution_guard sample_env ''g'' (sample_world\<lparr>wp_frontier := [tuning_action]\<rparr>)
      (execute_ids [''A_PRUSA_TRIM_SPEED_UP_SMALL'']) (sample_sys, sample_main)"
  have "case fst ?g of Inr (w, p) \<Rightarrow> p \<noteq> execute_ids [''A_PRUSA_TRIM_SPEED_UP_SMALL''] | _ \<Rightarrow> False" by code_simp
  then obtain w p s' where g: "?g = (Inr (w, p), s')" "p \<noteq> execute_ids [''A_PRUSA_TRIM_SPEED_UP_SMALL'']"
    by (cases ?g) (simp split: sum.splits prod.splits)
  from guard_stops_terminal_tuning [OF g(1)] g show ?thesis by simp
qed

section \<open>The history of a whole run\<close>

text \<open>
  C2: however many cycles the runtime runs with the model planner, whatever the model answers and whatever
  the devices raise: if the first \<open>bound\<close> plan ids are distinct and not in use, and the run draws no more than
  these, then every recorded run keeps its request, moves only along the transition table and is frozen once
  terminal, the keys of the database stay sound, and the lock table is at the end what it was at the beginning.
\<close>

theorem runtime_keeps_notebook:
  assumes "run_loop env mc args (openrouter_planner env cfg pkg valid http) goal fuel s = (r, s')"
    and "inj_on (plan_id_at env) {..<bound}" and "plan_ids_free env bound (fst s)" and "s_uuids (fst s') \<le> bound"
    and "db_ok (s_db (fst s))" and "find_row ar_action_run_id rid (db_runs (s_db (fst s))) = Some q"
  shows "db_ok (s_db (fst s')) \<and> s_locks (fst s') = s_locks (fst s)
    \<and> (\<exists>q'. find_row ar_action_run_id rid (db_runs (s_db (fst s'))) = Some q' \<and> request q' = request q
        \<and> status_le (ar_status q) (ar_status q') \<and> (allowed_transitions (ar_status q) = [] \<longrightarrow> q' = q))"
proof -
  have "book env (s_db (fst s)) bound (fst s')"
    using preservesD [OF bko.run_loop_keeps [where d = "s_db (fst s)" and bound = bound] _ assms(1)] assms(3)
    by (simp add: bko.both_def book_def)
  from bookD [OF this assms(2,4)] have h: "db_runs_to env (s_db (fst s)) (s_db (fst s'))" .
  have "s_locks (fst s') = s_locks (fst s)"
    using preservesD [OF lko.run_loop_keeps [where held = "s_locks (fst s)"] _ assms(1)] by (simp add: lko.both_def)
  with db_steps_run [OF h assms(6,5)] show ?thesis by (auto simp: evolves_def)
qed

text \<open>A cycle that fails because a device does not answer.\<close>

definition offline_env :: "unit env" where
  "offline_env = sample_env\<lparr>e_publish := \<lambda>_. raise (PyExc ''OSError'' ''no route to host'')\<rparr>"

definition sample_planner_state :: "planner_state main_state" where
  "sample_planner_state = \<lparr>ms_planner = \<lparr>pl_request = None, pl_response = None, pl_metadata = None\<rparr>,
     ms_cycle_index = 0, ms_planner_failures = 0, ms_cycle_failures = 0,
     ms_last_attempt = None, ms_runtime_states = [], ms_artifacts = []\<rparr>"

definition offline_planner :: "(unit, planner_state) planner" where
  "offline_planner = openrouter_planner offline_env
     \<lparr>oc_model = ''m'', oc_response_healing = False, oc_reasoning_effort = [], oc_retry_backoff_seconds = Fin 0\<rparr>
     \<lparr>pp_contract_text = [], pp_rubric_text = [], pp_examples_text = []\<rparr> (\<lambda>_. True)
     (\<lambda>_. UrlError (PyExc ''URLError'' []))"

theorem runtime_keeps_notebook_witness:
  "\<exists>r s' q'. run_loop offline_env sample_main_config (cycles_args 1) offline_planner ''g'' 1
       (sample_sys\<lparr>s_db := sample_db\<rparr>, sample_planner_state) = (r, s')
     \<and> find_row ar_action_run_id ''run_1'' (db_runs (s_db (fst s'))) = Some q' \<and> request q' = request sample_run"
proof -
  let ?s = "(sample_sys\<lparr>s_db := sample_db\<rparr>, sample_planner_state)"
  let ?run = "run_loop offline_env sample_main_config (cycles_args 1) offline_planner ''g'' 1 ?s"
  let ?e = "PyExc ''OSError'' ''no route to host''"
  obtain r s' where run: "?run = (r, s')" by (rule prod.exhaust)
  have pub: "publish_all_raw_state offline_env ''full'' (sample_sys\<lparr>s_db := d\<rparr>) = (Inl ?e, sample_sys\<lparr>s_db := d\<rparr>)" for d
    by (simp add: publish_all_raw_state_def for_packs_def pack_ids_def on_pack_wb_def offline_env_def sample_env_def
        sample_sys_def bindE_def act_simps)
  have body: "cycle_body offline_env sample_main_config offline_planner ''g'' ?s = (Inl ?e, ?s)"
    by (simp add: cycle_body_def bindE_def on_sys_def pub)
  have "s_uuids (fst (snd ?run)) = s_uuids sample_sys"
    unfolding One_nat_def run_loop.simps guarded_cycle_def try_except_def
    by (simp add: bindE_def act_simps on_sys_def body set_main_def get_main_def loop_event_def log_event_def on_db_def
        record_event_def db_now_ms_def should_stop_def cycles_args_def failure_fields_def)
  then have "s_uuids (fst s') = s_uuids sample_sys" by (simp only: run snd_conv)
  then have u: "s_uuids (fst s') \<le> 2" by (simp add: sample_sys_def)
  have inj: "inj_on (plan_id_at offline_env) {..<2}"
    by (auto simp: inj_on_def plan_id_at_def new_id_def offline_env_def sample_env_def)
  have free: "plan_ids_free offline_env 2 (fst ?s)"
    by (simp add: plan_ids_free_def plan_id_at_def new_id_def offline_env_def sample_env_def sample_db_def empty_db_def
        sample_plan_def Cons_replicate_eq)
  have row: "find_row ar_action_run_id ''run_1'' (db_runs (s_db (fst ?s))) = Some sample_run" and ok: "db_ok (s_db (fst ?s))"
    using sample_db_run sample_db_ok by simp_all
  from runtime_keeps_notebook [OF run [unfolded offline_planner_def] inj free u ok row] run show ?thesis by blast
qed

end
