(* ===== verification/Bgcode.thy ===== *)
theory Bgcode
  imports Prelude "HOL-Library.Word"
begin

text \<open>
  Prusa binary G-code (\<open>packs/prusa_core_one_plus/bgcode_decode.py\<close>): the \<open>GCDE\<close> container, its blocks,
  the MeatPack byte stream and the text they decode to.

  Bytes are 8-bit words and text is a list of code points. \<open>zlib\<close> and \<open>heatshrinkpy\<close> are parameters
  (\<open>codecs\<close>): they return the decompressed bytes or the message of their exception. The UTF-8 decoder of the
  standard library is written out, with its two error modes.
\<close>

unbundle bit_operations_syntax

type_synonym bytes = "8 word list"
type_synonym code_points = "nat list"

abbreviation DecodeError :: "string \<Rightarrow> pyexc" where
  "DecodeError \<equiv> PyExc ''BgcodeDecodeError''"

section \<open>Text\<close>

definition codes :: "string \<Rightarrow> code_points" where
  "codes s = map of_char s"

text \<open>One step of the UTF-8 decoder: the code point, if any, and how many bytes it takes or spoils.\<close>

definition continuation :: "8 word \<Rightarrow> bool" where
  "continuation b \<longleftrightarrow> 128 \<le> unat b \<and> unat b < 192"

definition second_ok :: "nat \<Rightarrow> 8 word \<Rightarrow> bool" where
  "second_ok b0 b1 \<longleftrightarrow> continuation b1 \<and> (b0 = 224 \<longrightarrow> 160 \<le> unat b1) \<and> (b0 = 237 \<longrightarrow> unat b1 < 160)
     \<and> (b0 = 240 \<longrightarrow> 144 \<le> unat b1) \<and> (b0 = 244 \<longrightarrow> unat b1 < 144)"

fun utf8_step :: "8 word \<Rightarrow> bytes \<Rightarrow> nat option \<times> nat" where
  "utf8_step b bs =
     (let b0 = unat b in
      if b0 < 128 then (Some b0, 1)
      else if b0 < 194 \<or> 244 < b0 then (None, 1)
      else case bs of
          [] \<Rightarrow> (None, 1)
        | b1 # bs1 \<Rightarrow>
            if \<not> second_ok b0 b1 then (None, 1)
            else if b0 < 224 then (Some ((b0 - 192) * 64 + (unat b1 - 128)), 2)
            else (case bs1 of
                [] \<Rightarrow> (None, 2)
              | b2 # bs2 \<Rightarrow>
                  if \<not> continuation b2 then (None, 2)
                  else if b0 < 240 then (Some ((b0 - 224) * 4096 + (unat b1 - 128) * 64 + (unat b2 - 128)), 3)
                  else (case bs2 of
                      [] \<Rightarrow> (None, 3)
                    | b3 # _ \<Rightarrow>
                        if \<not> continuation b3 then (None, 3)
                        else (Some ((b0 - 240) * 262144 + (unat b1 - 128) * 4096 + (unat b2 - 128) * 64 + (unat b3 - 128)), 4))))"

lemma utf8_step_pos: "utf8_step b bs = (c, n) \<Longrightarrow> 0 < n"
  by (auto simp: Let_def split: if_splits list.splits)

declare utf8_step.simps [simp del]

text \<open>\<open>bytes.decode("utf-8")\<close>; \<open>None\<close> is \<open>UnicodeDecodeError\<close>. The second is \<open>errors="replace"\<close>.\<close>

function utf8_strict :: "bytes \<Rightarrow> code_points option" where
  "utf8_strict [] = Some []"
| "utf8_strict (b # bs) = (case utf8_step b bs of
      (None, n) \<Rightarrow> None
    | (Some c, n) \<Rightarrow> (case utf8_strict (drop n (b # bs)) of None \<Rightarrow> None | Some cs \<Rightarrow> Some (c # cs)))"
  by pat_completeness auto
termination by (relation "measure length") (auto dest: utf8_step_pos [OF sym])

function utf8_replace :: "bytes \<Rightarrow> code_points" where
  "utf8_replace [] = []"
| "utf8_replace (b # bs) = (case utf8_step b bs of
      (c, n) \<Rightarrow> (case c of None \<Rightarrow> 65533 | Some c \<Rightarrow> c) # utf8_replace (drop n (b # bs)))"
  by pat_completeness auto
termination by (relation "measure length") (auto dest: utf8_step_pos [OF sym])

definition decode_plain_text :: "bytes \<Rightarrow> code_points" where
  "decode_plain_text payload = (case utf8_strict payload of Some text \<Rightarrow> text | None \<Rightarrow> map unat payload)"

text \<open>\<open>str.splitlines\<close>, \<open>str.strip\<close> and \<open>in\<close> on code points.\<close>

definition line_break :: "nat \<Rightarrow> bool" where
  "line_break c \<longleftrightarrow> c \<in> {10, 11, 12, 13, 28, 29, 30, 133, 8232, 8233}"

fun splitlines_from :: "code_points \<Rightarrow> code_points \<Rightarrow> code_points list" where
  "splitlines_from cur [] = (if cur = [] then [] else [rev cur])"
| "splitlines_from cur (c # cs) =
     (if c = 13 \<and> cs \<noteq> [] \<and> hd cs = 10 then rev cur # splitlines_from [] (tl cs)
      else if line_break c then rev cur # splitlines_from [] cs
      else splitlines_from (c # cur) cs)"

definition splitlines :: "code_points \<Rightarrow> code_points list" where
  "splitlines text = splitlines_from [] text"

definition code_space :: "nat \<Rightarrow> bool" where
  "code_space c \<longleftrightarrow> c \<in> {9, 10, 11, 12, 13, 28, 29, 30, 31, 32, 133, 160, 5760, 8232, 8233, 8239, 8287, 12288}
     \<or> 8192 \<le> c \<and> c \<le> 8202"

definition code_strip :: "code_points \<Rightarrow> code_points" where
  "code_strip text = rev (dropWhile code_space (rev (dropWhile code_space text)))"

fun occurs :: "code_points \<Rightarrow> code_points \<Rightarrow> bool" where
  "occurs p [] \<longleftrightarrow> p = []"
| "occurs p (c # cs) \<longleftrightarrow> take (length p) (c # cs) = p \<or> occurs p cs"

section \<open>The container\<close>

fun le_nat :: "bytes \<Rightarrow> nat" where
  "le_nat [] = 0"
| "le_nat (b # bs) = unat b + 256 * le_nat bs"

definition py_slice :: "nat \<Rightarrow> nat \<Rightarrow> 'a list \<Rightarrow> 'a list" where
  "py_slice a b xs = take (b - a) (drop a xs)"

record bgcode_block =
  bb_block_type :: nat
  bb_compression :: nat
  bb_payload :: bytes
  bb_params :: bytes

text \<open>\<open>cd_heatshrink\<close> is \<open>None\<close> when \<open>heatshrinkpy\<close> cannot be imported.\<close>

record codecs =
  cd_inflate :: "bytes \<Rightarrow> string + bytes"
  cd_heatshrink :: "(nat \<Rightarrow> nat \<Rightarrow> bytes \<Rightarrow> string + bytes) option"

definition bgcode_magic :: bytes where
  "bgcode_magic = [0x47, 0x43, 0x44, 0x45]"

definition block_param_length :: "nat \<Rightarrow> nat option" where
  "block_param_length t = (if t \<le> 4 then Some 2 else if t = 5 then Some 6 else None)"

definition heatshrink_window :: "nat \<Rightarrow> (nat \<times> nat) option" where
  "heatshrink_window c = (if c = 2 then Some (11, 4) else if c = 3 then Some (12, 4) else None)"

definition decompress_block :: "codecs \<Rightarrow> nat \<Rightarrow> bytes \<Rightarrow> pyexc + bytes" where
  "decompress_block cd compression payload =
     (if compression = 0 then Inr payload
      else if compression = 1 then (case cd_inflate cd payload of
          Inl msg \<Rightarrow> Inl (DecodeError (''deflate block decode failed: '' @ msg)) | Inr out \<Rightarrow> Inr out)
      else case heatshrink_window compression of
          None \<Rightarrow> Inl (DecodeError (''unsupported bgcode compression type: '' @ nat_str compression))
        | Some (window, lookahead) \<Rightarrow> (case cd_heatshrink cd of
              None \<Rightarrow> Inl (DecodeError ''heatshrinkpy is required to decode Prusa bgcode blocks'')
            | Some f \<Rightarrow> (case f window lookahead payload of
                Inl msg \<Rightarrow> Inl (DecodeError (''heatshrink block decode failed: '' @ msg)) | Inr out \<Rightarrow> Inr out)))"

text \<open>One round of the block loop: the block at \<open>offset\<close> and the offset after it.\<close>

definition parse_block :: "codecs \<Rightarrow> nat \<Rightarrow> bytes \<Rightarrow> nat \<Rightarrow> pyexc + (bgcode_block \<times> nat)" where
  "parse_block cd checksum_type raw offset =
     (if offset + 8 > length raw then Inl (DecodeError ''truncated bgcode block header'')
      else
        let block_type = le_nat (py_slice offset (offset + 2) raw);
            compression = le_nat (py_slice (offset + 2) (offset + 4) raw);
            uncompressed_size = le_nat (py_slice (offset + 4) (offset + 8) raw)
        in if compression \<noteq> 0 \<and> offset + 12 > length raw
             then Inl (DecodeError ''truncated compressed bgcode block header'')
           else
             let compressed_size = (if compression = 0 then uncompressed_size
                   else le_nat (py_slice (offset + 8) (offset + 12) raw));
                 header_len = (if compression = 0 then 8 else 12)
             in case block_param_length block_type of
                 None \<Rightarrow> Inl (DecodeError (''unsupported bgcode block type: '' @ nat_str block_type))
               | Some params_len \<Rightarrow>
                   let params_start = offset + header_len;
                       data_start = params_start + params_len;
                       data_end = data_start + compressed_size;
                       checksum_len = (if checksum_type \<noteq> 0 then 4 else 0)
                   in if data_end + checksum_len > length raw
                        then Inl (DecodeError ''truncated bgcode block payload'')
                      else bindR (decompress_block cd compression (py_slice data_start data_end raw)) (\<lambda>payload.
                        Inr (\<lparr>bb_block_type = block_type, bb_compression = compression, bb_payload = payload,
                               bb_params = py_slice params_start data_start raw\<rparr>, data_end + checksum_len)))"

lemma parse_block_advances:
  "parse_block cd ck raw offset = Inr (b, next) \<Longrightarrow> offset < next \<and> next \<le> length raw"
  by (auto simp: parse_block_def Let_def bindR_eq_Inr split: if_splits option.splits)

function parse_blocks_from :: "codecs \<Rightarrow> nat \<Rightarrow> bytes \<Rightarrow> nat \<Rightarrow> pyexc + bgcode_block list" where
  "parse_blocks_from cd ck raw offset =
     (if offset \<ge> length raw then Inr []
      else bindR (parse_block cd ck raw offset) (\<lambda>(b, after).
        bindR (parse_blocks_from cd ck raw after) (\<lambda>bs. Inr (b # bs))))"
  by pat_completeness auto
termination
  by (relation "measure (\<lambda>(cd, ck, raw, offset). length raw - offset)") (auto dest!: parse_block_advances)

declare parse_blocks_from.simps [simp del]

definition parse_bgcode_blocks :: "codecs \<Rightarrow> bytes \<Rightarrow> pyexc + (bgcode_block list \<times> nat)" where
  "parse_bgcode_blocks cd raw =
     (if length raw < 10 then Inl (DecodeError ''bgcode payload too short'')
      else if take 4 raw \<noteq> bgcode_magic then Inl (DecodeError ''missing GCDE magic'')
      else if le_nat (py_slice 4 8 raw) \<noteq> 1
        then Inl (DecodeError (''unsupported bgcode version: '' @ nat_str (le_nat (py_slice 4 8 raw))))
      else let checksum_type = le_nat (py_slice 8 10 raw)
           in bindR (parse_blocks_from cd checksum_type raw 10) (\<lambda>blocks. Inr (blocks, checksum_type)))"

section \<open>MeatPack\<close>

record meatpack =
  mk_unbinarizing :: bool
  mk_no_spaces :: bool
  mk_command_active :: bool
  mk_command_count :: nat
  mk_full_char_queue :: nat
  mk_char_buffer :: "8 word option"
  mk_pending :: bytes
  mk_output :: bytes
  mk_add_space :: bool

definition new_meatpack :: meatpack where
  "new_meatpack = \<lparr>mk_unbinarizing = False, mk_no_spaces = False, mk_command_active = False, mk_command_count = 0,
     mk_full_char_queue = 0, mk_char_buffer = None, mk_pending = [], mk_output = [], mk_add_space = False\<rparr>"

definition handle_command :: "8 word \<Rightarrow> meatpack \<Rightarrow> meatpack" where
  "handle_command v m =
     (if v = 251 then m\<lparr>mk_unbinarizing := True\<rparr>
      else if v = 250 then m\<lparr>mk_unbinarizing := False\<rparr>
      else if v = 247 then m\<lparr>mk_no_spaces := True\<rparr>
      else if v = 246 then m\<lparr>mk_no_spaces := False\<rparr>
      else if v = 249 then m\<lparr>mk_unbinarizing := False, mk_no_spaces := False\<rparr>
      else m)"

definition get_char :: "bool \<Rightarrow> 8 word \<Rightarrow> 8 word" where
  "get_char no_spaces v =
     (if v \<le> 9 then 48 + v
      else if v = 10 then 46
      else if v = 11 then (if no_spaces then 69 else 32)
      else if v = 12 then 10
      else if v = 13 then 71
      else if v = 14 then 88
      else 0)"

definition unpack_chars :: "bool \<Rightarrow> 8 word \<Rightarrow> bool \<times> bool \<times> 8 word \<times> 8 word" where
  "unpack_chars no_spaces v =
     (let next_first = v AND 0x0F = 0x0F;
          next_second = v AND 0xF0 = 0xF0
      in (next_first, next_second, if next_first then 0 else get_char no_spaces (v AND 0x0F),
          if next_second then 0 else get_char no_spaces (drop_bit 4 v AND 0x0F)))"

definition handle_output_char :: "8 word \<Rightarrow> meatpack \<Rightarrow> meatpack" where
  "handle_output_char v m = m\<lparr>mk_pending := mk_pending m @ [v]\<rparr>"

definition handle_rx_char :: "8 word \<Rightarrow> meatpack \<Rightarrow> meatpack" where
  "handle_rx_char v m =
     (if mk_unbinarizing m then
        if 0 < mk_full_char_queue m then
          let m = handle_output_char v m;
              m = (case mk_char_buffer m of None \<Rightarrow> m | Some c \<Rightarrow> (handle_output_char c m)\<lparr>mk_char_buffer := None\<rparr>)
          in m\<lparr>mk_full_char_queue := mk_full_char_queue m - 1\<rparr>
        else (case unpack_chars (mk_no_spaces m) v of (next_first, next_second, first, second) \<Rightarrow>
          if next_first then
            if next_second then m\<lparr>mk_full_char_queue := mk_full_char_queue m + 2\<rparr>
            else m\<lparr>mk_full_char_queue := mk_full_char_queue m + 1, mk_char_buffer := Some second\<rparr>
          else let m = handle_output_char first m
               in if first = 10 then m
                  else if next_second then m\<lparr>mk_full_char_queue := mk_full_char_queue m + 1\<rparr>
                  else handle_output_char second m)
      else handle_output_char v m)"

definition gline_parameters :: bytes where
  "gline_parameters = map of_char ''XYZEFIJRSPWHCA''"

text \<open>One pending character: what it appends to the output, and the new \<open>add_space\<close>.\<close>

definition flush_char :: "8 word \<Rightarrow> bytes \<times> bool \<Rightarrow> bytes \<times> bool" where
  "flush_char v st = (case st of (out, add_space) \<Rightarrow>
     let new_line = (v = 71 \<and> (out = [] \<or> last out = 10));
         add_space = (if new_line then True else if v = 10 then False else add_space);
         spaced = (if \<not> new_line \<and> add_space \<and> (out = [] \<or> last out \<noteq> 32) \<and> v \<in> set gline_parameters
                   then out @ [32] else out)
     in (if v \<noteq> 10 \<or> out = [] \<or> last spaced \<noteq> 10 then spaced @ [v] else spaced, add_space))"

definition flush_pending_output :: "meatpack \<Rightarrow> meatpack" where
  "flush_pending_output m = (case fold flush_char (mk_pending m) (mk_output m, mk_add_space m) of
     (out, add_space) \<Rightarrow> m\<lparr>mk_pending := [], mk_output := out, mk_add_space := add_space\<rparr>)"

definition meatpack_byte :: "8 word \<Rightarrow> meatpack \<Rightarrow> meatpack" where
  "meatpack_byte v m = flush_pending_output
     (if v = 0xFF then
        if 0 < mk_command_count m then m\<lparr>mk_command_active := True, mk_command_count := 0\<rparr>
        else m\<lparr>mk_command_count := mk_command_count m + 1\<rparr>
      else if mk_command_active m then (handle_command v m)\<lparr>mk_command_active := False\<rparr>
      else if 0 < mk_command_count m then handle_rx_char v ((handle_rx_char 0xFF m)\<lparr>mk_command_count := 0\<rparr>)
      else handle_rx_char v m)"

definition decode_meatpack :: "bytes \<Rightarrow> bytes" where
  "decode_meatpack payload =
     (let m = fold meatpack_byte payload new_meatpack
      in mk_output (flush_pending_output (if 0 < mk_command_count m then handle_rx_char 0xFF m else m)))"

section \<open>Blocks to text\<close>

definition decode_metadata_block :: "bgcode_block \<Rightarrow> pyexc + code_points" where
  "decode_metadata_block block =
     (if length (bb_params block) \<noteq> 2 then Inl (DecodeError ''metadata block parameters malformed'')
      else if le_nat (bb_params block) \<noteq> 0
        then Inl (DecodeError (''unsupported metadata encoding: '' @ nat_str (le_nat (bb_params block))))
      else Inr (concat (map (\<lambda>line. (if take 1 line = codes '';'' then line else codes ''; '' @ line) @ [10])
             (filter (\<lambda>line. line \<noteq> []) (map code_strip (splitlines (utf8_replace (bb_payload block))))))))"

definition decode_gcode_block :: "bgcode_block \<Rightarrow> pyexc + code_points" where
  "decode_gcode_block block =
     (if length (bb_params block) \<noteq> 2 then Inl (DecodeError ''gcode block parameters malformed'')
      else let encoding = le_nat (bb_params block)
           in if encoding = 0 then Inr (decode_plain_text (bb_payload block))
              else if encoding = 1 \<or> encoding = 2 then Inr (decode_plain_text (decode_meatpack (bb_payload block)))
              else Inl (DecodeError (''unsupported gcode encoding: '' @ nat_str encoding)))"

text \<open>The loop over the blocks: the chunks of metadata and of G-code, in order.\<close>

fun decode_blocks :: "bgcode_block list \<Rightarrow> pyexc + (code_points list \<times> code_points list)" where
  "decode_blocks [] = Inr ([], [])"
| "decode_blocks (b # bs) =
     (if bb_block_type b \<in> {0, 2, 3, 4} then
        bindR (decode_metadata_block b) (\<lambda>chunk. bindR (decode_blocks bs) (\<lambda>(meta, gcode). Inr (chunk # meta, gcode)))
      else if bb_block_type b = 1 then
        bindR (decode_gcode_block b) (\<lambda>chunk. bindR (decode_blocks bs) (\<lambda>(meta, gcode). Inr (meta, chunk # gcode)))
      else decode_blocks bs)"

definition layer_markers :: "code_points list" where
  "layer_markers = map codes ['';LAYER_CHANGE'', '';LAYER:'', '';TYPE:'', '';Z:'']"

definition decode_bgcode_text :: "codecs \<Rightarrow> bytes \<Rightarrow> pyexc + code_points" where
  "decode_bgcode_text cd raw =
     bindR (parse_bgcode_blocks cd raw) (\<lambda>(blocks, checksum_type).
       if checksum_type \<noteq> 0 \<and> checksum_type \<noteq> 1
       then Inl (DecodeError (''unsupported bgcode checksum type: '' @ nat_str checksum_type))
       else bindR (decode_blocks blocks) (\<lambda>(metadata_chunks, gcode_chunks).
         if gcode_chunks = [] then Inl (DecodeError ''bgcode contains no gcode blocks'')
         else if \<not> list_ex (\<lambda>marker. occurs marker (concat gcode_chunks)) layer_markers
           then Inl (DecodeError ''bgcode decode did not yield canonical layer/type markers'')
         else Inr (concat metadata_chunks @ concat gcode_chunks)))"

text \<open>\<open>Path(p).suffix.lower()\<close> on a POSIX path.\<close>

definition path_name :: "string \<Rightarrow> string" where
  "path_name p = (case filter (\<lambda>c. c \<noteq> [] \<and> c \<noteq> ''.'') (split_on (CHR ''/'') p) of [] \<Rightarrow> [] | cs \<Rightarrow> last cs)"

definition path_suffix :: "string \<Rightarrow> string" where
  "path_suffix p =
     (let name = path_name p;
          ext = rev (takeWhile (\<lambda>c. c \<noteq> CHR ''.'') (rev name))
      in if ext = [] \<or> length name \<le> length ext + 1 then [] else CHR ''.'' # ext)"

definition normalize_prusa_print_text :: "codecs \<Rightarrow> string option \<Rightarrow> bytes option \<Rightarrow> pyexc + code_points option" where
  "normalize_prusa_print_text cd file_path raw_bytes = (case raw_bytes of
      None \<Rightarrow> Inr None
    | Some raw \<Rightarrow>
        if raw = [] then Inr None
        else
          let suffix = str_lower (path_suffix (case file_path of None \<Rightarrow> [] | Some p \<Rightarrow> p))
          in if suffix = ''.bgcode'' \<or> suffix = ''.bgc'' \<or> take 4 raw = bgcode_magic
             then bindR (decode_bgcode_text cd raw) (\<lambda>text. Inr (Some text))
             else Inr (Some (decode_plain_text raw)))"

section \<open>The grammar of the container\<close>

fun to_le :: "nat \<Rightarrow> nat \<Rightarrow> bytes" where
  "to_le 0 n = []"
| "to_le (Suc k) n = of_nat n # to_le k (n div 256)"

lemma length_to_le [simp]: "length (to_le k n) = k"
  by (induction k arbitrary: n) simp_all

lemma unat_of_nat_byte [simp]: "unat (of_nat n :: 8 word) = n mod 256"
  by (simp add: unat_of_nat)

lemma byte_less [simp]: "unat (b :: 8 word) < 256"
  using unsigned_less [of b, where 'a = nat] by simp

lemma le_nat_to_le: "n < 256 ^ k \<Longrightarrow> le_nat (to_le k n) = n"
proof (induction k arbitrary: n)
  case (Suc k)
  then have "n div 256 < 256 ^ k" by (simp add: less_mult_imp_div_less mult.commute)
  with Suc.IH show ?case by simp
qed simp

lemma to_le_le_nat: "to_le (length bs) (le_nat bs) = bs"
proof (induction bs)
  case (Cons b bs)
  have "(256 :: 8 word) = 0" by simp
  then have "of_nat (unat b + 256 * le_nat bs) = b" by (simp only: of_nat_add of_nat_mult of_nat_numeral) simp
  then show ?case using Cons byte_less [of b] by simp
qed simp

lemma le_nat_less: "le_nat bs < 256 ^ length bs"
proof (induction bs)
  case (Cons b bs)
  then have "256 * Suc (le_nat bs) \<le> 256 * 256 ^ length bs" by (intro mult_le_mono) simp_all
  then have "256 + 256 * le_nat bs \<le> 256 ^ length (b # bs)" by simp
  with byte_less [of b] show ?case unfolding le_nat.simps by linarith
qed simp

lemma slice_eqI: "xs = pre @ mid @ rest \<Longrightarrow> length pre = a \<Longrightarrow> b = a + length mid \<Longrightarrow> py_slice a b xs = mid"
  by (simp add: py_slice_def)

lemma drop_slice: "a \<le> b \<Longrightarrow> b \<le> length xs \<Longrightarrow> drop a xs = py_slice a b xs @ drop b xs"
  using append_take_drop_id [of "b - a" "drop a xs"] by (simp add: py_slice_def)

lemma length_slice [simp]: "b \<le> length xs \<Longrightarrow> length (py_slice a b xs) = b - a"
  by (simp add: py_slice_def)

text \<open>
  A block as it is written: the block, the size field, the stored bytes and the checksum field, which the
  decoder skips.
\<close>

record written =
  wr_block :: bgcode_block
  wr_size :: nat
  wr_data :: bytes
  wr_checksum :: bytes

definition encode_block :: "nat \<Rightarrow> written \<Rightarrow> bytes" where
  "encode_block ck w = to_le 2 (bb_block_type (wr_block w)) @ to_le 2 (bb_compression (wr_block w)) @ to_le 4 (wr_size w)
     @ (if bb_compression (wr_block w) = 0 then [] else to_le 4 (length (wr_data w)))
     @ bb_params (wr_block w) @ wr_data w @ wr_checksum w"

definition well_written :: "codecs \<Rightarrow> nat \<Rightarrow> written \<Rightarrow> bool" where
  "well_written cd ck w \<longleftrightarrow> block_param_length (bb_block_type (wr_block w)) = Some (length (bb_params (wr_block w)))
     \<and> bb_compression (wr_block w) < 65536 \<and> wr_size w < 4294967296 \<and> length (wr_data w) < 4294967296
     \<and> (bb_compression (wr_block w) = 0 \<longrightarrow> wr_size w = length (wr_data w))
     \<and> decompress_block cd (bb_compression (wr_block w)) (wr_data w) = Inr (bb_payload (wr_block w))
     \<and> length (wr_checksum w) = (if ck = 0 then 0 else 4)"

definition container :: "nat \<Rightarrow> written list \<Rightarrow> bytes" where
  "container ck ws = bgcode_magic @ to_le 4 1 @ to_le 2 ck @ concat (map (encode_block ck) ws)"

lemma parse_block_encoded:
  assumes "well_written cd ck w" and "length pre = offset"
  shows "parse_block cd ck (pre @ encode_block ck w @ rest) offset = Inr (wr_block w, offset + length (encode_block ck w))"
proof -
  let ?b = "wr_block w"
  let ?raw = "pre @ encode_block ck w @ rest"
  let ?raw_data = "bb_compression ?b = 0"
  have type: "bb_block_type ?b < 65536"
    using assms(1) by (auto simp: well_written_def block_param_length_def split: if_splits)
  have params: "block_param_length (bb_block_type ?b) = Some (length (bb_params ?b))"
    and comp: "bb_compression ?b < 65536" and size: "wr_size w < 4294967296" "length (wr_data w) < 4294967296"
    and stored: "?raw_data \<Longrightarrow> wr_size w = length (wr_data w)"
    and data: "decompress_block cd (bb_compression ?b) (wr_data w) = Inr (bb_payload ?b)"
    and sum: "length (wr_checksum w) = (if ck = 0 then 0 else 4)"
    using assms(1) by (simp_all add: well_written_def)
  let ?t = "to_le 2 (bb_block_type ?b)" and ?c = "to_le 2 (bb_compression ?b)" and ?u = "to_le 4 (wr_size w)"
    and ?z = "to_le 4 (length (wr_data w))"
  let ?head = "pre @ ?t @ ?c @ ?u @ (if ?raw_data then [] else ?z)"
  let ?h = "if ?raw_data then 8 else 12"
  have enc_def: "encode_block ck w = ?t @ ?c @ ?u @ (if ?raw_data then [] else ?z) @ bb_params ?b @ wr_data w @ wr_checksum w"
    by (simp add: encode_block_def)
  have t: "py_slice offset (offset + 2) ?raw = ?t"
    by (rule slice_eqI [where pre = pre]) (simp_all add: enc_def assms(2))
  have c: "py_slice (offset + 2) (offset + 4) ?raw = ?c"
    by (rule slice_eqI [where pre = "pre @ ?t"]) (simp_all add: enc_def assms(2))
  have u: "py_slice (offset + 4) (offset + 8) ?raw = ?u"
    by (rule slice_eqI [where pre = "pre @ ?t @ ?c"]) (simp_all add: enc_def assms(2))
  have z: "py_slice (offset + 8) (offset + 12) ?raw = ?z" if "\<not> ?raw_data"
    using that by (intro slice_eqI [where pre = "pre @ ?t @ ?c @ ?u"]) (simp_all add: enc_def assms(2))
  have p: "py_slice (offset + ?h) (offset + ?h + length (bb_params ?b)) ?raw = bb_params ?b"
    by (rule slice_eqI [where pre = ?head]) (simp_all add: enc_def assms(2))
  have d: "py_slice (offset + ?h + length (bb_params ?b)) (offset + ?h + length (bb_params ?b) + length (wr_data w)) ?raw = wr_data w"
    by (rule slice_eqI [where pre = "?head @ bb_params ?b"]) (simp_all add: enc_def assms(2))
  have len: "length ?raw = offset + ?h + length (bb_params ?b) + length (wr_data w) + length (wr_checksum w) + length rest"
    and enc: "length (encode_block ck w) = ?h + length (bb_params ?b) + length (wr_data w) + length (wr_checksum w)"
    using assms(2) by (simp_all add: enc_def)
  show ?thesis
    unfolding parse_block_def t c u len enc
    using type comp size params data sum stored z p d
    by (cases ?raw_data) (simp_all add: le_nat_to_le Let_def)
qed

lemma parse_block_written:
  assumes "parse_block cd ck raw offset = Inr (b, after)"
  obtains w where "well_written cd ck w" "wr_block w = b" "drop offset raw = encode_block ck w @ drop after raw"
    "after \<le> length raw"
proof -
  let ?t = "py_slice offset (offset + 2) raw" and ?c = "py_slice (offset + 2) (offset + 4) raw"
    and ?u = "py_slice (offset + 4) (offset + 8) raw" and ?z = "py_slice (offset + 8) (offset + 12) raw"
  let ?plain = "le_nat ?c = 0"
  let ?h = "if ?plain then 8 else 12"
  let ?n = "if ?plain then le_nat ?u else le_nat ?z"
  from assms obtain params_len where pl: "block_param_length (le_nat ?t) = Some params_len"
    and hdr: "offset + ?h \<le> length raw"
    by (auto simp: parse_block_def Let_def split: if_splits option.splits)
  let ?p = "offset + ?h" and ?d = "offset + ?h + params_len"
  let ?e = "?d + ?n"
  let ?k = "if ck = 0 then 0 else 4"
  from assms pl have fits: "?e + ?k \<le> length raw"
    by (auto simp: parse_block_def Let_def split: if_splits)
  have b: "\<exists>payload. decompress_block cd (le_nat ?c) (py_slice ?d ?e raw) = Inr payload
      \<and> b = \<lparr>bb_block_type = le_nat ?t, bb_compression = le_nat ?c, bb_payload = payload, bb_params = py_slice ?p ?d raw\<rparr>
      \<and> after = ?e + ?k"
    using assms pl by (auto simp: parse_block_def Let_def bindR_eq_Inr split: if_splits)
  then obtain payload where payload: "decompress_block cd (le_nat ?c) (py_slice ?d ?e raw) = Inr payload"
    and b: "b = \<lparr>bb_block_type = le_nat ?t, bb_compression = le_nat ?c, bb_payload = payload, bb_params = py_slice ?p ?d raw\<rparr>"
    and after: "after = ?e + ?k" by blast
  let ?w = "\<lparr>wr_block = b, wr_size = le_nat ?u, wr_data = py_slice ?d ?e raw, wr_checksum = py_slice ?e (?e + ?k) raw\<rparr>"
  have len: "length ?t = 2" "length ?c = 2" "length ?u = 4" "\<not> ?plain \<Longrightarrow> length ?z = 4"
    using hdr by (simp_all split: if_splits)
  have sizes: "le_nat ?c < 65536" "le_nat ?u < 4294967296" "\<not> ?plain \<Longrightarrow> le_nat ?z < 4294967296"
    using le_nat_less [of ?c] le_nat_less [of ?u] le_nat_less [of ?z] len by simp_all
  have bytes: "to_le 2 (le_nat ?t) = ?t" "to_le 2 (le_nat ?c) = ?c" "to_le 4 (le_nat ?u) = ?u"
      "\<not> ?plain \<Longrightarrow> to_le 4 (le_nat ?z) = ?z"
    using to_le_le_nat [of ?t] to_le_le_nat [of ?c] to_le_le_nat [of ?u] to_le_le_nat [of ?z] len by simp_all
  have n: "length (py_slice ?d ?e raw) = ?n" "length (py_slice ?p ?d raw) = params_len" "length (py_slice ?e (?e + ?k) raw) = ?k"
    using fits by simp_all
  have "well_written cd ck ?w"
    using pl sizes payload n by (simp add: well_written_def b split: if_splits)
  moreover have "drop offset raw = encode_block ck ?w @ drop after raw"
  proof -
    have "drop offset raw = ?t @ ?c @ ?u @ drop (offset + 8) raw"
      using hdr drop_slice [of offset "offset + 2" raw] drop_slice [of "offset + 2" "offset + 4" raw]
        drop_slice [of "offset + 4" "offset + 8" raw] by (simp split: if_splits)
    also have "drop (offset + 8) raw = (if ?plain then [] else ?z) @ drop ?p raw"
      using hdr drop_slice [of "offset + 8" "offset + 12" raw] by (cases ?plain) simp_all
    also have "drop ?p raw = py_slice ?p ?d raw @ py_slice ?d ?e raw @ py_slice ?e (?e + ?k) raw @ drop after raw"
      using fits after drop_slice [of ?p ?d raw] drop_slice [of ?d ?e raw] drop_slice [of ?e "?e + ?k" raw] by simp
    finally show ?thesis using bytes n by (cases ?plain) (simp_all add: encode_block_def b)
  qed
  ultimately show thesis using that [of ?w] fits after by simp
qed

lemma parse_blocks_encoded:
  assumes "\<forall>w\<in>set ws. well_written cd ck w" and "length pre = offset"
  shows "parse_blocks_from cd ck (pre @ concat (map (encode_block ck) ws)) offset = Inr (map wr_block ws)"
  using assms
proof (induction ws arbitrary: pre offset)
  case Nil
  then show ?case by (simp add: parse_blocks_from.simps)
next
  case (Cons w ws)
  let ?rest = "concat (map (encode_block ck) ws)"
  have "parse_block cd ck (pre @ encode_block ck w @ ?rest) offset = Inr (wr_block w, offset + length (encode_block ck w))"
    using Cons.prems by (intro parse_block_encoded) simp_all
  moreover have "parse_blocks_from cd ck ((pre @ encode_block ck w) @ ?rest) (offset + length (encode_block ck w))
      = Inr (map wr_block ws)"
    using Cons.prems by (intro Cons.IH) simp_all
  moreover have "offset < length (pre @ encode_block ck w @ ?rest)"
    using Cons.prems by (simp add: encode_block_def)
  ultimately show ?case by (subst parse_blocks_from.simps) simp
qed

lemma parse_blocks_written:
  assumes "parse_blocks_from cd ck raw offset = Inr bs" and "offset \<le> length raw"
  shows "\<exists>ws. (\<forall>w\<in>set ws. well_written cd ck w) \<and> map wr_block ws = bs
    \<and> drop offset raw = concat (map (encode_block ck) ws)"
  using assms
proof (induction cd ck raw offset arbitrary: bs rule: parse_blocks_from.induct)
  case (1 cd ck raw offset)
  show ?case
  proof (cases "length raw \<le> offset")
    case True
    then show ?thesis using "1.prems" by (intro exI [of _ "[]"]) (simp add: parse_blocks_from.simps)
  next
    case False
    then obtain b after bs' where b: "parse_block cd ck raw offset = Inr (b, after)"
      and bs': "parse_blocks_from cd ck raw after = Inr bs'" "bs = b # bs'"
      using "1.prems"(1) by (subst (asm) parse_blocks_from.simps) (auto simp: bindR_eq_Inr)
    obtain w where w: "well_written cd ck w" "wr_block w = b" "drop offset raw = encode_block ck w @ drop after raw"
      "after \<le> length raw" using parse_block_written [OF b] by blast
    from "1.IH" [OF False b refl bs'(1) w(4)] obtain ws where
      "\<forall>w\<in>set ws. well_written cd ck w" "map wr_block ws = bs'" "drop after raw = concat (map (encode_block ck) ws)" by blast
    with w bs'(2) show ?thesis by (intro exI [of _ "w # ws"]) simp
  qed
qed

lemma parse_container:
  assumes "ck < 65536" and "\<forall>w\<in>set ws. well_written cd ck w"
  shows "parse_bgcode_blocks cd (container ck ws) = Inr (map wr_block ws, ck)"
proof -
  let ?raw = "container ck ws"
  let ?head = "bgcode_magic @ to_le 4 1 @ to_le 2 ck"
  have raw: "?raw = ?head @ concat (map (encode_block ck) ws)" by (simp add: container_def)
  have head: "length ?head = 10" by (simp add: bgcode_magic_def)
  have "py_slice 4 8 ?raw = to_le 4 1"
    by (rule slice_eqI [where pre = bgcode_magic]) (simp_all add: raw bgcode_magic_def)
  moreover have "py_slice 8 10 ?raw = to_le 2 ck"
    by (rule slice_eqI [where pre = "bgcode_magic @ to_le 4 1"]) (simp_all add: raw bgcode_magic_def)
  moreover have "parse_blocks_from cd ck ?raw 10 = Inr (map wr_block ws)"
    using parse_blocks_encoded [OF assms(2) head] by (simp add: raw)
  ultimately show ?thesis
    using assms(1) head by (simp add: parse_bgcode_blocks_def le_nat_to_le raw bgcode_magic_def)
qed

text \<open>
  C23: the parser and the grammar of the container: for every checksum type that fits its field, a byte string
  parses to some blocks if and only if it is the magic, version 1, the checksum type and these blocks, each
  written with its sizes, parameters, stored bytes and checksum field, and nothing else.
\<close>

theorem bgcode_grammar:
  "parse_bgcode_blocks cd raw = Inr (blocks, ck) \<longleftrightarrow>
     ck < 65536 \<and> (\<exists>ws. list_all (well_written cd ck) ws \<and> raw = container ck ws \<and> blocks = map wr_block ws)"
proof
  assume parse: "parse_bgcode_blocks cd raw = Inr (blocks, ck)"
  then have len: "10 \<le> length raw" and magic: "take 4 raw = bgcode_magic" and version: "le_nat (py_slice 4 8 raw) = 1"
    and ck: "ck = le_nat (py_slice 8 10 raw)" and bs: "parse_blocks_from cd ck raw 10 = Inr blocks"
    by (auto simp: parse_bgcode_blocks_def Let_def bindR_eq_Inr split: if_splits)
  from parse_blocks_written [OF bs len] obtain ws where ws: "\<forall>w\<in>set ws. well_written cd ck w" "map wr_block ws = blocks"
    "drop 10 raw = concat (map (encode_block ck) ws)" by blast
  have "raw = take 4 raw @ py_slice 4 8 raw @ py_slice 8 10 raw @ drop 10 raw"
    using len drop_slice [of 4 8 raw] drop_slice [of 8 10 raw] append_take_drop_id [of 4 raw] by simp
  moreover have "py_slice 4 8 raw = to_le 4 1" "py_slice 8 10 raw = to_le 2 ck" "ck < 65536"
    using len version ck to_le_le_nat [of "py_slice 4 8 raw"] to_le_le_nat [of "py_slice 8 10 raw"]
      le_nat_less [of "py_slice 8 10 raw"] by simp_all
  ultimately show "ck < 65536 \<and> (\<exists>ws. list_all (well_written cd ck) ws \<and> raw = container ck ws \<and> blocks = map wr_block ws)"
    using ws magic by (auto simp: container_def list_all_iff intro!: exI [of _ ws])
next
  assume "ck < 65536 \<and> (\<exists>ws. list_all (well_written cd ck) ws \<and> raw = container ck ws \<and> blocks = map wr_block ws)"
  then show "parse_bgcode_blocks cd raw = Inr (blocks, ck)"
    using parse_container [of ck _ cd] by (auto simp: list_all_iff)
qed

end
