(* ===== verification/Meatpack.thy ===== *)
theory Meatpack
  imports Bgcode
begin

text \<open>
  What the MeatPack decoder of \<open>Bgcode\<close> promises: bounds and layout of its output on every input, and that it
  inverts the reference encoder (\<open>meatpack_encode\<close>, two characters per byte with literals for the characters
  that have no code), up to the normal form of G-code text.
\<close>

unbundle bit_operations_syntax

section \<open>The size of the output\<close>

lemma flush_char_length: "flush_char v (out, sp) = (out', sp') \<Longrightarrow> length out' \<le> length out + 2"
  by (auto simp: flush_char_def Let_def split: if_splits)

lemma flush_length: "length (fst (fold flush_char vs (out, sp))) \<le> length out + 2 * length vs"
proof (induction vs arbitrary: out sp)
  case (Cons v vs)
  obtain out' sp' where f: "flush_char v (out, sp) = (out', sp')" by fastforce
  show ?case using Cons.IH [of out' sp'] flush_char_length [OF f] by (simp add: f)
qed simp

text \<open>Every byte pays for two characters, each with a space before it; what is held back is paid already.\<close>

definition debt :: "meatpack \<Rightarrow> nat" where
  "debt m = length (mk_output m) + 2 * length (mk_pending m) + (if mk_char_buffer m = None then 0 else 2) + 4 * mk_command_count m"

lemma rx_debt: "debt (handle_rx_char v m) \<le> debt m + 4"
  by (auto simp: debt_def handle_rx_char_def handle_output_char_def Let_def split: prod.splits option.splits)

lemma flush_debt: "debt (flush_pending_output m) \<le> debt m"
  using flush_length [of "mk_pending m" "mk_output m" "mk_add_space m"]
  by (auto simp: debt_def flush_pending_output_def case_prod_unfold)

lemma command_debt: "debt (handle_command v m) = debt m"
  by (simp add: handle_command_def debt_def)

lemma rx_command_count [simp]: "mk_command_count (handle_rx_char v m) = mk_command_count m"
  by (auto simp: handle_rx_char_def handle_output_char_def Let_def split: prod.splits option.splits)

lemma byte_debt: "debt (meatpack_byte v m) \<le> debt m + 4"
proof -
  have "debt ((handle_rx_char 0xFF m)\<lparr>mk_command_count := 0\<rparr>) \<le> debt m" if "0 < mk_command_count m"
    using rx_debt [of "0xFF" m] that by (simp add: debt_def)
  then have "debt (handle_rx_char v ((handle_rx_char 0xFF m)\<lparr>mk_command_count := 0\<rparr>)) \<le> debt m + 4" if "0 < mk_command_count m"
    using rx_debt [of v "(handle_rx_char 0xFF m)\<lparr>mk_command_count := 0\<rparr>"] that by fastforce
  moreover have "debt ((handle_command v m)\<lparr>mk_command_active := False\<rparr>) = debt m"
    using command_debt [of v m] by (simp add: debt_def)
  moreover have "debt (m\<lparr>mk_command_active := True, mk_command_count := 0\<rparr>) \<le> debt m"
    and "debt (m\<lparr>mk_command_count := mk_command_count m + 1\<rparr>) = debt m + 4" by (simp_all add: debt_def)
  ultimately show ?thesis
    unfolding meatpack_byte_def using rx_debt [of v m] by (intro order_trans [OF flush_debt]) auto
qed

lemma bytes_debt: "debt (fold meatpack_byte vs m) \<le> debt m + 4 * length vs"
proof (induction vs arbitrary: m)
  case (Cons v vs)
  show ?case using byte_debt [of v m] Cons.IH [of "meatpack_byte v m"] by simp
qed simp

text \<open>
  the MeatPack decoder never produces more than four bytes for each byte it reads: two characters, each
  with at most one inserted space.
\<close>

theorem meatpack_output_bound: "length (decode_meatpack payload) \<le> 4 * length payload"
proof -
  let ?m = "fold meatpack_byte payload new_meatpack"
  let ?m' = "if 0 < mk_command_count ?m then handle_rx_char 0xFF ?m else ?m"
  have "debt ?m \<le> 4 * length payload"
    using bytes_debt [of payload new_meatpack] by (simp add: debt_def new_meatpack_def)
  moreover have "length (mk_output ?m') + 2 * length (mk_pending ?m') \<le> debt ?m"
  proof (cases "0 < mk_command_count ?m")
    case True
    have "length (mk_output ?m') + 2 * length (mk_pending ?m') + 4 * mk_command_count ?m \<le> debt ?m'"
      using True by (simp add: debt_def)
    with True rx_debt [of "0xFF" ?m] show ?thesis by simp
  qed (simp add: debt_def)
  moreover have "length (mk_output (flush_pending_output ?m')) \<le> length (mk_output ?m') + 2 * length (mk_pending ?m')"
    using flush_length [of "mk_pending ?m'" "mk_output ?m'" "mk_add_space ?m'"]
    by (simp add: flush_pending_output_def case_prod_unfold)
  ultimately show ?thesis unfolding decode_meatpack_def Let_def by linarith
qed

section \<open>The layout of the output\<close>

text \<open>The line that is being written, and the layout: no blank line, and parameters of G lines set apart.\<close>

definition current_line :: "bytes \<Rightarrow> bytes" where
  "current_line out = rev (takeWhile (\<lambda>c. c \<noteq> 10) (rev out))"

definition in_g_line :: "bytes \<Rightarrow> bool" where
  "in_g_line out \<longleftrightarrow> current_line out \<noteq> [] \<and> hd (current_line out) = 71"

definition tidy :: "bytes \<Rightarrow> bool" where
  "tidy out \<longleftrightarrow> (\<forall>i<length out.
     (out ! i = 10 \<longrightarrow> 0 < i \<longrightarrow> out ! (i - 1) \<noteq> 10)
     \<and> (out ! i \<in> set gline_parameters \<longrightarrow> in_g_line (take i out) \<longrightarrow> out ! (i - 1) = 32))"

lemma current_line_snoc: "current_line (out @ [c]) = (if c = 10 then [] else current_line out @ [c])"
  by (simp add: current_line_def)

lemma current_line_Nil: "current_line out = [] \<longleftrightarrow> out = [] \<or> last out = 10"
  by (cases out rule: rev_cases) (auto simp: current_line_def)

lemma in_g_line_snoc: "in_g_line (out @ [c]) \<longleftrightarrow> c \<noteq> 10 \<and> (in_g_line out \<or> (out = [] \<or> last out = 10) \<and> c = 71)"
proof (cases "current_line out = []")
  case True
  then show ?thesis using current_line_Nil [of out] by (auto simp: in_g_line_def current_line_snoc)
next
  case False
  then show ?thesis using current_line_Nil [of out] by (auto simp: in_g_line_def current_line_snoc)
qed

lemma in_g_line_start: "out = [] \<or> last out = 10 \<Longrightarrow> \<not> in_g_line out"
  by (simp add: in_g_line_def current_line_Nil)

lemma tidy_snoc: "tidy (out @ [c]) \<longleftrightarrow> tidy out
    \<and> (c = 10 \<longrightarrow> out \<noteq> [] \<longrightarrow> last out \<noteq> 10) \<and> (c \<in> set gline_parameters \<longrightarrow> in_g_line out \<longrightarrow> last out = 32)"
proof (cases "out = []")
  case True
  then show ?thesis by (simp add: tidy_def in_g_line_start)
next
  case False
  then have last: "last out = out ! (length out - 1)" "(out @ [c]) ! (length out - 1) = out ! (length out - 1)"
    by (simp_all add: last_conv_nth nth_append)
  have "(out @ [c]) ! (i - 1) = out ! (i - 1)" if "i < length out" for i
    using that by (simp add: nth_append less_imp_diff_less)
  with False last show ?thesis
    by (auto simp: tidy_def less_Suc_eq nth_append)
qed

lemma gline_parameter_facts: "v \<in> set gline_parameters \<Longrightarrow> v \<noteq> 10 \<and> v \<noteq> 32 \<and> v \<noteq> 71"
  by (auto simp: gline_parameters_def)

lemma flush_char_tidy:
  assumes "flush_char v (out, sp) = (out', sp')" and "tidy out" and "sp = in_g_line out"
  shows "tidy out' \<and> sp' = in_g_line out'"
proof -
  let ?start = "out = [] \<or> last out = 10"
  consider (g) "v = 71" "?start" | (nl) "v = 10" | (other) "v \<noteq> 10" "\<not> (v = 71 \<and> ?start)" by blast
  then show ?thesis
  proof cases
    case g
    then have "out' = out @ [71]" "sp' = True" "(71 :: 8 word) \<notin> set gline_parameters"
      using assms(1) by (auto simp: flush_char_def Let_def gline_parameters_def)
    with g assms(2) show ?thesis by (auto simp: tidy_snoc in_g_line_snoc)
  next
    case nl
    then have "sp' = False" "out' = (if out = [] \<or> last out \<noteq> 10 then out @ [10] else out)"
      using assms(1) by (auto simp: flush_char_def Let_def split: if_splits)
    moreover have "(10 :: 8 word) \<notin> set gline_parameters" using gline_parameter_facts by blast
    ultimately show ?thesis using assms(2) by (auto simp: tidy_snoc in_g_line_snoc in_g_line_start)
  next
    case other
    let ?spaced = "if sp \<and> (out = [] \<or> last out \<noteq> 32) \<and> v \<in> set gline_parameters then out @ [32] else out"
    have out': "out' = ?spaced @ [v]" "sp' = sp"
      using assms(1) other by (auto simp: flush_char_def Let_def split: if_splits)
    have "(32 :: 8 word) \<notin> set gline_parameters" using gline_parameter_facts by blast
    with assms(2,3) have spaced: "tidy ?spaced" "in_g_line ?spaced = sp" by (auto simp: tidy_snoc in_g_line_snoc)
    have "last ?spaced = 32" if "v \<in> set gline_parameters" "in_g_line ?spaced"
      using that spaced assms(3) in_g_line_start [of out] by auto
    moreover have "in_g_line (?spaced @ [v]) = sp"
      using other spaced(2) in_g_line_start [of out] assms(3) unfolding in_g_line_snoc by auto
    ultimately show ?thesis using spaced(1) other(1) by (simp add: out' tidy_snoc)
  qed
qed

lemma flush_tidy:
  "tidy out \<Longrightarrow> sp = in_g_line out \<Longrightarrow> fold flush_char vs (out, sp) = (out', sp') \<Longrightarrow> tidy out' \<and> sp' = in_g_line out'"
proof (induction vs arbitrary: out sp)
  case (Cons v vs)
  obtain o1 s1 where f: "flush_char v (out, sp) = (o1, s1)" by fastforce
  from flush_char_tidy [OF f Cons.prems(1,2)] Cons.IH [of o1 s1] Cons.prems(3) show ?case by (simp add: f)
qed simp

definition tidy_state :: "meatpack \<Rightarrow> bool" where
  "tidy_state m \<longleftrightarrow> tidy (mk_output m) \<and> mk_add_space m = in_g_line (mk_output m)"

lemma flush_tidy_state: "tidy_state m \<Longrightarrow> tidy_state (flush_pending_output m)"
  by (auto simp: tidy_state_def flush_pending_output_def split: prod.splits dest: flush_tidy)

lemma rx_tidy_state [simp]: "tidy_state (handle_rx_char v m) = tidy_state m"
  by (simp add: handle_rx_char_def handle_output_char_def tidy_state_def Let_def split: prod.splits option.splits)

lemma byte_tidy_state: "tidy_state m \<Longrightarrow> tidy_state (meatpack_byte v m)"
proof -
  assume m: "tidy_state m"
  have "tidy_state ((handle_command v m)\<lparr>mk_command_active := False\<rparr>)" "tidy_state ((handle_rx_char w m)\<lparr>mk_command_count := 0\<rparr>)"
    "tidy_state (m\<lparr>mk_command_active := b, mk_command_count := n\<rparr>)" "tidy_state (m\<lparr>mk_command_count := n\<rparr>)" for w b n
    using m rx_tidy_state [of w m] by (simp_all add: handle_command_def tidy_state_def)
  then show ?thesis unfolding meatpack_byte_def using m by (intro flush_tidy_state) simp
qed

lemma bytes_tidy_state: "tidy_state m \<Longrightarrow> tidy_state (fold meatpack_byte vs m)"
  by (induction vs arbitrary: m) (simp_all add: byte_tidy_state)

text \<open>
  whatever bytes it reads, the MeatPack decoder writes tidy G-code: no blank line, and in a line that
  starts with G every parameter letter follows a space.
\<close>

theorem meatpack_output_tidy: "tidy (decode_meatpack payload)"
proof -
  have "tidy_state new_meatpack" by (simp add: tidy_state_def new_meatpack_def tidy_def in_g_line_start)
  then have "tidy_state (fold meatpack_byte payload new_meatpack)" by (rule bytes_tidy_state)
  then have "tidy_state (flush_pending_output (if 0 < mk_command_count (fold meatpack_byte payload new_meatpack)
      then handle_rx_char 0xFF (fold meatpack_byte payload new_meatpack) else fold meatpack_byte payload new_meatpack))"
    by (intro flush_tidy_state) simp
  then show ?thesis by (simp add: decode_meatpack_def Let_def tidy_state_def)
qed

section \<open>The reference encoder\<close>

definition nibble :: "bool \<Rightarrow> 8 word \<Rightarrow> 8 word" where
  "nibble no_spaces c =
     (if 48 \<le> c \<and> c \<le> 57 then c - 48
      else if c = 46 then 10
      else if c = (if no_spaces then 69 else 32) then 11
      else if c = 10 then 12
      else if c = 71 then 13
      else if c = 88 then 14
      else 15)"

definition packed :: "bool \<Rightarrow> 8 word \<Rightarrow> 8 word \<Rightarrow> 8 word" where
  "packed ns c1 c2 = nibble ns c1 OR push_bit 4 (nibble ns c2)"

definition literal :: "bool \<Rightarrow> 8 word \<Rightarrow> bytes" where
  "literal ns c = (if nibble ns c = 15 then [c] else [])"

text \<open>A newline in the first half ends its byte; a text ends with a newline.\<close>

fun meatpack_encode :: "bool \<Rightarrow> bytes \<Rightarrow> bytes" where
  "meatpack_encode ns [] = []"
| "meatpack_encode ns [c] = [12]"
| "meatpack_encode ns (c1 # c2 # cs) =
     (if c1 = 10 then 12 # meatpack_encode ns (c2 # cs)
      else packed ns c1 c2 # literal ns c1 @ literal ns c2 @ meatpack_encode ns cs)"

lemma take_bit_small: "unat (w :: 8 word) < 16 \<Longrightarrow> take_bit 4 w = w"
  by (simp add: word_unat_eq_iff unsigned_take_bit_eq take_bit_nat_eq_self)

lemma nibble_small: "take_bit 4 (nibble ns c) = nibble ns c"
proof (rule take_bit_small)
  have "unat (c - 48) < 16" if "48 \<le> c" "c \<le> 57"
    using that by (simp add: unat_sub word_le_nat_alt)
  then show "unat (nibble ns c) < 16" by (auto simp: nibble_def)
qed

lemma get_char_nibble: "nibble ns c \<noteq> 15 \<Longrightarrow> get_char ns (nibble ns c) = c"
proof -
  assume n: "nibble ns c \<noteq> 15"
  have "c - 48 \<le> 9" if "48 \<le> c" "c \<le> 57"
    using that by (simp add: unat_sub word_le_nat_alt)
  then show ?thesis using n by (auto simp: nibble_def get_char_def split: if_splits)
qed

lemma low_half: "packed ns c1 c2 AND 0x0F = nibble ns c1"
proof -
  have m: "(15 :: 8 word) = mask 4" by (simp add: mask_eq_exp_minus_1)
  have "packed ns c1 c2 AND mask 4 = take_bit 4 (nibble ns c1)"
    unfolding packed_def by (simp add: take_bit_eq_mask [symmetric] take_bit_or take_bit_push_bit)
  then show ?thesis by (simp add: m nibble_small)
qed

lemma nibble_bits: "bit (nibble ns c) n \<Longrightarrow> n < 4"
  using nibble_small [of ns c] by (metis bit_take_bit_iff)

lemma high_half: "drop_bit 4 (packed ns c1 c2) AND 0x0F = nibble ns c2"
proof -
  have m: "(15 :: 8 word) = mask 4" by (simp add: mask_eq_exp_minus_1)
  show ?thesis
    unfolding m packed_def
    by (rule bit_word_eqI)
      (auto simp: bit_and_iff bit_or_iff bit_drop_bit_eq bit_push_bit_iff bit_mask_iff dest: nibble_bits)
qed

lemma high_mark: "packed ns c1 c2 AND 0xF0 = 0xF0 \<longleftrightarrow> nibble ns c2 = 15"
proof -
  have d: "drop_bit 4 (0xF0 :: 8 word) = 15" "take_bit 4 (0xF0 :: 8 word) = 0" by (simp_all add: drop_bit_eq_div take_bit_eq_mod)
  have "packed ns c1 c2 AND 0xF0 = 0xF0 \<longleftrightarrow> drop_bit 4 (packed ns c1 c2 AND 0xF0) = drop_bit 4 0xF0"
    using bits_ident [of 4 "packed ns c1 c2 AND 0xF0"] bits_ident [of 4 "0xF0 :: 8 word"] d
    by (metis and_zero_eq take_bit_and)
  also have "\<dots> \<longleftrightarrow> nibble ns c2 = 15" by (simp add: drop_bit_and d high_half)
  finally show ?thesis .
qed

lemma unpack_packed:
  "unpack_chars ns (packed ns c1 c2) = (nibble ns c1 = 15, nibble ns c2 = 15,
     if nibble ns c1 = 15 then 0 else c1, if nibble ns c2 = 15 then 0 else c2)"
  by (simp add: unpack_chars_def low_half high_half high_mark get_char_nibble Let_def)

lemma unpack_newline: "unpack_chars ns 12 = (False, False, 10, get_char ns 0)"
  by (simp add: unpack_chars_def get_char_def Let_def)

lemma packed_signal: "packed ns c1 c2 = 0xFF \<Longrightarrow> nibble ns c1 = 15 \<and> nibble ns c2 = 15"
  using low_half [of ns c1 c2] high_half [of ns c1 c2] by simp

text \<open>The decoder between two groups: packing is on and nothing is held back.\<close>

definition idle :: "bool \<Rightarrow> bytes \<times> bool \<Rightarrow> meatpack" where
  "idle ns st = new_meatpack\<lparr>mk_unbinarizing := True, mk_no_spaces := ns, mk_output := fst st, mk_add_space := snd st\<rparr>"

lemmas step_simps = meatpack_byte_def handle_rx_char_def handle_output_char_def flush_pending_output_def
  idle_def new_meatpack_def Let_def case_prod_unfold

lemma newline_byte: "meatpack_byte 12 (idle ns st) = idle ns (flush_char 10 st)"
  by (simp add: step_simps unpack_newline)

lemma group_bytes:
  assumes "c1 \<noteq> 255" "c2 \<noteq> 255" "c1 \<noteq> 10"
  shows "fold meatpack_byte (packed ns c1 c2 # literal ns c1 @ literal ns c2) (idle ns st) = idle ns (flush_char c2 (flush_char c1 st))"
proof (cases "packed ns c1 c2 = 0xFF")
  case True
  then show ?thesis
    using packed_signal [OF True] assms unpack_packed [of ns c1 c2]
    by (simp add: step_simps literal_def)
next
  case False
  then show ?thesis
    using assms unpack_packed [of ns c1 c2]
    by (cases "nibble ns c1 = 15"; cases "nibble ns c2 = 15") (simp_all add: step_simps literal_def)
qed

lemma encode_decode:
  assumes "255 \<notin> set cs" and "cs = [] \<or> last cs = 10"
  shows "fold meatpack_byte (meatpack_encode ns cs) (idle ns st) = idle ns (fold flush_char cs st)"
  using assms
proof (induction ns cs arbitrary: st rule: meatpack_encode.induct)
  case (2 ns c)
  then show ?case by (simp add: newline_byte)
next
  case (3 ns c1 c2 cs)
  show ?case
  proof (cases "c1 = 10")
    case True
    then show ?thesis using 3 by (simp add: newline_byte)
  next
    case False
    then have "fold meatpack_byte (meatpack_encode ns (c1 # c2 # cs)) (idle ns st)
        = fold meatpack_byte (meatpack_encode ns cs) (fold meatpack_byte (packed ns c1 c2 # literal ns c1 @ literal ns c2) (idle ns st))"
      by simp
    also have "\<dots> = fold meatpack_byte (meatpack_encode ns cs) (idle ns (flush_char c2 (flush_char c1 st)))"
      using False "3.prems" by (subst group_bytes) auto
    also have "\<dots> = idle ns (fold flush_char cs (flush_char c2 (flush_char c1 st)))"
      using False "3.prems" by (intro "3.IH"(2)) (auto split: if_splits)
    finally show ?thesis by simp
  qed
qed simp

definition meatpack_header :: "bool \<Rightarrow> bytes" where
  "meatpack_header ns = [0xFF, 0xFF, 251] @ (if ns then [0xFF, 0xFF, 247] else [])"

definition tidy_text :: "bytes \<Rightarrow> bytes" where
  "tidy_text cs = fst (fold flush_char cs ([], False))"

lemma header_idle: "fold meatpack_byte (meatpack_header ns) new_meatpack = idle ns ([], False)"
  by (simp add: meatpack_header_def step_simps handle_command_def)

lemma idle_facts:
  "mk_command_count (idle ns st) = 0" "mk_output (idle ns st) = fst st" "flush_pending_output (idle ns st) = idle ns st"
  by (simp_all add: step_simps)

lemma decode_idle: "fold meatpack_byte p new_meatpack = idle ns st \<Longrightarrow> decode_meatpack p = fst st"
  by (simp only: decode_meatpack_def Let_def idle_facts less_irrefl if_False)

lemma fold_header: "fold meatpack_byte (meatpack_header ns @ bs) new_meatpack = fold meatpack_byte bs (idle ns ([], False))"
  by (simp only: fold_append o_apply header_idle)

lemma decode_encoded:
  assumes "255 \<notin> set cs" and "cs = [] \<or> last cs = 10"
  shows "decode_meatpack (meatpack_header ns @ meatpack_encode ns cs) = tidy_text cs"
  unfolding tidy_text_def by (rule decode_idle, unfold fold_header, rule encode_decode [OF assms])

lemma flush_char_fixed:
  assumes "tidy (cs @ [c])"
  shows "flush_char c (cs, in_g_line cs) = (cs @ [c], in_g_line (cs @ [c]))"
proof -
  have start: "in_g_line cs \<Longrightarrow> cs \<noteq> [] \<and> last cs \<noteq> 10" using in_g_line_start by blast
  consider (g) "c = 71" "cs = [] \<or> last cs = 10" | (nl) "c = 10" | (other) "c \<noteq> 10" "\<not> (c = 71 \<and> (cs = [] \<or> last cs = 10))"
    by blast
  then show ?thesis
  proof cases
    case g
    then show ?thesis by (elim disjE) (simp_all add: flush_char_def Let_def in_g_line_snoc in_g_line_snoc [of "[]", simplified])
  next
    case nl
    then have "cs = [] \<or> last cs \<noteq> 10" using assms by (auto simp: tidy_snoc)
    with nl show ?thesis by (simp add: flush_char_def Let_def in_g_line_snoc)
  next
    case other
    moreover have "\<not> (in_g_line cs \<and> (cs = [] \<or> last cs \<noteq> 32) \<and> c \<in> set gline_parameters)"
      using assms start by (auto simp: tidy_snoc)
    moreover have "in_g_line (cs @ [c]) = in_g_line cs" using other unfolding in_g_line_snoc by blast
    ultimately show ?thesis unfolding flush_char_def Let_def by (cases "c = 71") auto
  qed
qed

lemma tidy_text_fixed: "tidy cs \<Longrightarrow> fold flush_char cs ([], False) = (cs, in_g_line cs)"
proof (induction cs rule: rev_induct)
  case (snoc c cs)
  then have "fold flush_char cs ([], False) = (cs, in_g_line cs)" by (simp add: tidy_snoc)
  with flush_char_fixed [OF snoc.prems] show ?case by simp
qed (simp add: in_g_line_start)

section \<open>From the container to the text\<close>

lemma utf8_ascii: "\<forall>b\<in>set bs. unat b < 128 \<Longrightarrow> utf8_strict bs = Some (map unat bs)"
  by (induction bs) (simp_all add: utf8_step.simps)

lemma ascii_no_signal: "\<forall>c\<in>set cs. unat (c :: 8 word) < 128 \<Longrightarrow> 255 \<notin> set cs"
  by auto

text \<open>
  C24: decoding what the reference encoder packs gives the text back in its tidy form, and a G-code file that
  stores it as one MeatPack block decodes to exactly that text, if it is tidy and shows a layer or type marker.
\<close>

theorem meatpack_roundtrip:
  assumes "\<forall>c\<in>set cs. unat c < 128" and "cs = [] \<or> last cs = 10" and "ck \<le> 1"
    and "well_written cd ck w" and "bb_block_type (wr_block w) = 1" and "le_nat (bb_params (wr_block w)) = 1"
    and "bb_payload (wr_block w) = meatpack_header ns @ meatpack_encode ns cs"
  shows "decode_meatpack (meatpack_header ns @ meatpack_encode ns cs) = tidy_text cs
    \<and> (tidy cs \<longrightarrow> list_ex (\<lambda>marker. occurs marker (map unat cs)) layer_markers
        \<longrightarrow> decode_bgcode_text cd (container ck [w]) = Inr (map unat cs))"
proof (intro conjI impI)
  show dec: "decode_meatpack (meatpack_header ns @ meatpack_encode ns cs) = tidy_text cs"
    using assms(1,2) by (intro decode_encoded ascii_no_signal)
  assume t: "tidy cs" and m: "list_ex (\<lambda>marker. occurs marker (map unat cs)) layer_markers"
  have "parse_bgcode_blocks cd (container ck [w]) = Inr ([wr_block w], ck)"
    using parse_container [of ck "[w]" cd] assms(3,4) by simp
  moreover have "length (bb_params (wr_block w)) = 2"
    using assms(4,5) by (simp add: well_written_def block_param_length_def)
  then have "decode_gcode_block (wr_block w) = Inr (map unat cs)"
    using dec tidy_text_fixed [OF t] utf8_ascii [OF assms(1)] assms(6,7)
    by (simp add: decode_gcode_block_def tidy_text_def decode_plain_text_def)
  ultimately show "decode_bgcode_text cd (container ck [w]) = Inr (map unat cs)"
    using m assms(3,5) by (auto simp: decode_bgcode_text_def)
qed

definition sample_gcode :: bytes where
  "sample_gcode = map of_char '';TYPE:Wall'' @ [10] @ map of_char ''G1 X10 Y2.5'' @ [10]"

definition sample_written :: written where
  "sample_written = (let payload = meatpack_header False @ meatpack_encode False sample_gcode in
     \<lparr>wr_block = \<lparr>bb_block_type = 1, bb_compression = 0, bb_payload = payload, bb_params = [1, 0]\<rparr>,
      wr_size = length payload, wr_data = payload, wr_checksum = [0, 0, 0, 0]\<rparr>)"

theorem meatpack_roundtrip_witness:
  "decode_bgcode_text \<lparr>cd_inflate = Inr, cd_heatshrink = None\<rparr> (container 1 [sample_written]) = Inr (map unat sample_gcode)"
proof -
  let ?cd = "\<lparr>cd_inflate = Inr, cd_heatshrink = None\<rparr>"
  have len: "length (meatpack_header False @ meatpack_encode False sample_gcode) < 100" by code_simp
  have w: "well_written ?cd 1 sample_written"
    using len by (simp add: well_written_def sample_written_def Let_def block_param_length_def decompress_block_def)
  have "\<forall>c\<in>set sample_gcode. unat c < 128" "last sample_gcode = 10" "tidy sample_gcode"
    "list_ex (\<lambda>marker. occurs marker (map unat sample_gcode)) layer_markers" by code_simp+
  with meatpack_roundtrip [OF _ _ _ w, of sample_gcode False] show ?thesis
    by (simp add: sample_written_def Let_def)
qed

end
