(* ===== verification/SimPacks.thy ===== *)
theory SimPacks
  imports Runtime
begin

text \<open>
  The simulated packs (\<open>packs/sim_printer/pack.py\<close>, \<open>packs/sim_arm/pack.py\<close>): the state each pack keeps, its
  publication, normalisation, candidate actions and realisation, as the operations that the runtime takes from
  \<open>env\<close>; and the cell that both share through the whiteboard, as a refinement of one part that is on the bed,
  in the tray or removed.
\<close>

record pack_manifest =
  mf_pack_id :: string
  mf_display_name :: string
  mf_category :: string

definition simple_action :: "string \<Rightarrow> string \<Rightarrow> string \<Rightarrow> string \<Rightarrow> string \<Rightarrow> dict \<Rightarrow> string list \<Rightarrow> int \<Rightarrow> legal_action" where
  "simple_action i verb description owner ref args locks rank =
     \<lparr>la_action_id = i, la_verb = verb, la_description = description, la_owner_pack = owner, la_execute_ref = ref,
      la_args = args, la_required_locks = locks, la_hazard_class = LOW, la_approval_required = False,
      la_preconditions = all_of [], la_verify = PyNone, la_expected_delta = [], la_target_device = None,
      la_rank_hint = rank\<rparr>"

section \<open>The simulated printer\<close>

record sim_printer =
  sp_mode :: string
  sp_health :: string
  sp_part_present :: bool
  sp_part_temp_c :: pyfloat

definition new_sim_printer :: sim_printer where
  "new_sim_printer = \<lparr>sp_mode = ''PAUSED'', sp_health = ''OK'', sp_part_present = True, sp_part_temp_c = Fin 42\<rparr>"

definition printer_dict :: "sim_printer \<Rightarrow> dict" where
  "printer_dict p = [(''printer_1.mode'', PyStr (sp_mode p)), (''printer_1.health'', PyStr (sp_health p)),
     (''printer_1.part_present'', PyBool (sp_part_present p)), (''printer_1.part_temp_c'', PyFloat (sp_part_temp_c p))]"

definition ambient_c :: pyfloat where "ambient_c = Fin 24"

definition printer_sync :: "pyrt \<Rightarrow> wb \<Rightarrow> sim_printer \<Rightarrow> sim_printer" where
  "printer_sync rt w p =
     (let external = wb_get w ''printer_1.part_present'' PyNone;
          p = (if external = PyNone then p else p\<lparr>sp_part_present := truthy external\<rparr>)
      in if sp_mode p = ''PAUSED'' \<and> sp_part_present p \<and> float_less ambient_c (sp_part_temp_c p)
         then p\<lparr>sp_part_temp_c := float_max ambient_c (round_half_even rt 1 (float_sub (sp_part_temp_c p) (Fin (5 / 2))))\<rparr>
         else p)"

definition printer_publish :: "pyrt \<Rightarrow> (nat \<Rightarrow> int) \<Rightarrow> string \<Rightarrow> sim_printer \<times> wb \<Rightarrow> sim_printer \<times> wb" where
  "printer_publish rt clk md st = (case st of (p, w) \<Rightarrow>
     let p = printer_sync rt w p in (p, snd (batch_publish clk (printer_dict p) w)))"

definition printer_normalize :: "pyrt \<Rightarrow> pack_manifest \<Rightarrow> dict \<Rightarrow> pyexc + normalized_state" where
  "printer_normalize rt mf snap =
     (let mode = py_str rt (dget_or snap ''printer_1.mode'' (PyStr ''UNKNOWN''));
          health = py_str rt (dget_or snap ''printer_1.health'' (PyStr ''UNKNOWN''));
          part_present = truthy (dget_or snap ''printer_1.part_present'' (PyBool False))
      in bindR (py_float rt (dget_or snap ''printer_1.part_temp_c'' (PyFloat ambient_c))) (\<lambda>part_temp_c.
         let safe_to_unload = (part_present \<and> float_le part_temp_c (Fin 35))
         in Inr \<lparr>ns_summary = \<lparr>ds_device_id = ''printer_1'', ds_display_name = mf_display_name mf,
                ds_category = mf_category mf, ds_mode = mode, ds_health = health,
                ds_summary = ''mode='' @ mode @ '' | part_present='' @ py_str rt (PyBool part_present)
                  @ '' | part_temp_c='' @ float_fixed rt 1 part_temp_c @ ''C''\<rparr>,
              ns_facts = [(''printer_1.mode'', PyStr mode), (''printer_1.health'', PyStr health),
                (''printer_1.part_present'', PyBool part_present),
                (''printer_1.part_temp_c'', PyFloat (round_half_even rt 1 part_temp_c)),
                (''printer_1.safe_to_unload'', PyBool safe_to_unload)],
              ns_resources = [\<lparr>rs_id = ''printer_1.bed'', rs_kind = ''bed'', rs_owner = ''printer_1'',
                rs_state = (if part_present then ''OCCUPIED'' else ''EMPTY''),
                rs_attributes = [(''part_temp_c'', PyFloat (round_half_even rt 1 part_temp_c)),
                  (''safe_to_unload'', PyBool safe_to_unload)]\<rparr>],
              ns_blockers = (if part_present \<and> \<not> safe_to_unload then [''Part is still too hot to unload safely''] else [])\<rparr>))"

definition printer_candidates :: "pack_manifest \<Rightarrow> world_packet \<Rightarrow> legal_action list" where
  "printer_candidates mf world =
     (let part_present = truthy (dget_or (wp_facts world) ''printer_1.part_present'' (PyBool False));
          safe_to_unload = truthy (dget_or (wp_facts world) ''printer_1.safe_to_unload'' (PyBool False))
      in (if pget (wp_facts world) ''printer_1.mode'' = PyStr ''RUNNING''
          then [(simple_action ''A_PRN_PAUSE'' ''PAUSE_PROCESS'' ''Pause the running printer job'' (mf_pack_id mf)
              ''pause_process'' [] [''printer_1.motion''] 20)\<lparr>la_target_device := Some ''printer_1''\<rparr>] else [])
       @ (if part_present \<and> \<not> safe_to_unload
          then [(simple_action ''A_PRN_WAIT_COOL'' ''WAIT_UNTIL'' ''Wait until the printed part is cool enough to unload''
              ''builtin'' ''builtin.wait_until'' [(''timeout_s'', PyInt 300), (''slice_s'', PyFloat (Fin 2)),
                (''predicate'', PyStr ''printer_1.safe_to_unload == true'')] [] 10)
              \<lparr>la_preconditions := atom ''printer_1.part_present'' ''=='' (PyBool True),
               la_verify := atom ''printer_1.safe_to_unload'' ''=='' (PyBool True),
               la_target_device := Some ''printer_1''\<rparr>] else []))"

definition printer_realize :: "(nat \<Rightarrow> int) \<Rightarrow> legal_action \<Rightarrow> (sim_printer \<times> wb, dict) act" where
  "printer_realize clk action st = (case st of (p, w) \<Rightarrow>
     if la_verb action = ''PAUSE_PROCESS'' then
       (Inr [(''mode'', PyStr ''PAUSED'')], p\<lparr>sp_mode := ''PAUSED''\<rparr>, snd (publish clk ''printer_1.mode'' (PyStr ''PAUSED'') w))
     else if la_verb action = ''START_PROCESS'' then
       (Inr [(''mode'', PyStr ''RUNNING'')], p\<lparr>sp_mode := ''RUNNING''\<rparr>, snd (publish clk ''printer_1.mode'' (PyStr ''RUNNING'') w))
     else if la_verb action = ''STOP_PROCESS'' then
       (Inr [(''mode'', PyStr ''IDLE'')], p\<lparr>sp_mode := ''IDLE'', sp_part_present := False\<rparr>,
        snd (batch_publish clk [(''printer_1.mode'', PyStr ''IDLE''), (''printer_1.part_present'', PyBool False)] w))
     else (Inl (ValueError (''unsupported simulated printer verb '' @ la_verb action)), p, w))"

section \<open>The simulated arm\<close>

record sim_arm =
  sa_mode :: string
  sa_health :: string
  sa_holding :: bool
  sa_tray_state :: string

definition new_sim_arm :: sim_arm where
  "new_sim_arm = \<lparr>sa_mode = ''IDLE'', sa_health = ''OK'', sa_holding = False, sa_tray_state = ''EMPTY''\<rparr>"

definition arm_dict :: "sim_arm \<Rightarrow> dict" where
  "arm_dict a = [(''arm_1.mode'', PyStr (sa_mode a)), (''arm_1.health'', PyStr (sa_health a)),
     (''arm_1.holding'', PyBool (sa_holding a)), (''tray_A.state'', PyStr (sa_tray_state a))]"

definition arm_publish :: "(nat \<Rightarrow> int) \<Rightarrow> string \<Rightarrow> sim_arm \<times> wb \<Rightarrow> sim_arm \<times> wb" where
  "arm_publish clk md st = (case st of (a, w) \<Rightarrow> (a, snd (batch_publish clk (arm_dict a) w)))"

definition arm_normalize :: "pyrt \<Rightarrow> pack_manifest \<Rightarrow> dict \<Rightarrow> sim_arm \<Rightarrow> normalized_state" where
  "arm_normalize rt mf snap a =
     (let mode = py_str rt (dget_or snap ''arm_1.mode'' (PyStr ''UNKNOWN''));
          health = py_str rt (dget_or snap ''arm_1.health'' (PyStr ''UNKNOWN''));
          holding = truthy (dget_or snap ''arm_1.holding'' (PyBool False));
          tray_state = py_str rt (dget_or snap ''tray_A.state'' (PyStr (sa_tray_state a)));
          available = (mode = ''IDLE'' \<and> health = ''OK'' \<and> \<not> holding)
      in \<lparr>ns_summary = \<lparr>ds_device_id = ''arm_1'', ds_display_name = mf_display_name mf, ds_category = mf_category mf,
            ds_mode = mode, ds_health = health,
            ds_summary = ''mode='' @ mode @ '' | holding='' @ py_str rt (PyBool holding) @ '' | tray='' @ tray_state\<rparr>,
          ns_facts = [(''arm_1.mode'', PyStr mode), (''arm_1.health'', PyStr health), (''arm_1.holding'', PyBool holding),
            (''arm_1.available'', PyBool available), (''tray_A.state'', PyStr tray_state)],
          ns_resources = [\<lparr>rs_id = ''arm_1.gripper'', rs_kind = ''gripper'', rs_owner = ''arm_1'',
              rs_state = (if holding then ''HOLDING'' else ''OPEN''), rs_attributes = [(''available'', PyBool available)]\<rparr>,
            \<lparr>rs_id = ''tray_A'', rs_kind = ''tray'', rs_owner = ''arm_1'', rs_state = tray_state, rs_attributes = []\<rparr>],
          ns_blockers = (if health \<noteq> ''OK'' then [''Arm health is not OK''] else [])\<rparr>)"

definition unload_action :: "pack_manifest \<Rightarrow> legal_action" where
  "unload_action mf =
     (simple_action ''A_ARM_UNLOAD'' ''UNLOAD_PART'' ''Unload the cooled part from printer_1 into tray_A'' (mf_pack_id mf)
        ''unload_part'' [(''source'', PyStr ''printer_1.bed''), (''destination'', PyStr ''tray_A'')]
        [''arm_1.motion'', ''printer_1.bed'', ''tray_A''] 5)
     \<lparr>la_preconditions := all_of [atom ''arm_1.available'' ''=='' (PyBool True),
        atom ''printer_1.part_present'' ''=='' (PyBool True), atom ''printer_1.safe_to_unload'' ''=='' (PyBool True),
        atom ''tray_A.state'' ''=='' (PyStr ''EMPTY'')],
      la_expected_delta := [atom ''printer_1.part_present'' ''=='' (PyBool False),
        atom ''tray_A.state'' ''=='' (PyStr ''OCCUPIED''), atom ''arm_1.holding'' ''=='' (PyBool False)],
      la_target_device := Some ''arm_1''\<rparr>"

definition arm_candidates :: "pack_manifest \<Rightarrow> world_packet \<Rightarrow> legal_action list" where
  "arm_candidates mf world =
     (let available = truthy (dget_or (wp_facts world) ''arm_1.available'' (PyBool False));
          tray_empty = (pget (wp_facts world) ''tray_A.state'' = PyStr ''EMPTY'');
          part_present = truthy (dget_or (wp_facts world) ''printer_1.part_present'' (PyBool False));
          safe_to_unload = truthy (dget_or (wp_facts world) ''printer_1.safe_to_unload'' (PyBool False))
      in if available \<and> tray_empty \<and> part_present \<and> safe_to_unload then [unload_action mf]
         else if wp_blockers world \<noteq> [] then
           [simple_action ''A_ARM_CALL_HUMAN'' ''CALL_HUMAN'' ''Ask a human to inspect the handling cell'' ''builtin''
              ''builtin.call_human'' [(''message'', PyStr ''Handling cell cannot progress automatically'')] [] 200]
         else [])"

definition arm_realize :: "(nat \<Rightarrow> int) \<Rightarrow> legal_action \<Rightarrow> (sim_arm \<times> wb, dict) act" where
  "arm_realize clk action st = (case st of (a, w) \<Rightarrow>
     if la_verb action \<noteq> ''UNLOAD_PART''
       then (Inl (ValueError (''unsupported simulated arm verb '' @ la_verb action)), a, w)
     else if sa_tray_state a \<noteq> ''EMPTY'' then (Inl (RuntimeError ''destination tray is not empty''), a, w)
     else
       let a = a\<lparr>sa_mode := ''BUSY'', sa_holding := True\<rparr>;
           w = snd (batch_publish clk [(''arm_1.mode'', PyStr ''BUSY''), (''arm_1.holding'', PyBool True)] w);
           w = snd (batch_publish clk [(''printer_1.part_present'', PyBool False), (''tray_A.state'', PyStr ''OCCUPIED'')] w);
           a = a\<lparr>sa_tray_state := ''OCCUPIED''\<rparr>;
           a = a\<lparr>sa_holding := False, sa_mode := ''IDLE''\<rparr>;
           w = snd (batch_publish clk [(''arm_1.holding'', PyBool False), (''arm_1.mode'', PyStr ''IDLE'')] w)
       in (Inr [(''moved_from'', pget (la_args action) ''source''), (''moved_to'', pget (la_args action) ''destination'')], a, w))"

section \<open>The interface of a pack that publishes\<close>

lemma map_of_rev_distinct: "distinct (map fst d) \<Longrightarrow> map_of (rev d) = map_of d"
proof (rule ext)
  fix k assume d: "distinct (map fst d)"
  then have r: "distinct (map fst (rev d))" by (simp add: rev_map [symmetric])
  show "map_of (rev d) k = map_of d k"
  proof (cases "map_of d k")
    case None
    then show ?thesis by (metis map_of_eq_None_iff set_rev)
  next
    case (Some v)
    then have "(k, v) \<in> set (rev d)" by (simp add: map_of_SomeD)
    with r Some show ?thesis by (metis map_of_eq_Some_iff)
  qed
qed

text \<open>
  What the world compiler relies on: a publication shows the state that the pack has afterwards, under keys of
  the pack, each once, and nothing else.
\<close>

locale publisher =
  fixes pub :: "'p \<times> wb \<Rightarrow> 'p \<times> wb" and shown :: "'p \<Rightarrow> dict" and keys :: "string set"
  assumes pub_values: "pub (p, w) = (p', w') \<Longrightarrow> wb_values w' = dict_update (wb_values w) (shown p')"
    and shown_keys: "set (map fst (shown p)) \<subseteq> keys"
    and shown_distinct: "distinct (map fst (shown p))"
begin

lemma pub_shows: "pub (p, w) = (p', w') \<Longrightarrow> map_of (shown p') k = Some v \<Longrightarrow> pget (wb_values w') k = v"
  using shown_distinct [of p'] by (simp add: pub_values pget_def dget_or_def map_of_dict_update map_of_rev_distinct)

lemma pub_leaves: "pub (p, w) = (p', w') \<Longrightarrow> k \<notin> keys \<Longrightarrow> pget (wb_values w') k = pget (wb_values w) k"
proof -
  assume p: "pub (p, w) = (p', w')" and "k \<notin> keys"
  then have "map_of (rev (shown p')) k = None" using shown_keys [of p'] by (auto simp: map_of_eq_None_iff)
  then show ?thesis by (simp add: pub_values [OF p] pget_def dget_or_def map_of_dict_update map_add_def)
qed

end

text \<open>Two packs with their own keys: both states are visible after both have published.\<close>

locale publisher_pair = a: publisher pub_a shown_a keys_a + b: publisher pub_b shown_b keys_b
  for pub_a :: "'a \<times> wb \<Rightarrow> 'a \<times> wb" and shown_a keys_a and pub_b :: "'b \<times> wb \<Rightarrow> 'b \<times> wb" and shown_b keys_b +
  assumes own_keys: "keys_a \<inter> keys_b = {}"
begin

lemma both_shown:
  assumes "pub_a (p, w) = (p', w')" and "pub_b (q, w') = (q', w'')"
  shows "map_of (shown_a p') k = Some v \<Longrightarrow> pget (wb_values w'') k = v"
    and "map_of (shown_b q') k = Some v \<Longrightarrow> pget (wb_values w'') k = v"
proof -
  assume k: "map_of (shown_a p') k = Some v"
  then have "k \<in> keys_a" using a.shown_keys [of p'] by (metis in_mono map_of_SomeD map_of_eq_None_iff not_None_eq set_map)
  then have "k \<notin> keys_b" using own_keys by blast
  from b.pub_leaves [OF assms(2) this] a.pub_shows [OF assms(1) k] show "pget (wb_values w'') k = v" by simp
qed (rule b.pub_shows [OF assms(2)])

end

definition printer_keys :: "string set" where
  "printer_keys = {''printer_1.mode'', ''printer_1.health'', ''printer_1.part_present'', ''printer_1.part_temp_c''}"

definition arm_keys :: "string set" where
  "arm_keys = {''arm_1.mode'', ''arm_1.health'', ''arm_1.holding'', ''tray_A.state''}"

interpretation cell: publisher_pair "printer_publish rt clk md" printer_dict printer_keys "arm_publish clk md" arm_dict arm_keys
  for rt clk md
  by unfold_locales
    (auto simp: printer_publish_def arm_publish_def printer_dict_def arm_dict_def printer_keys_def arm_keys_def Let_def)

section \<open>The cell\<close>

record cell =
  ce_printer :: sim_printer
  ce_arm :: sim_arm
  ce_wb :: wb

text \<open>Whether the bed holds a part: what the whiteboard says, or the printer before its first publication.\<close>

definition on_bed :: "cell \<Rightarrow> bool" where
  "on_bed c = (let v = wb_get (ce_wb c) ''printer_1.part_present'' PyNone
     in if v = PyNone then sp_part_present (ce_printer c) else truthy v)"

definition in_tray :: "cell \<Rightarrow> bool" where
  "in_tray c \<longleftrightarrow> sa_tray_state (ce_arm c) \<noteq> ''EMPTY''"

text \<open>The facts of the compiled world.\<close>

definition cell_facts :: "pyrt \<Rightarrow> pack_manifest \<Rightarrow> pack_manifest \<Rightarrow> cell \<Rightarrow> pyexc + dict" where
  "cell_facts rt mp ma c = bindR (printer_normalize rt mp (wb_values (ce_wb c))) (\<lambda>n.
     Inr (merge_facts [arm_normalize rt ma (wb_values (ce_wb c)) (ce_arm c), n]))"

text \<open>
  The steps of the cell: publications, any operation of the printer, and the arm's operation on an action
  whose preconditions hold on the compiled facts, as the engine checks before it dispatches.
\<close>

inductive cell_step :: "pyrt \<Rightarrow> (nat \<Rightarrow> int) \<Rightarrow> pack_manifest \<Rightarrow> pack_manifest \<Rightarrow> cell \<Rightarrow> cell \<Rightarrow> bool"
  for rt clk mp ma where
  printer_tick: "printer_publish rt clk md (ce_printer c, ce_wb c) = (p, w) \<Longrightarrow>
     cell_step rt clk mp ma c (c\<lparr>ce_printer := p, ce_wb := w\<rparr>)"
| arm_tick: "arm_publish clk md (ce_arm c, ce_wb c) = (a, w) \<Longrightarrow>
     cell_step rt clk mp ma c (c\<lparr>ce_arm := a, ce_wb := w\<rparr>)"
| printer_acts: "printer_realize clk action (ce_printer c, ce_wb c) = (r, p, w) \<Longrightarrow>
     cell_step rt clk mp ma c (c\<lparr>ce_printer := p, ce_wb := w\<rparr>)"
| arm_acts: "cell_facts rt mp ma c = Inr facts \<Longrightarrow> evaluate rt (la_preconditions (unload_action ma)) facts = Inr True \<Longrightarrow>
     arm_realize clk (unload_action ma) (ce_arm c, ce_wb c) = (r, a, w) \<Longrightarrow>
     cell_step rt clk mp ma c (c\<lparr>ce_arm := a, ce_wb := w\<rparr>)"

text \<open>The specification: one part, that is carried once from the bed to the tray, or removed from the bed.\<close>

datatype place = OnBed | InTray | Removed | Duplicated

definition cell_place :: "cell \<Rightarrow> place" where
  "cell_place c = (if on_bed c then if in_tray c then Duplicated else OnBed
     else if in_tray c then InTray else Removed)"

inductive part_step :: "place \<Rightarrow> place \<Rightarrow> bool" where
  stay: "part_step x x"
| carried: "part_step OnBed InTray"
| taken_off: "part_step OnBed Removed"

inductive_cases part_stepE: "part_step x y"

lemma unload_precondition:
  assumes "cell_facts rt mp ma c = Inr facts" and "evaluate rt (la_preconditions (unload_action ma)) facts = Inr True"
  shows "truthy (dget_or (wb_values (ce_wb c)) ''printer_1.part_present'' (PyBool False))
    \<and> (\<exists>t. py_float rt (dget_or (wb_values (ce_wb c)) ''printer_1.part_temp_c'' (PyFloat ambient_c)) = Inr t \<and> float_le t (Fin 35))"
proof -
  obtain t where t: "py_float rt (dget_or (wb_values (ce_wb c)) ''printer_1.part_temp_c'' (PyFloat ambient_c)) = Inr t"
    using assms(1) by (auto simp: cell_facts_def printer_normalize_def bindR_eq_Inr Let_def)
  let ?present = "truthy (dget_or (wb_values (ce_wb c)) ''printer_1.part_present'' (PyBool False))"
  have "map_of facts ''printer_1.part_present'' = Some (PyBool ?present)"
    "map_of facts ''printer_1.safe_to_unload'' = Some (PyBool (?present \<and> float_le t (Fin 35)))"
    using assms(1) t
    by (auto simp: cell_facts_def printer_normalize_def arm_normalize_def merge_facts_def Let_def map_of_dict_update)
  then show ?thesis
    using assms(2) t
    by (auto simp: unload_action_def all_of_def atom_def eval_atom_def atom_op_def float_eq_def Let_def split: sum.splits option.splits if_splits)
qed

lemma pget_dict_update: "pget (dict_update d kvs) k = (case map_of (rev kvs) k of None \<Rightarrow> pget d k | Some v \<Rightarrow> v)"
  by (auto simp: pget_def dget_or_def map_of_dict_update map_add_def split: option.split)

lemma on_bed_alt: "on_bed c = (let v = pget (wb_values (ce_wb c)) ''printer_1.part_present''
     in if v = PyNone then sp_part_present (ce_printer c) else truthy v)"
  by (simp add: on_bed_def wb_get_def pget_def)

lemma printer_sync_bed: "sp_part_present (printer_sync rt (ce_wb c) (ce_printer c)) = on_bed c"
  by (simp add: printer_sync_def on_bed_def Let_def)

lemma cell_step_place:
  assumes "cell_step rt clk mp ma c c'" and "cell_place c \<noteq> Duplicated"
  shows "part_step (cell_place c) (cell_place c')
    \<and> (cell_place c = OnBed \<longrightarrow> cell_place c' = InTray \<longrightarrow>
        (\<exists>t. py_float rt (dget_or (wb_values (ce_wb c)) ''printer_1.part_temp_c'' (PyFloat ambient_c)) = Inr t \<and> float_le t (Fin 35)))"
  using assms(1)
proof cases
  case (printer_tick md p w)
  then have "p = printer_sync rt (ce_wb c) (ce_printer c)" by (simp add: printer_publish_def Let_def)
  then have "sp_part_present p = on_bed c" by (simp add: printer_sync_bed)
  moreover have "pget (wb_values w) ''printer_1.part_present'' = PyBool (sp_part_present p)"
    using cell.a.pub_shows [OF printer_tick(2), of "''printer_1.part_present''"] by (simp add: printer_dict_def)
  ultimately have "on_bed c' = on_bed c" by (simp add: printer_tick(1) on_bed_alt)
  then have "cell_place c' = cell_place c" by (simp add: printer_tick(1) cell_place_def in_tray_def)
  then show ?thesis by (simp add: part_step.stay)
next
  case (arm_tick md a w)
  then have "pget (wb_values w) ''printer_1.part_present'' = pget (wb_values (ce_wb c)) ''printer_1.part_present''"
    using cell.b.pub_leaves [OF arm_tick(2), of "''printer_1.part_present''"] by (simp add: arm_keys_def)
  moreover have "a = ce_arm c" using arm_tick(2) by (simp add: arm_publish_def)
  ultimately have "cell_place c' = cell_place c" by (simp add: arm_tick(1) cell_place_def in_tray_def on_bed_alt)
  then show ?thesis by (simp add: part_step.stay)
next
  case (printer_acts action r p w)
  then have "on_bed c' = on_bed c \<or> \<not> on_bed c'"
    by (auto simp: printer_realize_def on_bed_alt publish_simps pget_dict_update split: if_splits)
  moreover have "in_tray c' = in_tray c" by (simp add: printer_acts(1) in_tray_def)
  ultimately show ?thesis using assms(2)
    by (auto simp: cell_place_def intro: part_step.intros)
next
  case (arm_acts facts r a w)
  note pre = unload_precondition [OF arm_acts(2,3)]
  then have bed: "on_bed c" by (auto simp: on_bed_alt pget_def dget_or_def split: option.splits)
  show ?thesis
  proof (cases "in_tray c")
    case True
    with bed assms(2) show ?thesis by (simp add: cell_place_def)
  next
    case False
    then have "pget (wb_values w) ''printer_1.part_present'' = PyBool False" "sa_tray_state a = ''OCCUPIED''"
      using arm_acts(4)
      by (auto simp: arm_realize_def unload_action_def simple_action_def in_tray_def Let_def pget_dict_update)
    then have "cell_place c' = InTray" by (simp add: arm_acts(1) cell_place_def on_bed_alt in_tray_def)
    with bed False pre show ?thesis by (simp add: cell_place_def part_step.carried)
  qed
qed

text \<open>
  C36: the simulated cell refines the story of one part: however publications, printer operations and unloads
  whose preconditions hold interleave, every step of the cell leaves the part where it is, removes it from the
  bed, or carries it from the bed to the tray, the last only when the published temperature is at most 35
  degrees; the part is never in two places.
\<close>

theorem cell_refines_part:
  assumes "(cell_step rt clk mp ma)\<^sup>*\<^sup>* c0 c" and "cell_place c0 \<noteq> Duplicated" and "cell_step rt clk mp ma c c'"
  shows "part_step\<^sup>*\<^sup>* (cell_place c0) (cell_place c) \<and> cell_place c' \<noteq> Duplicated
    \<and> part_step (cell_place c) (cell_place c')
    \<and> (cell_place c = OnBed \<longrightarrow> cell_place c' = InTray \<longrightarrow>
        (\<exists>t. py_float rt (dget_or (wb_values (ce_wb c)) ''printer_1.part_temp_c'' (PyFloat ambient_c)) = Inr t \<and> float_le t (Fin 35)))"
proof -
  have keep: "cell_place d' \<noteq> Duplicated" if "cell_step rt clk mp ma d d'" "cell_place d \<noteq> Duplicated" for d d'
    using cell_step_place [OF that] that(2) by (auto elim: part_stepE)
  have "part_step\<^sup>*\<^sup>* (cell_place c0) (cell_place c) \<and> cell_place c \<noteq> Duplicated"
    using assms(1,2)
  proof (induction rule: rtranclp_induct)
    case (step d d')
    then show ?case using cell_step_place [OF step.hyps(2)] keep [OF step.hyps(2)] by (auto intro: rtranclp.rtrancl_into_rtrancl)
  qed simp
  then show ?thesis using cell_step_place [OF assms(3)] keep [OF assms(3)] by blast
qed

definition new_cell :: cell where
  "new_cell = \<lparr>ce_printer = new_sim_printer, ce_arm = new_sim_arm, ce_wb = new_whiteboard\<rparr>"

text \<open>A printer that has cooled down, both packs published; the arm unloads.\<close>

definition cooled_cell :: cell where
  "cooled_cell = (let p = new_sim_printer\<lparr>sp_part_temp_c := Fin 30\<rparr> in
     \<lparr>ce_printer = p, ce_arm = new_sim_arm, ce_wb = new_whiteboard\<lparr>wb_values := printer_dict p @ arm_dict new_sim_arm\<rparr>\<rparr>)"

definition sample_manifest :: pack_manifest where
  "sample_manifest = \<lparr>mf_pack_id = ''sim'', mf_display_name = ''Sim'', mf_category = ''c''\<rparr>"

definition unloaded :: "cell \<Rightarrow> cell" where
  "unloaded c = (case arm_realize (\<lambda>_. 1) (unload_action sample_manifest) (ce_arm c, ce_wb c) of
     (_, a, w) \<Rightarrow> c\<lparr>ce_arm := a, ce_wb := w\<rparr>)"

lemma unloaded_step:
  "cell_facts sample_rt sample_manifest sample_manifest c = Inr facts \<Longrightarrow>
   evaluate sample_rt (la_preconditions (unload_action sample_manifest)) facts = Inr True \<Longrightarrow>
   cell_step sample_rt (\<lambda>_. 1) sample_manifest sample_manifest c (unloaded c)"
  by (auto simp: unloaded_def split: prod.split intro: cell_step.arm_acts)

theorem cell_refines_part_witness:
  "cell_place cooled_cell = OnBed \<and> part_step (cell_place cooled_cell) (cell_place (unloaded cooled_cell))
     \<and> cell_place (unloaded cooled_cell) \<noteq> Duplicated"
proof -
  have facts: "cell_facts sample_rt sample_manifest sample_manifest cooled_cell
      = Inr (projr (cell_facts sample_rt sample_manifest sample_manifest cooled_cell))" by code_simp
  have "evaluate sample_rt (la_preconditions (unload_action sample_manifest))
      (projr (cell_facts sample_rt sample_manifest sample_manifest cooled_cell)) = Inr True" by code_simp
  note step = unloaded_step [OF facts this]
  have place: "cell_place cooled_cell = OnBed" by code_simp
  then have "cell_place cooled_cell \<noteq> Duplicated" by simp
  from cell_refines_part [OF rtranclp.rtrancl_refl this step] place show ?thesis by blast
qed

end
