(* ===== verification/PrusaDriver.thy ===== *)
theory PrusaDriver
  imports Models
begin

text \<open>
  The driver of the Prusa CORE One/+ pack: \<open>packs/prusa_core_one_plus/driver.py\<close>, with the status
  snapshot of \<open>types.py\<close> and the request routes of \<open>adapters.py\<close>.

  The printer is an environment (\<open>prusa_env\<close>): the \<open>n\<close>-th call of the run is answered by what the
  record says for \<open>n\<close>, a value or an exception, so a theorem about every \<open>prusa_env\<close> is a theorem
  about every behaviour of the HTTP service and of the serial port.  The state keeps the number of
  calls made, the serial commands handed to the writer, the control requests handed to the HTTP
  client and the bound session key.

  A wait loop compares \<open>time.monotonic()\<close> with a deadline.  The model carries the time left: every
  reading of the clock takes away the nanosecond that the reads and the sleep of a turn last at
  least and whatever more the environment says (\<open>pe_elapsed\<close>), so the loops are total.
\<close>

section \<open>Numbers\<close>

fun float_abs :: "pyfloat \<Rightarrow> pyfloat" where
  "float_abs (Fin a) = Fin \<bar>a\<bar>"
| "float_abs NaN = NaN"
| "float_abs _ = Inf"

definition close_to :: "rat \<Rightarrow> pyfloat \<Rightarrow> pyfloat \<Rightarrow> bool" where
  "close_to tolerance a b = float_less (float_abs (float_sub a b)) (Fin tolerance)"

text \<open>\<open>round(x)\<close> to the nearest integer, a tie to the even one; \<open>int(round(x))\<close>; \<open>int(x)\<close>.\<close>

definition round_even :: "rat \<Rightarrow> int" where
  "round_even x =
     (let f = \<lfloor>x\<rfloor>; d = x - of_int f in
      if d < 1 / 2 then f else if d > 1 / 2 then f + 1 else if even f then f else f + 1)"

fun int_round :: "pyfloat \<Rightarrow> pyexc + int" where
  "int_round (Fin x) = Inr (round_even x)"
| "int_round NaN = Inl (ValueError ''cannot convert float NaN to integer'')"
| "int_round _ = Inl (PyExc ''OverflowError'' ''cannot convert float infinity to integer'')"

definition int_trunc :: "rat \<Rightarrow> int" where
  "int_trunc x = (if x \<ge> 0 then \<lfloor>x\<rfloor> else \<lceil>x\<rceil>)"

lemma close_to_Fin [simp]: "close_to tol (Fin a) (Fin b) \<longleftrightarrow> \<bar>a - b\<bar> < tol"
  by (simp add: close_to_def float_sub_def)

lemma close_to_finite: "close_to tol x y \<Longrightarrow> \<exists>a b. x = Fin a \<and> y = Fin b \<and> \<bar>a - b\<bar> < tol"
  by (cases x; cases y) (auto simp: close_to_def float_sub_def)

lemma round_even_near: "\<bar>of_int (round_even x) - x\<bar> \<le> 1 / 2"
proof -
  have "of_int \<lfloor>x\<rfloor> \<le> x" and "x < of_int \<lfloor>x\<rfloor> + 1" by linarith+
  then show ?thesis by (auto simp: round_even_def Let_def abs_le_iff)
qed

lemma round_even_ge: "of_int k \<le> x \<Longrightarrow> k \<le> round_even x"
proof -
  assume "of_int k \<le> x"
  then have "k \<le> \<lfloor>x\<rfloor>" by (simp add: le_floor_iff)
  then show ?thesis by (auto simp: round_even_def Let_def)
qed

lemma round_even_le: "x \<le> of_int k \<Longrightarrow> round_even x \<le> k"
proof -
  assume a: "x \<le> of_int k"
  have fk: "\<lfloor>x\<rfloor> \<le> k" using a by linarith
  show ?thesis
  proof (cases "\<lfloor>x\<rfloor> = k")
    case True
    then have "x - of_int \<lfloor>x\<rfloor> < 1 / 2" using a by simp
    then show ?thesis using True by (simp add: round_even_def Let_def)
  next
    case False
    then show ?thesis using fk by (auto simp: round_even_def Let_def)
  qed
qed

section \<open>Regular expressions\<close>

text \<open>
  The patterns the driver searches replies with, as a backtracking matcher: a match state is the
  text consumed (reversed), the text left and the captured group; a pattern gives the match states
  in the order in which Python's \<open>re\<close> tries them, and \<open>search\<close> takes the first one of the first
  starting position that has one.
\<close>

datatype regex =
    Sym "char \<Rightarrow> bool"
  | Many "char \<Rightarrow> bool"
  | ManyLazy "char \<Rightarrow> bool"
  | WordBoundary
  | Opt regex
  | Seq regex regex
  | Alt regex regex
  | Group regex

type_synonym match_state = "string \<times> string \<times> string option"

definition is_digit_char :: "char \<Rightarrow> bool" where
  "is_digit_char c \<longleftrightarrow> 48 \<le> (of_char c :: nat) \<and> (of_char c :: nat) \<le> 57"

definition is_word_char :: "char \<Rightarrow> bool" where
  "is_word_char c \<longleftrightarrow> (let n = (of_char c :: nat) in
     (48 \<le> n \<and> n \<le> 57) \<or> (65 \<le> n \<and> n \<le> 90) \<or> (97 \<le> n \<and> n \<le> 122) \<or> n = 95)"

definition word_boundary :: "string \<Rightarrow> string \<Rightarrow> bool" where
  "word_boundary pre rest \<longleftrightarrow>
     (pre \<noteq> [] \<and> is_word_char (hd pre)) \<noteq> (rest \<noteq> [] \<and> is_word_char (hd rest))"

fun many_greedy :: "(char \<Rightarrow> bool) \<Rightarrow> match_state \<Rightarrow> match_state list" where
  "many_greedy p (pre, [], g) = [(pre, [], g)]"
| "many_greedy p (pre, c # s, g) =
     (if p c then many_greedy p (c # pre, s, g) else []) @ [(pre, c # s, g)]"

primrec re_run :: "regex \<Rightarrow> match_state \<Rightarrow> match_state list" where
  "re_run (Sym p) st = (case st of
      (pre, c # s, g) \<Rightarrow> if p c then [(c # pre, s, g)] else [] | _ \<Rightarrow> [])"
| "re_run (Many p) st = many_greedy p st"
| "re_run (ManyLazy p) st = rev (many_greedy p st)"
| "re_run WordBoundary st = (case st of (pre, s, g) \<Rightarrow> if word_boundary pre s then [st] else [])"
| "re_run (Opt r) st = re_run r st @ [st]"
| "re_run (Seq a b) st = concat (map (re_run b) (re_run a st))"
| "re_run (Alt a b) st = re_run a st @ re_run b st"
| "re_run (Group r) st = map (\<lambda>(pre, s, g).
     (pre, s, Some (rev (take (length pre - length (fst st)) pre)))) (re_run r st)"

fun re_search :: "regex \<Rightarrow> string \<Rightarrow> string \<Rightarrow> string option" where
  "re_search r pre s = (case re_run r (pre, s, None) of
      (_, _, g) # _ \<Rightarrow> g
    | [] \<Rightarrow> (case s of [] \<Rightarrow> None | c # s' \<Rightarrow> re_search r (c # pre) s'))"

fun re_literal :: "(char \<Rightarrow> char) \<Rightarrow> string \<Rightarrow> regex" where
  "re_literal fc [] = Many (\<lambda>_. False)"
| "re_literal fc (c # s) = Seq (Sym (\<lambda>x. fc x = fc c)) (re_literal fc s)"

definition re_number :: regex where
  "re_number = Seq (Sym is_digit_char) (Seq (Many is_digit_char)
     (Opt (Seq (Sym (\<lambda>c. c = CHR ''.'')) (Seq (Sym is_digit_char) (Many is_digit_char)))))"

definition re_signed :: regex where
  "re_signed = Seq (Opt (Sym (\<lambda>c. c = CHR ''-''))) re_number"

definition SPEED_RE :: regex where
  "SPEED_RE = Seq (Alt (re_literal id ''FR'') (re_literal id ''Speed''))
     (Seq (ManyLazy (\<lambda>c. c \<noteq> CHR 0x0A)) (Seq (Group re_number)
       (Seq (Many is_space) (Sym (\<lambda>c. c = CHR ''%'')))))"

definition FLOW_RE :: regex where
  "FLOW_RE = Seq (re_literal id ''Flow:'') (Seq (Many is_space) (Seq (Group re_number)
     (Seq (Many is_space) (Sym (\<lambda>c. c = CHR ''%'')))))"

definition gcode_word :: "string \<Rightarrow> string \<Rightarrow> regex" where
  "gcode_word command letters = Seq WordBoundary (Seq (re_literal char_lower command) (Seq WordBoundary
     (Seq (Many (\<lambda>c. c \<notin> {CHR 0x0D, CHR 0x0A, CHR '';''}))
       (Seq WordBoundary (Sym (\<lambda>c. char_lower c \<in> set letters))))))"

definition described_as :: "string \<Rightarrow> regex" where
  "described_as label =
     Seq (re_literal char_lower label) (Many (\<lambda>c. \<not> is_digit_char c \<and> c \<noteq> CHR ''-''))"

definition PRESSURE_ADVANCE_RE :: regex where
  "PRESSURE_ADVANCE_RE =
     Seq (Alt (gcode_word ''M572'' ''s'') (described_as ''pressure advance'')) (Group re_signed)"

definition ACCEL_RE :: regex where
  "ACCEL_RE = Seq (Alt (gcode_word ''M204'' ''ps'') (described_as ''acceleration'')) (Group re_signed)"

section \<open>The status snapshot\<close>

datatype lifecycle = L_IDLE | L_PRINTING | L_PAUSED | L_FINISHED | L_STOPPED | L_ATTENTION | L_ERROR
  | L_OFFLINE | L_UNKNOWN

fun lifecycle_value :: "lifecycle \<Rightarrow> string" where
  "lifecycle_value L_IDLE = ''IDLE''"
| "lifecycle_value L_PRINTING = ''PRINTING''"
| "lifecycle_value L_PAUSED = ''PAUSED''"
| "lifecycle_value L_FINISHED = ''FINISHED''"
| "lifecycle_value L_STOPPED = ''STOPPED''"
| "lifecycle_value L_ATTENTION = ''ATTENTION''"
| "lifecycle_value L_ERROR = ''ERROR''"
| "lifecycle_value L_OFFLINE = ''OFFLINE''"
| "lifecycle_value L_UNKNOWN = ''UNKNOWN''"

record snapshot =
  sn_lifecycle :: lifecycle
  sn_health :: string
  sn_job_active :: bool
  sn_job_id :: "int option"
  sn_job_state :: "string option"
  sn_job_progress_pct :: "pyfloat option"
  sn_job_time_printing_s :: "pyfloat option"
  sn_current_file :: "string option"
  sn_speed_pct :: "pyfloat option"
  sn_flow_pct :: "pyfloat option"
  sn_nozzle_temp_c :: "pyfloat option"
  sn_nozzle_target_c :: "pyfloat option"
  sn_bed_temp_c :: "pyfloat option"
  sn_bed_target_c :: "pyfloat option"
  sn_pressure_advance :: "pyfloat option"
  sn_print_accel_mm_s2 :: "pyfloat option"
  sn_min_extrusion_temp_c :: "pyfloat option"
  sn_nozzle_diameter_mm :: "pyfloat option"
  sn_model :: "string option"
  sn_serial_number :: "string option"

definition map_lifecycle :: "pyrt \<Rightarrow> dict \<Rightarrow> pyexc + lifecycle" where
  "map_lifecycle rt status =
     bindR (as_dict (por (pget status ''printer'') (PyDict []))) (\<lambda>printer.
     let state = str_upper (py_str rt (por (pget printer ''state'') (PyStr ''UNKNOWN''))) in
     Inr (if state = ''IDLE'' then L_IDLE
       else if state = ''PRINTING'' then L_PRINTING
       else if state = ''PAUSED'' then L_PAUSED
       else if state = ''FINISHED'' then L_FINISHED
       else if state = ''STOPPED'' then L_STOPPED
       else if state = ''ATTENTION'' then L_ATTENTION
       else if state = ''ERROR'' then L_ERROR
       else L_UNKNOWN))"

definition job_active :: "pyrt \<Rightarrow> dict \<Rightarrow> bool" where
  "job_active rt status = (case pget status ''job'' of
      PyDict job \<Rightarrow>
        str_upper (py_str rt (por (pget job ''state'') (PyStr [])))
          \<in> {''PRINTING'', ''PAUSED'', ''PREPARING'', ''BUSY''}
        \<or> truthy (pget job ''id'')
    | _ \<Rightarrow> False)"

definition job_id :: "dict \<Rightarrow> int option" where
  "job_id status = (case pget status ''job'' of PyDict job \<Rightarrow> as_int (pget job ''id'') | _ \<Rightarrow> None)"

text \<open>The job endpoint overrides the status payload where it says something.\<close>

definition effective_job :: "dict \<Rightarrow> pyval \<Rightarrow> dict" where
  "effective_job status job =
     (let base = (case por (pget status ''job'') (PyDict []) of PyDict d \<Rightarrow> d | _ \<Rightarrow> []) in
      case job of PyDict j \<Rightarrow> dict_update base (filter (\<lambda>(_, v). v \<noteq> PyNone) j) | _ \<Rightarrow> base)"

definition health_of :: "lifecycle \<Rightarrow> string" where
  "health_of l = (if l = L_OFFLINE then ''OFFLINE''
     else if l \<in> {L_ERROR, L_ATTENTION} then lifecycle_value l else ''OK'')"

definition status_to_snapshot :: "pyrt \<Rightarrow> pyval \<Rightarrow> pyval \<Rightarrow> dict \<Rightarrow> pyexc + snapshot" where
  "status_to_snapshot rt payload job info =
     bindR (as_dict payload) (\<lambda>status.
     bindR (map_lifecycle rt status) (\<lambda>lifecycle.
     bindR (as_dict (por (pget status ''printer'') (PyDict []))) (\<lambda>printer.
     let eff = effective_job status job;
         number = (\<lambda>k. float_or_none rt (pget printer k)) in
     Inr \<lparr>sn_lifecycle = lifecycle, sn_health = health_of lifecycle,
       sn_job_active = job_active rt status, sn_job_id = job_id status,
       sn_job_state = string_or_none rt (pget eff ''state''),
       sn_job_progress_pct = float_or_none rt (pget eff ''progress''),
       sn_job_time_printing_s = float_or_none rt (pget eff ''time_printing''),
       sn_current_file = (case pget eff ''file'' of
          PyDict f \<Rightarrow> string_or_none rt (por (pget f ''display_name'') (pget f ''name''))
        | _ \<Rightarrow> None),
       sn_speed_pct = number ''speed'', sn_flow_pct = number ''flow'',
       sn_nozzle_temp_c = number ''temp_nozzle'', sn_nozzle_target_c = number ''target_nozzle'',
       sn_bed_temp_c = number ''temp_bed'', sn_bed_target_c = number ''target_bed'',
       sn_pressure_advance = None, sn_print_accel_mm_s2 = None,
       sn_min_extrusion_temp_c = float_or_none rt (pget info ''min_extrusion_temp''),
       sn_nozzle_diameter_mm = float_or_none rt (pget info ''nozzle_diameter''),
       sn_model = string_or_none rt (por (pget info ''model'') (pget info ''hostname'')),
       sn_serial_number = string_or_none rt (pget info ''serial'')\<rparr>)))"

text \<open>\<open>repr\<close> of a snapshot, which the message of a wait that timed out shows.\<close>

definition snapshot_repr :: "pyrt \<Rightarrow> snapshot \<Rightarrow> string" where
  "snapshot_repr rt s =
     (let q = lifecycle_value (sn_lifecycle s);
          num = (\<lambda>x. py_repr rt (opt_float x)); txt = (\<lambda>x. py_repr rt (opt_str x)) in
      ''PrusaStatusSnapshot(lifecycle=<PrusaLifecycle.'' @ q @ '': '' @ str_repr q
      @ ''>, health='' @ str_repr (sn_health s)
      @ '', job_active='' @ py_repr rt (PyBool (sn_job_active s))
      @ '', job_id='' @ (case sn_job_id s of None \<Rightarrow> ''None'' | Some i \<Rightarrow> int_str i)
      @ '', job_state='' @ txt (sn_job_state s)
      @ '', job_progress_pct='' @ num (sn_job_progress_pct s)
      @ '', job_time_printing_s='' @ num (sn_job_time_printing_s s)
      @ '', current_file='' @ txt (sn_current_file s)
      @ '', speed_pct='' @ num (sn_speed_pct s) @ '', flow_pct='' @ num (sn_flow_pct s)
      @ '', nozzle_temp_c='' @ num (sn_nozzle_temp_c s)
      @ '', nozzle_target_c='' @ num (sn_nozzle_target_c s)
      @ '', bed_temp_c='' @ num (sn_bed_temp_c s) @ '', bed_target_c='' @ num (sn_bed_target_c s)
      @ '', pressure_advance='' @ num (sn_pressure_advance s)
      @ '', print_accel_mm_s2='' @ num (sn_print_accel_mm_s2 s)
      @ '', min_extrusion_temp_c='' @ num (sn_min_extrusion_temp_c s)
      @ '', nozzle_diameter_mm='' @ num (sn_nozzle_diameter_mm s)
      @ '', model='' @ txt (sn_model s) @ '', serial_number='' @ txt (sn_serial_number s) @ '')'')"

section \<open>File names\<close>

text \<open>\<open>Path(s).name\<close>: the last component, where empty ones and dots do not count.\<close>

definition path_name :: "string \<Rightarrow> string" where
  "path_name s =
     (let parts = filter (\<lambda>p. p \<noteq> [] \<and> p \<noteq> ''.'') (split_on (CHR ''/'') s) in
      if parts = [] then [] else List.last parts)"

definition canonical_file_token :: "string \<Rightarrow> string" where
  "canonical_file_token value =
     (let trimmed = str_strip value in if trimmed = [] then [] else str_lower (path_name trimmed))"

definition add_variant :: "string list \<Rightarrow> string \<Rightarrow> string list" where
  "add_variant variants candidate =
     (let normalized = str_strip candidate in
      if normalized \<noteq> [] \<and> normalized \<notin> set variants then variants @ [normalized] else variants)"

definition requested_file_variants :: "string list \<Rightarrow> string list" where
  "requested_file_variants vals =
     foldl (\<lambda>variants v. let trimmed = str_strip v in
        if trimmed = [] then variants
        else foldl add_variant variants [trimmed, path_name trimmed]) [] vals"

section \<open>Classification of failures\<close>

definition is_transient_read_error :: "pyexc \<Rightarrow> bool" where
  "is_transient_read_error exc \<longleftrightarrow> exc_class exc = ''TimeoutError'' \<or>
     list_ex (\<lambda>marker. contains marker (str_lower (exc_str exc)))
       [''timed out'', ''temporary failure'', ''connection reset'', ''connection refused'']"

definition is_recoverable_control_timeout :: "pyexc \<Rightarrow> bool" where
  "is_recoverable_control_timeout exc = is_transient_read_error exc"

definition is_recoverable_start_timeout :: "pyexc \<Rightarrow> bool" where
  "is_recoverable_start_timeout exc \<longleftrightarrow> exc_class exc = ''TimeoutError'' \<or>
     (contains ''timed out'' (str_lower (exc_str exc)) \<and> \<not> contains ''start'' (str_lower (exc_str exc)))"

definition start_timeout_recovered :: "snapshot \<Rightarrow> string list \<Rightarrow> bool" where
  "start_timeout_recovered s requested_variants =
     (if sn_lifecycle s \<noteq> L_PRINTING \<or> \<not> sn_job_active s then False
      else case sn_current_file s of
        None \<Rightarrow> False
      | Some f \<Rightarrow> if f = [] then False
          else list_ex (\<lambda>requested. let token = canonical_file_token requested in
                 token \<noteq> [] \<and> token \<in> {canonical_file_token f, canonical_file_token (path_name f)})
               requested_variants)"

definition cancel_timeout_recovered :: "snapshot \<Rightarrow> bool" where
  "cancel_timeout_recovered s \<longleftrightarrow>
     \<not> sn_job_active s \<and> sn_lifecycle s \<in> {L_IDLE, L_FINISHED, L_STOPPED}"

definition is_stale_cancel_surface :: "snapshot \<Rightarrow> bool" where
  "is_stale_cancel_surface s \<longleftrightarrow> sn_job_active s \<and> sn_lifecycle s = L_PRINTING
     \<and> float_le (float_or (sn_nozzle_target_c s) (Fin 0)) (Fin 0)
     \<and> float_le (float_or (sn_bed_target_c s) (Fin 0)) (Fin 0)"

text \<open>The bare \<open>file:\<close> prefix of a session key ends in the base name of the current file.\<close>

definition session_key_for_status :: "snapshot \<Rightarrow> string" where
  "session_key_for_status s = (case sn_job_id s of
      Some i \<Rightarrow> ''job:'' @ int_str i
    | None \<Rightarrow> (case sn_current_file s of
        Some f \<Rightarrow> if f = [] then ''lifecycle:'' @ lifecycle_value (sn_lifecycle s)
                  else ''file:'' @ path_name f
      | None \<Rightarrow> ''lifecycle:'' @ lifecycle_value (sn_lifecycle s)))"

section \<open>The printer and the driver's state\<close>

record driver_settings =
  ds_timeout_s :: rat
  ds_speed_small_step_pct :: rat
  ds_speed_big_step_pct :: rat
  ds_speed_min_pct :: rat
  ds_speed_default_pct :: rat
  ds_speed_max_pct :: rat
  ds_flow_small_step_pct :: rat
  ds_flow_big_step_pct :: rat
  ds_flow_min_pct :: rat
  ds_flow_default_pct :: rat
  ds_flow_max_pct :: rat
  ds_temp_small_step_c :: rat
  ds_temp_big_step_c :: rat
  ds_pressure_advance_small_step_pct :: rat
  ds_pressure_advance_big_step_pct :: rat
  ds_pressure_advance_envelope_pct :: rat
  ds_pressure_advance_min :: rat
  ds_pressure_advance_max :: rat
  ds_accel_small_step_pct :: rat
  ds_accel_big_step_pct :: rat
  ds_accel_envelope_pct :: rat
  ds_accel_min_mm_s2 :: rat
  ds_accel_max_mm_s2 :: rat

definition default_settings :: driver_settings where
  "default_settings = \<lparr>ds_timeout_s = 8, ds_speed_small_step_pct = 5, ds_speed_big_step_pct = 10,
     ds_speed_min_pct = 65, ds_speed_default_pct = 100, ds_speed_max_pct = 135,
     ds_flow_small_step_pct = 5, ds_flow_big_step_pct = 10, ds_flow_min_pct = 65,
     ds_flow_default_pct = 100, ds_flow_max_pct = 135, ds_temp_small_step_c = 5,
     ds_temp_big_step_c = 10, ds_pressure_advance_small_step_pct = 10,
     ds_pressure_advance_big_step_pct = 20, ds_pressure_advance_envelope_pct = 25,
     ds_pressure_advance_min = 0, ds_pressure_advance_max = 12 / 100,
     ds_accel_small_step_pct = 10, ds_accel_big_step_pct = 20, ds_accel_envelope_pct = 25,
     ds_accel_min_mm_s2 = 500, ds_accel_max_mm_s2 = 12000\<rparr>"

definition SPEED_HTTP_VERIFY_TIMEOUT_S :: rat where "SPEED_HTTP_VERIFY_TIMEOUT_S = 45"
definition CANCEL_VERIFY_TIMEOUT_S :: rat where "CANCEL_VERIFY_TIMEOUT_S = 20"
definition CANCEL_STALE_SETTLE_TIMEOUT_S :: rat where "CANCEL_STALE_SETTLE_TIMEOUT_S = 15"
definition FLOW_HTTP_VERIFY_TIMEOUT_S :: rat where "FLOW_HTTP_VERIFY_TIMEOUT_S = 45"

record printable_file =
  pf_path :: string
  pf_display_name :: string
  pf_size_bytes :: "int option"
  pf_modified_ts :: "int option"
  pf_refs :: "(string \<times> string) list"

datatype control = C_pause "int option" | C_resume "int option" | C_cancel "int option" | C_start string

record prusa_env =
  pe_rt :: pyrt
  pe_settings :: driver_settings
  pe_status :: "nat \<Rightarrow> pyexc + pyval"
  pe_job :: "nat \<Rightarrow> pyexc + pyval"
  pe_files :: "nat \<Rightarrow> pyexc + printable_file list"
  pe_query :: "nat \<Rightarrow> string \<Rightarrow> pyexc + string list"
  pe_send :: "nat \<Rightarrow> string \<Rightarrow> pyexc + unit"
  pe_control :: "nat \<Rightarrow> control \<Rightarrow> pyexc + unit"
  pe_elapsed :: "nat \<Rightarrow> nat"
  pe_serial_port :: "string option"

record dstate =
  dv_calls :: nat
  dv_sent :: "string list"
  dv_controls :: "control list"
  dv_session :: "string option"

text \<open>The next call of the run.\<close>

definition ask :: "(nat \<Rightarrow> pyexc + 'a) \<Rightarrow> (dstate, 'a) act" where
  "ask answers s = (answers (dv_calls s), s\<lparr>dv_calls := dv_calls s + 1\<rparr>)"

definition read_status_with :: "prusa_env \<Rightarrow> dict \<Rightarrow> (dstate, snapshot) act" where
  "read_status_with env info =
     bindE (ask (pe_status env)) (\<lambda>status.
     bindE (ask (pe_job env)) (\<lambda>job.
     liftE (status_to_snapshot (pe_rt env) status job info)))"

definition read_status :: "prusa_env \<Rightarrow> (dstate, snapshot) act" where
  "read_status env = read_status_with env []"

definition bind_session :: "string \<Rightarrow> (dstate, unit) act" where
  "bind_session key = modify (\<lambda>s. s\<lparr>dv_session := nonempty (str_strip key)\<rparr>)"

definition bind_serial_session :: "snapshot \<Rightarrow> (dstate, unit) act" where
  "bind_serial_session status = bind_session (session_key_for_status status)"

definition send_command :: "prusa_env \<Rightarrow> string \<Rightarrow> (dstate, unit) act" where
  "send_command env command =
     bindE (modify (\<lambda>s. s\<lparr>dv_sent := dv_sent s @ [command]\<rparr>)) (\<lambda>_.
     ask (\<lambda>n. pe_send env n command))"

definition query_command :: "prusa_env \<Rightarrow> string \<Rightarrow> (dstate, string list) act" where
  "query_command env command = ask (\<lambda>n. pe_query env n command)"

definition control_call :: "prusa_env \<Rightarrow> control \<Rightarrow> (dstate, unit) act" where
  "control_call env c =
     bindE (modify (\<lambda>s. s\<lparr>dv_controls := dv_controls s @ [c]\<rparr>)) (\<lambda>_. ask (\<lambda>n. pe_control env n c))"

text \<open>A reading of the clock, as the time that is left until the deadline.\<close>

definition time_left :: "prusa_env \<Rightarrow> rat \<Rightarrow> dstate \<Rightarrow> rat" where
  "time_left env left s = left - (1 + of_nat (pe_elapsed env (dv_calls s))) / 1000000000"

definition clock_read :: "dstate \<Rightarrow> dstate" where
  "clock_read s = s\<lparr>dv_calls := dv_calls s + 1\<rparr>"

definition exc_repr :: "pyexc \<Rightarrow> string" where
  "exc_repr e = exc_class e @ ''('' @ str_repr (exc_msg e) @ '')''"

section \<open>Waiting\<close>

lemma time_left_pos: "time_left env left s > 0 \<Longrightarrow> 0 < left"
proof -
  have "0 \<le> (1 + rat_of_nat (pe_elapsed env (dv_calls s))) / 1000000000" by simp
  then show "time_left env left s > 0 \<Longrightarrow> 0 < left" unfolding time_left_def by linarith
qed

lemma time_left_decreases:
  "\<lceil>time_left env left s * 1000000000\<rceil> < \<lceil>left * 1000000000\<rceil>"
proof -
  let ?r = "left * 1000000000" and ?r' = "time_left env left s * 1000000000"
  have "?r' \<le> ?r - 1" by (simp add: time_left_def algebra_simps)
  then have "\<lceil>?r'\<rceil> \<le> \<lceil>?r - 1\<rceil>" by (rule ceiling_mono)
  then show ?thesis by simp
qed

definition wait_detail :: "prusa_env \<Rightarrow> snapshot option \<Rightarrow> pyexc option \<Rightarrow> string" where
  "wait_detail env last_snapshot last_error = (case last_snapshot of
      Some sn \<Rightarrow> ''last='' @ snapshot_repr (pe_rt env) sn
    | None \<Rightarrow> ''last_error='' @ (case last_error of None \<Rightarrow> ''None'' | Some e \<Rightarrow> exc_repr e))"

function wait_for_loop :: "prusa_env \<Rightarrow> (snapshot \<Rightarrow> bool) \<Rightarrow> rat \<Rightarrow> snapshot option
    \<Rightarrow> pyexc option \<Rightarrow> (dstate, snapshot) act" where
  "wait_for_loop env p left last_snapshot last_error s =
     (if time_left env left s > 0 then
        case read_status env (clock_read s) of
          (Inl exc, s') \<Rightarrow>
            if \<not> is_transient_read_error exc then (Inl exc, s')
            else wait_for_loop env p (time_left env left s) last_snapshot (Some exc) s'
        | (Inr sn, s') \<Rightarrow>
            if p sn then (Inr sn, s')
            else wait_for_loop env p (time_left env left s) (Some sn) last_error s'
      else (Inl (RuntimeError (''Prusa did not reach expected post-state before timeout; ''
              @ wait_detail env last_snapshot last_error)), clock_read s))"
  by pat_completeness auto
termination
  by (relation "measure (\<lambda>(env, p, left, _). nat \<lceil>left * 1000000000\<rceil>)")
    (auto intro: time_left_decreases time_left_pos)

declare wait_for_loop.simps [simp del]

definition wait_for :: "prusa_env \<Rightarrow> (snapshot \<Rightarrow> bool) \<Rightarrow> rat \<Rightarrow> (dstate, snapshot) act" where
  "wait_for env p timeout_s = wait_for_loop env p timeout_s None None"

function wait_for_rate_loop :: "prusa_env \<Rightarrow> (dstate, pyfloat option) act \<Rightarrow> pyfloat \<Rightarrow> string \<Rightarrow> rat
    \<Rightarrow> rat \<Rightarrow> pyfloat option \<Rightarrow> pyexc option \<Rightarrow> (dstate, pyfloat) act" where
  "wait_for_rate_loop env reader target label tolerance left last_value last_error s =
     (if time_left env left s > 0 then
        case reader (clock_read s) of
          (Inl exc, s') \<Rightarrow> wait_for_rate_loop env reader target label tolerance
                             (time_left env left s) last_value (Some exc) s'
        | (Inr None, s') \<Rightarrow> wait_for_rate_loop env reader target label tolerance
                             (time_left env left s) None last_error s'
        | (Inr (Some v), s') \<Rightarrow>
            if close_to tolerance v target then (Inr v, s')
            else wait_for_rate_loop env reader target label tolerance
                   (time_left env left s) (Some v) last_error s'
      else (Inl (RuntimeError (''Prusa did not reach expected '' @ label @ '' before timeout; ''
              @ (case last_error of
                   None \<Rightarrow> ''last_'' @ label @ ''='' @ py_repr (pe_rt env) (opt_float last_value)
                 | Some e \<Rightarrow> ''last_error='' @ exc_repr e))), clock_read s))"
  by pat_completeness auto
termination
  by (relation "measure (\<lambda>(env, reader, target, label, tolerance, left, _). nat \<lceil>left * 1000000000\<rceil>)")
    (auto intro: time_left_decreases time_left_pos)

declare wait_for_rate_loop.simps [simp del]

definition wait_for_rate_factor ::
  "prusa_env \<Rightarrow> (dstate, pyfloat option) act \<Rightarrow> pyfloat \<Rightarrow> string \<Rightarrow> rat \<Rightarrow> (dstate, pyfloat) act" where
  "wait_for_rate_factor env reader target label tolerance =
     wait_for_rate_loop env reader target label tolerance (ds_timeout_s (pe_settings env)) None None"

text \<open>
  After a cancel whose answer got lost: a recovered snapshot ends the wait, a stale one (still
  printing with all targets at zero) prolongs it, any other is the answer.
\<close>

definition cancel_recovery_end :: "snapshot option \<Rightarrow> pyexc option \<Rightarrow> pyexc + snapshot" where
  "cancel_recovery_end last_snapshot last_error = (case last_snapshot of
      Some sn \<Rightarrow> Inr sn
    | None \<Rightarrow> (case last_error of
        Some e \<Rightarrow> Inl e
      | None \<Rightarrow> Inl (RuntimeError ''cancel recovery did not produce a status snapshot'')))"

function cancel_recovery_loop :: "prusa_env \<Rightarrow> rat \<Rightarrow> snapshot option \<Rightarrow> pyexc option
    \<Rightarrow> (dstate, snapshot) act" where
  "cancel_recovery_loop env left last_snapshot last_error s =
     (if time_left env left s > 0 then
        case read_status env (clock_read s) of
          (Inl exc, s') \<Rightarrow>
            if \<not> is_transient_read_error exc then (Inl exc, s')
            else cancel_recovery_loop env (time_left env left s) last_snapshot (Some exc) s'
        | (Inr sn, s') \<Rightarrow>
            if cancel_timeout_recovered sn then (Inr sn, s')
            else if \<not> is_stale_cancel_surface sn then (cancel_recovery_end (Some sn) last_error, s')
            else cancel_recovery_loop env (time_left env left s) (Some sn) last_error s'
      else (cancel_recovery_end last_snapshot last_error, clock_read s))"
  by pat_completeness auto
termination
  by (relation "measure (\<lambda>(env, left, _). nat \<lceil>left * 1000000000\<rceil>)")
    (auto intro: time_left_decreases time_left_pos)

declare cancel_recovery_loop.simps [simp del]

definition wait_for_cancel_recovery :: "prusa_env \<Rightarrow> (dstate, snapshot) act" where
  "wait_for_cancel_recovery env = cancel_recovery_loop env
     (max (ds_timeout_s (pe_settings env)) CANCEL_STALE_SETTLE_TIMEOUT_S) None None"

section \<open>Readings\<close>

fun scan_lines :: "pyrt \<Rightarrow> regex \<Rightarrow> string list \<Rightarrow> pyexc + pyfloat option" where
  "scan_lines rt pattern [] = Inr None"
| "scan_lines rt pattern (line # lines) = (case re_search pattern [] line of
      Some g \<Rightarrow> bindR (py_float rt (PyStr g)) (\<lambda>f. Inr (Some f))
    | None \<Rightarrow> scan_lines rt pattern lines)"

definition read_rate_factor :: "prusa_env \<Rightarrow> string \<Rightarrow> regex \<Rightarrow> (dstate, pyfloat option) act" where
  "read_rate_factor env command pattern =
     bindE (query_command env command) (\<lambda>lines. liftE (scan_lines (pe_rt env) pattern lines))"

definition bind_current_session :: "prusa_env \<Rightarrow> (dstate, unit) act" where
  "bind_current_session env = bindE (read_status env) bind_serial_session"

definition read_speed_factor_pct :: "prusa_env \<Rightarrow> (dstate, pyfloat option) act" where
  "read_speed_factor_pct env =
     bindE (bind_current_session env) (\<lambda>_. read_rate_factor env ''M220'' SPEED_RE)"

definition read_flow_factor_pct :: "prusa_env \<Rightarrow> (dstate, pyfloat option) act" where
  "read_flow_factor_pct env =
     bindE (bind_current_session env) (\<lambda>_. read_rate_factor env ''M221'' FLOW_RE)"

fun scan_pressure_advance :: "pyrt \<Rightarrow> string list \<Rightarrow> pyexc + pyfloat option" where
  "scan_pressure_advance rt [] = Inr None"
| "scan_pressure_advance rt (line # lines) =
     (if contains ''pressure advance'' (str_lower line) \<and> contains ''disabled'' (str_lower line)
      then Inr (Some (Fin 0))
      else case re_search PRESSURE_ADVANCE_RE [] line of
        Some g \<Rightarrow> bindR (py_float rt (PyStr g)) (\<lambda>f. Inr (Some f))
      | None \<Rightarrow> scan_pressure_advance rt lines)"

definition read_pressure_advance :: "prusa_env \<Rightarrow> (dstate, pyfloat option) act" where
  "read_pressure_advance env =
     bindE (bind_current_session env) (\<lambda>_.
     bindE (query_command env ''M572'') (\<lambda>lines. liftE (scan_pressure_advance (pe_rt env) lines)))"

definition read_print_accel_mm_s2 :: "prusa_env \<Rightarrow> (dstate, pyfloat option) act" where
  "read_print_accel_mm_s2 env =
     bindE (bind_current_session env) (\<lambda>_. read_rate_factor env ''M204'' ACCEL_RE)"

section \<open>Waiting for a confirmed value\<close>

definition reads_close :: "rat \<Rightarrow> pyfloat \<Rightarrow> pyfloat option \<Rightarrow> bool" where
  "reads_close tolerance target x = (case x of None \<Rightarrow> False | Some v \<Rightarrow> close_to tolerance v target)"

text \<open>The code asserts that the confirmed field is there.\<close>

definition assert_some :: "'a option \<Rightarrow> (dstate, 'a) act" where
  "assert_some x = (case x of None \<Rightarrow> raise (PyExc ''AssertionError'' '''') | Some v \<Rightarrow> ret v)"

definition wait_for_http_speed_factor :: "prusa_env \<Rightarrow> pyfloat \<Rightarrow> (dstate, pyfloat) act" where
  "wait_for_http_speed_factor env target =
     bindE (wait_for env (\<lambda>sn. reads_close (1 / 2) target (sn_speed_pct sn))
              (max (ds_timeout_s (pe_settings env)) SPEED_HTTP_VERIFY_TIMEOUT_S)) (\<lambda>confirmed.
     assert_some (sn_speed_pct confirmed))"

definition wait_for_speed_factor :: "prusa_env \<Rightarrow> pyfloat \<Rightarrow> (dstate, pyfloat) act" where
  "wait_for_speed_factor env target =
     wait_for_rate_factor env (read_speed_factor_pct env) target ''speed_pct'' (1 / 2)"

definition wait_for_flow_factor :: "prusa_env \<Rightarrow> pyfloat \<Rightarrow> (dstate, pyfloat) act" where
  "wait_for_flow_factor env target =
     try_except (wait_for_rate_factor env (read_flow_factor_pct env) target ''flow_pct'' (1 / 2)) (\<lambda>_.
     bindE (wait_for env (\<lambda>sn. reads_close (1 / 2) target (sn_flow_pct sn))
              (max (ds_timeout_s (pe_settings env)) FLOW_HTTP_VERIFY_TIMEOUT_S)) (\<lambda>confirmed.
     assert_some (sn_flow_pct confirmed)))"

definition wait_for_pressure_advance :: "prusa_env \<Rightarrow> pyfloat \<Rightarrow> (dstate, pyfloat) act" where
  "wait_for_pressure_advance env target =
     wait_for_rate_factor env (read_pressure_advance env) target ''pressure_advance'' (5 / 10000)"

definition wait_for_print_accel :: "prusa_env \<Rightarrow> pyfloat \<Rightarrow> (dstate, pyfloat) act" where
  "wait_for_print_accel env target =
     wait_for_rate_factor env (read_print_accel_mm_s2 env) target ''print_accel_mm_s2'' (1 / 2)"

section \<open>Failures of a tuning command\<close>

definition failure_class :: "pyexc \<Rightarrow> string" where
  "failure_class exc = (if exc_class exc = ''TimeoutError'' then ''TimeoutError'' else ''RuntimeError'')"

definition failure_head :: "prusa_env \<Rightarrow> string \<Rightarrow> string \<Rightarrow> string \<Rightarrow> pyfloat \<Rightarrow> string list" where
  "failure_head env command surface field v =
     [''send_command='' @ command,
      ''acceptance_surface=serial:'' @ (case pe_serial_port env of
          None \<Rightarrow> ''unknown_port'' | Some p \<Rightarrow> if p = [] then ''unknown_port'' else p),
      ''verification_surface='' @ surface,
      ''target_'' @ field @ ''='' @ float_repr (pe_rt env) v]"

definition failure_status :: "pyrt \<Rightarrow> (pyexc + snapshot) \<Rightarrow> string list" where
  "failure_status rt r = (case r of
      Inl e \<Rightarrow> [''status_read_error='' @ exc_repr e]
    | Inr sn \<Rightarrow> (let num = (\<lambda>x. py_repr rt (opt_float x)) in
        [''http_lifecycle='' @ lifecycle_value (sn_lifecycle sn),
         ''http_job_progress_pct='' @ num (sn_job_progress_pct sn),
         ''http_speed_pct='' @ num (sn_speed_pct sn),
         ''http_flow_pct='' @ num (sn_flow_pct sn),
         ''http_nozzle_target_c='' @ num (sn_nozzle_target_c sn),
         ''http_bed_target_c='' @ num (sn_bed_target_c sn)]))"

definition tuning_failure ::
  "prusa_env \<Rightarrow> pyexc \<Rightarrow> string \<Rightarrow> string \<Rightarrow> string \<Rightarrow> pyfloat \<Rightarrow> (dstate, 'a) act" where
  "tuning_failure env exc command surface field v s =
     (case read_status env s of (r, s') \<Rightarrow>
        (Inl (PyExc (failure_class exc)
               (str_join ''; '' (failure_head env command surface field v
                  @ failure_status (pe_rt env) r @ [''cause='' @ exc_str exc]))), s'))"

text \<open>The write and its verification, the common middle of every setter.\<close>

definition write_and_verify :: "prusa_env \<Rightarrow> string \<Rightarrow> string \<Rightarrow> string \<Rightarrow> pyfloat
    \<Rightarrow> (dstate, 'a) act \<Rightarrow> (dstate, 'a) act" where
  "write_and_verify env command surface field target confirm =
     try_except (bindE (send_command env command) (\<lambda>_. confirm))
       (\<lambda>exc. tuning_failure env exc command surface field target)"

section \<open>The setters\<close>

definition require_reading :: "string \<Rightarrow> pyfloat option \<Rightarrow> (dstate, pyfloat) act" where
  "require_reading message x = (case x of None \<Rightarrow> raise (RuntimeError message) | Some v \<Rightarrow> ret v)"

definition with_lifecycle :: "prusa_env \<Rightarrow> string \<Rightarrow> pyfloat \<Rightarrow> (dstate, dict) act" where
  "with_lifecycle env key confirmed = bindE (read_status env) (\<lambda>sn.
     ret [(key, PyFloat confirmed), (''lifecycle'', PyStr (lifecycle_value (sn_lifecycle sn)))])"

text \<open>
  The clamps of the rate setters: a target on the wrong side of the reading makes the call a no-op
  (\<open>None\<close>), a target in the right direction is the value to set.
\<close>

definition clamp_directed :: "pyfloat option \<Rightarrow> pyfloat option \<Rightarrow> pyfloat \<Rightarrow> pyfloat \<Rightarrow> pyfloat option" where
  "clamp_directed clamp_min clamp_max current target =
     (let lowered = (case clamp_min of None \<Rightarrow> Some target
            | Some lo \<Rightarrow> let t = float_max lo target in if float_le current t then None else Some t)
      in case lowered of
           None \<Rightarrow> None
         | Some t \<Rightarrow> (case clamp_max of None \<Rightarrow> Some t
            | Some hi \<Rightarrow> let u = float_min hi t in if float_le u current then None else Some u))"

text \<open>The other setters clamp on both sides and compare with the reading afterwards.\<close>

definition clamp_plain :: "pyfloat option \<Rightarrow> pyfloat option \<Rightarrow> pyfloat \<Rightarrow> pyfloat" where
  "clamp_plain clamp_min clamp_max target =
     (let t = (case clamp_min of None \<Rightarrow> target | Some lo \<Rightarrow> float_max lo target)
      in case clamp_max of None \<Rightarrow> t | Some hi \<Rightarrow> float_min hi t)"

definition set_speed_factor ::
  "prusa_env \<Rightarrow> pyfloat \<Rightarrow> pyfloat option \<Rightarrow> pyfloat option \<Rightarrow> string \<Rightarrow> (dstate, dict) act" where
  "set_speed_factor env target_speed_pct clamp_min clamp_max effect =
     bindE (read_status env) (\<lambda>status.
     bindE (bind_serial_session status) (\<lambda>_.
     bindE (require_reading ''HTTP status does not expose current speed_pct'' (sn_speed_pct status)) (\<lambda>current.
     case clamp_directed clamp_min clamp_max current target_speed_pct of
       None \<Rightarrow> ret [(''speed_pct'', PyFloat current), (''effect'', PyStr effect)]
     | Some target \<Rightarrow>
         bindE (liftE (int_round target)) (\<lambda>n.
         bindE (write_and_verify env (''M220 S'' @ int_str n) ''http_status.printer.speed'' ''speed_pct'' target
                  (wait_for_http_speed_factor env target)) (with_lifecycle env ''speed_pct'')))))"

definition set_flow_factor ::
  "prusa_env \<Rightarrow> pyfloat \<Rightarrow> pyfloat option \<Rightarrow> pyfloat option \<Rightarrow> string \<Rightarrow> (dstate, dict) act" where
  "set_flow_factor env target_flow_pct clamp_min clamp_max effect =
     bindE (read_status env) (\<lambda>status.
     bindE (bind_serial_session status) (\<lambda>_.
     bindE (require_reading ''HTTP status does not expose current flow_pct'' (sn_flow_pct status)) (\<lambda>current.
     case clamp_directed clamp_min clamp_max current target_flow_pct of
       None \<Rightarrow> ret [(''flow_pct'', PyFloat current), (''effect'', PyStr effect)]
     | Some target \<Rightarrow>
         bindE (liftE (int_round target)) (\<lambda>n.
         bindE (write_and_verify env (''M221 S'' @ int_str n) ''serial_query:M221->Flow%'' ''flow_pct'' target
                  (wait_for_flow_factor env target)) (with_lifecycle env ''flow_pct'')))))"

definition restore_speed_default :: "prusa_env \<Rightarrow> (dstate, dict) act" where
  "restore_speed_default env =
     bindE (read_status env) (\<lambda>status.
     bindE (bind_serial_session status) (\<lambda>_.
     bindE (require_reading ''HTTP status does not expose current speed_pct'' (sn_speed_pct status)) (\<lambda>current.
     let dflt = ds_speed_default_pct (pe_settings env) in
     if close_to (1 / 2) current (Fin dflt)
     then ret [(''speed_pct'', PyFloat current), (''effect'', PyStr ''noop_already_default'')]
     else bindE (write_and_verify env (''M220 S'' @ int_str (int_trunc dflt)) ''http_status.printer.speed''
                   ''speed_pct'' (Fin dflt) (wait_for_http_speed_factor env (Fin dflt)))
            (with_lifecycle env ''speed_pct''))))"

definition restore_flow_default :: "prusa_env \<Rightarrow> (dstate, dict) act" where
  "restore_flow_default env =
     bindE (read_status env) (\<lambda>status.
     bindE (bind_serial_session status) (\<lambda>_.
     bindE (require_reading ''HTTP status does not expose current flow_pct'' (sn_flow_pct status)) (\<lambda>current.
     let dflt = ds_flow_default_pct (pe_settings env) in
     if close_to (1 / 2) current (Fin dflt)
     then ret [(''flow_pct'', PyFloat current), (''effect'', PyStr ''noop_already_default'')]
     else bindE (write_and_verify env (''M221 S'' @ int_str (int_trunc dflt)) ''serial_query:M221->Flow%''
                   ''flow_pct'' (Fin dflt) (wait_for_flow_factor env (Fin dflt)))
            (with_lifecycle env ''flow_pct''))))"

definition set_nozzle_target ::
  "prusa_env \<Rightarrow> pyfloat \<Rightarrow> pyfloat option \<Rightarrow> pyfloat option \<Rightarrow> string \<Rightarrow> (dstate, dict) act" where
  "set_nozzle_target env target_nozzle_c clamp_min clamp_max effect =
     bindE (read_status env) (\<lambda>status.
     bindE (bind_serial_session status) (\<lambda>_.
     bindE (require_reading ''HTTP status does not expose target nozzle temperature''
              (sn_nozzle_target_c status)) (\<lambda>current.
     let target = clamp_plain clamp_min clamp_max target_nozzle_c in
     if close_to (1 / 10) target current
     then ret [(''target_nozzle_c'', PyFloat current), (''effect'', PyStr effect)]
     else bindE (liftE (int_round target)) (\<lambda>n.
       bindE (write_and_verify env (''M104 S'' @ int_str n) ''http_status.printer.target_nozzle''
                ''nozzle_target_c'' target
                (wait_for env (\<lambda>sn. reads_close (1 / 2) target (sn_nozzle_target_c sn))
                   (ds_timeout_s (pe_settings env)))) (\<lambda>confirmed.
       ret [(''target_nozzle_c'', opt_float (sn_nozzle_target_c confirmed)),
            (''lifecycle'', PyStr (lifecycle_value (sn_lifecycle confirmed)))])))))"

definition set_bed_target ::
  "prusa_env \<Rightarrow> pyfloat \<Rightarrow> pyfloat option \<Rightarrow> pyfloat option \<Rightarrow> string \<Rightarrow> (dstate, dict) act" where
  "set_bed_target env target_bed_c clamp_min clamp_max effect =
     bindE (read_status env) (\<lambda>status.
     bindE (bind_serial_session status) (\<lambda>_.
     bindE (require_reading ''HTTP status does not expose target bed temperature''
              (sn_bed_target_c status)) (\<lambda>current.
     let target = clamp_plain clamp_min clamp_max target_bed_c in
     if close_to (1 / 10) target current
     then ret [(''target_bed_c'', PyFloat current), (''effect'', PyStr effect)]
     else bindE (liftE (int_round target)) (\<lambda>n.
       bindE (write_and_verify env (''M140 S'' @ int_str n) ''http_status.printer.target_bed''
                ''bed_target_c'' target
                (wait_for env (\<lambda>sn. reads_close (1 / 2) target (sn_bed_target_c sn))
                   (ds_timeout_s (pe_settings env)))) (\<lambda>confirmed.
       ret [(''target_bed_c'', opt_float (sn_bed_target_c confirmed)),
            (''lifecycle'', PyStr (lifecycle_value (sn_lifecycle confirmed)))])))))"

definition set_pressure_advance ::
  "prusa_env \<Rightarrow> pyfloat \<Rightarrow> pyfloat option \<Rightarrow> pyfloat option \<Rightarrow> string \<Rightarrow> (dstate, dict) act" where
  "set_pressure_advance env target_pressure_advance clamp_min clamp_max effect =
     bindE (read_status env) (\<lambda>status.
     bindE (bind_serial_session status) (\<lambda>_.
     bindE (read_pressure_advance env) (\<lambda>reading.
     bindE (require_reading ''serial query does not expose current pressure advance'' reading) (\<lambda>current.
     let target = clamp_plain clamp_min clamp_max target_pressure_advance in
     if close_to (5 / 10000) target current
     then ret [(''pressure_advance'', PyFloat (round_half_even (pe_rt env) 4 current)),
               (''effect'', PyStr effect)]
     else bindE (write_and_verify env (''M572 S'' @ float_fixed (pe_rt env) 4 target)
                   ''serial_query:M572->pressure_advance'' ''pressure_advance'' target
                   (wait_for_pressure_advance env target)) (\<lambda>confirmed.
       ret [(''pressure_advance'', PyFloat (round_half_even (pe_rt env) 4 confirmed)),
            (''lifecycle'', PyStr (lifecycle_value (sn_lifecycle status)))])))))"

definition set_print_accel ::
  "prusa_env \<Rightarrow> pyfloat \<Rightarrow> pyfloat option \<Rightarrow> pyfloat option \<Rightarrow> string \<Rightarrow> (dstate, dict) act" where
  "set_print_accel env target_print_accel_mm_s2 clamp_min clamp_max effect =
     bindE (read_status env) (\<lambda>status.
     bindE (bind_serial_session status) (\<lambda>_.
     bindE (read_print_accel_mm_s2 env) (\<lambda>reading.
     bindE (require_reading ''serial query does not expose current print acceleration'' reading) (\<lambda>current.
     let target = clamp_plain clamp_min clamp_max target_print_accel_mm_s2 in
     if close_to (1 / 2) target current
     then ret [(''print_accel_mm_s2'', PyFloat (round_half_even (pe_rt env) 1 current)),
               (''effect'', PyStr effect)]
     else bindE (liftE (int_round target)) (\<lambda>n.
       bindE (write_and_verify env (''M204 P'' @ int_str n)
                ''serial_query:M204->print_accel_P'' ''print_accel_mm_s2'' target
                (wait_for_print_accel env target)) (\<lambda>confirmed.
       ret [(''print_accel_mm_s2'', PyFloat (round_half_even (pe_rt env) 1 confirmed)),
            (''lifecycle'', PyStr (lifecycle_value (sn_lifecycle status)))]))))))"

subsection \<open>The bounded operations the pack calls\<close>

definition trim_speed_down_small :: "prusa_env \<Rightarrow> pyfloat \<Rightarrow> (dstate, dict) act" where
  "trim_speed_down_small env target = set_speed_factor env target (Some (Fin (ds_speed_min_pct (pe_settings env)))) None ''noop_already_trimmed''"

definition trim_speed_up_small :: "prusa_env \<Rightarrow> pyfloat \<Rightarrow> (dstate, dict) act" where
  "trim_speed_up_small env target = set_speed_factor env target None (Some (Fin (ds_speed_max_pct (pe_settings env)))) ''noop_already_raised''"

definition trim_flow_down_small :: "prusa_env \<Rightarrow> pyfloat \<Rightarrow> (dstate, dict) act" where
  "trim_flow_down_small env target = set_flow_factor env target (Some (Fin (ds_flow_min_pct (pe_settings env)))) None ''noop_already_trimmed''"

definition trim_flow_up_small :: "prusa_env \<Rightarrow> pyfloat \<Rightarrow> (dstate, dict) act" where
  "trim_flow_up_small env target = set_flow_factor env target None (Some (Fin (ds_flow_max_pct (pe_settings env)))) ''noop_already_raised''"

definition trim_nozzle_down_small :: "prusa_env \<Rightarrow> pyfloat \<Rightarrow> pyfloat \<Rightarrow> (dstate, dict) act" where
  "trim_nozzle_down_small env target lowest = set_nozzle_target env target (Some lowest) None ''noop_floor_reached''"

definition trim_nozzle_up_small :: "prusa_env \<Rightarrow> pyfloat \<Rightarrow> pyfloat \<Rightarrow> (dstate, dict) act" where
  "trim_nozzle_up_small env target highest = set_nozzle_target env target None (Some highest) ''noop_ceiling_reached''"

definition trim_bed_down_small :: "prusa_env \<Rightarrow> pyfloat \<Rightarrow> (dstate, dict) act" where
  "trim_bed_down_small env target = set_bed_target env target (Some (Fin 0)) None ''noop_floor_reached''"

definition trim_bed_up_small :: "prusa_env \<Rightarrow> pyfloat \<Rightarrow> pyfloat \<Rightarrow> (dstate, dict) act" where
  "trim_bed_up_small env target highest = set_bed_target env target None (Some highest) ''noop_ceiling_reached''"

definition trim_pressure_advance_down_small :: "prusa_env \<Rightarrow> pyfloat \<Rightarrow> (dstate, dict) act" where
  "trim_pressure_advance_down_small env target = set_pressure_advance env target (Some (Fin (ds_pressure_advance_min (pe_settings env)))) None ''noop_floor_reached''"

definition trim_pressure_advance_up_small :: "prusa_env \<Rightarrow> pyfloat \<Rightarrow> (dstate, dict) act" where
  "trim_pressure_advance_up_small env target = set_pressure_advance env target None (Some (Fin (ds_pressure_advance_max (pe_settings env)))) ''noop_ceiling_reached''"

definition trim_print_accel_down_small :: "prusa_env \<Rightarrow> pyfloat \<Rightarrow> (dstate, dict) act" where
  "trim_print_accel_down_small env target = set_print_accel env target (Some (Fin (ds_accel_min_mm_s2 (pe_settings env)))) None ''noop_floor_reached''"

definition trim_print_accel_up_small :: "prusa_env \<Rightarrow> pyfloat \<Rightarrow> (dstate, dict) act" where
  "trim_print_accel_up_small env target = set_print_accel env target None (Some (Fin (ds_accel_max_mm_s2 (pe_settings env)))) ''noop_ceiling_reached''"

definition trim_speed_down_big :: "prusa_env \<Rightarrow> pyfloat \<Rightarrow> (dstate, dict) act" where
  "trim_speed_down_big env target = set_speed_factor env target (Some (Fin (ds_speed_min_pct (pe_settings env)))) None ''noop_already_trimmed''"

definition trim_speed_up_big :: "prusa_env \<Rightarrow> pyfloat \<Rightarrow> (dstate, dict) act" where
  "trim_speed_up_big env target = set_speed_factor env target None (Some (Fin (ds_speed_max_pct (pe_settings env)))) ''noop_already_raised''"

definition trim_flow_down_big :: "prusa_env \<Rightarrow> pyfloat \<Rightarrow> (dstate, dict) act" where
  "trim_flow_down_big env target = set_flow_factor env target (Some (Fin (ds_flow_min_pct (pe_settings env)))) None ''noop_already_trimmed''"

definition trim_flow_up_big :: "prusa_env \<Rightarrow> pyfloat \<Rightarrow> (dstate, dict) act" where
  "trim_flow_up_big env target = set_flow_factor env target None (Some (Fin (ds_flow_max_pct (pe_settings env)))) ''noop_already_raised''"

definition trim_nozzle_down_big :: "prusa_env \<Rightarrow> pyfloat \<Rightarrow> pyfloat \<Rightarrow> (dstate, dict) act" where
  "trim_nozzle_down_big env target lowest = set_nozzle_target env target (Some lowest) None ''noop_floor_reached''"

definition trim_nozzle_up_big :: "prusa_env \<Rightarrow> pyfloat \<Rightarrow> pyfloat \<Rightarrow> (dstate, dict) act" where
  "trim_nozzle_up_big env target highest = set_nozzle_target env target None (Some highest) ''noop_ceiling_reached''"

definition trim_bed_down_big :: "prusa_env \<Rightarrow> pyfloat \<Rightarrow> (dstate, dict) act" where
  "trim_bed_down_big env target = set_bed_target env target (Some (Fin 0)) None ''noop_floor_reached''"

definition trim_bed_up_big :: "prusa_env \<Rightarrow> pyfloat \<Rightarrow> pyfloat \<Rightarrow> (dstate, dict) act" where
  "trim_bed_up_big env target highest = set_bed_target env target None (Some highest) ''noop_ceiling_reached''"

definition trim_pressure_advance_down_big :: "prusa_env \<Rightarrow> pyfloat \<Rightarrow> (dstate, dict) act" where
  "trim_pressure_advance_down_big env target = set_pressure_advance env target (Some (Fin (ds_pressure_advance_min (pe_settings env)))) None ''noop_floor_reached''"

definition trim_pressure_advance_up_big :: "prusa_env \<Rightarrow> pyfloat \<Rightarrow> (dstate, dict) act" where
  "trim_pressure_advance_up_big env target = set_pressure_advance env target None (Some (Fin (ds_pressure_advance_max (pe_settings env)))) ''noop_ceiling_reached''"

definition trim_print_accel_down_big :: "prusa_env \<Rightarrow> pyfloat \<Rightarrow> (dstate, dict) act" where
  "trim_print_accel_down_big env target = set_print_accel env target (Some (Fin (ds_accel_min_mm_s2 (pe_settings env)))) None ''noop_floor_reached''"

definition trim_print_accel_up_big :: "prusa_env \<Rightarrow> pyfloat \<Rightarrow> (dstate, dict) act" where
  "trim_print_accel_up_big env target = set_print_accel env target None (Some (Fin (ds_accel_max_mm_s2 (pe_settings env)))) ''noop_ceiling_reached''"

definition restore_pressure_advance_default :: "prusa_env \<Rightarrow> pyfloat \<Rightarrow> (dstate, dict) act" where
  "restore_pressure_advance_default env target = set_pressure_advance env target None None ''noop_already_default''"

definition restore_print_accel_default :: "prusa_env \<Rightarrow> pyfloat \<Rightarrow> (dstate, dict) act" where
  "restore_print_accel_default env target = set_print_accel env target None None ''noop_already_default''"

subsection \<open>Targets derived from a baseline\<close>

definition relative_envelope_bounds :: "pyfloat \<Rightarrow> rat \<Rightarrow> rat \<Rightarrow> rat \<Rightarrow> pyfloat \<times> pyfloat" where
  "relative_envelope_bounds baseline envelope_pct lowest highest =
     (let factor = max 0 envelope_pct / 100 in
      (float_max (Fin lowest) (float_scale (1 - factor) baseline),
       float_min (Fin highest) (float_scale (1 + factor) baseline)))"

definition pressure_advance_bounds_for_baseline :: "driver_settings \<Rightarrow> pyfloat \<Rightarrow> pyfloat \<times> pyfloat" where
  "pressure_advance_bounds_for_baseline ds baseline =
     relative_envelope_bounds baseline (ds_pressure_advance_envelope_pct ds)
       (ds_pressure_advance_min ds) (ds_pressure_advance_max ds)"

definition print_accel_bounds_for_baseline :: "driver_settings \<Rightarrow> pyfloat \<Rightarrow> pyfloat \<times> pyfloat" where
  "print_accel_bounds_for_baseline ds baseline =
     relative_envelope_bounds baseline (ds_accel_envelope_pct ds)
       (ds_accel_min_mm_s2 ds) (ds_accel_max_mm_s2 ds)"

definition step_factor :: "rat \<Rightarrow> string \<Rightarrow> rat" where
  "step_factor step_pct direction =
     (if direction = ''up'' then 1 + step_pct / 100 else 1 - step_pct / 100)"

definition pressure_advance_target_from_baseline ::
  "driver_settings \<Rightarrow> pyfloat \<Rightarrow> string \<Rightarrow> string \<Rightarrow> pyfloat" where
  "pressure_advance_target_from_baseline ds baseline direction magnitude =
     (let step_pct = (if magnitude = ''big'' then ds_pressure_advance_big_step_pct ds
                      else ds_pressure_advance_small_step_pct ds);
          (lowest, highest) = pressure_advance_bounds_for_baseline ds baseline
      in float_min highest (float_max lowest (float_scale (step_factor step_pct direction) baseline)))"

definition print_accel_target_from_baseline ::
  "driver_settings \<Rightarrow> pyfloat \<Rightarrow> string \<Rightarrow> string \<Rightarrow> pyfloat" where
  "print_accel_target_from_baseline ds baseline direction magnitude =
     (let step_pct = (if magnitude = ''big'' then ds_accel_big_step_pct ds
                      else ds_accel_small_step_pct ds);
          (lowest, highest) = print_accel_bounds_for_baseline ds baseline
      in float_min highest (float_max lowest (float_scale (step_factor step_pct direction) baseline)))"

section \<open>Lifecycle control\<close>

definition pause :: "prusa_env \<Rightarrow> (dstate, dict) act" where
  "pause env =
     bindE (ask (pe_status env)) (\<lambda>status.
     bindE (liftE (as_dict status)) (\<lambda>st.
     bindE (control_call env (C_pause (job_id st))) (\<lambda>_.
     bindE (wait_for env (\<lambda>sn. sn_lifecycle sn = L_PAUSED) (ds_timeout_s (pe_settings env))) (\<lambda>confirmed.
     ret [(''lifecycle'', PyStr (lifecycle_value (sn_lifecycle confirmed))),
          (''job_id'', case sn_job_id confirmed of None \<Rightarrow> PyNone | Some i \<Rightarrow> PyInt i)]))))"

definition resume :: "prusa_env \<Rightarrow> (dstate, dict) act" where
  "resume env =
     bindE (ask (pe_status env)) (\<lambda>status.
     bindE (liftE (as_dict status)) (\<lambda>st.
     bindE (control_call env (C_resume (job_id st))) (\<lambda>_.
     bindE (wait_for env (\<lambda>sn. sn_lifecycle sn = L_PRINTING) (ds_timeout_s (pe_settings env))) (\<lambda>confirmed.
     ret [(''lifecycle'', PyStr (lifecycle_value (sn_lifecycle confirmed))),
          (''job_id'', case sn_job_id confirmed of None \<Rightarrow> PyNone | Some i \<Rightarrow> PyInt i)]))))"

definition cancel_request :: "prusa_env \<Rightarrow> pyval \<Rightarrow> (dstate, dict) act" where
  "cancel_request env status =
     bindE (liftE (as_dict status)) (\<lambda>st.
     bindE (control_call env (C_cancel (job_id st))) (\<lambda>_.
     bindE (wait_for env cancel_timeout_recovered
              (max (ds_timeout_s (pe_settings env)) CANCEL_VERIFY_TIMEOUT_S)) (\<lambda>confirmed.
     ret [(''lifecycle'', PyStr (lifecycle_value (sn_lifecycle confirmed))),
          (''job_active'', PyBool (sn_job_active confirmed))])))"

definition cancel_recover :: "prusa_env \<Rightarrow> pyexc \<Rightarrow> (dstate, dict) act" where
  "cancel_recover env exc =
     (if \<not> is_recoverable_control_timeout exc then raise exc
      else bindE (wait_for_cancel_recovery env) (\<lambda>sn.
        if \<not> cancel_timeout_recovered sn then raise exc
        else ret [(''lifecycle'', PyStr (lifecycle_value (sn_lifecycle sn))),
                  (''job_active'', PyBool (sn_job_active sn)),
                  (''recovered_from_cancel_timeout'', PyBool True)]))"

definition cancel :: "prusa_env \<Rightarrow> (dstate, dict) act" where
  "cancel env =
     bindE (ask (pe_status env)) (\<lambda>status. try_except (cancel_request env status) (cancel_recover env))"

definition matching_file :: "string list \<Rightarrow> printable_file \<Rightarrow> bool" where
  "matching_file requested_tokens item \<longleftrightarrow>
     list_ex (\<lambda>token. token \<noteq> [] \<and> token \<in> {canonical_file_token (pf_path item),
        canonical_file_token (path_name (pf_path item)), canonical_file_token (pf_display_name item)})
       requested_tokens"

definition resolve_start_print_path :: "prusa_env \<Rightarrow> string \<Rightarrow> (dstate, string \<times> string list) act" where
  "resolve_start_print_path env file_path =
     (let requested = str_strip file_path; variants = requested_file_variants [requested] in
      if requested = [] then ret (requested, variants)
      else bindE (try_except (bindE (ask (pe_files env)) (\<lambda>known. ret (Some known))) (\<lambda>_. ret None))
        (\<lambda>known. case known of
            None \<Rightarrow> ret (requested, variants)
          | Some items \<Rightarrow> (case find (matching_file [canonical_file_token requested,
                                       canonical_file_token (path_name requested)]) items of
              None \<Rightarrow> ret (requested, variants)
            | Some item \<Rightarrow> ret (pf_path item,
                requested_file_variants [requested, pf_path item, pf_display_name item]))))"

definition start_result :: "snapshot \<Rightarrow> dict" where
  "start_result sn =
     [(''lifecycle'', PyStr (lifecycle_value (sn_lifecycle sn))),
      (''job_active'', PyBool (sn_job_active sn)), (''current_file'', opt_str (sn_current_file sn))]"

definition start_recover :: "prusa_env \<Rightarrow> string list \<Rightarrow> pyexc \<Rightarrow> (dstate, dict option) act" where
  "start_recover env requested_variants exc =
     (if \<not> is_recoverable_start_timeout exc then raise exc
      else bindE (read_status env) (\<lambda>sn.
        if \<not> start_timeout_recovered sn requested_variants then raise exc
        else ret (Some (start_result sn @ [(''recovered_from_start_timeout'', PyBool True)]))))"

definition start_print :: "prusa_env \<Rightarrow> string \<Rightarrow> (dstate, dict) act" where
  "start_print env file_path =
     bindE (resolve_start_print_path env file_path) (\<lambda>(printer_path, requested_variants).
     bindE (try_except (bindE (control_call env (C_start printer_path)) (\<lambda>_. ret None))
              (start_recover env requested_variants))
     (\<lambda>recovered. case recovered of
         Some r \<Rightarrow> ret r
       | None \<Rightarrow> bindE (wait_for env (\<lambda>sn. sn_job_active sn \<and> sn_lifecycle sn = L_PRINTING)
                         (ds_timeout_s (pe_settings env))) (\<lambda>confirmed. ret (start_result confirmed))))"

section \<open>What the readings and waits leave alone\<close>

text \<open>The effects of a call on the printer: the commands and control requests handed over.\<close>

definition effects :: "dstate \<Rightarrow> string list \<times> control list" where
  "effects s = (dv_sent s, dv_controls s)"

definition quiet :: "(dstate, 'a) act \<Rightarrow> bool" where
  "quiet m \<longleftrightarrow> (\<forall>s. effects (snd (m s)) = effects s)"

named_theorems quiet_intros "operations that only read"

lemma quietD: "quiet m \<Longrightarrow> m s = (r, s') \<Longrightarrow> effects s' = effects s"
  by (auto simp: quiet_def dest: spec [of _ s])

lemma quiet_basic [quiet_intros]:
  "quiet (ret a)" "quiet (raise e)" "quiet (liftE r)" "quiet (ask f)" "quiet (bind_session k)"
  by (simp_all add: quiet_def act_simps ask_def bind_session_def effects_def)

lemma quiet_bindE [quiet_intros]:
  "quiet m \<Longrightarrow> (\<And>a. quiet (f a)) \<Longrightarrow> quiet (bindE m f)"
  by (auto simp: quiet_def bindE_def split: prod.splits sum.splits) (metis snd_conv)+

lemma quiet_try_except [quiet_intros]:
  "quiet m \<Longrightarrow> (\<And>e. quiet (h e)) \<Longrightarrow> quiet (try_except m h)"
  by (auto simp: quiet_def try_except_def split: prod.splits sum.splits) (metis snd_conv)+

lemma quiet_option [quiet_intros]:
  "quiet m \<Longrightarrow> (\<And>a. quiet (f a)) \<Longrightarrow> quiet (case x of None \<Rightarrow> m | Some a \<Rightarrow> f a)"
  by (cases x) simp_all

lemma quiet_read_status [quiet_intros]: "quiet (read_status env)"
  by (auto simp: read_status_def read_status_with_def intro!: quiet_intros)

lemma quiet_bind_serial [quiet_intros]: "quiet (bind_serial_session sn)"
  by (simp add: bind_serial_session_def quiet_intros)

lemma quiet_query [quiet_intros]: "quiet (query_command env c)"
  by (simp add: query_command_def quiet_intros)

lemma quiet_readers [quiet_intros]:
  "quiet (read_rate_factor env c p)" "quiet (read_flow_factor_pct env)"
  "quiet (read_speed_factor_pct env)" "quiet (read_pressure_advance env)"
  "quiet (read_print_accel_mm_s2 env)" "quiet (assert_some x)" "quiet (require_reading m x)"
  by (auto simp: read_rate_factor_def read_flow_factor_pct_def read_speed_factor_pct_def
        read_pressure_advance_def read_print_accel_mm_s2_def bind_current_session_def
        assert_some_def require_reading_def intro!: quiet_intros)

lemma effects_clock [simp]: "effects (clock_read s) = effects s"
  by (simp add: effects_def clock_read_def)

lemma effects_wait_for_loop:
  "effects (snd (wait_for_loop env p left sn err s)) = effects s"
proof (induction env p left sn err s rule: wait_for_loop.induct)
  case (1 env p left sn err s)
  obtain r s' where rs: "read_status env (clock_read s) = (r, s')" by fastforce
  have same: "effects s' = effects s" using quietD [OF quiet_read_status rs] by simp
  show ?case
    by (subst wait_for_loop.simps)
       (use rs same in \<open>auto simp: 1 split: sum.splits\<close>)
qed

lemma effects_wait_for_rate_loop:
  "quiet reader \<Longrightarrow>
     effects (snd (wait_for_rate_loop env reader target label tol left v err s)) = effects s"
proof (induction env reader target label tol left v err s rule: wait_for_rate_loop.induct)
  case (1 env reader target label tol left v err s)
  obtain r s' where rs: "reader (clock_read s) = (r, s')" by fastforce
  have same: "effects s' = effects s" using quietD [OF 1(4) rs] by simp
  show ?case
    by (subst wait_for_rate_loop.simps)
       (use rs same 1(4) in \<open>auto simp: 1(1-3) split: sum.splits option.splits\<close>)
qed

lemma effects_cancel_recovery_loop:
  "effects (snd (cancel_recovery_loop env left sn err s)) = effects s"
proof (induction env left sn err s rule: cancel_recovery_loop.induct)
  case (1 env left sn err s)
  obtain r s' where rs: "read_status env (clock_read s) = (r, s')" by fastforce
  have same: "effects s' = effects s" using quietD [OF quiet_read_status rs] by simp
  show ?case
    by (subst cancel_recovery_loop.simps)
       (use rs same in \<open>auto simp: 1 split: sum.splits\<close>)
qed

lemma quiet_waits [quiet_intros]:
  "quiet (wait_for env p t)" "quiet (wait_for_cancel_recovery env)"
  "quiet reader \<Longrightarrow> quiet (wait_for_rate_factor env reader v label tol)"
  by (simp_all add: quiet_def wait_for_def wait_for_cancel_recovery_def wait_for_rate_factor_def
        effects_wait_for_loop effects_cancel_recovery_loop effects_wait_for_rate_loop)

lemma quiet_confirm [quiet_intros]:
  "quiet (wait_for_http_speed_factor env t)" "quiet (wait_for_flow_factor env t)"
  "quiet (wait_for_pressure_advance env t)" "quiet (wait_for_print_accel env t)"
  "quiet (with_lifecycle env k v)"
  by (auto simp: wait_for_http_speed_factor_def wait_for_flow_factor_def wait_for_pressure_advance_def
        wait_for_print_accel_def with_lifecycle_def intro!: quiet_intros)

lemma quiet_tuning_failure [quiet_intros]: "quiet (tuning_failure env exc c sf fd v)"
  using quiet_read_status [of env]
  by (auto simp: quiet_def tuning_failure_def split: prod.splits) (metis snd_conv)

section \<open>At most one command\<close>

text \<open>
  \<open>emits P m s\<close>: run from \<open>s\<close>, the operation hands the printer nothing, or exactly one serial
  command, which satisfies \<open>P\<close>.
\<close>

definition emits :: "(string \<Rightarrow> bool) \<Rightarrow> (dstate, 'a) act \<Rightarrow> dstate \<Rightarrow> bool" where
  "emits P m s \<longleftrightarrow> effects (snd (m s)) = effects s
     \<or> (\<exists>c. P c \<and> effects (snd (m s)) = (dv_sent s @ [c], dv_controls s))"

named_theorems emits_intros "composition of operations that send at most one command"

lemma emits_quiet: "quiet m \<Longrightarrow> emits P m s"
  by (simp add: emits_def quiet_def)

lemma emits_bind_quiet:
  assumes "quiet m" and "\<And>a s'. m s = (Inr a, s') \<Longrightarrow> emits P (f a) s'"
  shows "emits P (bindE m f) s"
proof -
  obtain r s' where m: "m s = (r, s')" by fastforce
  have same: "effects s' = effects s" using quietD [OF assms(1) m] .
  then have "dv_sent s' = dv_sent s" "dv_controls s' = dv_controls s" by (simp_all add: effects_def)
  then show ?thesis
    using m same assms(2) by (cases r) (auto simp: emits_def bindE_def)
qed

lemma effects_bind_quiet:
  assumes "\<And>a. quiet (f a)"
  shows "effects (snd (bindE m f s)) = effects (snd (m s))"
proof -
  obtain r s' where m: "m s = (r, s')" by fastforce
  show ?thesis using m assms by (cases r) (auto simp: bindE_def quiet_def)
qed

lemma effects_write_and_verify:
  assumes "quiet confirm"
  shows "effects (snd (write_and_verify env c sf fd v confirm s)) = (dv_sent s @ [c], dv_controls s)"
proof -
  let ?m = "bindE (send_command env c) (\<lambda>_. confirm)"
  have m: "effects (snd (?m s)) = (dv_sent s @ [c], dv_controls s)"
    using effects_bind_quiet [of "\<lambda>_. confirm" "send_command env c" s] assms
    by (simp add: send_command_def act_simps ask_def effects_def)
  obtain r s' where r: "?m s = (r, s')" by fastforce
  show ?thesis
  proof (cases r)
    case (Inl e)
    have "effects (snd (tuning_failure env e c sf fd v s' :: (pyexc + 'a) \<times> dstate)) = effects s'"
      using quiet_tuning_failure [of env e c sf fd v] unfolding quiet_def by blast
    then show ?thesis using m r Inl by (simp add: write_and_verify_def try_except_def)
  next
    case (Inr b)
    then show ?thesis using m r by (simp add: write_and_verify_def try_except_def)
  qed
qed

lemma emits_write_then:
  assumes "quiet confirm" and "\<And>a. quiet (f a)" and "P c"
  shows "emits P (bindE (write_and_verify env c sf fd v confirm) f) s"
  using effects_bind_quiet [of f "write_and_verify env c sf fd v confirm" s] assms
  by (auto simp: emits_def effects_write_and_verify)

lemma status_read_at: "bindE (read_status env) f s = (case read_status env s of
    (Inl e, s') \<Rightarrow> (Inl e, s') | (Inr sn, s') \<Rightarrow> f sn s')"
  by (simp add: bindE_def)

text \<open>The rate setters: the one command carries the rounded target that the clamp let through.\<close>

lemma require_reading_Inr: "require_reading msg x s = (Inr v, s') \<longleftrightarrow> x = Some v \<and> s' = s"
  by (cases x) (auto simp: require_reading_def act_simps)

lemma liftE_Inr: "liftE r s = (Inr v, s') \<longleftrightarrow> r = Inr v \<and> s' = s"
  by (auto simp: act_simps)

definition status_at :: "prusa_env \<Rightarrow> dstate \<Rightarrow> snapshot \<Rightarrow> bool" where
  "status_at env s sn \<longleftrightarrow> fst (read_status env s) = Inr sn"

lemma set_speed_emits:
  "emits (\<lambda>c. \<exists>sn current target n. status_at env s sn \<and> sn_speed_pct sn = Some current
       \<and> clamp_directed lo hi current wanted = Some target \<and> int_round target = Inr n
       \<and> c = ''M220 S'' @ int_str n) (set_speed_factor env wanted lo hi effect) s"
  unfolding set_speed_factor_def
  apply (rule emits_bind_quiet, intro quiet_intros)
  apply (rule emits_bind_quiet, intro quiet_intros)
  apply (rule emits_bind_quiet, intro quiet_intros)
  subgoal for sn s1 u s2 current s3
    apply (cases "clamp_directed lo hi current wanted")
     apply (simp add: emits_quiet quiet_intros)
    apply (simp only: option.case)
    apply (rule emits_bind_quiet, intro quiet_intros)
    apply (rule emits_write_then, intro quiet_intros, intro quiet_intros)
    apply (auto simp: status_at_def require_reading_Inr liftE_Inr)
    done
  done

lemma set_flow_emits:
  "emits (\<lambda>c. \<exists>sn current target n. status_at env s sn \<and> sn_flow_pct sn = Some current
       \<and> clamp_directed lo hi current wanted = Some target \<and> int_round target = Inr n
       \<and> c = ''M221 S'' @ int_str n) (set_flow_factor env wanted lo hi effect) s"
  unfolding set_flow_factor_def
  apply (rule emits_bind_quiet, intro quiet_intros)
  apply (rule emits_bind_quiet, intro quiet_intros)
  apply (rule emits_bind_quiet, intro quiet_intros)
  subgoal for sn s1 u s2 current s3
    apply (cases "clamp_directed lo hi current wanted")
     apply (simp add: emits_quiet quiet_intros)
    apply (simp only: option.case)
    apply (rule emits_bind_quiet, intro quiet_intros)
    apply (rule emits_write_then, intro quiet_intros, intro quiet_intros)
    apply (auto simp: status_at_def require_reading_Inr liftE_Inr)
    done
  done

lemma set_nozzle_target_emits:
  "emits (\<lambda>c. \<exists>n. int_round (clamp_plain lo hi wanted) = Inr n \<and> c = ''M104 S'' @ int_str n)
     (set_nozzle_target env wanted lo hi effect) s"
  unfolding set_nozzle_target_def
  apply (rule emits_bind_quiet, intro quiet_intros)+
  subgoal for sn s1 u s2 current s3
    apply (cases "close_to (1 / 10) (clamp_plain lo hi wanted) current")
     apply (simp add: emits_quiet quiet_intros)
    apply (simp only: Let_def if_False)
    apply (rule emits_bind_quiet, intro quiet_intros)
    apply (rule emits_write_then, intro quiet_intros, intro quiet_intros)
    apply (auto simp: liftE_Inr)
    done
  done

lemma set_bed_target_emits:
  "emits (\<lambda>c. \<exists>n. int_round (clamp_plain lo hi wanted) = Inr n \<and> c = ''M140 S'' @ int_str n)
     (set_bed_target env wanted lo hi effect) s"
  unfolding set_bed_target_def
  apply (rule emits_bind_quiet, intro quiet_intros)+
  subgoal for sn s1 u s2 current s3
    apply (cases "close_to (1 / 10) (clamp_plain lo hi wanted) current")
     apply (simp add: emits_quiet quiet_intros)
    apply (simp only: Let_def if_False)
    apply (rule emits_bind_quiet, intro quiet_intros)
    apply (rule emits_write_then, intro quiet_intros, intro quiet_intros)
    apply (auto simp: liftE_Inr)
    done
  done

lemma set_pressure_advance_emits:
  "emits (\<lambda>c. c = ''M572 S'' @ float_fixed (pe_rt env) 4 (clamp_plain lo hi wanted))
     (set_pressure_advance env wanted lo hi effect) s"
  unfolding set_pressure_advance_def
  apply (rule emits_bind_quiet, intro quiet_intros)+
  subgoal for sn s1 u s2 reading s3 current s4
    apply (cases "close_to (5 / 10000) (clamp_plain lo hi wanted) current")
     apply (simp add: emits_quiet quiet_intros)
    apply (simp only: Let_def if_False)
    apply (rule emits_write_then, intro quiet_intros, intro quiet_intros)
    apply simp
    done
  done

lemma set_print_accel_emits:
  "emits (\<lambda>c. \<exists>n. int_round (clamp_plain lo hi wanted) = Inr n \<and> c = ''M204 P'' @ int_str n)
     (set_print_accel env wanted lo hi effect) s"
  unfolding set_print_accel_def
  apply (rule emits_bind_quiet, intro quiet_intros)+
  subgoal for sn s1 u s2 reading s3 current s4
    apply (cases "close_to (1 / 2) (clamp_plain lo hi wanted) current")
     apply (simp add: emits_quiet quiet_intros)
    apply (simp only: Let_def if_False)
    apply (rule emits_bind_quiet, intro quiet_intros)
    apply (rule emits_write_then, intro quiet_intros, intro quiet_intros)
    apply (auto simp: liftE_Inr)
    done
  done

lemma restore_rate_emits:
  "emits (\<lambda>c. c = ''M220 S'' @ int_str (int_trunc (ds_speed_default_pct (pe_settings env))))
     (restore_speed_default env) s"
  "emits (\<lambda>c. c = ''M221 S'' @ int_str (int_trunc (ds_flow_default_pct (pe_settings env))))
     (restore_flow_default env) s"
   unfolding restore_speed_default_def restore_flow_default_def Let_def
   apply (rule emits_bind_quiet, intro quiet_intros)+
   apply (simp add: emits_quiet emits_write_then quiet_intros)
  apply (rule emits_bind_quiet, intro quiet_intros)+
  apply (simp add: emits_quiet emits_write_then quiet_intros)
  done

text \<open>What the clamps let through.\<close>

lemma float_le_Fin [simp]: "float_le (Fin a) (Fin b) \<longleftrightarrow> a \<le> b"
  by (auto simp: float_le_def float_eq_def)

lemma float_le_Fin_Inf [simp]: "float_le (Fin a) Inf" "float_le NegInf (Fin a)"
  "\<not> float_le Inf (Fin a)" "\<not> float_le (Fin a) NegInf"
  by (auto simp: float_le_def float_eq_def)

lemma clamp_down:
  assumes "clamp_directed (Some (Fin lo)) None (Fin current) wanted = Some t"
  obtains v where "t = Fin v" "lo \<le> v" "v < current" "v = lo \<or> wanted = Fin v"
  using assms
  by (cases wanted) (auto simp: clamp_directed_def Let_def float_max_def split: if_splits)

lemma clamp_up:
  assumes "clamp_directed None (Some (Fin hi)) (Fin current) wanted = Some t"
  obtains v where "t = Fin v" "v \<le> hi" "current < v" "v = hi \<or> wanted = Fin v"
  using assms
  by (cases wanted) (auto simp: clamp_directed_def Let_def float_min_def split: if_splits)

lemma clamp_plain_low:
  assumes "int_round (clamp_plain (Some (Fin lo)) None wanted) = Inr n"
  obtains v where "clamp_plain (Some (Fin lo)) None wanted = Fin v" "lo \<le> v" "n = round_even v"
    "v = lo \<or> wanted = Fin v"
  using assms by (cases wanted) (auto simp: clamp_plain_def float_max_def split: if_splits)

lemma clamp_plain_high:
  assumes "int_round (clamp_plain None (Some (Fin hi)) wanted) = Inr n"
  obtains v where "clamp_plain None (Some (Fin hi)) wanted = Fin v" "v \<le> hi" "n = round_even v"
    "v = hi \<or> wanted = Fin v"
  using assms by (cases wanted) (auto simp: clamp_plain_def float_min_def split: if_splits)

section \<open>A tuning call that returns was confirmed\<close>

lemma wait_for_loop_Inr:
  "wait_for_loop env p left sn0 err s = (Inr sn, s') \<Longrightarrow> p sn"
proof (induction env p left sn0 err s rule: wait_for_loop.induct)
  case (1 env p left sn0 err s)
  from 1(3) show ?case
    by (subst (asm) wait_for_loop.simps) (auto split: if_splits prod.splits sum.splits dest: 1(1,2))
qed

lemma wait_for_Inr: "wait_for env p t s = (Inr sn, s') \<Longrightarrow> p sn"
  unfolding wait_for_def by (rule wait_for_loop_Inr)

lemma wait_for_rate_loop_Inr:
  "wait_for_rate_loop env reader target label tol left v err s = (Inr x, s') \<Longrightarrow> close_to tol x target"
proof (induction env reader target label tol left v err s rule: wait_for_rate_loop.induct)
  case (1 env reader target label tol left v err s)
  from 1(4) show ?case
    by (subst (asm) wait_for_rate_loop.simps)
       (auto split: if_splits prod.splits sum.splits option.splits dest: 1(1,2,3))
qed

lemma confirm_Inr:
  "wait_for_http_speed_factor env t s = (Inr v, s') \<Longrightarrow> close_to (1 / 2) v t"
  "wait_for_flow_factor env t s = (Inr v, s') \<Longrightarrow> close_to (1 / 2) v t"
  "wait_for_pressure_advance env t s = (Inr v, s') \<Longrightarrow> close_to (5 / 10000) v t"
  "wait_for_print_accel env t s = (Inr v, s') \<Longrightarrow> close_to (1 / 2) v t"
proof -
  show "wait_for_http_speed_factor env t s = (Inr v, s') \<Longrightarrow> close_to (1 / 2) v t"
    unfolding wait_for_http_speed_factor_def
    by (elim bindE_eq_InrD)
      (drule wait_for_Inr, auto simp: reads_close_def assert_some_def act_simps split: option.splits)
  show "wait_for_pressure_advance env t s = (Inr v, s') \<Longrightarrow> close_to (5 / 10000) v t"
    unfolding wait_for_pressure_advance_def wait_for_rate_factor_def by (rule wait_for_rate_loop_Inr)
  show "wait_for_print_accel env t s = (Inr v, s') \<Longrightarrow> close_to (1 / 2) v t"
    unfolding wait_for_print_accel_def wait_for_rate_factor_def by (rule wait_for_rate_loop_Inr)
  assume a: "wait_for_flow_factor env t s = (Inr v, s')"
  let ?m = "wait_for_rate_factor env (read_flow_factor_pct env) t ''flow_pct'' (1 / 2)"
  obtain r s1 where m: "?m s = (r, s1)" by fastforce
  show "close_to (1 / 2) v t"
  proof (cases r)
    case (Inr b)
    then have "b = v" using a m by (simp add: wait_for_flow_factor_def try_except_def)
    then show ?thesis
      using m Inr unfolding wait_for_rate_factor_def by (auto dest: wait_for_rate_loop_Inr)
  next
    case (Inl e)
    then have "bindE (wait_for env (\<lambda>sn. reads_close (1 / 2) t (sn_flow_pct sn))
              (max (ds_timeout_s (pe_settings env)) FLOW_HTTP_VERIFY_TIMEOUT_S)) (\<lambda>confirmed.
     assert_some (sn_flow_pct confirmed)) s1 = (Inr v, s')"
      using a m by (simp add: wait_for_flow_factor_def try_except_def)
    then show ?thesis
      by (elim bindE_eq_InrD)
        (drule wait_for_Inr, auto simp: reads_close_def assert_some_def act_simps split: option.splits)
  qed
qed

lemma write_and_verify_Inr:
  assumes "write_and_verify env c sf fd v confirm s = (Inr x, s')"
  obtains s1 where "confirm s1 = (Inr x, s')"
    and "dv_sent s1 = dv_sent s @ [c]" "dv_controls s1 = dv_controls s"
proof -
  let ?m = "bindE (send_command env c) (\<lambda>_. confirm)"
  obtain r s0 where m: "?m s = (r, s0)" by fastforce
  have "r = Inr x \<and> s0 = s'"
    using assms m
    by (cases r) (auto simp: write_and_verify_def try_except_def tuning_failure_def split: prod.splits)
  then show thesis
    using m that by (auto simp: send_command_def bindE_def modify_def ask_def split: sum.splits)
qed

section \<open>Properties of the driver\<close>

subsection \<open>Rate trims\<close>

lemma emits_mono: "emits P m s \<Longrightarrow> (\<And>c. P c \<Longrightarrow> Q c) \<Longrightarrow> emits Q m s"
  by (auto simp: emits_def)

text \<open>
  \<open>lowers lo field prefix env s c\<close>: the command \<open>c\<close> sets a value between the limit \<open>lo\<close> and the value
  the printer reported when the call began; \<open>raises\<close> is the mirror image.
\<close>

definition lowers :: "rat \<Rightarrow> (snapshot \<Rightarrow> pyfloat option) \<Rightarrow> string \<Rightarrow> prusa_env \<Rightarrow> dstate \<Rightarrow> string \<Rightarrow> bool" where
  "lowers lo field prefix env s c \<longleftrightarrow> (\<exists>sn current v. status_at env s sn \<and> field sn = Some current
     \<and> lo \<le> v \<and> (current = NaN \<or> float_less (Fin v) current) \<and> c = prefix @ int_str (round_even v))"

definition raises :: "rat \<Rightarrow> (snapshot \<Rightarrow> pyfloat option) \<Rightarrow> string \<Rightarrow> prusa_env \<Rightarrow> dstate \<Rightarrow> string \<Rightarrow> bool" where
  "raises hi field prefix env s c \<longleftrightarrow> (\<exists>sn current v. status_at env s sn \<and> field sn = Some current
     \<and> v \<le> hi \<and> (current = NaN \<or> float_less current (Fin v)) \<and> c = prefix @ int_str (round_even v))"

lemma clamp_down_any:
  assumes "clamp_directed (Some (Fin lo)) None current wanted = Some t" and "int_round t = Inr n"
  shows "\<exists>v. lo \<le> v \<and> (current = NaN \<or> float_less (Fin v) current) \<and> n = round_even v"
proof (cases current)
  case (Fin c)
  obtain v where "t = Fin v" "lo \<le> v" "v < c"
    by (rule clamp_down [OF assms(1) [unfolded Fin]])
  then show ?thesis using assms(2) Fin by auto
next
  case Inf
  then show ?thesis using assms
    by (cases wanted; auto simp: clamp_directed_def Let_def float_max_def float_le_def float_eq_def
        split: if_splits; blast intro: less_imp_le)
next
  case NegInf
  then show ?thesis using assms
    by (cases wanted) (auto simp: clamp_directed_def Let_def float_max_def float_le_def float_eq_def
        split: if_splits)
next
  case NaN
  then show ?thesis using assms
    by (cases wanted; auto simp: clamp_directed_def Let_def float_max_def split: if_splits; blast intro: less_imp_le)
qed

lemma clamp_up_any:
  assumes "clamp_directed None (Some (Fin hi)) current wanted = Some t" and "int_round t = Inr n"
  shows "\<exists>v. v \<le> hi \<and> (current = NaN \<or> float_less current (Fin v)) \<and> n = round_even v"
proof (cases current)
  case (Fin c)
  obtain v where "t = Fin v" "v \<le> hi" "c < v"
    by (rule clamp_up [OF assms(1) [unfolded Fin]])
  then show ?thesis using assms(2) Fin by auto
next
  case Inf
  then show ?thesis using assms
    by (cases wanted) (auto simp: clamp_directed_def Let_def float_min_def float_le_def float_eq_def
        split: if_splits)
next
  case NegInf
  then show ?thesis using assms
    by (cases wanted; auto simp: clamp_directed_def Let_def float_min_def float_le_def float_eq_def
        split: if_splits; blast intro: less_imp_le)
next
  case NaN
  then show ?thesis using assms
    by (cases wanted; auto simp: clamp_directed_def Let_def float_min_def split: if_splits; blast intro: less_imp_le)
qed

lemma set_speed_one_way:
  "emits (lowers lo sn_speed_pct ''M220 S'' env s) (set_speed_factor env wanted (Some (Fin lo)) None e) s"
  "emits (raises hi sn_speed_pct ''M220 S'' env s) (set_speed_factor env wanted None (Some (Fin hi)) e) s"
   apply (rule emits_mono [OF set_speed_emits])
   subgoal by (auto simp: lowers_def dest!: clamp_down_any)
  apply (rule emits_mono [OF set_speed_emits])
  subgoal by (auto simp: raises_def dest!: clamp_up_any)
  done

lemma set_flow_one_way:
  "emits (lowers lo sn_flow_pct ''M221 S'' env s) (set_flow_factor env wanted (Some (Fin lo)) None e) s"
  "emits (raises hi sn_flow_pct ''M221 S'' env s) (set_flow_factor env wanted None (Some (Fin hi)) e) s"
   apply (rule emits_mono [OF set_flow_emits])
   subgoal by (auto simp: lowers_def dest!: clamp_down_any)
  apply (rule emits_mono [OF set_flow_emits])
  subgoal by (auto simp: raises_def dest!: clamp_up_any)
  done


subsection \<open>A tuning call that returns was confirmed by the printer\<close>

text \<open>
  \<open>settled key cmd tol show d s s'\<close>: the call that returned \<open>d\<close> either had nothing to do and touched
  nothing, or handed over exactly one command \<open>cmd t\<close> for a target \<open>t\<close>, and the value it returns is
  one that the printer reported within \<open>tol\<close> of that target.
\<close>

definition settled :: "string \<Rightarrow> (pyfloat \<Rightarrow> string \<Rightarrow> bool) \<Rightarrow> rat \<Rightarrow> (pyfloat \<Rightarrow> pyfloat)
    \<Rightarrow> dict \<Rightarrow> dstate \<Rightarrow> dstate \<Rightarrow> bool" where
  "settled key cmd tol shown d s s' \<longleftrightarrow>
     effects s' = effects s \<and> has_key d ''effect''
     \<or> (\<exists>t c v. cmd t c \<and> effects s' = (dv_sent s @ [c], dv_controls s)
          \<and> close_to tol v t \<and> pget d key = PyFloat (shown v))"

definition sets_int :: "string \<Rightarrow> pyfloat \<Rightarrow> string \<Rightarrow> bool" where
  "sets_int prefix t c \<longleftrightarrow> (\<exists>n. int_round t = Inr n \<and> c = prefix @ int_str n)"

lemma settled_noop: "effects s' = effects s \<Longrightarrow> has_key d ''effect'' \<Longrightarrow> settled key cmd tol shown d s s'"
  by (simp add: settled_def)

lemma settled_set:
  "cmd t c \<Longrightarrow> effects s' = (dv_sent s @ [c], dv_controls s) \<Longrightarrow> close_to tol v t
   \<Longrightarrow> pget d key = PyFloat (shown v) \<Longrightarrow> settled key cmd tol shown d s s'"
  by (auto simp: settled_def)

lemma effects_eq: "effects s' = effects s \<longleftrightarrow> dv_sent s' = dv_sent s \<and> dv_controls s' = dv_controls s"
  by (simp add: effects_def)

lemma write_and_verify_done:
  assumes "write_and_verify env c sf fd v confirm s = (Inr x, s')" and "quiet confirm"
  shows "effects s' = (dv_sent s @ [c], dv_controls s)"
  using effects_write_and_verify [OF assms(2), of env c sf fd v s] assms(1) by simp

lemma with_lifecycle_Inr:
  "with_lifecycle env key v s = (Inr d, s') \<Longrightarrow> effects s' = effects s \<and> pget d key = PyFloat v"
  using quietD [OF quiet_confirm(5)]
  by (fastforce simp: with_lifecycle_def act_simps elim!: bindE_eq_InrD)

text \<open>The two shapes of the setters after the reading: directed clamp, plain clamp.\<close>

lemma directed_tail_settled:
  assumes rest: "(case target of
       None \<Rightarrow> ret [(key, PyFloat current), (''effect'', PyStr effect)]
     | Some t \<Rightarrow> bindE (liftE (int_round t)) (\<lambda>n.
         bindE (write_and_verify env (prefix @ int_str n) sf fd t (confirm t))
           (with_lifecycle env key))) s0 = (Inr d, s')"
    and key: "key \<noteq> ''effect''"
    and quiet: "\<And>t. quiet (confirm t)"
    and close: "\<And>t v s s'. confirm t s = (Inr v, s') \<Longrightarrow> close_to tol v t"
    and same: "effects s0 = effects s"
  shows "settled key (sets_int prefix) tol id d s s'"
proof (cases target)
  case None
  then show ?thesis using rest same key by (auto simp: act_simps intro: settled_noop)
next
  case (Some t)
  then obtain n v s4 where n: "int_round t = Inr n"
      and w: "write_and_verify env (prefix @ int_str n) sf fd t (confirm t) s0 = (Inr v, s4)"
      and l: "with_lifecycle env key v s4 = (Inr d, s')"
    using rest by (auto simp: liftE_Inr elim!: bindE_eq_InrD)
  obtain s5 where "confirm t s5 = (Inr v, s4)" by (rule write_and_verify_Inr [OF w])
  then have "close_to tol v t" by (rule close)
  moreover have "effects s' = (dv_sent s @ [prefix @ int_str n], dv_controls s)"
    using write_and_verify_done [OF w quiet] with_lifecycle_Inr [OF l] same
    by (simp add: effects_eq)
  ultimately show ?thesis
    using n with_lifecycle_Inr [OF l]
    by (intro settled_set [where t = t and v = v]) (auto simp: sets_int_def)
qed

lemma plain_tail_settled:
  assumes rest: "(if idle then ret [(key, current), (''effect'', PyStr effect)]
     else bindE (liftE (int_round t)) (\<lambda>n.
       bindE (write_and_verify env (prefix @ int_str n) sf fd t confirm) (\<lambda>x. ret (out x)))) s0 = (Inr d, s')"
    and quiet: "quiet confirm"
    and close: "\<And>x s s'. confirm s = (Inr x, s') \<Longrightarrow>
      \<exists>v. close_to tol v t \<and> pget (out x) key = PyFloat (shown v)"
    and same: "effects s0 = effects s"
  shows "settled key (sets_int prefix) tol shown d s s'"
proof (cases idle)
  case True
  then show ?thesis using rest same by (auto simp: act_simps intro: settled_noop)
next
  case False
  then obtain n x where n: "int_round t = Inr n"
      and w: "write_and_verify env (prefix @ int_str n) sf fd t confirm s0 = (Inr x, s')"
      and d: "d = out x"
    using rest by (auto simp: liftE_Inr act_simps elim!: bindE_eq_InrD)
  obtain s5 where "confirm s5 = (Inr x, s')" by (rule write_and_verify_Inr [OF w])
  then obtain v where "close_to tol v t" "pget (out x) key = PyFloat (shown v)" using close by blast
  moreover have "effects s' = (dv_sent s @ [prefix @ int_str n], dv_controls s)"
    using write_and_verify_done [OF w quiet] same by (simp add: effects_eq)
  ultimately show ?thesis
    using n d by (intro settled_set [where t = t and v = v]) (auto simp: sets_int_def)
qed

lemma session_read_same:
  "read_status env s = (Inr sn, s1) \<Longrightarrow> bind_serial_session sn s1 = (Inr u, s2) \<Longrightarrow> effects s2 = effects s"
  by (simp add: quietD [OF quiet_bind_serial] quietD [OF quiet_read_status])

lemma set_speed_settled:
  assumes "set_speed_factor env wanted lo hi effect s = (Inr d, s')"
  shows "settled ''speed_pct'' (sets_int ''M220 S'') (1 / 2) id d s s'"
  apply (insert assms)
  apply (unfold set_speed_factor_def)
  apply (elim bindE_eq_InrD)
  apply (erule directed_tail_settled)
     apply simp
    apply (rule quiet_confirm)
   apply (erule confirm_Inr)
  apply (simp add: require_reading_Inr session_read_same)
  done

lemma set_flow_settled:
  assumes "set_flow_factor env wanted lo hi effect s = (Inr d, s')"
  shows "settled ''flow_pct'' (sets_int ''M221 S'') (1 / 2) id d s s'"
  apply (insert assms)
  apply (unfold set_flow_factor_def)
  apply (elim bindE_eq_InrD)
  apply (erule directed_tail_settled)
     apply simp
    apply (rule quiet_confirm)
   apply (erule confirm_Inr)
  apply (simp add: require_reading_Inr session_read_same)
  done

lemma reads_close_Some: "reads_close tol t x \<Longrightarrow> \<exists>v. close_to tol v t \<and> opt_float x = PyFloat v"
  by (cases x) (auto simp: reads_close_def)

lemma set_nozzle_settled:
  assumes "set_nozzle_target env wanted lo hi effect s = (Inr d, s')"
  shows "settled ''target_nozzle_c'' (sets_int ''M104 S'') (1 / 2) id d s s'"
  apply (insert assms)
  apply (unfold set_nozzle_target_def Let_def)
  apply (elim bindE_eq_InrD)
  apply (erule plain_tail_settled)
    apply (rule quiet_waits)
   apply (drule wait_for_Inr, drule reads_close_Some, simp)
  apply (simp add: require_reading_Inr session_read_same)
  done

lemma set_bed_settled:
  assumes "set_bed_target env wanted lo hi effect s = (Inr d, s')"
  shows "settled ''target_bed_c'' (sets_int ''M140 S'') (1 / 2) id d s s'"
  apply (insert assms)
  apply (unfold set_bed_target_def Let_def)
  apply (elim bindE_eq_InrD)
  apply (erule plain_tail_settled)
    apply (rule quiet_waits)
   apply (drule wait_for_Inr, drule reads_close_Some, simp)
  apply (simp add: require_reading_Inr session_read_same)
  done

lemma set_accel_settled:
  assumes "set_print_accel env wanted lo hi effect s = (Inr d, s')"
  shows "settled ''print_accel_mm_s2'' (sets_int ''M204 P'') (1 / 2) (round_half_even (pe_rt env) 1) d s s'"
  apply (insert assms)
  apply (unfold set_print_accel_def Let_def)
  apply (elim bindE_eq_InrD)
  apply (erule plain_tail_settled)
    apply (rule quiet_confirm)
   apply (drule confirm_Inr, force)
  apply (drule quietD [OF quiet_readers(5)])
  apply (simp add: require_reading_Inr session_read_same)
  done

lemma set_pressure_advance_settled:
  assumes "set_pressure_advance env wanted lo hi effect s = (Inr d, s')"
  shows "settled ''pressure_advance'' (\<lambda>t c. c = ''M572 S'' @ float_fixed (pe_rt env) 4 t) (5 / 10000)
           (round_half_even (pe_rt env) 4) d s s'"
proof -
  let ?t = "clamp_plain lo hi wanted" and ?r = "round_half_even (pe_rt env) 4"
  let ?c = "''M572 S'' @ float_fixed (pe_rt env) 4 ?t"
  obtain sn s1 u s2 reading s3 current s4 where
      a: "read_status env s = (Inr sn, s1)" "bind_serial_session sn s1 = (Inr u, s2)"
      and r: "read_pressure_advance env s2 = (Inr reading, s3)"
      and c: "require_reading ''serial query does not expose current pressure advance'' reading s3 = (Inr current, s4)"
      and rest: "(if close_to (5 / 10000) ?t current
         then ret [(''pressure_advance'', PyFloat (?r current)), (''effect'', PyStr effect)]
         else bindE (write_and_verify env ?c ''serial_query:M572->pressure_advance'' ''pressure_advance'' ?t
                (wait_for_pressure_advance env ?t)) (\<lambda>confirmed.
           ret [(''pressure_advance'', PyFloat (?r confirmed)),
                (''lifecycle'', PyStr (lifecycle_value (sn_lifecycle sn)))])) s4 = (Inr d, s')"
    using assms unfolding set_pressure_advance_def Let_def by (elim bindE_eq_InrD)
  have same: "effects s4 = effects s"
    using c quietD [OF quiet_readers(4) r] session_read_same [OF a] by (simp add: require_reading_Inr)
  show ?thesis
  proof (cases "close_to (5 / 10000) ?t current")
    case True
    then show ?thesis using rest same by (auto simp: act_simps intro: settled_noop)
  next
    case False
    then obtain v where
        w: "write_and_verify env ?c ''serial_query:M572->pressure_advance'' ''pressure_advance'' ?t
              (wait_for_pressure_advance env ?t) s4 = (Inr v, s')"
        and d: "pget d ''pressure_advance'' = PyFloat (?r v)"
      using rest by (auto simp: act_simps elim!: bindE_eq_InrD)
    obtain s5 where "wait_for_pressure_advance env ?t s5 = (Inr v, s')" by (rule write_and_verify_Inr [OF w])
    then have "close_to (5 / 10000) v ?t" by (rule confirm_Inr)
    moreover have "effects s' = (dv_sent s @ [?c], dv_controls s)"
      using write_and_verify_done [OF w quiet_confirm(3)] same by (simp add: effects_eq)
    ultimately show ?thesis using d by (intro settled_set [where t = ?t and v = v]) auto
  qed
qed

text \<open>The six setters, with the field of their result, their command and their tolerance.\<close>

definition tuning_setters :: "prusa_env \<Rightarrow> pyfloat \<Rightarrow> pyfloat option \<Rightarrow> pyfloat option \<Rightarrow> string
    \<Rightarrow> (string \<times> (pyfloat \<Rightarrow> string \<Rightarrow> bool) \<times> rat \<times> (pyfloat \<Rightarrow> pyfloat) \<times> (dstate, dict) act) list" where
  "tuning_setters env wanted lo hi effect =
     [(''speed_pct'', sets_int ''M220 S'', 1 / 2, id, set_speed_factor env wanted lo hi effect),
      (''flow_pct'', sets_int ''M221 S'', 1 / 2, id, set_flow_factor env wanted lo hi effect),
      (''target_nozzle_c'', sets_int ''M104 S'', 1 / 2, id, set_nozzle_target env wanted lo hi effect),
      (''target_bed_c'', sets_int ''M140 S'', 1 / 2, id, set_bed_target env wanted lo hi effect),
      (''print_accel_mm_s2'', sets_int ''M204 P'', 1 / 2, round_half_even (pe_rt env) 1,
         set_print_accel env wanted lo hi effect),
      (''pressure_advance'', \<lambda>t c. c = ''M572 S'' @ float_fixed (pe_rt env) 4 t, 5 / 10000,
         round_half_even (pe_rt env) 4, set_pressure_advance env wanted lo hi effect)]"


text \<open>A printer that follows its speed command, and a stuck one.\<close>

definition sample_status :: "int \<Rightarrow> pyval" where
  "sample_status speed = PyDict [(''printer'', PyDict [(''state'', PyStr ''PRINTING''),
     (''speed'', PyInt speed), (''flow'', PyInt 100)]), (''job'', PyDict [(''id'', PyInt 7)])]"

definition sample_printer :: "(nat \<Rightarrow> int) \<Rightarrow> prusa_env" where
  "sample_printer speed = \<lparr>pe_rt = sample_rt, pe_settings = default_settings,
     pe_status = (\<lambda>n. Inr (sample_status (speed n))), pe_job = (\<lambda>_. Inr PyNone),
     pe_files = (\<lambda>_. Inr []), pe_query = (\<lambda>_ _. Inr []), pe_send = (\<lambda>_ _. Inr ()),
     pe_control = (\<lambda>_ _. Inr ()), pe_elapsed = (\<lambda>_. 0), pe_serial_port = None\<rparr>"

definition fresh_state :: dstate where
  "fresh_state = \<lparr>dv_calls = 0, dv_sent = [], dv_controls = [], dv_session = None\<rparr>"

lemma sample_trim:
  "set_speed_factor (sample_printer (\<lambda>n. if n = 0 then 100 else 95)) (Fin 95) (Some (Fin 65)) None ''noop'' fresh_state
   = (Inr [(''speed_pct'', PyFloat (Fin 95)), (''lifecycle'', PyStr ''PRINTING'')],
      \<lparr>dv_calls = 8, dv_sent = [''M220 S95''], dv_controls = [], dv_session = Some ''job:7''\<rparr>)"
  by code_simp


subsection \<open>Lifecycle calls\<close>

definition confirmed_as :: "(control \<Rightarrow> bool) \<Rightarrow> lifecycle set \<Rightarrow> dict \<Rightarrow> dstate \<Rightarrow> dstate \<Rightarrow> bool" where
  "confirmed_as req ls d s s' \<longleftrightarrow> (\<exists>c l. req c \<and> l \<in> ls
     \<and> effects s' = (dv_sent s, dv_controls s @ [c])
     \<and> pget d ''lifecycle'' = PyStr (lifecycle_value l))"

lemma effects_control_call:
  "control_call env c s = (r, s') \<Longrightarrow> effects s' = (dv_sent s, dv_controls s @ [c])"
  by (auto simp: control_call_def act_simps ask_def effects_def)

lemma quiet_ask_same: "ask f s = (r, s') \<Longrightarrow> effects s' = effects s"
  by (auto simp: ask_def effects_def)

lemma pause_confirmed:
  assumes "pause env s = (Inr d, s')"
  shows "confirmed_as (\<lambda>c. \<exists>j. c = C_pause j) {L_PAUSED} d s s'"
  apply (insert assms)
  apply (unfold pause_def)
  apply (elim bindE_eq_InrD)
  subgoal for st s1 dct s2 u s3 sn s4
    using quiet_ask_same [of "pe_status env" s "Inr st" s1] effects_control_call [of env _ s2 "Inr u" s3]
      wait_for_Inr [of env "\<lambda>sn. sn_lifecycle sn = L_PAUSED" "ds_timeout_s (pe_settings env)" s3 sn s4] quietD [OF quiet_waits(1), of env _ _ s3 "Inr sn" s4]
    by (auto simp: confirmed_as_def act_simps effects_def intro!: exI [of _ L_PAUSED])
  done

lemma resume_confirmed:
  assumes "resume env s = (Inr d, s')"
  shows "confirmed_as (\<lambda>c. \<exists>j. c = C_resume j) {L_PRINTING} d s s'"
  apply (insert assms)
  apply (unfold resume_def)
  apply (elim bindE_eq_InrD)
  subgoal for st s1 dct s2 u s3 sn s4
    using quiet_ask_same [of "pe_status env" s "Inr st" s1] effects_control_call [of env _ s2 "Inr u" s3]
      wait_for_Inr [of env "\<lambda>sn. sn_lifecycle sn = L_PRINTING" "ds_timeout_s (pe_settings env)" s3 sn s4] quietD [OF quiet_waits(1), of env _ _ s3 "Inr sn" s4]
    by (auto simp: confirmed_as_def act_simps effects_def intro!: exI [of _ L_PRINTING])
  done

lemma no_attribute_get_not_transient:
  "as_dict v = Inl e \<Longrightarrow> \<not> is_recoverable_control_timeout e"
  by (cases v; hypsubst_thin?; simp only: as_dict.simps sum.simps type_name.simps; hypsubst; code_simp)

lemma try_except_cases:
  assumes "try_except m h s = (Inr a, s')"
  obtains "m s = (Inr a, s')" | e s1 where "m s = (Inl e, s1)" "h e s1 = (Inr a, s')"
  using assms by (auto simp: try_except_def split: prod.splits sum.splits)

lemma cancel_request_effects:
  assumes "cancel_request env st s = (r, s')" and "as_dict st = Inr dct"
  shows "effects s' = (dv_sent s, dv_controls s @ [C_cancel (job_id dct)])"
proof -
  let ?w = "\<lambda>_. bindE (wait_for env cancel_timeout_recovered
              (max (ds_timeout_s (pe_settings env)) CANCEL_VERIFY_TIMEOUT_S)) (\<lambda>confirmed.
     ret [(''lifecycle'', PyStr (lifecycle_value (sn_lifecycle confirmed))),
          (''job_active'', PyBool (sn_job_active confirmed))])"
  obtain r1 s1 where c: "control_call env (C_cancel (job_id dct)) s = (r1, s1)" by fastforce
  have quiet: "quiet (?w x)" for x by (intro quiet_intros)
  have run: "bindE (control_call env (C_cancel (job_id dct))) ?w s = (r, s')"
    using assms by (simp add: cancel_request_def bindE_def act_simps)
  have "effects s' = effects (snd (control_call env (C_cancel (job_id dct)) s))"
    using effects_bind_quiet [of ?w, OF quiet, of "control_call env (C_cancel (job_id dct))" s]
    unfolding run by simp
  then show ?thesis using effects_control_call [OF c] c by simp
qed

lemma cancel_request_Inr:
  assumes "cancel_request env st s = (Inr d, s')"
  shows "\<exists>dct sn. as_dict st = Inr dct \<and> cancel_timeout_recovered sn
     \<and> pget d ''lifecycle'' = PyStr (lifecycle_value (sn_lifecycle sn))
     \<and> pget d ''job_active'' = PyBool (sn_job_active sn)"
  apply (insert assms)
  apply (unfold cancel_request_def)
  apply (elim bindE_eq_InrD)
  apply (drule wait_for_Inr)
  apply (auto simp: liftE_Inr act_simps)
  done

lemma cancel_recover_Inr:
  assumes "cancel_recover env e s = (Inr d, s')"
  shows "is_recoverable_control_timeout e \<and> effects s' = effects s \<and> (\<exists>sn. cancel_timeout_recovered sn
     \<and> pget d ''lifecycle'' = PyStr (lifecycle_value (sn_lifecycle sn))
     \<and> pget d ''job_active'' = PyBool (sn_job_active sn))"
proof -
  have rec: "is_recoverable_control_timeout e"
    using assms by (auto simp: cancel_recover_def act_simps split: if_splits)
  then obtain sn s1 where w: "wait_for_cancel_recovery env s = (Inr sn, s1)"
      and rest: "(if \<not> cancel_timeout_recovered sn then raise e
        else ret [(''lifecycle'', PyStr (lifecycle_value (sn_lifecycle sn))),
                  (''job_active'', PyBool (sn_job_active sn)),
                  (''recovered_from_cancel_timeout'', PyBool True)]) s1 = (Inr d, s')"
    using assms unfolding cancel_recover_def by (simp del: not_not) (elim bindE_eq_InrD)
  then show ?thesis
    using rec quietD [OF quiet_waits(2) w] by (auto simp: act_simps split: if_splits)
qed

lemma cancel_confirmed:
  assumes "cancel env s = (Inr d, s')"
  shows "confirmed_as (\<lambda>c. \<exists>j. c = C_cancel j) {L_IDLE, L_FINISHED, L_STOPPED} d s s'
         \<and> pget d ''job_active'' = PyBool False"
proof -
  obtain st s1 where st: "ask (pe_status env) s = (Inr st, s1)"
    and t: "try_except (cancel_request env st) (cancel_recover env) s1 = (Inr d, s')"
    using assms unfolding cancel_def by (rule bindE_eq_InrD)
  have s1: "effects s1 = effects s" using quiet_ask_same [OF st] .
  have *: "\<exists>dct sn. effects s' = (dv_sent s1, dv_controls s1 @ [C_cancel (job_id dct)])
     \<and> cancel_timeout_recovered sn \<and> pget d ''lifecycle'' = PyStr (lifecycle_value (sn_lifecycle sn))
     \<and> pget d ''job_active'' = PyBool (sn_job_active sn)"
    using t
  proof (cases rule: try_except_cases)
    case 1
    then show ?thesis using cancel_request_Inr cancel_request_effects by blast
  next
    case (2 e s2)
    note rec = cancel_recover_Inr [OF 2(2)]
    have "as_dict st \<noteq> Inl e" using rec no_attribute_get_not_transient by blast
    moreover have "as_dict st = Inl e'  \<Longrightarrow> e = e'" for e'
      using 2(1) by (simp add: cancel_request_def bindE_def act_simps)
    ultimately obtain dct where "as_dict st = Inr dct" by (cases "as_dict st") blast+
    then show ?thesis using cancel_request_effects [OF 2(1)] rec by metis
  qed
  then show ?thesis using s1 by (auto simp: confirmed_as_def cancel_timeout_recovered_def effects_def)
qed

lemma quiet_resolve [quiet_intros]: "quiet (resolve_start_print_path env f)"
  unfolding resolve_start_print_path_def Let_def
  by (auto intro!: quiet_intros split: if_splits)

lemma quiet_if [quiet_intros]: "quiet m \<Longrightarrow> quiet n \<Longrightarrow> quiet (if b then m else n)"
  by simp

lemma quiet_start_recover [quiet_intros]: "quiet (start_recover env vs e)"
  unfolding start_recover_def by (intro quiet_intros)

lemma start_result_confirmed:
  "start_timeout_recovered sn vs \<Longrightarrow> sn_job_active sn \<and> sn_lifecycle sn = L_PRINTING"
  by (auto simp: start_timeout_recovered_def split: if_splits)

lemma start_confirmed:
  assumes "start_print env f s = (Inr d, s')"
  shows "confirmed_as (\<lambda>c. \<exists>p. c = C_start p) {L_PRINTING} d s s' \<and> pget d ''job_active'' = PyBool True"
proof -
  obtain path vs s1 recovered s2 where
      r: "resolve_start_print_path env f s = (Inr (path, vs), s1)"
      and t: "try_except (bindE (control_call env (C_start path)) (\<lambda>_. ret None))
              (start_recover env vs) s1 = (Inr recovered, s2)"
      and rest: "(case recovered of
         Some r \<Rightarrow> ret r
       | None \<Rightarrow> bindE (wait_for env (\<lambda>sn. sn_job_active sn \<and> sn_lifecycle sn = L_PRINTING)
                         (ds_timeout_s (pe_settings env))) (\<lambda>confirmed. ret (start_result confirmed))) s2 = (Inr d, s')"
    using assms unfolding start_print_def
    by (elim bindE_eq_InrD) (auto split: prod.splits elim!: bindE_eq_InrD)
  have s1: "effects s1 = effects s" by (rule quietD [OF quiet_resolve r])
  obtain rc s3 where c: "control_call env (C_start path) s1 = (rc, s3)" by fastforce
  have c': "effects s3 = (dv_sent s, dv_controls s @ [C_start path])"
    using effects_control_call [OF c] s1 by (simp add: effects_def)
  have s2: "effects s2 = effects s3"
    using t c quietD [OF quiet_start_recover]
    by (cases rc) (auto simp: try_except_def bindE_def act_simps)
  show ?thesis
  proof (cases recovered)
    case (Some x)
    then obtain e where "start_recover env vs e s3 = (Inr (Some x), s2)"
      using t c by (cases rc) (auto simp: try_except_def bindE_def act_simps)
    then obtain sn where "start_timeout_recovered sn vs"
        and "x = start_result sn @ [(''recovered_from_start_timeout'', PyBool True)]"
      unfolding start_recover_def
      by (auto simp: act_simps elim!: bindE_eq_InrD split: if_splits)
    then show ?thesis
      using start_result_confirmed rest Some s2 c'
      by (auto simp: confirmed_as_def act_simps start_result_def effects_def)
  next
    case None
    then obtain sn where
        w: "wait_for env (\<lambda>sn. sn_job_active sn \<and> sn_lifecycle sn = L_PRINTING)
              (ds_timeout_s (pe_settings env)) s2 = (Inr sn, s')" and d: "d = start_result sn"
      using rest by (auto simp: act_simps elim!: bindE_eq_InrD)
    show ?thesis
      using wait_for_Inr [OF w] quietD [OF quiet_waits(1) w] d s2 c'
      by (auto simp: confirmed_as_def start_result_def effects_def)
  qed
qed

text \<open>The four lifecycle calls, with their request and the lifecycles that confirm it.\<close>

definition lifecycle_calls ::
  "prusa_env \<Rightarrow> string \<Rightarrow> ((control \<Rightarrow> bool) \<times> lifecycle set \<times> (dstate, dict) act) list" where
  "lifecycle_calls env f =
     [(\<lambda>c. \<exists>j. c = C_pause j, {L_PAUSED}, pause env),
      (\<lambda>c. \<exists>j. c = C_resume j, {L_PRINTING}, resume env),
      (\<lambda>c. \<exists>j. c = C_cancel j, {L_IDLE, L_FINISHED, L_STOPPED}, cancel env),
      (\<lambda>c. \<exists>p. c = C_start p, {L_PRINTING}, start_print env f)]"

text \<open>
  C27: A pause, resume, cancel or start that returns has made exactly one control request, of its own
  kind, has sent no serial command, and returns a lifecycle that confirms the request, also when
  the answer to the request was lost and the call recovered from the timeout.
\<close>

theorem lifecycle_calls_confirmed:
  assumes "(req, ls, call) \<in> set (lifecycle_calls env f)"
    and "call s = (Inr d, s')"
  shows "confirmed_as req ls d s s'"
  using assms
  by (simp only: lifecycle_calls_def list.set insert_iff empty_iff prod.inject)
    (elim disjE conjE FalseE; simp only: pause_confirmed resume_confirmed cancel_confirmed start_confirmed)

lemma sample_pause:
  "pause ((sample_printer (\<lambda>_. 100))\<lparr>pe_status := \<lambda>n. Inr (PyDict [(''printer'', PyDict [(''state'',
       PyStr (if n < 3 then ''PRINTING'' else ''PAUSED''))]), (''job'', PyDict [(''id'', PyInt 7)])])\<rparr>) fresh_state
   = (Inr [(''lifecycle'', PyStr ''PAUSED''), (''job_id'', PyInt 7)],
      \<lparr>dv_calls = 5, dv_sent = [], dv_controls = [C_pause (Some 7)], dv_session = None\<rparr>)"
  by code_simp

lemma lifecycle_calls_confirmed_witness:
  "confirmed_as (\<lambda>c. \<exists>j. c = C_pause j) {L_PAUSED}
     [(''lifecycle'', PyStr ''PAUSED''), (''job_id'', PyInt 7)] fresh_state
     \<lparr>dv_calls = 5, dv_sent = [], dv_controls = [C_pause (Some 7)], dv_session = None\<rparr>"
  by (rule lifecycle_calls_confirmed [where f = "''x''" and call = "pause ((sample_printer (\<lambda>_. 100))\<lparr>pe_status :=
       \<lambda>n. Inr (PyDict [(''printer'', PyDict [(''state'',
       PyStr (if n < 3 then ''PRINTING'' else ''PAUSED''))]), (''job'', PyDict [(''id'', PyInt 7)])])\<rparr>)",
       OF _ sample_pause]) (simp add: lifecycle_calls_def)

subsection \<open>Waits end\<close>

lemma read_status_calls:
  "read_status env s = (r, s') \<Longrightarrow> dv_calls s' \<le> dv_calls s + 2"
  by (auto simp: read_status_def read_status_with_def bindE_def ask_def act_simps split: sum.splits)

lemma polls_left:
  assumes "0 < (p::rat)" "p \<le> d" "0 < left - d"
  shows "nat \<lceil>(left - d) / p\<rceil> + 1 \<le> nat \<lceil>left / p\<rceil>"
proof -
  have "(left - d) / p \<le> left / p - 1"
    using assms(1,2) by (simp add: field_simps)
  then have "\<lceil>(left - d) / p\<rceil> \<le> \<lceil>left / p - 1\<rceil>" by (rule ceiling_mono)
  moreover have "0 < (left - d) / p" using assms by simp
  then have "0 < \<lceil>(left - d) / p\<rceil>" by simp
  ultimately have "nat \<lceil>(left - d) / p\<rceil> < nat \<lceil>left / p\<rceil>" by linarith
  then show ?thesis by (simp only: Suc_eq_plus1 [symmetric] Suc_le_eq)
qed

lemma wait_for_loop_calls:
  assumes "0 < p" and "\<And>n. p \<le> (1 + of_nat (pe_elapsed env n)) / 1000000000"
  shows "dv_calls (snd (wait_for_loop env q left sn err s)) \<le> dv_calls s + 3 * nat \<lceil>left / p\<rceil> + 1"
  using assms
proof (induction env q left sn err s rule: wait_for_loop.induct)
  case (1 env q left sn err s)
  obtain r s' where rs: "read_status env (clock_read s) = (r, s')" by fastforce
  have calls: "dv_calls s' \<le> dv_calls s + 3"
    using read_status_calls [OF rs] by (simp add: clock_read_def)
  let ?left = "time_left env left s"
  have fewer: "0 < ?left \<Longrightarrow> nat \<lceil>?left / p\<rceil> + 1 \<le> nat \<lceil>left / p\<rceil>"
    using polls_left [OF 1(3) 1(4)] by (simp add: time_left_def)
  show ?case
  proof (cases "0 < ?left")
    case False
    then show ?thesis by (subst wait_for_loop.simps) (simp add: clock_read_def)
  next
    case True
    show ?thesis
    proof (cases r)
      case (Inl e)
      show ?thesis
      proof (cases "is_transient_read_error e")
        case tr: True
        have "dv_calls (snd (wait_for_loop env q ?left sn (Some e) s')) \<le> dv_calls s' + 3 * nat \<lceil>?left / p\<rceil> + 1"
          using 1(1) [OF True _ _ _ 1(3,4)] rs Inl tr by auto
        then have "dv_calls (snd (wait_for_loop env q ?left sn (Some e) s'))
            \<le> dv_calls s + 3 * nat \<lceil>left / p\<rceil> + 1" using calls fewer [OF True] by linarith
        then show ?thesis using True rs Inl tr by (subst wait_for_loop.simps) simp
      next
        case False
        have "dv_calls s' \<le> dv_calls s + 3 * nat \<lceil>left / p\<rceil> + 1" using calls fewer [OF True] by linarith
        then show ?thesis using True rs Inl False by (subst wait_for_loop.simps) simp
      qed
    next
      case (Inr sn')
      show ?thesis
      proof (cases "q sn'")
        case qs: True
        have "dv_calls s' \<le> dv_calls s + 3 * nat \<lceil>left / p\<rceil> + 1" using calls fewer [OF True] by linarith
        then show ?thesis using True rs Inr qs by (subst wait_for_loop.simps) simp
      next
        case False
        have "dv_calls (snd (wait_for_loop env q ?left (Some sn') err s')) \<le> dv_calls s' + 3 * nat \<lceil>?left / p\<rceil> + 1"
          using 1(2) [OF True _ _ _ 1(3,4)] rs Inr False by auto
        then have "dv_calls (snd (wait_for_loop env q ?left (Some sn') err s'))
            \<le> dv_calls s + 3 * nat \<lceil>left / p\<rceil> + 1" using calls fewer [OF True] by linarith
        then show ?thesis using True rs Inr False by (subst wait_for_loop.simps) simp
      qed
    qed
  qed
qed

definition timed_out :: "pyexc \<Rightarrow> bool" where
  "timed_out e \<longleftrightarrow> exc_class e = ''RuntimeError''
     \<and> starts_with ''Prusa did not reach expected post-state before timeout; '' (exc_msg e)"

lemma wait_for_loop_Inl:
  "wait_for_loop env q left sn err s = (Inl e, s') \<Longrightarrow> \<not> is_transient_read_error e \<or> timed_out e"
proof (induction env q left sn err s rule: wait_for_loop.induct)
  case (1 env q left sn err s)
  obtain r s1 where rs: "read_status env (clock_read s) = (r, s1)" by fastforce
  note step = 1(3) [unfolded wait_for_loop.simps [of env q left sn err s] rs]
  show ?case
  proof (cases "0 < time_left env left s")
    case False
    then have "e = RuntimeError (''Prusa did not reach expected post-state before timeout; ''
              @ wait_detail env sn err)" using step by simp
    then show ?thesis by (simp add: timed_out_def del: append.simps)
  next
    case True
    show ?thesis
    proof (cases r)
      case (Inl e1)
      show ?thesis
      proof (cases "is_transient_read_error e1")
        case tr: True
        then have "wait_for_loop env q (time_left env left s) sn (Some e1) s1 = (Inl e, s')"
          using step True Inl by simp
        then show ?thesis using 1(1) [OF True] rs Inl tr by auto
      next
        case False
        then show ?thesis using step True Inl by simp
      qed
    next
      case (Inr sn1)
      then have "\<not> q sn1" and "wait_for_loop env q (time_left env left s) (Some sn1) err s1 = (Inl e, s')"
        using step True by (auto split: if_splits)
      then show ?thesis using 1(2) [OF True] rs Inr by auto
    qed
  qed
qed

lemma wait_for_loop_result:
  "case fst (wait_for_loop env q left sn err s) of
     Inr x \<Rightarrow> q x | Inl e \<Rightarrow> \<not> is_transient_read_error e \<or> timed_out e"
  using wait_for_loop_Inr [of env q left sn err s] wait_for_loop_Inl [of env q left sn err s]
  by (cases "wait_for_loop env q left sn err s") (simp split: sum.split)

text \<open>
  C28: When at least \<open>p\<close> seconds pass between two readings of the clock, a wait makes at most three
  calls per \<open>p\<close> seconds of its timeout and then ends: with a snapshot that satisfies what was waited
  for, with the timeout error, or with the first error of a read that is not transient.
\<close>

theorem wait_ends:
  assumes "0 < p" and "\<forall>n. p \<le> (1 + of_nat (pe_elapsed env n)) / 1000000000"
  shows "dv_calls (snd (wait_for env q timeout_s s)) \<le> dv_calls s + 3 * nat \<lceil>timeout_s / p\<rceil> + 1
    \<and> (case fst (wait_for env q timeout_s s) of
         Inr x \<Rightarrow> q x | Inl e \<Rightarrow> \<not> is_transient_read_error e \<or> timed_out e)"
  using wait_for_loop_calls [of p env q timeout_s None None s] wait_for_loop_result [of q env timeout_s None None s]
    assms by (simp add: wait_for_def)

lemma wait_ends_witness:
  "dv_calls (snd (wait_for ((sample_printer (\<lambda>_. 100))\<lparr>pe_elapsed := \<lambda>_. 249999999\<rparr>) (\<lambda>_. False) 8 fresh_state)) \<le> 97"
proof -
  have "dv_calls (snd (wait_for ((sample_printer (\<lambda>_. 100))\<lparr>pe_elapsed := \<lambda>_. 249999999\<rparr>) (\<lambda>_. False) 8 fresh_state))
      \<le> dv_calls fresh_state + 3 * nat \<lceil>8 / (1 / 4 :: rat)\<rceil> + 1"
    using wait_ends [of "1 / 4" "(sample_printer (\<lambda>_. 100))\<lparr>pe_elapsed := \<lambda>_. 249999999\<rparr>" "\<lambda>_. False" 8 fresh_state]
    by (simp del: of_nat_numeral add: of_nat_numeral)
  then show ?thesis by (simp add: fresh_state_def)
qed

subsection \<open>Two behaviours worth knowing\<close>

text \<open>
  A target that ends in one half is rounded for the command but compared unrounded, so no whole
  reading ever confirms it.
\<close>

lemma half_target_never_confirmed:
  assumes "v - of_int \<lfloor>v\<rfloor> = 1 / 2"
  shows "\<not> close_to (1 / 2) (Fin (of_int k)) (Fin v)"
proof
  assume "close_to (1 / 2) (Fin (of_int k)) (Fin v)"
  then have "\<bar>of_int k - v\<bar> < 1 / 2" by simp
  then have a: "of_int k < of_int \<lfloor>v\<rfloor> + (1::rat)" and b: "of_int \<lfloor>v\<rfloor> < (of_int k :: rat)"
    using assms by linarith+
  from a have "k < \<lfloor>v\<rfloor> + 1" by linarith
  moreover from b have "\<lfloor>v\<rfloor> < k" by linarith
  ultimately show False by simp
qed

text \<open>
  The temperature setters do not check the direction: a target computed before the bed target was
  lowered elsewhere makes the operation named down raise it.
\<close>

lemma bed_down_raises:
  "trim_bed_down_small ((sample_printer (\<lambda>_. 100))\<lparr>pe_status := \<lambda>n. Inr (PyDict [(''printer'',
       PyDict [(''state'', PyStr ''PRINTING''), (''target_bed'', PyInt (if n = 0 then 40 else 55))])])\<rparr>)
     (Fin 55) fresh_state
   = (Inr [(''target_bed_c'', PyFloat (Fin 55)), (''lifecycle'', PyStr ''PRINTING'')],
      \<lparr>dv_calls = 6, dv_sent = [''M140 S55''], dv_controls = [], dv_session = Some ''lifecycle:PRINTING''\<rparr>)"
  by code_simp

end
