(* ===== verification/PrusaPack.thy ===== *)
theory PrusaPack
  imports PrusaDriver Openrouter Predicates
begin

text \<open>
  The action side of the Prusa pack, \<open>packs/prusa_core_one_plus/pack.py\<close>: which bounded actions it
  offers on a world (\<open>candidate_actions\<close>, \<open>operator_actions\<close>, \<open>_live_tuning_actions\<close> and the helpers
  that settle, cool down and stabilise), and how it realises an action through the driver
  (\<open>_realize\<close>).

  The wall clock is read once per call of \<open>candidate_actions\<close> or \<open>operator_actions\<close>; it is the
  argument \<open>now_ms\<close>.
\<close>

section \<open>Settings, helpers\<close>

record pack_settings =
  pk_live_tuning_min_progress_pct :: rat
  pk_live_tuning_max_progress_pct :: rat
  pk_planner_allowed_tuning_families :: "string list"
  pk_enable_experimental_tuning :: bool
  pk_speed_tuning_verification_enabled :: bool
  pk_flow_tuning_verification_enabled :: bool
  pk_pressure_advance_tuning_verification_enabled :: bool
  pk_accel_tuning_verification_enabled :: bool
  pk_max_nozzle_target_c :: rat
  pk_max_bed_target_c :: rat
  pk_safe_to_unload_bed_c :: rat
  pk_safe_to_touch_nozzle_c :: rat
  pk_vision_advisory_interval_s :: rat
  pk_wait_cool_step_timeout_s :: rat
  pk_family_big_cooldown_s :: rat
  pk_tuning_settle_window_s :: rat
  pk_thermal_tuning_settle_window_s :: rat
  pk_pressure_advance_tuning_settle_window_s :: rat
  pk_accel_tuning_settle_window_s :: rat
  pk_file_action_limit :: nat

definition default_pack_settings :: pack_settings where
  "default_pack_settings = \<lparr>pk_live_tuning_min_progress_pct = 5, pk_live_tuning_max_progress_pct = 95,
     pk_planner_allowed_tuning_families = [], pk_enable_experimental_tuning = False,
     pk_speed_tuning_verification_enabled = False, pk_flow_tuning_verification_enabled = False,
     pk_pressure_advance_tuning_verification_enabled = False,
     pk_accel_tuning_verification_enabled = False, pk_max_nozzle_target_c = 300,
     pk_max_bed_target_c = 120, pk_safe_to_unload_bed_c = 35, pk_safe_to_touch_nozzle_c = 50,
     pk_vision_advisory_interval_s = 10, pk_wait_cool_step_timeout_s = 30,
     pk_family_big_cooldown_s = 60, pk_tuning_settle_window_s = 25,
     pk_thermal_tuning_settle_window_s = 60, pk_pressure_advance_tuning_settle_window_s = 45,
     pk_accel_tuning_settle_window_s = 45, pk_file_action_limit = 2\<rparr>"

record pack_env =
  pn_printer :: prusa_env
  pn_settings :: pack_settings
  pn_pack_id :: string
  pn_display_name :: string
  pn_category :: string
  pn_info :: "nat \<Rightarrow> pyexc + pyval"
  pn_mono :: "nat \<Rightarrow> rat"

abbreviation pn_rt :: "pack_env \<Rightarrow> pyrt" where "pn_rt env \<equiv> pe_rt (pn_printer env)"
abbreviation pn_driver :: "pack_env \<Rightarrow> driver_settings" where "pn_driver env \<equiv> pe_settings (pn_printer env)"

definition DEVICE_ID :: string where "DEVICE_ID = ''printer_1''"

definition dkey :: "string \<Rightarrow> string" where "dkey k = DEVICE_ID @ ''.'' @ k"

definition planner_family_enabled :: "pack_settings \<Rightarrow> string \<Rightarrow> bool" where
  "planner_family_enabled ps family \<longleftrightarrow>
     pk_planner_allowed_tuning_families ps = [] \<or> family \<in> set (pk_planner_allowed_tuning_families ps)"

definition pack_action_family :: "string \<Rightarrow> string option" where
  "pack_action_family action_id =
     (let text = str_upper action_id in
      if contains ''PRESSURE_ADVANCE'' text then Some ''pressure_advance''
      else if contains ''_ACCEL_'' text then Some ''accel''
      else if contains ''SPEED'' text then Some ''speed''
      else if contains ''FLOW'' text then Some ''flow''
      else if contains ''NOZZLE'' text then Some ''nozzle''
      else if contains ''BED'' text then Some ''bed''
      else None)"

definition is_alnum :: "char \<Rightarrow> bool" where
  "is_alnum c \<longleftrightarrow> is_word_char c \<and> c \<noteq> CHR ''_''"

definition file_action_id :: "string \<Rightarrow> string" where
  "file_action_id requested_file =
     (let slug = map (\<lambda>c. if is_alnum c then c else CHR ''_'') (str_upper (path_name requested_file))
      in ''A_PRUSA_START_'' @ (if slug \<noteq> [] then take 18 slug else ''FILE''))"

definition fact_bool :: "world_packet \<Rightarrow> string \<Rightarrow> bool" where
  "fact_bool world k = truthy (dget_or (wp_facts world) (dkey k) (PyBool False))"

definition fact_float :: "pyrt \<Rightarrow> world_packet \<Rightarrow> string \<Rightarrow> pyfloat option" where
  "fact_float rt world k = float_or_none rt (pget (wp_facts world) (dkey k))"

section \<open>Settling after a tuning action\<close>

record settle_state =
  st_active :: bool
  st_family :: "string option"
  st_action_id :: "string option"
  st_remaining_s :: "pyfloat option"

definition not_settling :: settle_state where
  "not_settling = \<lparr>st_active = False, st_family = None, st_action_id = None, st_remaining_s = None\<rparr>"

definition settle_window_s_for_family :: "pack_settings \<Rightarrow> string option \<Rightarrow> rat" where
  "settle_window_s_for_family ps family =
     (if family \<in> {Some ''nozzle'', Some ''bed''} then pk_thermal_tuning_settle_window_s ps
      else if family = Some ''pressure_advance'' then pk_pressure_advance_tuning_settle_window_s ps
      else if family = Some ''accel'' then pk_accel_tuning_settle_window_s ps
      else pk_tuning_settle_window_s ps)"

definition tuning_settle_state :: "pack_env \<Rightarrow> rat \<Rightarrow> world_packet \<Rightarrow> pyexc + settle_state" where
  "tuning_settle_state env now_ms world =
     (let rt = pn_rt env; last_result = wp_last_result world in
      case string_or_none rt (pget last_result ''action_id'') of
        None \<Rightarrow> Inr not_settling
      | Some action_id \<Rightarrow> (case pack_action_family action_id of
          None \<Rightarrow> Inr not_settling
        | Some family \<Rightarrow>
            if string_or_none rt (pget last_result ''status'') \<noteq> Some ''DONE'' then Inr not_settling
            else bindR (coerce_int rt (pget last_result ''updated_ts_ms'')) (\<lambda>updated_ts_ms.
              case updated_ts_ms of
                None \<Rightarrow> Inr not_settling
              | Some t \<Rightarrow>
                  let elapsed_s = max 0 ((now_ms - of_int t) / 1000);
                      remaining_s = settle_window_s_for_family (pn_settings env) (Some family) - elapsed_s
                  in if remaining_s \<le> 0
                     then Inr (not_settling\<lparr>st_family := Some family, st_action_id := Some action_id\<rparr>)
                     else Inr \<lparr>st_active = True, st_family = Some family, st_action_id = Some action_id,
                            st_remaining_s = Some (round_half_even rt 3 (Fin remaining_s))\<rparr>)))"

definition cross_family_tuning_allowed_during_settle :: "pack_env \<Rightarrow> world_packet \<Rightarrow> bool" where
  "cross_family_tuning_allowed_during_settle env world =
     (if \<not> fact_bool world ''nozzle_cam_usable'' then False
      else
        let rt = pn_rt env; facts = wp_facts world;
            strength = string_or_none rt (por (pget facts (dkey ''vision_advisory_strength''))
                                              (pget facts (dkey ''vision_signal_strength'')));
            issue_level = string_or_none rt (por (pget facts (dkey ''vision_advisory_issue_level''))
                                                 (pget facts (dkey ''vision_signal_issue_level'')));
            frame_age_s = fact_float rt world ''nozzle_cam_frame_age_s'';
            fresh_window_s = max 15 (pk_vision_advisory_interval_s (pn_settings env) * (3 / 2))
        in issue_level = Some ''high'' \<and> strength \<in> {Some ''moderate'', Some ''strong''}
           \<and> (case frame_age_s of None \<Rightarrow> False | Some a \<Rightarrow> float_le a (Fin fresh_window_s)))"

definition settle_suppresses_family :: "pack_env \<Rightarrow> rat \<Rightarrow> world_packet \<Rightarrow> string \<Rightarrow> pyexc + bool" where
  "settle_suppresses_family env now_ms world family =
     bindR (tuning_settle_state env now_ms world) (\<lambda>settle. Inr
       (if \<not> st_active settle then False
        else if st_family settle = Some family then True
        else \<not> cross_family_tuning_allowed_during_settle env world))"

definition big_escalation_allowed :: "pack_env \<Rightarrow> world_packet \<Rightarrow> string \<Rightarrow> bool" where
  "big_escalation_allowed env world family =
     (let rt = pn_rt env; last_result = wp_last_result world in
      case string_or_none rt (pget last_result ''action_id'') of
        None \<Rightarrow> False
      | Some last_action_id \<Rightarrow>
          if pack_action_family last_action_id \<noteq> Some family then False
          else if string_or_none rt (pget last_result ''status'') \<noteq> Some ''DONE'' then False
          else (case pget last_result ''result'' of
              PyDict result \<Rightarrow> (case pget result ''post_action_vision_signal'' of
                  PyDict signal \<Rightarrow>
                    string_or_none rt (pget signal ''comparison_delta'') \<in> {Some ''same'', Some ''worse''}
                    \<and> string_or_none rt (pget signal ''comparison_confidence'')
                        \<in> {Some ''moderate'', Some ''strong''}
                | _ \<Rightarrow> False)
            | _ \<Rightarrow> False))"

definition family_cooldown_active :: "world_packet \<Rightarrow> string \<Rightarrow> bool" where
  "family_cooldown_active world family = fact_bool world (family @ ''_big_cooldown_active'')"

section \<open>The value a relative step starts from\<close>

definition result_value :: "pyrt \<Rightarrow> string \<Rightarrow> string \<Rightarrow> dict \<Rightarrow> pyfloat option" where
  "result_value rt family result_field item =
     (if string_or_none rt (pget item ''status'') \<noteq> Some ''DONE'' then None
      else case string_or_none rt (pget item ''action_id'') of
        None \<Rightarrow> None
      | Some action_id \<Rightarrow>
          if pack_action_family action_id \<noteq> Some family then None
          else (case pget item ''result'' of
              PyDict result \<Rightarrow> float_or_none rt (pget result result_field)
            | _ \<Rightarrow> None))"

fun first_some :: "('a \<Rightarrow> 'b option) \<Rightarrow> 'a list \<Rightarrow> 'b option" where
  "first_some f [] = None"
| "first_some f (x # xs) = (case f x of Some y \<Rightarrow> Some y | None \<Rightarrow> first_some f xs)"

definition recent_verified_family_result_value ::
  "pyrt \<Rightarrow> world_packet \<Rightarrow> string \<Rightarrow> string \<Rightarrow> pyfloat option" where
  "recent_verified_family_result_value rt world family result_field =
     first_some (result_value rt family result_field)
       ((if wp_last_result world = [] then [] else [wp_last_result world]) @ wp_recent_results world)"

definition stabilize_relative_scalar_current ::
  "pyfloat option \<Rightarrow> pyfloat option \<Rightarrow> rat \<Rightarrow> nat \<Rightarrow> pyfloat option" where
  "stabilize_relative_scalar_current live_value baseline_value small_step_pct precision =
     (case (live_value, baseline_value) of
        (Some live, Some baseline) \<Rightarrow>
          let minimum_tolerance = (if precision \<ge> 4 then 5 / 10000 else 1);
              half_small_step = float_scale (max 0 small_step_pct / 100 * (1 / 2)) (float_abs baseline);
              trust_tolerance = float_max (Fin minimum_tolerance) half_small_step
          in if float_less trust_tolerance (float_abs (float_sub live baseline)) then Some baseline
             else Some live
      | _ \<Rightarrow> live_value)"

definition relative_scalar_planning_current ::
  "pyrt \<Rightarrow> world_packet \<Rightarrow> string \<Rightarrow> string \<Rightarrow> pyfloat option \<Rightarrow> pyfloat option \<Rightarrow> rat \<Rightarrow> nat
    \<Rightarrow> pyfloat option" where
  "relative_scalar_planning_current rt world family result_field live_value baseline_value small_step_pct precision =
     (case recent_verified_family_result_value rt world family result_field of
        Some v \<Rightarrow> Some v
      | None \<Rightarrow> stabilize_relative_scalar_current live_value baseline_value small_step_pct precision)"

section \<open>Tuning actions\<close>

definition id_direction :: "string \<Rightarrow> string option" where
  "id_direction text = (if contains ''_DOWN_'' text then Some ''down''
     else if contains ''_UP_'' text then Some ''up''
     else if contains ''RESTORE'' text then Some ''restore'' else None)"

definition id_scale :: "string \<Rightarrow> string option" where
  "id_scale text = (if contains ''_BIG'' text then Some ''big''
     else if contains ''_SMALL'' text then Some ''small''
     else if contains ''RESTORE'' text then Some ''restore'' else None)"

definition semantic_tuning_description :: "string \<Rightarrow> string \<Rightarrow> string \<Rightarrow> string" where
  "semantic_tuning_description action_id verb fallback =
     (let text = str_upper action_id; direction = id_direction text; scale = id_scale text;
          otherwise = (if contains ''RESTORE'' text
             then ''Restore this tuning family to the active in-file baseline.'' else fallback) in
      if verb = ''TUNE_SPEED'' then
        (let magnitude = (if scale = Some ''big'' then ''10%'' else if scale = Some ''small'' then ''5%'' else ''job default'') in if direction = Some ''down'' then
          ''Reduce print speed by '' @ magnitude @ ''. This slows motion and gives molten filament more time to settle, which can reduce''
          @ '' stringing or unstable extrusion at the cost of longer print time.''
        else if direction = Some ''up'' then
          ''Increase print speed by '' @ magnitude @ ''. This shortens dwell time and can counter over-melting or heat buildup, but it also''
          @ '' raises motion stress and can worsen under-extrusion or ringing.''
        else otherwise)
      else if verb = ''TUNE_FLOW'' then
        (let magnitude = (if scale = Some ''big'' then ''10%'' else if scale = Some ''small'' then ''5%'' else ''job default'') in if direction = Some ''down'' then
          ''Reduce flow by '' @ magnitude @ ''. This commands less extrusion and can reduce over-extrusion, ooze, blobs, or''
          @ '' stringing if the print looks overfed, but too much reduction can cause''
          @ '' under-extrusion.''
        else if direction = Some ''up'' then
          ''Increase flow by '' @ magnitude @ ''. This commands more extrusion and can help when the print looks starved or gaps''
          @ '' appear, but it can worsen blobs, ooze, or stringing if already overfed.''
        else otherwise)
      else if verb = ''TUNE_NOZZLE_TEMP'' then
        (let magnitude = (if scale = Some ''big'' then ''10C'' else if scale = Some ''small'' then ''5C'' else ''job default'') in if direction = Some ''down'' then
          ''Lower nozzle target temperature by '' @ magnitude @ ''. A cooler melt can reduce ooze and stringing, but too much reduction can hurt flow''
          @ '' consistency and layer bonding.''
        else if direction = Some ''up'' then
          ''Raise nozzle target temperature by '' @ magnitude @ ''. A hotter melt can improve flow and bonding, but it can also increase ooze and''
          @ '' stringing if the filament is already too hot.''
        else otherwise)
      else if verb = ''TUNE_BED_TEMP'' then
        (let magnitude = (if scale = Some ''big'' then ''10C'' else if scale = Some ''small'' then ''5C'' else ''job default'') in if direction = Some ''down'' then
          ''Lower bed target temperature by '' @ magnitude @ '' within the material-safe window. This can reduce excess surface tack or''
          @ '' overheating, but too much reduction can weaken adhesion.''
        else if direction = Some ''up'' then
          ''Raise bed target temperature by '' @ magnitude @ '' within the material-safe window. This can improve adhesion and part hold, but too''
          @ '' much heat can soften the part or worsen surface artifacts.''
        else otherwise)
      else if verb = ''TUNE_PRESSURE_ADVANCE'' then
        (if direction = Some ''down'' then
          ''Reduce pressure advance by one bounded step relative to the active in-file baseline.''
          @ '' This makes the printer relieve nozzle pressure less aggressively during starts,''
          @ '' stops, and direction changes.''
        else if direction = Some ''up'' then
          ''Increase pressure advance by one bounded step relative to the active in-file''
          @ '' baseline. This makes the printer relieve leftover nozzle pressure more aggressively''
          @ '' during starts, stops, and direction changes.''
        else otherwise)
      else if verb = ''TUNE_PRINT_ACCEL'' then
        (if direction = Some ''down'' then
          ''Reduce print acceleration by one bounded step relative to the active in-file''
          @ '' baseline. This makes the printer pull away from features more gently.''
        else if direction = Some ''up'' then
          ''Increase print acceleration by one bounded step relative to the active in-file''
          @ '' baseline. This makes the printer leave features more aggressively and spend less''
          @ '' time dwelling hot in one spot.''
        else otherwise)
      else otherwise)"

definition tuning_summary :: "string \<Rightarrow> string" where
  "tuning_summary verb =
     (if verb = ''TUNE_SPEED'' then
        ''Primary motion-rate trim. Lower values reduce ooze risk and motion energy; higher''
        @ '' values do the opposite.''
      else if verb = ''TUNE_FLOW'' then
        ''Primary extrusion-rate trim. Lower values reduce overfeed and ooze; higher values''
        @ '' increase commanded extrusion.''
      else if verb = ''TUNE_NOZZLE_TEMP'' then
        ''Melt-temperature trim. Lower values cool the melt and can reduce stringing; higher''
        @ '' values improve melt flow but can increase ooze.''
      else if verb = ''TUNE_BED_TEMP'' then
        ''Bed-temperature trim. Changes adhesion and part hold more than nozzle stringing''
        @ '' directly.''
      else if verb = ''TUNE_PRESSURE_ADVANCE'' then
        ''Pressure-lag trim. Higher values bleed off leftover nozzle pressure more''
        @ '' aggressively during starts, stops, and direction changes; lower values do less''
        @ '' compensation.''
      else if verb = ''TUNE_PRINT_ACCEL'' then
        ''Departure-force trim. Lower values make pull-away moves gentler; higher values make''
        @ '' departures more aggressive and reduce dwell.''
      else ''Bounded live tuning change.'')"

definition semantic_expected_delta :: "string \<Rightarrow> string \<Rightarrow> string \<Rightarrow> pyval \<Rightarrow> pyval list" where
  "semantic_expected_delta action_id verb verify_field verify_value =
     (let text = str_upper action_id;
          direction = (if contains ''_DOWN_'' text then ''decrease''
             else if contains ''_UP_'' text then ''increase''
             else if contains ''RESTORE'' text then ''restore'' else ''set'')
      in [PyDict [(''field'', PyStr verify_field), (''target'', verify_value),
           (''direction'', PyStr direction), (''summary'', PyStr (tuning_summary verb))]])"

definition tuning_action :: "pack_env \<Rightarrow> string \<Rightarrow> string \<Rightarrow> string \<Rightarrow> string \<Rightarrow> dict \<Rightarrow> string list
    \<Rightarrow> string \<Rightarrow> pyval \<Rightarrow> int \<Rightarrow> legal_action" where
  "tuning_action env action_id verb description execute_ref args required_locks verify_field verify_value rank_hint =
     (base_action action_id verb (semantic_tuning_description action_id verb description) (pn_pack_id env) execute_ref)
       \<lparr>la_args := args, la_required_locks := required_locks, la_target_device := Some DEVICE_ID,
        la_verify := atom verify_field ''=='' verify_value,
        la_expected_delta := semantic_expected_delta action_id verb verify_field verify_value,
        la_rank_hint := rank_hint\<rparr>"

text \<open>What the three kinds of families pass to the helpers below: names only.\<close>

record tune_spec =
  tu_verb :: string
  tu_id :: string
  tu_ref :: string
  tu_restore_id :: string
  tu_restore_ref :: string
  tu_arg :: string
  tu_field :: string
  tu_prefix :: string
  tu_rank :: int

definition SPEED :: tune_spec where
  "SPEED = \<lparr>tu_verb = ''TUNE_SPEED'', tu_id = ''A_PRUSA_TRIM_SPEED'', tu_ref = ''trim_speed'',
     tu_restore_id = ''A_PRUSA_OPERATOR_RESTORE_SPEED_DEFAULT'', tu_restore_ref = ''restore_speed_default'',
     tu_arg = ''target_speed_pct'', tu_field = dkey ''speed_pct'', tu_prefix = ''print speed'', tu_rank = 20\<rparr>"

definition FLOW :: tune_spec where
  "FLOW = \<lparr>tu_verb = ''TUNE_FLOW'', tu_id = ''A_PRUSA_TRIM_FLOW'', tu_ref = ''trim_flow'',
     tu_restore_id = ''A_PRUSA_OPERATOR_RESTORE_FLOW_DEFAULT'', tu_restore_ref = ''restore_flow_default'',
     tu_arg = ''target_flow_pct'', tu_field = dkey ''flow_pct'', tu_prefix = ''flow'', tu_rank = 25\<rparr>"

definition NOZZLE :: tune_spec where
  "NOZZLE = \<lparr>tu_verb = ''TUNE_NOZZLE_TEMP'', tu_id = ''A_PRUSA_TRIM_NOZZLE'', tu_ref = ''trim_nozzle'',
     tu_restore_id = [], tu_restore_ref = [], tu_arg = ''target_nozzle_c'',
     tu_field = dkey ''nozzle_target_c'', tu_prefix = ''nozzle target temperature'', tu_rank = 30\<rparr>"

definition BED :: tune_spec where
  "BED = \<lparr>tu_verb = ''TUNE_BED_TEMP'', tu_id = ''A_PRUSA_TRIM_BED'', tu_ref = ''trim_bed'',
     tu_restore_id = [], tu_restore_ref = [], tu_arg = ''target_bed_c'',
     tu_field = dkey ''bed_target_c'', tu_prefix = ''bed target temperature'', tu_rank = 40\<rparr>"

definition PRESSURE_ADVANCE :: tune_spec where
  "PRESSURE_ADVANCE = \<lparr>tu_verb = ''TUNE_PRESSURE_ADVANCE'', tu_id = ''A_PRUSA_TRIM_PRESSURE_ADVANCE'',
     tu_ref = ''trim_pressure_advance'',
     tu_restore_id = ''A_PRUSA_OPERATOR_RESTORE_PRESSURE_ADVANCE_DEFAULT'',
     tu_restore_ref = ''restore_pressure_advance_default'', tu_arg = ''target_pressure_advance'',
     tu_field = dkey ''pressure_advance'', tu_prefix = ''pressure advance'', tu_rank = 45\<rparr>"

definition ACCEL :: tune_spec where
  "ACCEL = \<lparr>tu_verb = ''TUNE_PRINT_ACCEL'', tu_id = ''A_PRUSA_TRIM_ACCEL'', tu_ref = ''trim_accel'',
     tu_restore_id = ''A_PRUSA_OPERATOR_RESTORE_ACCEL_DEFAULT'', tu_restore_ref = ''restore_accel_default'',
     tu_arg = ''target_print_accel_mm_s2'', tu_field = dkey ''print_accel_mm_s2'',
     tu_prefix = ''print acceleration'', tu_rank = 50\<rparr>"

text \<open>One trim: suffix of its id, suffix of its reference, description, rounded target, rank offset.\<close>

definition trim_action :: "pack_env \<Rightarrow> tune_spec \<Rightarrow> string \<Rightarrow> string \<Rightarrow> string \<Rightarrow> nat \<Rightarrow> pyfloat \<Rightarrow> int
    \<Rightarrow> legal_action" where
  "trim_action env tu id_suffix ref_suffix description precision target offset =
     (let v = PyFloat (round_half_even (pn_rt env) precision target) in
      tuning_action env (tu_id tu @ id_suffix) (tu_verb tu) description (tu_ref tu @ ref_suffix)
        [(tu_arg tu, v)] [dkey ''motion''] (tu_field tu) v (tu_rank tu + offset))"

text \<open>The four trims a family may offer, each if its target is on its side of the current value.\<close>

definition four_trims :: "pack_env \<Rightarrow> tune_spec \<Rightarrow> string \<times> string \<times> string \<times> string \<Rightarrow> nat \<Rightarrow> bool
    \<Rightarrow> pyfloat \<Rightarrow> pyfloat \<times> pyfloat \<times> pyfloat \<times> pyfloat \<Rightarrow> legal_action list" where
  "four_trims env tu texts precision allow_big current targets =
     (case texts of (dst, dbt, ust, ubt) \<Rightarrow> case targets of (down_small, down_big, up_small, up_big) \<Rightarrow>
        (if float_less down_small current
         then [trim_action env tu ''_DOWN_SMALL'' ''_down_small'' dst precision down_small 0] else [])
      @ (if allow_big \<and> float_less down_big current
         then [trim_action env tu ''_DOWN_BIG'' ''_down_big'' dbt precision down_big 1] else [])
      @ (if float_less current up_small
         then [trim_action env tu ''_UP_SMALL'' ''_up_small'' ust precision up_small 2] else [])
      @ (if allow_big \<and> float_less current up_big
         then [trim_action env tu ''_UP_BIG'' ''_up_big'' ubt precision up_big 3] else []))"

definition scalar_texts :: "tune_spec \<Rightarrow> string \<times> string \<times> string \<times> string" where
  "scalar_texts tu = (''Reduce '' @ tu_prefix tu @ '' a little'',
     ''Reduce '' @ tu_prefix tu @ '' more aggressively'',
     ''Increase '' @ tu_prefix tu @ '' a little'',
     ''Increase '' @ tu_prefix tu @ '' more aggressively'')"

definition restore_action :: "pack_env \<Rightarrow> tune_spec \<Rightarrow> dict \<Rightarrow> pyval \<Rightarrow> legal_action" where
  "restore_action env tu args v =
     tuning_action env (tu_restore_id tu) (tu_verb tu)
       (''Operator-only: restore '' @ tu_prefix tu @ '' to the job default'') (tu_restore_ref tu)
       args [dkey ''motion''] (tu_field tu) v (tu_rank tu + 4)"

definition step_targets :: "pyfloat \<Rightarrow> pyfloat \<Rightarrow> pyfloat \<Rightarrow> rat \<Rightarrow> rat
    \<Rightarrow> pyfloat \<times> pyfloat \<times> pyfloat \<times> pyfloat" where
  "step_targets lo hi current small_step big_step =
     (float_max lo (float_sub current (Fin small_step)), float_max lo (float_sub current (Fin big_step)),
      float_min hi (float_add current (Fin small_step)), float_min hi (float_add current (Fin big_step)))"

definition rate_actions :: "pack_env \<Rightarrow> tune_spec \<Rightarrow> bool \<Rightarrow> pyfloat option \<Rightarrow> rat \<Rightarrow> rat \<Rightarrow> rat \<Rightarrow> rat \<Rightarrow> rat
    \<Rightarrow> bool \<Rightarrow> bool \<Rightarrow> bool \<Rightarrow> legal_action list" where
  "rate_actions env tu eligible current_value min_value max_value default_value small_step big_step
     include_operator_resets cooldown_suppressed allow_big_actions =
     (case current_value of
        None \<Rightarrow> []
      | Some current \<Rightarrow>
          (if eligible \<and> \<not> cooldown_suppressed
           then four_trims env tu (scalar_texts tu) 1 allow_big_actions current
                  (step_targets (Fin min_value) (Fin max_value) current small_step big_step)
           else [])
        @ (if include_operator_resets
              \<and> float_le (Fin (1 / 2)) (float_abs (float_sub current (Fin default_value)))
           then [restore_action env tu [] (PyFloat (Fin default_value))] else []))"

definition temperature_texts :: "tune_spec \<Rightarrow> rat \<Rightarrow> rat \<Rightarrow> string \<times> string \<times> string \<times> string" where
  "temperature_texts tu small_step big_step =
     (let t = (\<lambda>w step. w @ '' '' @ tu_prefix tu @ '' by '' @ int_str (round_even step) @ ''C'') in
      (t ''Lower'' small_step, t ''Lower'' big_step, t ''Raise'' small_step, t ''Raise'' big_step))"

definition temperature_actions :: "pack_env \<Rightarrow> tune_spec \<Rightarrow> bool \<Rightarrow> pyfloat option \<Rightarrow> pyfloat \<Rightarrow> pyfloat \<Rightarrow> rat \<Rightarrow> rat
    \<Rightarrow> bool \<Rightarrow> bool \<Rightarrow> legal_action list" where
  "temperature_actions env tu eligible current_value lowest highest small_step big_step
     cooldown_suppressed allow_big_actions =
     (case current_value of
        None \<Rightarrow> []
      | Some current \<Rightarrow>
          if \<not> eligible \<or> cooldown_suppressed then []
          else four_trims env tu (temperature_texts tu small_step big_step) 1 allow_big_actions current
                 (step_targets lowest highest current small_step big_step))"

definition relative_scalar_targets :: "driver_settings \<Rightarrow> string \<Rightarrow> pyfloat
    \<Rightarrow> pyexc + pyfloat \<times> pyfloat \<times> pyfloat \<times> pyfloat" where
  "relative_scalar_targets ds verb baseline =
     (let clamped = (\<lambda>(lo, hi) t. float_min hi (float_max lo t));
          targets = (\<lambda>bounds f. (clamped bounds (f ''down'' ''small''), clamped bounds (f ''down'' ''big''),
                                 clamped bounds (f ''up'' ''small''), clamped bounds (f ''up'' ''big'')))
      in if verb = ''TUNE_PRESSURE_ADVANCE'' then
           Inr (targets (pressure_advance_bounds_for_baseline ds baseline)
                  (pressure_advance_target_from_baseline ds baseline))
         else if verb = ''TUNE_PRINT_ACCEL'' then
           Inr (targets (print_accel_bounds_for_baseline ds baseline)
                  (print_accel_target_from_baseline ds baseline))
         else Inl (ValueError (''unsupported relative scalar verb: '' @ verb)))"

definition relative_actions :: "pack_env \<Rightarrow> tune_spec \<Rightarrow> bool \<Rightarrow> pyfloat option \<Rightarrow> pyfloat option \<Rightarrow> pyfloat option
    \<Rightarrow> bool \<Rightarrow> bool \<Rightarrow> bool \<Rightarrow> nat \<Rightarrow> pyexc + legal_action list" where
  "relative_actions env tu eligible current_value restore_current_value baseline_value
     include_operator_resets cooldown_suppressed allow_big_actions precision =
     (let tolerance = (if precision \<ge> 4 then 5 / 10000 else 1 / 2);
          restore_value = (if restore_current_value \<noteq> None then restore_current_value else current_value);
          restores = (case (restore_value, baseline_value) of
             (Some r, Some dflt) \<Rightarrow>
               if include_operator_resets \<and> float_le (Fin tolerance) (float_abs (float_sub r dflt))
               then let v = PyFloat (round_half_even (pn_rt env) precision dflt)
                    in [restore_action env tu [(tu_arg tu, v)] v]
               else []
           | _ \<Rightarrow> [])
      in case (current_value, baseline_value) of
           (Some current, Some baseline) \<Rightarrow>
             if eligible \<and> \<not> cooldown_suppressed
             then bindR (relative_scalar_targets (pn_driver env) (tu_verb tu) baseline) (\<lambda>targets.
                    Inr (four_trims env tu (scalar_texts tu) precision allow_big_actions current targets
                         @ restores))
             else Inr restores
         | _ \<Rightarrow> Inr restores)"

section \<open>The live tuning actions of a world\<close>

definition min_extrusion_temp :: "pyrt \<Rightarrow> world_packet \<Rightarrow> pyfloat" where
  "min_extrusion_temp rt world = float_or (fact_float rt world ''min_extrusion_temp_c'') (Fin 170)"

definition bed_window :: "pack_env \<Rightarrow> world_packet \<Rightarrow> pyfloat \<times> pyfloat" where
  "bed_window env world =
     (let rt = pn_rt env; highest = Fin (pk_max_bed_target_c (pn_settings env));
          ideal = (case fact_float rt world ''job_bed_target_c_default'' of
             Some t \<Rightarrow> Some t | None \<Rightarrow> fact_float rt world ''bed_target_c'')
      in case ideal of
           None \<Rightarrow> (Fin 0, highest)
         | Some t \<Rightarrow> (float_max (Fin 0) (float_sub t (Fin 15)), float_min highest (float_add t (Fin 15))))"

definition family_suppressed :: "pack_env \<Rightarrow> rat \<Rightarrow> world_packet \<Rightarrow> bool \<Rightarrow> string \<Rightarrow> pyexc + bool" where
  "family_suppressed env now_ms world include_operator_resets family =
     bindR (settle_suppresses_family env now_ms world family) (\<lambda>settling.
     Inr ((settling \<or> family_cooldown_active world family) \<and> \<not> include_operator_resets))"

definition family_eligible :: "pack_env \<Rightarrow> world_packet \<Rightarrow> string \<Rightarrow> string \<Rightarrow> bool" where
  "family_eligible env world family eligibility_fact \<longleftrightarrow>
     planner_family_enabled (pn_settings env) family \<and> fact_bool world eligibility_fact"

definition big_allowed :: "pack_env \<Rightarrow> world_packet \<Rightarrow> bool \<Rightarrow> string \<Rightarrow> bool" where
  "big_allowed env world include_operator_resets family \<longleftrightarrow>
     include_operator_resets \<or> big_escalation_allowed env world family"

definition speed_actions :: "pack_env \<Rightarrow> rat \<Rightarrow> world_packet \<Rightarrow> bool \<Rightarrow> pyexc + legal_action list" where
  "speed_actions env now_ms world resets =
     (let ds = pn_driver env in
      bindR (family_suppressed env now_ms world resets ''speed'') (\<lambda>suppressed.
      Inr (rate_actions env SPEED (family_eligible env world ''speed'' ''speed_autonomy_eligible'')
        (fact_float (pn_rt env) world ''speed_pct'') (ds_speed_min_pct ds) (ds_speed_max_pct ds)
        (ds_speed_default_pct ds) (ds_speed_small_step_pct ds) (ds_speed_big_step_pct ds)
        resets suppressed (big_allowed env world resets ''speed''))))"

definition flow_actions :: "pack_env \<Rightarrow> rat \<Rightarrow> world_packet \<Rightarrow> bool \<Rightarrow> pyexc + legal_action list" where
  "flow_actions env now_ms world resets =
     (let ds = pn_driver env in
      bindR (family_suppressed env now_ms world resets ''flow'') (\<lambda>suppressed.
      Inr (rate_actions env FLOW (family_eligible env world ''flow'' ''flow_shadow_eligible'')
        (fact_float (pn_rt env) world ''flow_pct'') (ds_flow_min_pct ds) (ds_flow_max_pct ds)
        (ds_flow_default_pct ds) (ds_flow_small_step_pct ds) (ds_flow_big_step_pct ds)
        resets suppressed (big_allowed env world resets ''flow''))))"

definition nozzle_actions :: "pack_env \<Rightarrow> rat \<Rightarrow> world_packet \<Rightarrow> bool \<Rightarrow> pyexc + legal_action list" where
  "nozzle_actions env now_ms world resets =
     (let ds = pn_driver env in
      bindR (family_suppressed env now_ms world resets ''nozzle'') (\<lambda>suppressed.
      Inr (temperature_actions env NOZZLE (family_eligible env world ''nozzle'' ''nozzle_shadow_eligible'')
        (fact_float (pn_rt env) world ''nozzle_target_c'') (min_extrusion_temp (pn_rt env) world)
        (Fin (pk_max_nozzle_target_c (pn_settings env)))
        (ds_temp_small_step_c ds) (ds_temp_big_step_c ds)
        suppressed (big_allowed env world resets ''nozzle''))))"

definition bed_actions :: "pack_env \<Rightarrow> rat \<Rightarrow> world_packet \<Rightarrow> bool \<Rightarrow> pyexc + legal_action list" where
  "bed_actions env now_ms world resets =
     (let ds = pn_driver env in
      bindR (family_suppressed env now_ms world resets ''bed'') (\<lambda>suppressed.
      Inr (temperature_actions env BED (family_eligible env world ''bed'' ''bed_shadow_eligible'')
        (fact_float (pn_rt env) world ''bed_target_c'') (fst (bed_window env world)) (snd (bed_window env world))
        (ds_temp_small_step_c ds) (ds_temp_big_step_c ds)
        suppressed (big_allowed env world resets ''bed''))))"

definition pressure_advance_actions :: "pack_env \<Rightarrow> rat \<Rightarrow> world_packet \<Rightarrow> bool \<Rightarrow> pyexc + legal_action list" where
  "pressure_advance_actions env now_ms world resets =
     (let rt = pn_rt env; live = fact_float rt world ''pressure_advance'';
          baseline = fact_float rt world ''active_pressure_advance_baseline'' in
      bindR (family_suppressed env now_ms world resets ''pressure_advance'') (\<lambda>suppressed.
      relative_actions env PRESSURE_ADVANCE
        (family_eligible env world ''pressure_advance'' ''pressure_advance_shadow_eligible'')
        (relative_scalar_planning_current rt world ''pressure_advance'' ''pressure_advance'' live baseline
           (ds_pressure_advance_small_step_pct (pn_driver env)) 4)
        live baseline resets suppressed (big_allowed env world resets ''pressure_advance'') 4))"

definition accel_actions :: "pack_env \<Rightarrow> rat \<Rightarrow> world_packet \<Rightarrow> bool \<Rightarrow> pyexc + legal_action list" where
  "accel_actions env now_ms world resets =
     (let rt = pn_rt env; live = fact_float rt world ''print_accel_mm_s2'';
          baseline = fact_float rt world ''active_print_accel_baseline_mm_s2'' in
      bindR (family_suppressed env now_ms world resets ''accel'') (\<lambda>suppressed.
      relative_actions env ACCEL (family_eligible env world ''accel'' ''accel_shadow_eligible'')
        (relative_scalar_planning_current rt world ''accel'' ''print_accel_mm_s2'' live baseline
           (ds_accel_small_step_pct (pn_driver env)) 1)
        live baseline resets suppressed (big_allowed env world resets ''accel'') 1))"

definition appendR :: "(pyexc + 'a list) \<Rightarrow> (pyexc + 'a list) \<Rightarrow> pyexc + 'a list" where
  "appendR a b = bindR a (\<lambda>xs. bindR b (\<lambda>ys. Inr (xs @ ys)))"

definition live_tuning_actions ::
  "pack_env \<Rightarrow> rat \<Rightarrow> world_packet \<Rightarrow> bool \<Rightarrow> bool \<Rightarrow> pyexc + legal_action list" where
  "live_tuning_actions env now_ms world include_experimental resets =
     (if \<not> fact_bool world ''live_tuning_available'' then Inr []
      else appendR (speed_actions env now_ms world resets)
          (appendR (flow_actions env now_ms world resets)
          (appendR (nozzle_actions env now_ms world resets)
          (appendR (bed_actions env now_ms world resets)
             (if include_experimental
              then appendR (pressure_advance_actions env now_ms world resets)
                           (accel_actions env now_ms world resets)
              else Inr [])))))"

section \<open>Candidate and operator actions\<close>

definition fact_text :: "pack_env \<Rightarrow> world_packet \<Rightarrow> string \<Rightarrow> string \<Rightarrow> string" where
  "fact_text env world k dflt = py_str (pn_rt env) (dget_or (wp_facts world) (dkey k) (PyStr dflt))"

definition stopped_predicate :: pyval where
  "stopped_predicate = all_of [atom (dkey ''job_active'') ''=='' (PyBool False),
     any_of [atom (dkey ''lifecycle'') ''=='' (PyStr ''IDLE''),
             atom (dkey ''lifecycle'') ''=='' (PyStr ''FINISHED''),
             atom (dkey ''lifecycle'') ''=='' (PyStr ''STOPPED'')]]"

definition cancel_action :: "pack_env \<Rightarrow> string \<Rightarrow> legal_action" where
  "cancel_action env description =
     (base_action ''A_PRUSA_CANCEL'' ''STOP_PROCESS'' description (pn_pack_id env) ''stop_process'')
       \<lparr>la_required_locks := [dkey ''motion''], la_hazard_class := MEDIUM, la_approval_required := True,
        la_target_device := Some DEVICE_ID, la_verify := stopped_predicate, la_rank_hint := 90\<rparr>"

definition pause_action :: "pack_env \<Rightarrow> legal_action" where
  "pause_action env =
     (base_action ''A_PRUSA_PAUSE'' ''PAUSE_PROCESS'' ''Pause the active Prusa print'' (pn_pack_id env) ''pause_process'')
       \<lparr>la_required_locks := [dkey ''motion''], la_target_device := Some DEVICE_ID,
        la_verify := atom (dkey ''lifecycle'') ''=='' (PyStr ''PAUSED''), la_rank_hint := 15\<rparr>"

definition resume_action :: "pack_env \<Rightarrow> legal_action" where
  "resume_action env =
     (base_action ''A_PRUSA_RESUME'' ''RESUME_PROCESS'' ''Resume the paused Prusa print'' (pn_pack_id env) ''resume_process'')
       \<lparr>la_required_locks := [dkey ''motion''], la_target_device := Some DEVICE_ID,
        la_verify := atom (dkey ''lifecycle'') ''=='' (PyStr ''PRINTING''), la_rank_hint := 15\<rparr>"

definition wait_cool_action :: "pack_env \<Rightarrow> legal_action" where
  "wait_cool_action env =
     (base_action ''A_PRUSA_WAIT_COOL'' ''WAIT_UNTIL''
        ''Wait until the print bed and nozzle are cool enough for unloading'' ''builtin'' ''builtin.wait_until'')
       \<lparr>la_args := [(''timeout_s'', PyInt (max 1 (round_even (pk_wait_cool_step_timeout_s (pn_settings env))))),
          (''slice_s'', PyFloat (Fin 2)), (''predicate'', PyStr (dkey ''safe_to_unload'' @ '' == true'')),
          (''nonfatal_timeout'', PyBool True)],
        la_preconditions := atom (dkey ''part_present'') ''=='' (PyBool True),
        la_verify := atom (dkey ''safe_to_unload'') ''=='' (PyBool True),
        la_target_device := Some DEVICE_ID, la_rank_hint := 12\<rparr>"

definition start_action :: "pack_env \<Rightarrow> string \<Rightarrow> legal_action" where
  "start_action env requested_file =
     (base_action (file_action_id requested_file) ''START_PROCESS''
        (''Start the requested Prusa print file '' @ requested_file) (pn_pack_id env) ''start_process'')
       \<lparr>la_args := [(''file_path'', PyStr requested_file)],
        la_required_locks := [dkey ''motion'', dkey ''bed''], la_hazard_class := MEDIUM,
        la_approval_required := True, la_target_device := Some DEVICE_ID,
        la_verify := all_of [atom (dkey ''job_active'') ''=='' (PyBool True),
                             atom (dkey ''lifecycle'') ''=='' (PyStr ''PRINTING'')],
        la_rank_hint := 18\<rparr>"

definition call_human_action :: "pack_env \<Rightarrow> string \<Rightarrow> string \<Rightarrow> legal_action" where
  "call_human_action env lifecycle health =
     (base_action ''A_PRUSA_CALL_HUMAN'' ''CALL_HUMAN'' ''Ask a human to inspect the Prusa printer''
        ''builtin'' ''builtin.call_human'')
       \<lparr>la_args := [(''message'', PyStr (''Inspect '' @ pn_display_name env @ '': lifecycle='' @ lifecycle
          @ '', health='' @ health))], la_rank_hint := 180\<rparr>"

definition manual_unload_action :: legal_action where
  "manual_unload_action =
     (base_action ''A_PRUSA_MANUAL_UNLOAD'' ''CALL_HUMAN''
        ''Ask a human to unload the cooled print because no handling device is present''
        ''builtin'' ''builtin.call_human'')
       \<lparr>la_args := [(''message'', PyStr ''Unload the cooled print and then mark printer_1.part_present=false'')],
        la_rank_hint := 140\<rparr>"

definition candidate_actions :: "pack_env \<Rightarrow> rat \<Rightarrow> world_packet \<Rightarrow> pyexc + legal_action list" where
  "candidate_actions env now_ms world =
     (let lifecycle = fact_text env world ''lifecycle'' ''UNKNOWN'';
          health = fact_text env world ''health'' ''UNKNOWN'';
          part_present = fact_bool world ''part_present'';
          safe_to_unload = fact_bool world ''safe_to_unload'';
          requested_file = string_or_none (pn_rt env) (pget (wp_facts world) (dkey ''requested_file''));
          requested_file_present = fact_bool world ''requested_file_present'';
          has_handler = list_ex (\<lambda>r. rs_kind r = ''gripper'') (wp_resources world);
          printing_phase = fact_text env world ''printing_phase'' ''not_printing''
      in bindR (tuning_settle_state env now_ms world) (\<lambda>settle.
         bindR (live_tuning_actions env now_ms world (pk_enable_experimental_tuning (pn_settings env)) False)
           (\<lambda>tuning. Inr (
             (if lifecycle = ''PRINTING''
              then cancel_action env ''Cancel the active Prusa print''
                   # (if printing_phase = ''active_printing'' \<and> tuning = [] \<and> \<not> st_active settle
                      then [pause_action env] else [])
                   @ tuning
              else [])
           @ (if lifecycle = ''PAUSED''
              then [resume_action env, cancel_action env ''Cancel the paused Prusa print''] else [])
           @ (if lifecycle \<noteq> ''PRINTING'' \<and> part_present \<and> \<not> safe_to_unload
              then [wait_cool_action env] else [])
           @ (case requested_file of
                Some f \<Rightarrow> if lifecycle \<in> {''IDLE'', ''FINISHED'', ''STOPPED''} \<and> \<not> part_present
                             \<and> requested_file_present
                          then [start_action env f] else []
              | None \<Rightarrow> [])
           @ (if health \<in> {''ATTENTION'', ''ERROR'', ''OFFLINE''}
              then [call_human_action env lifecycle health]
              else if part_present \<and> safe_to_unload \<and> \<not> has_handler
              then [manual_unload_action] else [])))))"

definition operator_actions :: "pack_env \<Rightarrow> rat \<Rightarrow> world_packet \<Rightarrow> pyexc + legal_action list" where
  "operator_actions env now_ms world =
     (if fact_text env world ''lifecycle'' ''UNKNOWN'' \<noteq> ''PRINTING'' then Inr []
      else live_tuning_actions env now_ms world True True)"

section \<open>Realising an action\<close>

record trend_sample =
  ts_observed_monotonic :: rat
  ts_job_identity :: "string option"
  ts_lifecycle :: string
  ts_job_active :: bool
  ts_job_progress_pct :: "pyfloat option"
  ts_job_time_printing_s :: "pyfloat option"
  ts_nozzle_temp_c :: "pyfloat option"
  ts_nozzle_target_c :: "pyfloat option"
  ts_bed_temp_c :: "pyfloat option"
  ts_bed_target_c :: "pyfloat option"

record pstate =
  pt_driver :: dstate
  pt_part_present_inference :: bool
  pt_published :: "(string \<times> pyval) list"
  pt_big_cooldowns :: "(string \<times> rat) list"
  pt_info_cache :: "(pyval \<times> rat) option"
  pt_last_job_token :: "string option"
  pt_last_printing_job_identity :: "string option"
  pt_last_job_time_printing_s :: "pyfloat option"
  pt_active_printing_job_identity :: "string option"
  pt_last_trend_sample :: "trend_sample option"

definition drv :: "(dstate, 'a) act \<Rightarrow> (pstate, 'a) act" where
  "drv m s = (case m (pt_driver s) of (r, d) \<Rightarrow> (r, s\<lparr>pt_driver := d\<rparr>))"

text \<open>\<open>time.monotonic()\<close>.\<close>

definition monotonic :: "pack_env \<Rightarrow> (pstate, rat) act" where
  "monotonic env s = (Inr (pn_mono env (dv_calls (pt_driver s))), s\<lparr>pt_driver := clock_read (pt_driver s)\<rparr>)"

definition activate_big_family_cooldown :: "pack_env \<Rightarrow> string \<Rightarrow> (pstate, unit) act" where
  "activate_big_family_cooldown env action_id =
     (case pack_action_family action_id of
        None \<Rightarrow> ret ()
      | Some family \<Rightarrow>
          if \<not> ends_with ''_BIG'' action_id then ret ()
          else bindE (monotonic env) (\<lambda>now.
            modify (\<lambda>s. s\<lparr>pt_big_cooldowns :=
              dset family (now + pk_family_big_cooldown_s (pn_settings env)) (pt_big_cooldowns s)\<rparr>)))"

text \<open>The printer's info, kept for a minute; a failed read falls back to the old answer.\<close>

definition get_info_cached :: "pack_env \<Rightarrow> (pstate, pyval) act" where
  "get_info_cached env =
     bindE (monotonic env) (\<lambda>now.
     bindE (gets pt_info_cache) (\<lambda>cache.
     let refresh = try_except
           (bindE (drv (ask (pn_info env))) (\<lambda>v.
            bindE (modify (\<lambda>s. s\<lparr>pt_info_cache := Some (v, now)\<rparr>)) (\<lambda>_. ret v)))
           (\<lambda>_. ret (case cache of None \<Rightarrow> PyNone | Some (v, _) \<Rightarrow> v))
     in case cache of
          None \<Rightarrow> refresh
        | Some (v, fetched) \<Rightarrow> if now - fetched < 60 then ret v else refresh))"

definition lowest_nozzle_target :: "pack_env \<Rightarrow> (pstate, pyfloat) act" where
  "lowest_nozzle_target env =
     bindE (get_info_cached env) (\<lambda>info.
     bindE (liftE (as_dict (por info (PyDict [])))) (\<lambda>d.
     ret (float_or (float_or_none (pn_rt env) (pget d ''min_extrusion_temp'')) (Fin 170))))"

definition required_target :: "pack_env \<Rightarrow> legal_action \<Rightarrow> string \<Rightarrow> (pstate, pyfloat) act" where
  "required_target env action key = (case float_or_none (pn_rt env) (pget (la_args action) key) of
      None \<Rightarrow> raise (ValueError (la_execute_ref action @ '' requires '' @ key))
    | Some v \<Rightarrow> ret v)"

text \<open>A small step is the driver's call; a big one starts the cooldown of its family when it returned.\<close>

definition small_step :: "pack_env \<Rightarrow> legal_action \<Rightarrow> string \<Rightarrow> (pyfloat \<Rightarrow> (dstate, dict) act)
    \<Rightarrow> (pstate, dict) act" where
  "small_step env action key call = bindE (required_target env action key) (\<lambda>v. drv (call v))"

definition big_step :: "pack_env \<Rightarrow> legal_action \<Rightarrow> string \<Rightarrow> (pyfloat \<Rightarrow> (dstate, dict) act)
    \<Rightarrow> (pstate, dict) act" where
  "big_step env action key call =
     bindE (required_target env action key) (\<lambda>v.
     bindE (drv (call v)) (\<lambda>result.
     bindE (activate_big_family_cooldown env (la_action_id action)) (\<lambda>_. ret result)))"

definition part_is_present :: "dict \<Rightarrow> (pstate, dict) act" where
  "part_is_present result =
     bindE (modify (\<lambda>s. s\<lparr>pt_part_present_inference := True,
        pt_published := pt_published s @ [(dkey ''part_present'', PyBool True)]\<rparr>)) (\<lambda>_. ret result)"

definition tune :: "pack_env \<Rightarrow> legal_action \<Rightarrow> (pstate, dict) act" where
  "tune env action =
     (let p = pn_printer env; ref = la_execute_ref action;
          hottest_nozzle = Fin (pk_max_nozzle_target_c (pn_settings env));
          hottest_bed = Fin (pk_max_bed_target_c (pn_settings env)) in
      if ref = ''trim_speed_down_small'' then small_step env action ''target_speed_pct'' (trim_speed_down_small p)
      else if ref = ''trim_speed_down_big'' then big_step env action ''target_speed_pct'' (trim_speed_down_big p)
      else if ref = ''trim_speed_up_small'' then small_step env action ''target_speed_pct'' (trim_speed_up_small p)
      else if ref = ''trim_speed_up_big'' then big_step env action ''target_speed_pct'' (trim_speed_up_big p)
      else if ref = ''restore_speed_default'' then drv (restore_speed_default p)
      else if ref = ''trim_flow_down_small'' then small_step env action ''target_flow_pct'' (trim_flow_down_small p)
      else if ref = ''trim_flow_down_big'' then big_step env action ''target_flow_pct'' (trim_flow_down_big p)
      else if ref = ''trim_flow_up_small'' then small_step env action ''target_flow_pct'' (trim_flow_up_small p)
      else if ref = ''trim_flow_up_big'' then big_step env action ''target_flow_pct'' (trim_flow_up_big p)
      else if ref = ''restore_flow_default'' then drv (restore_flow_default p)
      else if ref = ''trim_nozzle_down_small'' then bindE (lowest_nozzle_target env) (\<lambda>lowest.
          small_step env action ''target_nozzle_c'' (\<lambda>v. trim_nozzle_down_small p v lowest))
      else if ref = ''trim_nozzle_down_big'' then bindE (lowest_nozzle_target env) (\<lambda>lowest.
          big_step env action ''target_nozzle_c'' (\<lambda>v. trim_nozzle_down_big p v lowest))
      else if ref = ''trim_nozzle_up_small'' then small_step env action ''target_nozzle_c'' (\<lambda>v. trim_nozzle_up_small p v hottest_nozzle)
      else if ref = ''trim_nozzle_up_big'' then big_step env action ''target_nozzle_c'' (\<lambda>v. trim_nozzle_up_big p v hottest_nozzle)
      else if ref = ''trim_bed_down_small'' then small_step env action ''target_bed_c'' (trim_bed_down_small p)
      else if ref = ''trim_bed_down_big'' then big_step env action ''target_bed_c'' (trim_bed_down_big p)
      else if ref = ''trim_bed_up_small'' then small_step env action ''target_bed_c'' (\<lambda>v. trim_bed_up_small p v hottest_bed)
      else if ref = ''trim_bed_up_big'' then big_step env action ''target_bed_c'' (\<lambda>v. trim_bed_up_big p v hottest_bed)
      else if ref = ''trim_pressure_advance_down_small'' then small_step env action ''target_pressure_advance'' (trim_pressure_advance_down_small p)
      else if ref = ''trim_pressure_advance_down_big'' then big_step env action ''target_pressure_advance'' (trim_pressure_advance_down_big p)
      else if ref = ''trim_pressure_advance_up_small'' then small_step env action ''target_pressure_advance'' (trim_pressure_advance_up_small p)
      else if ref = ''trim_pressure_advance_up_big'' then big_step env action ''target_pressure_advance'' (trim_pressure_advance_up_big p)
      else if ref = ''restore_pressure_advance_default'' then small_step env action ''target_pressure_advance'' (restore_pressure_advance_default p)
      else if ref = ''trim_accel_down_small'' then small_step env action ''target_print_accel_mm_s2'' (trim_print_accel_down_small p)
      else if ref = ''trim_accel_down_big'' then big_step env action ''target_print_accel_mm_s2'' (trim_print_accel_down_big p)
      else if ref = ''trim_accel_up_small'' then small_step env action ''target_print_accel_mm_s2'' (trim_print_accel_up_small p)
      else if ref = ''trim_accel_up_big'' then big_step env action ''target_print_accel_mm_s2'' (trim_print_accel_up_big p)
      else if ref = ''restore_accel_default'' then small_step env action ''target_print_accel_mm_s2'' (restore_print_accel_default p)
      else raise (ValueError (''unsupported Prusa execute_ref '' @ ref)))"

definition realize :: "pack_env \<Rightarrow> legal_action \<Rightarrow> (pstate, dict) act" where
  "realize env action =
     (let p = pn_printer env; verb = la_verb action in
      if verb = ''PAUSE_PROCESS'' then drv (pause p)
      else if verb = ''RESUME_PROCESS'' then drv (resume p)
      else if verb = ''STOP_PROCESS'' then bindE (drv (cancel p)) part_is_present
      else if verb = ''START_PROCESS'' then
        (let file_path = str_strip (py_str (pn_rt env) (dget_or (la_args action) ''file_path'' (PyStr []))) in
         if file_path = [] then raise (ValueError ''START_PROCESS requires file_path'')
         else bindE (drv (start_print p file_path)) part_is_present)
      else tune env action)"

text \<open>The big-step cooldowns as the facts of \<open>_family_big_cooldown_facts\<close>, which also forgets expired ones.\<close>

definition TUNING_FAMILIES :: "string list" where
  "TUNING_FAMILIES = [''speed'', ''flow'', ''nozzle'', ''bed'', ''pressure_advance'', ''accel'']"

definition live_cooldowns :: "rat \<Rightarrow> (string \<times> rat) list \<Rightarrow> (string \<times> rat) list" where
  "live_cooldowns now cooldowns = filter (\<lambda>(_, deadline). now < deadline) cooldowns"

definition cooldown_facts :: "pyrt \<Rightarrow> rat \<Rightarrow> (string \<times> rat) list \<Rightarrow> dict" where
  "cooldown_facts rt now cooldowns = concat (map (\<lambda>family.
     (case map_of cooldowns family of
        None \<Rightarrow> [(dkey (family @ ''_big_cooldown_active''), PyBool False),
                 (dkey (family @ ''_big_cooldown_remaining_s''), PyNone)]
      | Some deadline \<Rightarrow>
          if now < deadline
          then [(dkey (family @ ''_big_cooldown_active''), PyBool True),
                (dkey (family @ ''_big_cooldown_remaining_s''),
                   PyFloat (float_max (Fin 0) (round_half_even rt 3 (Fin (deadline - now)))))]
          else [(dkey (family @ ''_big_cooldown_active''), PyBool False),
                (dkey (family @ ''_big_cooldown_remaining_s''), PyNone)])) TUNING_FAMILIES)"

definition family_big_cooldown_facts :: "pack_env \<Rightarrow> (pstate, dict) act" where
  "family_big_cooldown_facts env =
     bindE (monotonic env) (\<lambda>now.
     bindE (modify (\<lambda>s. s\<lparr>pt_big_cooldowns := live_cooldowns now (pt_big_cooldowns s)\<rparr>)) (\<lambda>_.
     gets (\<lambda>s. cooldown_facts (pn_rt env) now (pt_big_cooldowns s))))"

section \<open>One action, at most one write\<close>

definition one_write :: "bool \<Rightarrow> dstate \<Rightarrow> dstate \<Rightarrow> bool" where
  "one_write control d d' \<longleftrightarrow> effects d' = effects d
     \<or> (if control then \<exists>c. effects d' = (dv_sent d, dv_controls d @ [c])
        else \<exists>c. effects d' = (dv_sent d @ [c], dv_controls d))"

lemma one_write_refl: "effects d' = effects d \<Longrightarrow> one_write k d d'"
  by (simp add: one_write_def)

lemma one_write_after: "one_write k d1 d2 \<Longrightarrow> effects d3 = effects d2 \<Longrightarrow> one_write k d1 d3"
  by (cases k) (simp_all add: one_write_def)

lemma one_write_before: "effects d1 = effects d0 \<Longrightarrow> one_write k d1 d2 \<Longrightarrow> one_write k d0 d2"
  by (auto simp: one_write_def effects_def)

lemma emits_one_write: "emits P m d \<Longrightarrow> one_write False d (snd (m d))"
  by (auto simp: emits_def one_write_def)

lemma one_control_request:
  assumes "quiet pre" and "\<And>a. quiet (post a)"
  shows "one_write True d (snd (bindE pre (\<lambda>x. bindE (control_call p (c x)) post) d))"
proof -
  obtain r d1 where pre: "pre d = (r, d1)" by fastforce
  have d1: "effects d1 = effects d" by (rule quietD [OF assms(1) pre])
  show ?thesis
  proof (cases r)
    case (Inl e)
    then show ?thesis using pre d1 by (simp add: bindE_def one_write_refl)
  next
    case (Inr x)
    have "effects (snd (bindE (control_call p (c x)) post d1)) = effects (snd (control_call p (c x) d1))"
      by (rule effects_bind_quiet [OF assms(2)])
    moreover have "effects (snd (control_call p (c x) d1)) = (dv_sent d1, dv_controls d1 @ [c x])"
      by (rule effects_control_call [of p "c x" d1 "fst (control_call p (c x) d1)"]) simp
    moreover have "snd (bindE pre (\<lambda>x. bindE (control_call p (c x)) post) d)
        = snd (bindE (control_call p (c x)) post d1)"
      using pre Inr by (simp add: bindE_def)
    ultimately have "effects (snd (bindE pre (\<lambda>x. bindE (control_call p (c x)) post) d))
        = (dv_sent d, dv_controls d @ [c x])"
      using d1 by (simp add: effects_def)
    then show ?thesis by (auto simp: one_write_def)
  qed
qed

lemma bindE_assoc: "bindE (bindE m f) g = bindE m (\<lambda>x. bindE (f x) g)"
  by (auto simp: bindE_def fun_eq_iff split: prod.splits sum.splits)

lemma pause_resume_one_write:
  "one_write True d (snd (pause p d))" "one_write True d (snd (resume p d))"
  using one_control_request [of "bindE (ask (pe_status p)) (\<lambda>status. liftE (as_dict status))"
      "\<lambda>_. bindE (wait_for p (\<lambda>sn. sn_lifecycle sn = L_PAUSED) (ds_timeout_s (pe_settings p))) (\<lambda>confirmed.
         ret [(''lifecycle'', PyStr (lifecycle_value (sn_lifecycle confirmed))),
          (''job_id'', case sn_job_id confirmed of None \<Rightarrow> PyNone | Some i \<Rightarrow> PyInt i)])"
      d p "\<lambda>st. C_pause (job_id st)"]
    one_control_request [of "bindE (ask (pe_status p)) (\<lambda>status. liftE (as_dict status))"
      "\<lambda>_. bindE (wait_for p (\<lambda>sn. sn_lifecycle sn = L_PRINTING) (ds_timeout_s (pe_settings p))) (\<lambda>confirmed.
         ret [(''lifecycle'', PyStr (lifecycle_value (sn_lifecycle confirmed))),
          (''job_id'', case sn_job_id confirmed of None \<Rightarrow> PyNone | Some i \<Rightarrow> PyInt i)])"
      d p "\<lambda>st. C_resume (job_id st)"]
  by (simp_all only: pause_def resume_def bindE_assoc quiet_intros)

lemma effects_try_quiet:
  assumes "\<And>e. quiet (h e)"
  shows "effects (snd (try_except m h s)) = effects (snd (m s))"
proof -
  obtain r s1 where m: "m s = (r, s1)" by fastforce
  show ?thesis using m assms by (cases r) (auto simp: try_except_def quiet_def)
qed

lemma quiet_cancel_recover: "quiet (cancel_recover p e)"
  unfolding cancel_recover_def by (intro quiet_intros)

lemma effects_after_quiet:
  assumes "quiet pre" and "\<And>x d1. one_write k d1 (snd (f x d1))"
  shows "one_write k d (snd (bindE pre f d))"
proof -
  obtain r d1 where pre: "pre d = (r, d1)" by fastforce
  have d1: "effects d1 = effects d" by (rule quietD [OF assms(1) pre])
  show ?thesis
    using pre d1 assms(2) by (cases r) (auto simp: bindE_def intro: one_write_refl one_write_before)
qed

lemma cancel_one_write: "one_write True d (snd (cancel p d))"
  unfolding cancel_def
proof (rule effects_after_quiet)
  show "quiet (ask (pe_status p))" by (rule quiet_basic)
  fix st d1
  have "one_write True d1 (snd (cancel_request p st d1))"
    unfolding cancel_request_def by (rule one_control_request) (intro quiet_intros)+
  then show "one_write True d1 (snd (try_except (cancel_request p st) (cancel_recover p) d1))"
    using effects_try_quiet [of "cancel_recover p" "cancel_request p st" d1, OF quiet_cancel_recover]
    by (auto intro: one_write_after)
qed

lemma start_one_write: "one_write True d (snd (start_print p f d))"
  unfolding start_print_def
proof (rule effects_after_quiet)
  show "quiet (resolve_start_print_path p f)" by (rule quiet_resolve)
  fix x :: "string \<times> string list" and d1
  obtain path vs where x: "x = (path, vs)" by fastforce
  let ?req = "bindE (control_call p (C_start path)) (\<lambda>_. ret None)"
  let ?attempt = "try_except ?req (start_recover p vs)"
  have "one_write True d1 (snd (bindE (ret ()) (\<lambda>_. ?req) d1))"
    by (rule one_control_request) (intro quiet_intros)+
  then have "one_write True d1 (snd (?req d1))" by (simp add: bindE_def act_simps)
  then have t: "one_write True d1 (snd (?attempt d1))"
    using effects_try_quiet [of "start_recover p vs" ?req d1, OF quiet_start_recover]
    by (auto intro: one_write_after)
  show "one_write True d1 (snd ((case x of (printer_path, requested_variants) \<Rightarrow>
     bindE (try_except (bindE (control_call p (C_start printer_path)) (\<lambda>_. ret None))
              (start_recover p requested_variants))
     (\<lambda>recovered. case recovered of
         Some r \<Rightarrow> ret r
       | None \<Rightarrow> bindE (wait_for p (\<lambda>sn. sn_job_active sn \<and> sn_lifecycle sn = L_PRINTING)
                         (ds_timeout_s (pe_settings p))) (\<lambda>confirmed. ret (start_result confirmed)))) d1))"
    unfolding x prod.case
    by (rule one_write_after [OF t], rule effects_bind_quiet) (intro quiet_intros)
qed

text \<open>The same at the level of the pack.\<close>

definition pquiet :: "(pstate, 'a) act \<Rightarrow> bool" where
  "pquiet m \<longleftrightarrow> (\<forall>s. effects (pt_driver (snd (m s))) = effects (pt_driver s))"

definition writes :: "bool \<Rightarrow> (pstate, 'a) act \<Rightarrow> bool" where
  "writes k m \<longleftrightarrow> (\<forall>s. one_write k (pt_driver s) (pt_driver (snd (m s))))"

named_theorems write_intros "operations of the pack that make at most one write"

lemma effects_clock_read [simp]: "effects (d\<lparr>dv_calls := n\<rparr>) = effects d"
  by (simp add: effects_def)

lemma pquiet_bindE [write_intros]: "pquiet m \<Longrightarrow> (\<And>a. pquiet (f a)) \<Longrightarrow> pquiet (bindE m f)"
  by (auto simp: pquiet_def bindE_def split: prod.splits sum.splits) (metis snd_conv)+

lemma pquiet_basic [write_intros]:
  "pquiet (ret a)" "pquiet (raise e)" "pquiet (liftE r)" "pquiet (gets f)" "pquiet (monotonic env)"
  by (simp_all add: pquiet_def act_simps monotonic_def clock_read_def)

lemma pquiet_modify [write_intros]: "(\<And>s. pt_driver (u s) = pt_driver s) \<Longrightarrow> pquiet (modify u)"
  by (simp add: pquiet_def act_simps)

lemma pquiet_try [write_intros]: "pquiet m \<Longrightarrow> (\<And>e. pquiet (h e)) \<Longrightarrow> pquiet (try_except m h)"
  by (auto simp: pquiet_def try_except_def split: prod.splits sum.splits) (metis snd_conv)+

lemma pquiet_drv [write_intros]: "quiet m \<Longrightarrow> pquiet (drv m)"
  by (auto simp: quiet_def pquiet_def drv_def split: prod.splits) (metis snd_conv)

lemma pquiet_option [write_intros]:
  "pquiet m \<Longrightarrow> (\<And>a. pquiet (f a)) \<Longrightarrow> pquiet (case x of None \<Rightarrow> m | Some a \<Rightarrow> f a)"
  by (cases x) simp_all

lemma pquiet_if [write_intros]: "pquiet m \<Longrightarrow> pquiet n \<Longrightarrow> pquiet (if b then m else n)"
  by simp

lemma pquiet_prod [write_intros]: "(\<And>a b. pquiet (f a b)) \<Longrightarrow> pquiet (case x of (a, b) \<Rightarrow> f a b)"
  by (cases x) simp

lemma pquiet_cooldown [write_intros]: "pquiet (activate_big_family_cooldown env i)"
  unfolding activate_big_family_cooldown_def by (intro write_intros) simp

lemma pquiet_info [write_intros]: "pquiet (get_info_cached env)"
  unfolding get_info_cached_def Let_def by (intro write_intros quiet_intros) simp_all

lemma pquiet_helpers [write_intros]:
  "pquiet (lowest_nozzle_target env)" "pquiet (required_target env a k)" "pquiet (part_is_present r)"
  unfolding lowest_nozzle_target_def required_target_def part_is_present_def
  by (intro write_intros; simp)+

lemma writes_drv: "(\<And>d. one_write k d (snd (m d))) \<Longrightarrow> writes k (drv m)"
  by (auto simp: writes_def drv_def split: prod.splits) (metis snd_conv)

lemma writes_after [write_intros]: "writes k m \<Longrightarrow> (\<And>a. pquiet (f a)) \<Longrightarrow> writes k (bindE m f)"
  by (auto simp: writes_def pquiet_def bindE_def split: prod.splits sum.splits)
    (metis one_write_after snd_conv)+

lemma writes_before [write_intros]: "pquiet m \<Longrightarrow> (\<And>a. writes k (f a)) \<Longrightarrow> writes k (bindE m f)"
  by (auto simp: writes_def pquiet_def bindE_def split: prod.splits sum.splits)
    (metis one_write_before one_write_refl snd_conv)+

lemma writes_quiet: "pquiet m \<Longrightarrow> writes k m"
  by (simp add: writes_def pquiet_def one_write_refl)

text \<open>The driver's tuning calls.\<close>

lemma set_one_write:
  "one_write False d (snd (set_speed_factor p v lo hi e d))"
  "one_write False d (snd (set_flow_factor p v lo hi e d))"
  "one_write False d (snd (set_nozzle_target p v lo hi e d))"
  "one_write False d (snd (set_bed_target p v lo hi e d))"
  "one_write False d (snd (set_pressure_advance p v lo hi e d))"
  "one_write False d (snd (set_print_accel p v lo hi e d))"
  "one_write False d (snd (restore_speed_default p d))"
  "one_write False d (snd (restore_flow_default p d))"
  by (rule emits_one_write, rule set_speed_emits set_flow_emits set_nozzle_target_emits
      set_bed_target_emits set_pressure_advance_emits set_print_accel_emits restore_rate_emits)+

lemmas trim_defs =
  trim_speed_down_small_def trim_speed_down_big_def trim_speed_up_small_def trim_speed_up_big_def
  trim_flow_down_small_def trim_flow_down_big_def trim_flow_up_small_def trim_flow_up_big_def
  trim_nozzle_down_small_def trim_nozzle_down_big_def trim_nozzle_up_small_def trim_nozzle_up_big_def
  trim_bed_down_small_def trim_bed_down_big_def trim_bed_up_small_def trim_bed_up_big_def
  trim_pressure_advance_down_small_def trim_pressure_advance_down_big_def
  trim_pressure_advance_up_small_def trim_pressure_advance_up_big_def restore_pressure_advance_default_def
  trim_print_accel_down_small_def trim_print_accel_down_big_def trim_print_accel_up_small_def
  trim_print_accel_up_big_def restore_print_accel_default_def

lemma writes_small: "(\<And>v d. one_write False d (snd (call v d))) \<Longrightarrow> writes False (small_step env a k call)"
  unfolding small_step_def by (intro write_intros writes_drv)

lemma writes_big: "(\<And>v d. one_write False d (snd (call v d))) \<Longrightarrow> writes False (big_step env a k call)"
  unfolding big_step_def
  by (rule writes_before, rule write_intros, rule writes_after, rule writes_drv, assumption, intro write_intros)

lemma writes_if: "writes k m \<Longrightarrow> writes k n \<Longrightarrow> writes k (if b then m else n)"
  by simp

lemma writes_tune: "writes False (tune env a)"
  unfolding tune_def Let_def
  apply (intro writes_if)
                      apply (simp_all only: writes_small writes_big writes_drv trim_defs set_one_write)
    apply (rule writes_before, rule pquiet_helpers, simp only: writes_small trim_defs set_one_write)
   apply (rule writes_before, rule pquiet_helpers, simp only: writes_big trim_defs set_one_write)
  apply (rule writes_quiet, rule pquiet_basic)
  done

definition lifecycle_verb :: "string \<Rightarrow> bool" where
  "lifecycle_verb v \<longleftrightarrow> v \<in> {''PAUSE_PROCESS'', ''RESUME_PROCESS'', ''STOP_PROCESS'', ''START_PROCESS''}"

lemma writes_realize: "writes (lifecycle_verb (la_verb a)) (realize env a)"
proof -
  note lifecycle = writes_drv pause_resume_one_write cancel_one_write start_one_write
    writes_after pquiet_helpers
  consider "la_verb a = ''PAUSE_PROCESS''" | "la_verb a = ''RESUME_PROCESS''" | "la_verb a = ''STOP_PROCESS''"
    | "la_verb a = ''START_PROCESS''" | "\<not> lifecycle_verb (la_verb a)"
    by (auto simp: lifecycle_verb_def)
  then show ?thesis
  proof cases
    case 1
    then show ?thesis by (simp add: realize_def lifecycle_verb_def lifecycle)
  next
    case 2
    then show ?thesis by (simp add: realize_def lifecycle_verb_def lifecycle)
  next
    case 3
    have "writes True (bindE (drv (cancel (pn_printer env))) part_is_present)"
      by (intro writes_after writes_drv cancel_one_write pquiet_helpers)
    then show ?thesis using 3 by (simp add: realize_def lifecycle_verb_def)
  next
    case 4
    have "writes True (bindE (drv (start_print (pn_printer env) f)) part_is_present)" for f
      by (intro writes_after writes_drv start_one_write pquiet_helpers)
    moreover have "writes True (raise e :: (pstate, dict) act)" for e
      by (rule writes_quiet, rule pquiet_basic)
    ultimately show ?thesis using 4 by (simp add: realize_def Let_def lifecycle_verb_def)
  next
    case 5
    then have "realize env a = tune env a" by (simp add: realize_def lifecycle_verb_def Let_def)
    then show ?thesis using 5 writes_tune [of env a] by simp
  qed
qed


section \<open>Which tuning actions are offered\<close>

lemma appendR_Inr: "appendR a b = Inr zs \<longleftrightarrow> (\<exists>xs ys. a = Inr xs \<and> b = Inr ys \<and> zs = xs @ ys)"
  by (auto simp: appendR_def bindR_eq_Inr)

text \<open>
  \<open>offered env world family fct tu prec lo hi current a\<close>: \<open>a\<close> is a trim of the family, the family is
  enabled and eligible, and its target lies on the trim's side of the current value and within the
  limits.
\<close>

definition trim_toward :: "pack_env \<Rightarrow> tune_spec \<Rightarrow> nat \<Rightarrow> (pyfloat \<Rightarrow> bool) \<Rightarrow> string \<Rightarrow> legal_action \<Rightarrow> bool" where
  "trim_toward env tu precision ok suffix a \<longleftrightarrow> (\<exists>t. ok t
     \<and> la_args a = [(tu_arg tu, PyFloat (round_half_even (pn_rt env) precision t))]
     \<and> la_verify a = atom (tu_field tu) ''=='' (PyFloat (round_half_even (pn_rt env) precision t))
     \<and> la_action_id a = tu_id tu @ suffix \<and> la_verb a = tu_verb tu)"

lemma trim_action_toward:
  "ok t \<Longrightarrow> trim_toward env tu precision ok i (trim_action env tu i r d precision t n)"
  by (auto simp: trim_toward_def trim_action_def tuning_action_def base_action_def Let_def)

definition within_trim :: "pack_env \<Rightarrow> tune_spec \<Rightarrow> nat \<Rightarrow> pyfloat \<Rightarrow> pyfloat \<times> pyfloat \<times> pyfloat \<times> pyfloat
    \<Rightarrow> bool \<Rightarrow> legal_action \<Rightarrow> bool" where
  "within_trim env tu precision current targets allow_big a \<longleftrightarrow>
     (case targets of (ds, db, us, ub) \<Rightarrow>
        trim_toward env tu precision (\<lambda>t. t = ds \<and> float_less t current) ''_DOWN_SMALL'' a
      \<or> (allow_big \<and> trim_toward env tu precision (\<lambda>t. t = db \<and> float_less t current) ''_DOWN_BIG'' a)
      \<or> trim_toward env tu precision (\<lambda>t. t = us \<and> float_less current t) ''_UP_SMALL'' a
      \<or> (allow_big \<and> trim_toward env tu precision (\<lambda>t. t = ub \<and> float_less current t) ''_UP_BIG'' a))"

lemma four_trims_within:
  assumes "a \<in> set (four_trims env tu texts precision allow_big current targets)"
  shows "within_trim env tu precision current targets allow_big a"
proof -
  obtain dst dbt ust ubt where tx: "texts = (dst, dbt, ust, ubt)" by (metis surj_pair)
  obtain x1 x2 x3 x4 where tg: "targets = (x1, x2, x3, x4)" by (metis surj_pair)
  show ?thesis
    using assms by (auto simp: tx tg four_trims_def within_trim_def intro: trim_action_toward split: if_splits)
qed

text \<open>A family's actions when it is offered to the planner.\<close>

definition gate :: "pack_env \<Rightarrow> rat \<Rightarrow> world_packet \<Rightarrow> string \<Rightarrow> string \<Rightarrow> bool" where
  "gate env now_ms world family fct \<longleftrightarrow>
     fact_bool world ''live_tuning_available'' \<and> family_eligible env world family fct
     \<and> settle_suppresses_family env now_ms world family = Inr False
     \<and> \<not> family_cooldown_active world family"

text \<open>The value a family is tuned from and its four targets.\<close>

definition family_targets :: "pack_env \<Rightarrow> world_packet \<Rightarrow> string \<Rightarrow> pyfloat
    \<Rightarrow> pyfloat \<times> pyfloat \<times> pyfloat \<times> pyfloat \<Rightarrow> bool" where
  "family_targets env world family current targets \<longleftrightarrow>
     (let rt = pn_rt env; ds = pn_driver env; num = fact_float rt world in
      if family = ''speed'' then num ''speed_pct'' = Some current \<and> targets =
        step_targets (Fin (ds_speed_min_pct ds)) (Fin (ds_speed_max_pct ds)) current
          (ds_speed_small_step_pct ds) (ds_speed_big_step_pct ds)
      else if family = ''flow'' then num ''flow_pct'' = Some current \<and> targets =
        step_targets (Fin (ds_flow_min_pct ds)) (Fin (ds_flow_max_pct ds)) current
          (ds_flow_small_step_pct ds) (ds_flow_big_step_pct ds)
      else if family = ''nozzle'' then num ''nozzle_target_c'' = Some current \<and> targets =
        step_targets (min_extrusion_temp rt world) (Fin (pk_max_nozzle_target_c (pn_settings env))) current
          (ds_temp_small_step_c ds) (ds_temp_big_step_c ds)
      else if family = ''bed'' then num ''bed_target_c'' = Some current \<and> targets =
        step_targets (fst (bed_window env world)) (snd (bed_window env world)) current
          (ds_temp_small_step_c ds) (ds_temp_big_step_c ds)
      else if family = ''pressure_advance'' then
        (\<exists>baseline. num ''active_pressure_advance_baseline'' = Some baseline
          \<and> relative_scalar_targets ds ''TUNE_PRESSURE_ADVANCE'' baseline = Inr targets)
      else (\<exists>baseline. num ''active_print_accel_baseline_mm_s2'' = Some baseline
          \<and> relative_scalar_targets ds ''TUNE_PRINT_ACCEL'' baseline = Inr targets))"

definition offer_of :: "pack_env \<Rightarrow> rat \<Rightarrow> world_packet \<Rightarrow> string \<times> string \<times> tune_spec \<times> nat \<Rightarrow> legal_action \<Rightarrow> bool" where
  "offer_of env now_ms world fam a \<longleftrightarrow>
     (case fam of (family, fct, tu, precision) \<Rightarrow>
        gate env now_ms world family fct
        \<and> (\<exists>current targets. family_targets env world family current targets
             \<and> within_trim env tu precision current targets (big_escalation_allowed env world family) a))"

definition offered_families :: "bool \<Rightarrow> (string \<times> string \<times> tune_spec \<times> nat) list" where
  "offered_families include_experimental =
     [(''speed'', ''speed_autonomy_eligible'', SPEED, 1), (''flow'', ''flow_shadow_eligible'', FLOW, 1),
      (''nozzle'', ''nozzle_shadow_eligible'', NOZZLE, 1), (''bed'', ''bed_shadow_eligible'', BED, 1)]
     @ (if include_experimental
        then [(''pressure_advance'', ''pressure_advance_shadow_eligible'', PRESSURE_ADVANCE, 4),
              (''accel'', ''accel_shadow_eligible'', ACCEL, 1)] else [])"

lemma rate_actions_planner:
  assumes "a \<in> set (rate_actions env tu e cur mn mx dflt sm bg False held big)"
  obtains current where "cur = Some current" "e" "\<not> held"
    "within_trim env tu 1 current (step_targets (Fin mn) (Fin mx) current sm bg) big a"
  using assms by (auto simp: rate_actions_def split: option.splits if_splits dest: four_trims_within)

lemma temperature_actions_planner:
  assumes "a \<in> set (temperature_actions env tu e cur lo hi sm bg held big)"
  obtains current where "cur = Some current" "e" "\<not> held"
    "within_trim env tu 1 current (step_targets lo hi current sm bg) big a"
  using assms by (auto simp: temperature_actions_def split: option.splits if_splits dest: four_trims_within)

lemma relative_actions_planner:
  assumes "relative_actions env tu e cur rs base False held big precision = Inr xs" and "a \<in> set xs"
  obtains current targets baseline where "cur = Some current" "base = Some baseline" "e" "\<not> held"
    "relative_scalar_targets (pn_driver env) (tu_verb tu) baseline = Inr targets"
    "within_trim env tu precision current targets big a"
  using assms
  by (auto simp: relative_actions_def Let_def bindR_eq_Inr split: option.splits if_splits dest: four_trims_within)

lemma family_suppressed_planner:
  "family_suppressed env now_ms world False family = Inr False \<longleftrightarrow>
     settle_suppresses_family env now_ms world family = Inr False \<and> \<not> family_cooldown_active world family"
  by (auto simp: family_suppressed_def bindR_eq_Inr)

lemma offer_ofI:
  "fact_bool world ''live_tuning_available'' \<Longrightarrow> family_eligible env world family fct
   \<Longrightarrow> family_suppressed env now_ms world False family = Inr False
   \<Longrightarrow> family_targets env world family current targets
   \<Longrightarrow> within_trim env tu precision current targets (big_escalation_allowed env world family) a
   \<Longrightarrow> offer_of env now_ms world (family, fct, tu, precision) a"
  unfolding offer_of_def gate_def family_suppressed_planner prod.case by blast

lemma big_allowed_planner: "big_allowed env world False family = big_escalation_allowed env world family"
  by (simp add: big_allowed_def)

lemma speed_offers:
  assumes "fact_bool world ''live_tuning_available''" "speed_actions env now_ms world False = Inr xs" "a \<in> set xs"
  shows "offer_of env now_ms world (''speed'', ''speed_autonomy_eligible'', SPEED, 1) a"
  using assms(2,3)
  by (auto simp: speed_actions_def Let_def bindR_eq_Inr big_allowed_planner family_targets_def
      elim!: rate_actions_planner intro!: offer_ofI [OF assms(1)])

lemma flow_offers:
  assumes "fact_bool world ''live_tuning_available''" "flow_actions env now_ms world False = Inr xs" "a \<in> set xs"
  shows "offer_of env now_ms world (''flow'', ''flow_shadow_eligible'', FLOW, 1) a"
  using assms(2,3)
  by (auto simp: flow_actions_def Let_def bindR_eq_Inr big_allowed_planner family_targets_def
      elim!: rate_actions_planner intro!: offer_ofI [OF assms(1)])

lemma nozzle_offers:
  assumes "fact_bool world ''live_tuning_available''" "nozzle_actions env now_ms world False = Inr xs" "a \<in> set xs"
  shows "offer_of env now_ms world (''nozzle'', ''nozzle_shadow_eligible'', NOZZLE, 1) a"
  using assms(2,3)
  by (auto simp: nozzle_actions_def Let_def bindR_eq_Inr big_allowed_planner family_targets_def
      elim!: temperature_actions_planner intro!: offer_ofI [OF assms(1)])

lemma bed_offers:
  assumes "fact_bool world ''live_tuning_available''" "bed_actions env now_ms world False = Inr xs" "a \<in> set xs"
  shows "offer_of env now_ms world (''bed'', ''bed_shadow_eligible'', BED, 1) a"
  using assms(2,3)
  by (auto simp: bed_actions_def Let_def bindR_eq_Inr big_allowed_planner family_targets_def
      elim!: temperature_actions_planner intro!: offer_ofI [OF assms(1)])

lemma pressure_advance_offers:
  assumes "fact_bool world ''live_tuning_available''"
    "pressure_advance_actions env now_ms world False = Inr xs" "a \<in> set xs"
  shows "offer_of env now_ms world (''pressure_advance'', ''pressure_advance_shadow_eligible'', PRESSURE_ADVANCE, 4) a"
proof -
  obtain s where s: "family_suppressed env now_ms world False ''pressure_advance'' = Inr s"
    and r: "relative_actions env PRESSURE_ADVANCE
        (family_eligible env world ''pressure_advance'' ''pressure_advance_shadow_eligible'')
        (relative_scalar_planning_current (pn_rt env) world ''pressure_advance'' ''pressure_advance''
           (fact_float (pn_rt env) world ''pressure_advance'')
           (fact_float (pn_rt env) world ''active_pressure_advance_baseline'')
           (ds_pressure_advance_small_step_pct (pn_driver env)) 4)
        (fact_float (pn_rt env) world ''pressure_advance'')
        (fact_float (pn_rt env) world ''active_pressure_advance_baseline'') False s
        (big_allowed env world False ''pressure_advance'') 4 = Inr xs"
    using assms(2) by (auto simp: pressure_advance_actions_def Let_def bindR_eq_Inr)
  from r assms(3) show ?thesis
  proof (rule relative_actions_planner)
    fix current targets baseline
    assume x: "fact_float (pn_rt env) world ''active_pressure_advance_baseline'' = Some baseline"
      "family_eligible env world ''pressure_advance'' ''pressure_advance_shadow_eligible''" "\<not> s"
      "relative_scalar_targets (pn_driver env) (tu_verb PRESSURE_ADVANCE) baseline = Inr targets"
      "within_trim env PRESSURE_ADVANCE 4 current targets (big_allowed env world False ''pressure_advance'') a"
    then have "family_targets env world ''pressure_advance'' current targets"
      by (simp add: family_targets_def PRESSURE_ADVANCE_def)
    then show ?thesis using x s by (intro offer_ofI [OF assms(1)]) (simp_all add: big_allowed_planner)
  qed
qed

lemma accel_offers:
  assumes "fact_bool world ''live_tuning_available''" "accel_actions env now_ms world False = Inr xs" "a \<in> set xs"
  shows "offer_of env now_ms world (''accel'', ''accel_shadow_eligible'', ACCEL, 1) a"
proof -
  obtain s where s: "family_suppressed env now_ms world False ''accel'' = Inr s"
    and r: "relative_actions env ACCEL (family_eligible env world ''accel'' ''accel_shadow_eligible'')
        (relative_scalar_planning_current (pn_rt env) world ''accel'' ''print_accel_mm_s2''
           (fact_float (pn_rt env) world ''print_accel_mm_s2'')
           (fact_float (pn_rt env) world ''active_print_accel_baseline_mm_s2'')
           (ds_accel_small_step_pct (pn_driver env)) 1)
        (fact_float (pn_rt env) world ''print_accel_mm_s2'')
        (fact_float (pn_rt env) world ''active_print_accel_baseline_mm_s2'') False s
        (big_allowed env world False ''accel'') 1 = Inr xs"
    using assms(2) by (auto simp: accel_actions_def Let_def bindR_eq_Inr)
  from r assms(3) show ?thesis
  proof (rule relative_actions_planner)
    fix current targets baseline
    assume x: "fact_float (pn_rt env) world ''active_print_accel_baseline_mm_s2'' = Some baseline"
      "family_eligible env world ''accel'' ''accel_shadow_eligible''" "\<not> s"
      "relative_scalar_targets (pn_driver env) (tu_verb ACCEL) baseline = Inr targets"
      "within_trim env ACCEL 1 current targets (big_allowed env world False ''accel'') a"
    then have "family_targets env world ''accel'' current targets"
      by (simp add: family_targets_def ACCEL_def)
    then show ?thesis using x s by (intro offer_ofI [OF assms(1)]) (simp_all add: big_allowed_planner)
  qed
qed

lemma offer_cases:
  assumes "live_tuning_actions env now_ms world include_experimental False = Inr actions"
    and "a \<in> set actions"
  shows "offer_of env now_ms world (''speed'', ''speed_autonomy_eligible'', SPEED, 1) a
    \<or> offer_of env now_ms world (''flow'', ''flow_shadow_eligible'', FLOW, 1) a
    \<or> offer_of env now_ms world (''nozzle'', ''nozzle_shadow_eligible'', NOZZLE, 1) a
    \<or> offer_of env now_ms world (''bed'', ''bed_shadow_eligible'', BED, 1) a
    \<or> include_experimental
      \<and> (offer_of env now_ms world (''pressure_advance'', ''pressure_advance_shadow_eligible'', PRESSURE_ADVANCE, 4) a
         \<or> offer_of env now_ms world (''accel'', ''accel_shadow_eligible'', ACCEL, 1) a)"
proof (cases "fact_bool world ''live_tuning_available''")
  case False
  then show ?thesis using assms by (simp add: live_tuning_actions_def)
next
  case True
  note offers = speed_offers [OF True] flow_offers [OF True] nozzle_offers [OF True] bed_offers [OF True]
    pressure_advance_offers [OF True] accel_offers [OF True]
  show ?thesis
    using assms True
    by (auto simp: live_tuning_actions_def appendR_Inr simp del: One_nat_def split: if_splits dest: offers)
qed

text \<open>
  C32: A tuning action that is offered to the planner belongs to a family that is enabled, eligible,
  not settling and not cooling down while live tuning is available; its target lies on its side of
  the current value and is the bounded step of the family, which a big step needs recent post-action
  evidence for; and pressure advance and acceleration are offered only with experimental tuning.
\<close>

theorem planner_offers_gated:
  assumes "live_tuning_actions env now_ms world include_experimental False = Inr actions"
    and "a \<in> set actions"
  shows "\<exists>fam \<in> set (offered_families include_experimental). offer_of env now_ms world fam a"
  using offer_cases [OF assms] unfolding offered_families_def
  by (cases include_experimental) (simp_all del: One_nat_def, blast?)

text \<open>A world with one eligible family, for the closed examples.\<close>

definition sample_pack :: pack_env where
  "sample_pack = \<lparr>pn_printer = sample_printer (\<lambda>_. 100), pn_settings = default_pack_settings,
     pn_pack_id = ''prusa'', pn_display_name = ''Prusa'', pn_category = ''printer'', pn_info = (\<lambda>_. Inr PyNone), pn_mono = (\<lambda>_. 0)\<rparr>"

definition sample_world :: "dict \<Rightarrow> world_packet" where
  "sample_world facts = \<lparr>wp_goal = [], wp_device_summaries = [], wp_facts = facts, wp_resources = [],
     wp_blockers = [], wp_deltas = [], wp_frontier = [], wp_last_result = [], wp_recent_results = [],
     wp_pending_human = [], wp_compilation = None, wp_prompt_frontier_limit = None\<rparr>"

definition sample_speed_world :: world_packet where
  "sample_speed_world = sample_world [(''printer_1.live_tuning_available'', PyBool True),
     (''printer_1.speed_autonomy_eligible'', PyBool True), (''printer_1.speed_pct'', PyInt 100)]"

definition sample_trim_action :: legal_action where
  "sample_trim_action = trim_action sample_pack SPEED ''_DOWN_SMALL'' ''_down_small''
     ''Reduce print speed a little'' 1 (Fin 95) 0"

lemma sample_offers:
  "live_tuning_actions sample_pack 0 sample_speed_world False False
   = Inr [sample_trim_action, trim_action sample_pack SPEED ''_UP_SMALL'' ''_up_small''
            ''Increase print speed a little'' 1 (Fin 105) 2]"
  by code_simp

lemma planner_offers_gated_witness:
  "\<exists>fam \<in> set (offered_families False). offer_of sample_pack 0 sample_speed_world fam sample_trim_action"
  by (rule planner_offers_gated [OF sample_offers]) simp

subsection \<open>Bounded targets\<close>

definition bounded_families :: "pack_env \<Rightarrow> world_packet
    \<Rightarrow> (string \<times> string \<times> pyfloat \<times> pyfloat \<times> rat \<times> rat) list" where
  "bounded_families env world =
     (let ds = pn_driver env in
      [(''TUNE_SPEED'', ''speed_pct'', Fin (ds_speed_min_pct ds), Fin (ds_speed_max_pct ds),
          ds_speed_small_step_pct ds, ds_speed_big_step_pct ds),
       (''TUNE_FLOW'', ''flow_pct'', Fin (ds_flow_min_pct ds), Fin (ds_flow_max_pct ds),
          ds_flow_small_step_pct ds, ds_flow_big_step_pct ds),
       (''TUNE_NOZZLE_TEMP'', ''nozzle_target_c'', min_extrusion_temp (pn_rt env) world,
          Fin (pk_max_nozzle_target_c (pn_settings env)), ds_temp_small_step_c ds, ds_temp_big_step_c ds),
       (''TUNE_BED_TEMP'', ''bed_target_c'', fst (bed_window env world), snd (bed_window env world),
          ds_temp_small_step_c ds, ds_temp_big_step_c ds)])"

text \<open>A step of at most \<open>step\<close> from \<open>current\<close> that does not cross the limit on its side.\<close>

definition bounded_step :: "rat \<Rightarrow> rat \<Rightarrow> rat \<Rightarrow> rat \<Rightarrow> rat \<Rightarrow> bool" where
  "bounded_step lo hi step current t \<longleftrightarrow>
     (lo \<le> t \<and> t < current \<and> current - t \<le> step) \<or> (current < t \<and> t \<le> hi \<and> t - current \<le> step)"

lemma bounded_step_down:
  "float_less (float_max (Fin lo) (float_sub (Fin c) (Fin s))) (Fin c) \<Longrightarrow> s \<le> step
   \<Longrightarrow> \<exists>t. float_max (Fin lo) (float_sub (Fin c) (Fin s)) = Fin t \<and> bounded_step lo hi step c t"
  by (auto simp: float_max_def float_sub_def bounded_step_def)

lemma bounded_step_up:
  "float_less (Fin c) (float_min (Fin hi) (float_add (Fin c) (Fin s))) \<Longrightarrow> s \<le> step
   \<Longrightarrow> \<exists>t. float_min (Fin hi) (float_add (Fin c) (Fin s)) = Fin t \<and> bounded_step lo hi step c t"
  by (auto simp: float_min_def bounded_step_def)

lemma within_trim_bounded:
  assumes "within_trim env tu precision (Fin c) (step_targets (Fin lo) (Fin hi) (Fin c) small big) ok a"
  shows "\<exists>t arg. bounded_step lo hi (max small big) c t
     \<and> la_args a = [(arg, PyFloat (round_half_even (pn_rt env) precision (Fin t)))]"
proof -
  have S: "small \<le> max small big" "big \<le> max small big" by simp_all
  show ?thesis
    using assms bounded_step_down [of lo c small, OF _ S(1), of hi] bounded_step_down [of lo c big, OF _ S(2), of hi]
      bounded_step_up [of c hi small, OF _ S(1), of lo] bounded_step_up [of c hi big, OF _ S(2), of lo]
    unfolding within_trim_def step_targets_def prod.case trim_toward_def
    by (elim disjE conjE exE) (metis (no_types))+
qed

lemma offer_verb: "offer_of env now_ms world (family, fct, tu, precision) a \<Longrightarrow> la_verb a = tu_verb tu"
  by (auto simp: offer_of_def within_trim_def trim_toward_def split: prod.splits)

lemma offer_bounded:
  assumes "offer_of env now_ms world (family, f, tu, 1) a"
    and "\<And>c ts. family_targets env world family c ts
      \<Longrightarrow> c = Fin current \<and> ts = step_targets (Fin lo) (Fin hi) (Fin current) small big"
  shows "\<exists>t arg. bounded_step lo hi (max small big) current t
     \<and> la_args a = [(arg, PyFloat (round_half_even (pn_rt env) 1 (Fin t)))]"
proof -
  obtain c ts where "within_trim env tu 1 c ts (big_escalation_allowed env world family) a"
      and "family_targets env world family c ts"
    using assms(1) by (auto simp: offer_of_def)
  then show ?thesis using assms(2) within_trim_bounded by blast
qed

lemmas spec_verbs = SPEED_def FLOW_def NOZZLE_def BED_def PRESSURE_ADVANCE_def ACCEL_def



section \<open>Hazardous candidates\<close>

lemma offer_cases_verb:
  assumes "live_tuning_actions env now_ms world x False = Inr tuning" and "a \<in> set tuning"
  shows "la_verb a \<notin> {''START_PROCESS'', ''STOP_PROCESS'', ''PAUSE_PROCESS'', ''RESUME_PROCESS''}"
  using offer_cases [OF assms]
  by (elim disjE conjE) (drule offer_verb, simp add: spec_verbs)+

lemma four_trims_approval:
  "a \<in> set (four_trims env tu texts precision big current targets) \<Longrightarrow> \<not> la_approval_required a"
  by (auto simp: four_trims_def trim_action_def tuning_action_def base_action_def Let_def
      split: prod.splits if_splits)

lemma candidates:
  assumes "candidate_actions env now_ms world = Inr actions"
    and "tuning_settle_state env now_ms world = Inr settle"
    and "live_tuning_actions env now_ms world (pk_enable_experimental_tuning (pn_settings env)) False = Inr tuning"
    and "a \<in> set actions"
  defines "lifecycle \<equiv> fact_text env world ''lifecycle'' ''UNKNOWN''"
  shows "a \<in> set tuning
    \<or> (\<exists>d. a = cancel_action env d \<and> lifecycle \<in> {''PRINTING'', ''PAUSED''})
    \<or> a = pause_action env \<and> fact_text env world ''printing_phase'' ''not_printing'' = ''active_printing''
        \<and> tuning = [] \<and> \<not> st_active settle
    \<or> a = resume_action env \<or> a = wait_cool_action env
    \<or> (\<exists>f. a = start_action env f \<and> lifecycle \<in> {''IDLE'', ''FINISHED'', ''STOPPED''}
        \<and> \<not> fact_bool world ''part_present'' \<and> fact_bool world ''requested_file_present''
        \<and> string_or_none (pn_rt env) (pget (wp_facts world) (dkey ''requested_file'')) = Some f)
    \<or> (\<exists>l h. a = call_human_action env l h)
    \<or> a = manual_unload_action \<and> fact_bool world ''part_present'' \<and> fact_bool world ''safe_to_unload''"
proof -
  let ?req = "string_or_none (pn_rt env) (pget (wp_facts world) (dkey ''requested_file''))"
  let ?health = "fact_text env world ''health'' ''UNKNOWN''"
  let ?phase = "fact_text env world ''printing_phase'' ''not_printing''"
  let ?L1 = "if lifecycle = ''PRINTING''
              then cancel_action env ''Cancel the active Prusa print''
                   # (if ?phase = ''active_printing'' \<and> tuning = [] \<and> \<not> st_active settle
                      then [pause_action env] else [])
                   @ tuning
              else []"
  let ?L2 = "if lifecycle = ''PAUSED''
              then [resume_action env, cancel_action env ''Cancel the paused Prusa print''] else []"
  let ?L3 = "if lifecycle \<noteq> ''PRINTING'' \<and> fact_bool world ''part_present'' \<and> \<not> fact_bool world ''safe_to_unload''
              then [wait_cool_action env] else []"
  let ?L4 = "case ?req of
                Some f \<Rightarrow> if lifecycle \<in> {''IDLE'', ''FINISHED'', ''STOPPED''} \<and> \<not> fact_bool world ''part_present''
                             \<and> fact_bool world ''requested_file_present''
                          then [start_action env f] else []
              | None \<Rightarrow> []"
  let ?L5 = "if ?health \<in> {''ATTENTION'', ''ERROR'', ''OFFLINE''}
              then [call_human_action env lifecycle ?health]
              else if fact_bool world ''part_present'' \<and> fact_bool world ''safe_to_unload''
                \<and> \<not> list_ex (\<lambda>r. rs_kind r = ''gripper'') (wp_resources world)
              then [manual_unload_action] else []"
  have "actions = ?L1 @ ?L2 @ ?L3 @ ?L4 @ ?L5"
    using assms(1) unfolding candidate_actions_def Let_def assms(2,3) bindR_simps lifecycle_def [symmetric]
    by (rule sum.inject(2) [THEN iffD1, symmetric])
  then consider "a \<in> set ?L1" | "a \<in> set ?L2" | "a \<in> set ?L3" | "a \<in> set ?L4" | "a \<in> set ?L5"
    using assms(4) by (auto simp only: set_append Un_iff)
  then show ?thesis
  proof cases
    case 1
    then show ?thesis by (cases "lifecycle = ''PRINTING''") (auto split: if_splits)
  next
    case 2
    then show ?thesis by (cases "lifecycle = ''PAUSED''") auto
  next
    case 3
    then show ?thesis by (simp split: if_splits)
  next
    case 4
    then show ?thesis by (cases ?req) (simp_all split: if_splits)
  next
    case 5
    then show ?thesis by (auto simp del: insert_iff split: if_splits)
  qed
qed

text \<open>
  C31: A print is offered for starting only on a printer that is idle, finished or stopped, with an
  empty bed and the requested file among the known ones, and that file is the one that is started;
  a cancel is offered only while printing or paused; both are medium hazards that require
  approval.  A pause is offered only in the active phase of a print and only when no tuning action
  is offered and nothing is settling.
\<close>

theorem hazardous_candidates_guarded:
  assumes "candidate_actions env now_ms world = Inr actions" and "a \<in> set actions"
  shows "(la_verb a = ''START_PROCESS'' \<longrightarrow>
       la_approval_required a \<and> la_hazard_class a = MEDIUM
       \<and> fact_text env world ''lifecycle'' ''UNKNOWN'' \<in> {''IDLE'', ''FINISHED'', ''STOPPED''}
       \<and> \<not> fact_bool world ''part_present'' \<and> fact_bool world ''requested_file_present''
       \<and> (\<exists>f. string_or_none (pn_rt env) (pget (wp_facts world) (dkey ''requested_file'')) = Some f
            \<and> la_args a = [(''file_path'', PyStr f)]))
    \<and> (la_verb a = ''STOP_PROCESS'' \<longrightarrow>
       la_approval_required a \<and> la_hazard_class a = MEDIUM
       \<and> fact_text env world ''lifecycle'' ''UNKNOWN'' \<in> {''PRINTING'', ''PAUSED''})
    \<and> (la_verb a = ''PAUSE_PROCESS'' \<longrightarrow>
       fact_text env world ''printing_phase'' ''not_printing'' = ''active_printing''
       \<and> live_tuning_actions env now_ms world (pk_enable_experimental_tuning (pn_settings env)) False = Inr []
       \<and> (\<exists>settle. tuning_settle_state env now_ms world = Inr settle \<and> \<not> st_active settle))"
proof -
  let ?lifecycle = "fact_text env world ''lifecycle'' ''UNKNOWN''"
  obtain settle tuning where s: "tuning_settle_state env now_ms world = Inr settle"
    and t: "live_tuning_actions env now_ms world (pk_enable_experimental_tuning (pn_settings env)) False = Inr tuning"
    using assms(1) by (auto simp: candidate_actions_def Let_def bindR_eq_Inr)
  have tuning: "a \<in> set tuning \<Longrightarrow> ?thesis"
    using offer_cases_verb [OF t] by simp
  have "a \<in> set tuning
    \<or> (\<exists>d. a = cancel_action env d \<and> ?lifecycle \<in> {''PRINTING'', ''PAUSED''})
    \<or> a = pause_action env \<and> fact_text env world ''printing_phase'' ''not_printing'' = ''active_printing''
        \<and> tuning = [] \<and> \<not> st_active settle
    \<or> a = resume_action env \<or> a = wait_cool_action env
    \<or> (\<exists>f. a = start_action env f \<and> ?lifecycle \<in> {''IDLE'', ''FINISHED'', ''STOPPED''}
        \<and> \<not> fact_bool world ''part_present'' \<and> fact_bool world ''requested_file_present''
        \<and> string_or_none (pn_rt env) (pget (wp_facts world) (dkey ''requested_file'')) = Some f)
    \<or> (\<exists>l h. a = call_human_action env l h)
    \<or> a = manual_unload_action \<and> fact_bool world ''part_present'' \<and> fact_bool world ''safe_to_unload''"
    using candidates [OF assms(1) s t assms(2)] .
  then show ?thesis
  proof (elim disjE exE conjE)
    assume "a \<in> set tuning"
    then show ?thesis by (rule tuning)
  qed (use s t in \<open>simp_all add: cancel_action_def pause_action_def resume_action_def wait_cool_action_def
         start_action_def call_human_action_def manual_unload_action_def base_action_def\<close>)
qed

definition sample_idle_world :: world_packet where
  "sample_idle_world = sample_world [(''printer_1.lifecycle'', PyStr ''IDLE''),
     (''printer_1.requested_file'', PyStr ''/usb/a.gcode''), (''printer_1.requested_file_present'', PyBool True)]"

lemma sample_candidates:
  "candidate_actions sample_pack 0 sample_idle_world = Inr [start_action sample_pack ''/usb/a.gcode'']"
  by code_simp

lemma hazardous_candidates_guarded_witness:
  "la_approval_required (start_action sample_pack ''/usb/a.gcode'')
   \<and> \<not> fact_bool sample_idle_world ''part_present'' \<and> fact_bool sample_idle_world ''requested_file_present''"
proof -
  have "la_verb (start_action sample_pack ''/usb/a.gcode'') = ''START_PROCESS''"
    by (simp add: start_action_def base_action_def)
  then show ?thesis using hazardous_candidates_guarded [OF sample_candidates, of "start_action sample_pack ''/usb/a.gcode''"]
    by simp
qed

end
