(* ===== verification/PrusaState.thy ===== *)
theory PrusaState
  imports PrusaPack
begin

text \<open>
  The state side of the Prusa pack, \<open>packs/prusa_core_one_plus/pack.py\<close>: the override of a finished
  print, the inferred part, the phase of a print, the trends between two samples, the eligibility of
  the six tuning families and \<open>normalize\<close>, which turns the published raw values into the facts that
  \<open>candidate_actions\<close> reads.
\<close>

section \<open>Corrections of a snapshot\<close>

definition TERMINAL_FINISH_PROGRESS_PCT :: rat where "TERMINAL_FINISH_PROGRESS_PCT = 99"
definition TERMINAL_TARGET_ZERO_EPSILON_C :: rat where "TERMINAL_TARGET_ZERO_EPSILON_C = 1 / 2"
definition HTTP_STATUS_FAULT_GRACE_S :: rat where "HTTP_STATUS_FAULT_GRACE_S = 15"

definition at_most :: "pyfloat option \<Rightarrow> rat \<Rightarrow> bool" where
  "at_most x c = (case x of None \<Rightarrow> False | Some v \<Rightarrow> float_le v (Fin c))"

definition apply_terminal_finish_override :: "snapshot \<Rightarrow> snapshot" where
  "apply_terminal_finish_override sn =
     (if sn_lifecycle sn \<noteq> L_PRINTING then sn
      else
        let complete = (case sn_job_progress_pct sn of None \<Rightarrow> False
              | Some p \<Rightarrow> \<not> float_less p (Fin TERMINAL_FINISH_PROGRESS_PCT));
            targets_zero = (at_most (sn_nozzle_target_c sn) TERMINAL_TARGET_ZERO_EPSILON_C
              \<and> at_most (sn_bed_target_c sn) TERMINAL_TARGET_ZERO_EPSILON_C)
        in if \<not> complete \<and> \<not> targets_zero then sn
           else if targets_zero \<and> \<not> complete \<and> at_most (sn_job_progress_pct sn) 2 then sn
           else sn\<lparr>sn_lifecycle := L_FINISHED, sn_job_active := False,
                   sn_job_state := Some (lifecycle_value L_FINISHED)\<rparr>)"

text \<open>
  When a status read fails, the last good raw state is shown again for a while, if it was of a
  running print.
\<close>

definition should_reuse_last_good_raw_state :: "pyrt \<Rightarrow> rat \<Rightarrow> (dict \<times> rat) option \<Rightarrow> bool" where
  "should_reuse_last_good_raw_state rt now cached = (case cached of
      None \<Rightarrow> False
    | Some (raw, fetched) \<Rightarrow>
        if now - fetched > HTTP_STATUS_FAULT_GRACE_S then False
        else py_str rt (por (pget raw (dkey ''raw.lifecycle'')) (PyStr [])) = ''PRINTING''
             \<and> truthy (pget raw (dkey ''raw.job_active'')))"

definition infer_part_present :: "snapshot \<Rightarrow> pyval \<Rightarrow> (pstate, bool) act" where
  "infer_part_present sn external =
     bindE (case sn_current_file sn of
         Some f \<Rightarrow> if f = [] then ret () else modify (\<lambda>s. s\<lparr>pt_last_job_token := Some f\<rparr>)
       | None \<Rightarrow> ret ()) (\<lambda>_.
     if sn_lifecycle sn \<in> {L_PRINTING, L_PAUSED}
     then bindE (modify (\<lambda>s. s\<lparr>pt_part_present_inference := True\<rparr>)) (\<lambda>_. ret True)
     else case external of
       PyBool b \<Rightarrow>
         bindE (modify (\<lambda>s. if b then s\<lparr>pt_part_present_inference := True\<rparr>
            else s\<lparr>pt_part_present_inference := False, pt_last_job_token := None\<rparr>)) (\<lambda>_. ret b)
     | _ \<Rightarrow>
         bindE (gets pt_last_job_token) (\<lambda>token.
         bindE (if sn_lifecycle sn \<in> {L_FINISHED, L_ATTENTION, L_STOPPED} \<and> token \<noteq> None \<and> token \<noteq> Some []
                then modify (\<lambda>s. s\<lparr>pt_part_present_inference := True\<rparr>) else ret ()) (\<lambda>_.
         gets pt_part_present_inference)))"

definition compute_safe_to_unload ::
  "pack_settings \<Rightarrow> bool \<Rightarrow> string \<Rightarrow> pyfloat option \<Rightarrow> pyfloat option \<Rightarrow> string \<Rightarrow> bool" where
  "compute_safe_to_unload ps part_present lifecycle bed_temp_c nozzle_temp_c health =
     (if \<not> part_present then False
      else if lifecycle \<in> {''PRINTING'', ''PAUSED''} then False
      else if health \<in> {''OFFLINE'', ''ERROR''} then False
      else case (bed_temp_c, nozzle_temp_c) of
        (Some bed, Some nozzle) \<Rightarrow>
          if float_less (Fin (pk_safe_to_unload_bed_c ps)) bed then False
          else if float_less (Fin (pk_safe_to_touch_nozzle_c ps)) nozzle then False
          else True
      | _ \<Rightarrow> False)"

section \<open>The phase of a print\<close>

definition job_identity :: "int option \<Rightarrow> string option \<Rightarrow> string option" where
  "job_identity jid current_file = (case current_file of
      Some f \<Rightarrow> if f \<noteq> [] then Some (''file:'' @ f)
                else map_option (\<lambda>i. ''job:'' @ int_str i) jid
    | None \<Rightarrow> map_option (\<lambda>i. ''job:'' @ int_str i) jid)"

definition job_time_printing_is_advancing ::
  "int option \<Rightarrow> string option \<Rightarrow> pyfloat option \<Rightarrow> (pstate, bool) act" where
  "job_time_printing_is_advancing jid current_file job_time =
     (let identity = job_identity jid current_file in
      bindE (gets pt_last_printing_job_identity) (\<lambda>previous_identity.
      bindE (gets pt_last_job_time_printing_s) (\<lambda>previous_time.
      bindE (modify (\<lambda>s. s\<lparr>pt_last_printing_job_identity := identity,
                          pt_last_job_time_printing_s := job_time\<rparr>)) (\<lambda>_.
      ret (case (identity, job_time, previous_time) of
             (Some i, Some t, Some p) \<Rightarrow> previous_identity = Some i \<and> float_less p t
           | _ \<Rightarrow> False)))))"

definition derive_printing_phase :: "pack_settings \<Rightarrow> string \<Rightarrow> bool \<Rightarrow> int option \<Rightarrow> pyfloat option
    \<Rightarrow> string option \<Rightarrow> pyfloat option \<Rightarrow> (pstate, string) act" where
  "derive_printing_phase ps lifecycle active jid job_progress_pct current_file job_time =
     (let identity = job_identity jid current_file in
      if lifecycle \<noteq> ''PRINTING'' \<or> \<not> active
      then bindE (modify (\<lambda>s. s\<lparr>pt_last_printing_job_identity := None, pt_last_job_time_printing_s := None,
                              pt_active_printing_job_identity := None\<rparr>)) (\<lambda>_. ret ''not_printing'')
      else bindE (modify (\<lambda>s. if pt_active_printing_job_identity s \<noteq> None
                              \<and> pt_active_printing_job_identity s \<noteq> identity
                            then s\<lparr>pt_active_printing_job_identity := None\<rparr> else s)) (\<lambda>_.
        if (case job_progress_pct of None \<Rightarrow> False
              | Some p \<Rightarrow> float_le (Fin (pk_live_tuning_min_progress_pct ps)) p)
        then bindE (modify (\<lambda>s. s\<lparr>pt_last_printing_job_identity := identity,
                 pt_last_job_time_printing_s := job_time, pt_active_printing_job_identity := identity\<rparr>))
               (\<lambda>_. ret ''active_printing'')
        else bindE (job_time_printing_is_advancing jid current_file job_time)
               (\<lambda>_. ret ''startup_printing'')))"

section \<open>Trends\<close>

definition round_delta :: "pyrt \<Rightarrow> nat \<Rightarrow> pyfloat option \<Rightarrow> pyfloat option \<Rightarrow> pyfloat option" where
  "round_delta rt precision current dflt = (case (current, dflt) of
      (Some c, Some d) \<Rightarrow> Some (round_half_even rt precision (float_sub c d)) | _ \<Rightarrow> None)"

definition safe_delta :: "pyrt \<Rightarrow> nat \<Rightarrow> pyfloat option \<Rightarrow> pyfloat option \<Rightarrow> pyfloat option" where
  "safe_delta rt precision current previous = (case (current, previous) of
      (Some c, Some p) \<Rightarrow> Some (round_half_even rt precision (float_sub c p)) | _ \<Rightarrow> None)"

definition trend_label :: "rat \<Rightarrow> pyfloat option \<Rightarrow> string" where
  "trend_label tolerance d = (case d of
      None \<Rightarrow> ''unknown''
    | Some x \<Rightarrow> if float_less (Fin tolerance) x then ''rising''
                else if float_less x (Fin (- tolerance)) then ''falling'' else ''stable'')"

definition target_nonzero :: "pyfloat option \<Rightarrow> bool" where
  "target_nonzero v = (case v of None \<Rightarrow> False | Some x \<Rightarrow> float_less (Fin TERMINAL_TARGET_ZERO_EPSILON_C) x)"

definition below_target :: "pyfloat option \<Rightarrow> pyfloat option \<Rightarrow> bool" where
  "below_target current target = (case (current, target) of
      (Some c, Some t) \<Rightarrow> target_nonzero target \<and> float_less c (float_sub t (Fin 2)) | _ \<Rightarrow> False)"

definition positive_delta :: "pyfloat option \<Rightarrow> bool" where
  "positive_delta d = (case d of None \<Rightarrow> False | Some x \<Rightarrow> float_less (Fin 0) x)"

definition trend_facts :: "pyrt \<Rightarrow> pack_settings \<Rightarrow> rat \<Rightarrow> trend_sample option \<Rightarrow> snapshot \<Rightarrow> dict" where
  "trend_facts rt ps now previous sn =
     (let identity = job_identity (sn_job_id sn) (sn_current_file sn);
          same = (case previous of None \<Rightarrow> None
                  | Some p \<Rightarrow> if ts_job_identity p = identity then Some p else None);
          change = (\<lambda>precision cur sel. case same of None \<Rightarrow> None | Some p \<Rightarrow> safe_delta rt precision cur (sel p));
          elapsed_s = map_option (\<lambda>p. round_half_even rt 3
             (Fin (max 0 (now - ts_observed_monotonic p)))) same;
          job_time_delta = change 1 (sn_job_time_printing_s sn) ts_job_time_printing_s;
          progress_delta = change 3 (sn_job_progress_pct sn) ts_job_progress_pct;
          nozzle_temp_delta = change 2 (sn_nozzle_temp_c sn) ts_nozzle_temp_c;
          bed_temp_delta = change 2 (sn_bed_temp_c sn) ts_bed_temp_c;
          targets_nonzero = (target_nonzero (sn_nozzle_target_c sn) \<or> target_nonzero (sn_bed_target_c sn));
          printing = (sn_lifecycle sn = L_PRINTING \<and> sn_job_active sn);
          thermal_ramp_active = (printing \<and> targets_nonzero
             \<and> (below_target (sn_nozzle_temp_c sn) (sn_nozzle_target_c sn)
                \<or> below_target (sn_bed_temp_c sn) (sn_bed_target_c sn)));
          progress = sn_job_progress_pct sn;
          least = Fin (pk_live_tuning_min_progress_pct ps);
          pre_tuning_window = (printing \<and> (case progress of None \<Rightarrow> True | Some p \<Rightarrow> float_less p least));
          evidence = (if (case progress of None \<Rightarrow> False | Some p \<Rightarrow> float_le least p)
               then ''progress_in_tuning_window''
             else if positive_delta progress then ''progress_positive_pre_tuning_window''
             else if positive_delta job_time_delta then ''job_time_advancing_only'' else ''none'')
      in [(dkey ''raw.trend_sample_elapsed_s'', opt_float elapsed_s),
          (dkey ''raw.job_time_delta_s'', opt_float job_time_delta),
          (dkey ''raw.progress_delta_pct'', opt_float progress_delta),
          (dkey ''raw.nozzle_temp_delta_c'', opt_float nozzle_temp_delta),
          (dkey ''raw.bed_temp_delta_c'', opt_float bed_temp_delta),
          (dkey ''raw.nozzle_temp_trend'', PyStr (trend_label (1 / 5) nozzle_temp_delta)),
          (dkey ''raw.bed_temp_trend'', PyStr (trend_label (1 / 5) bed_temp_delta)),
          (dkey ''raw.job_time_advancing'', PyBool (positive_delta job_time_delta)),
          (dkey ''raw.progress_advancing'', PyBool (positive_delta progress_delta)),
          (dkey ''raw.targets_nonzero'', PyBool targets_nonzero),
          (dkey ''raw.thermal_ramp_active'', PyBool thermal_ramp_active),
          (dkey ''raw.pre_tuning_window'', PyBool pre_tuning_window),
          (dkey ''raw.active_print_evidence'', PyStr evidence),
          (dkey ''raw.motion_confirmed'', PyNone)])"

definition sample_of :: "rat \<Rightarrow> snapshot \<Rightarrow> trend_sample" where
  "sample_of now sn = \<lparr>ts_observed_monotonic = now,
     ts_job_identity = job_identity (sn_job_id sn) (sn_current_file sn),
     ts_lifecycle = lifecycle_value (sn_lifecycle sn), ts_job_active = sn_job_active sn,
     ts_job_progress_pct = sn_job_progress_pct sn, ts_job_time_printing_s = sn_job_time_printing_s sn,
     ts_nozzle_temp_c = sn_nozzle_temp_c sn, ts_nozzle_target_c = sn_nozzle_target_c sn,
     ts_bed_temp_c = sn_bed_temp_c sn, ts_bed_target_c = sn_bed_target_c sn\<rparr>"

definition runtime_trend_payload :: "pack_env \<Rightarrow> snapshot \<Rightarrow> (pstate, dict) act" where
  "runtime_trend_payload env sn =
     bindE (monotonic env) (\<lambda>now.
     bindE (gets pt_last_trend_sample) (\<lambda>previous.
     bindE (modify (\<lambda>s. s\<lparr>pt_last_trend_sample := Some (sample_of now sn)\<rparr>)) (\<lambda>_.
     ret (trend_facts (pn_rt env) (pn_settings env) now previous sn))))"

section \<open>Eligibility of the tuning families\<close>

text \<open>
  Every family collects the reasons why it cannot be tuned, each once and in order, and is eligible
  when there is none; a family without a possible step gets a reason of its own.
\<close>

record print_view =
  pv_lifecycle :: string
  pv_job_active :: bool
  pv_phase :: string
  pv_live_tuning_available :: bool
  pv_progress :: "pyfloat option"

record shadow =
  sh_blockers :: "string list"
  sh_actions :: "string list"

definition add_blocker :: "string list \<Rightarrow> bool \<times> string \<Rightarrow> string list" where
  "add_blocker blockers c = (if fst c \<and> snd c \<notin> set blockers then blockers @ [snd c] else blockers)"

definition blockers_of :: "(bool \<times> string) list \<Rightarrow> string list" where
  "blockers_of conditions = foldl add_blocker [] conditions"

definition shadow_of :: "(bool \<times> string) list \<Rightarrow> (bool \<times> string) list \<Rightarrow> string \<Rightarrow> shadow" where
  "shadow_of conditions steps no_step =
     (let blockers = blockers_of conditions; actions = map snd (filter fst steps) in
      if blockers \<noteq> [] then \<lparr>sh_blockers = blockers, sh_actions = []\<rparr>
      else if actions = [] then \<lparr>sh_blockers = [no_step], sh_actions = []\<rparr>
      else \<lparr>sh_blockers = [], sh_actions = actions\<rparr>)"

definition bounded_progress_ready :: "pack_settings \<Rightarrow> pyfloat option \<Rightarrow> string \<Rightarrow> bool \<times> string option" where
  "bounded_progress_ready ps progress family = (case progress of
      None \<Rightarrow> (False, Some (family @ ''_progress_not_ready''))
    | Some p \<Rightarrow>
        if float_less p (Fin (pk_live_tuning_min_progress_pct ps))
        then (False, Some (family @ ''_progress_not_ready''))
        else if float_le (Fin (pk_live_tuning_max_progress_pct ps)) p
        then (False, Some ''print_nearly_finished'') else (True, None))"

definition progress_condition :: "pack_settings \<Rightarrow> pyfloat option \<Rightarrow> string \<Rightarrow> bool \<times> string" where
  "progress_condition ps progress family = (case bounded_progress_ready ps progress family of
      (False, Some reason) \<Rightarrow> (True, reason) | _ \<Rightarrow> (False, []))"

definition print_conditions :: "pack_settings \<Rightarrow> print_view \<Rightarrow> string \<Rightarrow> (bool \<times> string) list" where
  "print_conditions ps pv family =
     [(pv_lifecycle pv \<noteq> ''PRINTING'' \<or> \<not> pv_job_active pv, ''not_printing''),
      (pv_phase pv \<noteq> ''active_printing'', pv_phase pv),
      (\<not> pv_live_tuning_available pv, ''live_tuning_unavailable''),
      (\<not> planner_family_enabled ps family, ''planner_family_disabled'')]"

definition family_cools :: "pack_env \<Rightarrow> string \<Rightarrow> (pstate, bool) act" where
  "family_cools env family = bindE (family_big_cooldown_facts env)
     (\<lambda>facts. ret (truthy (pget facts (dkey (family @ ''_big_cooldown_active'')))))"

definition on_value :: "pyfloat option \<Rightarrow> (pyfloat \<Rightarrow> (bool \<times> string) list) \<Rightarrow> (bool \<times> string) list" where
  "on_value x f = (case x of None \<Rightarrow> [] | Some v \<Rightarrow> f v)"

definition nozzle_steps :: "pack_env \<Rightarrow> pyfloat \<Rightarrow> pyfloat \<Rightarrow> (bool \<times> string) list" where
  "nozzle_steps env target lowest =
     (let ds = pn_driver env; highest = Fin (pk_max_nozzle_target_c (pn_settings env));
          down = (\<lambda>step. float_less (float_max lowest (float_sub target (Fin step))) target);
          up = (\<lambda>step. float_less target (float_min highest (float_add target (Fin step))))
      in [(down (ds_temp_small_step_c ds), ''A_PRUSA_TRIM_NOZZLE_DOWN_SMALL''),
          (down (ds_temp_big_step_c ds), ''A_PRUSA_TRIM_NOZZLE_DOWN_BIG''),
          (up (ds_temp_small_step_c ds), ''A_PRUSA_TRIM_NOZZLE_UP_SMALL''),
          (up (ds_temp_big_step_c ds), ''A_PRUSA_TRIM_NOZZLE_UP_BIG'')])"

definition derive_nozzle_shadow_state ::
  "pack_env \<Rightarrow> print_view \<Rightarrow> pyfloat option \<Rightarrow> pyfloat option \<Rightarrow> (pstate, shadow) act" where
  "derive_nozzle_shadow_state env pv nozzle_target_c min_extrusion_temp_c =
     (let ps = pn_settings env in
      bindE (family_cools env ''nozzle'') (\<lambda>cools.
      ret (shadow_of
        (print_conditions ps pv ''nozzle''
         @ [progress_condition ps (pv_progress pv) ''nozzle'',
            (nozzle_target_c = None, ''nozzle_target_missing''),
            (min_extrusion_temp_c = None, ''min_extrusion_temp_missing''),
            (cools, ''nozzle_big_cooldown_active'')])
        (on_value nozzle_target_c (\<lambda>t. on_value min_extrusion_temp_c (\<lambda>m. nozzle_steps env t m)))
        ''no_bounded_nozzle_step'')))"

definition flow_steps :: "driver_settings \<Rightarrow> pyfloat \<Rightarrow> (bool \<times> string) list" where
  "flow_steps ds flow =
     (let least = Fin (ds_flow_min_pct ds); most = Fin (ds_flow_max_pct ds); big = Fin (ds_flow_big_step_pct ds) in
      [(float_less least flow, ''A_PRUSA_TRIM_FLOW_DOWN_SMALL''),
       (float_le least (float_sub flow big), ''A_PRUSA_TRIM_FLOW_DOWN_BIG''),
       (float_less flow most, ''A_PRUSA_TRIM_FLOW_UP_SMALL''),
       (float_le (float_add flow big) most, ''A_PRUSA_TRIM_FLOW_UP_BIG''),
       (float_le (Fin (1 / 2)) (float_abs (float_sub flow (Fin (ds_flow_default_pct ds)))),
        ''A_PRUSA_OPERATOR_RESTORE_FLOW_DEFAULT'')])"

definition derive_flow_shadow_state ::
  "pack_env \<Rightarrow> print_view \<Rightarrow> pyfloat option \<Rightarrow> (pstate, shadow) act" where
  "derive_flow_shadow_state env pv flow_pct =
     (let ps = pn_settings env in
      bindE (family_cools env ''flow'') (\<lambda>cools.
      ret (shadow_of
        (print_conditions ps pv ''flow''
         @ [(\<not> pk_flow_tuning_verification_enabled ps, ''flow_verification_unavailable''),
            progress_condition ps (pv_progress pv) ''flow'',
            (flow_pct = None, ''flow_pct_missing''), (cools, ''flow_big_cooldown_active'')])
        (on_value flow_pct (flow_steps (pn_driver env))) ''no_bounded_flow_step'')))"

definition bed_steps :: "pack_env \<Rightarrow> pyfloat option \<Rightarrow> pyfloat \<Rightarrow> (bool \<times> string) list" where
  "bed_steps env ideal_bed_target_c target =
     (let ds = pn_driver env; ideal = (case ideal_bed_target_c of Some i \<Rightarrow> i | None \<Rightarrow> target);
          window = Fin (3 * ds_temp_small_step_c ds);
          down_target = float_max (Fin 0) (float_sub ideal window);
          up_target = float_min (Fin (pk_max_bed_target_c (pn_settings env))) (float_add ideal window);
          down = (\<lambda>step. float_less (float_max down_target (float_sub target (Fin step))) target);
          up = (\<lambda>step. float_less target (float_min up_target (float_add target (Fin step))))
      in [(down (ds_temp_small_step_c ds), ''A_PRUSA_TRIM_BED_DOWN_SMALL''),
          (down (ds_temp_big_step_c ds), ''A_PRUSA_TRIM_BED_DOWN_BIG''),
          (up (ds_temp_small_step_c ds), ''A_PRUSA_TRIM_BED_UP_SMALL''),
          (up (ds_temp_big_step_c ds), ''A_PRUSA_TRIM_BED_UP_BIG'')])"

definition derive_bed_shadow_state ::
  "pack_env \<Rightarrow> print_view \<Rightarrow> pyfloat option \<Rightarrow> pyfloat option \<Rightarrow> (pstate, shadow) act" where
  "derive_bed_shadow_state env pv bed_target_c ideal_bed_target_c =
     (let ps = pn_settings env in
      bindE (family_cools env ''bed'') (\<lambda>cools.
      ret (shadow_of
        (print_conditions ps pv ''bed''
         @ [progress_condition ps (pv_progress pv) ''bed'',
            (bed_target_c = None, ''bed_target_missing''), (cools, ''bed_big_cooldown_active'')])
        (on_value bed_target_c (bed_steps env ideal_bed_target_c)) ''no_bounded_bed_step'')))"

text \<open>Print speed has no step of its own to check.\<close>

definition derive_speed_autonomy_state ::
  "pack_env \<Rightarrow> print_view \<Rightarrow> pyfloat option \<Rightarrow> (pstate, shadow) act" where
  "derive_speed_autonomy_state env pv speed_pct =
     (let ps = pn_settings env in
      bindE (family_cools env ''speed'') (\<lambda>cools.
      ret \<lparr>sh_blockers = blockers_of
        (print_conditions ps pv ''speed''
         @ [(\<not> pk_speed_tuning_verification_enabled ps, ''speed_verification_unavailable''),
            (speed_pct = None, ''speed_pct_missing''), (cools, ''speed_big_cooldown_active''),
            progress_condition ps (pv_progress pv) ''speed'']),
        sh_actions = []\<rparr>))"

definition relative_steps :: "driver_settings \<Rightarrow> string \<Rightarrow> string \<Rightarrow> rat \<Rightarrow> nat \<Rightarrow> pyfloat option \<Rightarrow> pyfloat option
    \<Rightarrow> pyexc + (bool \<times> string) list" where
  "relative_steps ds verb family small_step_pct precision live baseline_value =
     (case (stabilize_relative_scalar_current live baseline_value small_step_pct precision, baseline_value) of
        (Some current, Some baseline) \<Rightarrow>
          bindR (relative_scalar_targets ds verb baseline) (\<lambda>(down_small, down_big, up_small, up_big). Inr
            [(float_less down_small current, ''A_PRUSA_TRIM_'' @ family @ ''_DOWN_SMALL''),
             (float_less down_big current, ''A_PRUSA_TRIM_'' @ family @ ''_DOWN_BIG''),
             (float_less current up_small, ''A_PRUSA_TRIM_'' @ family @ ''_UP_SMALL''),
             (float_less current up_big, ''A_PRUSA_TRIM_'' @ family @ ''_UP_BIG'')])
      | _ \<Rightarrow> Inr [])"

definition derive_pressure_advance_shadow_state ::
  "pack_env \<Rightarrow> print_view \<Rightarrow> pyfloat option \<Rightarrow> pyfloat option \<Rightarrow> (pstate, shadow) act" where
  "derive_pressure_advance_shadow_state env pv pressure_advance baseline =
     (let ps = pn_settings env; ds = pn_driver env in
      bindE (family_cools env ''pressure_advance'') (\<lambda>cools.
      bindE (liftE (relative_steps ds ''TUNE_PRESSURE_ADVANCE'' ''PRESSURE_ADVANCE''
               (ds_pressure_advance_small_step_pct ds) 4 pressure_advance baseline)) (\<lambda>steps.
      ret (shadow_of
        (print_conditions ps pv ''pressure_advance''
         @ [(\<not> pk_pressure_advance_tuning_verification_enabled ps, ''pressure_advance_verification_unavailable''),
            progress_condition ps (pv_progress pv) ''pressure_advance'',
            (pressure_advance = None, ''pressure_advance_missing''),
            (baseline = None, ''pressure_advance_baseline_missing''),
            (cools, ''pressure_advance_big_cooldown_active'')])
        steps ''no_bounded_pressure_advance_step''))))"

definition derive_accel_shadow_state ::
  "pack_env \<Rightarrow> print_view \<Rightarrow> pyfloat option \<Rightarrow> pyfloat option \<Rightarrow> (pstate, shadow) act" where
  "derive_accel_shadow_state env pv print_accel_mm_s2 baseline =
     (let ps = pn_settings env; ds = pn_driver env in
      bindE (family_cools env ''accel'') (\<lambda>cools.
      bindE (liftE (relative_steps ds ''TUNE_PRINT_ACCEL'' ''ACCEL'' (ds_accel_small_step_pct ds) 1
               print_accel_mm_s2 baseline)) (\<lambda>steps.
      ret (shadow_of
        (print_conditions ps pv ''accel''
         @ [(\<not> pk_accel_tuning_verification_enabled ps, ''accel_verification_unavailable''),
            progress_condition ps (pv_progress pv) ''accel'',
            (print_accel_mm_s2 = None, ''print_accel_missing''),
            (baseline = None, ''print_accel_baseline_missing''),
            (cools, ''accel_big_cooldown_active'')])
        steps ''no_bounded_accel_step''))))"

definition compact_blocker_list :: "pyrt \<Rightarrow> pyval \<Rightarrow> string list" where
  "compact_blocker_list rt value = (case value of
      PyNone \<Rightarrow> []
    | PyList xs \<Rightarrow> filter (\<lambda>s. str_strip s \<noteq> []) (map (py_str rt) xs)
    | _ \<Rightarrow> filter (\<lambda>part. part \<noteq> []) (split_on (CHR ''|'') (str_strip (py_str rt value))))"

definition late_tuning_symptom_active :: "pyrt \<Rightarrow> string option \<Rightarrow> string \<Rightarrow> bool" where
  "late_tuning_symptom_active rt finding_types_text printing_phase =
     (if printing_phase \<noteq> ''active_printing'' then False
      else let types = compact_blocker_list rt (opt_str finding_types_text) in
        if ''stringing'' \<in> set types \<or> ''spaghetti'' \<in> set types then True else ''blob'' \<in> set types)"

section \<open>The files of a snapshot\<close>

definition is_py_number :: "pyval \<Rightarrow> bool" where
  "is_py_number v = (case v of PyInt _ \<Rightarrow> True | PyBool _ \<Rightarrow> True | PyFloat _ \<Rightarrow> True | _ \<Rightarrow> False)"

definition number_or_none :: "pyrt \<Rightarrow> pyval \<Rightarrow> pyexc + int option" where
  "number_or_none rt v = (if is_py_number v then bindR (py_int rt v) (\<lambda>i. Inr (Some i)) else Inr None)"

definition file_of_entry :: "pyrt \<Rightarrow> pyval \<Rightarrow> pyexc + printable_file option" where
  "file_of_entry rt entry = (case entry of
      PyDict d \<Rightarrow>
        (case (string_or_none rt (pget d ''path''), string_or_none rt (pget d ''display_name'')) of
           (Some path, Some shown) \<Rightarrow>
             bindR (number_or_none rt (pget d ''size_bytes'')) (\<lambda>size.
             bindR (number_or_none rt (pget d ''modified_ts'')) (\<lambda>modified. Inr (Some
               \<lparr>pf_path = path, pf_display_name = shown, pf_size_bytes = size, pf_modified_ts = modified,
                pf_refs = []\<rparr>)))
         | _ \<Rightarrow> Inr None)
    | _ \<Rightarrow> Inr None)"

fun files_of_entries :: "pyrt \<Rightarrow> pyval list \<Rightarrow> pyexc + printable_file list" where
  "files_of_entries rt [] = Inr []"
| "files_of_entries rt (e # es) =
     bindR (file_of_entry rt e) (\<lambda>f. bindR (files_of_entries rt es) (\<lambda>fs.
       Inr (case f of None \<Rightarrow> fs | Some x \<Rightarrow> x # fs)))"

definition files_from_snapshot :: "pyrt \<Rightarrow> dict \<Rightarrow> pyexc + printable_file list" where
  "files_from_snapshot rt snap =
     bindR (py_iter (por (pget snap (dkey ''raw.files'')) (PyList []))) (files_of_entries rt)"

definition lstrip_slash :: "string \<Rightarrow> string" where
  "lstrip_slash = dropWhile (\<lambda>c. c = CHR ''/'')"

definition match_requested_file :: "string \<Rightarrow> printable_file list \<Rightarrow> printable_file option" where
  "match_requested_file requested files =
     (let wanted = lstrip_slash (str_lower (str_strip requested)) in
      find (\<lambda>f. wanted \<in> {lstrip_slash (str_lower (pf_path f)), str_lower (pf_display_name f),
                           str_lower (path_name (pf_path f))}) files)"

section \<open>The raw state\<close>

definition snapshot_to_raw :: "snapshot \<Rightarrow> dict" where
  "snapshot_to_raw sn =
     [(dkey ''raw.lifecycle'', PyStr (lifecycle_value (sn_lifecycle sn))),
      (dkey ''raw.health'', PyStr (sn_health sn)),
      (dkey ''raw.job_active'', PyBool (sn_job_active sn)),
      (dkey ''raw.job_id'', opt_int (sn_job_id sn)),
      (dkey ''raw.job_state'', opt_str (sn_job_state sn)),
      (dkey ''raw.job_progress_pct'', opt_float (sn_job_progress_pct sn)),
      (dkey ''raw.job_time_printing_s'', opt_float (sn_job_time_printing_s sn)),
      (dkey ''raw.current_file'', opt_str (sn_current_file sn)),
      (dkey ''raw.speed_pct'', opt_float (sn_speed_pct sn)),
      (dkey ''raw.flow_pct'', opt_float (sn_flow_pct sn)),
      (dkey ''raw.nozzle_temp_c'', opt_float (sn_nozzle_temp_c sn)),
      (dkey ''raw.nozzle_target_c'', opt_float (sn_nozzle_target_c sn)),
      (dkey ''raw.bed_temp_c'', opt_float (sn_bed_temp_c sn)),
      (dkey ''raw.bed_target_c'', opt_float (sn_bed_target_c sn)),
      (dkey ''raw.pressure_advance'', opt_float (sn_pressure_advance sn)),
      (dkey ''raw.print_accel_mm_s2'', opt_float (sn_print_accel_mm_s2 sn)),
      (dkey ''raw.min_extrusion_temp_c'', opt_float (sn_min_extrusion_temp_c sn)),
      (dkey ''raw.nozzle_diameter_mm'', opt_float (sn_nozzle_diameter_mm sn)),
      (dkey ''raw.model'', opt_str (sn_model sn)),
      (dkey ''raw.serial'', opt_str (sn_serial_number sn))]"

text \<open>How \<open>normalize\<close> reads a value of the whiteboard.\<close>

definition raw_num :: "pyrt \<Rightarrow> dict \<Rightarrow> string \<Rightarrow> pyfloat option" where
  "raw_num rt snap k = float_or_none rt (pget snap (dkey (''raw.'' @ k)))"

definition raw_text :: "pyrt \<Rightarrow> dict \<Rightarrow> string \<Rightarrow> string option" where
  "raw_text rt snap k = string_or_none rt (pget snap (dkey (''raw.'' @ k)))"

definition raw_flag :: "dict \<Rightarrow> string \<Rightarrow> bool" where
  "raw_flag snap k = truthy (dget_or snap (dkey (''raw.'' @ k)) (PyBool False))"

definition own_text :: "pyrt \<Rightarrow> dict \<Rightarrow> string \<Rightarrow> string option" where
  "own_text rt snap k = string_or_none rt (pget snap (dkey k))"

definition own_flag :: "dict \<Rightarrow> string \<Rightarrow> bool" where
  "own_flag snap k = truthy (dget_or snap (dkey k) (PyBool False))"

definition raw_lifecycle :: "pyrt \<Rightarrow> dict \<Rightarrow> string" where
  "raw_lifecycle rt snap = py_str rt (dget_or snap (dkey ''raw.lifecycle'') (PyStr ''UNKNOWN''))"

definition raw_health :: "pyrt \<Rightarrow> dict \<Rightarrow> string" where
  "raw_health rt snap = py_str rt (dget_or snap (dkey ''raw.health'') (PyStr ''UNKNOWN''))"

definition requested_file_of :: "pyrt \<Rightarrow> dict \<Rightarrow> string option" where
  "requested_file_of rt snap = string_or_none rt
     (por (por (pget snap (dkey ''requested_file'')) (pget snap (dkey ''raw.requested_file'')))
          (pget snap ''factory.requested_file''))"

text \<open>\<open>round(x, n) if x is not None else None\<close>.\<close>

definition rounded :: "pyrt \<Rightarrow> nat \<Rightarrow> pyfloat option \<Rightarrow> pyval" where
  "rounded rt n x = opt_float (map_option (round_half_even rt n) x)"

section \<open>The facts of a printer\<close>

text \<open>
  The dictionary that \<open>normalize\<close> returns, in the groups and the order in which the code builds it.
  The values that it derives are the parameters of the groups.
\<close>

definition job_facts :: "pack_env \<Rightarrow> pstate \<Rightarrow> dict \<Rightarrow> bool \<Rightarrow> bool \<Rightarrow> dict" where
  "job_facts env s snap requested_file_present safe_to_unload =
     (let rt = pn_rt env; lifecycle = raw_lifecycle rt snap; current_file = raw_text rt snap ''current_file'';
          requested_file = requested_file_of rt snap;
          token = (case pt_last_job_token s of None \<Rightarrow> requested_file
                   | Some t \<Rightarrow> if t = [] then requested_file else Some t)
      in [(dkey ''lifecycle'', PyStr lifecycle), (dkey ''mode'', PyStr lifecycle),
          (dkey ''health'', PyStr (raw_health rt snap)),
          (dkey ''job_active'', PyBool (raw_flag snap ''job_active'')),
          (dkey ''job_progress_pct'', rounded rt 1 (raw_num rt snap ''job_progress_pct'')),
          (dkey ''job_time_printing_s'', rounded rt 1 (raw_num rt snap ''job_time_printing_s'')),
          (dkey ''current_file'', opt_str current_file),
          (dkey ''job_scope_token'', opt_str (if current_file \<noteq> None then current_file else token)),
          (dkey ''requested_file'', opt_str requested_file),
          (dkey ''requested_file_present'', PyBool requested_file_present),
          (dkey ''part_present'', PyBool (own_flag snap ''part_present'')),
          (dkey ''safe_to_unload'', PyBool safe_to_unload)])"

definition reading_facts :: "pack_env \<Rightarrow> dict \<Rightarrow> dict" where
  "reading_facts env snap =
     (let rt = pn_rt env; ds = pn_driver env; num = raw_num rt snap;
          active_pa = num ''active_pressure_advance_baseline'';
          active_accel = num ''active_print_accel_baseline_mm_s2''
      in [(dkey ''speed_pct'', rounded rt 1 (num ''speed_pct'')),
          (dkey ''speed_default_pct'', PyFloat (round_half_even rt 1 (Fin (ds_speed_default_pct ds)))),
          (dkey ''flow_pct'', rounded rt 1 (num ''flow_pct'')),
          (dkey ''flow_default_pct'', PyFloat (round_half_even rt 1 (Fin (ds_flow_default_pct ds)))),
          (dkey ''nozzle_temp_c'', rounded rt 1 (num ''nozzle_temp_c'')),
          (dkey ''nozzle_target_c'', rounded rt 1 (num ''nozzle_target_c'')),
          (dkey ''bed_temp_c'', rounded rt 1 (num ''bed_temp_c'')),
          (dkey ''bed_target_c'', rounded rt 1 (num ''bed_target_c'')),
          (dkey ''pressure_advance'', rounded rt 4 (num ''pressure_advance'')),
          (dkey ''print_accel_mm_s2'', rounded rt 1 (num ''print_accel_mm_s2'')),
          (dkey ''min_extrusion_temp_c'', rounded rt 1 (num ''min_extrusion_temp_c'')),
          (dkey ''live_tuning_available'', PyBool (raw_flag snap ''live_tuning_available'')),
          (dkey ''job_hash'', opt_str (raw_text rt snap ''job_hash'')),
          (dkey ''job_material'', opt_str (raw_text rt snap ''job_material'')),
          (dkey ''job_layer_height_mm'', rounded rt 3 (num ''job_layer_height_mm'')),
          (dkey ''job_nozzle_target_c_default'', rounded rt 1 (num ''job_nozzle_target_c_default'')),
          (dkey ''job_bed_target_c_default'', rounded rt 1 (num ''job_bed_target_c_default'')),
          (dkey ''job_pressure_advance_default'', rounded rt 4 active_pa),
          (dkey ''job_print_accel_mm_s2_default'', rounded rt 1 active_accel),
          (dkey ''active_pressure_advance_baseline'', rounded rt 4 active_pa),
          (dkey ''active_print_accel_baseline_mm_s2'', rounded rt 1 active_accel)])"

definition delta_facts :: "pack_env \<Rightarrow> dict \<Rightarrow> dict" where
  "delta_facts env snap =
     (let rt = pn_rt env; ds = pn_driver env; num = raw_num rt snap in
      [(dkey ''speed_delta_from_default_pct'',
          opt_float (round_delta rt 1 (num ''speed_pct'') (Some (Fin (ds_speed_default_pct ds))))),
       (dkey ''flow_delta_from_default_pct'',
          opt_float (round_delta rt 1 (num ''flow_pct'') (Some (Fin (ds_flow_default_pct ds))))),
       (dkey ''nozzle_delta_from_job_target_c'',
          opt_float (round_delta rt 1 (num ''nozzle_target_c'') (num ''job_nozzle_target_c_default''))),
       (dkey ''bed_delta_from_job_target_c'',
          opt_float (round_delta rt 1 (num ''bed_target_c'') (num ''job_bed_target_c_default''))),
       (dkey ''pressure_advance_delta_from_default'',
          opt_float (round_delta rt 4 (num ''pressure_advance'') (num ''active_pressure_advance_baseline''))),
       (dkey ''print_accel_delta_from_default_mm_s2'',
          opt_float (round_delta rt 1 (num ''print_accel_mm_s2'') (num ''active_print_accel_baseline_mm_s2'')))])"

definition notebook_facts :: "pyrt \<Rightarrow> dict \<Rightarrow> string \<Rightarrow> dict" where
  "notebook_facts rt snap printing_phase =
     [(dkey ''job_notebook_available'', PyBool (raw_flag snap ''job_notebook_available'')),
      (dkey ''job_notebook_status'', opt_str (raw_text rt snap ''job_notebook_status'')),
      (dkey ''job_active_section'', opt_str (raw_text rt snap ''job_active_section'')),
      (dkey ''job_active_section_reason'', opt_str (raw_text rt snap ''job_active_section_reason'')),
      (dkey ''job_active_notes'', opt_str (raw_text rt snap ''job_active_notes'')),
      (dkey ''active_notes_json'', opt_str (raw_text rt snap ''active_notes_json'')),
      (dkey ''printing_phase'', PyStr printing_phase),
      (dkey ''active_printing'', PyBool (printing_phase = ''active_printing''))]"

definition trend_view_facts :: "pyrt \<Rightarrow> dict \<Rightarrow> dict" where
  "trend_view_facts rt snap =
     (let num = (\<lambda>k. (dkey k, opt_float (raw_num rt snap k)));
          word = (\<lambda>k. (dkey k, PyStr (case raw_text rt snap k of Some t \<Rightarrow> t | None \<Rightarrow> ''unknown'')));
          flag = (\<lambda>k. (dkey k, PyBool (raw_flag snap k)))
      in [num ''trend_sample_elapsed_s'', num ''job_time_delta_s'', num ''progress_delta_pct'',
          num ''nozzle_temp_delta_c'', num ''bed_temp_delta_c'',
          word ''nozzle_temp_trend'', word ''bed_temp_trend'',
          flag ''job_time_advancing'', flag ''progress_advancing'', flag ''targets_nonzero'',
          flag ''thermal_ramp_active'', flag ''pre_tuning_window'', word ''active_print_evidence'',
          (dkey ''motion_confirmed'', case pget snap (dkey ''raw.motion_confirmed'') of
             PyBool b \<Rightarrow> PyBool b | _ \<Rightarrow> PyNone)])"

definition joined :: "string list \<Rightarrow> pyval" where
  "joined xs = (if xs = [] then PyNone else PyStr (str_join ''|'' xs))"

record shadows =
  shs_nozzle :: shadow
  shs_flow :: shadow
  shs_bed :: shadow
  shs_speed :: shadow
  shs_pressure_advance :: shadow
  shs_accel :: shadow

definition shadow_facts :: "shadows \<Rightarrow> dict" where
  "shadow_facts shs =
     (let three = (\<lambda>family sh.
        [(dkey (family @ ''_shadow_eligible''), PyBool (sh_blockers sh = [])),
         (dkey (family @ ''_shadow_blockers''), joined (sh_blockers sh)),
         (dkey (family @ ''_shadow_actions''), joined (sh_actions sh))])
      in [(dkey ''speed_autonomy_boundary'', PyStr ''active_printing''),
          (dkey ''speed_autonomy_eligible'', PyBool (sh_blockers (shs_speed shs) = [])),
          (dkey ''speed_autonomy_blockers'', joined (sh_blockers (shs_speed shs)))]
         @ three ''nozzle'' (shs_nozzle shs) @ three ''flow'' (shs_flow shs) @ three ''bed'' (shs_bed shs)
         @ three ''pressure_advance'' (shs_pressure_advance shs) @ three ''accel'' (shs_accel shs))"

definition camera_facts :: "pyrt \<Rightarrow> dict \<Rightarrow> int \<Rightarrow> dict" where
  "camera_facts rt snap repeated_count =
     (let flag = (\<lambda>k. (dkey k, PyBool (own_flag snap k)));
          word = (\<lambda>k. (dkey k, opt_str (own_text rt snap k)))
      in [flag ''nozzle_cam_device_present'', flag ''nozzle_cam_service_ok'', flag ''nozzle_cam_capture_ok'',
          flag ''nozzle_cam_frame_fresh'', flag ''nozzle_cam_frame_valid'',
          flag ''nozzle_cam_frame_not_signal_slate'', flag ''nozzle_cam_frame_live'', flag ''nozzle_cam_usable'',
          (dkey ''nozzle_cam_health_state'', PyStr (case own_text rt snap ''nozzle_cam_health_state'' of
             Some t \<Rightarrow> t | None \<Rightarrow> ''unusable'')),
          (dkey ''nozzle_cam_blockers'', joined (compact_blocker_list rt (pget snap (dkey ''nozzle_cam_blockers'')))),
          word ''nozzle_cam_last_capture_at'',
          (dkey ''nozzle_cam_frame_age_s'',
             rounded rt 3 (float_or_none rt (pget snap (dkey ''nozzle_cam_frame_age_s'')))),
          word ''nozzle_cam_last_frame_ref'',
          (dkey ''nozzle_cam_repeated_identical_count'', PyInt repeated_count),
          (dkey ''raw_observed_at'', opt_str (raw_text rt snap ''observed_at'')),
          (dkey ''raw_http_error'', opt_str (raw_text rt snap ''http_error'')),
          (dkey ''status_fault_temporary'', PyBool (raw_flag snap ''status_fault_temporary'')),
          (dkey ''status_fault_reused_last_good'', PyBool (raw_flag snap ''status_fault_reused_last_good''))])"

text \<open>What the camera says counts only while its picture is usable.\<close>

definition vision_text :: "pyrt \<Rightarrow> dict \<Rightarrow> string \<Rightarrow> string option" where
  "vision_text rt snap k = (if own_flag snap ''nozzle_cam_usable'' then own_text rt snap k else None)"

definition vision_facts :: "pyrt \<Rightarrow> dict \<Rightarrow> dict" where
  "vision_facts rt snap = map (\<lambda>k. (dkey k, opt_str (vision_text rt snap k)))
     [''vision_advisory_summary'', ''vision_advisory_finding_types'', ''vision_advisory_strength'',
      ''vision_advisory_issue_level'', ''vision_comparison_delta'', ''vision_comparison_confidence'',
      ''vision_comparison_summary'', ''vision_reference_frame_ref'', ''vision_observation_ref'',
      ''vision_frame_ref'', ''vision_debug_summary'']"

definition setting_facts :: "pack_settings \<Rightarrow> dict" where
  "setting_facts ps =
     [(dkey ''vision_advisory_interval_s'', PyFloat (Fin (pk_vision_advisory_interval_s ps))),
      (dkey ''tuning_settle_window_s'', PyFloat (Fin (pk_tuning_settle_window_s ps))),
      (dkey ''thermal_tuning_settle_window_s'', PyFloat (Fin (pk_thermal_tuning_settle_window_s ps))),
      (dkey ''pressure_advance_tuning_settle_window_s'',
         PyFloat (Fin (pk_pressure_advance_tuning_settle_window_s ps))),
      (dkey ''accel_tuning_settle_window_s'', PyFloat (Fin (pk_accel_tuning_settle_window_s ps)))]"

section \<open>normalize\<close>

definition print_blockers :: "pyrt \<Rightarrow> dict \<Rightarrow> bool \<Rightarrow> string list" where
  "print_blockers rt snap requested_file_present =
     (if raw_health rt snap = ''OFFLINE'' then [''PrusaLink status is unreachable''] else [])
   @ (if raw_flag snap ''status_fault_temporary''
      then [''PrusaLink status is temporarily unreachable; keep monitoring and do not tune until reads recover'']
      else [])
   @ (if raw_lifecycle rt snap = ''ATTENTION'' then [''Printer is in ATTENTION and needs operator help''] else [])
   @ (if raw_lifecycle rt snap = ''ERROR'' then [''Printer is in ERROR''] else [])
   @ (case requested_file_of rt snap of
        Some f \<Rightarrow> if requested_file_present then []
                  else [''Requested file '' @ str_repr f @ '' is not on printer storage'']
      | None \<Rightarrow> [])"

definition summary_text :: "pyrt \<Rightarrow> dict \<Rightarrow> string" where
  "summary_text rt snap =
     (let word = (\<lambda>label x. case x of None \<Rightarrow> [] | Some t \<Rightarrow> [label @ t]);
          pct = (\<lambda>label n x. case x of None \<Rightarrow> [] | Some v \<Rightarrow> [label @ float_fixed rt n v @ ''%''])
      in str_join '' | '' ([''lifecycle='' @ raw_lifecycle rt snap, ''health='' @ raw_health rt snap]
        @ word ''file='' (raw_text rt snap ''current_file'')
        @ pct ''progress='' 1 (raw_num rt snap ''job_progress_pct'')
        @ pct ''speed='' 0 (raw_num rt snap ''speed_pct'')
        @ pct ''flow='' 0 (raw_num rt snap ''flow_pct'')
        @ word ''notes='' (raw_text rt snap ''job_active_notes'')))"

definition resources_of :: "pack_env \<Rightarrow> dict \<Rightarrow> bool \<Rightarrow> printable_file list \<Rightarrow> bool \<Rightarrow> resource_state list" where
  "resources_of env snap safe_to_unload known_files requested_file_present =
     (let rt = pn_rt env; top_files = take (pk_file_action_limit (pn_settings env)) known_files;
          top = (\<lambda>n. if n < length top_files then PyStr (pf_display_name (top_files ! n)) else PyNone)
      in [\<lparr>rs_id = dkey ''bed'', rs_kind = ''bed'', rs_owner = DEVICE_ID,
           rs_state = (if own_flag snap ''part_present'' then ''OCCUPIED'' else ''EMPTY''),
           rs_attributes = [(''bed_temp_c'', rounded rt 1 (raw_num rt snap ''bed_temp_c'')),
             (''safe_to_unload'', PyBool safe_to_unload)]\<rparr>,
          \<lparr>rs_id = dkey ''usb_storage'', rs_kind = ''storage'', rs_owner = DEVICE_ID,
           rs_state = (if known_files \<noteq> [] then ''READY'' else ''EMPTY''),
           rs_attributes = [(''file_count'', PyInt (int (length known_files))),
             (''requested_file'', opt_str (requested_file_of rt snap)),
             (''requested_file_present'', PyBool requested_file_present),
             (''top_file_1'', top 0), (''top_file_2'', top 1)]\<rparr>])"

definition derive_shadows :: "pack_env \<Rightarrow> dict \<Rightarrow> string \<Rightarrow> (pstate, shadows) act" where
  "derive_shadows env snap printing_phase =
     (let num = raw_num (pn_rt env) snap; bed_target = num ''bed_target_c'';
          job_bed = num ''job_bed_target_c_default'';
          pv = \<lparr>pv_lifecycle = raw_lifecycle (pn_rt env) snap, pv_job_active = raw_flag snap ''job_active'',
                pv_phase = printing_phase, pv_live_tuning_available = raw_flag snap ''live_tuning_available'',
                pv_progress = num ''job_progress_pct''\<rparr>
      in bindE (derive_nozzle_shadow_state env pv (num ''nozzle_target_c'') (num ''min_extrusion_temp_c''))
           (\<lambda>nozzle.
         bindE (derive_flow_shadow_state env pv (num ''flow_pct'')) (\<lambda>flow.
         bindE (derive_bed_shadow_state env pv bed_target (if job_bed \<noteq> None then job_bed else bed_target))
           (\<lambda>bed.
         bindE (derive_speed_autonomy_state env pv (num ''speed_pct'')) (\<lambda>speed.
         bindE (derive_pressure_advance_shadow_state env pv (num ''pressure_advance'')
                  (num ''active_pressure_advance_baseline'')) (\<lambda>pa.
         bindE (derive_accel_shadow_state env pv (num ''print_accel_mm_s2'')
                  (num ''active_print_accel_baseline_mm_s2'')) (\<lambda>accel.
         ret \<lparr>shs_nozzle = nozzle, shs_flow = flow, shs_bed = bed, shs_speed = speed,
              shs_pressure_advance = pa, shs_accel = accel\<rparr>)))))))"

definition all_facts :: "pack_env \<Rightarrow> pstate \<Rightarrow> dict \<Rightarrow> bool \<Rightarrow> bool \<Rightarrow> string \<Rightarrow> shadows \<Rightarrow> int option \<Rightarrow> dict" where
  "all_facts env s snap requested_file_present safe_to_unload printing_phase shs repeated_count =
     (let rt = pn_rt env in
      job_facts env s snap requested_file_present safe_to_unload @ reading_facts env snap
      @ delta_facts env snap @ notebook_facts rt snap printing_phase @ trend_view_facts rt snap
      @ shadow_facts shs @ camera_facts rt snap (case repeated_count of None \<Rightarrow> 0 | Some n \<Rightarrow> n)
      @ vision_facts rt snap @ setting_facts (pn_settings env))"

definition normalize :: "pack_env \<Rightarrow> dict \<Rightarrow> (pstate, normalized_state) act" where
  "normalize env snap =
     (let rt = pn_rt env; ps = pn_settings env; num = raw_num rt snap;
          lifecycle = raw_lifecycle rt snap; health = raw_health rt snap
      in bindE (liftE (coerce_int rt (pget snap (dkey ''raw.job_id'')))) (\<lambda>jid.
         bindE (liftE (coerce_int rt (pget snap (dkey ''nozzle_cam_repeated_identical_count'')))) (\<lambda>repeated.
         bindE (derive_printing_phase ps lifecycle (raw_flag snap ''job_active'') jid (num ''job_progress_pct'')
                  (raw_text rt snap ''current_file'') (num ''job_time_printing_s'')) (\<lambda>phase.
         bindE (derive_shadows env snap phase) (\<lambda>shs.
         bindE (family_big_cooldown_facts env) (\<lambda>cooldowns.
         bindE (liftE (files_from_snapshot rt snap)) (\<lambda>known_files.
         bindE (gets id) (\<lambda>s.
         let requested_file_present = (case requested_file_of rt snap of None \<Rightarrow> False
               | Some f \<Rightarrow> match_requested_file f known_files \<noteq> None);
             safe_to_unload = compute_safe_to_unload ps (own_flag snap ''part_present'') lifecycle
               (num ''bed_temp_c'') (num ''nozzle_temp_c'') health
         in ret \<lparr>ns_summary = \<lparr>ds_device_id = DEVICE_ID, ds_display_name = pn_display_name env,
                   ds_category = pn_category env, ds_mode = lifecycle, ds_health = health,
                   ds_summary = summary_text rt snap\<rparr>,
                 ns_facts = dict_update
                   (all_facts env s snap requested_file_present safe_to_unload phase shs repeated) cooldowns,
                 ns_resources = resources_of env snap safe_to_unload known_files requested_file_present,
                 ns_blockers = print_blockers rt snap requested_file_present\<rparr>))))))))"

section \<open>Reading the facts back\<close>

lemma dkey_eq [simp]: "dkey a = dkey b \<longleftrightarrow> a = b"
  by (simp add: dkey_def)

lemma map_of_first: "map_of (xs @ ys) k = (case map_of xs k of None \<Rightarrow> map_of ys k | Some v \<Rightarrow> Some v)"
  by (simp add: map_add_def split: option.splits)

lemma cooldown_fact_keys:
  "fst ` set (cooldown_facts rt now cooldowns)
   \<subseteq> (\<lambda>family. dkey (family @ ''_big_cooldown_active'')) ` set TUNING_FAMILIES
     \<union> (\<lambda>family. dkey (family @ ''_big_cooldown_remaining_s'')) ` set TUNING_FAMILIES"
  by (auto simp: cooldown_facts_def split: option.splits if_splits)

lemma family_big_cooldown_facts_keys:
  assumes "family_big_cooldown_facts env s = (Inr cooldowns, s')"
    and "k \<notin> (\<lambda>family. family @ ''_big_cooldown_active'') ` set TUNING_FAMILIES"
    and "k \<notin> (\<lambda>family. family @ ''_big_cooldown_remaining_s'') ` set TUNING_FAMILIES"
  shows "map_of (rev cooldowns) (dkey k) = None"
proof -
  obtain now cs where "cooldowns = cooldown_facts (pn_rt env) now cs"
    using assms(1) by (auto simp: family_big_cooldown_facts_def bindE_def monotonic_def gets_def modify_def)
  then have "dkey k \<notin> fst ` set (rev cooldowns)"
    using cooldown_fact_keys [of "pn_rt env" now cs] assms(2,3) by (auto simp: image_iff)
  then show ?thesis by (simp add: map_of_eq_None_iff)
qed

section \<open>Eligible means in the tuning window\<close>

lemma add_blocker_Nil [simp]: "foldl add_blocker (b # bs) cs \<noteq> []"
  by (induction cs arbitrary: b bs) (auto simp: add_blocker_def)

lemma add_blocker_first [simp]: "add_blocker [] c = (if fst c then [snd c] else [])"
  by (simp add: add_blocker_def)

lemma blockers_of_Nil: "blockers_of cs = [] \<longleftrightarrow> (\<forall>c \<in> set cs. \<not> fst c)"
  unfolding blockers_of_def by (induction cs) simp_all

lemma shadow_of_Nil: "sh_blockers (shadow_of cs steps r) = [] \<Longrightarrow> \<forall>c \<in> set cs. \<not> fst c"
  by (auto simp: shadow_of_def Let_def blockers_of_Nil split: if_splits)

text \<open>What an eligible family implies about the print.\<close>

definition in_window :: "pack_settings \<Rightarrow> pyfloat option \<Rightarrow> bool" where
  "in_window ps progress \<longleftrightarrow> (\<exists>p. progress = Some p
     \<and> \<not> float_less p (Fin (pk_live_tuning_min_progress_pct ps))
     \<and> \<not> float_le (Fin (pk_live_tuning_max_progress_pct ps)) p)"

lemma progress_condition_fst: "\<not> fst (progress_condition ps progress family) \<longleftrightarrow> in_window ps progress"
  by (auto simp: progress_condition_def bounded_progress_ready_def in_window_def split: option.splits)

definition tunable :: "pack_settings \<Rightarrow> print_view \<Rightarrow> string \<Rightarrow> bool" where
  "tunable ps pv family \<longleftrightarrow> pv_lifecycle pv = ''PRINTING'' \<and> pv_job_active pv
     \<and> pv_phase pv = ''active_printing'' \<and> pv_live_tuning_available pv
     \<and> planner_family_enabled ps family \<and> in_window ps (pv_progress pv)"

lemma print_conditions_met:
  "(\<forall>c \<in> set (print_conditions ps pv family). \<not> fst c)
     \<and> \<not> fst (progress_condition ps (pv_progress pv) family) \<longleftrightarrow> tunable ps pv family"
  by (auto simp: print_conditions_def tunable_def progress_condition_fst)

lemma bindE_ret_Inr: "bindE m (\<lambda>x. ret (f x)) s = (Inr y, s') \<longleftrightarrow> (\<exists>x. m s = (Inr x, s') \<and> y = f x)"
  by (auto simp: bindE_def ret_def split: prod.splits sum.splits)

lemma conditions_tunable:
  assumes "\<forall>c \<in> set (print_conditions ps pv family @ extra). \<not> fst c"
    and "progress_condition ps (pv_progress pv) family \<in> set extra"
  shows "tunable ps pv family"
  using assms print_conditions_met [of ps pv family] by simp

lemma shadow_of_tunable:
  "sh_blockers (shadow_of (print_conditions ps pv family @ extra) steps r) = []
    \<Longrightarrow> progress_condition ps (pv_progress pv) family \<in> set extra \<Longrightarrow> tunable ps pv family"
  by (rule conditions_tunable [OF shadow_of_Nil])

lemma nozzle_shadow_tunable:
  "derive_nozzle_shadow_state env pv t m s = (Inr sh, s') \<Longrightarrow> sh_blockers sh = []
     \<Longrightarrow> tunable (pn_settings env) pv ''nozzle''"
  unfolding derive_nozzle_shadow_state_def Let_def bindE_ret_Inr
  by (elim exE conjE, hypsubst) (erule shadow_of_tunable, simp)

lemma flow_shadow_tunable:
  "derive_flow_shadow_state env pv f s = (Inr sh, s') \<Longrightarrow> sh_blockers sh = []
     \<Longrightarrow> tunable (pn_settings env) pv ''flow''"
  unfolding derive_flow_shadow_state_def Let_def bindE_ret_Inr
  by (elim exE conjE, hypsubst) (erule shadow_of_tunable, simp)

lemma bed_shadow_tunable:
  "derive_bed_shadow_state env pv b i s = (Inr sh, s') \<Longrightarrow> sh_blockers sh = []
     \<Longrightarrow> tunable (pn_settings env) pv ''bed''"
  unfolding derive_bed_shadow_state_def Let_def bindE_ret_Inr
  by (elim exE conjE, hypsubst) (erule shadow_of_tunable, simp)

lemma speed_shadow_tunable:
  "derive_speed_autonomy_state env pv v s = (Inr sh, s') \<Longrightarrow> sh_blockers sh = []
     \<Longrightarrow> tunable (pn_settings env) pv ''speed''"
  unfolding derive_speed_autonomy_state_def Let_def bindE_ret_Inr
  by (elim exE conjE, hypsubst)
    (simp only: shadow.simps blockers_of_Nil, erule conditions_tunable, simp)

lemma pressure_advance_shadow_tunable:
  "derive_pressure_advance_shadow_state env pv v b s = (Inr sh, s') \<Longrightarrow> sh_blockers sh = []
     \<Longrightarrow> tunable (pn_settings env) pv ''pressure_advance''"
  unfolding derive_pressure_advance_shadow_state_def Let_def
  by (erule bindE_eq_InrD, simp only: bindE_ret_Inr, elim exE conjE, hypsubst) (erule shadow_of_tunable, simp)

lemma accel_shadow_tunable:
  "derive_accel_shadow_state env pv v b s = (Inr sh, s') \<Longrightarrow> sh_blockers sh = []
     \<Longrightarrow> tunable (pn_settings env) pv ''accel''"
  unfolding derive_accel_shadow_state_def Let_def
  by (erule bindE_eq_InrD, simp only: bindE_ret_Inr, elim exE conjE, hypsubst) (erule shadow_of_tunable, simp)

lemmas shadow_tunable = nozzle_shadow_tunable flow_shadow_tunable bed_shadow_tunable speed_shadow_tunable
  pressure_advance_shadow_tunable accel_shadow_tunable

definition snapshot_view :: "pyrt \<Rightarrow> dict \<Rightarrow> string \<Rightarrow> print_view" where
  "snapshot_view rt snap phase = \<lparr>pv_lifecycle = raw_lifecycle rt snap,
     pv_job_active = raw_flag snap ''job_active'', pv_phase = phase,
     pv_live_tuning_available = raw_flag snap ''live_tuning_available'',
     pv_progress = raw_num rt snap ''job_progress_pct''\<rparr>"

lemma derive_shadows_tunable:
  assumes "derive_shadows env snap phase s = (Inr shs, s')"
  shows "(sh_blockers (shs_speed shs) = [] \<longrightarrow> tunable (pn_settings env) (snapshot_view (pn_rt env) snap phase) ''speed'')
    \<and> (sh_blockers (shs_flow shs) = [] \<longrightarrow> tunable (pn_settings env) (snapshot_view (pn_rt env) snap phase) ''flow'')
    \<and> (sh_blockers (shs_nozzle shs) = [] \<longrightarrow> tunable (pn_settings env) (snapshot_view (pn_rt env) snap phase) ''nozzle'')
    \<and> (sh_blockers (shs_bed shs) = [] \<longrightarrow> tunable (pn_settings env) (snapshot_view (pn_rt env) snap phase) ''bed'')
    \<and> (sh_blockers (shs_pressure_advance shs) = []
        \<longrightarrow> tunable (pn_settings env) (snapshot_view (pn_rt env) snap phase) ''pressure_advance'')
    \<and> (sh_blockers (shs_accel shs) = []
        \<longrightarrow> tunable (pn_settings env) (snapshot_view (pn_rt env) snap phase) ''accel'')"
  using assms unfolding derive_shadows_def Let_def snapshot_view_def [symmetric]
  by (elim bindE_eq_InrD) (auto simp: ret_def dest: shadow_tunable)

section \<open>From the raw state to what is offered\<close>

lemma normalize_parts:
  assumes "normalize env snap s = (Inr ns, s')"
  obtains jid phase s1 s2 shs s3 s4 cooldowns s5 files repeated s6 where
    "derive_printing_phase (pn_settings env) (raw_lifecycle (pn_rt env) snap) (raw_flag snap ''job_active'') jid
       (raw_num (pn_rt env) snap ''job_progress_pct'') (raw_text (pn_rt env) snap ''current_file'')
       (raw_num (pn_rt env) snap ''job_time_printing_s'') s1 = (Inr phase, s2)"
    and "derive_shadows env snap phase s2 = (Inr shs, s3)"
    and "family_big_cooldown_facts env s4 = (Inr cooldowns, s5)"
    and "files_from_snapshot (pn_rt env) snap = Inr files"
    and "ns_facts ns = dict_update (all_facts env s6 snap
          (case requested_file_of (pn_rt env) snap of None \<Rightarrow> False | Some f \<Rightarrow> match_requested_file f files \<noteq> None)
          (compute_safe_to_unload (pn_settings env) (own_flag snap ''part_present'') (raw_lifecycle (pn_rt env) snap)
             (raw_num (pn_rt env) snap ''bed_temp_c'') (raw_num (pn_rt env) snap ''nozzle_temp_c'')
             (raw_health (pn_rt env) snap)) phase shs repeated) cooldowns"
  using assms unfolding normalize_def Let_def
  by (elim bindE_eq_InrD) (force simp: ret_def liftE_def gets_def split: sum.splits)

lemma plain_key:
  assumes "k \<notin> (\<lambda>family. family @ ''_big_cooldown_active'') ` set TUNING_FAMILIES"
    and "k \<notin> (\<lambda>family. family @ ''_big_cooldown_remaining_s'') ` set TUNING_FAMILIES"
    and "family_big_cooldown_facts env s4 = (Inr cooldowns, s5)"
    and "map_of d (dkey k) = Some v"
  shows "map_of (dict_update d cooldowns) (dkey k) = Some v"
  using family_big_cooldown_facts_keys [OF assms(3,1,2)] assms(4)
  by (simp add: map_of_dict_update map_add_def)

text \<open>The keys of the groups before the eligibility of the families.\<close>

lemma fact_group_keys:
  "map fst (job_facts env s snap rq safe) = map dkey
     [''lifecycle'', ''mode'', ''health'', ''job_active'', ''job_progress_pct'',
      ''job_time_printing_s'', ''current_file'', ''job_scope_token'', ''requested_file'',
      ''requested_file_present'', ''part_present'', ''safe_to_unload'']"
  "map fst (reading_facts env snap) = map dkey
     [''speed_pct'', ''speed_default_pct'', ''flow_pct'', ''flow_default_pct'', ''nozzle_temp_c'',
      ''nozzle_target_c'', ''bed_temp_c'', ''bed_target_c'', ''pressure_advance'',
      ''print_accel_mm_s2'', ''min_extrusion_temp_c'', ''live_tuning_available'', ''job_hash'',
      ''job_material'', ''job_layer_height_mm'', ''job_nozzle_target_c_default'',
      ''job_bed_target_c_default'', ''job_pressure_advance_default'',
      ''job_print_accel_mm_s2_default'', ''active_pressure_advance_baseline'',
      ''active_print_accel_baseline_mm_s2'']"
  "map fst (delta_facts env snap) = map dkey
     [''speed_delta_from_default_pct'', ''flow_delta_from_default_pct'',
      ''nozzle_delta_from_job_target_c'', ''bed_delta_from_job_target_c'',
      ''pressure_advance_delta_from_default'', ''print_accel_delta_from_default_mm_s2'']"
  "map fst (notebook_facts rt snap phase) = map dkey
     [''job_notebook_available'', ''job_notebook_status'', ''job_active_section'',
      ''job_active_section_reason'', ''job_active_notes'', ''active_notes_json'',
      ''printing_phase'', ''active_printing'']"
  "map fst (trend_view_facts rt snap) = map dkey
     [''trend_sample_elapsed_s'', ''job_time_delta_s'', ''progress_delta_pct'',
      ''nozzle_temp_delta_c'', ''bed_temp_delta_c'', ''nozzle_temp_trend'', ''bed_temp_trend'',
      ''job_time_advancing'', ''progress_advancing'', ''targets_nonzero'', ''thermal_ramp_active'',
      ''pre_tuning_window'', ''active_print_evidence'', ''motion_confirmed'']"
  by (simp_all add: job_facts_def reading_facts_def delta_facts_def notebook_facts_def trend_view_facts_def Let_def)

lemma map_of_skip:
  "map fst xs = map dkey ks \<Longrightarrow> k \<notin> set ks \<Longrightarrow> map_of (xs @ ys) (dkey k) = map_of ys (dkey k)"
proof -
  assume "map fst xs = map dkey ks" and "k \<notin> set ks"
  then have "dkey k \<notin> set (map fst xs)" by auto
  then have "map_of xs (dkey k) = None" by (simp add: map_of_eq_None_iff)
  then show ?thesis by (simp only: map_of_first option.case)
qed

lemmas skip_facts = fact_group_keys [THEN map_of_skip]

lemma all_facts_lookup:
  "map_of (all_facts env s snap rq safe phase shs n) (dkey ''lifecycle'') = Some (PyStr (raw_lifecycle (pn_rt env) snap))"
  "map_of (all_facts env s snap rq safe phase shs n) (dkey ''part_present'') = Some (PyBool (own_flag snap ''part_present''))"
  "map_of (all_facts env s snap rq safe phase shs n) (dkey ''safe_to_unload'') = Some (PyBool safe)"
  "map_of (all_facts env s snap rq safe phase shs n) (dkey ''requested_file_present'') = Some (PyBool rq)"
  "map_of (all_facts env s snap rq safe phase shs n) (dkey ''live_tuning_available'')
     = Some (PyBool (raw_flag snap ''live_tuning_available''))"
  by (simp_all add: all_facts_def Let_def skip_facts map_of_first job_facts_def reading_facts_def del: map_of_append)

lemma map_of_append_Some: "map_of xs k = Some v \<Longrightarrow> map_of (xs @ ys) k = Some v"
  by (simp only: map_of_first option.case)

lemma shadow_facts_lookup:
  "map_of (shadow_facts shs) (dkey ''speed_autonomy_eligible'') = Some (PyBool (sh_blockers (shs_speed shs) = []))"
  "map_of (shadow_facts shs) (dkey ''flow_shadow_eligible'') = Some (PyBool (sh_blockers (shs_flow shs) = []))"
  "map_of (shadow_facts shs) (dkey ''nozzle_shadow_eligible'') = Some (PyBool (sh_blockers (shs_nozzle shs) = []))"
  "map_of (shadow_facts shs) (dkey ''bed_shadow_eligible'') = Some (PyBool (sh_blockers (shs_bed shs) = []))"
  "map_of (shadow_facts shs) (dkey ''pressure_advance_shadow_eligible'') = Some (PyBool (sh_blockers (shs_pressure_advance shs) = []))"
  "map_of (shadow_facts shs) (dkey ''accel_shadow_eligible'') = Some (PyBool (sh_blockers (shs_accel shs) = []))"
  by (simp_all add: shadow_facts_def)

lemma all_facts_shadow_part:
  assumes "map_of (shadow_facts shs) (dkey k) = Some v"
    and "k \<in> {''speed_autonomy_eligible'', ''flow_shadow_eligible'', ''nozzle_shadow_eligible'', ''bed_shadow_eligible'',
      ''pressure_advance_shadow_eligible'', ''accel_shadow_eligible''}"
  shows "map_of (all_facts env s snap rq safe phase shs n) (dkey k) = Some v"
  using assms(2,1) unfolding all_facts_def Let_def
  by (elim insertE emptyE) (simp_all add: skip_facts map_of_append_Some del: map_of_append)

lemma all_facts_shadows:
  "map_of (all_facts env s snap rq safe phase shs n) (dkey ''speed_autonomy_eligible'')
     = Some (PyBool (sh_blockers (shs_speed shs) = []))"
  "map_of (all_facts env s snap rq safe phase shs n) (dkey ''flow_shadow_eligible'')
     = Some (PyBool (sh_blockers (shs_flow shs) = []))"
  "map_of (all_facts env s snap rq safe phase shs n) (dkey ''nozzle_shadow_eligible'')
     = Some (PyBool (sh_blockers (shs_nozzle shs) = []))"
  "map_of (all_facts env s snap rq safe phase shs n) (dkey ''bed_shadow_eligible'')
     = Some (PyBool (sh_blockers (shs_bed shs) = []))"
  "map_of (all_facts env s snap rq safe phase shs n) (dkey ''pressure_advance_shadow_eligible'')
     = Some (PyBool (sh_blockers (shs_pressure_advance shs) = []))"
  "map_of (all_facts env s snap rq safe phase shs n) (dkey ''accel_shadow_eligible'')
     = Some (PyBool (sh_blockers (shs_accel shs) = []))"
  by (rule all_facts_shadow_part, rule shadow_facts_lookup, simp)+

lemma active_phase:
  assumes "derive_printing_phase ps lifecycle active jid progress current_file job_time s = (Inr phase, s')"
    and "phase = ''active_printing''"
  shows "\<exists>p. progress = Some p \<and> float_le (Fin (pk_live_tuning_min_progress_pct ps)) p"
proof (rule ccontr)
  assume "\<not> ?thesis"
  then have low: "(case progress of None \<Rightarrow> False
      | Some p \<Rightarrow> float_le (Fin (pk_live_tuning_min_progress_pct ps)) p) = False"
    by (simp split: option.splits)
  show False
    using assms unfolding derive_printing_phase_def Let_def low
    by (auto simp: bindE_basic bindE_ret_Inr ret_def split: if_splits)
qed

lemma window_bounds:
  assumes "in_window ps progress"
    and "\<exists>p. progress = Some p \<and> float_le (Fin (pk_live_tuning_min_progress_pct ps)) p"
  shows "\<exists>p. progress = Some (Fin p) \<and> pk_live_tuning_min_progress_pct ps \<le> p
    \<and> p < pk_live_tuning_max_progress_pct ps"
proof -
  obtain p where p: "progress = Some p" "float_le (Fin (pk_live_tuning_min_progress_pct ps)) p"
    "\<not> float_le (Fin (pk_live_tuning_max_progress_pct ps)) p"
    using assms by (auto simp: in_window_def)
  then show ?thesis by (cases p) (auto simp: float_le_def float_eq_def)
qed

lemma fact_bool_lookup:
  "map_of (wp_facts world) (dkey k) = Some (PyBool b) \<Longrightarrow> fact_bool world k = b"
  by (simp add: fact_bool_def dget_or_def)

text \<open>A fact that the cooldowns do not overwrite, read in a world that shows the facts of \<open>normalize\<close>.\<close>

definition shows_printer :: "world_packet \<Rightarrow> normalized_state \<Rightarrow> bool" where
  "shows_printer world ns \<longleftrightarrow> (\<forall>k \<in> set [''lifecycle'', ''part_present'', ''safe_to_unload'', ''requested_file_present'',
       ''live_tuning_available'', ''speed_autonomy_eligible'', ''flow_shadow_eligible'', ''nozzle_shadow_eligible'',
       ''bed_shadow_eligible'', ''pressure_advance_shadow_eligible'', ''accel_shadow_eligible''].
     map_of (wp_facts world) (dkey k) = map_of (ns_facts ns) (dkey k))"

lemma normalized_lookup:
  assumes "family_big_cooldown_facts env s4 = (Inr cooldowns, s5)"
  shows "map_of (dict_update (all_facts env s snap rq safe phase shs n) cooldowns) (dkey ''lifecycle'')
       = Some (PyStr (raw_lifecycle (pn_rt env) snap))"
    and "map_of (dict_update (all_facts env s snap rq safe phase shs n) cooldowns) (dkey ''part_present'')
       = Some (PyBool (own_flag snap ''part_present''))"
    and "map_of (dict_update (all_facts env s snap rq safe phase shs n) cooldowns) (dkey ''safe_to_unload'')
       = Some (PyBool safe)"
    and "map_of (dict_update (all_facts env s snap rq safe phase shs n) cooldowns) (dkey ''requested_file_present'')
       = Some (PyBool rq)"
    and "map_of (dict_update (all_facts env s snap rq safe phase shs n) cooldowns) (dkey ''live_tuning_available'')
       = Some (PyBool (raw_flag snap ''live_tuning_available''))"
    and "map_of (dict_update (all_facts env s snap rq safe phase shs n) cooldowns) (dkey ''speed_autonomy_eligible'')
       = Some (PyBool (sh_blockers (shs_speed shs) = []))"
    and "map_of (dict_update (all_facts env s snap rq safe phase shs n) cooldowns) (dkey ''flow_shadow_eligible'')
       = Some (PyBool (sh_blockers (shs_flow shs) = []))"
    and "map_of (dict_update (all_facts env s snap rq safe phase shs n) cooldowns) (dkey ''nozzle_shadow_eligible'')
       = Some (PyBool (sh_blockers (shs_nozzle shs) = []))"
    and "map_of (dict_update (all_facts env s snap rq safe phase shs n) cooldowns) (dkey ''bed_shadow_eligible'')
       = Some (PyBool (sh_blockers (shs_bed shs) = []))"
    and "map_of (dict_update (all_facts env s snap rq safe phase shs n) cooldowns) (dkey ''pressure_advance_shadow_eligible'')
       = Some (PyBool (sh_blockers (shs_pressure_advance shs) = []))"
    and "map_of (dict_update (all_facts env s snap rq safe phase shs n) cooldowns) (dkey ''accel_shadow_eligible'')
       = Some (PyBool (sh_blockers (shs_accel shs) = []))"
proof -
  note keep = plain_key [OF _ _ assms]
  show "map_of (dict_update (all_facts env s snap rq safe phase shs n) cooldowns) (dkey ''lifecycle'')
       = Some (PyStr (raw_lifecycle (pn_rt env) snap))"
    by (rule keep [OF _ _ all_facts_lookup(1)]) (simp_all add: TUNING_FAMILIES_def)
  show "map_of (dict_update (all_facts env s snap rq safe phase shs n) cooldowns) (dkey ''part_present'')
       = Some (PyBool (own_flag snap ''part_present''))"
    by (rule keep [OF _ _ all_facts_lookup(2)]) (simp_all add: TUNING_FAMILIES_def)
  show "map_of (dict_update (all_facts env s snap rq safe phase shs n) cooldowns) (dkey ''safe_to_unload'')
       = Some (PyBool safe)"
    by (rule keep [OF _ _ all_facts_lookup(3)]) (simp_all add: TUNING_FAMILIES_def)
  show "map_of (dict_update (all_facts env s snap rq safe phase shs n) cooldowns) (dkey ''requested_file_present'')
       = Some (PyBool rq)"
    by (rule keep [OF _ _ all_facts_lookup(4)]) (simp_all add: TUNING_FAMILIES_def)
  show "map_of (dict_update (all_facts env s snap rq safe phase shs n) cooldowns) (dkey ''live_tuning_available'')
       = Some (PyBool (raw_flag snap ''live_tuning_available''))"
    by (rule keep [OF _ _ all_facts_lookup(5)]) (simp_all add: TUNING_FAMILIES_def)
  show "map_of (dict_update (all_facts env s snap rq safe phase shs n) cooldowns) (dkey ''speed_autonomy_eligible'')
       = Some (PyBool (sh_blockers (shs_speed shs) = []))"
    by (rule keep [OF _ _ all_facts_shadows(1)]) (simp_all add: TUNING_FAMILIES_def)
  show "map_of (dict_update (all_facts env s snap rq safe phase shs n) cooldowns) (dkey ''flow_shadow_eligible'')
       = Some (PyBool (sh_blockers (shs_flow shs) = []))"
    by (rule keep [OF _ _ all_facts_shadows(2)]) (simp_all add: TUNING_FAMILIES_def)
  show "map_of (dict_update (all_facts env s snap rq safe phase shs n) cooldowns) (dkey ''nozzle_shadow_eligible'')
       = Some (PyBool (sh_blockers (shs_nozzle shs) = []))"
    by (rule keep [OF _ _ all_facts_shadows(3)]) (simp_all add: TUNING_FAMILIES_def)
  show "map_of (dict_update (all_facts env s snap rq safe phase shs n) cooldowns) (dkey ''bed_shadow_eligible'')
       = Some (PyBool (sh_blockers (shs_bed shs) = []))"
    by (rule keep [OF _ _ all_facts_shadows(4)]) (simp_all add: TUNING_FAMILIES_def)
  show "map_of (dict_update (all_facts env s snap rq safe phase shs n) cooldowns) (dkey ''pressure_advance_shadow_eligible'')
       = Some (PyBool (sh_blockers (shs_pressure_advance shs) = []))"
    by (rule keep [OF _ _ all_facts_shadows(5)]) (simp_all add: TUNING_FAMILIES_def)
  show "map_of (dict_update (all_facts env s snap rq safe phase shs n) cooldowns) (dkey ''accel_shadow_eligible'')
       = Some (PyBool (sh_blockers (shs_accel shs) = []))"
    by (rule keep [OF _ _ all_facts_shadows(6)]) (simp_all add: TUNING_FAMILIES_def)
qed

lemma shown_facts:
  assumes "shows_printer world ns"
    and "ns_facts ns = dict_update (all_facts env s snap rq safe phase shs n) cooldowns"
    and "family_big_cooldown_facts env s4 = (Inr cooldowns, s5)"
  shows "fact_text env world ''lifecycle'' ''UNKNOWN'' = raw_lifecycle (pn_rt env) snap"
    and "fact_bool world ''part_present'' = ((own_flag snap ''part_present''))"
    and "fact_bool world ''safe_to_unload'' = (safe)"
    and "fact_bool world ''requested_file_present'' = (rq)"
    and "fact_bool world ''live_tuning_available'' = ((raw_flag snap ''live_tuning_available''))"
    and "fact_bool world ''speed_autonomy_eligible'' = (sh_blockers (shs_speed shs) = [])"
    and "fact_bool world ''flow_shadow_eligible'' = (sh_blockers (shs_flow shs) = [])"
    and "fact_bool world ''nozzle_shadow_eligible'' = (sh_blockers (shs_nozzle shs) = [])"
    and "fact_bool world ''bed_shadow_eligible'' = (sh_blockers (shs_bed shs) = [])"
    and "fact_bool world ''pressure_advance_shadow_eligible'' = (sh_blockers (shs_pressure_advance shs) = [])"
    and "fact_bool world ''accel_shadow_eligible'' = (sh_blockers (shs_accel shs) = [])"
  using assms(1) unfolding shows_printer_def assms(2)
  by (simp_all add: normalized_lookup [OF assms(3)] fact_bool_def fact_text_def dget_or_def)

lemma offer_eligible: "offer_of env now_ms world (family, fct, tu, precision) a \<Longrightarrow> fact_bool world fct"
  by (simp add: offer_of_def gate_def family_eligible_def)

lemma offers_eligible:
  assumes "live_tuning_actions env now_ms world x False = Inr actions" and "a \<in> set actions"
  shows "fact_bool world ''speed_autonomy_eligible'' \<or> fact_bool world ''flow_shadow_eligible''
    \<or> fact_bool world ''nozzle_shadow_eligible'' \<or> fact_bool world ''bed_shadow_eligible''
    \<or> fact_bool world ''pressure_advance_shadow_eligible'' \<or> fact_bool world ''accel_shadow_eligible''"
  using offer_cases [OF assms] by (elim disjE conjE) (drule offer_eligible, simp)+

lemma eligible_tunable:
  assumes "derive_shadows env snap phase s = (Inr shs, s')"
    and "sh_blockers (shs_speed shs) = [] \<or> sh_blockers (shs_flow shs) = [] \<or> sh_blockers (shs_nozzle shs) = []
      \<or> sh_blockers (shs_bed shs) = [] \<or> sh_blockers (shs_pressure_advance shs) = []
      \<or> sh_blockers (shs_accel shs) = []"
  shows "raw_lifecycle (pn_rt env) snap = ''PRINTING'' \<and> raw_flag snap ''job_active''
    \<and> raw_flag snap ''live_tuning_available'' \<and> phase = ''active_printing''
    \<and> in_window (pn_settings env) (raw_num (pn_rt env) snap ''job_progress_pct'')"
proof -
  obtain family where "tunable (pn_settings env) (snapshot_view (pn_rt env) snap phase) family"
    using derive_shadows_tunable [OF assms(1)] assms(2) by blast
  then show ?thesis by (simp add: tunable_def snapshot_view_def)
qed


lemma offer_not_human:
  assumes "live_tuning_actions env now_ms world x False = Inr tuning" and "a \<in> set tuning"
  shows "la_verb a \<noteq> ''CALL_HUMAN''"
  using offer_cases [OF assms]
  by (elim disjE conjE) (drule offer_verb, simp add: spec_verbs)+

lemma safe_to_unload_cold:
  assumes "compute_safe_to_unload ps part_present lifecycle bed nozzle health"
  shows "part_present \<and> lifecycle \<notin> {''PRINTING'', ''PAUSED''} \<and> health \<notin> {''OFFLINE'', ''ERROR''}
    \<and> (\<exists>b n. bed = Some b \<and> nozzle = Some n \<and> \<not> float_less (Fin (pk_safe_to_unload_bed_c ps)) b
         \<and> \<not> float_less (Fin (pk_safe_to_touch_nozzle_c ps)) n)"
  using assms unfolding compute_safe_to_unload_def
  by (cases bed; cases nozzle) (auto split: if_splits)


text \<open>A running print whose nozzle can be tuned, and a cold printer with a finished part.\<close>

definition sample_pstate :: pstate where
  "sample_pstate = \<lparr>pt_driver = fresh_state, pt_part_present_inference = False, pt_published = [],
     pt_big_cooldowns = [], pt_info_cache = None, pt_last_job_token = None,
     pt_last_printing_job_identity = None, pt_last_job_time_printing_s = None,
     pt_active_printing_job_identity = None, pt_last_trend_sample = None\<rparr>"

definition sample_print :: dict where
  "sample_print = [(dkey ''raw.lifecycle'', PyStr ''PRINTING''), (dkey ''raw.job_active'', PyBool True),
     (dkey ''raw.live_tuning_available'', PyBool True), (dkey ''raw.job_progress_pct'', PyInt 50),
     (dkey ''raw.nozzle_target_c'', PyInt 210), (dkey ''raw.min_extrusion_temp_c'', PyInt 170)]"

definition sample_done :: dict where
  "sample_done = [(dkey ''raw.lifecycle'', PyStr ''FINISHED''), (dkey ''raw.health'', PyStr ''OK''),
     (dkey ''part_present'', PyBool True), (dkey ''raw.bed_temp_c'', PyInt 30),
     (dkey ''raw.nozzle_temp_c'', PyInt 40)]"

definition sample_eligible :: "shadows \<Rightarrow> bool list" where
  "sample_eligible shs = map (\<lambda>f. sh_blockers (f shs) = [])
     [shs_speed, shs_flow, shs_nozzle, shs_bed, shs_pressure_advance, shs_accel]"

definition sample_facts :: "string \<Rightarrow> bool \<Rightarrow> bool \<Rightarrow> bool \<Rightarrow> dict" where
  "sample_facts lifecycle present tunable_now nozzle =
     [(dkey ''lifecycle'', PyStr lifecycle), (dkey ''part_present'', PyBool present),
      (dkey ''safe_to_unload'', PyBool present), (dkey ''requested_file_present'', PyBool False),
      (dkey ''live_tuning_available'', PyBool tunable_now),
      (dkey ''speed_autonomy_eligible'', PyBool False), (dkey ''flow_shadow_eligible'', PyBool False),
      (dkey ''nozzle_shadow_eligible'', PyBool nozzle), (dkey ''bed_shadow_eligible'', PyBool False),
      (dkey ''pressure_advance_shadow_eligible'', PyBool False), (dkey ''accel_shadow_eligible'', PyBool False),
      (dkey ''nozzle_target_c'', PyInt 210)]"

lemma normalize_eq:
  assumes "coerce_int (pn_rt env) (pget snap (dkey ''raw.job_id'')) = Inr jid"
    and "coerce_int (pn_rt env) (pget snap (dkey ''nozzle_cam_repeated_identical_count'')) = Inr n"
    and "derive_printing_phase (pn_settings env) (raw_lifecycle (pn_rt env) snap) (raw_flag snap ''job_active'') jid
       (raw_num (pn_rt env) snap ''job_progress_pct'') (raw_text (pn_rt env) snap ''current_file'')
       (raw_num (pn_rt env) snap ''job_time_printing_s'') s = (Inr phase, s1)"
    and "derive_shadows env snap phase s1 = (Inr shs, s2)"
    and "family_big_cooldown_facts env s2 = (Inr cooldowns, s3)"
    and "files_from_snapshot (pn_rt env) snap = Inr files"
  shows "\<exists>ns. normalize env snap s = (Inr ns, s3) \<and> ns_facts ns = dict_update (all_facts env s3 snap
          (case requested_file_of (pn_rt env) snap of None \<Rightarrow> False | Some f \<Rightarrow> match_requested_file f files \<noteq> None)
          (compute_safe_to_unload (pn_settings env) (own_flag snap ''part_present'') (raw_lifecycle (pn_rt env) snap)
             (raw_num (pn_rt env) snap ''bed_temp_c'') (raw_num (pn_rt env) snap ''nozzle_temp_c'')
             (raw_health (pn_rt env) snap)) phase shs n) cooldowns"
  using assms by (simp add: normalize_def Let_def bindE_def liftE_def ret_def gets_def)

lemma family_big_cooldown_facts_Inr: "\<exists>cds s'. family_big_cooldown_facts env s = (Inr cds, s')"
  by (simp add: family_big_cooldown_facts_def bindE_def monotonic_def modify_def gets_def)

lemma sample_shown:
  assumes "coerce_int sample_rt (pget snap (dkey ''raw.job_id'')) = Inr jid"
    and "coerce_int sample_rt (pget snap (dkey ''nozzle_cam_repeated_identical_count'')) = Inr n"
    and "derive_printing_phase default_pack_settings (raw_lifecycle sample_rt snap) (raw_flag snap ''job_active'') jid
       (raw_num sample_rt snap ''job_progress_pct'') (raw_text sample_rt snap ''current_file'')
       (raw_num sample_rt snap ''job_time_printing_s'') sample_pstate = (Inr phase, sample_pstate)"
    and "case fst (derive_shadows sample_pack snap phase sample_pstate) of
       Inr shs \<Rightarrow> sample_eligible shs = [False, False, nozzle, False, False, False] | Inl _ \<Rightarrow> False"
    and "files_from_snapshot sample_rt snap = Inr files" and "requested_file_of sample_rt snap = None"
    and "raw_lifecycle sample_rt snap = lifecycle" and "own_flag snap ''part_present'' = present"
    and "raw_flag snap ''live_tuning_available'' = live"
    and "compute_safe_to_unload default_pack_settings present lifecycle (raw_num sample_rt snap ''bed_temp_c'')
       (raw_num sample_rt snap ''nozzle_temp_c'') (raw_health sample_rt snap) = present"
  shows "\<exists>ns s'. normalize sample_pack snap sample_pstate = (Inr ns, s')
    \<and> shows_printer (sample_world (sample_facts lifecycle present live nozzle)) ns"
proof -
  have rt: "pn_rt sample_pack = sample_rt" "pn_settings sample_pack = default_pack_settings"
    by (simp_all add: sample_pack_def sample_printer_def)
  obtain shs s2 where sh: "derive_shadows sample_pack snap phase sample_pstate = (Inr shs, s2)"
    and el: "sample_eligible shs = [False, False, nozzle, False, False, False]"
    using assms(4) by (cases "derive_shadows sample_pack snap phase sample_pstate") (simp split: sum.splits)
  obtain cds s3 where cd: "family_big_cooldown_facts sample_pack s2 = (Inr cds, s3)"
    using family_big_cooldown_facts_Inr by blast
  obtain ns where ns: "normalize sample_pack snap sample_pstate = (Inr ns, s3)"
    and facts: "ns_facts ns = dict_update (all_facts sample_pack s3 snap False present phase shs n) cds"
    using normalize_eq [of sample_pack snap jid n sample_pstate phase sample_pstate shs s2 cds s3 files]
      assms sh cd unfolding rt by auto
  have "shows_printer (sample_world (sample_facts lifecycle present live nozzle)) ns"
    using el unfolding shows_printer_def facts
    by (simp add: normalized_lookup [OF cd] sample_world_def sample_facts_def sample_eligible_def rt assms(7-9))
  then show ?thesis using ns by blast
qed

text \<open>The eligibility of the families on a pack that is not cooling down.\<close>

lemma all_false: "(\<And>k' v. (k', v) \<in> set d \<Longrightarrow> \<not> truthy v) \<Longrightarrow> \<not> truthy (pget d k)"
  by (auto simp: pget_def dget_or_def split: option.splits dest: map_of_SomeD)

lemma family_cools_quiet:
  assumes "pt_big_cooldowns s = []"
  shows "family_cools env family s = (Inr False, s\<lparr>pt_driver := clock_read (pt_driver s)\<rparr>)"
proof -
  have "\<not> truthy (pget (cooldown_facts (pn_rt env) now []) k)" for now k
    by (rule all_false) (auto simp: cooldown_facts_def)
  then show ?thesis
    using assms by (simp add: family_cools_def family_big_cooldown_facts_def bindE_def monotonic_def modify_def
        gets_def ret_def live_cooldowns_def)
qed

lemma shadow_of_Nil_iff: "sh_blockers (shadow_of cs steps r) = [] \<longleftrightarrow>
    (\<forall>c \<in> set cs. \<not> fst c) \<and> list_ex fst steps"
  by (auto simp: shadow_of_def Let_def blockers_of_Nil filter_empty_conv list_ex_iff)

lemma sample_printing_shadows:
  "case fst (derive_shadows sample_pack sample_print ''active_printing'' sample_pstate) of
     Inr shs \<Rightarrow> sample_eligible shs = [False, False, True, False, False, False] | Inl _ \<Rightarrow> False"
proof -
  have rt: "pn_rt sample_pack = sample_rt" "pn_settings sample_pack = default_pack_settings"
    "pn_driver sample_pack = default_settings"
    by (simp_all add: sample_pack_def sample_printer_def)
  have readings: "raw_num sample_rt sample_print ''job_progress_pct'' = Some (Fin 50)"
    "raw_num sample_rt sample_print ''nozzle_target_c'' = Some (Fin 210)"
    "raw_num sample_rt sample_print ''min_extrusion_temp_c'' = Some (Fin 170)"
    "raw_num sample_rt sample_print ''bed_target_c'' = None" "raw_num sample_rt sample_print ''speed_pct'' = None"
    "raw_num sample_rt sample_print ''flow_pct'' = None" "raw_num sample_rt sample_print ''pressure_advance'' = None"
    "raw_num sample_rt sample_print ''print_accel_mm_s2'' = None"
    "raw_num sample_rt sample_print ''job_bed_target_c_default'' = None"
    "raw_num sample_rt sample_print ''active_pressure_advance_baseline'' = None"
    "raw_num sample_rt sample_print ''active_print_accel_baseline_mm_s2'' = None"
    "raw_lifecycle sample_rt sample_print = ''PRINTING''" "raw_flag sample_print ''job_active''"
    "raw_flag sample_print ''live_tuning_available''"
    by (simp_all add: raw_num_def raw_lifecycle_def raw_flag_def sample_print_def float_or_none_def)
  have steps: "list_ex fst (nozzle_steps sample_pack (Fin 210) (Fin 170))"
    by (simp add: nozzle_steps_def rt Let_def default_settings_def float_sub_def float_max_def)
  have start: "pt_big_cooldowns sample_pstate = []" by (simp add: sample_pstate_def)
  show ?thesis
    using steps start
    by (simp add: derive_shadows_def derive_nozzle_shadow_state_def derive_flow_shadow_state_def
        derive_bed_shadow_state_def derive_speed_autonomy_state_def derive_pressure_advance_shadow_state_def
        derive_accel_shadow_state_def readings rt Let_def bindE_def ret_def liftE_def family_cools_quiet
        relative_steps_def stabilize_relative_scalar_current_def sample_eligible_def shadow_of_Nil_iff
        blockers_of_Nil on_value_def print_conditions_def progress_condition_def bounded_progress_ready_def
        planner_family_enabled_def default_pack_settings_def float_le_def float_eq_def)
qed

lemma sample_done_shadows:
  "case fst (derive_shadows sample_pack sample_done ''not_printing'' sample_pstate) of
     Inr shs \<Rightarrow> sample_eligible shs = [False, False, False, False, False, False] | Inl _ \<Rightarrow> False"
proof -
  have rt: "pn_rt sample_pack = sample_rt" "pn_settings sample_pack = default_pack_settings"
    by (simp_all add: sample_pack_def sample_printer_def)
  have readings: "raw_lifecycle sample_rt sample_done = ''FINISHED''"
    "raw_num sample_rt sample_done ''pressure_advance'' = None" "raw_num sample_rt sample_done ''print_accel_mm_s2'' = None"
    by (simp_all add: raw_lifecycle_def raw_num_def sample_done_def float_or_none_def)
  have start: "pt_big_cooldowns sample_pstate = []" by (simp add: sample_pstate_def)
  show ?thesis
    using start
    by (simp add: derive_shadows_def derive_nozzle_shadow_state_def derive_flow_shadow_state_def
        derive_bed_shadow_state_def derive_speed_autonomy_state_def derive_pressure_advance_shadow_state_def
        derive_accel_shadow_state_def readings rt Let_def bindE_def ret_def liftE_def family_cools_quiet
        relative_steps_def stabilize_relative_scalar_current_def sample_eligible_def shadow_of_Nil_iff
        blockers_of_Nil print_conditions_def)
qed

lemma sample_print_shown:
  "\<exists>ns s'. normalize sample_pack sample_print sample_pstate = (Inr ns, s')
    \<and> shows_printer (sample_world (sample_facts ''PRINTING'' False True True)) ns"
  by (rule sample_shown [of _ None None "''active_printing''" _ "[]", OF _ _ _ sample_printing_shadows]; code_simp)

lemma sample_done_shown:
  "\<exists>ns s'. normalize sample_pack sample_done sample_pstate = (Inr ns, s')
    \<and> shows_printer (sample_world (sample_facts ''FINISHED'' True False False)) ns"
  by (rule sample_shown [of _ None None "''not_printing''" _ "[]", OF _ _ _ sample_done_shadows]; code_simp)

lemma sample_print_offers:
  "case live_tuning_actions sample_pack 0 (sample_world (sample_facts ''PRINTING'' False True True)) False False of
     Inr actions \<Rightarrow> actions \<noteq> [] | Inl _ \<Rightarrow> False"
  by code_simp

lemma sample_done_offers:
  "candidate_actions sample_pack 0 (sample_world (sample_facts ''FINISHED'' True False False))
     = Inr [manual_unload_action]"
  by code_simp



text \<open>From 99 % on a print that still runs is reported as finished, without an active job.\<close>

lemma finished_while_printing:
  assumes "sn_lifecycle sn = L_PRINTING" and "sn_job_progress_pct sn = Some (Fin p)" and "99 \<le> p"
  shows "sn_lifecycle (apply_terminal_finish_override sn) = L_FINISHED
    \<and> \<not> sn_job_active (apply_terminal_finish_override sn)"
  using assms by (simp add: apply_terminal_finish_override_def Let_def TERMINAL_FINISH_PROGRESS_PCT_def)

end
