(* ===== verification/JobSections.thy ===== *)
theory JobSections
  imports PrusaDriver
begin

text \<open>
  The sections of a print job: how \<open>packs/prusa_core_one_plus/job_notebook.py\<close> cuts the text of a
  G-code file into layers, follows the machine through them and tags what it finds, with the records
  of \<open>types.py\<close>.

  The text is a list of Latin-1 characters.  Reading a number from text and rounding are fields of
  \<open>pyrt\<close>; \<open>math.hypot\<close>, the clock, the digest and the conversion of a timestamp are fields of \<open>job_env\<close>.  Float arithmetic is exact.
\<close>

section \<open>Expressions with several groups\<close>

text \<open>
  A pattern with several groups is a list of patterns with at most one group each; the result are the
  groups and the text left, in the order in which the matcher tries them.
\<close>

fun re_groups :: "regex list \<Rightarrow> string \<Rightarrow> string \<Rightarrow> (string option list \<times> string) list" where
  "re_groups [] pre s = [([], s)]"
| "re_groups (r # rs) pre s = concat (map (\<lambda>(pre', s', g).
     map (\<lambda>(gs, rest). (g # gs, rest)) (re_groups rs pre' s')) (re_run r (pre, s, None)))"

definition re_match :: "regex list \<Rightarrow> string \<Rightarrow> string option list option" where
  "re_match rs s = (case re_groups rs [] s of [] \<Rightarrow> None | (gs, _) # _ \<Rightarrow> Some gs)"

definition re_fullmatch :: "regex list \<Rightarrow> string \<Rightarrow> string option list option" where
  "re_fullmatch rs s = (case filter (\<lambda>(_, rest). rest = []) (re_groups rs [] s) of
      [] \<Rightarrow> None | (gs, _) # _ \<Rightarrow> Some gs)"

definition comment_label :: "string \<Rightarrow> regex" where
  "comment_label label = Seq (Sym (\<lambda>c. c = CHR '';'')) (Seq (Many is_space) (re_literal char_lower label))"

definition LAYER_CHANGE_RE :: "regex list" where
  "LAYER_CHANGE_RE = [comment_label ''LAYER_CHANGE'']"

definition re_digits :: regex where "re_digits = Seq (Sym is_digit_char) (Many is_digit_char)"

definition LAYER_NUMBER_RE :: "regex list" where
  "LAYER_NUMBER_RE = [Seq (comment_label ''LAYER:'') (Seq (Many is_space)
     (Group (Seq (Opt (Sym (\<lambda>c. c = CHR ''-''))) re_digits)))]"

definition Z_COMMENT_RE :: "regex list" where
  "Z_COMMENT_RE = [Seq (comment_label ''Z:'') (Seq (Many is_space) (Group re_signed))]"

definition no_newline :: "char \<Rightarrow> bool" where "no_newline c \<longleftrightarrow> c \<noteq> CHR 0x0A"

definition re_rest :: regex where "re_rest = Seq (Sym no_newline) (Many no_newline)"

definition TYPE_RE :: "regex list" where
  "TYPE_RE = [Seq (comment_label ''TYPE:'') (Seq (Many is_space) (Group re_rest))]"

definition is_key_char :: "char \<Rightarrow> bool" where
  "is_key_char c \<longleftrightarrow> is_word_char c \<or> c \<in> set ''-[] ''"

definition KEY_VALUE_RE :: "regex list" where
  "KEY_VALUE_RE =
     [Seq (Sym (\<lambda>c. c = CHR '';'')) (Seq (Many is_space)
        (Group (Seq (Sym is_key_char) (ManyLazy is_key_char)))),
      Seq (Many is_space) (Seq (Sym (\<lambda>c. c = CHR ''='')) (Seq (Many is_space) (Group re_rest)))]"

definition gcode_number :: "string \<Rightarrow> string \<Rightarrow> regex" where
  "gcode_number command letters = Seq (gcode_word command letters) (Group re_signed)"

definition M204_BARE_RE :: regex where
  "M204_BARE_RE = Seq WordBoundary (Seq (re_literal char_lower ''M204'') (Seq WordBoundary
     (Seq (Sym is_space) (Seq (Many is_space) (Group re_signed)))))"

definition number_in :: "pyrt \<Rightarrow> regex \<Rightarrow> string \<Rightarrow> pyfloat option" where
  "number_in rt r s = (case re_search r [] s of None \<Rightarrow> None | Some g \<Rightarrow> float_parse rt g)"

section \<open>Sections and their facts\<close>

record gcode_window =
  gw_window_id :: string
  gw_label :: string
  gw_line_start :: "int option"
  gw_line_end :: "int option"
  gw_reason_tags :: "string list"

record gcode_facts =
  gf_long_travel_count :: int
  gf_long_travel_distance_mm :: pyfloat
  gf_travel_distance_mm :: pyfloat
  gf_extrusion_move_distance_mm :: pyfloat
  gf_travel_to_extrusion_ratio :: "pyfloat option"
  gf_retraction_count :: int
  gf_restart_count :: int
  gf_active_m204_p_mm_s2 :: "pyfloat option"
  gf_active_m204_t_mm_s2 :: "pyfloat option"
  gf_active_m204_r_mm_s2 :: "pyfloat option"
  gf_extrusion_cluster_count :: int
  gf_extrusion_bbox_mm :: "(pyfloat \<times> pyfloat \<times> pyfloat \<times> pyfloat) option"
  gf_snapshot_windows :: "gcode_window list"

definition no_facts :: gcode_facts where
  "no_facts = \<lparr>gf_long_travel_count = 0, gf_long_travel_distance_mm = Fin 0, gf_travel_distance_mm = Fin 0,
     gf_extrusion_move_distance_mm = Fin 0, gf_travel_to_extrusion_ratio = None, gf_retraction_count = 0,
     gf_restart_count = 0, gf_active_m204_p_mm_s2 = None, gf_active_m204_t_mm_s2 = None,
     gf_active_m204_r_mm_s2 = None, gf_extrusion_cluster_count = 0, gf_extrusion_bbox_mm = None,
     gf_snapshot_windows = []\<rparr>"

record job_section =
  jb_section_id :: string
  jb_label :: "string option"
  jb_layer_start :: "int option"
  jb_layer_end :: "int option"
  jb_z_start_mm :: "pyfloat option"
  jb_z_end_mm :: "pyfloat option"
  jb_line_start :: "int option"
  jb_line_end :: "int option"
  jb_tags :: "string list"
  jb_summary :: "string option"
  jb_progress_start_pct :: pyfloat
  jb_progress_end_pct :: pyfloat
  jb_pressure_advance_baseline :: "pyfloat option"
  jb_print_accel_baseline_mm_s2 :: "pyfloat option"
  jb_gcode_facts :: gcode_facts

record job_env =
  jn_rt :: pyrt
  jn_hypot :: "pyfloat \<Rightarrow> pyfloat \<Rightarrow> pyfloat"
  jn_now :: string
  jn_sha256 :: "string \<Rightarrow> string"
  jn_iso_timestamp :: "int \<Rightarrow> pyexc + string"

text \<open>A set of tags is a list without repetition; \<open>tuple(sorted(tags))\<close>; \<open>f"{n:06d}"\<close>.\<close>

definition tag_tuple :: "string list \<Rightarrow> string list" where
  "tag_tuple tags = sort (remdups tags)"

definition zero_pad :: "nat \<Rightarrow> int \<Rightarrow> string" where
  "zero_pad n i = (let s = int_str i in replicate (n - length s) (CHR ''0'') @ s)"

definition section_summary :: "pyrt \<Rightarrow> string list \<Rightarrow> pyfloat option \<Rightarrow> int option \<Rightarrow> string" where
  "section_summary rt tags z layer =
     (let parts = (case layer of None \<Rightarrow> [] | Some l \<Rightarrow> [''layer='' @ int_str l])
        @ (case z of None \<Rightarrow> [] | Some v \<Rightarrow> [''Z='' @ float_fixed rt 2 v @ ''mm''])
        @ (if tags = [] then [] else [str_join '', '' tags])
      in if parts = [] then ''Layer section'' else str_join '' | '' parts)"

definition tags_from_type :: "string \<Rightarrow> string list" where
  "tags_from_type type_text =
     (let lowered = str_lower (str_strip type_text) in
      map snd (filter (\<lambda>(word, _). contains word lowered)
        [(''bridge'', ''bridge''), (''perimeter'', ''perimeter''), (''infill'', ''high_flow''),
         (''support'', ''support''), (''interface'', ''interface''), (''external'', ''surface'')]))"

section \<open>Cutting the text into sections\<close>

record builder =
  bd_sections :: "job_section list"
  bd_start :: int
  bd_z :: "pyfloat option"
  bd_layer :: "int option"
  bd_tags :: "string list"
  bd_pressure_advance :: "pyfloat option"
  bd_print_accel :: "pyfloat option"
  bd_section_pressure_advance :: "pyfloat option"
  bd_section_print_accel :: "pyfloat option"
  bd_seen_layer_marker :: bool
  bd_inferred_layer :: int

definition progress_pct :: "pyrt \<Rightarrow> int \<Rightarrow> int \<Rightarrow> pyfloat" where
  "progress_pct rt n_lines line = round_half_even rt 2 (Fin (of_int line / of_int n_lines * 100))"

definition flush_section :: "pyrt \<Rightarrow> int \<Rightarrow> int \<Rightarrow> builder \<Rightarrow> builder" where
  "flush_section rt n_lines line_end b =
     (if line_end < bd_start b then b
      else
        let tags = tag_tuple (bd_tags b); summary = section_summary rt tags (bd_z b) (bd_layer b);
            s = \<lparr>jb_section_id = ''sec_'' @ zero_pad 4 (int (length (bd_sections b)) + 1), jb_label = Some summary,
                 jb_layer_start = bd_layer b, jb_layer_end = bd_layer b, jb_z_start_mm = bd_z b,
                 jb_z_end_mm = bd_z b, jb_line_start = Some (bd_start b), jb_line_end = Some line_end,
                 jb_tags = tags, jb_summary = Some summary,
                 jb_progress_start_pct = progress_pct rt n_lines (bd_start b),
                 jb_progress_end_pct = progress_pct rt n_lines (line_end + 1),
                 jb_pressure_advance_baseline = bd_section_pressure_advance b,
                 jb_print_accel_baseline_mm_s2 = bd_section_print_accel b, jb_gcode_facts = no_facts\<rparr>
        in b\<lparr>bd_sections := bd_sections b @ [s], bd_start := line_end + 1, bd_tags := []\<rparr>)"

definition or_else3 :: "'a option \<Rightarrow> 'a option \<Rightarrow> 'a option \<Rightarrow> 'a option" where
  "or_else3 a b c = (case a of Some x \<Rightarrow> Some x | None \<Rightarrow> (case b of Some x \<Rightarrow> Some x | None \<Rightarrow> c))"

definition line_accel :: "pyrt \<Rightarrow> string \<Rightarrow> pyfloat option" where
  "line_accel rt line = or_else3 (number_in rt (gcode_number ''M204'' ''s'') line)
     (number_in rt (gcode_number ''M204'' ''p'') line) (number_in rt M204_BARE_RE line)"

definition read_comments :: "pyrt \<Rightarrow> string \<Rightarrow> builder \<Rightarrow> builder" where
  "read_comments rt line b =
     (let b = (case number_in rt (gcode_number ''M572'' ''s'') line of
            None \<Rightarrow> b | Some v \<Rightarrow> b\<lparr>bd_pressure_advance := Some v\<rparr>);
          b = (case line_accel rt line of None \<Rightarrow> b | Some v \<Rightarrow> b\<lparr>bd_print_accel := Some v\<rparr>);
          b = (case re_match Z_COMMENT_RE line of
            Some [Some g] \<Rightarrow> (case float_parse rt g of None \<Rightarrow> b | Some v \<Rightarrow> b\<lparr>bd_z := Some v\<rparr>) | _ \<Rightarrow> b)
      in case re_match TYPE_RE line of
           Some [Some g] \<Rightarrow> b\<lparr>bd_tags := bd_tags b @ tags_from_type g\<rparr> | _ \<Rightarrow> b)"

definition is_layer_boundary :: "bool \<Rightarrow> string \<Rightarrow> bool" where
  "is_layer_boundary use_number_markers line \<longleftrightarrow>
     re_match (if use_number_markers then LAYER_NUMBER_RE else LAYER_CHANGE_RE) line \<noteq> None"

definition enter_layer :: "pyrt \<Rightarrow> string \<Rightarrow> builder \<Rightarrow> builder" where
  "enter_layer rt line b =
     (let next = bd_inferred_layer b + 1;
          layer = (case re_match LAYER_NUMBER_RE line of
             Some [Some g] \<Rightarrow> (case int_parse rt g of Some i \<Rightarrow> i | None \<Rightarrow> next) | _ \<Rightarrow> next)
      in b\<lparr>bd_seen_layer_marker := True, bd_layer := Some layer, bd_inferred_layer := layer,
           bd_section_pressure_advance := bd_pressure_advance b, bd_section_print_accel := bd_print_accel b\<rparr>)"

definition build_line :: "pyrt \<Rightarrow> int \<Rightarrow> bool \<Rightarrow> int \<times> string \<Rightarrow> builder \<Rightarrow> builder" where
  "build_line rt n_lines use_number_markers il b =
     (let line = str_strip (snd il) in
      if line = [] then b
      else
        let b = read_comments rt line b in
        if \<not> is_layer_boundary use_number_markers line then b
        else enter_layer rt line
          (if bd_seen_layer_marker b then flush_section rt n_lines (fst il - 1) b else b))"

definition start_builder :: builder where
  "start_builder = \<lparr>bd_sections = [], bd_start = 0, bd_z = None, bd_layer = None, bd_tags = [],
     bd_pressure_advance = None, bd_print_accel = None, bd_section_pressure_advance = None,
     bd_section_print_accel = None, bd_seen_layer_marker = False, bd_inferred_layer = -1\<rparr>"

definition whole_job_section :: "builder \<Rightarrow> int \<Rightarrow> job_section" where
  "whole_job_section b n_lines = \<lparr>jb_section_id = ''sec_0001'', jb_label = Some ''Whole-job section'',
     jb_layer_start = bd_layer b, jb_layer_end = bd_layer b, jb_z_start_mm = None, jb_z_end_mm = None,
     jb_line_start = Some 0, jb_line_end = Some (n_lines - 1), jb_tags = [], jb_summary = Some ''Whole-job section'',
     jb_progress_start_pct = Fin 0, jb_progress_end_pct = Fin 100,
     jb_pressure_advance_baseline = bd_pressure_advance b,
     jb_print_accel_baseline_mm_s2 = bd_print_accel b, jb_gcode_facts = no_facts\<rparr>"

text \<open>A section of the builder has its lines; a missing one would be an error of the interpreter.\<close>

definition retag :: "pyrt \<Rightarrow> string list \<Rightarrow> job_section \<Rightarrow> job_section" where
  "retag rt new s =
     (let tags = tag_tuple (jb_tags s @ new) in
      s\<lparr>jb_tags := tags, jb_summary := Some (section_summary rt tags (jb_z_start_mm s) (jb_layer_start s))\<rparr>)"

definition mark_tiny :: "pyrt \<Rightarrow> job_section \<Rightarrow> job_section" where
  "mark_tiny rt s = (case (jb_line_start s, jb_line_end s) of
      (Some a, Some e) \<Rightarrow>
        if e - a + 1 < 40 \<and> ''tiny_layer'' \<notin> set (jb_tags s) then retag rt [''tiny_layer''] s else s
    | _ \<Rightarrow> s)"

definition cut_sections :: "pyrt \<Rightarrow> string list \<Rightarrow> job_section list" where
  "cut_sections rt lines =
     (let n_lines = int (length lines);
          use_number_markers = list_ex (\<lambda>l. re_match LAYER_NUMBER_RE (str_strip l) \<noteq> None) lines;
          b = flush_section rt n_lines (n_lines - 1)
                (fold (build_line rt n_lines use_number_markers) (zip (map int [0..<length lines]) lines) start_builder);
          sections = (if bd_sections b = [] then [whole_job_section b n_lines] else bd_sections b)
      in map (mark_tiny rt) sections)"

section \<open>Following the machine\<close>

record machine =
  gm_x :: "pyfloat option"
  gm_y :: "pyfloat option"
  gm_z :: "pyfloat option"
  gm_e :: pyfloat
  gm_absolute_xyz :: bool
  gm_absolute_e :: bool
  gm_in_retraction :: bool
  gm_m204_p :: "pyfloat option"
  gm_m204_t :: "pyfloat option"
  gm_m204_r :: "pyfloat option"

definition start_machine :: machine where
  "start_machine = \<lparr>gm_x = None, gm_y = None, gm_z = None, gm_e = Fin 0, gm_absolute_xyz = True,
     gm_absolute_e = True, gm_in_retraction = False, gm_m204_p = None, gm_m204_t = None, gm_m204_r = None\<rparr>"

record metrics =
  me_long_travel_count :: int
  me_long_travel_distance_mm :: pyfloat
  me_travel_distance_mm :: pyfloat
  me_extrusion_move_distance_mm :: pyfloat
  me_retraction_count :: int
  me_restart_count :: int
  me_snapshot_windows :: "gcode_window list"
  me_extrusion_points :: "(pyfloat \<times> pyfloat) list"

definition no_metrics :: metrics where
  "no_metrics = \<lparr>me_long_travel_count = 0, me_long_travel_distance_mm = Fin 0, me_travel_distance_mm = Fin 0,
     me_extrusion_move_distance_mm = Fin 0, me_retraction_count = 0, me_restart_count = 0,
     me_snapshot_windows = [], me_extrusion_points = []\<rparr>"

definition is_letter :: "char \<Rightarrow> bool" where
  "is_letter c \<longleftrightarrow> is_word_char c \<and> \<not> is_digit_char c \<and> c \<noteq> CHR ''_''"

definition digits_nat :: "string \<Rightarrow> nat" where
  "digits_nat s = foldl (\<lambda>n c. 10 * n + (of_char c - 48)) 0 s"

definition COMMAND_RE :: "regex list" where
  "COMMAND_RE = [Seq (Many is_space) (Group (Sym (\<lambda>c. char_upper c \<in> {CHR ''G'', CHR ''M''}))),
     Seq (Many is_space) (Group re_digits)]"

definition gcode_command :: "string \<Rightarrow> string option" where
  "gcode_command line = (case re_match COMMAND_RE line of
      Some [Some letter, Some number] \<Rightarrow> Some (str_upper letter @ nat_str (digits_nat number))
    | _ \<Rightarrow> None)"

text \<open>
  \<open>findall\<close> of a letter and its number: the matches from the left, each behind the one before.  The
  number behind a letter needs a digit in front of its point.
\<close>

definition word_number :: "string \<Rightarrow> (string \<times> string) option" where
  "word_number s = (case re_run (Seq (Many is_space) (Group re_signed)) ([], s, None) of
      (_, rest, Some g) # _ \<Rightarrow> Some (g, rest) | _ \<Rightarrow> None)"

function find_words :: "string \<Rightarrow> (char \<times> string) list" where
  "find_words [] = []"
| "find_words (c # s) =
     (case (if is_letter c then word_number s else None) of
        None \<Rightarrow> find_words s
      | Some (g, rest) \<Rightarrow> (c, g) # find_words (drop (length s - length rest) s))"
  by pat_completeness auto
termination
  by (relation "measure length") auto

definition gcode_words :: "pyrt \<Rightarrow> string \<Rightarrow> (char \<times> pyfloat) list" where
  "gcode_words rt line = foldl (\<lambda>words (c, g). case float_parse rt g of
      None \<Rightarrow> words | Some v \<Rightarrow> dset (char_upper c) v words) [] (find_words line)"

definition has_word :: "(char \<times> pyfloat) list \<Rightarrow> char list \<Rightarrow> bool" where
  "has_word words cs \<longleftrightarrow> list_ex (\<lambda>c. map_of words c \<noteq> None) cs"

definition set_word :: "(char \<times> pyfloat) list \<Rightarrow> char \<Rightarrow> (pyfloat \<Rightarrow> machine \<Rightarrow> machine) \<Rightarrow> machine \<Rightarrow> machine" where
  "set_word words c u m = (case map_of words c of None \<Rightarrow> m | Some v \<Rightarrow> u v m)"

definition update_m204_state :: "(char \<times> pyfloat) list \<Rightarrow> machine \<Rightarrow> machine" where
  "update_m204_state words m =
     (let m = set_word words (CHR ''P'') (\<lambda>v m. m\<lparr>gm_m204_p := Some v\<rparr>) m;
          m = set_word words (CHR ''T'') (\<lambda>v m. m\<lparr>gm_m204_t := Some v\<rparr>) m;
          m = set_word words (CHR ''R'') (\<lambda>v m. m\<lparr>gm_m204_r := Some v\<rparr>) m
      in if has_word words ''PTR'' then m
         else set_word words (CHR ''S'') (\<lambda>v m. m\<lparr>gm_m204_p := Some v, gm_m204_t := Some v\<rparr>) m)"

definition m204_window_label :: "pyrt \<Rightarrow> machine \<Rightarrow> string" where
  "m204_window_label rt m =
     (let piece = (\<lambda>l x. case x of None \<Rightarrow> [] | Some v \<Rightarrow> [l @ float_fixed rt 0 v]);
          pieces = piece ''P'' (gm_m204_p m) @ piece ''T'' (gm_m204_t m) @ piece ''R'' (gm_m204_r m)
      in if pieces = [] then ''M204 command'' else ''M204 active '' @ str_join '' '' pieces)"

definition target_axis_value :: "(char \<times> pyfloat) list \<Rightarrow> char \<Rightarrow> pyfloat option \<Rightarrow> bool \<Rightarrow> pyfloat option" where
  "target_axis_value words key current absolute = (case map_of words key of
      None \<Rightarrow> current
    | Some v \<Rightarrow> if absolute then Some v
        else Some (float_add (case current of None \<Rightarrow> Fin 0 | Some c \<Rightarrow> c) v))"

definition e_delta :: "(char \<times> pyfloat) list \<Rightarrow> pyfloat \<Rightarrow> bool \<Rightarrow> pyfloat" where
  "e_delta words current_e absolute_e = (case map_of words (CHR ''E'') of
      None \<Rightarrow> Fin 0
    | Some v \<Rightarrow> if absolute_e then float_sub v current_e else v)"

definition xy_distance :: "job_env \<Rightarrow> pyfloat option \<Rightarrow> pyfloat option \<Rightarrow> pyfloat option \<Rightarrow> pyfloat option \<Rightarrow> pyfloat" where
  "xy_distance env old_x old_y target_x target_y = (case (old_x, old_y, target_x, target_y) of
      (Some a, Some b, Some c, Some d) \<Rightarrow> jn_hypot env (float_sub c a) (float_sub d b) | _ \<Rightarrow> Fin 0)"

definition add_snapshot_window :: "int \<Rightarrow> int \<Rightarrow> string \<Rightarrow> string list \<Rightarrow> metrics \<Rightarrow> metrics" where
  "add_snapshot_window line_index n_lines label reason_tags me =
     (if length (me_snapshot_windows me) \<ge> 6 then me
      else me\<lparr>me_snapshot_windows := me_snapshot_windows me @
        [\<lparr>gw_window_id = ''gcode_window_'' @ zero_pad 6 line_index @ ''_'' @ str_join ''_'' reason_tags,
          gw_label = label, gw_line_start = Some (max 0 (line_index - 2)),
          gw_line_end = Some (min (n_lines - 1) (line_index + 2)), gw_reason_tags = reason_tags\<rparr>]\<rparr>)"

text \<open>A move: retraction, extrusion or travel, then the new position.\<close>

definition count_move :: "pyrt \<Rightarrow> int \<Rightarrow> int \<Rightarrow> pyfloat \<Rightarrow> pyfloat \<Rightarrow> pyfloat option \<Rightarrow> pyfloat option
    \<Rightarrow> machine \<times> metrics \<Rightarrow> machine \<times> metrics" where
  "count_move rt line_index n_lines de distance target_x target_y mm =
     (case mm of (m, me) \<Rightarrow>
        if float_less de (Fin (- 1 / 10000))
        then (m\<lparr>gm_in_retraction := True\<rparr>,
              add_snapshot_window line_index n_lines ''Retraction move'' [''retraction'']
                (me\<lparr>me_retraction_count := me_retraction_count me + 1\<rparr>))
        else if float_less (Fin (1 / 10000)) de
        then let (m, me) =
               (if gm_in_retraction m
                then (m\<lparr>gm_in_retraction := False\<rparr>,
                      add_snapshot_window line_index n_lines ''Restart after retraction'' [''restart'']
                        (me\<lparr>me_restart_count := me_restart_count me + 1\<rparr>))
                else (m, me))
             in (m, if float_less (Fin 0) distance
                    then let me = me\<lparr>me_extrusion_move_distance_mm :=
                               float_add (me_extrusion_move_distance_mm me) distance\<rparr>
                         in (case (target_x, target_y) of
                               (Some x, Some y) \<Rightarrow> me\<lparr>me_extrusion_points := me_extrusion_points me @ [(x, y)]\<rparr>
                             | _ \<Rightarrow> me)
                    else me)
        else if float_less (Fin 0) distance
        then (m, let me = me\<lparr>me_travel_distance_mm := float_add (me_travel_distance_mm me) distance\<rparr>
                 in if float_le (Fin 10) distance
                    then add_snapshot_window line_index n_lines
                           (''Long travel '' @ float_fixed rt 1 distance @ '' mm'') [''long_travel'']
                           (me\<lparr>me_long_travel_count := me_long_travel_count me + 1,
                               me_long_travel_distance_mm := float_add (me_long_travel_distance_mm me) distance\<rparr>)
                    else me)
        else (m, me))"

definition move_to :: "(char \<times> pyfloat) list \<Rightarrow> pyfloat option \<Rightarrow> pyfloat option \<Rightarrow> pyfloat option \<Rightarrow> machine \<Rightarrow> machine" where
  "move_to words target_x target_y target_z m =
     (let m = (if target_x = None then m else m\<lparr>gm_x := target_x\<rparr>);
          m = (if target_y = None then m else m\<lparr>gm_y := target_y\<rparr>);
          m = (if target_z = None then m else m\<lparr>gm_z := target_z\<rparr>)
      in set_word words (CHR ''E'') (\<lambda>v m. m\<lparr>gm_e := if gm_absolute_e m then v else float_add (gm_e m) v\<rparr>) m)"

definition observe_gcode_line :: "job_env \<Rightarrow> int \<Rightarrow> int \<times> string \<Rightarrow> machine \<times> metrics \<Rightarrow> machine \<times> metrics" where
  "observe_gcode_line env n_lines il mm =
     (let rt = jn_rt env; upper = str_upper (str_strip (takeWhile (\<lambda>c. c \<noteq> CHR '';'') (snd il)));
          command = gcode_command upper; words = gcode_words rt upper; m = fst mm
      in if upper = [] then mm
         else if command = Some ''G90'' then (m\<lparr>gm_absolute_xyz := True\<rparr>, snd mm)
         else if command = Some ''G91'' then (m\<lparr>gm_absolute_xyz := False\<rparr>, snd mm)
         else if command = Some ''M82'' then (m\<lparr>gm_absolute_e := True\<rparr>, snd mm)
         else if command = Some ''M83'' then (m\<lparr>gm_absolute_e := False\<rparr>, snd mm)
         else if command = Some ''G92'' then
           (set_word words (CHR ''Z'') (\<lambda>v m. m\<lparr>gm_z := Some v\<rparr>)
             (set_word words (CHR ''Y'') (\<lambda>v m. m\<lparr>gm_y := Some v\<rparr>)
             (set_word words (CHR ''X'') (\<lambda>v m. m\<lparr>gm_x := Some v\<rparr>)
             (set_word words (CHR ''E'') (\<lambda>v m. m\<lparr>gm_e := v\<rparr>) m))), snd mm)
         else if command = Some ''M204'' then
           let words = (if has_word words ''PTRS'' then words
                 else case number_in rt M204_BARE_RE upper of None \<Rightarrow> words | Some v \<Rightarrow> dset (CHR ''S'') v words);
               m = update_m204_state words m
           in (m, add_snapshot_window (fst il) n_lines (m204_window_label rt m) [''m204'', ''accel''] (snd mm))
         else if command \<in> {Some ''G0'', Some ''G00'', Some ''G1'', Some ''G01''} then
           let x = target_axis_value words (CHR ''X'') (gm_x m) (gm_absolute_xyz m);
               y = target_axis_value words (CHR ''Y'') (gm_y m) (gm_absolute_xyz m);
               z = target_axis_value words (CHR ''Z'') (gm_z m) (gm_absolute_xyz m);
               counted = count_move rt (fst il) n_lines (e_delta words (gm_e m) (gm_absolute_e m))
                 (xy_distance env (gm_x m) (gm_y m) x y) x y mm
           in (move_to words x y z (fst counted), snd counted)
         else mm)"

section \<open>The facts of a section\<close>

definition fold1 :: "('a \<Rightarrow> 'a \<Rightarrow> 'a) \<Rightarrow> 'a list \<Rightarrow> 'a" where
  "fold1 f xs = foldl f (hd xs) (tl xs)"

definition extrusion_bbox :: "pyrt \<Rightarrow> (pyfloat \<times> pyfloat) list
    \<Rightarrow> (pyfloat \<times> pyfloat \<times> pyfloat \<times> pyfloat) option" where
  "extrusion_bbox rt points =
     (if points = [] then None
      else let xs = map fst points; ys = map snd points; r = round_half_even rt 3 in
        Some (r (fold1 float_min xs), r (fold1 float_min ys), r (fold1 float_max xs), r (fold1 float_max ys)))"

text \<open>The nearest cluster within the threshold, the first one among equals.\<close>

fun nearest_cluster :: "job_env \<Rightarrow> pyfloat \<Rightarrow> pyfloat \<Rightarrow> nat \<Rightarrow> (pyfloat \<times> pyfloat \<times> int) list
    \<Rightarrow> (nat \<times> pyfloat) option \<Rightarrow> (nat \<times> pyfloat) option" where
  "nearest_cluster env x y i [] best = best"
| "nearest_cluster env x y i ((cx, cy, _) # cs) best =
     (let d = jn_hypot env (float_sub x cx) (float_sub y cy);
          better = float_le d (Fin 12) \<and> (case best of None \<Rightarrow> True | Some (_, bd) \<Rightarrow> float_less d bd)
      in nearest_cluster env x y (i + 1) cs (if better then Some (i, d) else best))"

definition join_cluster :: "job_env \<Rightarrow> (pyfloat \<times> pyfloat \<times> int) list \<Rightarrow> pyfloat \<times> pyfloat
    \<Rightarrow> (pyfloat \<times> pyfloat \<times> int) list" where
  "join_cluster env clusters p = (case p of (x, y) \<Rightarrow>
     (case nearest_cluster env x y 0 clusters None of
        None \<Rightarrow> clusters @ [(x, y, 1)]
      | Some (i, _) \<Rightarrow> (case clusters ! i of (cx, cy, n) \<Rightarrow>
          let step = (\<lambda>a c. float_add c (float_scale (1 / of_int (n + 1)) (float_sub a c)))
          in clusters[i := (step x cx, step y cy, n + 1)])))"

definition extrusion_cluster_count :: "job_env \<Rightarrow> (pyfloat \<times> pyfloat) list \<Rightarrow> int" where
  "extrusion_cluster_count env points = int (length (foldl (join_cluster env) [] points))"

text \<open>The quotient of two lengths, the second one positive.\<close>

fun float_ratio :: "pyfloat \<Rightarrow> pyfloat \<Rightarrow> pyfloat" where
  "float_ratio a (Fin b) = float_scale (1 / b) a"
| "float_ratio (Fin a) Inf = Fin 0"
| "float_ratio _ _ = NaN"

definition facts_of :: "job_env \<Rightarrow> machine \<Rightarrow> metrics \<Rightarrow> gcode_facts" where
  "facts_of env m me =
     (let r = round_half_even (jn_rt env) 3; extrusion = me_extrusion_move_distance_mm me;
          travel = me_travel_distance_mm me
      in \<lparr>gf_long_travel_count = me_long_travel_count me,
          gf_long_travel_distance_mm = r (me_long_travel_distance_mm me), gf_travel_distance_mm = r travel,
          gf_extrusion_move_distance_mm = r extrusion,
          gf_travel_to_extrusion_ratio = (if float_less (Fin 0) extrusion then Some (r (float_ratio travel extrusion)) else None),
          gf_retraction_count = me_retraction_count me, gf_restart_count = me_restart_count me,
          gf_active_m204_p_mm_s2 = map_option r (gm_m204_p m), gf_active_m204_t_mm_s2 = map_option r (gm_m204_t m),
          gf_active_m204_r_mm_s2 = map_option r (gm_m204_r m),
          gf_extrusion_cluster_count = extrusion_cluster_count env (me_extrusion_points me),
          gf_extrusion_bbox_mm = extrusion_bbox (jn_rt env) (me_extrusion_points me),
          gf_snapshot_windows = take 6 (me_snapshot_windows me)\<rparr>)"

definition section_lines :: "string list \<Rightarrow> job_section \<Rightarrow> (int \<times> string) list" where
  "section_lines lines s =
     (let a = max 0 (case jb_line_start s of None \<Rightarrow> 0 | Some i \<Rightarrow> i);
          e = min (int (length lines) - 1) (case jb_line_end s of None \<Rightarrow> int (length lines) - 1 | Some i \<Rightarrow> i)
      in map (\<lambda>i. (i, lines ! nat i)) [a..e])"

definition annotate_section :: "job_env \<Rightarrow> string list \<Rightarrow> job_section \<Rightarrow> machine \<Rightarrow> job_section \<times> machine" where
  "annotate_section env lines s m =
     (case fold (observe_gcode_line env (int (length lines))) (section_lines lines s) (m, no_metrics) of
        (m', me) \<Rightarrow> (s\<lparr>jb_gcode_facts := facts_of env m' me\<rparr>, m'))"

fun annotate_sections :: "job_env \<Rightarrow> string list \<Rightarrow> job_section list \<Rightarrow> machine \<Rightarrow> job_section list" where
  "annotate_sections env lines [] m = []"
| "annotate_sections env lines (s # ss) m =
     (case annotate_section env lines s m of (s', m') \<Rightarrow> s' # annotate_sections env lines ss m')"

definition tower_candidate :: "job_env \<Rightarrow> job_section \<Rightarrow> bool" where
  "tower_candidate env s =
     (let f = jb_gcode_facts s in
      case gf_extrusion_bbox_mm f of
        None \<Rightarrow> False
      | Some (x0, y0, x1, y1) \<Rightarrow>
          gf_extrusion_cluster_count f \<ge> 2 \<and> gf_long_travel_count f \<ge> 1 \<and> gf_retraction_count f \<ge> 1
          \<and> float_le (jn_hypot env (float_sub x1 x0) (float_sub y1 y0)) (Fin 120))"

definition annotate_towers :: "job_env \<Rightarrow> job_section list \<Rightarrow> job_section list" where
  "annotate_towers env ss =
     (if length (filter (tower_candidate env) ss) < 3 then ss
      else map (\<lambda>s. if tower_candidate env s
                    then retag (jn_rt env) [''repeated_tower'', ''stringing_test_geometry''] s else s) ss)"

definition build_sections :: "job_env \<Rightarrow> string \<Rightarrow> job_section list" where
  "build_sections env file_text =
     (let lines = str_lines [] file_text in
      if lines = [] then []
      else annotate_towers env (annotate_sections env lines (cut_sections (jn_rt env) lines) start_machine))"

section \<open>The sections partition the file\<close>

text \<open>Sections that follow one another from line \<open>a\<close> to the line before \<open>b\<close>, in lines and in percent.\<close>

fun partitions :: "pyrt \<Rightarrow> int \<Rightarrow> int \<Rightarrow> int \<Rightarrow> job_section list \<Rightarrow> bool" where
  "partitions rt n a b [] \<longleftrightarrow> a = b"
| "partitions rt n a b (s # ss) \<longleftrightarrow> (\<exists>e \<ge> a. jb_line_start s = Some a \<and> jb_line_end s = Some e
     \<and> jb_progress_start_pct s = progress_pct rt n a \<and> jb_progress_end_pct s = progress_pct rt n (e + 1)
     \<and> partitions rt n (e + 1) b ss)"

definition same_place :: "job_section \<Rightarrow> job_section \<Rightarrow> bool" where
  "same_place s t \<longleftrightarrow> jb_line_start s = jb_line_start t \<and> jb_line_end s = jb_line_end t
     \<and> jb_progress_start_pct s = jb_progress_start_pct t \<and> jb_progress_end_pct s = jb_progress_end_pct t"

lemma partitions_le: "partitions rt n a b ss \<Longrightarrow> a \<le> b"
  by (induction ss arbitrary: a) force+

lemma partitions_snoc: "partitions rt n a b ss \<Longrightarrow> partitions rt n b c [s] \<Longrightarrow> partitions rt n a c (ss @ [s])"
  by (induction ss arbitrary: a) auto

lemma partitions_same_place: "list_all2 same_place ss ts \<Longrightarrow> partitions rt n a b ss \<Longrightarrow> partitions rt n a b ts"
proof (induction arbitrary: a rule: list_all2_induct)
  case (Cons s ss t ts)
  then show ?case by (auto simp: same_place_def)
qed simp

lemma same_place_map: "(\<And>s. same_place s (f s)) \<Longrightarrow> list_all2 same_place ss (map f ss)"
  by (simp add: list_all2_conv_all_nth)

lemma same_place_retag [simp]: "same_place s (retag rt new s)"
  by (simp add: same_place_def retag_def Let_def)

lemma same_place_refl [simp]: "same_place s s"
  by (simp add: same_place_def)

lemma same_place_tiny: "same_place s (mark_tiny rt s)"
  by (simp add: mark_tiny_def split: option.splits)

lemma same_place_annotate: "list_all2 same_place ss (annotate_sections env lines ss m)"
proof (induction ss arbitrary: m)
  case (Cons s ss)
  obtain s' m' where a: "annotate_section env lines s m = (s', m')" by (metis surj_pair)
  then have "same_place s s'" by (auto simp: annotate_section_def same_place_def split: prod.splits)
  then show ?case using Cons a by simp
qed simp

lemma same_place_towers: "list_all2 same_place ss (annotate_towers env ss)"
  unfolding annotate_towers_def by (auto intro!: same_place_map simp: list.rel_refl)

text \<open>The builder before line \<open>k\<close>: its sections end where the open one starts.\<close>

definition built_to :: "pyrt \<Rightarrow> int \<Rightarrow> int \<Rightarrow> builder \<Rightarrow> bool" where
  "built_to rt n k b \<longleftrightarrow> partitions rt n 0 (bd_start b) (bd_sections b) \<and> bd_start b \<le> max 0 (k - 1)"

lemma flush_partitions:
  assumes "partitions rt n 0 (bd_start b) (bd_sections b)"
  shows "partitions rt n 0 (bd_start (flush_section rt n e b)) (bd_sections (flush_section rt n e b))"
    and "bd_start (flush_section rt n e b) = max (bd_start b) (e + 1)"
  using assms by (auto simp: flush_section_def Let_def intro!: partitions_snoc)

lemma read_comments_keep [simp]:
  "bd_sections (read_comments rt line b) = bd_sections b" "bd_start (read_comments rt line b) = bd_start b"
  by (simp_all add: read_comments_def Let_def split: option.splits list.splits)

lemma enter_layer_keep [simp]:
  "bd_sections (enter_layer rt line b) = bd_sections b" "bd_start (enter_layer rt line b) = bd_start b"
  by (simp_all add: enter_layer_def Let_def)

lemma build_line_built:
  assumes "built_to rt n k b" and "0 \<le> k"
  shows "built_to rt n (k + 1) (build_line rt n u (k, line) b)"
proof -
  let ?c = "read_comments rt (str_strip line) b"
  have c: "partitions rt n 0 (bd_start ?c) (bd_sections ?c)" "bd_start ?c \<le> max 0 (k - 1)"
    using assms(1) by (simp_all add: built_to_def)
  note f = flush_partitions [OF c(1), of "k - 1"]
  have "bd_start (flush_section rt n (k - 1) ?c) \<le> max 0 k"
    using f(2) c(2) assms(2) by simp
  then show ?thesis
    using f(1) c assms by (auto simp: build_line_def Let_def built_to_def)
qed

lemma build_lines_built:
  assumes "built_to rt n k b" and "0 \<le> k"
  shows "built_to rt n (k + int (length lines))
    (fold (build_line rt n u) (zip (map (\<lambda>i. k + int i) [0..<length lines]) lines) b)"
  using assms
proof (induction lines arbitrary: k b)
  case (Cons l ls)
  have shift: "map (\<lambda>i. k + int i) [0..<length (l # ls)]
      = k # map (\<lambda>i. (k + 1) + int i) [0..<length ls]"
    by (simp add: upt_conv_Cons map_Suc_upt [symmetric] del: upt_Suc)
  have "built_to rt n ((k + 1) + int (length ls))
     (fold (build_line rt n u) (zip (map (\<lambda>i. (k + 1) + int i) [0..<length ls]) ls) (build_line rt n u (k, l) b))"
    by (rule Cons.IH [OF build_line_built [OF Cons.prems]]) (use Cons.prems in simp)
  then show ?case unfolding shift by (simp add: algebra_simps)
qed simp

lemma cut_sections_partition:
  assumes "lines \<noteq> []"
  shows "partitions rt (int (length lines)) 0 (int (length lines)) (cut_sections rt lines)"
proof -
  let ?n = "int (length lines)"
  let ?u = "list_ex (\<lambda>l. re_match LAYER_NUMBER_RE (str_strip l) \<noteq> None) lines"
  let ?b = "fold (build_line rt ?n ?u) (zip (map int [0..<length lines]) lines) start_builder"
  have n: "0 < ?n" using assms by simp
  have "built_to rt ?n ?n ?b"
    using build_lines_built [of rt ?n 0 start_builder lines ?u] by (simp add: built_to_def start_builder_def)
  then have b: "partitions rt ?n 0 (bd_start ?b) (bd_sections ?b)" "bd_start ?b \<le> ?n - 1"
    using n by (simp_all add: built_to_def)
  note f = flush_partitions [OF b(1), of "?n - 1"]
  have whole: "partitions rt ?n 0 ?n (bd_sections (flush_section rt ?n (?n - 1) ?b))"
    using f b(2) by simp
  then have "bd_sections (flush_section rt ?n (?n - 1) ?b) \<noteq> []" using n by auto
  then show ?thesis
    unfolding cut_sections_def Let_def
    using partitions_same_place [OF same_place_map [of "mark_tiny rt", OF same_place_tiny] whole] by simp
qed

lemma build_sections_partition:
  assumes "str_lines [] file_text = lines" and "lines \<noteq> []"
  shows "partitions (jn_rt env) (int (length lines)) 0 (int (length lines)) (build_sections env file_text)"
  using assms cut_sections_partition [OF assms(2), of "jn_rt env"]
  by (simp add: build_sections_def partitions_same_place [OF same_place_towers]
      partitions_same_place [OF same_place_annotate])

lemma zip_range:
  assumes "0 \<le> a" and "a \<le> b" and "b \<le> int (length lines)"
  shows "map (\<lambda>i. (i, lines ! nat i)) [a..b - 1] @ drop (nat b) (zip (map int [0..<length lines]) lines)
    = drop (nat a) (zip (map int [0..<length lines]) lines)"
proof (rule nth_equalityI)
  show "length (map (\<lambda>i. (i, lines ! nat i)) [a..b - 1] @ drop (nat b) (zip (map int [0..<length lines]) lines))
      = length (drop (nat a) (zip (map int [0..<length lines]) lines))"
    using assms by simp
next
  fix i
  assume "i < length (map (\<lambda>i. (i, lines ! nat i)) [a..b - 1] @ drop (nat b) (zip (map int [0..<length lines]) lines))"
  then have i: "i < length lines - nat a" using assms by simp
  show "(map (\<lambda>i. (i, lines ! nat i)) [a..b - 1] @ drop (nat b) (zip (map int [0..<length lines]) lines)) ! i
      = drop (nat a) (zip (map int [0..<length lines]) lines) ! i"
  proof (cases "i < nat (b - a)")
    case True
    then show ?thesis using assms i by (simp add: nth_append nat_add_distrib)
  next
    case False
    then have "nat b + (i - nat (b - a)) = nat a + i" using assms by simp
    then show ?thesis using False assms i by (simp add: nth_append)
  qed
qed

lemma partition_lines:
  assumes "partitions rt n a b ss" and "0 \<le> a" and "b = int (length lines)"
  shows "concat (map (section_lines lines) ss) = drop (nat a) (zip (map int [0..<length lines]) lines)"
  using assms
proof (induction ss arbitrary: a)
  case (Cons s ss)
  then obtain e where e: "a \<le> e" "jb_line_start s = Some a" "jb_line_end s = Some e" "partitions rt n (e + 1) b ss"
    by auto
  have le: "e + 1 \<le> int (length lines)" using partitions_le [OF e(4)] Cons.prems by simp
  have "section_lines lines s = map (\<lambda>i. (i, lines ! nat i)) [a..(e + 1) - 1]"
    using e le Cons.prems(2) by (simp add: section_lines_def)
  then show ?case
    using Cons.IH [OF e(4) _ Cons.prems(3)] Cons.prems(2) e(1) le zip_range [of a "e + 1" lines] by simp
qed simp


text \<open>A slicer that writes a number without the digit before its point is not understood.\<close>

lemma leading_point_unread: "find_words ''G1 X1 E.5'' = [(CHR ''G'', ''1''), (CHR ''X'', ''1'')]"
  by code_simp

end
