(* ===== verification/JobNotebook.thy ===== *)
theory JobNotebook
  imports JobSections Ids Openrouter "HOL-Library.Product_Lexorder"
begin

text \<open>
  The notebook of a print job: the notes of \<open>packs/prusa_core_one_plus/types.py\<close> and their selection for
  a progress, the notes that \<open>job_notebook.py\<close> derives from the sections, the notebook it builds and
  the JSON form in which it is kept.  The files themselves are arguments: the text of the G-code, the
  payload of a note file.
\<close>

section \<open>Notes\<close>

datatype family = Speed | Flow | Nozzle | Bed | Pressure_advance | Accel
datatype confidence = Conf_low | Conf_medium | Conf_high
datatype note_scope = Scope_global | Scope_local
datatype provenance_source = From_parser | From_llm | From_manual | From_imported

fun family_value :: "family \<Rightarrow> string" where
  "family_value Speed = ''speed''"
| "family_value Flow = ''flow''"
| "family_value Nozzle = ''nozzle''"
| "family_value Bed = ''bed''"
| "family_value Pressure_advance = ''pressure_advance''"
| "family_value Accel = ''accel''"

definition families :: "family list" where
  "families = [Speed, Flow, Nozzle, Bed, Pressure_advance, Accel]"

fun confidence_value :: "confidence \<Rightarrow> string" where
  "confidence_value Conf_low = ''low''"
| "confidence_value Conf_medium = ''medium''"
| "confidence_value Conf_high = ''high''"

fun scope_value :: "note_scope \<Rightarrow> string" where
  "scope_value Scope_global = ''global''"
| "scope_value Scope_local = ''local''"

fun source_value :: "provenance_source \<Rightarrow> string" where
  "source_value From_parser = ''parser''"
| "source_value From_llm = ''llm''"
| "source_value From_manual = ''manual''"
| "source_value From_imported = ''imported''"

text \<open>\<open>Family(s)\<close> and its siblings: the member with this value.\<close>

definition member_of :: "('a \<Rightarrow> string) \<Rightarrow> 'a list \<Rightarrow> string \<Rightarrow> 'a option" where
  "member_of val ms s = find (\<lambda>m. val m = s) ms"

record note_anchors =
  an_layer_range :: "(int option \<times> int option) option"
  an_z_range_mm :: "(pyfloat option \<times> pyfloat option) option"
  an_gcode_line_range :: "(int option \<times> int option) option"

definition no_anchors :: note_anchors where
  "no_anchors = \<lparr>an_layer_range = None, an_z_range_mm = None, an_gcode_line_range = None\<rparr>"

record job_note =
  no_note_id :: string
  no_scope :: note_scope
  no_title :: string
  no_text :: string
  no_confidence :: confidence
  no_reason_tags :: "string list"
  no_suggested_families :: "family list"
  no_section_ids :: "string list"
  no_anchors_of :: note_anchors
  no_source :: provenance_source
  no_evidence :: "string list"
  no_priority :: int

record job_metadata =
  jm_job_hash :: string
  jm_file_name :: string
  jm_file_path :: "string option"
  jm_source_type :: string
  jm_material_profile_name :: "string option"
  jm_material_family :: "string option"
  jm_slicer_name :: "string option"
  jm_slicer_profile :: "string option"
  jm_generated_at :: string

record baselines =
  bl_speed_pct :: "pyfloat option"
  bl_flow_pct :: "pyfloat option"
  bl_nozzle_target_c :: "pyfloat option"
  bl_bed_target_c :: "pyfloat option"
  bl_pressure_advance :: "pyfloat option"
  bl_print_accel_mm_s2 :: "pyfloat option"
  bl_estimated_print_time_s :: "pyfloat option"

record notebook =
  nb_schema_version :: string
  nb_notebook_id :: string
  nb_printer_family :: string
  nb_job :: job_metadata
  nb_baselines :: baselines
  nb_sections :: "job_section list"
  nb_global_notes :: "job_note list"
  nb_local_notes :: "job_note list"
  nb_parser_version :: string
  nb_notebook_builder :: string
  nb_built_at :: string
  nb_layer_height_mm :: "pyfloat option"
  nb_source_text_grounded :: bool

text \<open>The checks of \<open>__post_init__\<close>.\<close>

definition mk_note :: "job_note \<Rightarrow> pyexc + job_note" where
  "mk_note n =
     (if no_scope n = Scope_global \<and> no_section_ids n \<noteq> []
      then Inl (ValueError ''global notebook notes must not include section_ids'')
      else if no_scope n = Scope_local \<and> no_section_ids n = []
      then Inl (ValueError ''local notebook notes must include section_ids'')
      else Inr n)"

definition mk_notebook :: "notebook \<Rightarrow> pyexc + notebook" where
  "mk_notebook nb =
     (case find (\<lambda>n. no_scope n \<noteq> Scope_global \<or> no_section_ids n \<noteq> []) (nb_global_notes nb) of
        Some n \<Rightarrow> Inl (ValueError (if no_scope n \<noteq> Scope_global then ''global_notes must contain only global notes''
                    else ''global_notes entries must not include section_ids''))
      | None \<Rightarrow>
        (case find (\<lambda>n. no_scope n \<noteq> Scope_local \<or> no_section_ids n = []) (nb_local_notes nb) of
           Some n \<Rightarrow> Inl (ValueError (if no_scope n \<noteq> Scope_local then ''local_notes must contain only local notes''
                       else ''local_notes entries must include section_ids''))
         | None \<Rightarrow> Inr nb))"

section \<open>The active section\<close>

definition in_section :: "pyfloat \<Rightarrow> job_section \<Rightarrow> bool" where
  "in_section p s \<longleftrightarrow> float_le (jb_progress_start_pct s) p \<and> float_le p (jb_progress_end_pct s)"

definition active_section :: "job_section list \<Rightarrow> pyfloat option \<Rightarrow> job_section option" where
  "active_section ss progress = (case progress of
      None \<Rightarrow> None
    | Some p \<Rightarrow>
        if ss = [] then None
        else case find (in_section p) ss of
          Some s \<Rightarrow> Some s
        | None \<Rightarrow> (case find (\<lambda>s. float_less p (jb_progress_start_pct s)) ss of
            Some s \<Rightarrow> Some s | None \<Rightarrow> Some (List.last ss)))"

definition active_baseline :: "(job_section \<Rightarrow> pyfloat option) \<Rightarrow> pyfloat option \<Rightarrow> job_section list \<Rightarrow> pyfloat option
    \<Rightarrow> pyfloat option" where
  "active_baseline sel dflt ss progress = (case active_section ss progress of
      None \<Rightarrow> dflt | Some s \<Rightarrow> (case sel s of None \<Rightarrow> dflt | Some v \<Rightarrow> Some v))"

definition active_pressure_advance_baseline :: "notebook \<Rightarrow> pyfloat option \<Rightarrow> pyfloat option" where
  "active_pressure_advance_baseline nb =
     active_baseline jb_pressure_advance_baseline (bl_pressure_advance (nb_baselines nb)) (nb_sections nb)"

definition active_print_accel_baseline_mm_s2 :: "notebook \<Rightarrow> pyfloat option \<Rightarrow> pyfloat option" where
  "active_print_accel_baseline_mm_s2 nb =
     active_baseline jb_print_accel_baseline_mm_s2 (bl_print_accel_mm_s2 (nb_baselines nb)) (nb_sections nb)"

definition sections_for_window :: "job_section list \<Rightarrow> pyfloat option \<Rightarrow> pyfloat option \<Rightarrow> job_section list" where
  "sections_for_window ss progress_start progress_end = (case (progress_start, progress_end) of
      (Some a, Some e) \<Rightarrow> filter (\<lambda>s. float_le (jb_progress_start_pct s) e
          \<and> float_le a (jb_progress_end_pct s)) ss
    | _ \<Rightarrow> [])"

section \<open>The planner facts of the active section\<close>

record section_planning =
  sp_section_id :: string
  sp_progress_start_pct :: pyfloat
  sp_progress_end_pct :: pyfloat
  sp_remaining_progress_pct :: "pyfloat option"
  sp_remaining_time_s :: "pyfloat option"
  sp_gcode_facts :: gcode_facts

fun float_mult :: "pyfloat \<Rightarrow> pyfloat \<Rightarrow> pyfloat" where
  "float_mult (Fin a) b = float_scale a b"
| "float_mult a (Fin b) = float_scale b a"
| "float_mult NaN _ = NaN"
| "float_mult _ NaN = NaN"
| "float_mult a b = (if a = b then Inf else NegInf)"

definition section_planning_facts :: "pyrt \<Rightarrow> notebook \<Rightarrow> pyfloat option \<Rightarrow> section_planning option" where
  "section_planning_facts rt nb progress = map_option (\<lambda>s.
     let remaining = map_option (\<lambda>p. float_max (Fin 0)
           (round_half_even rt 2 (float_sub (jb_progress_end_pct s) p))) progress
     in \<lparr>sp_section_id = jb_section_id s, sp_progress_start_pct = jb_progress_start_pct s,
         sp_progress_end_pct = jb_progress_end_pct s, sp_remaining_progress_pct = remaining,
         sp_remaining_time_s = (case (remaining, bl_estimated_print_time_s (nb_baselines nb)) of
            (Some r, Some t) \<Rightarrow> Some (round_half_even rt 1 (float_mult (float_scale (1 / 100) r) t)) | _ \<Rightarrow> None),
         sp_gcode_facts = jb_gcode_facts s\<rparr>) (active_section (nb_sections nb) progress)"

definition is_tower :: "job_section \<Rightarrow> bool" where
  "is_tower s \<longleftrightarrow> ''stringing_test_geometry'' \<in> set (jb_tags s) \<or> ''repeated_tower'' \<in> set (jb_tags s)"

definition geometry_planner_facts :: "job_section list \<Rightarrow> dict" where
  "geometry_planner_facts ss =
     (let tagged = filter is_tower ss; strs = (\<lambda>xs. PyList (map PyStr xs)) in
      if tagged = []
      then [(''repeated_tower_or_stringing_test'', PyBool False), (''confidence'', PyStr ''low''),
            (''reason_tags'', strs []), (''section_ids'', strs [])]
      else [(''repeated_tower_or_stringing_test'', PyBool True),
            (''confidence'', PyStr (if length tagged \<ge> 3 then ''high'' else ''medium'')),
            (''reason_tags'', strs [''repeated_tower'', ''stringing_test_geometry'']),
            (''section_ids'', strs (map jb_section_id (take 8 tagged)))])"

section \<open>The active notes\<close>

record selection_context =
  sc_lifecycle :: string
  sc_job_active :: bool
  sc_job_progress_pct :: "pyfloat option"
  sc_current_layer :: "int option"
  sc_current_z_mm :: "pyfloat option"
  sc_current_section_ids :: "string list"
  sc_lookahead_section_ids :: "string list"

definition selection_context_of :: "notebook \<Rightarrow> pyfloat option \<Rightarrow> pyfloat \<Rightarrow> string \<Rightarrow> bool \<Rightarrow> selection_context" where
  "selection_context_of nb progress lookahead lifecycle active =
     (let ss = nb_sections nb; here = sections_for_window ss progress progress;
          current = (if here = [] \<and> progress \<noteq> None
            then (case active_section ss progress of None \<Rightarrow> [] | Some s \<Rightarrow> [s]) else here);
          window_end = map_option (\<lambda>p. float_min (Fin 100) (float_add p (float_max (Fin 0) lookahead))) progress;
          current_ids = map jb_section_id current;
          ahead = filter (\<lambda>i. i \<notin> set current_ids) (map jb_section_id (sections_for_window ss progress window_end))
      in \<lparr>sc_lifecycle = lifecycle, sc_job_active = active, sc_job_progress_pct = progress,
          sc_current_layer = (case current of [] \<Rightarrow> None | s # _ \<Rightarrow> jb_layer_start s),
          sc_current_z_mm = (case current of [] \<Rightarrow> None | s # _ \<Rightarrow> jb_z_start_mm s),
          sc_current_section_ids = current_ids, sc_lookahead_section_ids = ahead\<rparr>)"

fun confidence_rank :: "confidence \<Rightarrow> nat" where
  "confidence_rank Conf_high = 0"
| "confidence_rank Conf_medium = 1"
| "confidence_rank Conf_low = 2"

definition note_sort_key :: "job_note \<Rightarrow> int \<times> nat \<times> string" where
  "note_sort_key n = (no_priority n, confidence_rank (no_confidence n), no_note_id n)"

record note_view =
  nv_note_id :: string
  nv_scope :: note_scope
  nv_title :: string
  nv_text :: string
  nv_confidence :: confidence
  nv_reason_tags :: "string list"
  nv_suggested_families :: "family list"
  nv_section_ids :: "string list"

definition note_view_of :: "job_note \<Rightarrow> note_view" where
  "note_view_of n = \<lparr>nv_note_id = no_note_id n, nv_scope = no_scope n, nv_title = no_title n, nv_text = no_text n,
     nv_confidence = no_confidence n, nv_reason_tags = no_reason_tags n,
     nv_suggested_families = no_suggested_families n, nv_section_ids = no_section_ids n\<rparr>"

record active_notes =
  ac_schema_version :: string
  ac_job_hash :: string
  ac_selected_at :: string
  ac_context :: selection_context
  ac_active_section :: "section_planning option"
  ac_geometry :: dict
  ac_global_notes :: "note_view list"
  ac_local_notes :: "note_view list"
  ac_merged_reason_tags :: "string list"
  ac_family_hints :: "(string \<times> string list) list"

definition near_note :: "selection_context \<Rightarrow> job_note \<Rightarrow> bool" where
  "near_note c n \<longleftrightarrow> list_ex (\<lambda>i. i \<in> set (sc_current_section_ids c) \<or> i \<in> set (sc_lookahead_section_ids c))
     (no_section_ids n)"

definition chosen_notes :: "nat \<Rightarrow> job_note list \<Rightarrow> job_note list" where
  "chosen_notes limit ns = take limit (sort_key note_sort_key ns)"

definition select_active_notes :: "job_env \<Rightarrow> notebook \<Rightarrow> pyfloat option \<Rightarrow> pyfloat \<Rightarrow> string \<Rightarrow> bool
    \<Rightarrow> nat \<Rightarrow> nat \<Rightarrow> active_notes" where
  "select_active_notes env nb progress lookahead lifecycle active global_limit local_limit =
     (let context = selection_context_of nb progress lookahead lifecycle active;
          global = map note_view_of (chosen_notes global_limit (nb_global_notes nb));
          local = map note_view_of (chosen_notes local_limit (filter (near_note context) (nb_local_notes nb)));
          both = global @ local
      in \<lparr>ac_schema_version = ''1.0'', ac_job_hash = jm_job_hash (nb_job nb), ac_selected_at = jn_now env,
          ac_context = context, ac_active_section = section_planning_facts (jn_rt env) nb progress,
          ac_geometry = geometry_planner_facts (nb_sections nb), ac_global_notes = global, ac_local_notes = local,
          ac_merged_reason_tags = tag_tuple (concat (map nv_reason_tags both)),
          ac_family_hints = map (\<lambda>f. (family_value f, map nv_note_id
             (filter (\<lambda>v. f \<in> set (nv_suggested_families v)) both))) families\<rparr>)"

definition active_notes_summary :: "job_env \<Rightarrow> notebook \<Rightarrow> pyfloat option \<Rightarrow> pyfloat \<Rightarrow> string option" where
  "active_notes_summary env nb progress lookahead =
     (let act = select_active_notes env nb progress lookahead ''UNKNOWN'' (progress \<noteq> None) 4 6;
          first = take 1 (ac_local_notes act) @ ac_global_notes act;
          selected = (if length first < 3 then first @ take (3 - length first) (drop 1 (ac_local_notes act)) else first);
          texts = filter (\<lambda>t. t \<noteq> []) (map (\<lambda>v. str_strip (nv_text v)) (take 3 selected));
          summary = str_join '' | '' texts
      in if texts = [] then None
         else if length summary > 320 then Some (str_rstrip (take 317 summary) @ ''...'') else Some summary)"

section \<open>The notes of the parser\<close>

fun add_families :: "family list \<Rightarrow> family list \<Rightarrow> family list" where
  "add_families acc [] = acc"
| "add_families acc (f # fs) = add_families (if f \<in> set acc then acc else acc @ [f]) fs"

definition families_from_tags :: "string list \<Rightarrow> family list" where
  "families_from_tags tags =
     add_families [] ((if ''bridge'' \<in> set tags then [Speed, Flow, Nozzle] else [])
       @ (if ''high_flow'' \<in> set tags then [Flow, Speed] else [])
       @ (if ''tiny_layer'' \<in> set tags then [Speed, Nozzle] else [])
       @ (if ''stringing_test_geometry'' \<in> set tags \<or> ''repeated_tower'' \<in> set tags
          then [Pressure_advance, Accel, Nozzle] else []))"

definition global_note :: "string \<Rightarrow> string \<Rightarrow> string \<Rightarrow> confidence \<Rightarrow> string list \<Rightarrow> family list \<Rightarrow> string \<Rightarrow> int
    \<Rightarrow> job_note" where
  "global_note i title txt conf tags fams evidence priority =
     \<lparr>no_note_id = i, no_scope = Scope_global, no_title = title, no_text = txt, no_confidence = conf,
      no_reason_tags = tags, no_suggested_families = fams, no_section_ids = [], no_anchors_of = no_anchors,
      no_source = From_parser, no_evidence = [evidence], no_priority = priority\<rparr>"

definition tag_count :: "string \<Rightarrow> job_section list \<Rightarrow> nat" where
  "tag_count tag ss = sum_list (map (\<lambda>s. count_list (jb_tags s) tag) ss)"

definition tag_note :: "job_section list \<Rightarrow> string \<Rightarrow> string \<Rightarrow> string \<Rightarrow> string \<Rightarrow> confidence \<Rightarrow> string list
    \<Rightarrow> family list \<Rightarrow> int \<Rightarrow> job_note list" where
  "tag_note ss tag i title txt conf tags fams priority =
     (if tag_count tag ss = 0 then []
      else [global_note i title txt conf tags fams
              (''tag='' @ tag @ '' count='' @ nat_str (tag_count tag ss)) priority])"

definition comment_value :: "(string \<times> string) list \<Rightarrow> string \<Rightarrow> string option" where
  "comment_value mapping key = (case map_of mapping (str_lower key) of
      None \<Rightarrow> None | Some v \<Rightarrow> if v = [] then None else Some (str_strip v))"

definition truthy_or :: "string option \<Rightarrow> string option \<Rightarrow> string option" where
  "truthy_or a b = (case a of Some s \<Rightarrow> if s \<noteq> [] then a else b | None \<Rightarrow> b)"

definition estimated_time_text :: "(string \<times> string) list \<Rightarrow> string option" where
  "estimated_time_text comments = truthy_or (comment_value comments ''estimated_printing_time'')
     (comment_value comments ''estimated_printing_time_(normal_mode)'')"

definition build_global_notes :: "pyrt \<Rightarrow> string option \<Rightarrow> pyfloat option \<Rightarrow> int option \<Rightarrow> int option
    \<Rightarrow> job_section list \<Rightarrow> (string \<times> string) list \<Rightarrow> job_note list" where
  "build_global_notes rt material layer_height nozzle bed ss comments =
     (case material of
        Some m \<Rightarrow> if m = [] then [] else
          [global_note ''global_material'' ''Material profile'' (''Material profile: '' @ m @ ''.'') Conf_high
             [''material''] [] ''metadata_or_comments'' 10]
      | None \<Rightarrow> [])
   @ (case layer_height of
        Some h \<Rightarrow> [global_note ''global_layer_height'' ''Layer height''
          (''Layer height: '' @ float_fixed rt 3 h @ '' mm.'') Conf_high [''layer_height''] []
          ''metadata_or_comments'' 11]
      | None \<Rightarrow> [])
   @ (if nozzle = None \<and> bed = None then []
      else let piece = (\<lambda>l x. case x of None \<Rightarrow> [] | Some i \<Rightarrow> [l @ '' target '' @ int_str i @ ''C'']) in
        [global_note ''global_targets'' ''Slicer targets''
           (''Slicer targets: '' @ str_join '', '' (piece ''nozzle'' nozzle @ piece ''bed'' bed) @ ''.'') Conf_high
           [''targets''] ((if nozzle = None then [] else [Nozzle]) @ (if bed = None then [] else [Bed]))
           ''metadata_or_gcode'' 12])
   @ tag_note ss ''bridge'' ''global_bridge_watch'' ''Bridge watch''
       ''Bridge sections exist. Prefer speed reduction before broader temperature changes if bridging starts to sag.''
       Conf_high [''bridge''] [Speed, Flow, Nozzle] 20
   @ tag_note ss ''high_flow'' ''global_flow_watch'' ''Flow watch''
       ''High-flow sections exist. Watch extrusion consistency before changing multiple controls at once.''
       Conf_medium [''high_flow''] [Flow, Speed] 21
   @ tag_note ss ''tiny_layer'' ''global_tiny_layers'' ''Short layers''
       ''Very short sections exist. Heat accumulation can be local even when whole-job temperatures look normal.''
       Conf_medium [''tiny_layer''] [Speed, Nozzle] 22
   @ tag_note ss ''stringing_test_geometry'' ''global_stringing_geometry'' ''Repeated tower geometry''
       ''G-code geometry resembles a repeated-tower/stringing-test pattern with anchored long travels and retractions.''
       Conf_high [''repeated_tower'', ''stringing_test_geometry'', ''long_travel'', ''retraction''] [] 14
   @ (case estimated_time_text comments of
        Some t \<Rightarrow> if t = [] then [] else
          [global_note ''global_estimated_time'' ''Estimated print time'' (''Estimated print time: '' @ t @ ''.'')
             Conf_medium [''estimated_time''] [] ''gcode_comments'' 13]
      | None \<Rightarrow> [])"

definition capitalize :: "string \<Rightarrow> string" where
  "capitalize s = (case s of [] \<Rightarrow> [] | c # cs \<Rightarrow> char_upper c # str_lower cs)"

definition plural :: "int \<Rightarrow> string \<Rightarrow> string" where
  "plural n word = int_str n @ '' '' @ word @ (if n \<noteq> 1 then ''s'' else [])"

text \<open>What a section is worth watching for, each with its priority; the smallest one counts.\<close>

definition watchpoints :: "job_section \<Rightarrow> (string \<times> int) list" where
  "watchpoints s =
     (let f = jb_gcode_facts s; tagged = (\<lambda>t. t \<in> set (jb_tags s)) in
      (if tagged ''bridge'' then [(''Bridge-heavy region'', 40)] else [])
    @ (if tagged ''high_flow'' then [(''flow-heavy region'', 45)] else [])
    @ (if tagged ''tiny_layer'' then [(''short-layer region'', 50)] else [])
    @ (if gf_long_travel_count f \<noteq> 0 then [(plural (gf_long_travel_count f) ''long travel'', 42)] else [])
    @ (if gf_retraction_count f \<noteq> 0 then [(plural (gf_retraction_count f) ''retraction'', 43)] else [])
    @ (if tagged ''stringing_test_geometry'' then [(''repeated-tower geometry'', 38)] else []))"

definition fact_tags :: "job_section \<Rightarrow> string list" where
  "fact_tags s = (let f = jb_gcode_facts s in
     (if gf_long_travel_count f \<noteq> 0 then [''long_travel''] else [])
   @ (if gf_retraction_count f \<noteq> 0 then [''retraction''] else [])
   @ (if gf_restart_count f \<noteq> 0 then [''restart''] else []))"

definition local_note :: "pyrt \<Rightarrow> job_section \<Rightarrow> job_note list" where
  "local_note rt s =
     (let ws = watchpoints s; priority = foldl min 80 (map snd ws); what = capitalize (str_join '', '' (map fst ws)) in
      if ws = [] then []
      else [\<lparr>no_note_id = ''note_'' @ jb_section_id s, no_scope = Scope_local, no_title = ''Section watchpoint'',
        no_text = (case jb_z_start_mm s of
            Some z \<Rightarrow> what @ '' around Z='' @ float_fixed rt 2 z @ '' mm.'' | None \<Rightarrow> what @ ''.''),
        no_confidence = (if priority \<le> 45 then Conf_medium else Conf_low),
        no_reason_tags = tag_tuple (jb_tags s @ fact_tags s),
        no_suggested_families = families_from_tags (jb_tags s), no_section_ids = [jb_section_id s],
        no_anchors_of = \<lparr>an_layer_range = Some (jb_layer_start s, jb_layer_end s),
          an_z_range_mm = Some (jb_z_start_mm s, jb_z_end_mm s),
          an_gcode_line_range = Some (jb_line_start s, jb_line_end s)\<rparr>,
        no_source = From_parser,
        no_evidence = (''section_id='' @ jb_section_id s) # map (\<lambda>t. ''tag='' @ t) (jb_tags s),
        no_priority = priority\<rparr>])"

definition build_local_notes :: "pyrt \<Rightarrow> job_section list \<Rightarrow> job_note list" where
  "build_local_notes rt ss = concat (map (local_note rt) ss)"

section \<open>Building a notebook\<close>

definition PARSER_VERSION :: string where "PARSER_VERSION = ''job_notebook_v5_gcode_planning_facts''"
definition SCHEMA_VERSION :: string where "SCHEMA_VERSION = ''1.4''"
definition NOTEBOOK_BUILDER :: string where
  "NOTEBOOK_BUILDER = ''wallee_v6.packs.prusa_core_one_plus.job_notebook''"

definition replace_blanks :: "string \<Rightarrow> string" where
  "replace_blanks = map (\<lambda>c. if c = CHR '' '' then CHR ''_'' else c)"

definition parse_comment_key_values :: "string \<Rightarrow> (string \<times> string) list" where
  "parse_comment_key_values file_text = foldl (\<lambda>d line.
     case re_match KEY_VALUE_RE (str_strip line) of
       Some [Some k, Some v] \<Rightarrow> dset (replace_blanks (str_lower (str_strip k))) (str_strip v) d
     | _ \<Rightarrow> d) [] (str_lines [] file_text)"

definition metadata_keys :: "string list" where
  "metadata_keys = [''bed_temperature'', ''extruder_temperature'', ''layer_height'', ''filament_type'', ''material'']"

lemma sum_list_snd_size: "(\<Sum>p\<leftarrow>d. Suc (size (snd p))) \<le> size_list (size_prod (\<lambda>x. 0) size) (d :: (string \<times> pyval) list)"
  by (induction d) (auto simp: size_prod_simp)

lemma sum_list_Suc_map_snd: "(\<Sum>v\<leftarrow>map snd d. Suc (size v)) \<le> size_list (size_prod (\<lambda>x. 0) size) (d :: (string \<times> pyval) list)"
  using sum_list_snd_size [of d] by (simp add: o_def)

lemma sum_list_Suc_size: "(\<Sum>v\<leftarrow>xs. Suc (size v)) = size_list size (xs :: pyval list)"
  by (induction xs) auto

lemma sum_list_size_less:
  "(\<Sum>v\<leftarrow>map snd d. Suc (size v)) < Suc (size (PyDict d))"
  "(\<Sum>v\<leftarrow>xs. Suc (size v)) < Suc (size (PyList xs))"
  using sum_list_Suc_map_snd [of d] sum_list_Suc_size [of xs] by simp_all

function search_metadata :: "pyval list \<Rightarrow> dict" where
  "search_metadata [] = []"
| "search_metadata (PyDict d # queue) =
     (if list_ex (\<lambda>k. k \<in> set (map fst d)) metadata_keys then d else search_metadata (queue @ map snd d))"
| "search_metadata (PyList xs # queue) = search_metadata (queue @ xs)"
| "search_metadata (PyNone # queue) = search_metadata queue"
| "search_metadata (PyBool b # queue) = search_metadata queue"
| "search_metadata (PyInt i # queue) = search_metadata queue"
| "search_metadata (PyFloat f # queue) = search_metadata queue"
| "search_metadata (PyStr s # queue) = search_metadata queue"
  by pat_completeness auto
termination
  using sum_list_size_less
  by (relation "measure (\<lambda>q. \<Sum>v\<leftarrow>q. Suc (size v))")
    (simp_all add: o_def del: pyval.size)

end
