(* ===== verification/LlmParser.thy ===== *)
theory LlmParser
  imports Prelude
begin

text \<open>
  The parser of the agent's answers (\<open>src/wallee/agent/parser.py\<close>).  \<open>json.loads\<close> is a parameter (its value and
  the text of its error); the interval bounds, module globals that \<open>configure_check_intervals\<close> sets, are an
  argument.  Intervals are compared by value, so the number kept is a float.
\<close>

section \<open>Decisions\<close>

record interval_bounds =
  ib_min :: int
  ib_max :: int
  ib_max_idle :: int
  ib_default :: int

definition default_intervals :: interval_bounds where
  "default_intervals = \<lparr>ib_min = 10, ib_max = 30, ib_max_idle = 120, ib_default = 15\<rparr>"

definition configure_check_intervals :: "int \<Rightarrow> int \<Rightarrow> int \<Rightarrow> int \<Rightarrow> interval_bounds" where
  "configure_check_intervals min_check_interval max_check_interval max_check_interval_idle default_check_interval =
     \<lparr>ib_min = min_check_interval, ib_max = max_check_interval, ib_max_idle = max_check_interval_idle,
      ib_default = default_check_interval\<rparr>"

record decision =
  de_type :: string
  de_observation :: pyval
  de_reasoning :: pyval
  de_tool :: pyval
  de_params :: dict
  de_reason :: pyval
  de_check_after_s :: pyfloat
  de_message :: pyval
  de_severity :: pyval
  de_actions :: "dict list"

text \<open>The defaults of the class, and what \<open>__post_init__\<close> fills in.\<close>

definition blank_decision :: "string \<Rightarrow> decision" where
  "blank_decision type = \<lparr>de_type = type, de_observation = PyStr [], de_reasoning = PyStr [], de_tool = PyStr [],
     de_params = [], de_reason = PyStr [], de_check_after_s = Fin 60, de_message = PyStr [],
     de_severity = PyStr ''info'', de_actions = []\<rparr>"

definition post_init :: "decision \<Rightarrow> decision" where
  "post_init d = (if \<not> truthy (de_reason d) \<and> truthy (de_reasoning d) then d\<lparr>de_reason := de_reasoning d\<rparr> else d)"

definition default_wait :: "interval_bounds \<Rightarrow> string \<Rightarrow> decision" where
  "default_wait ib reason = post_init ((blank_decision ''WAIT'')\<lparr>de_reason := PyStr reason, de_reasoning := PyStr reason,
     de_check_after_s := Fin (of_int (ib_default ib))\<rparr>)"

definition valid_types :: "string list" where
  "valid_types = [''ACTION'', ''WAIT'', ''CALL_HUMAN'', ''ACTION_CHAIN'']"

definition max_chain_length :: nat where "max_chain_length = 5"

section \<open>Pieces\<close>

definition parse_params_value :: "pyrt \<Rightarrow> pyval \<Rightarrow> dict" where
  "parse_params_value rt v = (case v of
       PyStr s \<Rightarrow> (case json_loads rt s of Some (PyDict d) \<Rightarrow> d | _ \<Rightarrow> [])
     | PyDict d \<Rightarrow> d
     | _ \<Rightarrow> [])"

definition fence :: string where
  "fence = replicate 3 CHR 0x60"

definition strip_markdown_fences :: "string \<Rightarrow> string" where
  "strip_markdown_fences raw =
     (let stripped = str_strip raw in
      if starts_with fence stripped then
        let body = drop 1 (dropWhile (\<lambda>c. c \<noteq> CHR 0x0A) stripped) in
        if ends_with fence (str_rstrip body) then str_rstrip (take (length (str_rstrip body) - 3) (str_rstrip body))
        else body
      else stripped)"

text \<open>\<open>.upper()\<close> on a value that need not be a text.\<close>

fun py_upper :: "pyval \<Rightarrow> pyexc + string" where
  "py_upper (PyStr s) = Inr (str_upper s)"
| "py_upper v = Inl (AttributeError (str_repr (type_name v) @ '' object has no attribute '' @ str_repr ''upper''))"

definition active_states :: "string list" where
  "active_states = [''PRINTING'', ''PAUSED'', ''ATTENTION'', ''PREPARING'']"

definition clamp_check_interval :: "pyrt \<Rightarrow> interval_bounds \<Rightarrow> pyval \<Rightarrow> pyval \<Rightarrow> pyexc + pyfloat" where
  "clamp_check_interval rt ib raw_interval printer_state =
     bindR (if truthy printer_state then bindR (py_upper printer_state) (\<lambda>u. Inr (u \<in> set active_states)) else Inr False)
       (\<lambda>active. let max_interval = Fin (of_int (if active then ib_max ib else ib_max_idle ib)) in
        bindR (py_float rt raw_interval) (\<lambda>f. Inr (float_max (Fin (of_int (ib_min ib))) (float_min f max_interval))))"

text \<open>The actions of a chain: the index of the first without a tool, or the actions with their parameters.\<close>

fun chain_actions :: "pyrt \<Rightarrow> nat \<Rightarrow> pyval list \<Rightarrow> nat + dict list" where
  "chain_actions rt i [] = Inr []"
| "chain_actions rt i (act # acts) = (case act of
       PyDict d \<Rightarrow>
         if \<not> truthy (pget d ''tool'') then Inl i
         else (case chain_actions rt (i + 1) acts of
                 Inl j \<Rightarrow> Inl j
               | Inr ds \<Rightarrow> Inr (dset ''params'' (PyDict (parse_params_value rt (pget d ''params''))) d # ds))
     | _ \<Rightarrow> Inl i)"

section \<open>The parser\<close>

definition parse_object :: "pyrt \<Rightarrow> interval_bounds \<Rightarrow> pyval \<Rightarrow> dict \<Rightarrow> pyexc + decision" where
  "parse_object rt ib printer_state data =
     bindR (py_upper (dget_or data ''type'' (PyStr []))) (\<lambda>decision_type.
     let observation = dget_or data ''observation'' (PyStr []);
         reasoning0 = dget_or data ''reasoning'' (PyStr []);
         reasoning = (if truthy reasoning0 then reasoning0 else dget_or data ''reason'' (PyStr []));
         base = (\<lambda>ty. (blank_decision ty)\<lparr>de_observation := observation, de_reasoning := reasoning\<rparr>);
         default_wait_s = Fin (of_int (ib_default ib))
     in
     if decision_type \<notin> set valid_types then Inr (default_wait ib (''unknown type: '' @ py_str rt (pget data ''type'')))
     else if decision_type = ''ACTION'' then
       let tool = dget_or data ''tool'' (PyStr []) in
       if \<not> truthy tool then
         Inr (post_init ((blank_decision ''WAIT'')\<lparr>de_observation := observation,
           de_reasoning := PyStr ''ACTION had no tool'', de_check_after_s := default_wait_s\<rparr>))
       else Inr (post_init ((base ''ACTION'')\<lparr>de_tool := tool,
           de_params := parse_params_value rt (pget data ''params'')\<rparr>))
     else if decision_type = ''WAIT'' then
       bindR (clamp_check_interval rt ib (dget_or data ''check_after_s'' (PyInt (ib_default ib))) printer_state) (\<lambda>clamped.
       Inr (post_init ((base ''WAIT'')\<lparr>de_check_after_s := clamped\<rparr>)))
     else if decision_type = ''ACTION_CHAIN'' then
       (case dget_or data ''actions'' (PyList []) of
          PyList (a # as) \<Rightarrow>
            (case chain_actions rt 0 (take max_chain_length (a # as)) of
               Inl i \<Rightarrow> Inr (default_wait ib (''ACTION_CHAIN action['' @ nat_str i @ ''] missing tool''))
             | Inr ds \<Rightarrow> Inr (post_init ((base ''ACTION_CHAIN'')\<lparr>de_actions := ds\<rparr>)))
        | _ \<Rightarrow> Inr (post_init ((blank_decision ''WAIT'')\<lparr>de_observation := observation,
            de_reasoning := PyStr ''ACTION_CHAIN had no actions'', de_check_after_s := default_wait_s\<rparr>)))
     else
       let message = dget_or data ''message'' (PyStr []) in
       if \<not> truthy message then Inr (default_wait ib ''CALL_HUMAN missing message'')
       else Inr (post_init ((base ''CALL_HUMAN'')\<lparr>de_message := message,
           de_severity := dget_or data ''severity'' (PyStr ''info'')\<rparr>)))"

definition parse_llm_output :: "pyrt \<Rightarrow> (string \<Rightarrow> string) \<Rightarrow> interval_bounds \<Rightarrow> string \<Rightarrow> pyval \<Rightarrow> pyexc + decision" where
  "parse_llm_output rt json_error ib raw printer_state =
     (if raw = [] \<or> str_strip raw = [] then Inr (default_wait ib ''empty LLM response'')
      else let cleaned = strip_markdown_fences raw in
        case json_loads rt cleaned of
          None \<Rightarrow> Inr (default_wait ib (''invalid JSON: '' @ json_error cleaned))
        | Some (PyDict data) \<Rightarrow> parse_object rt ib printer_state data
        | Some _ \<Rightarrow> Inr (default_wait ib ''LLM response is not a JSON object''))"

section \<open>What the parser promises\<close>

lemma post_init_fields [simp]:
  "de_type (post_init d) = de_type d" "de_tool (post_init d) = de_tool d" "de_params (post_init d) = de_params d"
  "de_check_after_s (post_init d) = de_check_after_s d" "de_message (post_init d) = de_message d"
  "de_actions (post_init d) = de_actions d"
  by (simp_all add: post_init_def)

lemma blank_decision_fields [simp]:
  "de_type (blank_decision ty) = ty" "de_actions (blank_decision ty) = []"
  by (simp_all add: blank_decision_def)

lemma default_wait_fields [simp]:
  "de_type (default_wait ib r) = ''WAIT''" "de_check_after_s (default_wait ib r) = Fin (of_int (ib_default ib))"
  by (simp_all add: default_wait_def)

definition bounds_ok :: "interval_bounds \<Rightarrow> bool" where
  "bounds_ok ib \<longleftrightarrow> ib_min ib \<le> ib_default ib \<and> ib_default ib \<le> ib_max_idle ib
     \<and> ib_min ib \<le> ib_max ib \<and> ib_max ib \<le> ib_max_idle ib"

definition between :: "int \<Rightarrow> int \<Rightarrow> pyfloat \<Rightarrow> bool" where
  "between lo hi f \<longleftrightarrow> (\<exists>q. f = Fin q \<and> of_int lo \<le> q \<and> q \<le> of_int hi)"

text \<open>Clamping gives a finite interval within the bounds of the state, whatever float comes in, also NaN.\<close>

lemma clamp_between:
  assumes "ib_min ib \<le> ib_max ib" and "ib_min ib \<le> ib_max_idle ib" and "clamp_check_interval rt ib raw ps = Inr c"
  shows "between (ib_min ib) (max (ib_max ib) (ib_max_idle ib)) c
    \<and> (\<forall>s. ps = PyStr s \<and> str_upper s \<in> set active_states \<longrightarrow> between (ib_min ib) (ib_max ib) c)"
proof -
  obtain active f where a: "(if truthy ps then bindR (py_upper ps) (\<lambda>u. Inr (u \<in> set active_states)) else Inr False) = Inr active"
    and f: "py_float rt raw = Inr f"
    and c: "c = float_max (Fin (of_int (ib_min ib))) (float_min f (Fin (of_int (if active then ib_max ib else ib_max_idle ib))))"
    using assms(3) by (auto simp: clamp_check_interval_def bindR_eq_Inr Let_def)
  have le: "ib_min ib \<le> (if active then ib_max ib else ib_max_idle ib)" using assms by simp
  have w: "between (ib_min ib) (if active then ib_max ib else ib_max_idle ib) c"
    unfolding c between_def using le by (cases f) (auto simp: float_max_def float_min_def)
  have "active" if "ps = PyStr s" "str_upper s \<in> set active_states" for s
  proof -
    have "s \<noteq> []" using that(2) by (auto simp: str_upper_def active_states_def)
    then show ?thesis using a that by simp
  qed
  then show ?thesis using w by (auto simp: between_def split: if_splits)
qed

lemma chain_actions_ok:
  "chain_actions rt i acts = Inr ds \<Longrightarrow> length ds = length acts
     \<and> (\<forall>d\<in>set ds. truthy (pget d ''tool'') \<and> (\<exists>ps. pget d ''params'' = PyDict ps))"
proof (induction acts arbitrary: i ds)
  case (Cons a acts)
  then obtain d where a: "a = PyDict d" "truthy (pget d ''tool'')" by (cases a) (auto split: if_splits)
  with Cons.prems obtain ds' where ds: "chain_actions rt (i + 1) acts = Inr ds'"
    "ds = dset ''params'' (PyDict (parse_params_value rt (pget d ''params''))) d # ds'" by (auto split: sum.splits)
  from Cons.IH [OF ds(1)] show ?case using a ds(2) by simp
qed simp

text \<open>What every decision satisfies that the parser returns.\<close>

definition decision_ok :: "interval_bounds \<Rightarrow> decision \<Rightarrow> bool" where
  "decision_ok ib d \<longleftrightarrow> de_type d \<in> set valid_types
     \<and> (de_type d = ''WAIT'' \<longrightarrow> between (ib_min ib) (ib_max_idle ib) (de_check_after_s d))
     \<and> (de_type d = ''ACTION'' \<longrightarrow> truthy (de_tool d))
     \<and> (de_type d = ''CALL_HUMAN'' \<longrightarrow> truthy (de_message d))
     \<and> (de_type d = ''ACTION_CHAIN'' \<longrightarrow> 1 \<le> length (de_actions d) \<and> length (de_actions d) \<le> max_chain_length
          \<and> (\<forall>a\<in>set (de_actions d). truthy (pget a ''tool'') \<and> (\<exists>ps. pget a ''params'' = PyDict ps)))"

lemma default_wait_ok: "bounds_ok ib \<Longrightarrow> decision_ok ib (default_wait ib r)"
  by (simp add: decision_ok_def valid_types_def between_def bounds_ok_def)

lemma plain_wait_ok:
  "bounds_ok ib \<Longrightarrow> decision_ok ib (post_init ((blank_decision ''WAIT'')\<lparr>de_observation := ob, de_reasoning := re,
     de_check_after_s := Fin (of_int (ib_default ib))\<rparr>))"
  by (simp add: decision_ok_def valid_types_def between_def bounds_ok_def)

lemma parse_object_ok:
  assumes ib: "bounds_ok ib" and p: "parse_object rt ib ps data = Inr d"
  shows "decision_ok ib d"
proof -
  obtain ty where ty: "py_upper (dget_or data ''type'' (PyStr [])) = Inr ty"
    using p by (auto simp: parse_object_def bindR_eq_Inr)
  consider "ty \<notin> set valid_types" | "ty = ''ACTION''" | "ty = ''WAIT''" | "ty = ''ACTION_CHAIN''" | "ty = ''CALL_HUMAN''"
    by (auto simp: valid_types_def)
  then show ?thesis
  proof cases
    case 1
    then have "\<exists>r. d = default_wait ib r" using p ty by (auto simp: parse_object_def Let_def)
    then show ?thesis using default_wait_ok [OF ib] by auto
  next
    case 2
    then show ?thesis
      using p ty plain_wait_ok [OF ib]
      by (cases "truthy (dget_or data ''tool'' (PyStr []))") (auto simp: parse_object_def Let_def valid_types_def decision_ok_def)
  next
    case 3
    then obtain c where c: "clamp_check_interval rt ib (dget_or data ''check_after_s'' (PyInt (ib_default ib))) ps = Inr c"
      "de_type d = ''WAIT''" "de_check_after_s d = c"
      using p ty by (auto simp: parse_object_def Let_def valid_types_def bindR_eq_Inr)
    have "between (ib_min ib) (max (ib_max ib) (ib_max_idle ib)) c"
      using clamp_between [OF _ _ c(1)] ib by (auto simp: bounds_ok_def)
    then show ?thesis using c ib by (simp add: decision_ok_def valid_types_def bounds_ok_def max_def split: if_splits)
  next
    case 4
    show ?thesis
    proof (cases "\<exists>a as. dget_or data ''actions'' (PyList []) = PyList (a # as)")
      case False
      then have "(case dget_or data ''actions'' (PyList []) of PyList (a # as) \<Rightarrow> f a as | _ \<Rightarrow> g) = g" for f and g :: "pyexc + decision"
        by (auto split: pyval.split list.split)
      then show ?thesis using p ty 4 plain_wait_ok [OF ib] by (auto simp: parse_object_def Let_def valid_types_def)
    next
      case True
      then obtain a as where as: "dget_or data ''actions'' (PyList []) = PyList (a # as)" by blast
      show ?thesis
      proof (cases "chain_actions rt 0 (take max_chain_length (a # as))")
        case (Inl i)
        then show ?thesis using p ty 4 as default_wait_ok [OF ib] by (auto simp: parse_object_def Let_def valid_types_def)
      next
        case (Inr ds)
        from chain_actions_ok [OF this] Inr show ?thesis
          using p ty 4 as by (auto simp: parse_object_def Let_def valid_types_def decision_ok_def max_chain_length_def)
      qed
    qed
  next
    case 5
    then show ?thesis
      using p ty default_wait_ok [OF ib]
      by (cases "truthy (dget_or data ''message'' (PyStr []))") (auto simp: parse_object_def Let_def valid_types_def decision_ok_def)
  qed
qed


lemma py_upper_Inl: "(\<exists>e. py_upper v = Inl e) \<longleftrightarrow> (\<forall>s. v \<noteq> PyStr s)"
  by (cases v) auto

lemma clamp_raises: "(\<exists>e. clamp_check_interval rt ib raw ps = Inl e)
  \<longleftrightarrow> truthy ps \<and> (\<forall>s. ps \<noteq> PyStr s) \<or> (\<exists>e. py_float rt raw = Inl e)"
proof (cases "truthy ps")
  case True
  show ?thesis
  proof (cases ps)
    case (PyStr s)
    then show ?thesis using True by (cases "py_float rt raw") (simp_all add: clamp_check_interval_def Let_def)
  qed (use True in \<open>simp_all add: clamp_check_interval_def\<close>)
next
  case False
  then show ?thesis by (cases "py_float rt raw") (simp_all add: clamp_check_interval_def Let_def)
qed

definition returns :: "pyexc + 'a \<Rightarrow> bool" where
  "returns r \<longleftrightarrow> (\<exists>d. r = Inr d)"

lemma returns_intros:
  "returns (Inr d)"
  "(b \<Longrightarrow> returns r) \<Longrightarrow> (\<not> b \<Longrightarrow> returns r') \<Longrightarrow> returns (if b then r else r')"
  "(\<And>a as. v = PyList (a # as) \<Longrightarrow> returns (f a as)) \<Longrightarrow> returns w
   \<Longrightarrow> returns (case v of PyList (a # as) \<Rightarrow> f a as | _ \<Rightarrow> w)"
  "(\<And>i. x = Inl i \<Longrightarrow> returns (g i)) \<Longrightarrow> (\<And>ds. x = Inr ds \<Longrightarrow> returns (h ds)) \<Longrightarrow> returns (case x of Inl i \<Rightarrow> g i | Inr ds \<Rightarrow> h ds)"
  by (auto simp: returns_def split: pyval.split list.split sum.split)

text \<open>
  Against its documentation the parser can raise, and exactly when the answer is a JSON object whose
  \<open>type\<close> is not a text, or a WAIT whose interval is no number (or whose printer state is no text).
\<close>

theorem parser_raises_iff:
  "(\<exists>e. parse_llm_output rt json_error ib raw printer_state = Inl e) \<longleftrightarrow>
     raw \<noteq> [] \<and> str_strip raw \<noteq> [] \<and>
     (\<exists>data. json_loads rt (strip_markdown_fences raw) = Some (PyDict data) \<and>
       ((\<forall>s. dget_or data ''type'' (PyStr []) \<noteq> PyStr s)
        \<or> (\<exists>s. dget_or data ''type'' (PyStr []) = PyStr s \<and> str_upper s = ''WAIT'')
          \<and> (truthy printer_state \<and> (\<forall>s. printer_state \<noteq> PyStr s)
             \<or> (\<exists>e. py_float rt (dget_or data ''check_after_s'' (PyInt (ib_default ib))) = Inl e))))"
proof -
  have obj: "(\<exists>e. parse_object rt ib printer_state data = Inl e) \<longleftrightarrow>
      (\<forall>s. dget_or data ''type'' (PyStr []) \<noteq> PyStr s)
      \<or> (\<exists>s. dget_or data ''type'' (PyStr []) = PyStr s \<and> str_upper s = ''WAIT'')
        \<and> (\<exists>e. clamp_check_interval rt ib (dget_or data ''check_after_s'' (PyInt (ib_default ib))) printer_state = Inl e)"
    for data
  proof (cases "py_upper (dget_or data ''type'' (PyStr []))")
    case (Inl e)
    then have "\<forall>s. dget_or data ''type'' (PyStr []) \<noteq> PyStr s" using py_upper_Inl by blast
    then show ?thesis using Inl by (auto simp: parse_object_def)
  next
    case (Inr ty)
    then obtain s where s: "dget_or data ''type'' (PyStr []) = PyStr s" "ty = str_upper s"
      by (cases "dget_or data ''type'' (PyStr [])") simp_all
    show ?thesis
    proof (cases "ty = ''WAIT''")
      case True
      then show ?thesis using s Inr
        by (cases "clamp_check_interval rt ib (dget_or data ''check_after_s'' (PyInt (ib_default ib))) printer_state")
          (simp_all add: parse_object_def Let_def valid_types_def)
    next
      case False
      have "returns (parse_object rt ib printer_state data)"
        unfolding parse_object_def Inr bindR_simps Let_def by (intro returns_intros) (use False in simp)
      then show ?thesis using s False by (auto simp: returns_def)
    qed
  qed
  show ?thesis
  proof (cases "raw = [] \<or> str_strip raw = []")
    case True
    then show ?thesis by (auto simp: parse_llm_output_def)
  next
    case False
    show ?thesis
    proof (cases "\<exists>data. json_loads rt (strip_markdown_fences raw) = Some (PyDict data)")
      case True
      then obtain data where d: "json_loads rt (strip_markdown_fences raw) = Some (PyDict data)" by blast
      then have "parse_llm_output rt json_error ib raw printer_state = parse_object rt ib printer_state data"
        using False by (simp add: parse_llm_output_def Let_def)
      then show ?thesis using obj [of data] clamp_raises d False by simp
    next
      case no: False
      then have "\<exists>d. parse_llm_output rt json_error ib raw printer_state = Inr d"
        using False by (auto simp: parse_llm_output_def Let_def split: option.split pyval.split)
      then show ?thesis using no by auto
    qed
  qed
qed

definition wait_rt :: pyrt where
  "wait_rt = sample_rt\<lparr>json_loads := (\<lambda>_. Some (PyDict [(''type'', PyStr ''wait''), (''check_after_s'', PyInt 900)]))\<rparr>"


text \<open>An answer whose type is a number.\<close>

definition odd_rt :: pyrt where
  "odd_rt = sample_rt\<lparr>json_loads := (\<lambda>_. Some (PyDict [(''type'', PyInt 5)]))\<rparr>"

lemma parser_raises_iff_witness:
  "\<exists>e. parse_llm_output odd_rt (\<lambda>_. []) default_intervals ''x'' PyNone = Inl e"
  unfolding parser_raises_iff by (simp add: odd_rt_def) code_simp

end
