(* ===== verification/Ledger.thy ===== *)
theory Ledger
  imports Ids Rows
begin

text \<open>
  The databases of the agent under \<open>src/wallee\<close>: the ledger of proposed actions (\<open>ledger/db.py\<close>, schema in
  \<open>ledger/migrations\<close>) and the diaries of the device groups (\<open>ledger/diary.py\<close>).  A JSON column holds the value
  that \<open>json.loads\<close> of the stored text returns.  The environment gives the n-th reading of the two clocks, the
  n-th uuid and the digest; the ledger counts the readings.  Every method commits before it returns and the lock
  makes it one transition.  Migrations, connections and the log are not modelled.
\<close>

section \<open>Tables\<close>

datatype ledger_status =
  LProposed | LWaitingApproval | LDispatched | LDone | LFailed | LRejected | LUnknown

record ledger_action =
  lr_action_id :: string
  lr_tool :: string
  lr_params :: dict
  lr_params_hash :: string
  lr_idempotency_key :: string
  lr_device_group :: string
  lr_status :: ledger_status
  lr_reason :: string
  lr_observation :: string
  lr_result :: "pyval option"
  lr_error :: "pyval option"
  lr_created_ts :: rat
  lr_created_mono :: rat
  lr_updated_ts :: rat
  lr_requires_approval :: bool
  lr_max_proposal_age_ms :: int
  lr_chain_id :: "string option"
  lr_chain_seq :: "int option"

record ledger_approval =
  lp_approval_id :: string
  lp_action_id :: string
  lp_params_hash :: string
  lp_decision :: string
  lp_approved_by :: string
  lp_created_ts :: rat

record ledger_event =
  le_ts :: rat
  le_component :: string
  le_level :: string
  le_message :: string
  le_details :: pyval

record ledger =
  lg_actions :: "ledger_action list"
  lg_approvals :: "ledger_approval list"
  lg_events :: "ledger_event list"
  lg_times :: nat
  lg_monos :: nat
  lg_uuids :: nat

definition empty_ledger :: ledger where
  "empty_ledger = \<lparr>lg_actions = [], lg_approvals = [], lg_events = [], lg_times = 0, lg_monos = 0, lg_uuids = 0\<rparr>"

text \<open>What the ledger takes from the interpreter: floats and JSON, the digest, the clocks, \<open>uuid4\<close>.\<close>

record ledger_env =
  lv_rt :: pyrt
  lv_sha :: "string \<Rightarrow> string"
  lv_time :: "nat \<Rightarrow> rat"
  lv_mono :: "nat \<Rightarrow> rat"
  lv_uuid :: "nat \<Rightarrow> string"

section \<open>Proposals\<close>

text \<open>SQL \<open>LIKE\<close>: percent matches any text, underscore any character, letters without regard to case.\<close>

fun sql_like :: "string \<Rightarrow> string \<Rightarrow> bool" where
  "sql_like [] s = (s = [])"
| "sql_like (p # ps) [] = (p = CHR ''%'' \<and> sql_like ps [])"
| "sql_like (p # ps) (c # s) =
     (if p = CHR ''%'' then sql_like ps (c # s) \<or> sql_like (p # ps) s
      else (p = CHR ''_'' \<or> char_lower p = char_lower c) \<and> sql_like ps s)"

definition active_statuses :: "ledger_status list" where
  "active_statuses = [LProposed, LWaitingApproval, LDispatched, LUnknown]"

definition params_hash :: "ledger_env \<Rightarrow> dict \<Rightarrow> string" where
  "params_hash env params = take 16 (lv_sha env (json_dumps (lv_rt env) (PyDict params)))"

definition retry_mark :: string where
  "retry_mark = '':retry:''"

definition base_key :: "string \<Rightarrow> string \<Rightarrow> string" where
  "base_key tool hash = tool @ '':'' @ hash"

definition same_key :: "string \<Rightarrow> ledger_action \<Rightarrow> bool" where
  "same_key key r \<longleftrightarrow> lr_idempotency_key r = key \<or> sql_like (key @ retry_mark @ ''%'') (lr_idempotency_key r)"

definition insert_action :: "ledger_action \<Rightarrow> ledger \<Rightarrow> pyexc + ledger" where
  "insert_action r l =
     (if lr_action_id r \<in> lr_action_id ` set (lg_actions l) then Inl (unique_failed ''actions.action_id'')
      else if lr_idempotency_key r \<in> lr_idempotency_key ` set (lg_actions l)
        then Inl (unique_failed ''actions.idempotency_key'')
      else Inr (l\<lparr>lg_actions := lg_actions l @ [r]\<rparr>))"

record proposal_args =
  pa_tool :: string
  pa_params :: dict
  pa_reason :: string
  pa_device_group :: string
  pa_requires_approval :: bool
  pa_max_proposal_age_ms :: int
  pa_observation :: string
  pa_chain_id :: "string option"
  pa_chain_seq :: "int option"

definition proposed_row :: "ledger_env \<Rightarrow> proposal_args \<Rightarrow> string \<Rightarrow> string \<Rightarrow> rat \<Rightarrow> rat \<Rightarrow> ledger_action" where
  "proposed_row env a action_id key now mono_now =
     \<lparr>lr_action_id = action_id, lr_tool = pa_tool a, lr_params = norm_dict (pa_params a),
      lr_params_hash = params_hash env (pa_params a), lr_idempotency_key = key,
      lr_device_group = pa_device_group a, lr_status = LProposed, lr_reason = pa_reason a,
      lr_observation = pa_observation a, lr_result = None, lr_error = None, lr_created_ts = now,
      lr_created_mono = mono_now, lr_updated_ts = now, lr_requires_approval = pa_requires_approval a,
      lr_max_proposal_age_ms = pa_max_proposal_age_ms a, lr_chain_id = pa_chain_id a, lr_chain_seq = pa_chain_seq a\<rparr>"

text \<open>The id of the new action; the empty text when nothing is proposed.\<close>

definition propose :: "ledger_env \<Rightarrow> proposal_args \<Rightarrow> ledger \<Rightarrow> string \<times> ledger" where
  "propose env a l0 =
     (let action_id = lv_uuid env (lg_uuids l0);
          key = base_key (pa_tool a) (params_hash env (pa_params a));
          now = lv_time env (lg_times l0); mono_now = lv_mono env (lg_monos l0);
          l = l0\<lparr>lg_uuids := lg_uuids l0 + 1, lg_times := lg_times l0 + 1, lg_monos := lg_monos l0 + 1\<rparr>;
          existing = filter (same_key key) (lg_actions l)
      in if \<exists>r\<in>set existing. lr_status r \<in> set active_statuses then ('''', l)
         else let key' = (if existing \<noteq> [] then key @ retry_mark @ nat_str (length existing) else key)
              in case insert_action (proposed_row env a action_id key' now mono_now) l of
                   Inr l' \<Rightarrow> (action_id, l')
                 | Inl _ \<Rightarrow> ('''', l))"

section \<open>Events\<close>

definition ledger_event_write :: "ledger_env \<Rightarrow> string \<Rightarrow> string \<Rightarrow> string \<Rightarrow> pyval \<Rightarrow> ledger \<Rightarrow> ledger" where
  "ledger_event_write env component level message details l =
     l\<lparr>lg_events := lg_events l @ [\<lparr>le_ts = lv_time env (lg_times l), le_component = component, le_level = level,
         le_message = message, le_details = details\<rparr>], lg_times := lg_times l + 1\<rparr>"

text \<open>With no detail at all the text column gets the given value itself; an empty list or object does not fit.\<close>

definition agent_event :: "ledger_env \<Rightarrow> string \<Rightarrow> string \<Rightarrow> pyval \<Rightarrow> pyval \<Rightarrow> pyval \<Rightarrow> (ledger, unit) act" where
  "agent_event env message level details observation reasoning =
     (let obj = (if truthy observation then [(''observation'', observation)] else [])
              @ (if truthy reasoning then [(''reasoning'', reasoning)] else [])
              @ (if truthy details then [(''details'', details)] else [])
      in if obj \<noteq> [] then modify (ledger_event_write env ''agent'' level message (PyDict obj))
         else if details \<in> {PyList [], PyDict []} then
           bindE (modify (\<lambda>l. l\<lparr>lg_times := lg_times l + 1\<rparr>)) (\<lambda>_. raise (PyExc ''ProgrammingError'' ''type is not supported''))
         else modify (ledger_event_write env ''agent'' level message details))"

definition record_wait :: "ledger_env \<Rightarrow> pyval \<Rightarrow> pyval \<Rightarrow> pyval \<Rightarrow> (ledger, unit) act" where
  "record_wait env reason observation reasoning = agent_event env ''WAIT'' ''INFO'' reason observation reasoning"

definition record_call_human :: "ledger_env \<Rightarrow> pyval \<Rightarrow> pyval \<Rightarrow> pyval \<Rightarrow> (ledger, unit) act" where
  "record_call_human env message observation reasoning =
     agent_event env ''CALL_HUMAN'' ''WARN'' message observation reasoning"

lemma agent_event_actions [simp]: "lg_actions (snd (agent_event env m lv d ob re l)) = lg_actions l"
  by (simp add: agent_event_def Let_def act_simps ledger_event_write_def)

section \<open>Queries\<close>

definition get_by_status :: "ledger_status \<Rightarrow> ledger \<Rightarrow> ledger_action list" where
  "get_by_status st l = sort_key lr_created_ts (filter (\<lambda>r. lr_status r = st) (lg_actions l))"

definition get_proposals :: "ledger \<Rightarrow> ledger_action list" where
  "get_proposals l = sort_key lr_created_ts (filter (\<lambda>r. lr_status r = LProposed) (lg_actions l))"

definition has_inflight :: "string \<Rightarrow> ledger \<Rightarrow> bool" where
  "has_inflight device_group l \<longleftrightarrow>
     (\<exists>r\<in>set (lg_actions l). lr_device_group r = device_group \<and> lr_status r = LDispatched)"

definition get_action :: "string \<Rightarrow> ledger \<Rightarrow> ledger_action option" where
  "get_action action_id l = find_row lr_action_id action_id (lg_actions l)"

section \<open>State transitions\<close>

text \<open>\<open>PyNone\<close> for \<open>result\<close> or \<open>err\<close>: the column keeps its value.\<close>

definition set_status ::
    "ledger_env \<Rightarrow> string \<Rightarrow> ledger_status \<Rightarrow> pyval \<Rightarrow> pyval \<Rightarrow> ledger \<Rightarrow> ledger" where
  "set_status env action_id st result err l =
     l\<lparr>lg_actions := update_row lr_action_id action_id (\<lambda>r. r\<lparr>lr_status := st,
          lr_updated_ts := lv_time env (lg_times l),
          lr_result := (if result \<noteq> PyNone then Some result else lr_result r),
          lr_error := (if err \<noteq> PyNone then Some err else lr_error r)\<rparr>) (lg_actions l),
       lg_times := lg_times l + 1\<rparr>"

definition reason_error :: "string \<Rightarrow> pyval" where
  "reason_error reason = PyDict [(''reason'', PyStr reason)]"

section \<open>Approvals\<close>

text \<open>The \<open>CHECK\<close> of the schema admits two decisions.\<close>

definition record_approval5 :: "ledger_env \<Rightarrow> string \<Rightarrow> string \<Rightarrow> string \<Rightarrow> (ledger, unit) act" where
  "record_approval5 env action_id decision approved_by l =
     (case get_action action_id l of
        None \<Rightarrow> (Inr (), l)
      | Some r \<Rightarrow>
          let approval_id = lv_uuid env (lg_uuids l); ts = lv_time env (lg_times l);
              l' = l\<lparr>lg_uuids := lg_uuids l + 1, lg_times := lg_times l + 1\<rparr>
          in if decision \<notin> {''APPROVE'', ''REJECT''} then
               (Inl (IntegrityError (''CHECK constraint failed: decision IN ('' @ str_repr ''APPROVE'' @ '','' @ str_repr ''REJECT'' @ '')'')), l')
             else if approval_id \<in> lp_approval_id ` set (lg_approvals l) then
               (Inl (unique_failed ''approvals.approval_id''), l')
             else (Inr (), l'\<lparr>lg_approvals := lg_approvals l @ [\<lparr>lp_approval_id = approval_id,
               lp_action_id = action_id, lp_params_hash = lr_params_hash r, lp_decision = decision,
               lp_approved_by = approved_by, lp_created_ts = ts\<rparr>]\<rparr>))"

definition get_approval :: "string \<Rightarrow> ledger \<Rightarrow> ledger_approval option" where
  "get_approval action_id l =
     (case order_desc lp_created_ts (filter (\<lambda>a. lp_action_id a = action_id) (lg_approvals l)) of
        [] \<Rightarrow> None | a # _ \<Rightarrow> Some a)"

section \<open>The episode\<close>

definition max_episode_actions :: int where "max_episode_actions = 12"

definition max_fallback_episode_actions :: int where "max_fallback_episode_actions = 5"

definition episode_boundary :: "ledger \<Rightarrow> rat" where
  "episode_boundary l =
     (case map le_ts (filter (\<lambda>e. le_message e \<in> {''WAIT'', ''CALL_HUMAN''}) (lg_events l)) of
        [] \<Rightarrow> 0 | t # ts \<Rightarrow> fold max ts t)"

definition latest_actions :: "int \<Rightarrow> ledger_action list \<Rightarrow> ledger_action list" where
  "latest_actions n rows = rev (sql_limit n (order_desc lr_created_ts rows))"

definition current_episode :: "int \<Rightarrow> int \<Rightarrow> ledger \<Rightarrow> ledger_action list" where
  "current_episode max_actions fallback_actions l =
     (let episode = latest_actions max_actions
            (filter (\<lambda>r. lr_created_ts r > episode_boundary l) (lg_actions l))
      in if episode = [] then latest_actions fallback_actions (lg_actions l) else episode)"

section \<open>Diaries\<close>

text \<open>The two time columns of a diary are never read and have no field here.\<close>

datatype diary_status = DInFlight | DSuccess | DFailed

record diary_row =
  dr_idempotency_key :: string
  dr_action_id :: string
  dr_tool :: string
  dr_status :: diary_status
  dr_result :: "pyval option"

type_synonym diary = "diary_row list"

definition write_inflight :: "string \<Rightarrow> string \<Rightarrow> string \<Rightarrow> diary \<Rightarrow> diary" where
  "write_inflight key action_id tool d =
     filter (\<lambda>r. dr_idempotency_key r \<noteq> key) d
       @ [\<lparr>dr_idempotency_key = key, dr_action_id = action_id, dr_tool = tool, dr_status = DInFlight,
           dr_result = None\<rparr>]"

definition write_success :: "string \<Rightarrow> pyval \<Rightarrow> diary \<Rightarrow> diary" where
  "write_success key result =
     update_row dr_idempotency_key key (\<lambda>r. r\<lparr>dr_status := DSuccess, dr_result := Some result\<rparr>)"

definition write_failed :: "string \<Rightarrow> pyval \<Rightarrow> diary \<Rightarrow> diary" where
  "write_failed key result =
     update_row dr_idempotency_key key (\<lambda>r. r\<lparr>dr_status := DFailed, dr_result := Some result\<rparr>)"

definition diary_lookup :: "string \<Rightarrow> diary \<Rightarrow> diary_status option" where
  "diary_lookup key d = map_option dr_status (find_row dr_idempotency_key key d)"

definition diary_result :: "string \<Rightarrow> diary \<Rightarrow> pyval" where
  "diary_result key d =
     (case find_row dr_idempotency_key key d of
        None \<Rightarrow> PyNone
      | Some r \<Rightarrow> (case dr_result r of None \<Rightarrow> PyNone | Some v \<Rightarrow> v))"

definition get_inflight :: "diary \<Rightarrow> diary" where
  "get_inflight d = filter (\<lambda>r. dr_status r = DInFlight) d"

section \<open>Keys\<close>

lemma sql_like_self: "sql_like ps s \<Longrightarrow> sql_like (p @ ps) (p @ s)"
proof (induction p)
  case (Cons c p)
  then show ?case by (cases "p @ s") (auto simp: sql_like.simps(2,3))
qed simp

lemma sql_like_any: "sql_like [CHR ''%''] s"
  by (induction s) simp_all

lemma same_key_self: "lr_idempotency_key r = key \<or> (\<exists>t. lr_idempotency_key r = key @ retry_mark @ t) \<Longrightarrow> same_key key r"
  using sql_like_self [OF sql_like_any, of "key @ retry_mark"] by (auto simp: same_key_def)

definition plain :: "string \<Rightarrow> bool" where
  "plain s \<longleftrightarrow> CHR '':'' \<notin> set s"

lemma plain_nat_str [simp]: "plain (nat_str n)"
  using nat_str_chars [of n] by (auto simp: plain_def is_digit_def list_all_iff)

lemma split_keys [simp]:
  assumes "plain t" and "plain h"
  shows "split_on CHR '':'' (base_key t h) = [t, h]"
    and "split_on CHR '':'' (base_key t h @ retry_mark @ nat_str n) = [t, h, ''retry'', nat_str n]"
  using assms plain_nat_str [of n]
  by (simp_all add: base_key_def retry_mark_def plain_def split_on_append_sep split_on_no_sep)

definition row_base :: "ledger_action \<Rightarrow> string" where
  "row_base r = base_key (lr_tool r) (lr_params_hash r)"

definition plain_row :: "ledger_action \<Rightarrow> bool" where
  "plain_row r \<longleftrightarrow> plain (lr_tool r) \<and> plain (lr_params_hash r)"

definition is_active :: "ledger_action \<Rightarrow> bool" where
  "is_active r \<longleftrightarrow> lr_status r \<in> set active_statuses"

text \<open>The key of a row: that of its tool and parameters, or a retry of it numbered below the rows that match.\<close>

definition key_form :: "ledger_action list \<Rightarrow> ledger_action \<Rightarrow> bool" where
  "key_form rows r \<longleftrightarrow> lr_idempotency_key r = row_base r
     \<or> (\<exists>n < length (filter (same_key (row_base r)) rows). lr_idempotency_key r = row_base r @ retry_mark @ nat_str n)"

definition ledger_ok :: "ledger \<Rightarrow> bool" where
  "ledger_ok l \<longleftrightarrow> distinct (map lr_action_id (lg_actions l)) \<and> distinct (map lr_idempotency_key (lg_actions l))
     \<and> (\<forall>r\<in>set (lg_actions l). plain_row r \<and> key_form (lg_actions l) r)
     \<and> distinct (map row_base (filter is_active (lg_actions l)))"

lemma ledger_ok_empty [simp]: "ledger_ok empty_ledger"
  by (simp add: ledger_ok_def empty_ledger_def)

lemma key_form_same_key: "key_form rows r \<Longrightarrow> same_key (row_base r) r"
  by (auto simp: key_form_def intro: same_key_self)

lemma split_row_base: "plain_row r \<Longrightarrow> split_on CHR '':'' (row_base r) = [lr_tool r, lr_params_hash r]"
  unfolding row_base_def plain_row_def by (rule split_keys(1)) simp_all

lemma row_base_eq:
  assumes "plain_row r" and "plain t" and "plain h" and "row_base r = base_key t h"
  shows "lr_tool r = t \<and> lr_params_hash r = h"
proof -
  have "[lr_tool r, lr_params_hash r] = split_on CHR '':'' (base_key t h)"
    unfolding assms(4) [symmetric] by (rule split_row_base [OF assms(1), symmetric])
  also have "\<dots> = [t, h]" by (rule split_keys(1) [OF assms(2,3)])
  finally show ?thesis by (simp only: list.inject)
qed

lemma retry_key_eq:
  assumes "plain_row r" and "plain t" and "plain h" and "key_form rows r"
    and "lr_idempotency_key r = base_key t h @ retry_mark @ nat_str n"
  shows "row_base r = base_key t h \<and> n < length (filter (same_key (base_key t h)) rows)"
proof -
  note s = split_keys(2) [OF assms(2,3), of n, folded assms(5)]
  have pl: "plain (lr_tool r)" "plain (lr_params_hash r)" using assms(1) by (simp_all add: plain_row_def)
  from assms(4) consider "lr_idempotency_key r = row_base r"
    | m where "m < length (filter (same_key (row_base r)) rows)" "lr_idempotency_key r = row_base r @ retry_mark @ nat_str m"
    unfolding key_form_def by blast
  then show ?thesis
  proof cases
    case 1
    have "[lr_tool r, lr_params_hash r] = [t, h, ''retry'', nat_str n]"
      using split_row_base [OF assms(1)] s unfolding 1 by (rule trans [OF sym])
    then show ?thesis by (simp only: list.inject list.distinct simp_thms)
  next
    case 2
    have "split_on CHR '':'' (lr_idempotency_key r) = [lr_tool r, lr_params_hash r, ''retry'', nat_str m]"
      unfolding 2(2) row_base_def by (rule split_keys(2) [OF pl])
    with s have "[lr_tool r, lr_params_hash r, ''retry'', nat_str m] = [t, h, ''retry'', nat_str n]"
      by (rule trans [OF sym, rotated])
    then have "lr_tool r = t" "lr_params_hash r = h" "nat_str m = nat_str n" by (simp_all only: list.inject)
    then have "m = n" using nat_val_nat_str [of m] nat_val_nat_str [of n] by metis
    with 2(1) \<open>lr_tool r = t\<close> \<open>lr_params_hash r = h\<close> show ?thesis by (simp add: row_base_def)
  qed
qed

lemma key_form_mono:
  assumes "key_form rows r"
  shows "key_form (rows @ [x]) r"
proof -
  have "length (filter P rows) \<le> length (filter P (rows @ [x]))" for P by simp
  then show ?thesis using assms unfolding key_form_def by (meson less_le_trans)
qed

section \<open>Proposing\<close>

lemma proposed_row_fields [simp]:
  "lr_action_id (proposed_row env a i k n m) = i" "lr_idempotency_key (proposed_row env a i k n m) = k"
  "lr_status (proposed_row env a i k n m) = LProposed"
  "row_base (proposed_row env a i k n m) = base_key (pa_tool a) (params_hash env (pa_params a))"
  "plain_row (proposed_row env a i k n m) \<longleftrightarrow> plain (pa_tool a) \<and> plain (params_hash env (pa_params a))"
  by (simp_all add: proposed_row_def row_base_def plain_row_def)

text \<open>The key that \<open>propose\<close> chooses is new: the retries of a key are numbered by the rows already there.\<close>

definition next_key :: "string \<Rightarrow> ledger_action list \<Rightarrow> string" where
  "next_key key rows = (let existing = filter (same_key key) rows in
     if existing \<noteq> [] then key @ retry_mark @ nat_str (length existing) else key)"

lemma next_key_fresh:
  assumes ok: "\<forall>r\<in>set rows. plain_row r \<and> key_form rows r" and pl: "plain t" "plain h"
  shows "next_key (base_key t h) rows \<notin> lr_idempotency_key ` set rows"
proof
  assume "next_key (base_key t h) rows \<in> lr_idempotency_key ` set rows"
  then obtain r where r: "r \<in> set rows" "lr_idempotency_key r = next_key (base_key t h) rows" by auto
  show False
  proof (cases "filter (same_key (base_key t h)) rows = []")
    case True
    then have "lr_idempotency_key r = base_key t h" using r(2) by (simp add: next_key_def)
    then have "same_key (base_key t h) r" by (simp add: same_key_def)
    with True r(1) show False by (auto simp: filter_empty_conv)
  next
    case False
    then have k: "lr_idempotency_key r = base_key t h @ retry_mark @ nat_str (length (filter (same_key (base_key t h)) rows))"
      using r(2) by (simp add: next_key_def)
    from retry_key_eq [OF _ pl _ k] ok r(1) show False by blast
  qed
qed

text \<open>Whether \<open>propose\<close> adds a row, and the row it adds.\<close>

definition proposal_blocked :: "ledger_env \<Rightarrow> proposal_args \<Rightarrow> ledger \<Rightarrow> bool" where
  "proposal_blocked env a l \<longleftrightarrow>
     (\<exists>r\<in>set (lg_actions l). same_key (base_key (pa_tool a) (params_hash env (pa_params a))) r \<and> is_active r)"

definition new_row :: "ledger_env \<Rightarrow> proposal_args \<Rightarrow> ledger \<Rightarrow> ledger_action" where
  "new_row env a l = proposed_row env a (lv_uuid env (lg_uuids l))
     (next_key (base_key (pa_tool a) (params_hash env (pa_params a))) (lg_actions l))
     (lv_time env (lg_times l)) (lv_mono env (lg_monos l))"

definition plain_args :: "ledger_env \<Rightarrow> proposal_args \<Rightarrow> bool" where
  "plain_args env a \<longleftrightarrow> plain (pa_tool a) \<and> plain (params_hash env (pa_params a))"

lemma propose_result:
  assumes ok: "ledger_ok l" and pl: "plain_args env a"
  shows "propose env a l =
    (let l' = l\<lparr>lg_uuids := lg_uuids l + 1, lg_times := lg_times l + 1, lg_monos := lg_monos l + 1\<rparr>
     in if proposal_blocked env a l \<or> lv_uuid env (lg_uuids l) \<in> lr_action_id ` set (lg_actions l) then ([], l')
        else (lv_uuid env (lg_uuids l), l'\<lparr>lg_actions := lg_actions l @ [new_row env a l]\<rparr>))"
proof -
  define key where "key = base_key (pa_tool a) (params_hash env (pa_params a))"
  have fresh: "next_key key (lg_actions l) \<notin> lr_idempotency_key ` set (lg_actions l)"
    unfolding key_def by (rule next_key_fresh) (use ok pl in \<open>simp_all add: ledger_ok_def plain_args_def\<close>)
  have blocked: "(\<exists>r\<in>set (filter (same_key key) (lg_actions l)). lr_status r \<in> set active_statuses)
      \<longleftrightarrow> proposal_blocked env a l"
    by (auto simp: proposal_blocked_def is_active_def key_def)
  define l' where "l' = l\<lparr>lg_uuids := lg_uuids l + 1, lg_times := lg_times l + 1, lg_monos := lg_monos l + 1\<rparr>"
  have l': "lg_actions l' = lg_actions l" by (simp add: l'_def)
  have "propose env a l = (if proposal_blocked env a l then ([], l')
      else case insert_action (new_row env a l) l' of Inr l'' \<Rightarrow> (lv_uuid env (lg_uuids l), l'') | Inl _ \<Rightarrow> ([], l'))"
    unfolding propose_def key_def [symmetric] l'_def [symmetric] Let_def l' blocked new_row_def next_key_def ..
  moreover have "insert_action (new_row env a l) l' =
      (if lv_uuid env (lg_uuids l) \<in> lr_action_id ` set (lg_actions l) then Inl (unique_failed ''actions.action_id'')
       else Inr (l'\<lparr>lg_actions := lg_actions l @ [new_row env a l]\<rparr>))"
    using fresh by (simp add: insert_action_def new_row_def key_def l')
  ultimately show ?thesis unfolding l'_def [symmetric] Let_def by simp
qed

lemma key_form_new:
  assumes "base = row_base x" and "lr_idempotency_key x = next_key base rows"
  shows "key_form (rows @ [x]) x"
proof (cases "filter (same_key base) rows = []")
  case True
  then show ?thesis using assms by (simp add: key_form_def next_key_def)
next
  case False
  then have k: "lr_idempotency_key x = base @ retry_mark @ nat_str (length (filter (same_key base) rows))"
    using assms by (simp add: next_key_def)
  then have "same_key base x" by (intro same_key_self) auto
  then have "length (filter (same_key base) rows) < length (filter (same_key base) (rows @ [x]))" by simp
  then show ?thesis unfolding key_form_def using k assms(1) by blast
qed

lemma ledger_ok_actions: "lg_actions l' = lg_actions l \<Longrightarrow> ledger_ok l' = ledger_ok l"
  by (simp add: ledger_ok_def)

lemma propose_ok:
  assumes ok: "ledger_ok l" and pl: "plain_args env a"
  shows "ledger_ok (snd (propose env a l))"
proof -
  define key where "key = base_key (pa_tool a) (params_hash env (pa_params a))"
  define x where "x = new_row env a l"
  have x: "row_base x = key" "lr_idempotency_key x = next_key key (lg_actions l)"
    "lr_action_id x = lv_uuid env (lg_uuids l)" "lr_status x = LProposed" "plain_row x"
    using pl by (simp_all add: x_def new_row_def key_def plain_args_def)
  have fresh: "next_key key (lg_actions l) \<notin> lr_idempotency_key ` set (lg_actions l)"
    unfolding key_def by (rule next_key_fresh) (use ok pl in \<open>simp_all add: ledger_ok_def plain_args_def\<close>)
  have added: "ledger_ok (l\<lparr>lg_actions := lg_actions l @ [x]\<rparr>)"
    if no: "\<not> proposal_blocked env a l" and id: "lv_uuid env (lg_uuids l) \<notin> lr_action_id ` set (lg_actions l)"
  proof -
    have "row_base r \<noteq> key" if "r \<in> set (lg_actions l)" "is_active r" for r
      using no that key_form_same_key [of "lg_actions l" r] ok
      unfolding ledger_ok_def proposal_blocked_def key_def by metis
    then have act: "key \<notin> row_base ` set (filter is_active (lg_actions l))" by auto
    have "key_form (lg_actions l @ [x]) x" by (rule key_form_new [of key]) (simp_all add: x)
    then show ?thesis using ok fresh id act unfolding ledger_ok_def by (auto simp: x key_form_mono)
  qed
  show ?thesis
  proof (cases "proposal_blocked env a l \<or> lv_uuid env (lg_uuids l) \<in> lr_action_id ` set (lg_actions l)")
    case True
    then show ?thesis using ok by (simp add: propose_result [OF ok pl] Let_def ledger_ok_def)
  next
    case False
    then show ?thesis using added
      by (simp add: propose_result [OF ok pl] Let_def x_def [symmetric] ledger_ok_def)
  qed
qed

section \<open>What status changes keep\<close>

text \<open>A row may change its status, its result and its update time; an inactive row stays inactive.\<close>

definition row_step :: "ledger_action \<Rightarrow> ledger_action \<Rightarrow> bool" where
  "row_step r r' \<longleftrightarrow>
     r'\<lparr>lr_status := lr_status r, lr_result := lr_result r, lr_error := lr_error r, lr_updated_ts := lr_updated_ts r\<rparr> = r
     \<and> (is_active r' \<longrightarrow> is_active r)"

lemma row_step_refl [simp]: "row_step r r"
  by (simp add: row_step_def)

lemma row_step_fields:
  assumes "row_step r r'"
  shows "lr_action_id r' = lr_action_id r" "lr_idempotency_key r' = lr_idempotency_key r" "row_base r' = row_base r"
    "plain_row r' = plain_row r" "lr_tool r' = lr_tool r" "lr_params r' = lr_params r"
    "lr_device_group r' = lr_device_group r" "lr_chain_id r' = lr_chain_id r" "lr_chain_seq r' = lr_chain_seq r"
    "lr_requires_approval r' = lr_requires_approval r" "is_active r' \<Longrightarrow> is_active r"
proof -
  from assms obtain st re er ts where r: "r = r'\<lparr>lr_status := st, lr_result := re, lr_error := er, lr_updated_ts := ts\<rparr>"
    unfolding row_step_def by metis
  show "lr_action_id r' = lr_action_id r" "lr_idempotency_key r' = lr_idempotency_key r" "row_base r' = row_base r"
    "plain_row r' = plain_row r" "lr_tool r' = lr_tool r" "lr_params r' = lr_params r"
    "lr_device_group r' = lr_device_group r" "lr_chain_id r' = lr_chain_id r" "lr_chain_seq r' = lr_chain_seq r"
    "lr_requires_approval r' = lr_requires_approval r"
    by (simp_all add: r row_base_def plain_row_def)
  show "is_active r' \<Longrightarrow> is_active r" using assms by (simp add: row_step_def)
qed

lemma same_key_step: "row_step r r' \<Longrightarrow> same_key k r' = same_key k r"
  by (simp add: same_key_def row_step_fields)

definition rows_step :: "ledger_action list \<Rightarrow> ledger_action list \<Rightarrow> bool" where
  "rows_step = list_all2 row_step"

lemma rows_step_refl [simp]: "rows_step rows rows"
  by (simp add: rows_step_def list_all2_refl)

lemma row_step_trans:
  assumes "row_step r r'" and "row_step r' r''"
  shows "row_step r r''"
proof -
  define g where "g x y = x\<lparr>lr_status := lr_status y, lr_result := lr_result y, lr_error := lr_error y,
    lr_updated_ts := lr_updated_ts y\<rparr>" for x y :: ledger_action
  have "g r'' r = g (g r'' r') r" by (rule ledger_action.equality) (simp_all add: g_def)
  then show ?thesis using assms unfolding row_step_def g_def [symmetric] by simp
qed

lemma rows_step_trans: "rows_step a b \<Longrightarrow> rows_step b c \<Longrightarrow> rows_step a c"
  unfolding rows_step_def by (rule list_all2_trans [OF row_step_trans])

lemma rows_step_map:
  assumes "rows_step rows rows'" and "\<And>r r'. row_step r r' \<Longrightarrow> f r' = f r"
  shows "map f rows' = map f rows"
  using assms(1) unfolding rows_step_def by (induction rule: list_all2_induct) (simp_all add: assms(2))

lemma rows_step_count: "rows_step rows rows' \<Longrightarrow> length (filter (same_key k) rows') = length (filter (same_key k) rows)"
  unfolding rows_step_def by (induction rule: list_all2_induct) (simp_all add: same_key_step)

lemma rows_step_active_bases:
  "rows_step rows rows' \<Longrightarrow> row_base ` {r \<in> set rows'. is_active r} \<subseteq> row_base ` {r \<in> set rows. is_active r}"
  unfolding rows_step_def
proof (induction rule: list_all2_induct)
  case (Cons r rows r' rows')
  have "row_base r' = row_base r" "is_active r' \<longrightarrow> is_active r" using row_step_fields(3,11) [OF Cons(1)] by simp_all
  with Cons.IH show ?case by (simp only: list.set) blast
qed simp

lemma rows_step_active:
  "rows_step rows rows' \<Longrightarrow> distinct (map row_base (filter is_active rows)) \<Longrightarrow> distinct (map row_base (filter is_active rows'))"
  unfolding rows_step_def
proof (induction rule: list_all2_induct)
  case (Cons r rows r' rows')
  have b: "row_base r' = row_base r" "is_active r' \<longrightarrow> is_active r" using row_step_fields(3,11) [OF Cons(1)] by simp_all
  from Cons.prems have "distinct (map row_base (filter is_active rows))" by (cases "is_active r") simp_all
  then have IH: "distinct (map row_base (filter is_active rows'))" by (rule Cons.IH)
  show ?case
  proof (cases "is_active r'")
    case True
    with b have "is_active r" by simp
    with Cons.prems have "row_base r \<notin> row_base ` {r \<in> set rows. is_active r}" by simp
    with rows_step_active_bases [unfolded rows_step_def, OF Cons(2)] have "row_base r \<notin> row_base ` {r \<in> set rows'. is_active r}"
      by blast
    then show ?thesis using IH True b(1) by simp
  qed (use IH in simp)
qed simp

lemma ledger_ok_step:
  assumes ok: "ledger_ok l" and st: "rows_step (lg_actions l) (lg_actions l')"
  shows "ledger_ok l'"
proof -
  have "plain_row r' \<and> key_form (lg_actions l') r'" if "r' \<in> set (lg_actions l')" for r'
  proof -
    from that st obtain r where r: "r \<in> set (lg_actions l)" "row_step r r'"
      unfolding rows_step_def list_all2_conv_all_nth in_set_conv_nth by metis
    then have "plain_row r \<and> key_form (lg_actions l) r" using ok by (simp add: ledger_ok_def)
    then show ?thesis
      unfolding key_form_def rows_step_count [OF st] row_step_fields(2,3,4) [OF r(2)] .
  qed
  moreover have "map lr_action_id (lg_actions l') = map lr_action_id (lg_actions l)"
    "map lr_idempotency_key (lg_actions l') = map lr_idempotency_key (lg_actions l)"
    by (rule rows_step_map [OF st]; simp add: row_step_fields)+
  ultimately show ?thesis using ok rows_step_active [OF st] unfolding ledger_ok_def by simp
qed

lemma set_status_step:
  assumes "\<And>r. r \<in> set (lg_actions l) \<Longrightarrow> lr_action_id r = i \<Longrightarrow> is_active r"
  shows "rows_step (lg_actions l) (lg_actions (set_status env i st res err l))"
  using assms unfolding rows_step_def
  by (simp add: set_status_def update_row_def list_all2_conv_all_nth row_step_def)

lemma set_status_row:
  assumes "ledger_ok l" and "r \<in> set (lg_actions l)" and "lr_action_id r = i"
  shows "find_row lr_action_id i (lg_actions (set_status env i st res err l)) = Some (r\<lparr>lr_status := st,
     lr_updated_ts := lv_time env (lg_times l), lr_result := (if res \<noteq> PyNone then Some res else lr_result r),
     lr_error := (if err \<noteq> PyNone then Some err else lr_error r)\<rparr>)"
proof -
  have "find_row lr_action_id i (lg_actions l) = Some r"
    using assms by (simp add: find_row_distinct ledger_ok_def)
  then show ?thesis by (simp add: set_status_def find_update_row)
qed

lemma set_status_other:
  "i' \<noteq> i \<Longrightarrow> find_row lr_action_id i' (lg_actions (set_status env i st res err l)) = find_row lr_action_id i' (lg_actions l)"
  by (simp add: set_status_def find_update_row)

end
