(* ===== verification/Dispatch.thy ===== *)
theory Dispatch
  imports Ledger
begin

text \<open>
  The engine of the agent (\<open>src/wallee/engine/dispatch.py\<close>), its registry of tools (\<open>tools/registry.py\<close>) and the
  recovery after a crash (\<open>engine/reconcile.py\<close>).  The whiteboard belongs to other threads, so each read is
  answered by the environment, as are the tools themselves.  \<open>dv_power\<close> is the number of commits and tool calls left before the
  process dies (\<open>None\<close>: it does not): from then on nothing durable changes and no tool runs, so that the state is
  the one a restart finds.  Sensor threads, heartbeats and the log are not modelled.
\<close>

section \<open>Tools\<close>

record tool =
  tl_name :: string
  tl_pack_name :: string
  tl_kind :: string
  tl_doc :: string
  tl_gate_bypass :: bool
  tl_requires_approval :: bool
  tl_max_proposal_age_ms :: int
  tl_has_precheck :: bool
  tl_state_effects :: "string list"

definition device_group :: "tool \<Rightarrow> string" where
  "device_group t = tl_pack_name t"

type_synonym registry = "(string \<times> tool) list"

definition register_tool :: "string \<Rightarrow> tool \<Rightarrow> registry \<Rightarrow> registry" where
  "register_tool name t tools = dset name t tools"

definition list_actuators :: "registry \<Rightarrow> tool list" where
  "list_actuators tools = filter (\<lambda>t. tl_kind t = ''actuator'') (map snd tools)"

definition list_for_llm :: "registry \<Rightarrow> (string \<times> string \<times> bool) list" where
  "list_for_llm tools = map (\<lambda>t. (tl_name t, tl_doc t, tl_requires_approval t)) (list_actuators tools)"

definition state_effects_map :: "registry \<Rightarrow> (string \<times> string list) list" where
  "state_effects_map tools =
     fold (\<lambda>t effects. fold (\<lambda>key eff. dset key (dget_or eff key [] @ [tl_name t]) eff) (tl_state_effects t) effects)
       (map snd tools) []"

section \<open>The state of the engine\<close>

record engine5 =
  dv_ledger :: ledger
  dv_diaries :: "(string \<times> diary) list"
  dv_reads :: nat
  dv_calls :: "(string \<times> string \<times> dict) list"
  dv_prechecks :: nat
  dv_notified :: "string list"
  dv_human :: "(string \<times> string) list"
  dv_last_reconcile :: rat
  dv_power :: "nat option"

record engine_env = ledger_env +
  xv_tools :: registry
  xv_read :: "nat \<Rightarrow> string \<Rightarrow> pyexc + pyval"
  xv_execute :: "nat \<Rightarrow> tool \<Rightarrow> dict \<Rightarrow> pyexc + pyval"
  xv_precheck :: "nat \<Rightarrow> tool \<Rightarrow> dict \<Rightarrow> pyexc + pyval"
  xv_approval_timeout :: rat
  xv_has_notifier :: bool

definition ledger_env_of :: "engine_env \<Rightarrow> ledger_env" where
  "ledger_env_of env = ledger_env.truncate env"

definition initial_engine :: engine5 where
  "initial_engine = \<lparr>dv_ledger = empty_ledger, dv_diaries = [], dv_reads = 0, dv_calls = [], dv_prechecks = 0,
     dv_notified = [], dv_human = [], dv_last_reconcile = 0, dv_power = None\<rparr>"

definition powered :: "engine5 \<Rightarrow> bool" where
  "powered s \<longleftrightarrow> dv_power s \<noteq> Some 0"

text \<open>One step that lasts: a commit or a tool call.\<close>

definition commit :: "(engine5 \<Rightarrow> engine5) \<Rightarrow> (engine5, unit) act" where
  "commit u = modify (\<lambda>s. if powered s then (u s)\<lparr>dv_power := map_option (\<lambda>n. n - 1) (dv_power s)\<rparr> else s)"

definition on_ledger :: "(ledger \<Rightarrow> ledger) \<Rightarrow> engine5 \<Rightarrow> engine5" where
  "on_ledger u s = s\<lparr>dv_ledger := u (dv_ledger s)\<rparr>"

definition get_diary :: "string \<Rightarrow> engine5 \<Rightarrow> diary" where
  "get_diary dg s = dget_or (dv_diaries s) dg []"

definition on_diary :: "string \<Rightarrow> (diary \<Rightarrow> diary) \<Rightarrow> engine5 \<Rightarrow> engine5" where
  "on_diary dg u s = s\<lparr>dv_diaries := dset dg (u (get_diary dg s)) (dv_diaries s)\<rparr>"

definition wb_read :: "engine_env \<Rightarrow> string \<Rightarrow> (engine5, pyval) act" where
  "wb_read env key s = (xv_read env (dv_reads s) key, s\<lparr>dv_reads := dv_reads s + 1\<rparr>)"

definition monotonic :: "engine_env \<Rightarrow> (engine5, rat) act" where
  "monotonic env s = (Inr (lv_mono env (lg_monos (dv_ledger s))),
     on_ledger (\<lambda>l. l\<lparr>lg_monos := lg_monos l + 1\<rparr>) s)"

text \<open>A tool runs only while there is power; its call is recorded before it returns.\<close>

definition run_tool :: "engine_env \<Rightarrow> tool \<Rightarrow> string \<Rightarrow> dict \<Rightarrow> (engine5, pyexc + pyval) act" where
  "run_tool env t action_id params s =
     (Inr (xv_execute env (length (dv_calls s)) t params),
      snd (commit (\<lambda>s. s\<lparr>dv_calls := dv_calls s @ [(action_id, tl_name t, params)]\<rparr>) s))"

definition run_precheck :: "engine_env \<Rightarrow> tool \<Rightarrow> dict \<Rightarrow> (engine5, pyexc + pyval) act" where
  "run_precheck env t params s =
     (Inr (xv_precheck env (dv_prechecks s) t params), s\<lparr>dv_prechecks := dv_prechecks s + 1\<rparr>)"

definition put_status :: "engine_env \<Rightarrow> string \<Rightarrow> ledger_status \<Rightarrow> pyval \<Rightarrow> pyval \<Rightarrow> (engine5, unit) act" where
  "put_status env action_id st result err =
     commit (on_ledger (set_status (ledger_env_of env) action_id st result err))"

definition reject :: "engine_env \<Rightarrow> string \<Rightarrow> string \<Rightarrow> (engine5, unit) act" where
  "reject env action_id reason =
     bindE (put_status env action_id LRejected PyNone (reason_error reason)) (\<lambda>_.
     commit (on_ledger (ledger_event_write (ledger_env_of env) ''engine'' ''INFO''
       (''REJECTED '' @ action_id) (PyStr reason))))"

definition notify_approval_request :: "engine_env \<Rightarrow> string \<Rightarrow> (engine5, unit) act" where
  "notify_approval_request env action_id =
     (if xv_has_notifier env
      then modify (\<lambda>s. if powered s then s\<lparr>dv_notified := dv_notified s @ [action_id]\<rparr> else s) else ret ())"

section \<open>One proposal\<close>

definition status_text :: "ledger_status \<Rightarrow> string" where
  "status_text st = (case st of LProposed \<Rightarrow> ''PROPOSED'' | LWaitingApproval \<Rightarrow> ''WAITING_APPROVAL''
     | LDispatched \<Rightarrow> ''DISPATCHED'' | LDone \<Rightarrow> ''DONE'' | LFailed \<Rightarrow> ''FAILED'' | LRejected \<Rightarrow> ''REJECTED''
     | LUnknown \<Rightarrow> ''UNKNOWN'')"

fun is_error :: "pyval \<Rightarrow> bool" where
  "is_error (PyDict d) = has_key d ''error''"
| "is_error _ = False"

fun error_of :: "pyval \<Rightarrow> pyval" where
  "error_of (PyDict d) = pget d ''error''"
| "error_of _ = PyNone"

definition error_dict :: "pyexc \<Rightarrow> pyval" where
  "error_dict e = PyDict [(''error'', PyStr (exc_str e))]"

definition chain_predecessors :: "string \<Rightarrow> int \<Rightarrow> ledger \<Rightarrow> ledger_action list" where
  "chain_predecessors chain_id chain_seq l =
     sort_key (\<lambda>r. case lr_chain_seq r of None \<Rightarrow> 0 | Some n \<Rightarrow> n)
       (filter (\<lambda>r. lr_chain_id r = Some chain_id
          \<and> (case lr_chain_seq r of None \<Rightarrow> False | Some n \<Rightarrow> n < chain_seq)) (lg_actions l))"

text \<open>\<open>None\<close>: every predecessor has finished; otherwise why the action is not processed further.\<close>

fun chain_verdict :: "ledger_action list \<Rightarrow> string option option" where
  "chain_verdict [] = None"
| "chain_verdict (pred # preds) =
     (if lr_status pred \<in> {LFailed, LRejected} then
        Some (Some (''chain_skipped: predecessor '' @ take 8 (lr_action_id pred) @ '' was '' @ status_text (lr_status pred)))
      else if lr_status pred \<in> {LProposed, LWaitingApproval, LDispatched, LUnknown} then Some None
      else chain_verdict preds)"

definition chain_check :: "ledger_action \<Rightarrow> ledger \<Rightarrow> string option option" where
  "chain_check p l =
     (case (lr_chain_id p, lr_chain_seq p) of
        (Some c, Some n) \<Rightarrow> if n > 0 then chain_verdict (chain_predecessors c n l) else None
      | _ \<Rightarrow> None)"

definition rejecting :: "engine_env \<Rightarrow> string \<Rightarrow> string \<Rightarrow> (engine5, string) act" where
  "rejecting env action_id reason = bindE (reject env action_id reason) (\<lambda>_. ret ''REJECTED'')"

text \<open>Tools that control no hardware skip every gate.\<close>

definition bypass_gates :: "engine_env \<Rightarrow> tool \<Rightarrow> string \<Rightarrow> dict \<Rightarrow> (engine5, string) act" where
  "bypass_gates env t action_id params =
     bindE (put_status env action_id LDispatched PyNone PyNone) (\<lambda>_.
     bindE (run_tool env t action_id params) (\<lambda>outcome.
     case outcome of
       Inl e \<Rightarrow> bindE (put_status env action_id LFailed PyNone (error_dict e)) (\<lambda>_. ret ''FAILED'')
     | Inr result \<Rightarrow>
         if is_error result then bindE (put_status env action_id LFailed PyNone result) (\<lambda>_. ret ''FAILED'')
         else bindE (put_status env action_id LDone result PyNone) (\<lambda>_. ret ''DONE'')))"

text \<open>Gate 5: the diary is written before the tool runs.\<close>

definition dispatch :: "engine_env \<Rightarrow> tool \<Rightarrow> ledger_action \<Rightarrow> (engine5, string) act" where
  "dispatch env t p =
     (let action_id = lr_action_id p; dg = device_group t; key = lr_idempotency_key p in
      bindE (commit (on_diary dg (write_inflight key action_id (lr_tool p)))) (\<lambda>_.
      bindE (put_status env action_id LDispatched PyNone PyNone) (\<lambda>_.
      bindE (run_tool env t action_id (lr_params p)) (\<lambda>outcome.
      case outcome of
        Inl e \<Rightarrow>
          bindE (commit (on_diary dg (write_failed key (error_dict e)))) (\<lambda>_.
          bindE (put_status env action_id LFailed PyNone (error_dict e)) (\<lambda>_. ret ''FAILED''))
      | Inr result \<Rightarrow>
          if is_error result then
            bindE (commit (on_diary dg (write_failed key result))) (\<lambda>_.
            bindE (put_status env action_id LFailed PyNone result) (\<lambda>_. ret ''FAILED''))
          else
            bindE (commit (on_diary dg (write_success key result))) (\<lambda>_.
            bindE (put_status env action_id LDone result PyNone) (\<lambda>_. ret ''DONE''))))))"

text \<open>Gate 4: the precheck of the tool.\<close>

definition toctou_gate :: "engine_env \<Rightarrow> tool \<Rightarrow> ledger_action \<Rightarrow> (engine5, string) act" where
  "toctou_gate env t p =
     (if tl_has_precheck t then
        bindE (run_precheck env t (lr_params p)) (\<lambda>outcome.
        case outcome of
          Inl e \<Rightarrow> rejecting env (lr_action_id p) (''TOCTOU exception: '' @ exc_str e)
        | Inr result \<Rightarrow>
            if is_error result then
              rejecting env (lr_action_id p) (''TOCTOU: '' @ py_str (lv_rt env) (error_of result))
            else dispatch env t p)
      else dispatch env t p)"

text \<open>Gate 3: approval.  The proposal is the row that the poll has read.\<close>

definition approval_gate :: "engine_env \<Rightarrow> tool \<Rightarrow> ledger_action \<Rightarrow> (engine5, string) act" where
  "approval_gate env t p =
     (let action_id = lr_action_id p in
      if lr_requires_approval p then
        bindE (gets (\<lambda>s. get_approval action_id (dv_ledger s))) (\<lambda>approval.
        case approval of
          None \<Rightarrow>
            bindE (if lr_status p \<noteq> LWaitingApproval then
                     bindE (put_status env action_id LWaitingApproval PyNone PyNone) (\<lambda>_.
                     notify_approval_request env action_id)
                   else ret ()) (\<lambda>_. ret ''WAITING_APPROVAL'')
        | Some a \<Rightarrow>
            if lp_decision a \<noteq> ''APPROVE'' then rejecting env action_id ''not approved by operator''
            else toctou_gate env t p)
      else toctou_gate env t p)"

text \<open>Gates 1 and 2: no second dispatch in a device group, no stale proposal.\<close>

definition queue_gate :: "engine_env \<Rightarrow> tool \<Rightarrow> ledger_action \<Rightarrow> (engine5, string) act" where
  "queue_gate env t p =
     bindE (gets (\<lambda>s. has_inflight (device_group t) (dv_ledger s))) (\<lambda>inflight.
     if inflight then ret ''SKIPPED''
     else bindE (monotonic env) (\<lambda>now.
       let age_ms = (now - lr_created_mono p) * 1000 in
       if age_ms > of_int (lr_max_proposal_age_ms p) then
         rejecting env (lr_action_id p) (''expired ('' @ float_fixed (lv_rt env) 0 (Fin age_ms) @ ''ms > ''
           @ int_str (lr_max_proposal_age_ms p) @ ''ms)'')
       else approval_gate env t p))"

text \<open>Gates 0 and 0b: the emergency stop and an external pause.  The text of the code has a dash beyond Latin-1.\<close>

definition external_pause_reason :: string where
  "external_pause_reason =
     ''External pause active - investigate before resuming. Use call_human or check sensors first.''"

definition stop_gates :: "engine_env \<Rightarrow> tool \<Rightarrow> ledger_action \<Rightarrow> (engine5, string) act" where
  "stop_gates env t p =
     bindE (wb_read env ''safety.estop'') (\<lambda>estop.
     if truthy estop then rejecting env (lr_action_id p) ''blocked by safety.estop''
     else if lr_tool p = ''resume_print'' then
       bindE (wb_read env ''agent.external_pause'') (\<lambda>paused.
       if truthy paused then rejecting env (lr_action_id p) external_pause_reason else queue_gate env t p)
     else queue_gate env t p)"

definition process_proposal :: "engine_env \<Rightarrow> ledger_action \<Rightarrow> (engine5, string) act" where
  "process_proposal env p =
     (let action_id = lr_action_id p in
      case map_of (xv_tools env) (lr_tool p) of
        None \<Rightarrow> rejecting env action_id (''unknown tool: '' @ lr_tool p)
      | Some t \<Rightarrow>
          if tl_gate_bypass t then bypass_gates env t action_id (lr_params p)
          else bindE (gets (\<lambda>s. chain_check p (dv_ledger s))) (\<lambda>verdict.
            case verdict of
              Some (Some reason) \<Rightarrow> rejecting env action_id reason
            | Some None \<Rightarrow> ret ''SKIPPED''
            | None \<Rightarrow> stop_gates env t p))"

section \<open>The poll\<close>

fun process_all :: "engine_env \<Rightarrow> ledger_action list \<Rightarrow> (engine5, unit) act" where
  "process_all env [] = ret ()"
| "process_all env (p # ps) = bindE (process_proposal env p) (\<lambda>_. process_all env ps)"

definition waiting_step :: "engine_env \<Rightarrow> ledger_action \<Rightarrow> (engine5, unit) act" where
  "waiting_step env a =
     bindE (monotonic env) (\<lambda>now.
     let age_ms = (now - lr_created_mono a) * 1000 in
     if age_ms > xv_approval_timeout env * 1000 then
       reject env (lr_action_id a) (''approval timeout (''
         @ float_repr (lv_rt env) (Fin (xv_approval_timeout env)) @ ''s)'')
     else bindE (gets (\<lambda>s. get_approval (lr_action_id a) (dv_ledger s))) (\<lambda>approval.
       case approval of
         None \<Rightarrow> ret ()
       | Some ap \<Rightarrow> if lp_decision ap = ''APPROVE'' then bindE (process_proposal env a) (\<lambda>_. ret ())
                    else reject env (lr_action_id a) ''not approved by operator''))"

fun waiting_all :: "engine_env \<Rightarrow> ledger_action list \<Rightarrow> (engine5, unit) act" where
  "waiting_all env [] = ret ()"
| "waiting_all env (a # as) = bindE (waiting_step env a) (\<lambda>_. waiting_all env as)"

definition poll_once :: "engine_env \<Rightarrow> (engine5, unit) act" where
  "poll_once env =
     bindE (gets (\<lambda>s. get_proposals (dv_ledger s))) (\<lambda>proposals.
     bindE (process_all env proposals) (\<lambda>_.
     bindE (gets (\<lambda>s. get_by_status LWaitingApproval (dv_ledger s))) (\<lambda>waiting.
     waiting_all env waiting)))"

section \<open>Recovery\<close>

definition call_human5 :: "bool \<Rightarrow> string \<Rightarrow> string \<Rightarrow> (engine5, unit) act" where
  "call_human5 has_human msg severity =
     (if has_human then modify (\<lambda>s. if powered s then s\<lparr>dv_human := dv_human s @ [(msg, severity)]\<rparr> else s)
      else ret ())"

definition unknown_message :: "ledger_action \<Rightarrow> string" where
  "unknown_message a = ''UNKNOWN state: '' @ lr_tool a @ '' (action '' @ lr_action_id a
     @ '') was in-flight when system crashed''"

definition never_dispatched :: pyval where
  "never_dispatched = PyDict [(''error'', PyStr ''never dispatched (crash before diary write)'')]"

definition reconcile_one :: "engine_env \<Rightarrow> bool \<Rightarrow> ledger_action \<Rightarrow> (engine5, unit) act" where
  "reconcile_one env has_human a =
     (let action_id = lr_action_id a; key = lr_idempotency_key a in
      bindE (gets (get_diary (lr_device_group a))) (\<lambda>d.
      case diary_lookup key d of
        Some DSuccess \<Rightarrow> put_status env action_id LDone (por (diary_result key d) (PyDict [])) PyNone
      | Some DFailed \<Rightarrow> put_status env action_id LFailed PyNone (por (diary_result key d) (PyDict []))
      | Some DInFlight \<Rightarrow>
          bindE (put_status env action_id LUnknown PyNone PyNone) (\<lambda>_.
          call_human5 has_human (unknown_message a) ''critical'')
      | None \<Rightarrow> put_status env action_id LFailed PyNone never_dispatched))"

fun reconcile_all :: "engine_env \<Rightarrow> bool \<Rightarrow> ledger_action list \<Rightarrow> (engine5, unit) act" where
  "reconcile_all env has_human [] = ret ()"
| "reconcile_all env has_human (a # as) =
     bindE (reconcile_one env has_human a) (\<lambda>_. reconcile_all env has_human as)"

definition reconcile :: "engine_env \<Rightarrow> bool \<Rightarrow> (engine5, unit) act" where
  "reconcile env has_human =
     bindE (gets (\<lambda>s. get_by_status LDispatched (dv_ledger s))) (reconcile_all env has_human)"

text \<open>One round of \<open>run\<close>: exceptions are logged; every minute the engine reconciles, without a human to call.\<close>

definition reconcile_interval :: rat where "reconcile_interval = 60"

definition engine_round :: "engine_env \<Rightarrow> (engine5, unit) act" where
  "engine_round env =
     bindE (try_except (poll_once env) (\<lambda>_. ret ())) (\<lambda>_.
     bindE (monotonic env) (\<lambda>now.
     bindE (gets dv_last_reconcile) (\<lambda>last_reconcile.
     if now - last_reconcile > reconcile_interval then
       bindE (reconcile env False) (\<lambda>_.
       bindE (monotonic env) (\<lambda>now'. modify (\<lambda>s. s\<lparr>dv_last_reconcile := now'\<rparr>)))
     else ret ())))"

section \<open>Commits\<close>

text \<open>The state after a commit; what a process without power leaves alone.\<close>

definition committed :: "(engine5 \<Rightarrow> engine5) \<Rightarrow> engine5 \<Rightarrow> engine5" where
  "committed u s = (if powered s then (u s)\<lparr>dv_power := map_option (\<lambda>n. n - 1) (dv_power s)\<rparr> else s)"

lemma commit_run [act_simps]: "commit u s = (Inr (), committed u s)"
  by (simp add: commit_def committed_def act_simps)

lemma put_status_run [act_simps]:
  "put_status env i st res err s = (Inr (), committed (on_ledger (set_status (ledger_env_of env) i st res err)) s)"
  by (simp add: put_status_def act_simps)

lemma bind_commit [act_simps]: "bindE (commit u) f s = f () (committed u s)"
  by (simp add: bindE_def act_simps)

lemma bind_put_status [act_simps]:
  "bindE (put_status env i st res err) f s = f () (committed (on_ledger (set_status (ledger_env_of env) i st res err)) s)"
  by (simp add: bindE_def act_simps)

lemma bind_run_tool [act_simps]:
  "bindE (run_tool env t i params) f s = f (xv_execute env (length (dv_calls s)) t params)
     (committed (\<lambda>s. s\<lparr>dv_calls := dv_calls s @ [(i, tl_name t, params)]\<rparr>) s)"
  by (simp add: bindE_def run_tool_def commit_run)

lemma bind_monotonic [act_simps]:
  "bindE (monotonic env) f s = f (lv_mono env (lg_monos (dv_ledger s))) (on_ledger (\<lambda>l. l\<lparr>lg_monos := lg_monos l + 1\<rparr>) s)"
  by (simp add: bindE_def monotonic_def)

lemma bind_run_precheck [act_simps]:
  "bindE (run_precheck env t params) f s =
     f (xv_precheck env (dv_prechecks s) t params) (s\<lparr>dv_prechecks := dv_prechecks s + 1\<rparr>)"
  by (simp add: bindE_def run_precheck_def)

lemma committed_cut: "\<not> powered s \<Longrightarrow> committed u s = s"
  by (simp add: committed_def)

lemma powered_committed: "powered (committed u s) \<Longrightarrow> powered s"
  by (auto simp: committed_def split: if_splits)

lemma committed_preserves:
  "P s \<Longrightarrow> (\<And>x. P x \<Longrightarrow> P (u x)) \<Longrightarrow> (\<And>x n. P x \<Longrightarrow> P (x\<lparr>dv_power := n\<rparr>)) \<Longrightarrow> P (committed u s)"
  by (simp add: committed_def)

section \<open>What processing an action leaves alone\<close>

text \<open>Only the row of the action changes, and of it only what a status change writes.\<close>

definition row_move :: "string \<Rightarrow> ledger_action \<Rightarrow> ledger_action \<Rightarrow> bool" where
  "row_move i r r' \<longleftrightarrow>
     r'\<lparr>lr_status := lr_status r, lr_result := lr_result r, lr_error := lr_error r, lr_updated_ts := lr_updated_ts r\<rparr> = r
     \<and> (lr_action_id r \<noteq> i \<longrightarrow> r' = r)"

definition rows_move :: "string \<Rightarrow> ledger_action list \<Rightarrow> ledger_action list \<Rightarrow> bool" where
  "rows_move i = list_all2 (row_move i)"

lemma rows_move_refl [simp]: "rows_move i rows rows"
  by (simp add: rows_move_def list_all2_refl row_move_def)

lemma rows_move_update:
  assumes "rows_move i rows rows'"
    and "\<And>r. \<exists>st ts re er. f r = r\<lparr>lr_status := st, lr_updated_ts := ts, lr_result := re, lr_error := er\<rparr>"
  shows "rows_move i rows (update_row lr_action_id i f rows')"
  using assms(1) unfolding rows_move_def
proof (induction rule: list_all2_induct)
  case (Cons r rows r' rows')
  from assms(2) [of r'] obtain st ts re er
    where f: "f r' = r'\<lparr>lr_status := st, lr_updated_ts := ts, lr_result := re, lr_error := er\<rparr>" by blast
  have id: "lr_action_id r' = lr_action_id r"
    using Cons(1) unfolding row_move_def by (metis ledger_action.select_convs(1) ledger_action.surjective ledger_action.update_convs(7,10,11,14))
  from Cons(1) f id have "row_move i r (if lr_action_id r' = i then f r' else r')"
    unfolding row_move_def by simp
  with Cons.IH show ?case by (simp add: update_row_def)
qed (simp add: update_row_def)

definition touches :: "string \<Rightarrow> engine5 \<Rightarrow> engine5 \<Rightarrow> bool" where
  "touches i s0 s \<longleftrightarrow> rows_move i (lg_actions (dv_ledger s0)) (lg_actions (dv_ledger s))
     \<and> lg_approvals (dv_ledger s) = lg_approvals (dv_ledger s0)"

lemma touches_refl [simp]: "touches i s s"
  by (simp add: touches_def)

lemma touches_same:
  "touches i s0 s \<Longrightarrow> lg_actions (dv_ledger s') = lg_actions (dv_ledger s)
   \<Longrightarrow> lg_approvals (dv_ledger s') = lg_approvals (dv_ledger s) \<Longrightarrow> touches i s0 s'"
  by (simp add: touches_def)

lemma touches_set_status:
  assumes "touches i s0 s"
  shows "touches i s0 (on_ledger (set_status e i st res err) s)"
proof -
  have "rows_move i (lg_actions (dv_ledger s0)) (lg_actions (set_status e i st res err (dv_ledger s)))"
    unfolding set_status_def ledger.select_convs ledger.update_convs
    by (simp, rule rows_move_update) (use assms in \<open>unfold touches_def, blast+\<close>)
  then show ?thesis using assms by (simp add: touches_def on_ledger_def set_status_def)
qed

lemma touches_commit:
  assumes "\<And>x. touches i s0 x \<Longrightarrow> touches i s0 (u x)"
  shows "preserves (touches i s0) (commit u)"
proof (rule preservesI)
  fix s assume "touches i s0 s"
  then have "touches i s0 (u s)" by (rule assms)
  then have "touches i s0 ((u s)\<lparr>dv_power := n\<rparr>)" for n by (rule touches_same) simp_all
  with \<open>touches i s0 s\<close> show "touches i s0 (snd (commit u s))" by (simp add: act_simps committed_def)
qed

lemma keeps_put_status [preserves_intros]: "preserves (touches i s0) (put_status env i st res err)"
  unfolding put_status_def by (intro touches_commit touches_set_status)

lemma keeps_commit_diary [preserves_intros]: "preserves (touches i s0) (commit (on_diary dg u))"
  by (rule touches_commit, erule touches_same) (simp_all add: on_diary_def)

lemma keeps_commit_event [preserves_intros]:
  "preserves (touches i s0) (commit (on_ledger (ledger_event_write e c lv m d)))"
  by (rule touches_commit, erule touches_same) (simp_all add: on_ledger_def ledger_event_write_def)

lemma keeps_reads [preserves_intros]:
  "preserves (touches i s0) (wb_read env k)" "preserves (touches i s0) (monotonic env)"
  "preserves (touches i s0) (run_precheck env t ps)"
  "preserves (touches i s0) (notify_approval_request env j)" "preserves (touches i s0) (call_human5 b m sv)"
  by (rule preservesI, erule touches_same; simp add: wb_read_def monotonic_def run_precheck_def on_ledger_def
      notify_approval_request_def call_human5_def act_simps)+

lemma keeps_run_tool [preserves_intros]: "preserves (touches i s0) (run_tool env t j ps)"
  by (rule preservesI, erule touches_same) (simp_all add: run_tool_def commit_run committed_def)

lemma keeps_sum [preserves_intros]:
  "(\<And>e. x = Inl e \<Longrightarrow> preserves P (f e)) \<Longrightarrow> (\<And>v. x = Inr v \<Longrightarrow> preserves P (g v))
   \<Longrightarrow> preserves P (case x of Inl e \<Rightarrow> f e | Inr v \<Rightarrow> g v)"
  by (cases x) simp_all

lemma keeps_reject [preserves_intros]: "preserves (touches i s0) (reject env i reason)"
  unfolding reject_def by (intro preserves_intros)

lemma keeps_rejecting [preserves_intros]: "preserves (touches i s0) (rejecting env i reason)"
  unfolding rejecting_def by (intro preserves_intros)

lemma keeps_dispatch [preserves_intros]: "lr_action_id p = i \<Longrightarrow> preserves (touches i s0) (dispatch env t p)"
  unfolding dispatch_def Let_def by (auto intro!: preserves_intros)

lemma keeps_bypass [preserves_intros]: "preserves (touches i s0) (bypass_gates env t i ps)"
  unfolding bypass_gates_def by (intro preserves_intros)

lemma keeps_gates [preserves_intros]:
  assumes "lr_action_id p = i"
  shows "preserves (touches i s0) (toctou_gate env t p)" "preserves (touches i s0) (approval_gate env t p)"
    "preserves (touches i s0) (queue_gate env t p)" "preserves (touches i s0) (stop_gates env t p)"
proof -
  note assms [simp]
  show t: "preserves (touches i s0) (toctou_gate env t p)"
    unfolding toctou_gate_def by (auto intro!: preserves_intros)
  show a: "preserves (touches i s0) (approval_gate env t p)"
    unfolding approval_gate_def Let_def by (auto intro!: preserves_intros t)
  show q: "preserves (touches i s0) (queue_gate env t p)"
    unfolding queue_gate_def Let_def by (auto intro!: preserves_intros a)
  show "preserves (touches i s0) (stop_gates env t p)"
    unfolding stop_gates_def by (auto intro!: preserves_intros q)
qed

lemma process_touches: "touches (lr_action_id p) s (snd (process_proposal env p s))"
proof -
  have "preserves (touches (lr_action_id p) s) (process_proposal env p)"
    unfolding process_proposal_def Let_def
    by (auto intro!: preserves_intros split: option.split)
  then show ?thesis by (simp add: preserves_def)
qed

lemma reconcile_one_touches: "touches (lr_action_id a) s (snd (reconcile_one env h a s))"
proof -
  have "preserves (touches (lr_action_id a) s) (reconcile_one env h a)"
    unfolding reconcile_one_def Let_def
    by (auto intro!: preserves_intros split: option.split diary_status.split)
  then show ?thesis by (simp add: preserves_def)
qed

lemma waiting_step_touches: "touches (lr_action_id a) s (snd (waiting_step env a s))"
proof -
  have p: "preserves (touches (lr_action_id a) s) (process_proposal env a)"
    unfolding process_proposal_def Let_def by (auto intro!: preserves_intros split: option.split)
  have "preserves (touches (lr_action_id a) s) (waiting_step env a)"
    unfolding waiting_step_def Let_def by (auto intro!: preserves_intros p)
  then show ?thesis by (simp add: preserves_def)
qed

section \<open>Calls\<close>

definition status_of :: "string \<Rightarrow> engine5 \<Rightarrow> ledger_status option" where
  "status_of i s = map_option lr_status (find_row lr_action_id i (lg_actions (dv_ledger s)))"

definition pending :: "ledger_status option \<Rightarrow> bool" where
  "pending st \<longleftrightarrow> st = Some LProposed \<or> st = Some LWaitingApproval"

text \<open>The recorded calls are \<open>c\<close>, and the action is no longer pending.\<close>

definition settled :: "string \<Rightarrow> (string \<times> string \<times> dict) list \<Rightarrow> engine5 \<Rightarrow> bool" where
  "settled i c s \<longleftrightarrow> dv_calls s = c \<and> \<not> pending (status_of i s)"

lemma status_of_power [simp]: "status_of i (s\<lparr>dv_power := n\<rparr>) = status_of i s"
  by (simp add: status_of_def)

lemma status_of_set:
  "status_of j (on_ledger (set_status e i st res err) s)
   = (if j = i then map_option (\<lambda>_. st) (status_of i s) else status_of j s)"
  by (simp add: status_of_def on_ledger_def set_status_def find_update_row option.map_comp comp_def)

lemma calls_on [simp]: "dv_calls (on_ledger u s) = dv_calls s" "dv_calls (on_diary dg v s) = dv_calls s"
  by (simp_all add: on_ledger_def on_diary_def)

lemma status_on_diary [simp]: "status_of i (on_diary dg v s) = status_of i s"
  by (simp add: status_of_def on_diary_def)

lemma settled_put: "st \<notin> {LProposed, LWaitingApproval} \<Longrightarrow> preserves (settled i c) (put_status env i st res err)"
  by (rule preservesI) (auto simp: act_simps committed_def settled_def status_of_set pending_def)

lemma settled_diary: "preserves (settled i c) (commit (on_diary dg u))"
  by (rule preservesI) (simp add: act_simps committed_def settled_def)

definition calls_are :: "(string \<times> string \<times> dict) list \<Rightarrow> engine5 \<Rightarrow> bool" where
  "calls_are c s \<longleftrightarrow> dv_calls s = c"

lemma calls_commit [preserves_intros]: "(\<And>x. dv_calls (u x) = dv_calls x) \<Longrightarrow> preserves (calls_are c) (commit u)"
  by (rule preservesI) (simp add: act_simps committed_def calls_are_def)

lemma calls_reads [preserves_intros]:
  "preserves (calls_are c) (wb_read env k)" "preserves (calls_are c) (monotonic env)"
  "preserves (calls_are c) (run_precheck env t ps)" "preserves (calls_are c) (notify_approval_request env j)"
  "preserves (calls_are c) (call_human5 b m sv)"
  by (rule preservesI; simp add: calls_are_def wb_read_def monotonic_def run_precheck_def
      notify_approval_request_def call_human5_def act_simps)+

lemma calls_put [preserves_intros]: "preserves (calls_are c) (put_status env i st res err)"
  unfolding put_status_def by (intro preserves_intros) simp

lemma calls_reject [preserves_intros]: "preserves (calls_are c) (reject env i reason)"
  unfolding reject_def by (intro preserves_intros) simp

lemma calls_rejecting [preserves_intros]: "preserves (calls_are c) (rejecting env i reason)"
  unfolding rejecting_def by (intro preserves_intros)

text \<open>A step runs at most one tool, for its own action, which then is no longer pending.\<close>

definition one_call :: "string \<Rightarrow> engine5 \<Rightarrow> engine5 \<Rightarrow> bool" where
  "one_call i s s' \<longleftrightarrow> dv_calls s' = dv_calls s
     \<or> (\<exists>c. dv_calls s' = dv_calls s @ [(i, c)] \<and> \<not> pending (status_of i s'))"

lemma one_call_quiet: "preserves (calls_are (dv_calls s)) m \<Longrightarrow> one_call i s (snd (m s))"
  by (simp add: preserves_def calls_are_def one_call_def)

lemma one_call_pre: "dv_calls s = dv_calls s0 \<Longrightarrow> one_call i s s' \<Longrightarrow> one_call i s0 s'"
  by (simp add: one_call_def)

lemma run_tool_one_call:
  assumes "powered s \<Longrightarrow> \<not> pending (status_of i s)"
    and "\<And>x c. preserves (calls_are c) (f x)" and "\<And>x c. preserves (settled i c) (f x)"
  shows "one_call i s (snd (bindE (run_tool env t i ps) f s))"
proof (cases "powered s")
  case True
  let ?s = "committed (\<lambda>s. s\<lparr>dv_calls := dv_calls s @ [(i, tl_name t, ps)]\<rparr>) s"
  have "settled i (dv_calls s @ [(i, tl_name t, ps)]) ?s"
    using assms(1) [OF True] True by (simp add: settled_def status_of_def committed_def)
  then have "settled i (dv_calls s @ [(i, tl_name t, ps)]) (snd (f (xv_execute env (length (dv_calls s)) t ps) ?s))"
    using assms(3) unfolding preserves_def by blast
  then show ?thesis using True by (auto simp: act_simps one_call_def settled_def)
next
  case False
  have "calls_are (dv_calls s) (snd (f (xv_execute env (length (dv_calls s)) t ps) s))"
    using assms(2) unfolding preserves_def by (simp add: calls_are_def)
  then show ?thesis using False by (simp add: act_simps one_call_def calls_are_def committed_cut)
qed

lemma dispatched_not_pending:
  "powered (committed (on_ledger (set_status e i LDispatched res err)) s)
   \<Longrightarrow> \<not> pending (status_of i (committed (on_ledger (set_status e i LDispatched res err)) s))"
  by (auto simp: committed_def status_of_set pending_def powered_def split: if_splits)

lemma calls_committed_put [simp]: "dv_calls (committed (on_ledger u) s) = dv_calls s" "dv_calls (committed (on_diary dg v) s) = dv_calls s"
  by (simp_all add: committed_def)

lemma bypass_one_call: "one_call i s (snd (bypass_gates env t i ps s))"
proof -
  let ?s = "committed (on_ledger (set_status (ledger_env_of env) i LDispatched PyNone PyNone)) s"
  have "one_call i ?s (snd (bypass_gates env t i ps s))"
    unfolding bypass_gates_def
    by (subst bind_put_status, rule run_tool_one_call [OF dispatched_not_pending])
      (auto intro!: preserves_intros settled_put)
  then show ?thesis by (rule one_call_pre [rotated]) simp
qed

lemma dispatch_one_call: "one_call (lr_action_id p) s (snd (dispatch env t p s))"
proof -
  let ?s1 = "committed (on_diary (device_group t) (write_inflight (lr_idempotency_key p) (lr_action_id p) (lr_tool p))) s"
  let ?s = "committed (on_ledger (set_status (ledger_env_of env) (lr_action_id p) LDispatched PyNone PyNone)) ?s1"
  have "one_call (lr_action_id p) ?s (snd (dispatch env t p s))"
    unfolding dispatch_def Let_def
    by (subst bind_commit, subst bind_put_status, rule run_tool_one_call [OF dispatched_not_pending])
      (auto intro!: preserves_intros settled_put settled_diary)
  then show ?thesis by (rule one_call_pre [rotated]) simp
qed

text \<open>Every step but the dispatch leaves the calls alone, and the dispatch comes last.\<close>

lemma one_call_bind:
  assumes "preserves (calls_are (dv_calls s)) m" and "\<And>a s1. m s = (Inr a, s1) \<Longrightarrow> one_call i s1 (snd (f a s1))"
  shows "one_call i s (snd (bindE m f s))"
proof -
  obtain r s1 where m: "m s = (r, s1)" by fastforce
  have c: "dv_calls s1 = dv_calls s"
    using preservesD [OF assms(1) _ m] by (simp add: calls_are_def)
  show ?thesis
  proof (cases r)
    case (Inl e)
    then show ?thesis using m c by (simp add: bindE_def one_call_def)
  next
    case (Inr a)
    with assms(2) m have "one_call i s1 (snd (f a s1))" by simp
    then have "one_call i s (snd (f a s1))" by (rule one_call_pre [OF c])
    then show ?thesis using m Inr by (simp add: bindE_def)
  qed
qed

lemma one_call_gets: "(\<And>a. one_call i s (snd (f a s))) \<Longrightarrow> one_call i s (snd (bindE (gets g) f s))"
  by (simp add: act_simps)

lemma rejecting_one_call [simp]: "one_call i s (snd (rejecting env j reason s))"
  by (rule one_call_quiet) (intro preserves_intros)

lemma ret_one_call [simp]: "one_call i s (snd (ret x s))"
  by (simp add: act_simps one_call_def)

lemma one_call_if: "(b \<Longrightarrow> one_call i s (snd (f s))) \<Longrightarrow> (\<not> b \<Longrightarrow> one_call i s (snd (g s)))
    \<Longrightarrow> one_call i s (snd ((if b then f else g) s))"
  by simp

lemma one_call_option: "(x = None \<Longrightarrow> one_call i s (snd (f s))) \<Longrightarrow> (\<And>v. x = Some v \<Longrightarrow> one_call i s (snd (g v s)))
    \<Longrightarrow> one_call i s (snd ((case x of None \<Rightarrow> f | Some v \<Rightarrow> g v) s))"
  by (cases x) simp_all

lemma one_call_sum: "(\<And>e. x = Inl e \<Longrightarrow> one_call i s (snd (f e s))) \<Longrightarrow> (\<And>v. x = Inr v \<Longrightarrow> one_call i s (snd (g v s)))
    \<Longrightarrow> one_call i s (snd ((case x of Inl e \<Rightarrow> f e | Inr v \<Rightarrow> g v) s))"
  by (cases x) simp_all

lemma snd_bind_ret [simp]: "snd (bindE m (\<lambda>_. ret x) s) = snd (m s)"
  by (simp add: bindE_def act_simps split: prod.split sum.split)

lemmas one_call_intros = one_call_gets one_call_if one_call_option one_call_sum rejecting_one_call ret_one_call
  one_call_bind

lemma toctou_one_call: "one_call (lr_action_id p) s (snd (toctou_gate env t p s))"
  unfolding toctou_gate_def by (intro one_call_intros dispatch_one_call preserves_intros)

lemma approval_one_call: "one_call (lr_action_id p) s (snd (approval_gate env t p s))"
  unfolding approval_gate_def Let_def by (intro one_call_intros toctou_one_call preserves_intros)

lemma queue_one_call: "one_call (lr_action_id p) s (snd (queue_gate env t p s))"
  unfolding queue_gate_def Let_def by (intro one_call_intros approval_one_call preserves_intros)

lemma stop_one_call: "one_call (lr_action_id p) s (snd (stop_gates env t p s))"
  unfolding stop_gates_def by (intro one_call_intros queue_one_call preserves_intros)

lemma process_one_call: "one_call (lr_action_id p) s (snd (process_proposal env p s))"
  unfolding process_proposal_def Let_def
  by (intro one_call_intros stop_one_call bypass_one_call)

lemma reject_one_call: "one_call i s (snd (reject env j reason s))"
  by (rule one_call_quiet) (intro preserves_intros)

lemma waiting_one_call: "one_call (lr_action_id a) s (snd (waiting_step env a s))"
proof -
  have p: "one_call (lr_action_id a) s (snd (bindE (process_proposal env a) (\<lambda>_. ret ()) s))" for s
    by (simp add: process_one_call)
  show ?thesis
    unfolding waiting_step_def Let_def
    by (rule one_call_bind, intro preserves_intros, intro one_call_if reject_one_call one_call_gets one_call_option p ret_one_call)
qed

section \<open>The invariant of the agent\<close>

lemma rows_move_other:
  "rows_move i rows rows' \<Longrightarrow> j \<noteq> i \<Longrightarrow> find_row lr_action_id j rows' = find_row lr_action_id j rows"
  unfolding rows_move_def
proof (induction rule: list_all2_induct)
  case (Cons r rows r' rows')
  then show ?case
    by (cases "lr_action_id r = i") (auto simp: row_move_def dest: arg_cong [where f = lr_action_id])
qed simp

lemma rows_move_step:
  assumes "rows_move i rows rows'" and "\<And>r. r \<in> set rows \<Longrightarrow> lr_action_id r = i \<Longrightarrow> is_active r"
  shows "rows_step rows rows'"
  using assms unfolding rows_move_def rows_step_def
  by (auto simp: list_all2_conv_all_nth row_move_def row_step_def)

lemma touches_status: "touches i s s' \<Longrightarrow> j \<noteq> i \<Longrightarrow> status_of j s' = status_of j s"
  using rows_move_other [of i "lg_actions (dv_ledger s)" "lg_actions (dv_ledger s')" j]
  by (simp add: touches_def status_of_def)

lemma touches_exists: "touches i s s' \<Longrightarrow> status_of j s' = None \<longleftrightarrow> status_of j s = None"
proof -
  assume "touches i s s'"
  then have "rows_move i (lg_actions (dv_ledger s)) (lg_actions (dv_ledger s'))" by (simp add: touches_def)
  then have "map lr_action_id (lg_actions (dv_ledger s')) = map lr_action_id (lg_actions (dv_ledger s))"
    unfolding rows_move_def
    by (induction rule: list_all2_induct) (auto simp: row_move_def dest: arg_cong [where f = lr_action_id])
  then show ?thesis by (simp add: status_of_def find_row_None flip: set_map)
qed

definition active_status :: "ledger_status option \<Rightarrow> bool" where
  "active_status st \<longleftrightarrow> (\<exists>x\<in>set active_statuses. st = Some x)"

lemma pending_active: "pending st \<Longrightarrow> active_status st"
  by (auto simp: pending_def active_status_def active_statuses_def)

definition engine_ok :: "engine5 \<Rightarrow> bool" where
  "engine_ok s \<longleftrightarrow> ledger_ok (dv_ledger s) \<and> distinct (map fst (dv_calls s))
     \<and> (\<forall>c\<in>set (dv_calls s). status_of (fst c) s \<noteq> None \<and> \<not> pending (status_of (fst c) s))"

lemma touches_ledger_ok:
  assumes ok: "ledger_ok (dv_ledger s)" and t: "touches i s s'" and a: "active_status (status_of i s)"
  shows "ledger_ok (dv_ledger s')"
proof (rule ledger_ok_step [OF ok rows_move_step])
  show "rows_move i (lg_actions (dv_ledger s)) (lg_actions (dv_ledger s'))" using t by (simp add: touches_def)
  fix r assume r: "r \<in> set (lg_actions (dv_ledger s))" "lr_action_id r = i"
  then have "find_row lr_action_id i (lg_actions (dv_ledger s)) = Some r"
    using ok by (simp add: find_row_distinct ledger_ok_def)
  then show "is_active r" using a by (auto simp: active_status_def is_active_def status_of_def)
qed

text \<open>A step on a pending action, and a step that settles an active one without a call.\<close>

lemma engine_ok_pending:
  assumes ok: "engine_ok s" and t: "touches i s s'" and c: "one_call i s s'" and p: "pending (status_of i s)"
  shows "engine_ok s'"
proof -
  have l: "ledger_ok (dv_ledger s')"
    using touches_ledger_ok [OF _ t pending_active [OF p]] ok by (simp add: engine_ok_def)
  have i: "i \<notin> fst ` set (dv_calls s)" using ok p unfolding engine_ok_def by blast
  have old: "status_of (fst k) s' \<noteq> None \<and> \<not> pending (status_of (fst k) s')" if "k \<in> set (dv_calls s)" for k
  proof -
    have "fst k \<noteq> i" using that i by blast
    from touches_status [OF t this] ok that show ?thesis unfolding engine_ok_def by simp
  qed
  have "status_of i s \<noteq> None" using p by (auto simp: pending_def)
  then have e: "status_of i s' \<noteq> None" using touches_exists [OF t, of i] by simp
  from c consider "dv_calls s' = dv_calls s"
    | d where "dv_calls s' = dv_calls s @ [(i, d)]" "\<not> pending (status_of i s')"
    unfolding one_call_def by blast
  then show ?thesis
  proof cases
    case 1
    then show ?thesis using l old ok unfolding engine_ok_def by simp
  next
    case 2
    have "distinct (map fst (dv_calls s'))" using 2(1) i ok unfolding engine_ok_def by simp
    moreover have "\<forall>k\<in>set (dv_calls s'). status_of (fst k) s' \<noteq> None \<and> \<not> pending (status_of (fst k) s')"
      unfolding 2(1) using old 2(2) e by auto
    ultimately show ?thesis using l by (simp add: engine_ok_def)
  qed
qed

lemma engine_ok_settle:
  assumes ok: "engine_ok s" and t: "touches i s s'" and a: "active_status (status_of i s)"
    and c: "settled i (dv_calls s) s'"
  shows "engine_ok s'"
proof -
  have "ledger_ok (dv_ledger s')" using touches_ledger_ok [OF _ t a] ok by (simp add: engine_ok_def)
  moreover have "status_of (fst k) s' \<noteq> None \<and> \<not> pending (status_of (fst k) s')" if "k \<in> set (dv_calls s)" for k
  proof (cases "fst k = i")
    case True
    then show ?thesis using c touches_exists [OF t, of i] a by (auto simp: settled_def active_status_def)
  next
    case False
    from touches_status [OF t this] ok that show ?thesis unfolding engine_ok_def by simp
  qed
  ultimately show ?thesis using ok c unfolding engine_ok_def settled_def by simp
qed

lemma loop_ok:
  assumes nil: "\<And>s. loop [] s = (Inr (), s)"
    and cons: "\<And>a as s. loop (a # as) s = bindE (f a) (\<lambda>_. loop as) s"
    and f_ok: "\<And>a s. engine_ok s \<Longrightarrow> Q (status_of (lr_action_id a) s) \<Longrightarrow> engine_ok (snd (f a s))"
    and f_touches: "\<And>a s. touches (lr_action_id a) s (snd (f a s))"
  shows "engine_ok s \<Longrightarrow> distinct (map lr_action_id as) \<Longrightarrow> (\<And>a. a \<in> set as \<Longrightarrow> Q (status_of (lr_action_id a) s))
    \<Longrightarrow> engine_ok (snd (loop as s))"
proof (induction as arbitrary: s)
  case Nil
  then show ?case by (simp add: nil)
next
  case (Cons a as)
  obtain r s1 where f: "f a s = (r, s1)" by fastforce
  have ok: "engine_ok s1" using f_ok [OF Cons.prems(1), of a] Cons.prems(3) [of a] f by simp
  have t: "touches (lr_action_id a) s s1" using f_touches [of a s] f by simp
  have "Q (status_of (lr_action_id b) s1)" if "b \<in> set as" for b
  proof -
    have "lr_action_id b \<in> lr_action_id ` set as" using that by (rule imageI)
    then have "lr_action_id b \<noteq> lr_action_id a" using Cons.prems(2) by auto
    from touches_status [OF t this] Cons.prems(3) [of b] that show ?thesis by simp
  qed
  then have "engine_ok (snd (loop as s1))" using Cons.IH [OF ok] Cons.prems(2) by simp
  then show ?case using ok f by (cases r) (simp_all add: cons bindE_def)
qed

lemma status_of_snapshot:
  assumes "engine_ok s" and "r \<in> set (lg_actions (dv_ledger s))"
  shows "status_of (lr_action_id r) s = Some (lr_status r)"
proof -
  have "find_row lr_action_id (lr_action_id r) (lg_actions (dv_ledger s)) = Some r"
    using assms by (simp add: engine_ok_def ledger_ok_def find_row_distinct)
  then show ?thesis by (simp add: status_of_def)
qed

lemma snapshot_by_status:
  assumes "engine_ok s"
  shows "distinct (map lr_action_id (get_by_status st (dv_ledger s)))"
    and "a \<in> set (get_by_status st (dv_ledger s)) \<Longrightarrow> status_of (lr_action_id a) s = Some st"
proof -
  have "distinct (map lr_action_id (filter (\<lambda>r. lr_status r = st) (lg_actions (dv_ledger s))))"
    using assms by (simp add: engine_ok_def ledger_ok_def distinct_map_filter)
  then show "distinct (map lr_action_id (get_by_status st (dv_ledger s)))"
    by (simp add: get_by_status_def distinct_map)
  show "a \<in> set (get_by_status st (dv_ledger s)) \<Longrightarrow> status_of (lr_action_id a) s = Some st"
    using status_of_snapshot [OF assms] by (auto simp: get_by_status_def)
qed

lemma get_proposals_by_status: "get_proposals l = get_by_status LProposed l"
  by (simp add: get_proposals_def get_by_status_def)

lemma process_all_ok:
  assumes "engine_ok s" and "distinct (map lr_action_id ps)" and "\<And>p. p \<in> set ps \<Longrightarrow> pending (status_of (lr_action_id p) s)"
  shows "engine_ok (snd (process_all env ps s))"
proof (rule loop_ok [where loop = "process_all env" and f = "process_proposal env" and Q = pending])
  show "engine_ok (snd (process_proposal env a s))" if "engine_ok s" "pending (status_of (lr_action_id a) s)" for a s
    by (rule engine_ok_pending [OF that(1) process_touches process_one_call that(2)])
qed (use assms process_touches in \<open>simp_all add: act_simps\<close>)

lemma waiting_all_ok:
  assumes "engine_ok s" and "distinct (map lr_action_id ps)" and "\<And>p. p \<in> set ps \<Longrightarrow> pending (status_of (lr_action_id p) s)"
  shows "engine_ok (snd (waiting_all env ps s))"
proof (rule loop_ok [where loop = "waiting_all env" and f = "waiting_step env" and Q = pending])
  show "engine_ok (snd (waiting_step env a s))" if "engine_ok s" "pending (status_of (lr_action_id a) s)" for a s
    by (rule engine_ok_pending [OF that(1) waiting_step_touches waiting_one_call that(2)])
qed (use assms waiting_step_touches in \<open>simp_all add: act_simps\<close>)

lemma poll_once_ok: "engine_ok s \<Longrightarrow> engine_ok (snd (poll_once env s))"
proof -
  assume ok: "engine_ok s"
  obtain r s1 where p: "process_all env (get_proposals (dv_ledger s)) s = (r, s1)" by fastforce
  have "engine_ok (snd (process_all env (get_proposals (dv_ledger s)) s))"
    by (rule process_all_ok [OF ok])
      (simp_all add: get_proposals_by_status snapshot_by_status [OF ok] pending_def)
  then have ok1: "engine_ok s1" by (simp add: p)
  have "engine_ok (snd (waiting_all env (get_by_status LWaitingApproval (dv_ledger s1)) s1))"
    by (rule waiting_all_ok [OF ok1]) (simp_all add: snapshot_by_status [OF ok1] pending_def)
  then show ?thesis
    using p ok1 by (cases r) (simp_all add: poll_once_def act_simps bindE_def)
qed

lemma settled_call_human: "preserves (settled i c) (call_human5 b m sv)"
  by (rule preservesI) (simp add: call_human5_def act_simps settled_def status_of_def)

lemma reconcile_one_settles:
  assumes "active_status (status_of (lr_action_id a) s)" and "\<not> pending (status_of (lr_action_id a) s)"
  shows "settled (lr_action_id a) (dv_calls s) (snd (reconcile_one env h a s))"
proof -
  have "preserves (settled (lr_action_id a) (dv_calls s)) (reconcile_one env h a)"
    unfolding reconcile_one_def Let_def
    by (auto intro!: preserves_bindE preserves_gets settled_put settled_call_human split: option.split diary_status.split)
  then show ?thesis using assms by (simp add: preserves_def settled_def)
qed

lemma reconcile_ok: "engine_ok s \<Longrightarrow> engine_ok (snd (reconcile env h s))"
proof -
  assume ok: "engine_ok s"
  have "engine_ok (snd (reconcile_all env h (get_by_status LDispatched (dv_ledger s)) s))"
  proof (rule loop_ok [where loop = "reconcile_all env h" and f = "reconcile_one env h" and Q = "\<lambda>st. st = Some LDispatched"])
    show "engine_ok (snd (reconcile_one env h a s))" if "engine_ok s" "status_of (lr_action_id a) s = Some LDispatched" for a s
    proof (rule engine_ok_settle [OF that(1) reconcile_one_touches])
      show act: "active_status (status_of (lr_action_id a) s)" using that(2) by (simp add: active_status_def active_statuses_def)
      show "settled (lr_action_id a) (dv_calls s) (snd (reconcile_one env h a s))"
        by (rule reconcile_one_settles [OF act]) (simp add: that(2) pending_def)
    qed
  qed (simp_all add: act_simps ok snapshot_by_status [OF ok] reconcile_one_touches)
  then show ?thesis by (simp add: reconcile_def act_simps)
qed

lemma engine_ok_same:
  "engine_ok s \<Longrightarrow> lg_actions (dv_ledger s') = lg_actions (dv_ledger s) \<Longrightarrow> dv_calls s' = dv_calls s \<Longrightarrow> engine_ok s'"
  by (simp add: engine_ok_def status_of_def ledger_ok_def)

lemma engine_round_ok: "preserves engine_ok (engine_round env)"
proof -
  have p: "preserves engine_ok (poll_once env)" and r: "preserves engine_ok (reconcile env False)"
    using poll_once_ok reconcile_ok by (auto simp: preserves_def)
  have m: "preserves engine_ok (monotonic env)"
    by (rule preservesI, erule engine_ok_same) (simp_all add: monotonic_def on_ledger_def)
  have l: "preserves engine_ok (modify (\<lambda>s. s\<lparr>dv_last_reconcile := t\<rparr>))" for t
    by (rule preservesI, erule engine_ok_same) (simp_all add: act_simps)
  show ?thesis unfolding engine_round_def by (intro preserves_intros p r m l)
qed

section \<open>The agent and its environment\<close>

text \<open>
  The steps of the whole: the agent proposes and records events, a human decides, the engine polls and the process
  starts again.  A round of the engine and the recovery at boot may lose power after any number of commits; what
  is found after the restart is the state then.
\<close>

definition restarted :: "engine5 \<Rightarrow> engine5" where
  "restarted s = s\<lparr>dv_power := None\<rparr>"

inductive agent_step :: "engine_env \<Rightarrow> engine5 \<Rightarrow> engine5 \<Rightarrow> bool" for env :: engine_env and s :: engine5 where
  proposes: "plain_args (ledger_env_of env) a \<Longrightarrow>
    agent_step env s (on_ledger (\<lambda>l. snd (propose (ledger_env_of env) a l)) s)"
| waits: "agent_step env s (on_ledger (\<lambda>l. snd (record_wait (ledger_env_of env) reason obs reasoning l)) s)"
| calls: "agent_step env s (on_ledger (\<lambda>l. snd (record_call_human (ledger_env_of env) msg obs reasoning l)) s)"
| decides: "agent_step env s (on_ledger (\<lambda>l. snd (record_approval5 (ledger_env_of env) i decision by_whom l)) s)"
| polls: "agent_step env s (restarted (snd (engine_round env (s\<lparr>dv_power := budget\<rparr>))))"
| boots: "agent_step env s (restarted (snd (reconcile env True (s\<lparr>dv_power := budget\<rparr>))))"

definition agent_reaches :: "engine_env \<Rightarrow> engine5 \<Rightarrow> bool" where
  "agent_reaches env s \<longleftrightarrow> (agent_step env)\<^sup>*\<^sup>* initial_engine s"

lemma propose_status:
  assumes "ledger_ok l" and "plain_args e a" and "i \<in> lr_action_id ` set (lg_actions l)"
  shows "find_row lr_action_id i (lg_actions (snd (propose e a l))) = find_row lr_action_id i (lg_actions l)"
proof -
  have "find_row lr_action_id i (lg_actions l) \<noteq> None" using assms(3) find_row_None by metis
  then show ?thesis
    unfolding propose_result [OF assms(1,2)] Let_def by (auto simp: find_row_append)
qed

lemma engine_ok_propose:
  assumes ok: "engine_ok s" and pl: "plain_args (ledger_env_of env) a"
  shows "engine_ok (on_ledger (\<lambda>l. snd (propose (ledger_env_of env) a l)) s)"
proof -
  let ?s = "on_ledger (\<lambda>l. snd (propose (ledger_env_of env) a l)) s"
  have l: "ledger_ok (dv_ledger s)" using ok by (simp add: engine_ok_def)
  have "status_of (fst c) ?s = status_of (fst c) s" if "c \<in> set (dv_calls s)" for c
  proof -
    have "status_of (fst c) s \<noteq> None" using ok that unfolding engine_ok_def by blast
    then have "fst c \<in> lr_action_id ` set (lg_actions (dv_ledger s))"
      unfolding status_of_def using find_row_None by (metis option.map_disc_iff)
    from propose_status [OF l pl this] show ?thesis by (simp add: status_of_def on_ledger_def)
  qed
  then show ?thesis using ok propose_ok [OF l pl] unfolding engine_ok_def by (simp add: on_ledger_def)
qed

lemma restarted_ok: "engine_ok s \<Longrightarrow> engine_ok (restarted s)"
  by (erule engine_ok_same) (simp_all add: restarted_def)

lemma budget_ok: "engine_ok s \<Longrightarrow> engine_ok (s\<lparr>dv_power := budget\<rparr>)"
  by (erule engine_ok_same) simp_all

lemma agent_step_ok: "agent_step env s s' \<Longrightarrow> engine_ok s \<Longrightarrow> engine_ok s'"
proof (induction rule: agent_step.induct)
  case (proposes a)
  then show ?case using engine_ok_propose by blast
next
  case (decides i decision by_whom)
  then show ?case
    by (elim engine_ok_same) (simp_all add: on_ledger_def record_approval5_def Let_def split: option.split)
next
  case (polls budget)
  then show ?case using engine_round_ok budget_ok by (intro restarted_ok) (simp add: preserves_def)
next
  case (boots budget)
  then show ?case using budget_ok by (intro restarted_ok reconcile_ok)
next
  case (waits reason obs reasoning)
  then show ?case
    by (elim engine_ok_same) (simp_all add: on_ledger_def record_wait_def)
next
  case (calls msg obs reasoning)
  then show ?case
    by (elim engine_ok_same) (simp_all add: on_ledger_def record_call_human_def)
qed

lemma agent_steps_ok: "(agent_step env)\<^sup>*\<^sup>* s s' \<Longrightarrow> engine_ok s \<Longrightarrow> engine_ok s'"
  by (induction rule: rtranclp_induct) (simp_all add: agent_step_ok)

lemma agent_reaches_ok: "agent_reaches env s \<Longrightarrow> engine_ok s"
  unfolding agent_reaches_def by (erule agent_steps_ok) (simp add: initial_engine_def engine_ok_def)

text \<open>
  C3: Whatever the agent proposes, the human decides and the tools answer, and wherever the process loses power
  and starts again, the engine executes an action at most once, an executed action is never pending again, no two
  actions share an idempotency key, and at most one action per tool and parameters is active.
\<close>

theorem executed_at_most_once:
  assumes "agent_reaches env s"
  shows "distinct (map fst (dv_calls s))
    \<and> (\<forall>c\<in>set (dv_calls s). status_of (fst c) s \<notin> {None, Some LProposed, Some LWaitingApproval})
    \<and> distinct (map lr_idempotency_key (lg_actions (dv_ledger s)))
    \<and> distinct (map (\<lambda>r. (lr_tool r, lr_params_hash r))
        (filter (\<lambda>r. lr_status r \<in> set active_statuses) (lg_actions (dv_ledger s))))"
proof -
  have ok: "engine_ok s" by (rule agent_reaches_ok [OF assms])
  have "distinct (map (\<lambda>r. (lr_tool r, lr_params_hash r)) (filter is_active (lg_actions (dv_ledger s))))"
  proof (rule distinct_map [THEN iffD2, OF conjI])
    show "distinct (filter is_active (lg_actions (dv_ledger s)))"
      using ok by (simp add: engine_ok_def ledger_ok_def distinct_map)
    have "inj_on row_base (set (filter is_active (lg_actions (dv_ledger s))))"
      using ok unfolding engine_ok_def ledger_ok_def distinct_map by blast
    then show "inj_on (\<lambda>r. (lr_tool r, lr_params_hash r)) (set (filter is_active (lg_actions (dv_ledger s))))"
      unfolding inj_on_def row_base_def by simp
  qed
  then show ?thesis using ok by (simp add: engine_ok_def ledger_ok_def pending_def is_active_def [abs_def])
qed

section \<open>What stands before a dispatch\<close>

lemma calls_kept: "preserves (calls_are (dv_calls s)) m \<Longrightarrow> dv_calls (snd (m s)) = dv_calls s"
  by (simp add: preserves_def calls_are_def)

lemma rejecting_calls [simp]: "dv_calls (snd (rejecting env i reason s)) = dv_calls s"
  by (rule calls_kept) (intro preserves_intros)

definition precheck_passed :: "engine_env \<Rightarrow> tool \<Rightarrow> ledger_action \<Rightarrow> nat \<Rightarrow> bool" where
  "precheck_passed env t p n \<longleftrightarrow>
     (tl_has_precheck t \<longrightarrow> (\<exists>v. xv_precheck env n t (lr_params p) = Inr v \<and> \<not> is_error v))"

definition approved :: "ledger_action \<Rightarrow> ledger \<Rightarrow> bool" where
  "approved p l \<longleftrightarrow> (lr_requires_approval p \<longrightarrow>
     (\<exists>a. get_approval (lr_action_id p) l = Some a \<and> lp_decision a = ''APPROVE''))"

lemma toctou_called:
  assumes "dv_calls (snd (toctou_gate env t p s)) \<noteq> dv_calls s"
  shows "precheck_passed env t p (dv_prechecks s)"
proof (rule ccontr)
  assume no: "\<not> precheck_passed env t p (dv_prechecks s)"
  then obtain "tl_has_precheck t" and "\<And>v. xv_precheck env (dv_prechecks s) t (lr_params p) = Inr v \<Longrightarrow> is_error v"
    unfolding precheck_passed_def by blast
  then have "dv_calls (snd (toctou_gate env t p s)) = dv_calls s"
    by (cases "xv_precheck env (dv_prechecks s) t (lr_params p)") (simp_all add: toctou_gate_def act_simps)
  with assms show False by blast
qed

lemma approval_called:
  assumes "dv_calls (snd (approval_gate env t p s)) \<noteq> dv_calls s"
  shows "approved p (dv_ledger s) \<and> precheck_passed env t p (dv_prechecks s)
    \<and> approval_gate env t p s = toctou_gate env t p s"
proof (cases "lr_requires_approval p")
  case False
  then have "approval_gate env t p s = toctou_gate env t p s" by (simp add: approval_gate_def Let_def)
  then show ?thesis using toctou_called assms False by (simp add: approved_def)
next
  case True
  show ?thesis
  proof (cases "get_approval (lr_action_id p) (dv_ledger s)")
    case None
    let ?m = "if lr_status p \<noteq> LWaitingApproval then
                bindE (put_status env (lr_action_id p) LWaitingApproval PyNone PyNone) (\<lambda>_.
                notify_approval_request env (lr_action_id p)) else ret ()"
    have "approval_gate env t p s = bindE ?m (\<lambda>_. ret ''WAITING_APPROVAL'') s"
      using True None by (simp add: approval_gate_def Let_def act_simps)
    then have "dv_calls (snd (approval_gate env t p s)) = dv_calls (snd (?m s))" by simp
    also have "\<dots> = dv_calls s" by (rule calls_kept) (intro preserves_intros)
    finally show ?thesis using assms by simp
  next
    case (Some a)
    then show ?thesis
      using True assms toctou_called [of env t p s]
      by (cases "lp_decision a = ''APPROVE''") (simp_all add: approval_gate_def Let_def act_simps approved_def)
  qed
qed

definition after_clock :: "engine5 \<Rightarrow> engine5" where
  "after_clock s = on_ledger (\<lambda>l. l\<lparr>lg_monos := lg_monos l + 1\<rparr>) s"

lemma after_clock_same [simp]:
  "dv_calls (after_clock s) = dv_calls s" "dv_prechecks (after_clock s) = dv_prechecks s"
  "dv_diaries (after_clock s) = dv_diaries s" "dv_power (after_clock s) = dv_power s"
  "lg_actions (dv_ledger (after_clock s)) = lg_actions (dv_ledger s)"
  "approved p (dv_ledger (after_clock s)) = approved p (dv_ledger s)"
  by (simp_all add: after_clock_def on_ledger_def approved_def get_approval_def)

definition fresh_enough :: "engine_env \<Rightarrow> ledger_action \<Rightarrow> nat \<Rightarrow> bool" where
  "fresh_enough env p n \<longleftrightarrow> (lv_mono env n - lr_created_mono p) * 1000 \<le> of_int (lr_max_proposal_age_ms p)"

lemma queue_called:
  assumes "dv_calls (snd (queue_gate env t p s)) \<noteq> dv_calls s"
  shows "\<not> has_inflight (device_group t) (dv_ledger s) \<and> fresh_enough env p (lg_monos (dv_ledger s))
    \<and> approved p (dv_ledger s) \<and> precheck_passed env t p (dv_prechecks s)
    \<and> queue_gate env t p s = toctou_gate env t p (after_clock s)"
proof (cases "has_inflight (device_group t) (dv_ledger s)")
  case True
  then show ?thesis using assms by (simp add: queue_gate_def act_simps)
next
  case False
  show ?thesis
  proof (cases "fresh_enough env p (lg_monos (dv_ledger s))")
    case True
    with False have q: "queue_gate env t p s = approval_gate env t p (after_clock s)"
      by (simp add: queue_gate_def act_simps fresh_enough_def after_clock_def)
    then have "dv_calls (snd (approval_gate env t p (after_clock s))) \<noteq> dv_calls (after_clock s)" using assms by simp
    from approval_called [OF this] True False q show ?thesis by simp
  next
    case stale: False
    with False have "dv_calls (snd (queue_gate env t p s)) = dv_calls (after_clock s)"
      by (simp add: queue_gate_def act_simps fresh_enough_def after_clock_def del: calls_on)
    then show ?thesis using assms by simp
  qed
qed

definition after_read :: "engine5 \<Rightarrow> engine5" where
  "after_read s = s\<lparr>dv_reads := dv_reads s + 1\<rparr>"

lemma after_read_same [simp]:
  "dv_calls (after_read s) = dv_calls s" "dv_prechecks (after_read s) = dv_prechecks s"
  "dv_diaries (after_read s) = dv_diaries s" "dv_power (after_read s) = dv_power s"
  "dv_ledger (after_read s) = dv_ledger s" "dv_reads (after_read s) = dv_reads s + 1"
  by (simp_all add: after_read_def)

lemma bind_wb_read: "bindE (wb_read env k) f s = (case xv_read env (dv_reads s) k of
    Inl e \<Rightarrow> (Inl e, after_read s) | Inr v \<Rightarrow> f v (after_read s))"
  by (simp add: bindE_def wb_read_def after_read_def split: sum.split)

text \<open>The state in which the precheck of a dispatched action runs.\<close>

definition read_flags :: "engine_env \<Rightarrow> ledger_action \<Rightarrow> engine5 \<Rightarrow> engine5" where
  "read_flags env p s = after_clock (if lr_tool p = ''resume_print'' then after_read (after_read s) else after_read s)"

lemma read_flags_same [simp]:
  "dv_calls (read_flags env p s) = dv_calls s" "dv_prechecks (read_flags env p s) = dv_prechecks s"
  "dv_diaries (read_flags env p s) = dv_diaries s" "dv_power (read_flags env p s) = dv_power s"
  "lg_actions (dv_ledger (read_flags env p s)) = lg_actions (dv_ledger s)"
  by (simp_all add: read_flags_def)

definition not_stopped :: "engine_env \<Rightarrow> ledger_action \<Rightarrow> nat \<Rightarrow> bool" where
  "not_stopped env p n \<longleftrightarrow> (\<exists>v. xv_read env n ''safety.estop'' = Inr v \<and> \<not> truthy v)
     \<and> (lr_tool p = ''resume_print'' \<longrightarrow> (\<exists>v. xv_read env (n + 1) ''agent.external_pause'' = Inr v \<and> \<not> truthy v))"

lemma stop_called:
  assumes called: "dv_calls (snd (stop_gates env t p s)) \<noteq> dv_calls s"
  shows "not_stopped env p (dv_reads s) \<and> \<not> has_inflight (device_group t) (dv_ledger s)
    \<and> fresh_enough env p (lg_monos (dv_ledger s)) \<and> approved p (dv_ledger s)
    \<and> precheck_passed env t p (dv_prechecks s)
    \<and> stop_gates env t p s = toctou_gate env t p (read_flags env p s)"
proof -
  obtain v where v: "xv_read env (dv_reads s) ''safety.estop'' = Inr v"
    using called by (cases "xv_read env (dv_reads s) ''safety.estop''") (auto simp: stop_gates_def bind_wb_read)
  have f: "\<not> truthy v" using called v by (auto simp: stop_gates_def bind_wb_read)
  show ?thesis
  proof (cases "lr_tool p = ''resume_print''")
    case False
    then have q: "stop_gates env t p s = queue_gate env t p (after_read s)"
      using v f by (simp add: stop_gates_def bind_wb_read)
    with called have "dv_calls (snd (queue_gate env t p (after_read s))) \<noteq> dv_calls (after_read s)" by simp
    from queue_called [OF this] q v f False show ?thesis by (simp add: not_stopped_def read_flags_def)
  next
    case True
    obtain w where w: "xv_read env (dv_reads s + 1) ''agent.external_pause'' = Inr w"
      using called v f True
      by (cases "xv_read env (dv_reads s + 1) ''agent.external_pause''") (auto simp: stop_gates_def bind_wb_read)
    have g: "\<not> truthy w" using called v f w True by (auto simp: stop_gates_def bind_wb_read)
    have q: "stop_gates env t p s = queue_gate env t p (after_read (after_read s))"
      using v f w g True by (simp add: stop_gates_def bind_wb_read)
    with called have "dv_calls (snd (queue_gate env t p (after_read (after_read s)))) \<noteq> dv_calls (after_read (after_read s))"
      by simp
    from queue_called [OF this] q v f w g True show ?thesis by (simp add: not_stopped_def read_flags_def)
  qed
qed

lemma process_called:
  assumes t: "map_of (xv_tools env) (lr_tool p) = Some t" "\<not> tl_gate_bypass t"
    and called: "dv_calls (snd (process_proposal env p s)) \<noteq> dv_calls s"
  shows "chain_check p (dv_ledger s) = None \<and> dv_calls (snd (stop_gates env t p s)) \<noteq> dv_calls s
    \<and> process_proposal env p s = stop_gates env t p s"
proof (cases "chain_check p (dv_ledger s)")
  case None
  then have "process_proposal env p s = stop_gates env t p s"
    using t by (simp add: process_proposal_def act_simps)
  then show ?thesis using called None by simp
next
  case (Some v)
  then have "dv_calls (snd (process_proposal env p s)) = dv_calls s"
    using t by (cases v) (simp_all add: process_proposal_def act_simps)
  with called show ?thesis by blast
qed

text \<open>A finished check of the chain: every earlier action of the chain is done.\<close>

lemma chain_verdict_None: "chain_verdict preds = None \<Longrightarrow> \<forall>r\<in>set preds. lr_status r = LDone"
proof (induction preds)
  case (Cons r preds)
  then show ?case by (cases "lr_status r") simp_all
qed simp

text \<open>
  C4: A tool that is not exempt from the gates runs only for an action whose chain predecessors are all done,
  with no emergency stop (and no external pause for a resume), no action in flight in its device group, within
  its age limit, approved where approval is required, and after its precheck has passed.
\<close>

theorem gates_before_tool:
  assumes "map_of (xv_tools env) (lr_tool p) = Some t" and "\<not> tl_gate_bypass t"
    and "dv_calls (snd (process_proposal env p s)) \<noteq> dv_calls s"
  shows "(\<forall>c n r. lr_chain_id p = Some c \<and> lr_chain_seq p = Some n \<and> 0 < n \<and> r \<in> set (chain_predecessors c n (dv_ledger s))
        \<longrightarrow> lr_status r = LDone)
    \<and> (\<exists>v. xv_read env (dv_reads s) ''safety.estop'' = Inr v \<and> \<not> truthy v)
    \<and> (lr_tool p = ''resume_print'' \<longrightarrow> (\<exists>v. xv_read env (dv_reads s + 1) ''agent.external_pause'' = Inr v \<and> \<not> truthy v))
    \<and> \<not> has_inflight (device_group t) (dv_ledger s)
    \<and> (lv_mono env (lg_monos (dv_ledger s)) - lr_created_mono p) * 1000 \<le> of_int (lr_max_proposal_age_ms p)
    \<and> (lr_requires_approval p \<longrightarrow> (\<exists>a. get_approval (lr_action_id p) (dv_ledger s) = Some a \<and> lp_decision a = ''APPROVE''))
    \<and> (tl_has_precheck t \<longrightarrow> (\<exists>v. xv_precheck env (dv_prechecks s) t (lr_params p) = Inr v \<and> \<not> is_error v))"
proof -
  from process_called [OF assms] have c: "chain_check p (dv_ledger s) = None"
    and st: "dv_calls (snd (stop_gates env t p s)) \<noteq> dv_calls s" by blast+
  have "lr_status r = LDone"
    if "lr_chain_id p = Some k" "lr_chain_seq p = Some n" "0 < n" "r \<in> set (chain_predecessors k n (dv_ledger s))" for k n r
    using c that chain_verdict_None by (simp add: chain_check_def)
  then show ?thesis
    using stop_called [OF st] unfolding not_stopped_def fresh_enough_def approved_def precheck_passed_def by blast
qed

section \<open>Recovery after a crash\<close>

text \<open>Whether a tool succeeded, and what is recorded of it.\<close>

definition tool_verdict :: "pyexc + pyval \<Rightarrow> bool \<times> pyval" where
  "tool_verdict outcome = (case outcome of Inl e \<Rightarrow> (False, error_dict e) | Inr v \<Rightarrow> (\<not> is_error v, v))"

definition set_row :: "ledger_status \<Rightarrow> rat \<Rightarrow> pyval \<Rightarrow> pyval \<Rightarrow> ledger_action \<Rightarrow> ledger_action" where
  "set_row st ts res err r = r\<lparr>lr_status := st, lr_updated_ts := ts,
     lr_result := (if res \<noteq> PyNone then Some res else lr_result r), lr_error := (if err \<noteq> PyNone then Some err else lr_error r)\<rparr>"

lemma set_row_id [simp]: "lr_action_id (set_row st ts res err r) = lr_action_id r"
  "lr_status (set_row st ts res err r) = st"
  "lr_error (set_row st ts res err r) = (if err \<noteq> PyNone then Some err else lr_error r)"
  "lr_device_group (set_row st ts res err r) = lr_device_group r"
  "lr_idempotency_key (set_row st ts res err r) = lr_idempotency_key r"
  "lr_tool (set_row st ts res err r) = lr_tool r"
  by (simp_all add: set_row_def)

definition the_row :: "string \<Rightarrow> engine5 \<Rightarrow> ledger_action option" where
  "the_row i s = find_row lr_action_id i (lg_actions (dv_ledger s))"

lemma the_row_set:
  "the_row j (on_ledger (set_status e i st res err) s) =
     (if j = i then map_option (set_row st (lv_time e (lg_times (dv_ledger s))) res err) (the_row i s) else the_row j s)"
  by (simp add: the_row_def on_ledger_def set_status_def set_row_def [abs_def] find_update_row)

lemma the_row_other [simp]:
  "the_row i (s\<lparr>dv_power := n\<rparr>) = the_row i s" "the_row i (s\<lparr>dv_calls := c\<rparr>) = the_row i s"
  "the_row i (s\<lparr>dv_human := h\<rparr>) = the_row i s" "the_row i (on_diary dg u s) = the_row i s"
  by (simp_all add: the_row_def on_diary_def)

definition diary_entry :: "string \<Rightarrow> string \<Rightarrow> engine5 \<Rightarrow> diary_row option" where
  "diary_entry dg key s = find_row dr_idempotency_key key (get_diary dg s)"

lemma diary_entry_other [simp]:
  "diary_entry dg key (s\<lparr>dv_power := n\<rparr>) = diary_entry dg key s" "diary_entry dg key (s\<lparr>dv_calls := c\<rparr>) = diary_entry dg key s"
  "diary_entry dg key (s\<lparr>dv_human := h\<rparr>) = diary_entry dg key s" "diary_entry dg key (on_ledger u s) = diary_entry dg key s"
  by (simp_all add: diary_entry_def get_diary_def on_ledger_def)

lemma diary_entry_inflight:
  "diary_entry dg key (on_diary dg (write_inflight key i tn) s) =
     Some \<lparr>dr_idempotency_key = key, dr_action_id = i, dr_tool = tn, dr_status = DInFlight, dr_result = None\<rparr>"
proof -
  have "find_row dr_idempotency_key key (filter (\<lambda>r. dr_idempotency_key r \<noteq> key) d) = None" for d :: diary
    by (auto simp: find_row_None)
  then show ?thesis by (simp add: diary_entry_def get_diary_def on_diary_def write_inflight_def find_row_append)
qed

lemma diary_entry_result:
  "diary_entry dg key (on_diary dg (write_success key v) s)
     = map_option (\<lambda>r. r\<lparr>dr_status := DSuccess, dr_result := Some v\<rparr>) (diary_entry dg key s)"
  "diary_entry dg key (on_diary dg (write_failed key v) s)
     = map_option (\<lambda>r. r\<lparr>dr_status := DFailed, dr_result := Some v\<rparr>) (diary_entry dg key s)"
  by (simp_all add: diary_entry_def get_diary_def on_diary_def write_success_def write_failed_def find_update_row)

definition dispatch_state :: "engine_env \<Rightarrow> tool \<Rightarrow> ledger_action \<Rightarrow> engine5 \<Rightarrow> engine5" where
  "dispatch_state env t p s =
     committed (\<lambda>s. s\<lparr>dv_calls := dv_calls s @ [(lr_action_id p, tl_name t, lr_params p)]\<rparr>)
       (committed (on_ledger (set_status (ledger_env_of env) (lr_action_id p) LDispatched PyNone PyNone))
         (committed (on_diary (device_group t) (write_inflight (lr_idempotency_key p) (lr_action_id p) (lr_tool p))) s))"

lemma dispatch_final:
  assumes "tool_verdict (xv_execute env (length (dv_calls s)) t (lr_params p)) = (good, v)"
  shows "snd (dispatch env t p s) =
    committed (on_ledger (set_status (ledger_env_of env) (lr_action_id p) (if good then LDone else LFailed)
        (if good then v else PyNone) (if good then PyNone else v)))
      (committed (on_diary (device_group t) ((if good then write_success else write_failed) (lr_idempotency_key p) v))
        (dispatch_state env t p s))"
  using assms
  by (auto simp: dispatch_def Let_def act_simps dispatch_state_def tool_verdict_def split: sum.split_asm)

text \<open>
  What is on disk when a process that has called the tool dies or goes on: the three stages of the record.
\<close>

definition recorded_stage :: "tool \<Rightarrow> ledger_action \<Rightarrow> bool \<Rightarrow> pyval \<Rightarrow> engine5 \<Rightarrow> bool" where
  "recorded_stage t p good v s \<longleftrightarrow>
     (\<exists>r e. the_row (lr_action_id p) s = Some r \<and> diary_entry (device_group t) (lr_idempotency_key p) s = Some e
        \<and> lr_device_group r = lr_device_group p \<and> lr_idempotency_key r = lr_idempotency_key p \<and> lr_tool r = lr_tool p
        \<and> (lr_status r = LDispatched \<and> dr_status e = DInFlight
           \<or> lr_status r = LDispatched \<and> dr_status e = (if good then DSuccess else DFailed) \<and> dr_result e = Some v
           \<or> lr_status r = (if good then LDone else LFailed) \<and> (\<not> good \<longrightarrow> v \<noteq> PyNone \<longrightarrow> lr_error r = Some v)))"

lemma recorded_dispatched:
  assumes row: "the_row (lr_action_id p) s = Some r0"
    and same: "lr_device_group r0 = lr_device_group p" "lr_idempotency_key r0 = lr_idempotency_key p" "lr_tool r0 = lr_tool p"
    and v: "tool_verdict (xv_execute env (length (dv_calls s)) t (lr_params p)) = (good, v)"
    and called: "dv_calls (snd (dispatch env t p s)) \<noteq> dv_calls s"
  shows "recorded_stage t p good v (snd (dispatch env t p s))"
proof -
  let ?s1 = "committed (on_diary (device_group t) (write_inflight (lr_idempotency_key p) (lr_action_id p) (lr_tool p))) s"
  let ?s2 = "committed (on_ledger (set_status (ledger_env_of env) (lr_action_id p) LDispatched PyNone PyNone)) ?s1"
  let ?s3 = "dispatch_state env t p s"
  let ?s4 = "committed (on_diary (device_group t) ((if good then write_success else write_failed) (lr_idempotency_key p) v)) ?s3"
  have p2: "powered ?s2"
  proof (rule ccontr)
    assume "\<not> powered ?s2"
    then have "dv_calls ?s3 = dv_calls s" by (simp add: dispatch_state_def committed_cut)
    then show False using called unfolding dispatch_final [OF v] by simp
  qed
  then have p1: "powered ?s1" "powered s" using powered_committed by blast+
  obtain r2 e2 where s2: "the_row (lr_action_id p) ?s2 = Some r2" "lr_status r2 = LDispatched"
      "lr_device_group r2 = lr_device_group p" "lr_idempotency_key r2 = lr_idempotency_key p" "lr_tool r2 = lr_tool p"
      "diary_entry (device_group t) (lr_idempotency_key p) ?s2 = Some e2" "dr_status e2 = DInFlight"
    using row same p1 by (simp add: committed_def the_row_set diary_entry_inflight)
  have s3: "the_row (lr_action_id p) ?s3 = Some r2" "diary_entry (device_group t) (lr_idempotency_key p) ?s3 = Some e2"
    using p2 s2 unfolding dispatch_state_def by (simp_all add: committed_def [of _ ?s2])
  show ?thesis
  proof (cases "powered ?s3")
    case False
    then have "snd (dispatch env t p s) = ?s3" unfolding dispatch_final [OF v] by (simp add: committed_cut)
    then show ?thesis using s3 s2 by (simp add: recorded_stage_def)
  next
    case True
    obtain e4 where s4: "the_row (lr_action_id p) ?s4 = Some r2"
        "diary_entry (device_group t) (lr_idempotency_key p) ?s4 = Some e4"
        "dr_status e4 = (if good then DSuccess else DFailed)" "dr_result e4 = Some v"
      using True s3 by (cases good) (simp_all add: committed_def [of _ ?s3] diary_entry_result)
    show ?thesis
    proof (cases "powered ?s4")
      case False
      then have "snd (dispatch env t p s) = ?s4" unfolding dispatch_final [OF v] by (rule committed_cut)
      then show ?thesis using s4 s2 by (simp add: recorded_stage_def)
    next
      case True
      define s4 where "s4 = ?s4"
      have "committed u s4 = (u s4)\<lparr>dv_power := map_option (\<lambda>n. n - 1) (dv_power s4)\<rparr>" for u
        using True by (simp add: committed_def s4_def)
      then show ?thesis
        unfolding dispatch_final [OF v] s4_def [symmetric] using s4 [folded s4_def] s2(2-5)
        by (auto simp: the_row_set recorded_stage_def)
    qed
  qed
qed

text \<open>What the recovery writes for an action in flight.\<close>

definition reconcile_verdict :: "string \<Rightarrow> diary \<Rightarrow> ledger_status \<times> pyval \<times> pyval" where
  "reconcile_verdict key d = (case diary_lookup key d of
       Some DSuccess \<Rightarrow> (LDone, por (diary_result key d) (PyDict []), PyNone)
     | Some DFailed \<Rightarrow> (LFailed, PyNone, por (diary_result key d) (PyDict []))
     | Some DInFlight \<Rightarrow> (LUnknown, PyNone, PyNone)
     | None \<Rightarrow> (LFailed, PyNone, never_dispatched))"

definition human_told :: "bool \<Rightarrow> ledger_action \<Rightarrow> engine5 \<Rightarrow> bool" where
  "human_told h a s \<longleftrightarrow> (h \<longrightarrow> (unknown_message a, ''critical'') \<in> set (dv_human s))"

lemma reconcile_one_effect:
  fixes env :: engine_env and h :: bool and s :: engine5
  assumes on: "dv_power s = None" and v: "reconcile_verdict (lr_idempotency_key a) (get_diary (lr_device_group a) s) = (st, res, err)"
  defines "s' \<equiv> snd (reconcile_one env h a s)"
  shows "reconcile_one env h a s = (Inr (), s')"
    and "dv_power s' = None" and "dv_diaries s' = dv_diaries s" and "set (dv_human s) \<subseteq> set (dv_human s')"
    and "the_row (lr_action_id a) s' = map_option
      (set_row st (lv_time (ledger_env_of env) (lg_times (dv_ledger s))) res err) (the_row (lr_action_id a) s)"
    and "st = LUnknown \<Longrightarrow> human_told h a s'"
proof -
  let ?put = "committed (on_ledger (set_status (ledger_env_of env) (lr_action_id a) st res err)) s"
  have put: "dv_power ?put = None" "dv_diaries ?put = dv_diaries s" "dv_human ?put = dv_human s" "powered ?put"
    "the_row (lr_action_id a) ?put = map_option
      (set_row st (lv_time (ledger_env_of env) (lg_times (dv_ledger s))) res err) (the_row (lr_action_id a) s)"
    using on by (simp_all add: committed_def powered_def on_ledger_def the_row_set [unfolded on_ledger_def])
  have "reconcile_one env h a s = (Inr (), if st = LUnknown \<and> h
      then ?put\<lparr>dv_human := dv_human s @ [(unknown_message a, ''critical'')]\<rparr> else ?put)"
    using v put(3,4)
    by (auto simp: reconcile_verdict_def reconcile_one_def Let_def act_simps call_human5_def
        split: option.splits diary_status.splits)
  then show "reconcile_one env h a s = (Inr (), s')" "dv_power s' = None" "dv_diaries s' = dv_diaries s"
    "set (dv_human s) \<subseteq> set (dv_human s')" "st = LUnknown \<Longrightarrow> human_told h a s'"
    "the_row (lr_action_id a) s' = map_option
      (set_row st (lv_time (ledger_env_of env) (lg_times (dv_ledger s))) res err) (the_row (lr_action_id a) s)"
    using put by (auto simp: s'_def human_told_def)
qed

lemma get_diary_cong: "dv_diaries s' = dv_diaries s \<Longrightarrow> get_diary dg s' = get_diary dg s"
  by (simp add: get_diary_def)

lemma touches_row: "touches i s s' \<Longrightarrow> j \<noteq> i \<Longrightarrow> the_row j s' = the_row j s"
  using rows_move_other [of i "lg_actions (dv_ledger s)" "lg_actions (dv_ledger s')" j]
  by (simp add: touches_def the_row_def)

lemma reconcile_all_effect:
  assumes "dv_power s = None" and "distinct (map lr_action_id as)"
  shows "set (dv_human s) \<subseteq> set (dv_human (snd (reconcile_all env h as s)))
    \<and> (i \<notin> lr_action_id ` set as \<longrightarrow> the_row i (snd (reconcile_all env h as s)) = the_row i s)
    \<and> (\<forall>a st res err. a \<in> set as \<and> lr_action_id a = i
         \<and> reconcile_verdict (lr_idempotency_key a) (get_diary (lr_device_group a) s) = (st, res, err) \<longrightarrow>
        (\<exists>ts. the_row i (snd (reconcile_all env h as s)) = map_option (set_row st ts res err) (the_row i s))
        \<and> (st = LUnknown \<longrightarrow> human_told h a (snd (reconcile_all env h as s))))"
  using assms
proof (induction as arbitrary: s)
  case Nil
  then show ?case by (simp add: act_simps)
next
  case (Cons b as)
  obtain stb resb errb where v: "reconcile_verdict (lr_idempotency_key b) (get_diary (lr_device_group b) s) = (stb, resb, errb)"
    by (cases "reconcile_verdict (lr_idempotency_key b) (get_diary (lr_device_group b) s)") auto
  define s1 where "s1 = snd (reconcile_one env h b s)"
  note e = reconcile_one_effect [OF Cons.prems(1) v, where env = env and h = h, folded s1_def]
  have step: "reconcile_all env h (b # as) s = reconcile_all env h as s1"
    using e(1) by (simp add: bindE_def)
  have d: "distinct (map lr_action_id as)" and nb: "lr_action_id b \<notin> lr_action_id ` set as" using Cons.prems(2) by auto
  note IH = Cons.IH [OF e(2) d]
  have same: "get_diary dg s1 = get_diary dg s" for dg by (rule get_diary_cong [OF e(3)])
  have t: "touches (lr_action_id b) s s1" unfolding s1_def by (rule reconcile_one_touches)
  show ?case
  proof (cases "i = lr_action_id b")
    case True
    then have "the_row i (snd (reconcile_all env h as s1)) = the_row i s1" using IH nb by blast
    then have row: "\<exists>ts. the_row i (snd (reconcile_all env h as s1)) = map_option (set_row stb ts resb errb) (the_row i s)"
      using e(5) True by auto
    have told: "stb = LUnknown \<longrightarrow> human_told h b (snd (reconcile_all env h as s1))"
      using IH e(6) unfolding human_told_def by blast
    have only: "a = b" if "a \<in> set (b # as)" "lr_action_id a = i" for a
      using that nb True by (auto simp: image_iff)
    have "set (dv_human s) \<subseteq> set (dv_human (snd (reconcile_all env h as s1)))" using IH e(4) by blast
    moreover have "i \<in> lr_action_id ` set (b # as)" using True by simp
    moreover have "(\<exists>ts. the_row i (snd (reconcile_all env h as s1)) = map_option (set_row st ts res err) (the_row i s))
        \<and> (st = LUnknown \<longrightarrow> human_told h a (snd (reconcile_all env h as s1)))"
      if "a \<in> set (b # as)" "lr_action_id a = i"
        "reconcile_verdict (lr_idempotency_key a) (get_diary (lr_device_group a) s) = (st, res, err)" for a st res err
    proof -
      from only [OF that(1,2)] v that(3) have "a = b" "st = stb" "res = resb" "err = errb" by auto
      then show ?thesis using row told by simp
    qed
    ultimately show ?thesis unfolding step by blast
  next
    case False
    then have "the_row i s1 = the_row i s" by (rule touches_row [OF t])
    then show ?thesis using IH e(4) False unfolding step same by auto
  qed
qed

lemma toctou_dispatches:
  assumes "precheck_passed env t p (dv_prechecks s)"
  obtains s1 where "toctou_gate env t p s = dispatch env t p s1" "dv_calls s1 = dv_calls s" "dv_power s1 = dv_power s"
    "lg_actions (dv_ledger s1) = lg_actions (dv_ledger s)"
proof (cases "tl_has_precheck t")
  case False
  then show ?thesis using that [of s] by (simp add: toctou_gate_def)
next
  case True
  then obtain v where "xv_precheck env (dv_prechecks s) t (lr_params p) = Inr v" "\<not> is_error v"
    using assms by (auto simp: precheck_passed_def)
  then show ?thesis using that [of "s\<lparr>dv_prechecks := dv_prechecks s + 1\<rparr>"] True
    by (simp add: toctou_gate_def act_simps)
qed

lemma called_dispatches:
  assumes "map_of (xv_tools env) (lr_tool p) = Some t" and "\<not> tl_gate_bypass t"
    and "dv_calls (snd (process_proposal env p s)) \<noteq> dv_calls s"
  obtains s1 where "process_proposal env p s = dispatch env t p s1" "dv_calls s1 = dv_calls s"
    "lg_actions (dv_ledger s1) = lg_actions (dv_ledger s)"
proof -
  from process_called [OF assms] have st: "dv_calls (snd (stop_gates env t p s)) \<noteq> dv_calls s"
    and e: "process_proposal env p s = stop_gates env t p s" by blast+
  from stop_called [OF st] have pc: "precheck_passed env t p (dv_prechecks (read_flags env p s))"
    and e': "stop_gates env t p s = toctou_gate env t p (read_flags env p s)" by simp_all
  from toctou_dispatches [OF pc] obtain s1 where "toctou_gate env t p (read_flags env p s) = dispatch env t p s1"
    "dv_calls s1 = dv_calls (read_flags env p s)" "lg_actions (dv_ledger s1) = lg_actions (dv_ledger (read_flags env p s))"
    by blast
  then show ?thesis using that e e' by simp
qed

lemma verdict_of_stage:
  assumes "diary_entry dg key s = Some e"
  shows "reconcile_verdict key (get_diary dg s) = (case dr_status e of
      DSuccess \<Rightarrow> (LDone, por (case dr_result e of None \<Rightarrow> PyNone | Some v \<Rightarrow> v) (PyDict []), PyNone)
    | DFailed \<Rightarrow> (LFailed, PyNone, por (case dr_result e of None \<Rightarrow> PyNone | Some v \<Rightarrow> v) (PyDict []))
    | DInFlight \<Rightarrow> (LUnknown, PyNone, PyNone))"
  using assms by (simp add: reconcile_verdict_def diary_entry_def diary_lookup_def diary_result_def split: diary_status.split)

lemma is_error_truthy: "is_error v \<Longrightarrow> truthy v \<and> v \<noteq> PyNone"
  by (cases v) auto

lemma bad_verdict_truthy: "tool_verdict outcome = (False, v) \<Longrightarrow> truthy v \<and> v \<noteq> PyNone"
  using is_error_truthy by (cases outcome) (auto simp: tool_verdict_def error_dict_def)

definition recovered :: "bool \<Rightarrow> pyval \<Rightarrow> ledger_action \<Rightarrow> engine5 \<Rightarrow> bool" where
  "recovered good v p s \<longleftrightarrow> (\<exists>r. the_row (lr_action_id p) s = Some r \<and>
     (lr_status r = LUnknown \<and> (unknown_message p, ''critical'') \<in> set (dv_human s)
      \<or> lr_status r = LDone \<and> good \<or> lr_status r = LFailed \<and> \<not> good \<and> lr_error r = Some v))"

lemma stage_recovers:
  assumes ok: "engine_ok s" and on: "dv_power s = None" and st: "recorded_stage t p good v s"
    and dg: "lr_device_group p = device_group t" and bad: "\<not> good \<Longrightarrow> truthy v \<and> v \<noteq> PyNone"
  shows "recovered good v p (snd (reconcile env True s))"
proof -
  let ?as = "get_by_status LDispatched (dv_ledger s)" and ?i = "lr_action_id p" and ?s = "snd (reconcile env True s)"
  from st obtain r e where r: "the_row ?i s = Some r" "lr_device_group r = device_group t"
      "lr_idempotency_key r = lr_idempotency_key p" "lr_tool r = lr_tool p"
    and e: "diary_entry (device_group t) (lr_idempotency_key p) s = Some e"
    and stages: "lr_status r = LDispatched \<and> dr_status e = DInFlight
        \<or> lr_status r = LDispatched \<and> dr_status e = (if good then DSuccess else DFailed) \<and> dr_result e = Some v
        \<or> lr_status r = (if good then LDone else LFailed) \<and> (\<not> good \<longrightarrow> v \<noteq> PyNone \<longrightarrow> lr_error r = Some v)"
    unfolding recorded_stage_def dg by blast
  have id: "lr_action_id r = ?i" "r \<in> set (lg_actions (dv_ledger s))"
    using r(1) find_row_key unfolding the_row_def by metis+
  have run: "?s = snd (reconcile_all env True ?as s)" by (simp add: reconcile_def act_simps)
  note eff = reconcile_all_effect [OF on snapshot_by_status(1) [OF ok], of env True LDispatched ?i, folded run]
  have in_snap: "r \<in> set ?as" if "lr_status r = LDispatched" using that id by (simp add: get_by_status_def)
  have told: "human_told True r x \<longleftrightarrow> (unknown_message p, ''critical'') \<in> set (dv_human x)" for x
    using id r by (simp add: human_told_def unknown_message_def)
  from stages consider "lr_status r = LDispatched" "dr_status e = DInFlight"
    | "lr_status r = LDispatched" "dr_status e = (if good then DSuccess else DFailed)" "dr_result e = Some v"
    | "lr_status r = (if good then LDone else LFailed)" "\<not> good \<longrightarrow> v \<noteq> PyNone \<longrightarrow> lr_error r = Some v" by blast
  then show ?thesis
  proof cases
    case 1
    have "reconcile_verdict (lr_idempotency_key r) (get_diary (lr_device_group r) s) = (LUnknown, PyNone, PyNone)"
      using verdict_of_stage [OF e] 1 r by simp
    with eff in_snap [OF 1(1)] id(1) obtain ts where "the_row ?i ?s = Some (set_row LUnknown ts PyNone PyNone r)"
      "human_told True r ?s" using r(1) by fastforce
    then show ?thesis by (simp add: recovered_def told)
  next
    case 2
    show ?thesis
    proof (cases good)
      case True
      have "reconcile_verdict (lr_idempotency_key r) (get_diary (lr_device_group r) s) = (LDone, por v (PyDict []), PyNone)"
        using verdict_of_stage [OF e] 2 r True by simp
      with eff in_snap [OF 2(1)] id(1) obtain ts where "the_row ?i ?s = Some (set_row LDone ts (por v (PyDict [])) PyNone r)"
        using r(1) by fastforce
      then show ?thesis using True by (simp add: recovered_def)
    next
      case False
      have "reconcile_verdict (lr_idempotency_key r) (get_diary (lr_device_group r) s) = (LFailed, PyNone, v)"
        using verdict_of_stage [OF e] 2 r False bad by (simp add: por_def)
      with eff in_snap [OF 2(1)] id(1) obtain ts where "the_row ?i ?s = Some (set_row LFailed ts PyNone v r)"
        using r(1) by fastforce
      then show ?thesis using False bad by (simp add: recovered_def)
    qed
  next
    case 3
    have "?i \<notin> lr_action_id ` set ?as"
    proof
      assume "?i \<in> lr_action_id ` set ?as"
      then have "status_of ?i s = Some LDispatched" using snapshot_by_status(2) [OF ok] by fastforce
      then show False using r(1) 3(1) by (simp add: status_of_def the_row_def split: if_splits)
    qed
    then have "the_row ?i ?s = Some r" using eff r(1) by simp
    then show ?thesis using 3 bad by (auto simp: recovered_def)
  qed
qed


section \<open>Finished actions\<close>

lemma loop_row:
  assumes nil: "\<And>s. loop [] s = (Inr (), s)"
    and cons: "\<And>a as s. loop (a # as) s = bindE (f a) (\<lambda>_. loop as) s"
    and f_touches: "\<And>a s. touches (lr_action_id a) s (snd (f a s))"
  shows "i \<notin> lr_action_id ` set as \<Longrightarrow> the_row i (snd (loop as s)) = the_row i s"
proof (induction as arbitrary: s)
  case (Cons a as)
  obtain r s1 where f: "f a s = (r, s1)" by fastforce
  have ne: "i \<noteq> lr_action_id a" "i \<notin> lr_action_id ` set as" using Cons.prems by auto
  have "the_row i s1 = the_row i s" using touches_row [OF f_touches [of a s] ne(1)] f by simp
  with Cons.IH [OF ne(2), of s1] show ?case using f by (cases r) (simp_all add: cons bindE_def)
qed (simp add: nil)

definition finished :: "string \<Rightarrow> engine5 \<Rightarrow> bool" where
  "finished i s \<longleftrightarrow> (\<exists>st\<in>{LDone, LFailed, LRejected, LUnknown}. status_of i s = Some st)"

lemma finished_not_snapshot:
  assumes "engine_ok s" and "finished i s" and "st \<in> {LProposed, LWaitingApproval, LDispatched}"
  shows "i \<notin> lr_action_id ` set (get_by_status st (dv_ledger s))"
  using snapshot_by_status(2) [OF assms(1), of _ st] assms(2,3) unfolding finished_def by fastforce

lemma the_row_status: "the_row i s' = the_row i s \<Longrightarrow> status_of i s' = status_of i s"
  by (simp add: the_row_def status_of_def)

lemma poll_once_row:
  assumes ok: "engine_ok s" and fin: "finished i s"
  shows "the_row i (snd (poll_once env s)) = the_row i s"
proof -
  obtain r s1 where p: "process_all env (get_proposals (dv_ledger s)) s = (r, s1)" by fastforce
  have "the_row i (snd (process_all env (get_proposals (dv_ledger s)) s)) = the_row i s"
    by (rule loop_row [where loop = "process_all env" and f = "process_proposal env"])
      (use finished_not_snapshot [OF ok fin] in \<open>simp_all add: act_simps get_proposals_by_status process_touches\<close>)
  then have r1: "the_row i s1 = the_row i s" by (simp add: p)
  have "engine_ok (snd (process_all env (get_proposals (dv_ledger s)) s))"
    by (rule process_all_ok [OF ok]) (simp_all add: get_proposals_by_status snapshot_by_status [OF ok] pending_def)
  then have ok1: "engine_ok s1" by (simp add: p)
  have "finished i s1" using fin the_row_status [OF r1] by (simp add: finished_def)
  note no = finished_not_snapshot [OF ok1 this]
  have "the_row i (snd (waiting_all env (get_by_status LWaitingApproval (dv_ledger s1)) s1)) = the_row i s1"
    by (rule loop_row [where loop = "waiting_all env" and f = "waiting_step env"])
      (use no in \<open>simp_all add: act_simps waiting_step_touches\<close>)
  then show ?thesis using p r1 by (cases r) (simp_all add: poll_once_def act_simps bindE_def)
qed

lemma reconcile_row:
  assumes ok: "engine_ok s" and fin: "finished i s"
  shows "the_row i (snd (reconcile env h s)) = the_row i s"
proof -
  have "the_row i (snd (reconcile_all env h (get_by_status LDispatched (dv_ledger s)) s)) = the_row i s"
    by (rule loop_row [where loop = "reconcile_all env h" and f = "reconcile_one env h"])
      (use finished_not_snapshot [OF ok fin] in \<open>simp_all add: act_simps reconcile_one_touches\<close>)
  then show ?thesis by (simp add: reconcile_def act_simps)
qed

definition row_kept :: "string \<Rightarrow> engine5 \<Rightarrow> engine5 \<Rightarrow> bool" where
  "row_kept i s0 s \<longleftrightarrow> engine_ok s \<and> finished i s \<and> the_row i s = the_row i s0"

lemma row_keptI: "row_kept i s0 s \<Longrightarrow> engine_ok s' \<Longrightarrow> the_row i s' = the_row i s \<Longrightarrow> row_kept i s0 s'"
  unfolding row_kept_def finished_def using the_row_status [of i s' s] by simp

lemma row_kept_same:
  assumes "row_kept i s0 s" and "lg_actions (dv_ledger s') = lg_actions (dv_ledger s)" and "dv_calls s' = dv_calls s"
  shows "row_kept i s0 s'"
  by (rule row_keptI [OF assms(1)], rule engine_ok_same [OF _ assms(2,3)])
    (use assms in \<open>simp_all add: row_kept_def the_row_def\<close>)

lemma round_row: "preserves (row_kept i s0) (engine_round env)"
proof -
  have "row_kept i s0 (snd (poll_once env s))" if "row_kept i s0 s" for s
    by (rule row_keptI [OF that]) (use that in \<open>simp_all add: row_kept_def poll_once_ok poll_once_row\<close>)
  then have p: "preserves (row_kept i s0) (poll_once env)" by (simp add: preserves_def)
  have "row_kept i s0 (snd (reconcile env False s))" if "row_kept i s0 s" for s
    by (rule row_keptI [OF that]) (use that in \<open>simp_all add: row_kept_def reconcile_ok reconcile_row\<close>)
  then have r: "preserves (row_kept i s0) (reconcile env False)" by (simp add: preserves_def)
  have m: "preserves (row_kept i s0) (monotonic env)"
    by (rule preservesI, erule row_kept_same) (simp_all add: monotonic_def on_ledger_def)
  have l: "preserves (row_kept i s0) (modify (\<lambda>s. s\<lparr>dv_last_reconcile := t\<rparr>))" for t
    by (rule preservesI, erule row_kept_same) (simp_all add: act_simps)
  show ?thesis unfolding engine_round_def by (intro preserves_intros p r m l)
qed

lemma agent_step_row: "agent_step env s s' \<Longrightarrow> row_kept i s0 s \<Longrightarrow> row_kept i s0 s'"
proof (induction rule: agent_step.induct)
  case (proposes a)
  have ok: "engine_ok s" and "status_of i s \<noteq> None" using proposes(2) by (auto simp: row_kept_def finished_def)
  then have "i \<in> lr_action_id ` set (lg_actions (dv_ledger s))"
    unfolding status_of_def using find_row_None by (metis option.map_disc_iff)
  from propose_status [OF _ proposes(1) this] ok show ?case
    by (intro row_keptI [OF proposes(2)] engine_ok_propose [OF ok proposes(1)])
      (simp add: the_row_def on_ledger_def engine_ok_def)
next
  case (decides j decision by_whom)
  then show ?case
    by (elim row_kept_same) (simp_all add: on_ledger_def record_approval5_def Let_def split: option.split)
next
  case (polls budget)
  have "row_kept i s0 (s\<lparr>dv_power := budget\<rparr>)" by (rule row_kept_same [OF polls]) simp_all
  then have "row_kept i s0 (snd (engine_round env (s\<lparr>dv_power := budget\<rparr>)))" using round_row by (simp add: preserves_def)
  then show ?case by (rule row_kept_same) (simp_all add: restarted_def)
next
  case (boots budget)
  have k: "row_kept i s0 (s\<lparr>dv_power := budget\<rparr>)" by (rule row_kept_same [OF boots]) simp_all
  then have "row_kept i s0 (snd (reconcile env True (s\<lparr>dv_power := budget\<rparr>)))"
    by (rule row_keptI) (use k in \<open>simp_all add: row_kept_def reconcile_ok reconcile_row\<close>)
  then show ?case by (rule row_kept_same) (simp_all add: restarted_def)
next
  case (waits reason obs reasoning)
  then show ?case
    by (elim row_kept_same) (simp_all add: on_ledger_def record_wait_def)
next
  case (calls msg obs reasoning)
  then show ?case
    by (elim row_kept_same) (simp_all add: on_ledger_def record_call_human_def)
qed

text \<open>
  C6: A row of the ledger that is done, failed, rejected or unknown is final: whatever happens later, crashes
  included, it keeps every column.
\<close>

theorem finished_rows_final:
  assumes "agent_reaches env s" and "(agent_step env)\<^sup>*\<^sup>* s s'"
    and "status_of i s \<in> {Some LDone, Some LFailed, Some LRejected, Some LUnknown}"
  shows "find_row lr_action_id i (lg_actions (dv_ledger s')) = find_row lr_action_id i (lg_actions (dv_ledger s))"
proof -
  have "row_kept i s s" using agent_reaches_ok [OF assms(1)] assms(3) by (auto simp: row_kept_def finished_def)
  with assms(2) have "row_kept i s s'" by (induction rule: rtranclp_induct) (simp_all add: agent_step_row)
  then show ?thesis by (simp add: row_kept_def the_row_def)
qed

section \<open>Where the gates surprise\<close>

lemma status_of_event [simp]: "status_of i (on_ledger (ledger_event_write e c lv m d) s) = status_of i s"
  by (simp add: status_of_def on_ledger_def ledger_event_write_def)

lemma rejecting_status:
  assumes "dv_power s = None" and "status_of i s = Some st"
  shows "status_of i (snd (rejecting env i reason s)) = Some LRejected"
proof -
  let ?s = "committed (on_ledger (set_status (ledger_env_of env) i LRejected PyNone (reason_error reason))) s"
  have "dv_power ?s = None" "status_of i ?s = Some LRejected"
    using assms by (simp_all add: committed_def powered_def status_of_set on_ledger_def [of _ s, THEN arg_cong [where f = dv_power]])
  then show ?thesis by (simp add: rejecting_def reject_def act_simps committed_def [of _ ?s] powered_def)
qed

text \<open>
  A tool that is exempt from the gates writes no diary: when the process dies after such a tool was called
  and before its result is recorded, the recovery reports the action as failed because it was never dispatched.
\<close>

theorem bypass_crash_misreported:
  assumes "agent_reaches env s" and p: "p \<in> set (lg_actions (dv_ledger s))"
    and pend: "lr_status p \<in> {LProposed, LWaitingApproval}"
    and t: "map_of (xv_tools env) (lr_tool p) = Some t" "tl_gate_bypass t"
    and new: "diary_lookup (lr_idempotency_key p) (get_diary (lr_device_group p) s) = None"
  shows "dv_calls (snd (process_proposal env p (s\<lparr>dv_power := Some 2\<rparr>)))
        = dv_calls s @ [(lr_action_id p, tl_name t, lr_params p)]
    \<and> (\<exists>r. find_row lr_action_id (lr_action_id p) (lg_actions (dv_ledger (snd (reconcile env True
          (restarted (snd (process_proposal env p (s\<lparr>dv_power := Some 2\<rparr>)))))))) = Some r
        \<and> lr_status r = LFailed \<and> lr_error r = Some never_dispatched)"
proof -
  let ?s = "s\<lparr>dv_power := Some 2\<rparr>" and ?i = "lr_action_id p"
  let ?put = "committed (on_ledger (set_status (ledger_env_of env) ?i LDispatched PyNone PyNone)) ?s"
  let ?call = "committed (\<lambda>s. s\<lparr>dv_calls := dv_calls s @ [(?i, tl_name t, lr_params p)]\<rparr>) ?put"
  let ?s' = "snd (process_proposal env p ?s)"
  have put: "dv_power ?put = Some 1" "dv_calls ?put = dv_calls s" by (simp_all add: committed_def powered_def on_ledger_def)
  have call: "\<not> powered ?call" "dv_calls ?call = dv_calls s @ [(?i, tl_name t, lr_params p)]"
    using put by (simp_all add: committed_def [of _ ?put] powered_def)
  have run: "?s' = ?call"
    unfolding process_proposal_def Let_def t(1) option.case using t(2)
    by (simp add: bypass_gates_def act_simps committed_cut [OF call(1)] split: sum.split)
  have ok0: "engine_ok s" by (rule agent_reaches_ok [OF assms(1)])
  have row: "the_row ?i s = Some p"
    using ok0 p by (simp add: the_row_def engine_ok_def ledger_ok_def find_row_distinct)
  have "pending (status_of ?i ?s)" using pend row by (auto simp: pending_def status_of_def the_row_def)
  from engine_ok_pending [OF budget_ok [OF ok0] process_touches process_one_call this]
  have ok': "engine_ok (restarted ?s')" by (rule restarted_ok)
  define r where "r = set_row LDispatched (lv_time (ledger_env_of env) (lg_times (dv_ledger s))) PyNone PyNone p"
  have put_row: "the_row ?i ?put = Some r" "dv_diaries ?put = dv_diaries s"
    using row by (simp_all add: committed_def [of _ ?s] powered_def the_row_set r_def)
      (simp_all add: on_ledger_def)
  then have call_row: "the_row ?i ?call = Some r" "dv_diaries ?call = dv_diaries s"
    by (simp_all add: committed_def [of _ ?put])
  then have r': "the_row ?i (restarted ?s') = Some r" by (simp add: run restarted_def)
  have r: "r \<in> set (lg_actions (dv_ledger (restarted ?s')))" "lr_action_id r = ?i" "lr_status r = LDispatched"
    using find_row_key [OF r' [unfolded the_row_def]] by (simp_all add: r_def)
  have "dv_diaries (restarted ?s') = dv_diaries s" using call_row(2) by (simp add: run restarted_def)
  then have v: "reconcile_verdict (lr_idempotency_key r) (get_diary (lr_device_group r) (restarted ?s')) = (LFailed, PyNone, never_dispatched)"
    using new by (simp add: r_def get_diary_def reconcile_verdict_def)
  have in_snap: "r \<in> set (get_by_status LDispatched (dv_ledger (restarted ?s')))"
    using r by (simp add: get_by_status_def)
  have on: "dv_power (restarted ?s') = None" by (simp add: restarted_def)
  have "\<exists>ts. the_row ?i (snd (reconcile_all env True (get_by_status LDispatched (dv_ledger (restarted ?s'))) (restarted ?s')))
      = map_option (set_row LFailed ts PyNone never_dispatched) (the_row ?i (restarted ?s'))"
    using reconcile_all_effect [OF on snapshot_by_status(1) [OF ok'], of env True LDispatched ?i] in_snap r(2) v by blast
  then obtain ts where "the_row ?i (snd (reconcile env True (restarted ?s'))) = Some (set_row LFailed ts PyNone never_dispatched r)"
    unfolding r' by (auto simp: reconcile_def act_simps)
  then show ?thesis unfolding the_row_def using call(2) run by (simp add: never_dispatched_def)
qed

text \<open>
  While the first unfinished predecessor of a chained action is unknown, which is final, the engine skips the
  action at every poll and changes nothing: neither its age nor the chain ever ends it.
\<close>

theorem unknown_predecessor_blocks:
  assumes "map_of (xv_tools env) (lr_tool p) = Some t" and "\<not> tl_gate_bypass t"
    and "lr_chain_id p = Some c" and "lr_chain_seq p = Some n" and "0 < n"
    and preds: "chain_predecessors c n (dv_ledger s) = done @ q # rest"
    and d: "\<forall>r\<in>set done. lr_status r = LDone" and "lr_status q = LUnknown"
  shows "process_proposal env p s = (Inr ''SKIPPED'', s)"
proof -
  have "chain_verdict (done @ q # rest) = Some None"
    using d assms(8) by (induction "done") simp_all
  then show ?thesis using assms by (simp add: process_proposal_def chain_check_def act_simps)
qed

text \<open>
  An approval that arrives after the age limit of the proposal, though before the approval timeout, is in
  vain: the engine rejects the approved action as expired and no tool runs.
\<close>

theorem approved_too_late:
  assumes "agent_reaches env s" and p: "p \<in> set (lg_actions (dv_ledger s))" and on: "dv_power s = None"
    and t: "map_of (xv_tools env) (lr_tool p) = Some t" "\<not> tl_gate_bypass t"
    and w: "lr_requires_approval p" "lr_chain_id p = None" "lr_tool p \<noteq> ''resume_print''"
    and flag: "xv_read env (dv_reads s) ''safety.estop'' = Inr v" "\<not> truthy v"
    and free: "\<not> has_inflight (device_group t) (dv_ledger s)"
    and appr: "get_approval (lr_action_id p) (dv_ledger s) = Some a" "lp_decision a = ''APPROVE''"
    and early: "lv_mono env (lg_monos (dv_ledger s)) - lr_created_mono p \<le> xv_approval_timeout env"
    and late: "(lv_mono env (lg_monos (dv_ledger s) + 1) - lr_created_mono p) * 1000 > of_int (lr_max_proposal_age_ms p)"
  shows "dv_calls (snd (waiting_step env p s)) = dv_calls s
    \<and> status_of (lr_action_id p) (snd (waiting_step env p s)) = Some LRejected"
proof -
  let ?s1 = "after_clock s" and ?i = "lr_action_id p"
  let ?s2 = "after_clock (after_read ?s1)"
  have ok: "engine_ok s" by (rule agent_reaches_ok [OF assms(1)])
  have later: "lg_monos (dv_ledger ?s1) = lg_monos (dv_ledger s) + 1"
    and reads: "dv_reads ?s1 = dv_reads s"
    and ap: "get_approval ?i (dv_ledger ?s1) = Some a"
    using appr(1) by (simp_all add: after_clock_def on_ledger_def get_approval_def)
  have inf: "\<not> has_inflight (device_group t) (dv_ledger ?s1)" using free by (simp add: has_inflight_def)
  have q: "\<exists>reason. process_proposal env p ?s1 = rejecting env ?i reason ?s2"
    using t w flag inf late later reads
    by (auto simp: process_proposal_def chain_check_def act_simps stop_gates_def bind_wb_read queue_gate_def Let_def
        after_clock_def [of "after_read ?s1"])
  then obtain reason where q: "process_proposal env p ?s1 = rejecting env ?i reason ?s2" ..
  have "waiting_step env p s = bindE (process_proposal env p) (\<lambda>_. ret ()) ?s1"
    using early ap appr(2) unfolding after_clock_def by (simp add: waiting_step_def act_simps Let_def)
  then have run: "snd (waiting_step env p s) = snd (rejecting env ?i reason ?s2)" by (simp add: q)
  have "the_row ?i s = Some p"
    using ok p by (simp add: the_row_def engine_ok_def ledger_ok_def find_row_distinct)
  then have row: "status_of ?i ?s2 = Some (lr_status p)" by (simp add: status_of_def the_row_def)
  have "dv_power ?s2 = None" using on by simp
  then have "status_of ?i (snd (rejecting env ?i reason ?s2)) = Some LRejected"
    using rejecting_status row by blast
  then show ?thesis unfolding run by simp
qed

section \<open>A concrete agent\<close>

definition sample_tool :: "string \<Rightarrow> bool \<Rightarrow> bool \<Rightarrow> tool" where
  "sample_tool name bypass approval = \<lparr>tl_name = name, tl_pack_name = ''prusa_link'', tl_kind = ''actuator'',
     tl_doc = [], tl_gate_bypass = bypass, tl_requires_approval = approval, tl_max_proposal_age_ms = 30000,
     tl_has_precheck = False, tl_state_effects = []\<rparr>"

definition sample_engine_env :: engine_env where
  "sample_engine_env = \<lparr>lv_rt = sample_rt, lv_sha = (\<lambda>_. ''0a''), lv_time = of_nat, lv_mono = (\<lambda>n. 40 * of_nat n),
     lv_uuid = (\<lambda>n. replicate n CHR ''u''),
     xv_tools = [(''pause_print'', sample_tool ''pause_print'' False False), (''call_human'', sample_tool ''call_human'' True False),
       (''home'', sample_tool ''home'' False True)],
     xv_read = (\<lambda>_ _. Inr PyNone), xv_execute = (\<lambda>_ _ _. Inr (PyDict [])), xv_precheck = (\<lambda>_ _ _. Inr PyNone),
     xv_approval_timeout = 120, xv_has_notifier = False\<rparr>"

definition sample_args :: "string \<Rightarrow> bool \<Rightarrow> int option \<Rightarrow> proposal_args" where
  "sample_args name approval seq = \<lparr>pa_tool = name, pa_params = [], pa_reason = [], pa_device_group = ''prusa_link'',
     pa_requires_approval = approval, pa_max_proposal_age_ms = 50000, pa_observation = [],
     pa_chain_id = (if seq = None then None else Some ''c''), pa_chain_seq = seq\<rparr>"

definition proposed_state :: "proposal_args \<Rightarrow> engine5" where
  "proposed_state a = on_ledger (\<lambda>l. snd (propose (ledger_env_of sample_engine_env) a l)) initial_engine"

lemma proposed_reaches: "plain_args (ledger_env_of sample_engine_env) a \<Longrightarrow> agent_reaches sample_engine_env (proposed_state a)"
  unfolding agent_reaches_def proposed_state_def by (rule r_into_rtranclp) (rule agent_step.proposes)

definition polled_state :: "proposal_args \<Rightarrow> nat option \<Rightarrow> engine5" where
  "polled_state a budget = restarted (snd (engine_round sample_engine_env ((proposed_state a)\<lparr>dv_power := budget\<rparr>)))"

lemma polled_step: "agent_step sample_engine_env (proposed_state a) (polled_state a budget)"
  unfolding polled_state_def by (rule agent_step.polls)

lemma polled_reaches: "plain_args (ledger_env_of sample_engine_env) a \<Longrightarrow> agent_reaches sample_engine_env (polled_state a budget)"
  using proposed_reaches [of a] polled_step unfolding agent_reaches_def by (rule rtranclp.rtrancl_into_rtrancl)

lemma plain_sample_args [simp]:
  "plain_args (ledger_env_of sample_engine_env) (sample_args ''pause_print'' False None)"
  "plain_args (ledger_env_of sample_engine_env) (sample_args ''call_human'' False None)"
  "plain_args (ledger_env_of sample_engine_env) (sample_args ''home'' True None)"
  by code_simp+

lemma executed_at_most_once_witness:
  "map fst (dv_calls (polled_state (sample_args ''pause_print'' False None) (Some 4))) = [[]]
   \<and> distinct (map fst (dv_calls (polled_state (sample_args ''pause_print'' False None) (Some 4))))"
  using executed_at_most_once [OF polled_reaches, of "sample_args ''pause_print'' False None" "Some 4"]
  by (intro conjI; (code_simp | simp))

lemma finished_rows_final_witness:
  "status_of [] (polled_state (sample_args ''pause_print'' False None) None) = Some LDone
   \<and> find_row lr_action_id [] (lg_actions (dv_ledger (on_ledger (\<lambda>l. snd (record_wait (ledger_env_of sample_engine_env) PyNone PyNone PyNone l))
        (polled_state (sample_args ''pause_print'' False None) None))))
     = find_row lr_action_id [] (lg_actions (dv_ledger (polled_state (sample_args ''pause_print'' False None) None)))"
proof -
  have "status_of [] (polled_state (sample_args ''pause_print'' False None) None) = Some LDone" by code_simp
  then show ?thesis
    using finished_rows_final [OF polled_reaches r_into_rtranclp [of "agent_step sample_engine_env", OF agent_step.waits],
        of "sample_args ''pause_print'' False None" "[]" None PyNone PyNone PyNone] by simp
qed

text \<open>The row that \<open>proposed_state\<close> holds.\<close>

definition sample_row :: "string \<Rightarrow> bool \<Rightarrow> ledger_action" where
  "sample_row name approval = \<lparr>lr_action_id = [], lr_tool = name, lr_params = [], lr_params_hash = ''0a'',
     lr_idempotency_key = name @ '':0a'', lr_device_group = ''prusa_link'', lr_status = LProposed, lr_reason = [],
     lr_observation = [], lr_result = None, lr_error = None, lr_created_ts = 0, lr_created_mono = 0, lr_updated_ts = 0,
     lr_requires_approval = approval, lr_max_proposal_age_ms = 50000, lr_chain_id = None, lr_chain_seq = None\<rparr>"

lemma sample_rows [simp]:
  "lg_actions (dv_ledger (proposed_state (sample_args ''pause_print'' False None))) = [sample_row ''pause_print'' False]"
  "lg_actions (dv_ledger (proposed_state (sample_args ''call_human'' False None))) = [sample_row ''call_human'' False]"
  "lg_actions (dv_ledger (proposed_state (sample_args ''home'' True None))) = [sample_row ''home'' True]"
  by code_simp+

lemma sample_tools [simp]:
  "map_of (xv_tools sample_engine_env) ''pause_print'' = Some (sample_tool ''pause_print'' False False)"
  "map_of (xv_tools sample_engine_env) ''call_human'' = Some (sample_tool ''call_human'' True False)"
  "map_of (xv_tools sample_engine_env) ''home'' = Some (sample_tool ''home'' False True)"
  by (simp_all add: sample_engine_env_def)

lemma sample_calls:
  "dv_calls (snd (process_proposal sample_engine_env (sample_row ''pause_print'' False)
     ((proposed_state (sample_args ''pause_print'' False None))\<lparr>dv_power := Some 3\<rparr>))) = [([], ''pause_print'', [])]"
  "dv_calls (proposed_state (sample_args ''pause_print'' False None)) = []"
  by code_simp+

lemma gates_before_tool_witness:
  "\<not> has_inflight ''prusa_link'' (dv_ledger ((proposed_state (sample_args ''pause_print'' False None))\<lparr>dv_power := Some 3\<rparr>))
   \<and> (\<exists>v. xv_read sample_engine_env 0 ''safety.estop'' = Inr v \<and> \<not> truthy v)"
  using gates_before_tool [of sample_engine_env "sample_row ''pause_print'' False" "sample_tool ''pause_print'' False False"
      "(proposed_state (sample_args ''pause_print'' False None))\<lparr>dv_power := Some 3\<rparr>"]
  by (simp add: sample_calls) (simp add: sample_row_def sample_tool_def device_group_def proposed_state_def initial_engine_def on_ledger_def)


lemma bypass_crash_misreported_witness:
  "\<exists>r. find_row lr_action_id [] (lg_actions (dv_ledger (snd (reconcile sample_engine_env True (restarted (snd
      (process_proposal sample_engine_env (sample_row ''call_human'' False)
        ((proposed_state (sample_args ''call_human'' False None))\<lparr>dv_power := Some 2\<rparr>)))))))) = Some r
    \<and> lr_status r = LFailed \<and> lr_error r = Some never_dispatched"
proof -
  have "lr_action_id (sample_row ''call_human'' False) = []" "lr_tool (sample_row ''call_human'' False) = ''call_human''"
    "lr_status (sample_row ''call_human'' False) = LProposed" "tl_gate_bypass (sample_tool ''call_human'' True False)"
    "diary_lookup (lr_idempotency_key (sample_row ''call_human'' False)) (get_diary (lr_device_group
       (sample_row ''call_human'' False)) (proposed_state (sample_args ''call_human'' False None))) = None"
    by (simp_all add: sample_row_def sample_tool_def proposed_state_def on_ledger_def initial_engine_def get_diary_def diary_lookup_def)
  with bypass_crash_misreported [OF proposed_reaches [OF plain_sample_args(2)], of "sample_row ''call_human'' False"
      "sample_tool ''call_human'' True False"]
  show ?thesis by simp
qed

definition chain_rows :: "ledger_action list" where
  "chain_rows = [(sample_row ''pause_print'' False)\<lparr>lr_status := LUnknown, lr_chain_id := Some ''c'', lr_chain_seq := Some 0\<rparr>,
     (sample_row ''home'' False)\<lparr>lr_action_id := ''u'', lr_chain_id := Some ''c'', lr_chain_seq := Some 1\<rparr>]"

lemma unknown_predecessor_blocks_witness:
  "process_proposal sample_engine_env (chain_rows ! 1) (on_ledger (\<lambda>l. l\<lparr>lg_actions := chain_rows\<rparr>) initial_engine)
   = (Inr ''SKIPPED'', on_ledger (\<lambda>l. l\<lparr>lg_actions := chain_rows\<rparr>) initial_engine)"
  by (rule unknown_predecessor_blocks [of _ _ "sample_tool ''home'' False True" "''c''" 1 _ "[]" "chain_rows ! 0" "[]"])
    (simp_all add: chain_rows_def sample_row_def sample_tool_def chain_predecessors_def on_ledger_def initial_engine_def
      sample_engine_env_def)

text \<open>The proposal of \<open>home\<close> is approved after it was polled once.\<close>

definition approved_state :: engine5 where
  "approved_state = on_ledger (\<lambda>l. snd (record_approval5 (ledger_env_of sample_engine_env) [] ''APPROVE'' ''op'' l))
     (proposed_state (sample_args ''home'' True None))"

lemma approved_too_late_witness:
  "dv_calls (snd (waiting_step sample_engine_env (sample_row ''home'' True) approved_state)) = dv_calls approved_state
   \<and> status_of (lr_action_id (sample_row ''home'' True)) (snd (waiting_step sample_engine_env (sample_row ''home'' True) approved_state))
     = Some LRejected"
proof -
  have reach: "agent_reaches sample_engine_env approved_state"
    using proposed_reaches [OF plain_sample_args(3)] agent_step.decides
    unfolding agent_reaches_def approved_state_def by (rule rtranclp.rtrancl_into_rtrancl)
  have rows: "lg_actions (dv_ledger approved_state) = [sample_row ''home'' True]" by code_simp
  have appr: "map_option lp_decision (get_approval (lr_action_id (sample_row ''home'' True)) (dv_ledger approved_state)) = Some ''APPROVE''"
    by code_simp
  then obtain a where a: "get_approval (lr_action_id (sample_row ''home'' True)) (dv_ledger approved_state) = Some a"
    "lp_decision a = ''APPROVE''" by auto
  have m: "lg_monos (dv_ledger approved_state) = 1" by code_simp
  show ?thesis
    by (rule approved_too_late [OF reach _ _ _ _ _ _ _ _ _ _ a(1) a(2), of "sample_tool ''home'' False True" PyNone])
      (simp_all add: rows m has_inflight_def, simp_all add: sample_row_def sample_tool_def sample_engine_env_def approved_state_def
        on_ledger_def proposed_state_def initial_engine_def)
qed

end
