(* ===== verification/AgentMemory.thy ===== *)
theory AgentMemory
  imports Prelude
begin

text \<open>
  The two text files the agent keeps: \<open>JOB_CONTEXT.md\<close>, which \<open>src/wallee/agent/loop.py\<close> writes, amends and reads
  back, and \<open>OBSERVATIONS.md\<close>, which the tool \<open>remember\<close> (\<open>src/wallee/tools/builtins/remember.py\<close>) keeps.  A
  file is its text, \<open>None\<close> when it does not exist; texts hold no carriage return, which reading would translate.
  The dash beyond Latin-1 in the title of the observations is written as a hyphen.
\<close>

section \<open>Texts\<close>

fun find_sub :: "string \<Rightarrow> string \<Rightarrow> nat option" where
  "find_sub p [] = (if p = [] then Some 0 else None)"
| "find_sub p (c # s) = (if starts_with p (c # s) then Some 0 else map_option Suc (find_sub p s))"

fun replace_from :: "nat \<Rightarrow> string \<Rightarrow> string \<Rightarrow> string \<Rightarrow> string" where
  "replace_from skip old new [] = []"
| "replace_from (Suc skip) old new (c # s) = replace_from skip old new s"
| "replace_from 0 old new (c # s) =
     (if old \<noteq> [] \<and> starts_with old (c # s) then new @ replace_from (length old - 1) old new s
      else c # replace_from 0 old new s)"

definition str_replace :: "string \<Rightarrow> string \<Rightarrow> string \<Rightarrow> string" where
  "str_replace old new s = replace_from 0 old new s"

definition replace_first :: "string \<Rightarrow> string \<Rightarrow> string \<Rightarrow> string" where
  "replace_first old new s = (case find_sub old s of
       None \<Rightarrow> s | Some i \<Rightarrow> take i s @ new @ drop (i + length old) s)"

definition nl :: string where "nl = [CHR 0x0A]"

definition none_yet :: string where "none_yet = ''(none yet)''"

section \<open>The job context\<close>

definition job_context_text :: "pyrt \<Rightarrow> pyval \<Rightarrow> pyval \<Rightarrow> string \<Rightarrow> string \<Rightarrow> string" where
  "job_context_text rt filename material ts extra =
     ''# Current Job'' @ nl @ ''File: '' @ py_str rt filename @ nl @ ''Material: '' @ py_str rt material @ nl
       @ ''Started: '' @ ts @ nl @ nl @ ''## Adjustments made'' @ nl @ none_yet @ nl @ nl
       @ ''## Issues observed'' @ nl @ none_yet @ nl
       @ (if extra \<noteq> [] then nl @ ''## Device context'' @ nl @ extra @ nl else [])"

definition unknown_file :: string where "unknown_file = ''File: unknown''"

definition blank_file :: string where "blank_file = ''File: '' @ nl"

text \<open>What the archive reads from the file.\<close>

record job_summary =
  js_filename :: string
  js_material :: string
  js_adjustments :: "string list"
  js_issues :: "string list"
  js_section :: string

definition job_line :: "string \<Rightarrow> job_summary \<Rightarrow> job_summary" where
  "job_line line j =
     (if starts_with ''File: '' line then j\<lparr>js_filename := str_strip (drop 6 line)\<rparr>
      else if starts_with ''Material: '' line then j\<lparr>js_material := str_strip (drop 10 line)\<rparr>
      else if starts_with ''## Adjustments'' line then j\<lparr>js_section := ''adj''\<rparr>
      else if starts_with ''## Issues'' line then j\<lparr>js_section := ''iss''\<rparr>
      else if starts_with ''- '' line \<and> js_section j = ''adj'' then
        j\<lparr>js_adjustments := js_adjustments j @ [str_strip (drop 2 line)]\<rparr>
      else if starts_with ''- '' line \<and> js_section j = ''iss'' then
        j\<lparr>js_issues := js_issues j @ [str_strip (drop 2 line)]\<rparr>
      else j)"

definition read_job :: "string \<Rightarrow> job_summary" where
  "read_job text = fold job_line (str_lines [] text)
     \<lparr>js_filename = ''unknown'', js_material = ''unknown'', js_adjustments = [], js_issues = [], js_section = []\<rparr>"

definition job_summary_text :: "job_summary \<Rightarrow> string" where
  "job_summary_text j =
     (let adj = (if js_adjustments j \<noteq> [] then str_join ''; '' (js_adjustments j) else ''none'');
          iss = (if js_issues j \<noteq> [] then str_join ''; '' (js_issues j) else ''none'')
      in ''Job complete: '' @ js_filename j @ '' ('' @ js_material j @ ''). Adjustments: '' @ adj @ ''. Issues: '' @ iss @ ''.'')"

text \<open>A new entry in a section of the file: in place of the placeholder, or after the last entry.\<close>

definition insert_entry :: "string \<Rightarrow> string \<Rightarrow> string \<Rightarrow> string" where
  "insert_entry marker new_entry text0 =
     (let text = str_replace (marker @ nl @ none_yet) (marker @ nl @ new_entry) text0 in
      if contains new_entry text then text
      else case find_sub marker text of
        None \<Rightarrow> text
      | Some i \<Rightarrow>
          let after = drop (i + length marker) text;
              insert_at = (case find_sub (nl @ ''## '') after of Some k \<Rightarrow> if k > 0 then k else length after | None \<Rightarrow> length after)
          in take i text @ marker @ str_rstrip (take insert_at after) @ nl @ new_entry @ nl @ drop insert_at after)"

section \<open>The observations\<close>

definition max_entries :: nat where "max_entries = 50"

definition fresh_observations :: string where
  "fresh_observations = ''# Wallee - Observations'' @ nl @ nl @ ''Auto-recorded by the agent'' @ CHR 0x27 # ''s `remember` tool.'' @ nl"

text \<open>The header lines before the first entry, and the entries; other lines after an entry are dropped.\<close>

definition observation_line :: "string \<Rightarrow> string list \<times> string list \<Rightarrow> string list \<times> string list" where
  "observation_line line hs = (case hs of (header_lines, entry_lines) \<Rightarrow>
     if starts_with ''- ['' line then (header_lines, entry_lines @ [line])
     else if entry_lines = [] then (header_lines @ [line], entry_lines)
     else (header_lines, entry_lines))"

definition read_observations :: "string \<Rightarrow> string list \<times> string list" where
  "read_observations text = fold observation_line (str_lines [] text) ([], [])"

definition recent_content :: "string \<Rightarrow> string" where
  "recent_content recent = (case find_sub ''] '' recent of None \<Rightarrow> recent | Some i \<Rightarrow> drop (i + 2) recent)"

definition observation_entry :: "string \<Rightarrow> string \<Rightarrow> string" where
  "observation_entry ts observation = ''- ['' @ ts @ ''] '' @ observation"

definition observations_text :: "string list \<Rightarrow> string list \<Rightarrow> string" where
  "observations_text header_lines entry_lines = str_join nl header_lines @ nl @ str_join nl entry_lines @ nl"

text \<open>The answer of the tool and the file afterwards.\<close>

definition remember :: "string \<Rightarrow> string \<Rightarrow> string option \<Rightarrow> dict \<times> string option" where
  "remember ts observation file =
     (if observation = [] then ([(''error'', PyStr ''observation parameter required'')], file)
      else case read_observations (case file of Some text \<Rightarrow> text | None \<Rightarrow> fresh_observations) of (header_lines, entry_lines) \<Rightarrow>
        if \<exists>recent\<in>set (take 3 entry_lines). take 80 (recent_content recent) = take 80 observation then
          ([(''status'', PyStr ''skipped''), (''reason'', PyStr ''duplicate of recent observation'')], file)
        else let entries = take max_entries (observation_entry ts observation # entry_lines) in
          ([(''status'', PyStr ''success''), (''entries'', PyInt (int (length entries)))],
           Some (observations_text header_lines entries)))"

section \<open>Lines\<close>

definition one_line :: "string \<Rightarrow> bool" where
  "one_line s \<longleftrightarrow> list_all (\<lambda>c. \<not> is_line_break c) s"

lemma one_line_simps [simp]:
  "one_line []" "one_line (c # s) \<longleftrightarrow> \<not> is_line_break c \<and> one_line s" "one_line (s @ t) \<longleftrightarrow> one_line s \<and> one_line t"
  by (simp_all add: one_line_def)

lemma nl_break: "is_line_break CHR 0x0A"
  by (simp add: is_line_break_def)

lemma str_lines_line: "one_line l \<Longrightarrow> str_lines cur (l @ CHR 0x0A # s) = (rev cur @ l) # str_lines [] s"
proof (induction l arbitrary: cur)
  case Nil
  then show ?case by (simp add: nl_break)
next
  case (Cons c l)
  then have "c \<noteq> CHR 0x0D" by (auto simp: is_line_break_def)
  with Cons show ?case by simp
qed

lemma str_lines_lines:
  assumes "\<forall>l\<in>set ls. one_line l" and "ls \<noteq> []"
  shows "str_lines [] (str_join nl ls @ CHR 0x0A # s) = ls @ str_lines [] s"
  using assms
proof (induction ls rule: induct_list012)
  case (2 x)
  then show ?case using str_lines_line [of x "[]" s] by simp
next
  case (3 x y zs)
  have "str_lines [] ((x @ nl @ str_join nl (y # zs)) @ CHR 0x0A # s)
      = str_lines [] (x @ CHR 0x0A # (str_join nl (y # zs) @ CHR 0x0A # s))" by (simp add: nl_def)
  also have "\<dots> = x # str_lines [] (str_join nl (y # zs) @ CHR 0x0A # s)"
    using 3 str_lines_line [of x "[]"] by simp
  also have "\<dots> = x # (y # zs) @ str_lines [] s" using 3 by simp
  finally show ?case by simp
qed simp

section \<open>What is remembered\<close>

lemma observation_lines:
  "fold observation_line ls (hs, es) =
     (if es = [] then hs @ takeWhile (\<lambda>l. \<not> starts_with ''- ['' l) ls else hs, es @ filter (starts_with ''- ['') ls)"
  by (induction ls arbitrary: hs es) (auto simp: observation_line_def)

definition header_ok :: "string list \<Rightarrow> bool" where
  "header_ok hs \<longleftrightarrow> hs \<noteq> [] \<and> (\<forall>l\<in>set hs. one_line l \<and> \<not> starts_with ''- ['' l)"

definition entries_ok :: "string list \<Rightarrow> bool" where
  "entries_ok es \<longleftrightarrow> es \<noteq> [] \<and> (\<forall>l\<in>set es. one_line l \<and> starts_with ''- ['' l)"

lemma read_written:
  assumes h: "header_ok hs" and e: "entries_ok es"
  shows "read_observations (observations_text hs es) = (hs, es)"
proof -
  have "str_lines [] (str_join nl hs @ CHR 0x0A # (str_join nl es @ CHR 0x0A # [])) = hs @ str_lines [] (str_join nl es @ CHR 0x0A # [])"
    by (rule str_lines_lines) (use h in \<open>auto simp: header_ok_def\<close>)
  also have "str_lines [] (str_join nl es @ CHR 0x0A # []) = es @ str_lines [] []"
    by (rule str_lines_lines) (use e in \<open>auto simp: entries_ok_def\<close>)
  finally have lines: "str_lines [] (observations_text hs es) = hs @ es" by (simp add: observations_text_def nl_def)
  have w: "takeWhile (\<lambda>l. \<not> starts_with ''- ['' l) (hs @ es) = hs"
  proof -
    obtain x xs where "es = x # xs" "starts_with ''- ['' x" using e by (cases es) (auto simp: entries_ok_def)
    then show ?thesis using h by (auto simp: header_ok_def takeWhile_append)
  qed
  have f: "filter (starts_with ''- ['') hs = []" "filter (starts_with ''- ['') es = es"
    using h e by (auto simp: header_ok_def entries_ok_def filter_empty_conv filter_id_conv)
  have g: "fold observation_line (hs @ es) ([], []) =
      (takeWhile (\<lambda>l. \<not> starts_with ''- ['' l) (hs @ es), filter (starts_with ''- ['') hs @ filter (starts_with ''- ['') es)"
    by (simp only: observation_lines if_True append_Nil filter_append simp_thms)
  show ?thesis unfolding read_observations_def lines g w f by simp
qed

lemma first_entry:
  assumes "one_line ts" and "CHR '']'' \<notin> set ts"
  shows "recent_content (observation_entry ts ob) = ob"
proof -
  have f: "find_sub ''] '' (ts @ ''] '' @ ob) = Some (length ts)" if "CHR '']'' \<notin> set ts" for ts :: string
    using that by (induction ts) auto
  show ?thesis
    using f [OF assms(2)] by (simp add: recent_content_def observation_entry_def)
qed

fun remember_all :: "(string \<times> string) list \<Rightarrow> string option \<Rightarrow> string option" where
  "remember_all [] file = file"
| "remember_all ((ts, ob) # obs) file = remember_all obs (snd (remember ts ob file))"

definition default_header :: "string list" where
  "default_header = fst (read_observations fresh_observations)"

lemma fresh_read: "read_observations fresh_observations = (default_header, [])" "header_ok default_header"
proof -
  have "snd (read_observations fresh_observations) = []" by code_simp
  then show "read_observations fresh_observations = (default_header, [])" by (simp add: default_header_def prod_eq_iff)
  show "header_ok default_header" by code_simp
qed

definition observations_ok :: "string option \<Rightarrow> bool" where
  "observations_ok file \<longleftrightarrow> file = None \<or>
     (\<exists>es. file = Some (observations_text default_header es) \<and> entries_ok es \<and> length es \<le> max_entries)"

lemma observations_read:
  assumes "observations_ok file"
  obtains es where "read_observations (case file of Some text \<Rightarrow> text | None \<Rightarrow> fresh_observations) = (default_header, es)"
    and "length es \<le> max_entries" and "\<forall>l\<in>set es. one_line l \<and> starts_with ''- ['' l"
    and "file = None \<longrightarrow> es = []"
proof (cases "file = None")
  case True
  then show ?thesis using that [of "[]"] fresh_read(1) by simp
next
  case False
  then obtain es where es: "file = Some (observations_text default_header es)" "entries_ok es" "length es \<le> max_entries"
    using assms unfolding observations_ok_def by blast
  show ?thesis
    by (rule that [of es]) (use es read_written [OF fresh_read(2) es(2)] in \<open>auto simp: entries_ok_def\<close>)
qed

lemma new_entries:
  assumes "\<forall>l\<in>set es. one_line l \<and> starts_with ''- ['' l" and "one_line ts" and "one_line ob"
  shows "entries_ok (take max_entries (observation_entry ts ob # es))"
  using assms by (auto simp: entries_ok_def max_entries_def observation_entry_def is_line_break_def dest: in_set_takeD)

lemma remember_keeps:
  assumes "observations_ok file" and "one_line ts" and "one_line ob"
  shows "observations_ok (snd (remember ts ob file))"
proof -
  obtain es where es: "read_observations (case file of Some text \<Rightarrow> text | None \<Rightarrow> fresh_observations) = (default_header, es)"
    "\<forall>l\<in>set es. one_line l \<and> starts_with ''- ['' l" using observations_read [OF assms(1)] by metis
  then show ?thesis using new_entries [OF es(2) assms(2,3)]
    assms(1) by (auto simp: remember_def es(1) Let_def observations_ok_def)
qed

lemma remember_all_keeps:
  assumes "observations_ok file" and "\<forall>(ts, ob)\<in>set obs. one_line ts \<and> one_line ob"
  shows "observations_ok (remember_all obs file)"
  using assms
proof (induction obs arbitrary: "file")
  case (Cons p obs)
  then show ?case by (cases p) (simp add: remember_keeps)
qed simp

lemma remember_all_append: "remember_all (obs @ obs') file = remember_all obs' (remember_all obs file)"
  by (induction obs arbitrary: "file") auto

text \<open>
  Whatever one-line observations the agent remembers, the file reads back as its heading and at most fifty
  entries, and the latest observation is among the three newest, up to eighty characters.
\<close>

theorem remember_capped:
  assumes "\<forall>(ts, ob)\<in>set obs. one_line ts \<and> one_line ob"
    and "one_line ts" and "CHR '']'' \<notin> set ts" and "one_line ob" and "ob \<noteq> []"
  shows "\<exists>text es. remember_all (obs @ [(ts, ob)]) None = Some text \<and> read_observations text = (default_header, es)
    \<and> length es \<le> 50 \<and> (\<exists>e\<in>set (take 3 es). take 80 (recent_content e) = take 80 ob)"
proof -
  define f0 where "f0 = remember_all obs None"
  have ok: "observations_ok f0"
    unfolding f0_def by (rule remember_all_keeps [OF _ assms(1)]) (simp add: observations_ok_def)
  obtain es where es: "read_observations (case f0 of Some text \<Rightarrow> text | None \<Rightarrow> fresh_observations) = (default_header, es)"
    "length es \<le> max_entries" "\<forall>l\<in>set es. one_line l \<and> starts_with ''- ['' l" "f0 = None \<longrightarrow> es = []"
    by (rule observations_read [OF ok])
  have run: "remember_all (obs @ [(ts, ob)]) None = snd (remember ts ob f0)"
    by (simp add: remember_all_append f0_def)
  show ?thesis
  proof (cases "\<exists>recent\<in>set (take 3 es). take 80 (recent_content recent) = take 80 ob")
    case True
    then obtain content where f: "f0 = Some content" using es(4) by (cases f0) auto
    have rd: "read_observations content = (default_header, es)" using es(1) f by simp
    moreover have "snd (remember ts ob f0) = Some content" using True assms(5) f by (simp add: remember_def rd)
    moreover have "length es \<le> 50" using es(2) by (simp add: max_entries_def)
    ultimately show ?thesis using True f unfolding run
      by (intro exI [of _ content] exI [of _ es] conjI) assumption+
  next
    case False
    define new where "new = take max_entries (observation_entry ts ob # es)"
    have r: "snd (remember ts ob f0) = Some (observations_text default_header new)"
      unfolding remember_def es(1) prod.case new_def Let_def using False assms(5) by (simp del: take_Suc_Cons)
    have new': "entries_ok new" unfolding new_def by (rule new_entries) (use es assms in auto)
    have h: "hd new = observation_entry ts ob" "new \<noteq> []" by (auto simp: new_def max_entries_def)
    have "recent_content (hd new) = ob" using first_entry [OF assms(2,3)] h(1) by simp
    moreover have "hd new \<in> set (take 3 new)" using h(2) by (cases new) auto
    ultimately have "\<exists>e\<in>set (take 3 new). take 80 (recent_content e) = take 80 ob" by metis
    moreover have "length new \<le> 50" by (simp add: new_def max_entries_def)
    ultimately show ?thesis using read_written [OF fresh_read(2) new'] r unfolding run
      by (intro exI [of _ "observations_text default_header new"] exI [of _ new] conjI) assumption+
  qed
qed

lemma remember_capped_witness:
  "\<exists>text es. remember_all ([(''12:00'', ''the bed was cold'')] @ [(''12:05'', ''the first layer lifted'')]) None = Some text
    \<and> read_observations text = (default_header, es) \<and> length es \<le> 50
    \<and> (\<exists>e\<in>set (take 3 es). take 80 (recent_content e) = take 80 ''the first layer lifted'')"
  by (rule remember_capped) (simp_all add: is_line_break_def)

section \<open>The job file as a record\<close>

definition section_text :: "string list \<Rightarrow> string" where
  "section_text xs = (if xs = [] then none_yet else str_join nl (map ((@) ''- '') xs))"

definition hash_free :: "string \<Rightarrow> bool" where
  "hash_free s \<longleftrightarrow> CHR ''#'' \<notin> set s"

lemma hash_free_simps [simp]:
  "hash_free []" "hash_free (c # s) \<longleftrightarrow> c \<noteq> CHR ''#'' \<and> hash_free s" "hash_free (s @ t) \<longleftrightarrow> hash_free s \<and> hash_free t"
  by (auto simp: hash_free_def)

lemma find_hash:
  assumes "hash_free a"
  shows "find_sub (CHR ''#'' # p) (a @ CHR ''#'' # s) =
    (if starts_with p s then Some (length a)
     else case find_sub (CHR ''#'' # p) s of None \<Rightarrow> None | Some i \<Rightarrow> Some (length a + 1 + i))"
  using assms by (induction a) (auto split: option.splits)

lemma replace_hash:
  assumes "hash_free a"
  shows "replace_from 0 (CHR ''#'' # p) new (a @ CHR ''#'' # s) =
    a @ (if starts_with p s then new @ replace_from (length p) (CHR ''#'' # p) new s
         else CHR ''#'' # replace_from 0 (CHR ''#'' # p) new s)"
  using assms by (induction a) auto

lemma replace_none: "hash_free a \<Longrightarrow> replace_from 0 (CHR ''#'' # p) new a = a"
  by (induction a) auto

lemma replace_skip: "replace_from (length p) old new (p @ s) = replace_from 0 old new s"
  by (induction p) auto

lemma find_next_section:
  assumes "hash_free a"
  shows "find_sub (CHR 0x0A # CHR ''#'' # p) (a @ CHR 0x0A # CHR ''#'' # p @ s) = Some (length a)"
    and "find_sub (CHR 0x0A # CHR ''#'' # p) a = None"
proof -
  show "find_sub (CHR 0x0A # CHR ''#'' # p) a = None"
    using assms
  proof (induction a)
    case (Cons c a)
    then show ?case by (cases a) auto
  qed simp
  show "find_sub (CHR 0x0A # CHR ''#'' # p) (a @ CHR 0x0A # CHR ''#'' # p @ s) = Some (length a)"
    using assms
  proof (induction a)
    case (Cons c a)
    then show ?case by (cases a) auto
  qed simp
qed

lemma rstrip_line: "a \<noteq> [] \<Longrightarrow> \<not> is_space (List.last a) \<Longrightarrow> str_rstrip (a @ nl) = a"
  by (cases a rule: rev_cases) (simp_all add: str_rstrip_def nl_def is_space_def)

text \<open>An entry the agent writes: on one line, no \<open>#\<close>, nothing to strip.\<close>

definition entry_ok :: "string \<Rightarrow> bool" where
  "entry_ok x \<longleftrightarrow> one_line x \<and> hash_free x \<and> x \<noteq> [] \<and> \<not> is_space (hd x) \<and> \<not> is_space (List.last x)"

lemma join_ends:
  "ys \<noteq> [] \<Longrightarrow> \<forall>y\<in>set ys. y \<noteq> [] \<Longrightarrow> str_join nl ys \<noteq> [] \<and> List.last (str_join nl ys) = List.last (List.last ys)"
  by (induction ys rule: induct_list012) auto

lemma join_snoc: "ys \<noteq> [] \<Longrightarrow> str_join nl (ys @ [y]) = str_join nl ys @ nl @ y"
  by (induction ys rule: induct_list012) auto

lemma join_hash_free: "\<forall>y\<in>set ys. hash_free y \<Longrightarrow> hash_free (str_join nl ys)"
  by (induction ys rule: induct_list012) (auto simp: nl_def)

lemma section_shape:
  assumes "list_all entry_ok xs"
  shows "hash_free (section_text xs)" and "section_text xs \<noteq> []" and "\<not> is_space (List.last (section_text xs))"
    and "xs \<noteq> [] \<Longrightarrow> \<exists>t. section_text xs = ''- '' @ t"
    and "xs \<noteq> [] \<Longrightarrow> section_text (xs @ [x]) = section_text xs @ nl @ ''- '' @ x"
proof -
  have items: "\<forall>y\<in>set (map ((@) ''- '') xs). hash_free y \<and> y \<noteq> [] \<and> \<not> is_space (List.last y)"
    using assms by (auto simp: list_all_iff entry_ok_def)
  show "hash_free (section_text xs)"
    using items join_hash_free [of "map ((@) ''- '') xs"] by (simp add: section_text_def none_yet_def)
  show "xs \<noteq> [] \<Longrightarrow> \<exists>t. section_text xs = ''- '' @ t"
    by (cases xs; cases "tl xs") (auto simp: section_text_def)
  then show n: "section_text xs \<noteq> []" by (cases "xs = []") (auto simp: section_text_def none_yet_def)
  show "\<not> is_space (List.last (section_text xs))"
  proof (cases "xs = []")
    case False
    then have "List.last (map ((@) ''- '') xs) \<in> set (map ((@) ''- '') xs)" by (intro last_in_set) simp
    then show ?thesis using items False join_ends [of "map ((@) ''- '') xs"] unfolding section_text_def by auto
  qed (simp add: section_text_def none_yet_def is_space_def)
  show "xs \<noteq> [] \<Longrightarrow> section_text (xs @ [x]) = section_text xs @ nl @ ''- '' @ x"
    using join_snoc [of "map ((@) ''- '') xs" "''- '' @ x"] unfolding section_text_def by auto
qed

lemma starts_with_same: "starts_with (a @ b) (a @ c) \<longleftrightarrow> starts_with b c"
  by (induction a) auto

lemma replace_pass: "hash_free a \<Longrightarrow> replace_from 0 (CHR ''#'' # p) new (a @ s) = a @ replace_from 0 (CHR ''#'' # p) new s"
  by (induction a) auto

definition section_marker :: "string \<Rightarrow> string" where
  "section_marker title = ''## '' @ title"

definition add_entry :: "string \<Rightarrow> string \<Rightarrow> string list \<Rightarrow> string list" where
  "add_entry text x xs = (if xs \<noteq> [] \<and> contains (''- '' @ x) text then xs else xs @ [x])"

lemma placeholder_replaced:
  assumes "\<And>new. replace_from 0 (section_marker title @ nl @ none_yet) new post = post"
  shows "str_replace (section_marker title @ nl @ none_yet) new (section_marker title @ nl @ none_yet @ nl @ post) = new @ nl @ post"
proof -
  define p where "p = ''# '' @ title @ nl @ none_yet"
  have m: "section_marker title @ nl @ none_yet = CHR ''#'' # p" by (simp add: section_marker_def p_def)
  then have m': "section_marker title @ nl @ none_yet @ nl @ post = CHR ''#'' # p @ nl @ post"
    by (metis append.assoc append_Cons)
  have "replace_from 0 (CHR ''#'' # p) new (CHR ''#'' # p @ nl @ post)
      = new @ replace_from (length p) (CHR ''#'' # p) new (p @ nl @ post)"
    using replace_hash [of "[]" p new "p @ nl @ post"] by (simp del: replace_from.simps)
  also have "\<dots> = new @ replace_from 0 (CHR ''#'' # p) new (nl @ post)" by (simp only: replace_skip)
  also have "\<dots> = new @ nl @ replace_from 0 (CHR ''#'' # p) new post"
    using replace_pass [of nl p new post] by (simp add: nl_def del: replace_from.simps)
  also have "\<dots> = new @ nl @ post" using assms [of new] by (simp only: m)
  finally show ?thesis by (simp only: str_replace_def m m')
qed

lemma no_placeholder:
  assumes "hash_free title" and "hash_free t" and "\<And>new. replace_from 0 (section_marker title @ nl @ none_yet) new post = post"
  shows "str_replace (section_marker title @ nl @ none_yet) new (section_marker title @ nl @ ''- '' @ t @ nl @ post)
    = section_marker title @ nl @ ''- '' @ t @ nl @ post"
proof -
  define p where "p = ''# '' @ title @ nl @ none_yet"
  have m: "section_marker title @ nl @ none_yet = CHR ''#'' # p" by (simp add: section_marker_def p_def)
  define a where "a = CHR '' '' # title @ nl @ ''- '' @ t @ nl"
  have a: "hash_free a" using assms by (simp add: a_def nl_def)
  have n1: "\<not> starts_with p (CHR ''#'' # a @ post)"
  proof -
    have "starts_with p (CHR ''#'' # a @ post) \<longleftrightarrow>
        starts_with ((''# '' @ title @ nl) @ none_yet) ((''# '' @ title @ nl) @ (''- '' @ t @ nl @ post))"
      by (simp add: p_def a_def)
    also have "\<dots> \<longleftrightarrow> starts_with none_yet (''- '' @ t @ nl @ post)" by (rule starts_with_same)
    finally show ?thesis by (simp add: none_yet_def)
  qed
  have n2: "\<not> starts_with p (a @ post)" by (simp add: p_def a_def)
  have "replace_from 0 (CHR ''#'' # p) new (CHR ''#'' # CHR ''#'' # a @ post) = CHR ''#'' # CHR ''#'' # a @ post"
    using n1 n2 replace_hash [of "[]" p new "CHR ''#'' # a @ post"] replace_hash [of "[]" p new "a @ post"]
      replace_pass [OF a] assms(3) [of new] m by simp
  moreover have "section_marker title @ nl @ ''- '' @ t @ nl @ post = CHR ''#'' # CHR ''#'' # a @ post"
    by (simp add: section_marker_def a_def)
  ultimately show ?thesis unfolding str_replace_def m by metis
qed

text \<open>How an entry enters a section: \<open>front\<close> is the text before its title, \<open>post\<close> what follows it.\<close>

lemma insert_section:
  assumes title: "hash_free title" and xs: "list_all entry_ok xs"
    and find: "\<And>w. find_sub (section_marker title) (front @ section_marker title @ w) = Some (length front)"
    and before: "\<And>new w. str_replace (section_marker title @ nl @ none_yet) new (front @ section_marker title @ w)
      = front @ str_replace (section_marker title @ nl @ none_yet) new (section_marker title @ w)"
    and after: "\<And>new. replace_from 0 (section_marker title @ nl @ none_yet) new post = post"
    and post: "post = [] \<or> (\<exists>r. post = nl @ ''## '' @ r)"
    and whole: "content = front @ section_marker title @ nl @ section_text xs @ nl @ post"
  shows "insert_entry (section_marker title) (''- '' @ x) content
    = front @ section_marker title @ nl @ section_text (add_entry content x xs) @ nl @ post"
proof (cases "xs = []")
  case True
  define new where "new = section_marker title @ nl @ ''- '' @ x"
  have r: "str_replace (section_marker title @ nl @ none_yet) new content = front @ new @ nl @ post"
    using before [of new "nl @ none_yet @ nl @ post"] placeholder_replaced [OF after, of new] True
    by (simp add: whole section_text_def)
  have "front @ new @ nl @ post = (front @ section_marker title @ nl) @ (''- '' @ x) @ (nl @ post)" by (simp add: new_def)
  then have c: "contains (''- '' @ x) (front @ new @ nl @ post)" unfolding contains_iff by blast
  have "insert_entry (section_marker title) (''- '' @ x) content = front @ new @ nl @ post"
    unfolding insert_entry_def Let_def new_def [symmetric] r using c by (simp only: if_True)
  then show ?thesis using True by (simp add: new_def add_entry_def section_text_def)
next
  case False
  then obtain t where t: "section_text xs = ''- '' @ t" using section_shape(4) [OF xs] by blast
  have ht: "hash_free t" using section_shape(1) [OF xs] by (simp add: t)
  have r: "str_replace (section_marker title @ nl @ none_yet) new content = content" for new
    using before [of new "nl @ ''- '' @ t @ nl @ post"] no_placeholder [OF title ht after, of new] by (simp add: whole t)
  define body where "body = nl @ section_text xs @ nl"
  have hb: "hash_free body" using section_shape(1) [OF xs] by (simp add: body_def nl_def)
  have at: "(case find_sub (nl @ ''## '') (body @ post) of Some k \<Rightarrow> if k > 0 then k else length (body @ post) | None \<Rightarrow> length (body @ post))
      = length body"
  proof -
    have pattern: "nl @ ''## '' = CHR 0x0A # CHR ''#'' # ''# ''" by (simp add: nl_def)
    have pos: "length body > 0" by (simp add: body_def nl_def)
    from post show ?thesis
    proof
      assume "post = []"
      then show ?thesis using find_next_section(2) [OF hb, of "''# ''"] by (simp only: pattern append_Nil2 option.case)
    next
      assume "\<exists>r. post = nl @ ''## '' @ r"
      then obtain r where "post = CHR 0x0A # CHR ''#'' # ''# '' @ r" by (auto simp: nl_def)
      then have "find_sub (nl @ ''## '') (body @ post) = Some (length body)"
        using find_next_section(1) [OF hb, of "''# ''" r] by (simp only: pattern)
      then show ?thesis using pos by simp
    qed
  qed
  have strip: "str_rstrip body = nl @ section_text xs"
    using rstrip_line [of "nl @ section_text xs"] section_shape(2,3) [OF xs] by (simp add: body_def nl_def)
  have f: "find_sub (section_marker title) content = Some (length front)" using find by (simp add: whole)
  have tail: "drop (length front + length (section_marker title)) content = body @ post" by (simp add: whole body_def)
  show ?thesis
  proof (cases "contains (''- '' @ x) content")
    case True
    then have "insert_entry (section_marker title) (''- '' @ x) content = content"
      unfolding insert_entry_def Let_def r by (simp only: if_True)
    then show ?thesis using True False by (simp add: add_entry_def) (simp add: whole)
  next
    case nc: False
    have "insert_entry (section_marker title) (''- '' @ x) content
        = take (length front) content @ section_marker title @ str_rstrip body @ nl @ (''- '' @ x) @ nl @ post"
      unfolding insert_entry_def r Let_def f option.case tail at using nc by simp
    also have "\<dots> = front @ section_marker title @ nl @ section_text (xs @ [x]) @ nl @ post"
      using section_shape(5) [OF xs False, of x] by (simp add: strip whole)
    finally show ?thesis using nc by (simp add: add_entry_def)
  qed
qed

text \<open>The file of a job: its record, the time it was started at and the lines of the device packs.\<close>

definition adjustments_title :: string where "adjustments_title = ''Adjustments made''"

definition issues_title :: string where "issues_title = ''Issues observed''"

definition job_front :: "string \<Rightarrow> job_summary \<Rightarrow> string" where
  "job_front ts j = ''# Current Job'' @ nl @ ''File: '' @ js_filename j @ nl @ ''Material: '' @ js_material j @ nl
     @ ''Started: '' @ ts @ nl @ nl"

definition device_part :: "string list \<Rightarrow> string" where
  "device_part ls = (if ls = [] then [] else nl @ ''## Device context'' @ nl @ str_join nl ls @ nl)"

definition issues_part :: "job_summary \<Rightarrow> string list \<Rightarrow> string" where
  "issues_part j ls = section_marker issues_title @ nl @ section_text (js_issues j) @ nl @ device_part ls"

definition job_file :: "string \<Rightarrow> job_summary \<Rightarrow> string list \<Rightarrow> string" where
  "job_file ts j ls = job_front ts j @ section_marker adjustments_title @ nl @ section_text (js_adjustments j) @ nl @ nl @ issues_part j ls"

text \<open>A device line may repeat the material: the archive then reads the same again.\<close>

definition quiet_line :: "string \<Rightarrow> string \<Rightarrow> bool" where
  "quiet_line material l \<longleftrightarrow> one_line l \<and> hash_free l \<and> l \<noteq> [] \<and> \<not> starts_with ''File: '' l \<and> \<not> starts_with ''- '' l
     \<and> (starts_with ''Material: '' l \<longrightarrow> str_strip (drop 10 l) = material)"

definition job_ok :: "string \<Rightarrow> job_summary \<Rightarrow> string list \<Rightarrow> bool" where
  "job_ok ts j ls \<longleftrightarrow> one_line ts \<and> hash_free ts
     \<and> one_line (js_filename j) \<and> hash_free (js_filename j) \<and> str_strip (js_filename j) = js_filename j
     \<and> one_line (js_material j) \<and> hash_free (js_material j) \<and> str_strip (js_material j) = js_material j
     \<and> list_all entry_ok (js_adjustments j) \<and> list_all entry_ok (js_issues j) \<and> list_all (quiet_line (js_material j)) ls"

lemma front_shape:
  assumes "job_ok ts j ls"
  obtains h where "job_front ts j = CHR ''#'' # CHR '' '' # h" and "hash_free h"
proof -
  show thesis
    by (rule that [of "tl (tl (job_front ts j))"]) (use assms in \<open>simp_all add: job_front_def job_ok_def nl_def\<close>)
qed

lemma device_shape:
  assumes "list_all (quiet_line m) ls"
  shows "device_part ls = [] \<or> (\<exists>a. device_part ls = nl @ ''## Device'' @ a \<and> hash_free a)"
  using assms join_hash_free [of ls] by (auto simp: device_part_def list_all_iff quiet_line_def nl_def)

text \<open>A text in which no occurrence of \<open>p\<close> starts, whatever follows it.\<close>

fun skips :: "string \<Rightarrow> string \<Rightarrow> bool" where
  "skips p [] = True"
| "skips p (c # a) \<longleftrightarrow> (\<forall>s. \<not> starts_with p (c # a @ s)) \<and> skips p a"

lemma skips_append: "skips p a \<Longrightarrow> skips p b \<Longrightarrow> skips p (a @ b)"
  by (induction a) auto

lemma skips_hash_free: "hash_free a \<Longrightarrow> skips (CHR ''#'' # p) a"
  by (induction a) auto

lemma find_skips: "skips p a \<Longrightarrow> p \<noteq> [] \<Longrightarrow> find_sub p (a @ s) = map_option ((+) (length a)) (find_sub p s)"
  by (induction a) (cases "find_sub p s"; auto)+

lemma replace_skips: "skips p a \<Longrightarrow> replace_from 0 p new (a @ s) = a @ replace_from 0 p new s"
  by (induction a) auto

lemma skips_title:
  assumes "hash_free t'" and "\<And>w. \<not> starts_with (title @ q) (t' @ w)"
  shows "skips (section_marker title @ q) (section_marker t')"
  using assms skips_hash_free [of "CHR '' '' # t'" "''# '' @ title @ q"] by (simp add: section_marker_def)

lemma skips_heading: "hash_free h \<Longrightarrow> skips (section_marker title @ q) (CHR ''#'' # CHR '' '' # h)"
  using skips_hash_free [of "CHR '' '' # h" "''# '' @ title @ q"] by (simp add: section_marker_def)

lemma skips_plain: "hash_free a \<Longrightarrow> skips (section_marker title @ q) a"
  using skips_hash_free [of a "''# '' @ title @ q"] by (simp add: section_marker_def)

lemma insert_behind:
  assumes "hash_free title" and "list_all entry_ok xs"
    and "skips (section_marker title) front" and "skips (section_marker title @ nl @ none_yet) front"
    and "skips (section_marker title @ nl @ none_yet) post" and "post = [] \<or> (\<exists>r. post = nl @ ''## '' @ r)"
    and "content = front @ section_marker title @ nl @ section_text xs @ nl @ post"
  shows "insert_entry (section_marker title) (''- '' @ x) content
    = front @ section_marker title @ nl @ section_text (add_entry content x xs) @ nl @ post"
proof (rule insert_section [OF assms(1,2) _ _ _ assms(6,7)])
  have f: "find_sub (section_marker title) (section_marker title @ w) = Some 0" for w
    using starts_with_append [of "section_marker title" w] by (cases "section_marker title") (auto simp: section_marker_def)
  show "find_sub (section_marker title) (front @ section_marker title @ w) = Some (length front)" for w
    using find_skips [OF assms(3), of "section_marker title @ w"] f by (simp add: section_marker_def)
  show "str_replace (section_marker title @ nl @ none_yet) new (front @ section_marker title @ w)
      = front @ str_replace (section_marker title @ nl @ none_yet) new (section_marker title @ w)" for new w
    unfolding str_replace_def by (rule replace_skips [OF assms(4)])
  show "replace_from 0 (section_marker title @ nl @ none_yet) new post = post" for new
    using replace_skips [OF assms(5), of new "[]"] by simp
qed

lemma skips_device:
  assumes "list_all (quiet_line m) ls" and "title = adjustments_title \<or> title = issues_title"
  shows "skips (section_marker title @ q) (device_part ls)"
proof -
  have d: "skips (section_marker title @ q) (section_marker (''Device'' @ a))" if "hash_free a" for a
    using that assms(2) by (intro skips_title) (auto simp: adjustments_title_def issues_title_def)
  from device_shape [OF assms(1)] show ?thesis
  proof
    assume "\<exists>a. device_part ls = nl @ ''## Device'' @ a \<and> hash_free a"
    then obtain a where "device_part ls = nl @ section_marker (''Device'' @ a)" "hash_free a"
      by (auto simp: section_marker_def)
    then show ?thesis using skips_append [OF skips_plain [of nl title q] d [of a]] by (simp add: nl_def)
  qed simp
qed

lemma insert_adjustment:
  assumes ok: "job_ok ts j ls" and content: "content = job_file ts j ls"
  shows "insert_entry (section_marker adjustments_title) (''- '' @ x) content
    = job_file ts (j\<lparr>js_adjustments := add_entry content x (js_adjustments j)\<rparr>) ls"
proof -
  obtain h where h: "job_front ts j = CHR ''#'' # CHR '' '' # h" "hash_free h" using front_shape [OF ok] by metis
  have t: "skips (section_marker adjustments_title @ q) (section_marker issues_title)" for q
    by (rule skips_title) (simp_all add: adjustments_title_def issues_title_def)
  have i: "skips (section_marker adjustments_title @ q) (issues_part j ls)" for q
    unfolding issues_part_def using ok section_shape(1) [of "js_issues j"]
    by (intro skips_append t skips_plain skips_device [of "js_material j"]) (auto simp: nl_def job_ok_def)
  have "insert_entry (section_marker adjustments_title) (''- '' @ x) content
      = job_front ts j @ section_marker adjustments_title @ nl @ section_text (add_entry content x (js_adjustments j))
        @ nl @ (nl @ issues_part j ls)"
  proof (rule insert_behind)
    show "skips (section_marker adjustments_title) (job_front ts j)"
      using skips_heading [OF h(2), of adjustments_title "[]"] by (simp add: h(1))
    show "skips (section_marker adjustments_title @ nl @ none_yet) (job_front ts j)"
      unfolding h(1) by (rule skips_heading [OF h(2)])
    show "skips (section_marker adjustments_title @ nl @ none_yet) (nl @ issues_part j ls)"
      by (intro skips_append i skips_plain) (simp add: nl_def)
  qed (use ok in \<open>auto simp: content job_file_def job_ok_def issues_part_def section_marker_def adjustments_title_def\<close>)
  then show ?thesis by (simp add: job_file_def job_front_def issues_part_def)
qed

lemma insert_issue:
  assumes ok: "job_ok ts j ls" and content: "content = job_file ts j ls"
  shows "insert_entry (section_marker issues_title) (''- '' @ x) content
    = job_file ts (j\<lparr>js_issues := add_entry content x (js_issues j)\<rparr>) ls"
proof -
  obtain h where h: "job_front ts j = CHR ''#'' # CHR '' '' # h" "hash_free h" using front_shape [OF ok] by metis
  define front where "front = job_front ts j @ section_marker adjustments_title @ nl @ section_text (js_adjustments j) @ nl @ nl"
  have t: "skips (section_marker issues_title @ q) (section_marker adjustments_title)" for q
    by (rule skips_title) (simp_all add: adjustments_title_def issues_title_def)
  have f: "skips (section_marker issues_title @ q) front" for q
    unfolding front_def h(1) using ok section_shape(1) [of "js_adjustments j"]
    by (intro skips_append t skips_plain skips_heading h(2)) (auto simp: nl_def job_ok_def)
  have "insert_entry (section_marker issues_title) (''- '' @ x) content
      = front @ section_marker issues_title @ nl @ section_text (add_entry content x (js_issues j)) @ nl @ device_part ls"
  proof (rule insert_behind)
    show "skips (section_marker issues_title) front" using f [of "[]"] by simp
    show "skips (section_marker issues_title @ nl @ none_yet) (device_part ls)"
      by (rule skips_device [of "js_material j"]) (use ok in \<open>simp_all add: job_ok_def\<close>)
  qed (use ok f in \<open>auto simp: front_def content job_file_def job_ok_def issues_part_def device_part_def issues_title_def\<close>)
  then show ?thesis by (simp add: job_file_def job_front_def issues_part_def front_def)
qed

text \<open>The lines of the file, and what the archive makes of them.\<close>

definition section_lines :: "string list \<Rightarrow> string list" where
  "section_lines xs = (if xs = [] then [none_yet] else map ((@) ''- '') xs)"

definition job_lines :: "string \<Rightarrow> job_summary \<Rightarrow> string list \<Rightarrow> string list" where
  "job_lines ts j ls = [''# Current Job'', ''File: '' @ js_filename j, ''Material: '' @ js_material j, ''Started: '' @ ts, [],
     ''## Adjustments made''] @ section_lines (js_adjustments j) @ [[], ''## Issues observed''] @ section_lines (js_issues j)
     @ (if ls = [] then [] else [[], ''## Device context''] @ ls)"

lemma join_append: "xs \<noteq> [] \<Longrightarrow> ys \<noteq> [] \<Longrightarrow> str_join nl (xs @ ys) = str_join nl xs @ nl @ str_join nl ys"
proof (induction xs rule: induct_list012)
  case (2 x)
  then show ?case by (cases ys) auto
qed auto

lemma section_lines: "section_text xs = str_join nl (section_lines xs)" "section_lines xs \<noteq> []"
  by (simp_all add: section_text_def section_lines_def)

lemma join_Cons: "ys \<noteq> [] \<Longrightarrow> str_join nl (x # ys) = x @ nl @ str_join nl ys"
  by (cases ys) auto

lemma job_file_lines: "job_file ts j ls = str_join nl (job_lines ts j ls) @ nl"
  by (simp add: job_file_def job_front_def issues_part_def device_part_def job_lines_def section_lines join_append join_Cons
      section_marker_def adjustments_title_def issues_title_def)

lemma strip_ok: "x \<noteq> [] \<Longrightarrow> \<not> is_space (hd x) \<Longrightarrow> \<not> is_space (List.last x) \<Longrightarrow> str_strip x = x"
proof -
  have d: "y \<noteq> [] \<Longrightarrow> \<not> is_space (hd y) \<Longrightarrow> dropWhile is_space y = y" for y by (cases y) auto
  assume "x \<noteq> []" "\<not> is_space (hd x)" "\<not> is_space (List.last x)"
  then show "str_strip x = x" using d [of x] d [of "rev x"] by (simp add: str_strip_def str_lstrip_def str_rstrip_def hd_rev)
qed

lemma job_line_simps:
  "job_line (''File: '' @ f) j = j\<lparr>js_filename := str_strip f\<rparr>"
  "job_line (''Material: '' @ m) j = j\<lparr>js_material := str_strip m\<rparr>"
  "job_line ''## Adjustments made'' j = j\<lparr>js_section := ''adj''\<rparr>"
  "job_line ''## Issues observed'' j = j\<lparr>js_section := ''iss''\<rparr>"
  "job_line ''# Current Job'' j = j" "job_line (''Started: '' @ s) j = j" "job_line [] j = j" "job_line none_yet j = j"
  "job_line ''## Device context'' j = j"
  by (simp_all add: job_line_def none_yet_def)

lemma job_line_entry:
  assumes "entry_ok x"
  shows "js_section j = ''adj'' \<Longrightarrow> job_line (''- '' @ x) j = j\<lparr>js_adjustments := js_adjustments j @ [x]\<rparr>"
    and "js_section j = ''iss'' \<Longrightarrow> job_line (''- '' @ x) j = j\<lparr>js_issues := js_issues j @ [x]\<rparr>"
  using assms strip_ok [of x] by (simp_all add: job_line_def entry_ok_def)

lemma fold_adjustments:
  "list_all entry_ok xs \<Longrightarrow> js_section j = ''adj'' \<Longrightarrow>
    fold job_line (section_lines xs) j = j\<lparr>js_adjustments := js_adjustments j @ xs\<rparr>"
proof -
  have "list_all entry_ok xs \<Longrightarrow> js_section j = ''adj'' \<Longrightarrow>
      fold job_line (map ((@) ''- '') xs) j = j\<lparr>js_adjustments := js_adjustments j @ xs\<rparr>" for xs
  proof (induction xs arbitrary: j)
    case (Cons x xs)
    have "fold job_line (map ((@) ''- '') (x # xs)) j = fold job_line (map ((@) ''- '') xs) (job_line (''- '' @ x) j)" by simp
    also have "\<dots> = fold job_line (map ((@) ''- '') xs) (j\<lparr>js_adjustments := js_adjustments j @ [x]\<rparr>)"
      using Cons.prems by (subst job_line_entry(1)) simp_all
    also have "\<dots> = j\<lparr>js_adjustments := js_adjustments j @ [x]\<rparr>\<lparr>js_adjustments := (js_adjustments j @ [x]) @ xs\<rparr>"
      by (subst Cons.IH) (use Cons.prems in simp_all)
    also have "\<dots> = j\<lparr>js_adjustments := js_adjustments j @ x # xs\<rparr>" by simp
    finally show ?case .
  qed simp
  then show "list_all entry_ok xs \<Longrightarrow> js_section j = ''adj'' \<Longrightarrow>
      fold job_line (section_lines xs) j = j\<lparr>js_adjustments := js_adjustments j @ xs\<rparr>"
    by (simp add: section_lines_def job_line_simps)
qed

lemma fold_quiet:
  "list_all (quiet_line (js_material j)) ls \<Longrightarrow> fold job_line ls j = j"
proof (induction ls)
  case (Cons l ls)
  have q: "quiet_line (js_material j) l" using Cons.prems by simp
  have h: "\<not> starts_with (CHR ''#'' # p) l" for p using q by (cases l) (auto simp: quiet_line_def)
  have "job_line l j = j"
  proof (cases "starts_with ''Material: '' l")
    case True
    then show ?thesis using q unfolding job_line_def quiet_line_def by simp
  next
    case False
    then show ?thesis using q h unfolding job_line_def quiet_line_def by simp
  qed
  then show ?case using Cons by simp
qed simp

lemma fold_issues:
  "list_all entry_ok xs \<Longrightarrow> js_section j = ''iss'' \<Longrightarrow>
    fold job_line (section_lines xs) j = j\<lparr>js_issues := js_issues j @ xs\<rparr>"
proof -
  have "list_all entry_ok xs \<Longrightarrow> js_section j = ''iss'' \<Longrightarrow>
      fold job_line (map ((@) ''- '') xs) j = j\<lparr>js_issues := js_issues j @ xs\<rparr>" for xs
  proof (induction xs arbitrary: j)
    case (Cons x xs)
    have "fold job_line (map ((@) ''- '') (x # xs)) j = fold job_line (map ((@) ''- '') xs) (job_line (''- '' @ x) j)" by simp
    also have "\<dots> = fold job_line (map ((@) ''- '') xs) (j\<lparr>js_issues := js_issues j @ [x]\<rparr>)"
      using Cons.prems by (subst job_line_entry(2)) simp_all
    also have "\<dots> = j\<lparr>js_issues := js_issues j @ [x]\<rparr>\<lparr>js_issues := (js_issues j @ [x]) @ xs\<rparr>"
      by (subst Cons.IH) (use Cons.prems in simp_all)
    also have "\<dots> = j\<lparr>js_issues := js_issues j @ x # xs\<rparr>" by simp
    finally show ?case .
  qed simp
  then show "list_all entry_ok xs \<Longrightarrow> js_section j = ''iss'' \<Longrightarrow>
      fold job_line (section_lines xs) j = j\<lparr>js_issues := js_issues j @ xs\<rparr>"
    by (simp add: section_lines_def job_line_simps)
qed

lemma read_job_file:
  assumes ok: "job_ok ts j ls"
  shows "read_job (job_file ts j ls) = j\<lparr>js_section := ''iss''\<rparr>"
proof -
  have "\<forall>l\<in>set (job_lines ts j ls). one_line l"
    using ok by (auto simp: job_lines_def job_ok_def section_lines_def none_yet_def list_all_iff entry_ok_def quiet_line_def
        is_line_break_def split: if_splits)
  then have lines: "str_lines [] (job_file ts j ls) = job_lines ts j ls"
    using str_lines_lines [of "job_lines ts j ls" "[]"] by (simp add: job_file_lines job_lines_def nl_def)
  define j0 where "j0 = \<lparr>js_filename = ''unknown'', js_material = ''unknown'', js_adjustments = [], js_issues = [], js_section = []\<rparr>"
  define j1 where "j1 = j0\<lparr>js_filename := js_filename j, js_material := js_material j, js_section := ''adj''\<rparr>"
  define j2 where "j2 = j1\<lparr>js_adjustments := js_adjustments j, js_section := ''iss''\<rparr>"
  define j3 where "j3 = j2\<lparr>js_issues := js_issues j\<rparr>"
  have s1: "fold job_line [''# Current Job'', ''File: '' @ js_filename j, ''Material: '' @ js_material j, ''Started: '' @ ts, [],
      ''## Adjustments made''] j0 = j1"
    using ok unfolding fold_simps job_line_simps j1_def job_ok_def by simp
  have s2: "fold job_line [[], ''## Issues observed''] (fold job_line (section_lines (js_adjustments j)) j1) = j2"
    using ok fold_adjustments [of "js_adjustments j" j1] unfolding fold_simps job_line_simps job_ok_def
    by (simp add: j2_def) (simp add: j1_def j0_def)
  have s3: "fold job_line (section_lines (js_issues j)) j2 = j3"
    using ok fold_issues [of "js_issues j" j2] by (simp add: job_ok_def j3_def) (simp add: j2_def j1_def j0_def)
  have s4: "fold job_line (if ls = [] then [] else [[], ''## Device context''] @ ls) j3 = j3"
    using ok fold_quiet [of j3 ls] job_line_simps by (simp add: job_ok_def j3_def j2_def j1_def)
  have "read_job (job_file ts j ls) = fold job_line (job_lines ts j ls) j0"
    unfolding read_job_def lines j0_def by (rule refl)
  also have "\<dots> = j3"
    unfolding job_lines_def fold_append o_apply s1 s2 s3 s4 by (rule refl)
  finally show ?thesis by (simp add: j3_def j2_def j1_def j0_def)
qed

section \<open>The notes of a job\<close>

text \<open>
  C20: The file of a job refines its record: a new file stands for the name and the material with no entries, adding
  an adjustment or an issue to the file adds it to the record (unless the same entry is already written and the section has
  others), and the archive reads back exactly the record.
\<close>

theorem job_notes_refine:
  assumes "job_ok ts j ls"
  shows "read_job (job_file ts j ls) = j\<lparr>js_section := ''iss''\<rparr>
    \<and> insert_entry ''## Adjustments made'' (''- '' @ x) (job_file ts j ls)
        = job_file ts (j\<lparr>js_adjustments := add_entry (job_file ts j ls) x (js_adjustments j)\<rparr>) ls
    \<and> insert_entry ''## Issues observed'' (''- '' @ x) (job_file ts j ls)
        = job_file ts (j\<lparr>js_issues := add_entry (job_file ts j ls) x (js_issues j)\<rparr>) ls
    \<and> job_context_text rt (PyStr (js_filename j)) (PyStr (js_material j)) ts (str_join nl ls)
        = job_file ts (j\<lparr>js_adjustments := [], js_issues := []\<rparr>) ls"
proof -
  have a: "section_marker adjustments_title = ''## Adjustments made''" and i: "section_marker issues_title = ''## Issues observed''"
    by (simp_all add: section_marker_def adjustments_title_def issues_title_def)
  have "str_join nl ls = [] \<longleftrightarrow> ls = []"
    using assms by (cases ls; cases "tl ls") (auto simp: job_ok_def quiet_line_def)
  then have c: "job_context_text rt (PyStr (js_filename j)) (PyStr (js_material j)) ts (str_join nl ls)
      = job_file ts (j\<lparr>js_adjustments := [], js_issues := []\<rparr>) ls"
    by (simp add: job_context_text_def job_file_def job_front_def issues_part_def device_part_def section_text_def
        section_marker_def adjustments_title_def issues_title_def)
  show ?thesis
    using read_job_file [OF assms] insert_adjustment [OF assms refl, unfolded a] insert_issue [OF assms refl, unfolded i] c by blast
qed

definition sample_job :: job_summary where
  "sample_job = \<lparr>js_filename = ''bracket.gcode'', js_material = ''PLA'', js_adjustments = [''12:05: slowed down''],
     js_issues = [], js_section = ''iss''\<rparr>"

lemma job_notes_refine_witness:
  "read_job (job_file ''12:00'' sample_job [''Material: PLA'']) = sample_job
   \<and> read_job (insert_entry ''## Issues observed'' (''- '' @ ''12:09: stringing'') (job_file ''12:00'' sample_job [''Material: PLA'']))
     = sample_job\<lparr>js_issues := [''12:09: stringing'']\<rparr>"
proof -
  have ok: "job_ok ''12:00'' sample_job [''Material: PLA'']" by code_simp
  have ok': "job_ok ''12:00'' (sample_job\<lparr>js_issues := [''12:09: stringing'']\<rparr>) [''Material: PLA'']" by code_simp
  show ?thesis
    using job_notes_refine [OF ok, of "''12:09: stringing''"] job_notes_refine [OF ok']
    by (simp add: sample_job_def add_entry_def)
qed

end
