(* ===== verification/AgentLoop.thy ===== *)
theory AgentLoop
  imports LlmParser Dispatch AgentMemory
begin

text \<open>
  The agent's cycle (\<open>src/wallee/agent/loop.py\<close>) with its write interface (\<open>agent/state_manager.py\<close>) and the
  detector of external changes (\<open>agent/change_detector.py\<close>).  The whiteboard, the language model, the callbacks of
  the device packs, the clock texts and the digest of a message are answered by the environment.  The two files the
  agent keeps are values of the state.  The prompt, the knowledge files and the threads are not modelled.
\<close>

section \<open>The state of the agent\<close>

datatype wb_write = WbPublish string pyval "int option" | WbDelete string | WbPush string pyval nat

record agent5 =
  ag_ledger :: ledger
  ag_writes :: "wb_write list"
  ag_reads :: nat
  ag_cycles :: nat
  ag_stamps :: nat
  ag_recent :: "string list"
  ag_processed :: "string list"
  ag_stale_retries :: nat
  ag_last_intent :: pyval
  ag_last_phase :: pyval
  ag_next_delay :: pyfloat
  ag_job :: "string option"
  ag_prev_state :: "dict option"
  ag_observations :: "string option"
  ag_job_starts :: nat

datatype llm_answer = LlmText string | LlmCancelled | LlmRaised pyexc

record agent_env = ledger_env +
  av_tools :: registry
  av_json_error :: "string \<Rightarrow> string"
  av_bounds :: interval_bounds
  av_read :: "nat \<Rightarrow> string \<Rightarrow> pyexc + pyval"
  av_snapshot :: "nat \<Rightarrow> pyexc + dict"
  av_llm :: "nat \<Rightarrow> llm_answer"
  av_idle :: "nat \<Rightarrow> pyexc + pyval"
  av_job_context :: "nat \<Rightarrow> string"
  av_stamp :: "nat \<Rightarrow> string"
  av_md5 :: "string \<Rightarrow> string"
  av_poll_interval :: pyfloat
  av_decision_ttl :: int

definition agent_ledger_env :: "agent_env \<Rightarrow> ledger_env" where
  "agent_ledger_env env = ledger_env.truncate env"

definition on_ag_ledger :: "(ledger, 'a) act \<Rightarrow> (agent5, 'a) act" where
  "on_ag_ledger m s = (case m (ag_ledger s) of (r, l) \<Rightarrow> (r, s\<lparr>ag_ledger := l\<rparr>))"

definition ag_read :: "agent_env \<Rightarrow> string \<Rightarrow> (agent5, pyval) act" where
  "ag_read env key s = (av_read env (ag_reads s) key, s\<lparr>ag_reads := ag_reads s + 1\<rparr>)"

definition ag_time :: "agent_env \<Rightarrow> (agent5, rat) act" where
  "ag_time env = on_ag_ledger (\<lambda>l. (Inr (lv_time env (lg_times l)), l\<lparr>lg_times := lg_times l + 1\<rparr>))"

definition ag_stamp :: "agent_env \<Rightarrow> (agent5, string) act" where
  "ag_stamp env s = (Inr (av_stamp env (ag_stamps s)), s\<lparr>ag_stamps := ag_stamps s + 1\<rparr>)"

section \<open>The write interface\<close>

definition allowed_writes :: "string list" where
  "allowed_writes = [''agent.heartbeat'', ''agent.last_decision'', ''agent.cooldown'', ''agent.external_pause'',
     ''agent.awaiting_feedback'', ''agent.missing_sensors'', ''human.pending_callout'', ''print.queue'']"

definition allowed_deletes :: "string list" where
  "allowed_deletes = [''human.intent'', ''human.image'', ''human.pending_callout'', ''agent.external_pause'',
     ''agent.awaiting_feedback'']"

definition allowed_lists :: "string list" where
  "allowed_lists = [''agent.activity_log'']"

definition record_write :: "wb_write \<Rightarrow> (agent5, unit) act" where
  "record_write w = modify (\<lambda>s. s\<lparr>ag_writes := ag_writes s @ [w]\<rparr>)"

definition state_publish :: "string \<Rightarrow> pyval \<Rightarrow> int option \<Rightarrow> (agent5, unit) act" where
  "state_publish key v ttl =
     (if key \<notin> set allowed_writes then raise (ValueError (''Agent not permitted to write: '' @ key))
      else record_write (WbPublish key v ttl))"

definition state_delete :: "string \<Rightarrow> (agent5, unit) act" where
  "state_delete key =
     (if key \<notin> set allowed_deletes then raise (ValueError (''Agent not permitted to delete: '' @ key))
      else record_write (WbDelete key))"

definition list_push :: "string \<Rightarrow> pyval \<Rightarrow> nat \<Rightarrow> (agent5, unit) act" where
  "list_push key v max_len =
     (if key \<notin> set allowed_lists then raise (ValueError (''Agent not permitted to push to list: '' @ key))
      else record_write (WbPush key v max_len))"

section \<open>Rejections and the cooldown\<close>

definition rejection_patterns :: "string list" where
  "rejection_patterns = [''toctou'', ''expired'', ''chain_skipped'', ''precheck'', ''is required'',
     ''empty parameters'', ''outside bounds'', ''unknown tool'', ''outside safe range'', ''cannot resume'',
     ''cannot pause'', ''cannot cancel'', ''cannot start'', ''cannot move'', ''cannot set'', ''cannot home'',
     ''cannot disable'', ''cannot extrude'', ''cannot retract'', ''not paused'', ''not printing'', ''not idle'',
     ''out of range'', ''503'', ''timeout'', ''not configured'', ''not approved'', ''timed out'']"

definition is_human_rejection :: "string \<Rightarrow> bool" where
  "is_human_rejection reason \<longleftrightarrow>
     reason \<noteq> [] \<and> (\<forall>pattern\<in>set rejection_patterns. \<not> contains pattern (str_lower reason))"

text \<open>The error column holds the value of its JSON text; the reason of the ledger's own rejections is a text.\<close>

definition extract_rejection_reason :: "pyrt \<Rightarrow> ledger_action \<Rightarrow> pyval" where
  "extract_rejection_reason rt entry = (case lr_error entry of
       None \<Rightarrow> PyStr (lr_reason entry)
     | Some (PyDict d) \<Rightarrow> por (dget_or d ''reason'' (PyStr [])) (PyStr (py_repr rt (PyDict d)))
     | Some v \<Rightarrow> PyStr (py_str rt v))"

fun human_rejected :: "pyval \<Rightarrow> pyexc + bool" where
  "human_rejected (PyStr s) = Inr (is_human_rejection s)"
| "human_rejected v = (if truthy v then Inl (AttributeError (str_repr (type_name v) @ '' object has no attribute '' @ str_repr ''lower''))
     else Inr False)"

definition cooldown_value :: "string \<Rightarrow> rat \<Rightarrow> pyval" where
  "cooldown_value tool now = PyDict [(''tool'', PyStr tool), (''until'', PyFloat (Fin (now + 90))),
     (''reason'', PyStr ''Human rejected this action'')]"

text \<open>The cooldown is published as a JSON text; the value stands for it.\<close>

fun scan_rejections :: "agent_env \<Rightarrow> ledger_action list \<Rightarrow> (agent5, unit) act" where
  "scan_rejections env [] = ret ()"
| "scan_rejections env (entry # rest) =
     bindE (gets ag_processed) (\<lambda>processed.
     if lr_status entry \<noteq> LRejected \<or> lr_action_id entry = [] \<or> lr_action_id entry \<in> set processed then scan_rejections env rest
     else bindE (modify (\<lambda>s. s\<lparr>ag_processed := lr_action_id entry # ag_processed s\<rparr>)) (\<lambda>_.
       if lr_tool entry = [] then scan_rejections env rest
       else bindE (liftE (human_rejected (extract_rejection_reason (lv_rt env) entry))) (\<lambda>by_human.
         if \<not> by_human then scan_rejections env rest
         else bindE (ag_time env) (\<lambda>now. state_publish ''agent.cooldown'' (cooldown_value (lr_tool entry) now) (Some 90)))))"

definition scan_episode_for_rejections :: "agent_env \<Rightarrow> ledger_action list \<Rightarrow> (agent5, unit) act" where
  "scan_episode_for_rejections env episode = scan_rejections env (rev episode)"

definition cooldown_wait :: "pyrt \<Rightarrow> decision \<Rightarrow> pyval \<Rightarrow> decision" where
  "cooldown_wait rt d tool = post_init ((blank_decision ''WAIT'')\<lparr>de_observation := de_observation d,
     de_reasoning := PyStr (''Cooldown: '' @ py_str rt tool @ '' was rejected by human. Observing.''),
     de_check_after_s := Fin 30\<rparr>)"

definition proposed_tools :: "decision \<Rightarrow> pyval list" where
  "proposed_tools d = (if de_type d = ''ACTION'' then [de_tool d]
     else map (\<lambda>a. dget_or a ''tool'' (PyStr [])) (de_actions d))"

definition check_cooldown :: "agent_env \<Rightarrow> decision \<Rightarrow> (agent5, decision) act" where
  "check_cooldown env d =
     (if de_type d \<notin> {''ACTION'', ''ACTION_CHAIN''} then ret d
      else bindE (ag_read env ''agent.cooldown'') (\<lambda>cooldown.
        if \<not> truthy cooldown then ret d
        else case (case cooldown of PyStr s \<Rightarrow> json_loads (lv_rt env) s | v \<Rightarrow> Some v) of
          None \<Rightarrow> ret d
        | Some v \<Rightarrow>
            bindE (liftE (as_dict v)) (\<lambda>data.
            if list_ex (py_eq (pget data ''tool'')) (proposed_tools d) then
              bindE (ag_time env) (\<lambda>now.
              bindE (liftE (py_cmp Lt (PyFloat (Fin now)) (dget_or data ''until'' (PyInt 0)))) (\<lambda>early.
              if early then bindE (ag_time env) (\<lambda>_. ret (cooldown_wait (lv_rt env) d (pget data ''tool'')))
              else ret d))
            else ret d)))"

section \<open>Oscillation\<close>

definition not_concatenable :: "pyval \<Rightarrow> pyexc" where
  "not_concatenable v = TypeError (''can only concatenate str (not '' @ str_repr (type_name v) @ '') to str'')"

definition decision_key :: "pyrt \<Rightarrow> decision \<Rightarrow> pyexc + string" where
  "decision_key rt d =
     (case (de_type d = ''ACTION_CHAIN'', de_actions d) of
        (True, a # _) \<Rightarrow> Inr (''ACTION_CHAIN:'' @ py_str rt (dget_or a ''tool'' (PyStr [])))
      | _ \<Rightarrow> (case de_tool d of PyStr t \<Rightarrow> Inr (de_type d @ '':'' @ t) | v \<Rightarrow> Inl (not_concatenable v)))"

definition oscillation_wait :: "decision \<Rightarrow> decision" where
  "oscillation_wait d = post_init ((blank_decision ''WAIT'')\<lparr>de_observation := de_observation d,
     de_reasoning := PyStr ''Oscillation detected - conflicting actions in last 3 cycles. Stepping back to observe.'',
     de_check_after_s := Fin 60\<rparr>)"

text \<open>A deque of length two: the oldest entry leaves first.\<close>

definition push_recent :: "string \<Rightarrow> string list \<Rightarrow> string list" where
  "push_recent key recent = (let r = recent @ [key] in drop (length r - 2) r)"

definition oscillates :: "string \<Rightarrow> string list \<Rightarrow> bool" where
  "oscillates key recent = (case recent of
       p0 # p1 # _ \<Rightarrow> p0 = key \<and> p0 \<noteq> p1 \<and> \<not> starts_with ''WAIT:'' p1
     | _ \<Rightarrow> False)"

definition check_oscillation :: "pyrt \<Rightarrow> decision \<Rightarrow> string list \<Rightarrow> pyexc + (decision \<times> string list)" where
  "check_oscillation rt d recent =
     bindR (decision_key rt d) (\<lambda>key.
     if de_type d \<in> {''ACTION'', ''ACTION_CHAIN''} then
       if oscillates key recent then Inr (oscillation_wait d, [])
       else Inr (d, push_recent key recent)
     else Inr (d, push_recent ''WAIT:'' recent))"

section \<open>The job context file\<close>

definition job_active :: "pyval \<Rightarrow> bool" where
  "job_active phase \<longleftrightarrow> phase \<in> {PyStr ''PREPARING'', PyStr ''PRINTING'', PyStr ''PAUSED''}"

definition bump_job_start :: "(agent5, unit) act" where
  "bump_job_start = modify (\<lambda>s. s\<lparr>ag_job_starts := ag_job_starts s + 1\<rparr>)"

definition put_job :: "string option \<Rightarrow> (agent5, unit) act" where
  "put_job text = modify (\<lambda>s. s\<lparr>ag_job := text\<rparr>)"

text \<open>\<open>a or self.wb.read(key)\<close>: the whiteboard is read only when \<open>a\<close> is false.\<close>

definition or_read :: "agent_env \<Rightarrow> pyval \<Rightarrow> string \<Rightarrow> (agent5, pyval) act" where
  "or_read env a key = (if truthy a then ret a else ag_read env key)"

definition create_job_context :: "agent_env \<Rightarrow> dict \<Rightarrow> (agent5, unit) act" where
  "create_job_context env state =
     bindE (or_read env (pget state ''job.filename'') ''job.filename'') (\<lambda>f1.
     bindE (or_read env (por f1 (pget state ''printer.print_filename'')) ''printer.print_filename'') (\<lambda>f2.
     let filename = por f2 (PyStr ''unknown'') in
     bindE (or_read env (pget state ''job.material'') ''job.material'') (\<lambda>m1.
     let material = por m1 (PyStr ''unknown'') in
     bindE (ag_stamp env) (\<lambda>ts.
     bindE (gets ag_cycles) (\<lambda>n.
     put_job (Some (job_context_text (lv_rt env) filename material ts (str_strip (av_job_context env n)))))))))"

definition no_name :: "pyval \<Rightarrow> bool" where
  "no_name v \<longleftrightarrow> \<not> truthy v \<or> v = PyStr ''unknown''"

definition patch_job_context_filename :: "agent_env \<Rightarrow> dict \<Rightarrow> (agent5, unit) act" where
  "patch_job_context_filename env state =
     bindE (gets ag_job) (\<lambda>job. case job of
       None \<Rightarrow> ret ()
     | Some text \<Rightarrow>
         if \<not> contains unknown_file text \<and> \<not> contains blank_file text then ret ()
         else let real0 = por (pget state ''job.filename'') (pget state ''printer.print_filename'') in
           bindE (if no_name real0 then
                    bindE bump_job_start (\<lambda>_. bindE (ag_read env ''job.filename'') (\<lambda>v.
                    ret (por (por v (pget state ''printer.print_filename'')) real0)))
                  else ret real0) (\<lambda>real_name.
           if no_name real_name then ret ()
           else let name = py_str (lv_rt env) real_name;
                    text1 = replace_first blank_file (''File: '' @ name @ nl) (replace_first unknown_file (''File: '' @ name) text) in
             bindE (put_job (Some text1)) (\<lambda>_.
             if contains ''Material: unknown'' text1 then
               bindE (try_except (bindE (or_read env (pget state ''job.material'') ''job.material'') (\<lambda>m.
                 let material = por m (PyStr ''unknown'') in
                 if material \<noteq> PyStr ''unknown'' then
                   put_job (Some (replace_first ''Material: unknown'' (''Material: '' @ py_str (lv_rt env) material) text1))
                 else ret ())) (\<lambda>_. ret ())) (\<lambda>_. ret ())
             else ret ())))"

definition remember_now :: "agent_env \<Rightarrow> string \<Rightarrow> (agent5, unit) act" where
  "remember_now env observation = bindE (ag_stamp env) (\<lambda>ts.
     modify (\<lambda>s. s\<lparr>ag_observations := snd (remember ts observation (ag_observations s))\<rparr>))"

definition group_of :: "agent_env \<Rightarrow> string \<Rightarrow> string" where
  "group_of env name = (case map_of (av_tools env) name of Some t \<Rightarrow> device_group t | None \<Rightarrow> ''builtin'')"

definition propose_builtin :: "agent_env \<Rightarrow> dict \<Rightarrow> string \<Rightarrow> string \<Rightarrow> (agent5, unit) act" where
  "propose_builtin env params reason observation =
     bindE (on_ag_ledger (\<lambda>l. case propose (agent_ledger_env env) \<lparr>pa_tool = ''call_human'', pa_params = params,
         pa_reason = reason, pa_device_group = group_of env ''call_human'', pa_requires_approval = False,
         pa_max_proposal_age_ms = 30000, pa_observation = observation, pa_chain_id = None, pa_chain_seq = None\<rparr> l
       of (i, l') \<Rightarrow> (Inr i, l'))) (\<lambda>_. ret ())"

definition archive_job_context :: "agent_env \<Rightarrow> (agent5, unit) act" where
  "archive_job_context env =
     bindE (gets ag_job) (\<lambda>job. case job of
       None \<Rightarrow> ret ()
     | Some text \<Rightarrow>
         let j = read_job text in
         bindE (remember_now env (job_summary_text j)) (\<lambda>_.
         bindE (propose_builtin env [(''message'', PyStr (''Print complete: '' @ js_filename j
             @ ''. How did it turn out? Reply: great, ok, or failed'')), (''severity'', PyStr ''info'')]
             ''requesting post-print feedback'' []) (\<lambda>_.
         bindE (ag_time env) (\<lambda>now.
         bindE (state_publish ''agent.awaiting_feedback'' (PyDict [(''filename'', PyStr (js_filename j)),
             (''completed_at'', PyFloat (Fin now))]) (Some 3600)) (\<lambda>_.
         put_job None)))))"

definition handle_job_phase_transition :: "agent_env \<Rightarrow> dict \<Rightarrow> (agent5, unit) act" where
  "handle_job_phase_transition env state =
     (let phase = pget state ''job.phase'' in
      bindE (gets ag_last_phase) (\<lambda>prev.
      if phase = PyNone \<or> py_eq phase prev then
        (if job_active phase then patch_job_context_filename env state else ret ())
      else bindE (modify (\<lambda>s. s\<lparr>ag_last_phase := phase\<rparr>)) (\<lambda>_.
        bindE (gets ag_job) (\<lambda>job.
        if prev = PyNone then
          (if job_active phase \<and> job = None then
             bindE bump_job_start (\<lambda>_. create_job_context env state)
           else ret ())
        else
          bindE (if phase = PyStr ''PREPARING'' \<and> prev \<noteq> PyStr ''PREPARING'' then
                   bindE bump_job_start (\<lambda>_. if job = None then create_job_context env state else ret ())
                 else ret ()) (\<lambda>_.
          if phase \<in> {PyStr ''FINISHED'', PyStr ''IDLE''} \<and> prev \<in> {PyStr ''PRINTING'', PyStr ''PAUSED''}
          then archive_job_context env else ret ())))))"

definition append_to_job_context :: "agent_env \<Rightarrow> string \<Rightarrow> string \<Rightarrow> (agent5, unit) act" where
  "append_to_job_context env section_name entry =
     bindE (gets ag_job) (\<lambda>job. case job of
       None \<Rightarrow> ret ()
     | Some text \<Rightarrow>
         bindE (ag_stamp env) (\<lambda>ts.
         let marker = ''## '' @ section_name in
         if contains marker text then put_job (Some (insert_entry marker (''- '' @ ts @ '': '' @ entry) text))
         else ret ()))"

section \<open>External changes\<close>

definition episode_tools :: "ledger_action list \<Rightarrow> string list" where
  "episode_tools episode = map lr_tool (filter (\<lambda>a. lr_status a \<in> {LDispatched, LDone} \<and> lr_tool a \<noteq> []) episode)"

definition agent_lookback_s :: rat where "agent_lookback_s = 30"

text \<open>The ledger is asked only when the episode does not explain the change; the clock is read after it.\<close>

definition is_agent_caused :: "agent_env \<Rightarrow> string list \<Rightarrow> string list \<Rightarrow> (agent5, bool) act" where
  "is_agent_caused env possible_tools ep_tools =
     (if possible_tools = [] then ret False
      else if \<exists>t\<in>set ep_tools. t \<in> set possible_tools then ret True
      else bindE (gets (\<lambda>s. get_by_status LDone (ag_ledger s))) (\<lambda>done_actions.
        bindE (ag_time env) (\<lambda>now.
        ret (\<exists>a\<in>set done_actions. lr_tool a \<in> set possible_tools \<and> now - lr_updated_ts a < agent_lookback_s))))"

definition change_text :: "pyrt \<Rightarrow> string \<Rightarrow> pyval \<Rightarrow> pyval \<Rightarrow> string" where
  "change_text rt key prev_val curr_val = key @ '' changed: '' @ py_str rt prev_val @ '' -> '' @ py_str rt curr_val"

fun detect_keys :: "agent_env \<Rightarrow> dict \<Rightarrow> dict \<Rightarrow> string list \<Rightarrow> (string \<times> string list) list \<Rightarrow> (agent5, string list) act" where
  "detect_keys env prev_state current ep_tools [] = ret []"
| "detect_keys env prev_state current ep_tools ((key, tools) # effects) =
     (let prev_val = pget prev_state key; curr_val = pget current key in
      if prev_val = PyNone \<or> curr_val = PyNone \<or> py_eq prev_val curr_val then detect_keys env prev_state current ep_tools effects
      else bindE (is_agent_caused env tools ep_tools) (\<lambda>caused.
        bindE (detect_keys env prev_state current ep_tools effects) (\<lambda>changes.
        ret (if caused then changes else change_text (lv_rt env) key prev_val curr_val # changes))))"

definition detect_changes :: "agent_env \<Rightarrow> dict \<Rightarrow> ledger_action list \<Rightarrow> (agent5, string list) act" where
  "detect_changes env current episode =
     bindE (gets ag_prev_state) (\<lambda>prev.
     case prev of
       None \<Rightarrow> bindE (modify (\<lambda>s. s\<lparr>ag_prev_state := Some current\<rparr>)) (\<lambda>_. ret [])
     | Some prev_state \<Rightarrow>
         bindE (detect_keys env prev_state current (episode_tools episode) (state_effects_map (av_tools env))) (\<lambda>changes.
         bindE (modify (\<lambda>s. s\<lparr>ag_prev_state := Some current\<rparr>)) (\<lambda>_. ret changes)))"

section \<open>Routing a decision\<close>

text \<open>
  A value bound to a text column: numbers become their text, a list or an object does not fit.  \<open>NULL\<close> and the
  empty text are not distinguished in the two text columns of a proposal.
\<close>

fun sql_text :: "pyrt \<Rightarrow> pyval \<Rightarrow> string option" where
  "sql_text rt (PyStr s) = Some s"
| "sql_text rt PyNone = Some []"
| "sql_text rt (PyBool b) = Some (if b then ''1'' else ''0'')"
| "sql_text rt (PyInt i) = Some (int_str i)"
| "sql_text rt (PyFloat f) = Some (float_repr rt f)"
| "sql_text rt _ = None"

text \<open>
  \<open>Ledger.propose\<close> with a reason and an observation that need not be texts: the insertion of a value that does
  not fit raises, after the search for duplicates.
\<close>

definition propose_values :: "agent_env \<Rightarrow> proposal_args \<Rightarrow> pyval \<Rightarrow> pyval \<Rightarrow> (agent5, string) act" where
  "propose_values env a reason observation =
     on_ag_ledger (\<lambda>l. case (sql_text (lv_rt env) reason, sql_text (lv_rt env) observation) of
         (Some r, Some ob) \<Rightarrow>
           (case propose (agent_ledger_env env) (a\<lparr>pa_reason := r, pa_observation := ob\<rparr>) l of (i, l') \<Rightarrow> (Inr i, l'))
       | _ \<Rightarrow>
           (case propose (agent_ledger_env env) a l of (i, l') \<Rightarrow>
              if lg_actions l' = lg_actions l then (Inr i, l')
              else (Inl (PyExc ''ProgrammingError'' ''Error binding parameter''), l'\<lparr>lg_actions := lg_actions l\<rparr>)))"

definition tool_args :: "agent_env \<Rightarrow> string \<Rightarrow> tool \<Rightarrow> dict \<Rightarrow> (string \<times> int) option \<Rightarrow> proposal_args" where
  "tool_args env name t params chain = \<lparr>pa_tool = name, pa_params = params, pa_reason = [],
     pa_device_group = device_group t, pa_requires_approval = tl_requires_approval t,
     pa_max_proposal_age_ms = tl_max_proposal_age_ms t, pa_observation = [], pa_chain_id = map_option fst chain,
     pa_chain_seq = map_option snd chain\<rparr>"

text \<open>\<open>name in self.tools\<close> and \<open>self.tools.get(name)\<close>: a list or an object cannot be looked up.\<close>

definition find_tool :: "registry \<Rightarrow> pyval \<Rightarrow> pyexc + tool option" where
  "find_tool tools v = (case v of
       PyStr s \<Rightarrow> Inr (map_of tools s)
     | PyList _ \<Rightarrow> Inl (TypeError (''unhashable type: '' @ str_repr ''list''))
     | PyDict _ \<Rightarrow> Inl (TypeError (''unhashable type: '' @ str_repr ''dict''))
     | _ \<Rightarrow> Inr None)"

definition act_params :: "dict \<Rightarrow> dict" where
  "act_params a = (case dget_or a ''params'' (PyDict []) of PyDict d \<Rightarrow> d | _ \<Rightarrow> [])"

fun known_tools :: "registry \<Rightarrow> dict list \<Rightarrow> pyexc + bool" where
  "known_tools tools [] = Inr True"
| "known_tools tools (a # as) =
     bindR (find_tool tools (dget_or a ''tool'' (PyStr []))) (\<lambda>t. if t = None then Inr False else known_tools tools as)"

fun propose_chain :: "agent_env \<Rightarrow> decision \<Rightarrow> string \<Rightarrow> int \<Rightarrow> dict list \<Rightarrow> (agent5, unit) act" where
  "propose_chain env d chain_id i [] = ret ()"
| "propose_chain env d chain_id i (a # as) =
     (case (pget a ''tool'', find_tool (av_tools env) (pget a ''tool'')) of
        (PyStr name, Inr (Some t)) \<Rightarrow>
          bindE (propose_values env (tool_args env name t (act_params a) (Some (chain_id, i))) (de_reason d) (de_observation d))
            (\<lambda>_. propose_chain env d chain_id (i + 1) as)
      | _ \<Rightarrow> raise (AttributeError (str_repr ''NoneType'' @ '' object has no attribute '' @ str_repr ''device_group'')))"

definition new_uuid :: "agent_env \<Rightarrow> (agent5, string) act" where
  "new_uuid env = on_ag_ledger (\<lambda>l. (Inr (lv_uuid env (lg_uuids l)), l\<lparr>lg_uuids := lg_uuids l + 1\<rparr>))"

definition get_pending_callout :: "agent_env \<Rightarrow> (agent5, pyval) act" where
  "get_pending_callout env =
     bindE (ag_read env ''human.pending_callout'') (\<lambda>raw. ret (case raw of
       PyStr s \<Rightarrow> (case json_loads (lv_rt env) s of Some v \<Rightarrow> v | None \<Rightarrow> PyNone)
     | PyDict d \<Rightarrow> PyDict d
     | _ \<Rightarrow> PyNone))"

text \<open>\<open>message[:100].encode()\<close>.\<close>

fun message_head :: "pyval \<Rightarrow> pyexc + string" where
  "message_head (PyStr s) = Inr (take 100 s)"
| "message_head (PyList _) = Inl (AttributeError (str_repr ''list'' @ '' object has no attribute '' @ str_repr ''encode''))"
| "message_head v = Inl (TypeError (str_repr (type_name v) @ '' object is not subscriptable''))"

fun clip :: "nat \<Rightarrow> pyval \<Rightarrow> pyexc + pyval" where
  "clip n (PyStr s) = Inr (PyStr (take n s))"
| "clip n (PyList xs) = Inr (PyList (take n xs))"
| "clip n v = (if truthy v then Inl (TypeError (str_repr (type_name v) @ '' object is not subscriptable'')) else Inr (PyStr []))"

definition notable_words :: "string list" where
  "notable_words = [''anomal'', ''issue'', ''error'', ''fail'', ''detach'', ''blob'', ''string'', ''warp'', ''gap'']"

definition log_value :: "decision \<Rightarrow> string \<Rightarrow> string \<Rightarrow> pyval \<Rightarrow> pyval \<Rightarrow> pyval" where
  "log_value d ts summary ob re = PyDict [(''ts'', PyStr ts), (''type'', PyStr (de_type d)),
     (''status'', PyStr (if de_type d = ''ACTION_CHAIN'' then ''ACTION'' else de_type d)),
     (''text'', PyStr (take 300 summary)), (''observation'', ob), (''reasoning'', re)]"

text \<open>The entry for the dashboard; the parameter changes it also lists are not modelled.\<close>

definition publish_summary :: "agent_env \<Rightarrow> decision \<Rightarrow> string \<Rightarrow> (agent5, unit) act" where
  "publish_summary env d summary =
     bindE (state_publish ''agent.last_decision'' (PyStr summary) (Some (av_decision_ttl env))) (\<lambda>_.
     bindE (ag_stamp env) (\<lambda>ts.
     bindE (liftE (clip 200 (de_observation d))) (\<lambda>ob.
     bindE (liftE (clip 200 (de_reasoning d))) (\<lambda>re.
     list_push ''agent.activity_log'' (log_value d ts summary ob re) 20))))"

definition dash :: string where "dash = '' - ''"

definition route_action :: "agent_env \<Rightarrow> decision \<Rightarrow> (agent5, string option) act" where
  "route_action env d =
     bindE (liftE (find_tool (av_tools env) (de_tool d))) (\<lambda>found. case (found, de_tool d) of
       (Some t, PyStr name) \<Rightarrow>
         bindE (propose_values env (tool_args env name t (de_params d) None) (de_reason d) (de_observation d)) (\<lambda>_.
         bindE (append_to_job_context env ''Adjustments made'' (name @ ''('' @ json_dumps (lv_rt env) (PyDict (de_params d))
           @ '')'' @ dash @ py_str (lv_rt env) (de_reasoning d))) (\<lambda>_.
         ret (Some (''ACTION: '' @ name @ dash @ py_str (lv_rt env) (de_reasoning d)))))
     | _ \<Rightarrow> ret None)"

definition route_chain :: "agent_env \<Rightarrow> decision \<Rightarrow> (agent5, string option) act" where
  "route_chain env d =
     bindE (new_uuid env) (\<lambda>chain_id.
     bindE (liftE (known_tools (av_tools env) (de_actions d))) (\<lambda>all_known.
     if \<not> all_known then ret None
     else bindE (propose_chain env d chain_id 0 (de_actions d)) (\<lambda>_.
       ret (Some (''ACTION_CHAIN ('' @ nat_str (length (de_actions d)) @ '' steps): ''
         @ str_join '' -> '' (map (\<lambda>a. py_str (lv_rt env) (pget a ''tool'')) (de_actions d)) @ dash
         @ py_str (lv_rt env) (de_reasoning d))))))"

definition route_wait :: "agent_env \<Rightarrow> decision \<Rightarrow> dict \<Rightarrow> (agent5, string option) act" where
  "route_wait env d state =
     bindE (on_ag_ledger (record_wait (agent_ledger_env env) (de_reasoning d) (de_observation d) (de_reasoning d))) (\<lambda>_.
     bindE (if truthy (de_observation d) \<and> job_active (pget state ''job.phase'') then
              (case de_observation d of
                 PyStr ob \<Rightarrow> if list_ex (\<lambda>w. contains w (str_lower ob)) notable_words
                             then append_to_job_context env ''Issues observed'' ob else ret ()
               | v \<Rightarrow> raise (AttributeError (str_repr (type_name v) @ '' object has no attribute '' @ str_repr ''lower'')))
            else ret ()) (\<lambda>_.
     ret (Some (''WAIT: '' @ py_str (lv_rt env) (de_reasoning d)))))"

definition callout_value :: "string \<Rightarrow> pyval \<Rightarrow> rat \<Rightarrow> pyval" where
  "callout_value hash message now = PyDict [(''hash'', PyStr hash), (''message'', message), (''time'', PyFloat (Fin now)),
     (''status'', PyStr ''PENDING'')]"

definition is_duplicate_callout :: "string \<Rightarrow> pyval \<Rightarrow> pyexc + bool" where
  "is_duplicate_callout hash callout =
     (if \<not> truthy callout then Inr False
      else bindR (as_dict callout) (\<lambda>p. Inr (pget p ''hash'' = PyStr hash \<and> pget p ''status'' = PyStr ''PENDING'')))"

definition route_call_human :: "agent_env \<Rightarrow> decision \<Rightarrow> (agent5, string option) act" where
  "route_call_human env d =
     bindE (liftE (message_head (de_message d))) (\<lambda>head.
     let hash = take 8 (av_md5 env head); message = py_str (lv_rt env) (de_message d) in
     bindE (get_pending_callout env) (\<lambda>callout.
     bindE (liftE (is_duplicate_callout hash callout)) (\<lambda>dup.
     if dup then
       bindE (on_ag_ledger (record_wait (agent_ledger_env env) (PyStr (''suppressed duplicate: '' @ take 80 message))
         (de_observation d) (de_reasoning d))) (\<lambda>_. ret (Some ''WAIT: suppressed duplicate CALL_HUMAN''))
     else
       bindE (propose_values env \<lparr>pa_tool = ''call_human'', pa_params = [(''message'', de_message d), (''severity'', de_severity d)],
           pa_reason = [], pa_device_group = group_of env ''call_human'', pa_requires_approval = False,
           pa_max_proposal_age_ms = 30000, pa_observation = [], pa_chain_id = None, pa_chain_seq = None\<rparr>
           (de_reasoning d) (de_observation d)) (\<lambda>_.
       bindE (ag_read env ''agent.external_pause'') (\<lambda>paused.
       bindE (if truthy paused then state_delete ''agent.external_pause'' else ret ()) (\<lambda>_.
       bindE (ag_time env) (\<lambda>now.
       bindE (state_publish ''human.pending_callout'' (callout_value hash (PyStr (take 200 message)) now)
           (Some (av_decision_ttl env))) (\<lambda>_.
       bindE (append_to_job_context env ''Issues observed'' (take 200 message)) (\<lambda>_.
       ret (Some (''CALL_HUMAN ['' @ py_str (lv_rt env) (de_severity d) @ '']: '' @ message))))))))))) "

definition route_decision :: "agent_env \<Rightarrow> decision \<Rightarrow> dict \<Rightarrow> (agent5, unit) act" where
  "route_decision env d state =
     bindE (if de_type d = ''ACTION'' then route_action env d
            else if de_type d = ''ACTION_CHAIN'' then route_chain env d
            else if de_type d = ''WAIT'' then route_wait env d state
            else if de_type d = ''CALL_HUMAN'' then route_call_human env d
            else ret None) (\<lambda>summary.
     case summary of None \<Rightarrow> ret () | Some text \<Rightarrow> publish_summary env d text)"

definition set_next_cycle_delay :: "agent_env \<Rightarrow> decision \<Rightarrow> (agent5, unit) act" where
  "set_next_cycle_delay env d = modify (\<lambda>s. s\<lparr>ag_next_delay :=
     (if de_type d = ''WAIT'' then float_max (Fin 0) (de_check_after_s d) else av_poll_interval env)\<rparr>)"

section \<open>One cycle\<close>

fun read_keys :: "agent_env \<Rightarrow> string list \<Rightarrow> (agent5, pyval list) act" where
  "read_keys env [] = ret []"
| "read_keys env (k # ks) = bindE (ag_read env k) (\<lambda>v. bindE (read_keys env ks) (\<lambda>vs. ret (v # vs)))"

definition watched_keys :: "string list" where
  "watched_keys = [''human.intent'', ''human.pending_callout'', ''printer.state'', ''job.phase'', ''vision.status'']"

definition process_feedback :: "agent_env \<Rightarrow> pyval \<Rightarrow> (agent5, unit) act" where
  "process_feedback env raw_intent =
     bindE (liftE (case por raw_intent (PyStr []) of PyStr s \<Rightarrow> Inr (str_strip (str_lower s))
       | v \<Rightarrow> Inl (AttributeError (str_repr (type_name v) @ '' object has no attribute '' @ str_repr ''lower'')))) (\<lambda>intent_text.
     bindE (ag_read env ''agent.awaiting_feedback'') (\<lambda>awaiting.
     if truthy awaiting \<and> intent_text \<in> {''great'', ''ok'', ''failed''} then
       try_except
         (bindE (liftE (case awaiting of
              PyStr s \<Rightarrow> (case json_loads (lv_rt env) s of Some v \<Rightarrow> as_dict v | None \<Rightarrow> Inl (PyExc ''JSONDecodeError'' []))
            | v \<Rightarrow> as_dict v)) (\<lambda>data.
          bindE (remember_now env (''Print feedback: '' @ py_str (lv_rt env) (dget_or data ''filename'' (PyStr ''unknown''))
            @ '' rated '' @ str_repr intent_text @ '' by human'')) (\<lambda>_.
          bindE (state_delete ''agent.awaiting_feedback'') (\<lambda>_.
          modify (\<lambda>s. s\<lparr>ag_last_intent := raw_intent\<rparr>)))))
         (\<lambda>_. ret ())
     else ret ()))"

fun publish_all :: "(string \<times> pyval) list \<Rightarrow> int \<Rightarrow> (agent5, unit) act" where
  "publish_all [] ttl = ret ()"
| "publish_all ((k, v) # kvs) ttl = bindE (state_publish k v (Some ttl)) (\<lambda>_. publish_all kvs ttl)"

text \<open>An action a device pack asks for while the printer is idle; \<open>True\<close>: the cycle ends with it.\<close>

definition auto_decision :: "pyrt \<Rightarrow> dict \<Rightarrow> pyexc + decision" where
  "auto_decision rt a =
     (case map_of a ''tool'' of
        None \<Rightarrow> Inl (KeyError ''tool'')
      | Some tool \<Rightarrow> Inr (post_init ((blank_decision ''ACTION'')\<lparr>de_tool := tool,
          de_params := (case dget_or a ''params'' (PyDict []) of PyDict d \<Rightarrow> d | _ \<Rightarrow> []),
          de_observation := dget_or a ''observation'' (PyStr ''device pack requested auto-action''),
          de_reasoning := dget_or a ''reasoning'' (PyStr (''Auto-action from device pack: '' @ py_str rt tool))\<rparr>)))"

definition auto_action :: "agent_env \<Rightarrow> dict \<Rightarrow> (agent5, bool) act" where
  "auto_action env state =
     try_except
       (bindE (gets ag_cycles) (\<lambda>n.
        bindE (liftE (av_idle env n)) (\<lambda>auto.
        if \<not> truthy auto then ret False
        else bindE (liftE (as_dict auto)) (\<lambda>a.
          bindE (liftE (as_dict (por (pget a ''state_updates'') (PyDict [])))) (\<lambda>updates.
          bindE (publish_all updates (case as_int (dget_or a ''state_ttl'' (PyInt 86400)) of Some i \<Rightarrow> i | None \<Rightarrow> 86400)) (\<lambda>_.
          bindE (liftE (auto_decision (lv_rt env) a)) (\<lambda>d.
          bindE (route_decision env d state) (\<lambda>_.
          bindE (set_next_cycle_delay env d) (\<lambda>_. ret True)))))))))
       (\<lambda>_. ret False)"

definition external_pause_changes :: "string list \<Rightarrow> nat" where
  "external_pause_changes changes = length (filter (\<lambda>c. contains ''printer.state'' c \<and> contains ''PAUSED'' c) changes)"

fun publish_pauses :: "nat \<Rightarrow> (agent5, unit) act" where
  "publish_pauses 0 = ret ()"
| "publish_pauses (Suc n) =
     bindE (state_publish ''agent.external_pause'' (PyStr ''true'') (Some 600)) (\<lambda>_. publish_pauses n)"

text \<open>After the cycle: the intent is consumed, the pause lifted, the image cleared.\<close>

definition consume_inputs :: "agent_env \<Rightarrow> pyval \<Rightarrow> pyval \<Rightarrow> (agent5, unit) act" where
  "consume_inputs env raw_intent human_image =
     bindE (gets ag_last_intent) (\<lambda>last_intent.
     bindE (if truthy raw_intent \<and> \<not> py_eq raw_intent last_intent then
              bindE (modify (\<lambda>s. s\<lparr>ag_last_intent := raw_intent\<rparr>)) (\<lambda>_.
              bindE (state_delete ''human.intent'') (\<lambda>_.
              bindE (ag_read env ''agent.external_pause'') (\<lambda>paused.
              if truthy paused then state_delete ''agent.external_pause'' else ret ())))
            else ret ()) (\<lambda>_.
     if truthy human_image then state_delete ''human.image'' else ret ()))"

definition think_and_route :: "agent_env \<Rightarrow> dict \<Rightarrow> pyval \<Rightarrow> pyval \<Rightarrow> (agent5, unit) act" where
  "think_and_route env state raw_intent human_image =
     bindE (read_keys env watched_keys) (\<lambda>before.
     bindE (gets ag_cycles) (\<lambda>n. case av_llm env n of
       LlmCancelled \<Rightarrow> ret ()
     | LlmRaised e \<Rightarrow> raise e
     | LlmText raw_response \<Rightarrow>
         bindE (read_keys env watched_keys) (\<lambda>now.
         bindE (gets ag_stale_retries) (\<lambda>retries.
         if \<not> py_eq_list before now \<and> retries < 3 then modify (\<lambda>s. s\<lparr>ag_stale_retries := retries + 1\<rparr>)
         else bindE (modify (\<lambda>s. s\<lparr>ag_stale_retries := 0\<rparr>)) (\<lambda>_.
           bindE (liftE (parse_llm_output (lv_rt env) (av_json_error env) (av_bounds env) raw_response
             (dget_or state ''job.phase'' (pget state ''printer.state'')))) (\<lambda>d0.
           bindE (check_cooldown env d0) (\<lambda>d1.
           bindE (gets ag_recent) (\<lambda>recent.
           bindE (liftE (check_oscillation (lv_rt env) d1 recent)) (\<lambda>(d2, recent').
           bindE (modify (\<lambda>s. s\<lparr>ag_recent := recent'\<rparr>)) (\<lambda>_.
           bindE (route_decision env d2 state) (\<lambda>_.
           bindE (set_next_cycle_delay env d2) (\<lambda>_.
           consume_inputs env raw_intent human_image))))))))))))"

definition run_once :: "agent_env \<Rightarrow> (agent5, unit) act" where
  "run_once env =
     bindE (gets ag_cycles) (\<lambda>n.
     bindE (modify (\<lambda>s. s\<lparr>ag_cycles := n + 1\<rparr>)) (\<lambda>_.
     bindE (liftE (av_snapshot env n)) (\<lambda>state.
     bindE (handle_job_phase_transition env state) (\<lambda>_.
     bindE (gets (\<lambda>s. current_episode max_episode_actions max_fallback_episode_actions (ag_ledger s))) (\<lambda>episode.
     bindE (scan_episode_for_rejections env episode) (\<lambda>_.
     bindE (ag_read env ''human.image'') (\<lambda>human_image.
     bindE (ag_read env ''human.intent'') (\<lambda>raw_intent.
     bindE (process_feedback env raw_intent) (\<lambda>_.
     bindE (if dget_or state ''job.phase'' (PyStr ''IDLE'') = PyStr ''IDLE'' then auto_action env state else ret False) (\<lambda>ended.
     if ended then ret ()
     else
       bindE (detect_changes env state episode) (\<lambda>changes.
       bindE (publish_pauses (external_pause_changes changes)) (\<lambda>_.
       bindE (get_pending_callout env) (\<lambda>_.
       think_and_route env state raw_intent human_image)))))))))))))"

text \<open>A round of \<open>run\<close>: the delay until the next cycle.\<close>

definition agent_round :: "agent_env \<Rightarrow> (agent5, pyfloat) act" where
  "agent_round env =
     try_except (bindE (run_once env) (\<lambda>_. gets ag_next_delay))
       (\<lambda>_. bindE (modify (\<lambda>s. s\<lparr>ag_next_delay := av_poll_interval env\<rparr>)) (\<lambda>_. ret (av_poll_interval env)))"

section \<open>What every cycle keeps\<close>

text \<open>What the agent does to the ledger: it proposes for a known tool, or leaves the actions alone.\<close>

definition agent_ledger_step :: "agent_env \<Rightarrow> ledger \<Rightarrow> ledger \<Rightarrow> bool" where
  "agent_ledger_step env l l' \<longleftrightarrow>
     (\<exists>a. (pa_tool a = ''call_human'' \<or> map_of (av_tools env) (pa_tool a) \<noteq> None) \<and> l' = snd (propose (agent_ledger_env env) a l))
     \<or> lg_actions l' = lg_actions l"

definition permitted :: "wb_write \<Rightarrow> bool" where
  "permitted w = (case w of
       WbPublish key _ _ \<Rightarrow> key \<in> set allowed_writes
     | WbDelete key \<Rightarrow> key \<in> set allowed_deletes
     | WbPush key _ _ \<Rightarrow> key \<in> set allowed_lists)"

definition core :: "agent5 \<Rightarrow> ledger \<times> wb_write list \<times> nat" where
  "core s = (ag_ledger s, ag_writes s, ag_stale_retries s)"

lemma preserves_bind_liftE: "(\<And>a. r = Inr a \<Longrightarrow> preserves P (f a)) \<Longrightarrow> preserves P (bindE (liftE r) f)"
  by (cases r) (auto simp: preserves_def bindE_def act_simps)

locale agent_inv =
  fixes env :: agent_env and inv :: "agent5 \<Rightarrow> bool"
  assumes same: "core s' = core s \<Longrightarrow> inv s \<Longrightarrow> inv s'"
    and ledger: "agent_ledger_step env (ag_ledger s) l' \<Longrightarrow> inv s \<Longrightarrow> inv (s\<lparr>ag_ledger := l'\<rparr>)"
    and writing: "permitted w \<Longrightarrow> inv s \<Longrightarrow> inv (s\<lparr>ag_writes := ag_writes s @ [w]\<rparr>)"
    and stale: "n \<le> 3 \<Longrightarrow> inv s \<Longrightarrow> inv (s\<lparr>ag_stale_retries := n\<rparr>)"
begin

lemma modify_same: "(\<And>s. core (f s) = core s) \<Longrightarrow> preserves inv (modify f)"
  by (intro preserves_intros) (rule same)

lemma reads: "preserves inv (ag_read env k)" "preserves inv (ag_stamp env)"
  by (rule preservesI, erule same [rotated], simp add: ag_read_def ag_stamp_def core_def)+

lemma on_ledger_keeps:
  assumes "\<And>l. agent_ledger_step env l (snd (m l))"
  shows "preserves inv (on_ag_ledger m)"
proof (rule preservesI)
  fix s assume "inv s"
  then have "inv (s\<lparr>ag_ledger := snd (m (ag_ledger s))\<rparr>)" by (rule ledger [OF assms])
  then show "inv (snd (on_ag_ledger m s))" by (cases "m (ag_ledger s)") (simp add: on_ag_ledger_def)
qed

lemma quiet_ledger: "(\<And>l. lg_actions (snd (m l)) = lg_actions l) \<Longrightarrow> preserves inv (on_ag_ledger m)"
  by (rule on_ledger_keeps) (simp add: agent_ledger_step_def)

lemma time: "preserves inv (ag_time env)" "preserves inv (new_uuid env)"
  unfolding ag_time_def new_uuid_def by (rule quiet_ledger, simp)+

lemma waiting: "preserves inv (on_ag_ledger (record_wait e r ob re))"
  by (rule quiet_ledger) (simp add: record_wait_def)

lemma proposing:
  assumes "pa_tool a = ''call_human'' \<or> map_of (av_tools env) (pa_tool a) \<noteq> None"
  shows "preserves inv (on_ag_ledger (\<lambda>l. case propose (agent_ledger_env env) a l of (i, l') \<Rightarrow> (Inr i, l')))"
  by (rule on_ledger_keeps) (use assms in \<open>auto simp: agent_ledger_step_def split: prod.split intro!: exI [of _ a]\<close>)

lemma proposing_values:
  assumes "pa_tool a = ''call_human'' \<or> map_of (av_tools env) (pa_tool a) \<noteq> None"
  shows "preserves inv (propose_values env a reason ob)"
  unfolding propose_values_def
proof (rule on_ledger_keeps)
  fix l
  show "agent_ledger_step env l (snd (case (sql_text (lv_rt env) reason, sql_text (lv_rt env) ob) of
         (Some r, Some ob) \<Rightarrow>
           (case propose (agent_ledger_env env) (a\<lparr>pa_reason := r, pa_observation := ob\<rparr>) l of (i, l') \<Rightarrow> (Inr i, l'))
       | _ \<Rightarrow>
           (case propose (agent_ledger_env env) a l of (i, l') \<Rightarrow>
              if lg_actions l' = lg_actions l then (Inr i, l')
              else (Inl (PyExc ''ProgrammingError'' ''Error binding parameter''), l'\<lparr>lg_actions := lg_actions l\<rparr>))))"
  proof (cases "sql_text (lv_rt env) reason = None \<or> sql_text (lv_rt env) ob = None")
    case True
    then show ?thesis by (auto simp: agent_ledger_step_def split: option.split prod.split)
  next
    case False
    then obtain r b where rb: "sql_text (lv_rt env) reason = Some r" "sql_text (lv_rt env) ob = Some b" by auto
    show ?thesis
      unfolding agent_ledger_step_def rb using assms
      by (auto split: prod.split intro!: exI [of _ "a\<lparr>pa_reason := r, pa_observation := b\<rparr>"])
  qed
qed

lemma writes: "preserves inv (state_publish k v ttl)" "preserves inv (state_delete k)" "preserves inv (list_push k v n)"
proof -
  have w: "permitted w \<Longrightarrow> preserves inv (record_write w)" for w
    unfolding record_write_def by (intro preserves_intros writing)
  show "preserves inv (state_publish k v ttl)" unfolding state_publish_def by (intro preserves_intros w) (simp add: permitted_def)
  show "preserves inv (state_delete k)" unfolding state_delete_def by (intro preserves_intros w) (simp add: permitted_def)
  show "preserves inv (list_push k v n)" unfolding list_push_def by (intro preserves_intros w) (simp add: permitted_def)
qed

lemma stale_count: "n \<le> 3 \<Longrightarrow> preserves inv (modify (\<lambda>s. s\<lparr>ag_stale_retries := n\<rparr>))"
  by (intro preserves_intros stale)

lemmas basics = reads time waiting writes

lemma small: "preserves inv bump_job_start" "preserves inv (put_job j)" "preserves inv (modify (\<lambda>s. s\<lparr>ag_observations := f s\<rparr>))"
    "preserves inv (set_next_cycle_delay env d)"
  unfolding bump_job_start_def put_job_def set_next_cycle_delay_def
  by (rule modify_same, simp add: core_def)+

lemma fields: "preserves inv (modify (\<lambda>s. s\<lparr>ag_processed := f s\<rparr>))" "preserves inv (modify (\<lambda>s. s\<lparr>ag_recent := r\<rparr>))"
    "preserves inv (modify (\<lambda>s. s\<lparr>ag_last_intent := v\<rparr>))" "preserves inv (modify (\<lambda>s. s\<lparr>ag_last_phase := v\<rparr>))"
    "preserves inv (modify (\<lambda>s. s\<lparr>ag_prev_state := st\<rparr>))" "preserves inv (modify (\<lambda>s. s\<lparr>ag_cycles := n\<rparr>))"
    "preserves inv (modify (\<lambda>s. s\<lparr>ag_next_delay := d\<rparr>))"
  by (rule modify_same, simp add: core_def)+

lemmas steps = preserves_intros basics small fields

lemma remembering: "preserves inv (remember_now env ob)"
  unfolding remember_now_def by (intro steps)

lemma scan: "preserves inv (scan_episode_for_rejections env ep)"
proof -
  have "preserves inv (scan_rejections env es)" for es
  proof (induction es)
    case (Cons e es)
    then show ?case unfolding scan_rejections.simps by (intro steps)
  qed (simp add: steps)
  then show ?thesis by (simp add: scan_episode_for_rejections_def)
qed

lemma cooldown: "preserves inv (check_cooldown env d)"
  unfolding check_cooldown_def by (intro steps)

lemma job_files: "preserves inv (create_job_context env st)" "preserves inv (patch_job_context_filename env st)"
    "preserves inv (append_to_job_context env sec entry)"
  unfolding create_job_context_def patch_job_context_filename_def append_to_job_context_def or_read_def Let_def
  by (intro steps)+

lemma builtin: "preserves inv (propose_builtin env ps r ob)"
  unfolding propose_builtin_def by (intro steps proposing) simp

lemma archive: "preserves inv (archive_job_context env)"
  unfolding archive_job_context_def Let_def by (intro steps builtin remembering)

lemma phase: "preserves inv (handle_job_phase_transition env st)"
  unfolding handle_job_phase_transition_def Let_def by (intro steps job_files archive)

lemma changes: "preserves inv (detect_changes env cur ep)"
proof -
  have "preserves inv (is_agent_caused env ts es)" for ts es
    unfolding is_agent_caused_def by (intro steps)
  then have "preserves inv (detect_keys env ps cs es effects)" for ps cs es effects
    by (induction effects) (auto simp: Let_def intro!: steps)
  then show ?thesis unfolding detect_changes_def by (intro steps)
qed

lemma summary: "preserves inv (publish_summary env d t)"
  unfolding publish_summary_def by (intro steps)

lemma tool_proposing:
  assumes "map_of (av_tools env) name = Some t"
  shows "preserves inv (propose_values env (tool_args env name t ps c) r ob)"
  by (rule proposing_values) (simp add: tool_args_def assms)

lemma action: "preserves inv (route_action env d)"
  unfolding route_action_def
proof (rule preserves_bind_liftE)
  fix found assume f: "find_tool (av_tools env) (de_tool d) = Inr found"
  show "preserves inv (case (found, de_tool d) of
       (Some t, PyStr name) \<Rightarrow>
         bindE (propose_values env (tool_args env name t (de_params d) None) (de_reason d) (de_observation d)) (\<lambda>_.
         bindE (append_to_job_context env ''Adjustments made'' (name @ ''('' @ json_dumps (lv_rt env) (PyDict (de_params d))
           @ '')'' @ dash @ py_str (lv_rt env) (de_reasoning d))) (\<lambda>_.
         ret (Some (''ACTION: '' @ name @ dash @ py_str (lv_rt env) (de_reasoning d)))))
     | _ \<Rightarrow> ret None)"
    using f by (cases found; cases "de_tool d") (auto simp: find_tool_def intro!: steps tool_proposing job_files)
qed

lemma chain: "preserves inv (route_chain env d)"
proof -
  have "preserves inv (propose_chain env d c i as)" for c i as
  proof (induction as arbitrary: i)
    case (Cons a as)
    show ?case
    proof (cases "\<exists>name t. pget a ''tool'' = PyStr name \<and> find_tool (av_tools env) (PyStr name) = Inr (Some t)")
      case True
      then show ?thesis using Cons.IH by (auto simp: find_tool_def intro!: steps tool_proposing)
    next
      case False
      then show ?thesis by (auto simp: intro!: steps split: pyval.split sum.split option.split)
    qed
  qed (simp add: steps)
  then show ?thesis unfolding route_chain_def by (intro steps)
qed

lemma wait: "preserves inv (route_wait env d st)"
  unfolding route_wait_def by (intro steps job_files) (auto intro!: steps job_files split: pyval.split)

lemma call_human: "preserves inv (route_call_human env d)"
  unfolding route_call_human_def get_pending_callout_def Let_def
  by (intro steps proposing_values job_files) simp

lemma route: "preserves inv (route_decision env d st)"
  unfolding route_decision_def by (intro steps action chain wait call_human summary)

lemma keys: "preserves inv (read_keys env ks)"
  by (induction ks) (simp_all, (intro steps | assumption)+)

lemma feedback: "preserves inv (process_feedback env v)"
  unfolding process_feedback_def by (intro steps remembering)

lemma auto: "preserves inv (auto_action env st)"
proof -
  have "preserves inv (publish_all kvs ttl)" for kvs ttl
    by (induction kvs ttl rule: publish_all.induct) (simp_all, (intro steps | assumption)+)
  then show ?thesis unfolding auto_action_def by (intro steps route)
qed

lemma pauses: "preserves inv (publish_pauses n)"
  by (induction n) (simp_all, (intro steps | assumption)+)

lemma consume: "preserves inv (consume_inputs env v w)"
  unfolding consume_inputs_def by (intro steps)

lemma think: "preserves inv (think_and_route env st v w)"
  unfolding think_and_route_def
  by (intro steps keys) (auto intro!: steps keys stale_count cooldown route consume split: llm_answer.split)

lemma round: "preserves inv (agent_round env)"
  unfolding agent_round_def run_once_def get_pending_callout_def
  by (intro steps phase scan feedback auto changes pauses think)

end

definition plain_agent :: "agent_env \<Rightarrow> bool" where
  "plain_agent env \<longleftrightarrow> (\<forall>x. plain (lv_sha env x)) \<and> (\<forall>name t. map_of (av_tools env) name = Some t \<longrightarrow> plain name)"

lemma plain_take: "plain s \<Longrightarrow> plain (take n s)"
  unfolding plain_def using in_set_takeD by fastforce

lemma agent_ledger_ok:
  assumes "agent_ledger_step env l l'" and "plain_agent env" and "ledger_ok l"
  shows "ledger_ok l'"
proof -
  have "plain_args (agent_ledger_env env) a"
    if "pa_tool a = ''call_human'' \<or> map_of (av_tools env) (pa_tool a) \<noteq> None" for a
  proof -
    have "plain (pa_tool a)" using that assms(2) by (auto simp: plain_agent_def plain_def)
    moreover have "plain (lv_sha (agent_ledger_env env) x)" for x
      using assms(2) by (simp add: plain_agent_def agent_ledger_env_def ledger_env.truncate_def)
    ultimately show ?thesis by (simp add: plain_args_def params_hash_def plain_take)
  qed
  then show ?thesis
    using assms(1,3) propose_ok ledger_ok_actions unfolding agent_ledger_step_def by blast
qed

interpretation wr: agent_inv env "\<lambda>s. \<forall>w\<in>set (ag_writes s). permitted w" for env
  by unfold_locales (auto simp: core_def)

interpretation st: agent_inv env "\<lambda>s. ag_stale_retries s \<le> 3" for env
  by unfold_locales (auto simp: core_def)

interpretation lo: agent_inv env "\<lambda>s. plain_agent env \<longrightarrow> ledger_ok (ag_ledger s)" for env
  by unfold_locales (auto simp: core_def intro: agent_ledger_ok)

fun agent_rounds :: "agent_env \<Rightarrow> nat \<Rightarrow> agent5 \<Rightarrow> agent5" where
  "agent_rounds env 0 s = s"
| "agent_rounds env (Suc n) s = agent_rounds env n (snd (agent_round env s))"

lemma rounds_keep:
  assumes "preserves P (agent_round env)"
  shows "P s \<Longrightarrow> P (agent_rounds env n s)"
  using assms by (induction n arbitrary: s) (simp_all add: preserves_def)

definition fresh_agent :: agent5 where
  "fresh_agent = \<lparr>ag_ledger = empty_ledger, ag_writes = [], ag_reads = 0, ag_cycles = 0, ag_stamps = 0, ag_recent = [],
     ag_processed = [], ag_stale_retries = 0, ag_last_intent = PyNone, ag_last_phase = PyNone, ag_next_delay = Fin 5,
     ag_job = None, ag_prev_state = None, ag_observations = None, ag_job_starts = 0\<rparr>"


section \<open>No flip-flop\<close>

text \<open>The decisions a sequence of parsed decisions turns into; one that raises is lost.\<close>

fun guarded :: "pyrt \<Rightarrow> decision list \<Rightarrow> string list \<Rightarrow> decision list" where
  "guarded rt [] recent = []"
| "guarded rt (d # ds) recent = (case check_oscillation rt d recent of
     Inl _ \<Rightarrow> guarded rt ds recent | Inr (d', recent') \<Rightarrow> d' # guarded rt ds recent')"

definition acts :: "decision \<Rightarrow> bool" where
  "acts d \<longleftrightarrow> de_type d \<in> {''ACTION'', ''ACTION_CHAIN''}"

definition act_key :: "pyrt \<Rightarrow> decision \<Rightarrow> string" where
  "act_key rt d = (case decision_key rt d of Inr k \<Rightarrow> k | Inl _ \<Rightarrow> [])"

lemma guarded_Cons:
  "guarded rt ds r = d' # os \<Longrightarrow> \<exists>d r' ds'. check_oscillation rt d r = Inr (d', r') \<and> guarded rt ds' r' = os"
proof (induction ds arbitrary: r)
  case (Cons d ds)
  then show ?case
  proof (cases "check_oscillation rt d r")
    case (Inr p)
    then show ?thesis using Cons.prems by (cases p) auto
  qed simp
qed simp

lemma guarded_act:
  assumes "check_oscillation rt d r = Inr (d', r')" and "acts d'"
  shows "\<not> oscillates (act_key rt d') r \<and> r' = push_recent (act_key rt d') r"
proof -
  from assms(1) obtain key where k: "decision_key rt d = Inr key" by (auto simp: check_oscillation_def bindR_eq_Inr)
  have "de_type (oscillation_wait d) = ''WAIT''" by (simp add: oscillation_wait_def)
  then have "d' = d \<and> \<not> oscillates key r \<and> r' = push_recent key r"
    using assms k by (auto simp: check_oscillation_def acts_def split: if_splits)
  then show ?thesis using k by (simp add: act_key_def)
qed

lemma act_key_no_wait: "acts d \<Longrightarrow> decision_key rt d = Inr k \<Longrightarrow> \<not> starts_with ''WAIT:'' k"
  by (auto simp: acts_def decision_key_def split: list.splits pyval.splits)

lemma push_twice: "push_recent k2 (push_recent k1 r) = [k1, k2]"
proof -
  have "drop (length r - 1) (r @ [k1]) = drop (length r - 1) r @ [k1]" by simp
  then have p: "push_recent k1 r = drop (length r - 1) r @ [k1]" by (simp add: push_recent_def)
  have "length (drop (length r - 1) r) \<le> 1" by simp
  then obtain xs where "drop (length r - 1) r = xs" "xs = [] \<or> (\<exists>x. xs = [x])"
    by (metis One_nat_def Suc_le_length_iff le_SucE le_zero_eq length_0_conv length_Suc_conv)
  then show ?thesis unfolding p by (auto simp: push_recent_def)
qed

lemma guarded_head:
  assumes "guarded rt ds r = d1 # d2 # d3 # os" and "acts d1" and "acts d2" and "acts d3"
  shows "\<not> (act_key rt d1 = act_key rt d3 \<and> act_key rt d1 \<noteq> act_key rt d2)"
proof -
  from guarded_Cons [OF assms(1)] obtain e1 r1 ds1 where 1: "check_oscillation rt e1 r = Inr (d1, r1)" "guarded rt ds1 r1 = d2 # d3 # os" by blast
  from guarded_Cons [OF 1(2)] obtain e2 r2 ds2 where 2: "check_oscillation rt e2 r1 = Inr (d2, r2)" "guarded rt ds2 r2 = d3 # os" by blast
  from guarded_Cons [OF 2(2)] obtain e3 r3 where 3: "check_oscillation rt e3 r2 = Inr (d3, r3)" by blast
  have r2: "r2 = [act_key rt d1, act_key rt d2]"
    using guarded_act [OF 1(1) assms(2)] guarded_act [OF 2(1) assms(3)] push_twice by simp
  have "\<not> starts_with ''WAIT:'' (act_key rt d2)"
  proof -
    from 2(1) assms(3) have "decision_key rt d2 = Inr (act_key rt d2)"
      by (auto simp: check_oscillation_def bindR_eq_Inr act_key_def acts_def oscillation_wait_def split: if_splits)
    then show ?thesis by (rule act_key_no_wait [OF assms(3)])
  qed
  then show ?thesis using guarded_act [OF 3 assms(4)] by (auto simp: r2 oscillates_def)
qed

text \<open>
  C19: After the guard no action is followed by a different one and then by the first again: among the decisions
  that are routed there is no flip-flop of three consecutive actions.
\<close>

theorem no_flip_flop:
  assumes "i + 2 < length (guarded rt ds r)"
    and "acts (guarded rt ds r ! i)" and "acts (guarded rt ds r ! (i + 1))" and "acts (guarded rt ds r ! (i + 2))"
    and "act_key rt (guarded rt ds r ! i) = act_key rt (guarded rt ds r ! (i + 2))"
  shows "act_key rt (guarded rt ds r ! (i + 1)) = act_key rt (guarded rt ds r ! i)"
  using assms
proof (induction i arbitrary: ds r)
  case 0
  then obtain d1 d2 d3 os where g: "guarded rt ds r = d1 # d2 # d3 # os"
    by (cases "guarded rt ds r"; cases "tl (guarded rt ds r)"; cases "tl (tl (guarded rt ds r))") auto
  then show ?case using guarded_head [OF g] 0 by (auto simp: numeral_2_eq_2)
next
  case (Suc i)
  then obtain d1 os where g: "guarded rt ds r = d1 # os" by (cases "guarded rt ds r") auto
  from guarded_Cons [OF g] obtain ds' r' where "guarded rt ds' r' = os" by blast
  with Suc.IH [of ds' r'] Suc.prems show ?case by (simp add: g)
qed

section \<open>Where the guards surprise\<close>

lemma not_approved_is_no_human: "\<not> is_human_rejection ''not approved by operator''"
proof -
  have "contains ''not approved'' (str_lower ''not approved by operator'')" by code_simp
  moreover have "''not approved'' \<in> set rejection_patterns" by (simp add: rejection_patterns_def)
  ultimately show ?thesis unfolding is_human_rejection_def by blast
qed

lemma estop_is_human: "is_human_rejection ''blocked by safety.estop''"
  by code_simp

text \<open>
  The cooldown that should follow a human's rejection never does: the engine records every rejection of an
  operator as \<open>not approved by operator\<close>, which the scan takes for the engine's own, while a rejection by the
  emergency stop counts as a human's.
\<close>

theorem human_rejection_no_cooldown:
  assumes "\<forall>e\<in>set episode. lr_status e = LRejected \<longrightarrow> lr_error e = Some (reason_error ''not approved by operator'')"
  shows "ag_writes (snd (scan_episode_for_rejections env episode s)) = ag_writes s
    \<and> \<not> is_human_rejection ''not approved by operator'' \<and> is_human_rejection ''blocked by safety.estop''"
proof -
  have quiet: "human_rejected (extract_rejection_reason (lv_rt env) e) = Inr False"
    if "lr_error e = Some (reason_error ''not approved by operator'')" for e
    using that not_approved_is_no_human by (simp add: extract_rejection_reason_def reason_error_def por_def)
  have "ag_writes (snd (scan_rejections env es s)) = ag_writes s"
    if "\<forall>e\<in>set es. lr_status e = LRejected \<longrightarrow> lr_error e = Some (reason_error ''not approved by operator'')" for es s
    using that
  proof (induction es arbitrary: s)
    case (Cons e es)
    have IH: "ag_writes (snd (scan_rejections env es s')) = ag_writes s'" for s' using Cons by simp
    show ?case
    proof (cases "lr_status e = LRejected")
      case True
      then have "human_rejected (extract_rejection_reason (lv_rt env) e) = Inr False" using Cons.prems quiet by simp
      then show ?thesis by (auto simp: act_simps IH)
    next
      case False
      then show ?thesis by (simp add: act_simps IH)
    qed
  qed (simp add: act_simps)
  then show ?thesis using assms not_approved_is_no_human estop_is_human
    by (simp add: scan_episode_for_rejections_def)
qed

definition sample_agent_env :: agent_env where
  "sample_agent_env = \<lparr>lv_rt = sample_rt\<lparr>json_loads := (\<lambda>_. Some (PyDict [(''type'', PyStr ''ACTION''), (''tool'', PyStr ''home'')]))\<rparr>,
     lv_sha = (\<lambda>_. ''0a''), lv_time = of_nat, lv_mono = of_nat, lv_uuid = (\<lambda>n. replicate n CHR ''u''),
     av_tools = xv_tools sample_engine_env, av_json_error = (\<lambda>_. []), av_bounds = default_intervals,
     av_read = (\<lambda>_ _. Inr PyNone), av_snapshot = (\<lambda>_. Inr [(''job.phase'', PyStr ''IDLE'')]), av_llm = (\<lambda>_. LlmText ''x''),
     av_idle = (\<lambda>_. Inr (PyDict [(''tool'', PyStr ''start_print''), (''state_updates'', PyDict [(''print.queue'', PyList [])])])),
     av_job_context = (\<lambda>_. []), av_stamp = (\<lambda>_. ''12:00:00''), av_md5 = (\<lambda>s. s), av_poll_interval = Fin 5, av_decision_ttl = 600\<rparr>"

lemma plain_sample_agent: "plain_agent sample_agent_env"
  by (auto simp: plain_agent_def sample_agent_env_def sample_engine_env_def plain_def)


definition act_on :: "string \<Rightarrow> decision" where
  "act_on tool = (blank_decision ''ACTION'')\<lparr>de_tool := PyStr tool\<rparr>"

lemma no_flip_flop_witness:
  "act_key sample_rt (guarded sample_rt [act_on ''a'', act_on ''a'', act_on ''a''] [] ! (0 + 1))
   = act_key sample_rt (guarded sample_rt [act_on ''a'', act_on ''a'', act_on ''a''] [] ! 0)"
proof -
  have g: "guarded sample_rt [act_on ''a'', act_on ''a'', act_on ''a''] [] = [act_on ''a'', act_on ''a'', act_on ''a'']" by code_simp
  have a: "acts (act_on ''a'')" by (simp add: acts_def act_on_def blank_decision_def)
  show ?thesis by (rule no_flip_flop) (simp_all only: g, simp_all add: a)
qed

lemma human_rejection_no_cooldown_witness:
  "ag_writes (snd (scan_episode_for_rejections sample_agent_env
     [(sample_row ''home'' True)\<lparr>lr_action_id := ''u'', lr_status := LRejected, lr_error := Some (reason_error ''not approved by operator'')\<rparr>]
     fresh_agent)) = []"
  using human_rejection_no_cooldown [of "[(sample_row ''home'' True)\<lparr>lr_action_id := ''u'', lr_status := LRejected,
      lr_error := Some (reason_error ''not approved by operator'')\<rparr>]" sample_agent_env fresh_agent]
  by (simp add: fresh_agent_def)

text \<open>A chain that uses a tool twice with the same parameters loses the second use: three steps give two rows.\<close>

definition home_step :: "string \<Rightarrow> dict" where
  "home_step tool = [(''tool'', PyStr tool), (''params'', PyDict [])]"

lemma chain_repeat_lost:
  "map lr_tool (lg_actions (ag_ledger (snd (route_chain sample_agent_env ((blank_decision ''ACTION_CHAIN'')\<lparr>de_actions :=
     [home_step ''home'', home_step ''pause_print'', home_step ''home'']\<rparr>) fresh_agent)))) = [''home'', ''pause_print'']"
  by code_simp

text \<open>A queued print whose start cannot be proposed is taken from the queue all the same.\<close>

lemma queue_entry_lost:
  "ag_writes (snd (auto_action sample_agent_env [] fresh_agent)) = [WbPublish ''print.queue'' (PyList []) (Some 86400)]
   \<and> lg_actions (ag_ledger (snd (auto_action sample_agent_env [] fresh_agent))) = []"
  by code_simp

end
