(* ===== verification/Watchdog5.thy ===== *)
theory Watchdog5
  imports Prelude
begin

text \<open>
  The safety side of the agent under \<open>src/wallee/safety\<close>: the direct stop transport (\<open>estop.py\<close>), the in-process
  kernel (\<open>kernel.py\<close>) and the kernel that runs as its own process (\<open>kernel_main.py\<close>).  The HTTP transport, the
  whiteboard and the monotonic clock are answered by the environment: the n-th request, read or reading.  The
  loops sleep between rounds and log; neither is modelled.
\<close>

section \<open>The stop transport\<close>

record stop_request =
  sr_method :: string
  sr_url :: string
  sr_json :: pyval
  sr_headers :: dict

datatype http_answer = Status int | HttpRaised string

definition default_primary :: dict where
  "default_primary = [(''method'', PyStr ''POST''), (''path'', PyStr ''/api/v1/gcode''),
     (''json'', PyDict [(''command'', PyStr ''M25'')])]"

definition default_fallback :: dict where
  "default_fallback = [(''method'', PyStr ''DELETE''), (''path'', PyStr ''/api/v1/job'')]"

definition stop_base :: "string \<Rightarrow> string" where
  "stop_base host = (if starts_with ''http'' host then host else ''http://'' @ host)"

definition build_request :: "pyrt \<Rightarrow> string \<Rightarrow> string \<Rightarrow> string \<Rightarrow> dict \<Rightarrow> stop_request" where
  "build_request rt host api_key method_default r =
     \<lparr>sr_method = str_upper (py_str rt (dget_or r ''method'' (PyStr method_default))),
      sr_url = stop_base host @ py_str rt (dget_or r ''path'' (PyStr [])), sr_json = pget r ''json'',
      sr_headers = (if api_key \<noteq> [] then [(''X-Api-Key'', PyStr api_key)] else [])\<rparr>"

text \<open>The requests that are sent, and whether the stop went through; \<open>n\<close> requests were sent before.\<close>

definition stop_ok :: "http_answer \<Rightarrow> bool" where
  "stop_ok a = (case a of Status s \<Rightarrow> s < 300 | HttpRaised _ \<Rightarrow> False)"

definition estop_printer ::
    "pyrt \<Rightarrow> (nat \<Rightarrow> stop_request \<Rightarrow> http_answer) \<Rightarrow> string \<Rightarrow> string \<Rightarrow> dict option \<Rightarrow> dict option \<Rightarrow> nat
     \<Rightarrow> bool \<times> stop_request list" where
  "estop_printer rt http host api_key primary_request fallback_request n =
     (if host = [] then (False, [])
      else let primary = (case primary_request of Some (p # ps) \<Rightarrow> p # ps | _ \<Rightarrow> default_primary);
               fallback = (case fallback_request of Some (p # ps) \<Rightarrow> p # ps | _ \<Rightarrow> default_fallback);
               r1 = build_request rt host api_key ''POST'' primary;
               r2 = build_request rt host api_key ''DELETE'' fallback
           in if stop_ok (http n r1) then (True, [r1]) else (stop_ok (http (n + 1) r2), [r1, r2]))"

text \<open>
  The stop succeeds exactly when one of the two requests is answered below 300; the second is sent only after the
  first has failed.
\<close>

lemma estop_printer_result:
  assumes "host \<noteq> []"
  obtains r1 r2 where "estop_printer rt http host key p f n =
    (stop_ok (http n r1) \<or> stop_ok (http (n + 1) r2), if stop_ok (http n r1) then [r1] else [r1, r2])"
proof -
  define r1 where "r1 = build_request rt host key ''POST'' (case p of Some (x # xs) \<Rightarrow> x # xs | _ \<Rightarrow> default_primary)"
  define r2 where "r2 = build_request rt host key ''DELETE'' (case f of Some (x # xs) \<Rightarrow> x # xs | _ \<Rightarrow> default_fallback)"
  have "estop_printer rt http host key p f n =
      (if stop_ok (http n r1) then (True, [r1]) else (stop_ok (http (n + 1) r2), [r1, r2]))"
    unfolding r1_def r2_def using assms by (simp only: estop_printer_def Let_def if_False)
  then show ?thesis using that [of r1 r2] by (cases "stop_ok (http n r1)") simp_all
qed

section \<open>The kernel process\<close>

record monitor =
  mo_key :: string
  mo_label :: string

record kernel_env =
  ke_rt :: pyrt
  ke_http :: "nat \<Rightarrow> stop_request \<Rightarrow> http_answer"
  ke_get :: "nat \<Rightarrow> string \<Rightarrow> pyexc + string option"
  ke_mono :: "nat \<Rightarrow> rat"
  ke_heartbeat_timeout :: rat
  ke_host :: string
  ke_api_key :: string
  ke_primary :: "dict option"
  ke_fallback :: "dict option"
  ke_monitors :: "monitor list"

record kernel_state =
  kn_agent_alerted :: bool
  kn_engine_alerted :: bool
  kn_fault_alerted :: "(string \<times> bool) list"
  kn_estop_alerted :: bool
  kn_boot_time :: rat
  kn_sent :: "stop_request list"
  kn_flags :: "(string \<times> string \<times> nat) list"
  kn_reads :: nat
  kn_monos :: nat

definition boot_grace_s :: rat where "boot_grace_s = 15"

definition redis_get :: "kernel_env \<Rightarrow> string \<Rightarrow> (kernel_state, string option) act" where
  "redis_get env key s = (ke_get env (kn_reads s) key, s\<lparr>kn_reads := kn_reads s + 1\<rparr>)"

definition redis_set :: "string \<Rightarrow> string \<Rightarrow> nat \<Rightarrow> (kernel_state, unit) act" where
  "redis_set key v ex = modify (\<lambda>s. s\<lparr>kn_flags := kn_flags s @ [(key, v, ex)]\<rparr>)"

definition read_clock :: "kernel_env \<Rightarrow> (kernel_state, rat) act" where
  "read_clock env s = (Inr (ke_mono env (kn_monos s)), s\<lparr>kn_monos := kn_monos s + 1\<rparr>)"

definition kernel_stop :: "kernel_env \<Rightarrow> (kernel_state, unit) act" where
  "kernel_stop env = modify (\<lambda>s. s\<lparr>kn_sent := kn_sent s @ (if ke_host env = [] then [] else
     snd (estop_printer (ke_rt env) (ke_http env) (ke_host env) (ke_api_key env) (ke_primary env) (ke_fallback env)
       (length (kn_sent s))))\<rparr>)"

definition flag_active :: "string option \<Rightarrow> bool" where
  "flag_active raw = (case raw of None \<Rightarrow> False | Some v \<Rightarrow> v \<noteq> [] \<and> v \<noteq> ''false'')"

definition check_estop :: "kernel_env \<Rightarrow> (kernel_state, unit) act" where
  "check_estop env =
     bindE (redis_get env ''safety.estop'') (\<lambda>estop_raw.
     if flag_active estop_raw then
       bindE (gets kn_estop_alerted) (\<lambda>alerted.
       if alerted then ret ()
       else bindE (kernel_stop env) (\<lambda>_. modify (\<lambda>s. s\<lparr>kn_estop_alerted := True\<rparr>)))
     else modify (\<lambda>s. s\<lparr>kn_estop_alerted := False\<rparr>))"

text \<open>One heartbeat: its key, the flag that is raised, and where the alert is remembered.\<close>

definition check_heartbeat ::
    "kernel_env \<Rightarrow> bool \<Rightarrow> string \<Rightarrow> string \<Rightarrow> (kernel_state \<Rightarrow> bool) \<Rightarrow> (bool \<Rightarrow> kernel_state \<Rightarrow> kernel_state)
     \<Rightarrow> (kernel_state, unit) act" where
  "check_heartbeat env in_grace key flag get_alert put_alert =
     bindE (redis_get env key) (\<lambda>hb.
     case hb of
       None \<Rightarrow>
         bindE (gets get_alert) (\<lambda>alerted.
         if \<not> alerted \<and> \<not> in_grace then bindE (redis_set flag ''true'' 60) (\<lambda>_. modify (put_alert True)) else ret ())
     | Some raw \<Rightarrow>
         bindE (read_clock env) (\<lambda>now.
         case float_parse (ke_rt env) raw of
           None \<Rightarrow> ret ()
         | Some t \<Rightarrow>
             if float_less (Fin (ke_heartbeat_timeout env)) (float_sub (Fin now) t) then
               bindE (gets get_alert) (\<lambda>alerted.
               if \<not> alerted then bindE (redis_set flag ''true'' 60) (\<lambda>_. modify (put_alert True)) else ret ())
             else modify (put_alert False)))"

definition fault_active :: "string option \<Rightarrow> bool" where
  "fault_active raw = (case raw of None \<Rightarrow> False | Some v \<Rightarrow> v \<noteq> [] \<and> v \<noteq> ''0'')"

definition check_monitor :: "kernel_env \<Rightarrow> monitor \<Rightarrow> (kernel_state, unit) act" where
  "check_monitor env m =
     bindE (if mo_key m \<noteq> [] then redis_get env (mo_key m) else ret None) (\<lambda>raw.
     if fault_active raw then
       bindE (gets (\<lambda>s. dget_or (kn_fault_alerted s) (mo_key m) False)) (\<lambda>alerted.
       if alerted then ret ()
       else bindE (kernel_stop env) (\<lambda>_. modify (\<lambda>s. s\<lparr>kn_fault_alerted := dset (mo_key m) True (kn_fault_alerted s)\<rparr>)))
     else modify (\<lambda>s. s\<lparr>kn_fault_alerted := dset (mo_key m) False (kn_fault_alerted s)\<rparr>))"

fun check_monitors :: "kernel_env \<Rightarrow> monitor list \<Rightarrow> (kernel_state, unit) act" where
  "check_monitors env [] = ret ()"
| "check_monitors env (m # ms) = bindE (check_monitor env m) (\<lambda>_. check_monitors env ms)"

definition kernel_checks :: "kernel_env \<Rightarrow> (kernel_state, unit) act" where
  "kernel_checks env =
     bindE (read_clock env) (\<lambda>now.
     bindE (gets kn_boot_time) (\<lambda>boot.
     let in_grace = now - boot < boot_grace_s in
     bindE (check_estop env) (\<lambda>_.
     bindE (check_heartbeat env in_grace ''agent.heartbeat'' ''safety.agent_stale'' kn_agent_alerted
              (\<lambda>b s. s\<lparr>kn_agent_alerted := b\<rparr>)) (\<lambda>_.
     bindE (check_heartbeat env in_grace ''engine.heartbeat'' ''safety.engine_stale'' kn_engine_alerted
              (\<lambda>b s. s\<lparr>kn_engine_alerted := b\<rparr>)) (\<lambda>_.
     check_monitors env (ke_monitors env))))))"

text \<open>A round of the endless loop: whatever a check raises, the loop goes on.\<close>

definition kernel_round :: "kernel_env \<Rightarrow> kernel_state \<Rightarrow> kernel_state" where
  "kernel_round env s = snd (try_except (kernel_checks env) (\<lambda>_. ret ()) s)"

fun kernel_rounds :: "kernel_env \<Rightarrow> nat \<Rightarrow> kernel_state \<Rightarrow> kernel_state" where
  "kernel_rounds env 0 s = s"
| "kernel_rounds env (Suc n) s = kernel_rounds env n (kernel_round env s)"

definition kernel_start :: "kernel_env \<Rightarrow> kernel_state" where
  "kernel_start env = \<lparr>kn_agent_alerted = False, kn_engine_alerted = False, kn_fault_alerted = [],
     kn_estop_alerted = False, kn_boot_time = ke_mono env 0, kn_sent = [], kn_flags = [], kn_reads = 0, kn_monos = 1\<rparr>"

section \<open>The kernel in the process\<close>

record kernel5_env =
  sv_rt :: pyrt
  sv_http :: "nat \<Rightarrow> stop_request \<Rightarrow> http_answer"
  sv_read :: "nat \<Rightarrow> string \<Rightarrow> pyval"
  sv_mono :: "nat \<Rightarrow> rat"
  sv_timeout :: rat
  sv_host :: string
  sv_api_key :: string
  sv_primary :: "dict option"
  sv_fallback :: "dict option"
  sv_monitors :: "monitor list"

record kernel5 =
  k5_agent_alerted :: bool
  k5_engine_alerted :: bool
  k5_fault_alerted :: "(string \<times> bool) list"
  k5_estop_alerted :: bool
  k5_boot_time :: rat
  k5_reads :: nat
  k5_monos :: nat
  k5_sent :: "stop_request list"
  k5_called :: "(string \<times> string) list"

record kernel5_status =
  agent_ok :: bool
  engine_ok :: bool
  overcurrent_ok :: bool
  estop_ok :: bool

definition boot_grace5_s :: rat where "boot_grace5_s = 10"

definition k5_read :: "kernel5_env \<Rightarrow> string \<Rightarrow> kernel5 \<Rightarrow> pyval \<times> kernel5" where
  "k5_read env key s = (sv_read env (k5_reads s) key, s\<lparr>k5_reads := k5_reads s + 1\<rparr>)"

definition k5_call :: "string \<Rightarrow> kernel5 \<Rightarrow> kernel5" where
  "k5_call msg s = s\<lparr>k5_called := k5_called s @ [(msg, ''critical'')]\<rparr>"

text \<open>
  One heartbeat of \<open>check_once\<close>: the verdict, whether the alert is on afterwards, and the message to the human.
  A heartbeat that is no number raises in the subtraction.
\<close>

definition heartbeat5 ::
    "kernel5_env \<Rightarrow> string \<Rightarrow> bool \<Rightarrow> bool \<Rightarrow> rat \<Rightarrow> pyval \<Rightarrow> pyexc + (bool \<times> bool \<times> string option)" where
  "heartbeat5 env name in_grace alerted now hb =
     (if hb = PyNone then
        (if \<not> alerted \<and> \<not> in_grace then Inr (False, True, Some (name @ '' heartbeat lost (key missing or expired)''))
         else Inr (False, alerted, None))
      else case num_of hb of
        None \<Rightarrow> Inl (TypeError (''unsupported operand type(s) for -: '' @ str_repr ''float'' @ '' and '' @ str_repr (type_name hb)))
      | Some t \<Rightarrow>
          let age = float_sub (Fin now) t in
          if float_less (Fin (sv_timeout env)) age then
            Inr (False, True, if alerted then None else Some (name @ '' heartbeat stale ('' @ float_fixed (sv_rt env) 1 age
              @ ''s old, timeout='' @ float_repr (sv_rt env) (Fin (sv_timeout env)) @ ''s)''))
          else Inr (True, False, None))"

definition told5 :: "string option \<Rightarrow> kernel5 \<Rightarrow> kernel5" where
  "told5 msg s = (case msg of None \<Rightarrow> s | Some m \<Rightarrow> k5_call m s)"

definition monitor5 :: "kernel5_env \<Rightarrow> monitor \<Rightarrow> bool \<times> kernel5 \<Rightarrow> bool \<times> kernel5" where
  "monitor5 env m acc =
     (let (ok, s0) = acc;
          (raw, s) = (if mo_key m \<noteq> [] then k5_read env (mo_key m) s0 else (PyNone, s0)) in
      if raw \<noteq> PyNone \<and> \<not> py_eq raw (PyInt 0) then
        (False, if dget_or (k5_fault_alerted s) (mo_key m) False then s
                else (k5_call (''SAFETY FAULT DETECTED: '' @ mo_label m @ '' ('' @ mo_key m @ ''='' @ py_str (sv_rt env) raw @ '').'') s)
                       \<lparr>k5_fault_alerted := dset (mo_key m) True (k5_fault_alerted s)\<rparr>)
      else (ok, s\<lparr>k5_fault_alerted := dset (mo_key m) False (k5_fault_alerted s)\<rparr>))"

definition estop5 :: "kernel5_env \<Rightarrow> kernel5 \<Rightarrow> bool \<times> kernel5" where
  "estop5 env s0 =
     (let (flag, s) = k5_read env ''safety.estop'' s0 in
      if truthy flag then
        (False, if k5_estop_alerted s then s
                else (k5_call ''ESTOP ACTIVATED - stop request sent. Manual intervention required.''
                   (s\<lparr>k5_sent := k5_sent s @ snd (estop_printer (sv_rt env) (sv_http env) (sv_host env) (sv_api_key env)
                        (sv_primary env) (sv_fallback env) (length (k5_sent s)))\<rparr>))\<lparr>k5_estop_alerted := True\<rparr>)
      else (True, s\<lparr>k5_estop_alerted := False\<rparr>))"

definition check_once :: "kernel5_env \<Rightarrow> (kernel5, kernel5_status) act" where
  "check_once env s0 =
     (let in_grace = sv_mono env (k5_monos s0) - k5_boot_time s0 < boot_grace5_s;
          now = sv_mono env (k5_monos s0 + 1);
          (ahb, s1) = k5_read env ''agent.heartbeat'' (s0\<lparr>k5_monos := k5_monos s0 + 2\<rparr>)
      in case heartbeat5 env ''Agent'' in_grace (k5_agent_alerted s1) now ahb of
           Inl e \<Rightarrow> (Inl e, s1)
         | Inr (aok, aal, amsg) \<Rightarrow>
             let s2 = (told5 amsg s1)\<lparr>k5_agent_alerted := aal\<rparr>; (ehb, s3) = k5_read env ''engine.heartbeat'' s2
             in case heartbeat5 env ''Engine'' in_grace (k5_engine_alerted s3) now ehb of
                  Inl e \<Rightarrow> (Inl e, s3)
                | Inr (eok, eal, emsg) \<Rightarrow>
                    let s4 = (told5 emsg s3)\<lparr>k5_engine_alerted := eal\<rparr>;
                        (ook, s5) = fold (monitor5 env) (sv_monitors env) (True, s4);
                        (sok, s6) = estop5 env s5
                    in (Inr \<lparr>agent_ok = aok, engine_ok = eok, overcurrent_ok = ook, estop_ok = sok\<rparr>, s6))"

section \<open>When the kernel process stops the printer\<close>

lemma snd_try_ret: "snd (try_except m (\<lambda>_. ret x) s) = snd (m s)"
  by (simp add: try_except_def act_simps split: prod.split sum.split)

definition sent_is :: "stop_request list \<Rightarrow> bool \<Rightarrow> kernel_state \<Rightarrow> bool" where
  "sent_is r b s \<longleftrightarrow> kn_sent s = r \<and> (b \<longrightarrow> kn_estop_alerted s)"

lemma sent_reads [preserves_intros]:
  "preserves (sent_is r b) (redis_get env k)" "preserves (sent_is r b) (read_clock env)"
  "preserves (sent_is r b) (redis_set k v ex)"
  by (rule preservesI; simp add: sent_is_def redis_get_def read_clock_def redis_set_def act_simps)+

lemma sent_heartbeat [preserves_intros]:
  assumes "\<And>x s. sent_is r b s \<Longrightarrow> sent_is r b (put x s)"
  shows "preserves (sent_is r b) (check_heartbeat env g k f get put)"
  unfolding check_heartbeat_def by (intro preserves_intros assms)

text \<open>A check of the emergency stop that finds the alert on, or the flag off, sends nothing.\<close>

lemma check_estop_alerted:
  assumes "\<And>n. ke_get env n ''safety.estop'' = Inr v" and "flag_active v"
  shows "preserves (sent_is r True) (check_estop env)"
  by (rule preservesI) (use assms in \<open>simp add: check_estop_def bindE_def redis_get_def act_simps sent_is_def\<close>)

lemma check_estop_quiet:
  assumes "\<And>n v. ke_get env n ''safety.estop'' = Inr v \<Longrightarrow> \<not> flag_active v"
  shows "preserves (sent_is r False) (check_estop env)"
proof (rule preservesI)
  fix s assume "sent_is r False s"
  then show "sent_is r False (snd (check_estop env s))"
    using assms [of "kn_reads s"]
    by (cases "ke_get env (kn_reads s) ''safety.estop''") (simp_all add: check_estop_def bindE_def redis_get_def act_simps sent_is_def)
qed

lemma monitors_quiet:
  assumes "\<And>m n v. m \<in> set ms \<Longrightarrow> ke_get env n (mo_key m) = Inr v \<Longrightarrow> \<not> fault_active v"
  shows "preserves (sent_is r b) (check_monitors env ms)"
  using assms
proof (induction ms)
  case (Cons m ms)
  have "preserves (sent_is r b) (check_monitor env m)"
  proof (rule preservesI)
    fix s assume s: "sent_is r b s"
    show "sent_is r b (snd (check_monitor env m s))"
    proof (cases "mo_key m = []")
      case True
      then show ?thesis using s by (simp add: check_monitor_def act_simps fault_active_def sent_is_def)
    next
      case False
      then show ?thesis using s Cons.prems [of m "kn_reads s"]
        by (cases "ke_get env (kn_reads s) (mo_key m)") (simp_all add: check_monitor_def bindE_def redis_get_def act_simps sent_is_def)
    qed
  qed
  moreover have "preserves (sent_is r b) (check_monitors env ms)" by (rule Cons.IH) (rule Cons.prems, auto)
  ultimately show ?case by (simp, intro preserves_intros)
qed (simp add: preserves_intros)

lemma round_sent:
  assumes e: "preserves (sent_is r b) (check_estop env)" and m: "preserves (sent_is r b) (check_monitors env (ke_monitors env))"
    and s: "sent_is r b s"
  shows "sent_is r b (kernel_round env s)"
proof -
  have "preserves (sent_is r b) (try_except (kernel_checks env) (\<lambda>_. ret ()))"
    unfolding kernel_checks_def Let_def by (intro preserves_intros e m) (simp_all add: sent_is_def)
  then show ?thesis using s by (simp add: preserves_def kernel_round_def)
qed

lemma rounds_sent:
  assumes "preserves (sent_is r b) (check_estop env)" and "preserves (sent_is r b) (check_monitors env (ke_monitors env))"
  shows "sent_is r b s \<Longrightarrow> sent_is r b (kernel_rounds env n s)"
  by (induction n arbitrary: s) (simp_all add: round_sent [OF assms])

text \<open>
  C21: The kernel process stops the printer for the emergency flag and for a fault only: as long as every read of
  them is quiet or fails, it sends no stop request, however long the agent and the engine have been dead.
\<close>

theorem heartbeat_loss_never_stops:
  assumes "\<And>n v. ke_get env n ''safety.estop'' = Inr v \<Longrightarrow> \<not> flag_active v"
    and "\<And>m n v. m \<in> set (ke_monitors env) \<Longrightarrow> ke_get env n (mo_key m) = Inr v \<Longrightarrow> \<not> fault_active v"
  shows "kn_sent (kernel_rounds env k (kernel_start env)) = []"
proof -
  have "sent_is [] False (kernel_rounds env k (kernel_start env))"
    by (rule rounds_sent [OF check_estop_quiet monitors_quiet])
      (use assms in \<open>auto simp: sent_is_def kernel_start_def\<close>)
  then show ?thesis by (simp add: sent_is_def)
qed

text \<open>
  While the emergency flag stays on, the kernel process makes a single stop attempt, the primary request and
  on its failure the fallback, and never tries again: not even when both requests failed.
\<close>

theorem failed_stop_not_retried:
  assumes flag: "\<And>n. ke_get env n ''safety.estop'' = Inr v" "flag_active v" and host: "ke_host env \<noteq> []"
    and quiet: "\<And>m n v. m \<in> set (ke_monitors env) \<Longrightarrow> ke_get env n (mo_key m) = Inr v \<Longrightarrow> \<not> fault_active v"
  shows "kn_sent (kernel_rounds env (Suc k) (kernel_start env)) = snd (estop_printer (ke_rt env) (ke_http env) (ke_host env)
      (ke_api_key env) (ke_primary env) (ke_fallback env) 0)
    \<and> length (kn_sent (kernel_rounds env (Suc k) (kernel_start env))) \<le> 2"
proof -
  let ?r = "snd (estop_printer (ke_rt env) (ke_http env) (ke_host env) (ke_api_key env) (ke_primary env) (ke_fallback env) 0)"
  let ?s = "kernel_start env"
  have m: "preserves (sent_is r b) (check_monitors env (ke_monitors env))" for r b
    by (rule monitors_quiet) (rule quiet)
  have "sent_is ?r True (kernel_round env ?s)"
  proof -
    let ?s1 = "?s\<lparr>kn_monos := 2\<rparr>"
    have "snd (check_estop env ?s1) = ?s1\<lparr>kn_reads := 1, kn_sent := ?r, kn_estop_alerted := True\<rparr>"
      and e: "fst (check_estop env ?s1) = Inr ()"
      using flag host by (simp_all add: check_estop_def bindE_def redis_get_def act_simps kernel_start_def kernel_stop_def)
    then have after: "sent_is ?r True (snd (check_estop env ?s1))" by (simp add: sent_is_def)
    define tail where "tail g = bindE (check_heartbeat env g ''agent.heartbeat'' ''safety.agent_stale'' kn_agent_alerted
              (\<lambda>b s. s\<lparr>kn_agent_alerted := b\<rparr>)) (\<lambda>_.
        bindE (check_heartbeat env g ''engine.heartbeat'' ''safety.engine_stale'' kn_engine_alerted
              (\<lambda>b s. s\<lparr>kn_engine_alerted := b\<rparr>)) (\<lambda>_. check_monitors env (ke_monitors env)))" for g
    have t: "preserves (sent_is ?r True) (tail g)" for g
      unfolding tail_def by (intro preserves_intros m) (simp_all add: sent_is_def)
    obtain g where run: "kernel_checks env ?s = tail g (snd (check_estop env ?s1))"
    proof -
      obtain u s2 where c: "check_estop env ?s1 = (Inr u, s2)" using e by (cases "check_estop env ?s1") simp
      then have b: "bindE (check_estop env) (\<lambda>_. tail g) ?s1 = tail g s2" for g by (simp add: bindE_def)
      have "kernel_checks env ?s = bindE (check_estop env) (\<lambda>_. tail (ke_mono env 1 - ke_mono env 0 < boot_grace_s)) ?s1"
        unfolding kernel_checks_def tail_def [symmetric] Let_def
        by (simp add: bindE_def [of "read_clock env"] read_clock_def act_simps kernel_start_def numeral_2_eq_2)
      then show ?thesis using that c b by simp
    qed
    have "sent_is ?r True (snd (tail g (snd (check_estop env ?s1))))" using t after by (simp add: preserves_def)
    then show ?thesis by (simp add: kernel_round_def snd_try_ret run)
  qed
  then have "sent_is ?r True (kernel_rounds env k (kernel_round env ?s))"
    by (rule rounds_sent [OF check_estop_alerted m, rotated 2]) (use flag in simp_all)
  moreover have "length ?r \<le> 2"
  proof -
    obtain r1 r2 where r: "?r = (if stop_ok (ke_http env 0 r1) then [r1] else [r1, r2])"
      by (rule estop_printer_result [OF host, where n = 0 and rt = "ke_rt env" and http = "ke_http env"
        and key = "ke_api_key env" and p = "ke_primary env" and f = "ke_fallback env"]) simp
    show ?thesis unfolding r by simp
  qed
  ultimately show ?thesis by (simp add: sent_is_def del: length_0_conv)
qed

definition sample_kernel_env :: "string option \<Rightarrow> kernel_env" where
  "sample_kernel_env flag = \<lparr>ke_rt = sample_rt, ke_http = (\<lambda>_ _. HttpRaised ''down''),
     ke_get = (\<lambda>_ key. Inr (if key = ''safety.estop'' then flag else None)), ke_mono = (\<lambda>n. of_nat n),
     ke_heartbeat_timeout = 30, ke_host = ''printer'', ke_api_key = [], ke_primary = None, ke_fallback = None,
     ke_monitors = [\<lparr>mo_key = ''printer.oc_input'', mo_label = ''input power''\<rparr>]\<rparr>"

lemma heartbeat_loss_never_stops_witness:
  "kn_sent (kernel_rounds (sample_kernel_env None) 1000 (kernel_start (sample_kernel_env None))) = []"
  by (rule heartbeat_loss_never_stops) (auto simp: sample_kernel_env_def flag_active_def fault_active_def)

lemma failed_stop_not_retried_witness:
  "length (kn_sent (kernel_rounds (sample_kernel_env (Some ''true'')) (Suc 999) (kernel_start (sample_kernel_env (Some ''true''))))) \<le> 2"
  by (rule failed_stop_not_retried [THEN conjunct2])
    (auto simp: sample_kernel_env_def flag_active_def fault_active_def)

section \<open>What the kernel in the process reports\<close>

lemma heartbeat5_verdict:
  "heartbeat5 env name g al now hb = Inr (ok, al', msg) \<Longrightarrow>
     (ok \<longleftrightarrow> (\<exists>t. hb \<noteq> PyNone \<and> num_of hb = Some t \<and> \<not> float_less (Fin (sv_timeout env)) (float_sub (Fin now) t)))
     \<and> (msg \<noteq> None \<longrightarrow> \<not> al \<and> al') \<and> (ok \<longrightarrow> msg = None \<and> \<not> al')"
  by (auto simp: heartbeat5_def Let_def split: if_splits option.splits)

lemma told5_reads [simp]: "k5_reads (told5 m s) = k5_reads s" "k5_estop_alerted (told5 m s) = k5_estop_alerted s"
  by (simp_all add: told5_def k5_call_def split: option.split)

text \<open>
  When a check of the in-process kernel returns, its verdicts on the two heartbeats are right: a heartbeat is
  good exactly when it is a number no older than the timeout.
\<close>

theorem check_once_heartbeats:
  assumes "check_once env s = (Inr st, s')"
  defines "now \<equiv> sv_mono env (k5_monos s + 1)"
  shows "(agent_ok st \<longleftrightarrow> (\<exists>t. num_of (sv_read env (k5_reads s) ''agent.heartbeat'') = Some t
            \<and> \<not> float_less (Fin (sv_timeout env)) (float_sub (Fin now) t)))
    \<and> (engine_ok st \<longleftrightarrow> (\<exists>t. num_of (sv_read env (k5_reads s + 1) ''engine.heartbeat'') = Some t
            \<and> \<not> float_less (Fin (sv_timeout env)) (float_sub (Fin now) t)))"
proof -
  let ?g = "sv_mono env (k5_monos s) - k5_boot_time s < boot_grace5_s"
  obtain aok aal amsg where a: "heartbeat5 env ''Agent'' ?g (k5_agent_alerted s) now (sv_read env (k5_reads s) ''agent.heartbeat'') = Inr (aok, aal, amsg)"
    using assms by (auto simp: check_once_def Let_def k5_read_def split: sum.splits)
  obtain al eok eal emsg where e: "heartbeat5 env ''Engine'' ?g al now (sv_read env (k5_reads s + 1) ''engine.heartbeat'') = Inr (eok, eal, emsg)"
    and st: "agent_ok st = aok" "engine_ok st = eok"
    using assms a by (auto simp: check_once_def Let_def k5_read_def split: sum.splits prod.splits)
  have none: "num_of v = Some t \<Longrightarrow> v \<noteq> PyNone" for v t by auto
  show ?thesis using heartbeat5_verdict [OF a] heartbeat5_verdict [OF e] none unfolding st by blast
qed

definition sample_kernel5_env :: kernel5_env where
  "sample_kernel5_env = \<lparr>sv_rt = sample_rt, sv_http = (\<lambda>_ _. Status 204),
     sv_read = (\<lambda>_ key. if key = ''agent.heartbeat'' then PyInt 1 else PyNone), sv_mono = (\<lambda>n. of_nat n), sv_timeout = 3,
     sv_host = ''printer'', sv_api_key = [], sv_primary = None, sv_fallback = None, sv_monitors = []\<rparr>"

definition sample_kernel5 :: kernel5 where
  "sample_kernel5 = \<lparr>k5_agent_alerted = False, k5_engine_alerted = False, k5_fault_alerted = [], k5_estop_alerted = False,
     k5_boot_time = 0, k5_reads = 0, k5_monos = 1, k5_sent = [], k5_called = []\<rparr>"

lemma check_once_heartbeats_witness:
  "\<exists>st. fst (check_once sample_kernel5_env sample_kernel5) = Inr st \<and> agent_ok st \<and> \<not> engine_ok st"
proof -
  have "fst (check_once sample_kernel5_env sample_kernel5)
      = Inr \<lparr>agent_ok = True, engine_ok = False, overcurrent_ok = True, estop_ok = True\<rparr>" by code_simp
  then obtain st s' where c: "check_once sample_kernel5_env sample_kernel5 = (Inr st, s')" by (metis prod.collapse)
  from check_once_heartbeats [OF c] c show ?thesis
    by (simp add: sample_kernel5_env_def sample_kernel5_def float_sub_def)
qed

end
