(* ===== verification/Spec2Isabelle.thy ===== *)
theory Spec2Isabelle
  imports PromptSchema MainLoop Meatpack SimPacks PrusaState JobNotebook AgentLoop Watchdog5
begin

text \<open>
  Verification library of Wallee, an agent that watches and drives 3D printers and a robot arm.  The repository
  holds two generations of the program, and the library models the core of both.

  \<^bold>\<open>The runtime\<close> (\<open>src/wallee_v6\<close>).  Device packs publish facts on a whiteboard; a world compiler turns them
  into a world packet with a frontier of candidate actions; a planner (heuristic or a language model) selects among
  them; the engine executes the plan behind locks, approvals, preconditions and verification, and writes runs,
  approvals and a journal to a database; a safety kernel and a control lease guard the whole; the loop in \<open>main.py\<close>
  ties these together cycle by cycle.

  \<^bold>\<open>The agent\<close> (\<open>src/wallee\<close>).  A language model is asked in cycles what to do; its answer is parsed, passed
  through stabilising guards and written as proposals to a ledger; an engine polls the ledger, passes each proposal
  through its gates and calls a tool; write-ahead diaries and a recovery make this survive a crash; two safety kernels watch
  heartbeats, faults and the emergency stop.

  \<^bold>\<open>Theories of both.\<close>
  \<^item> \<open>Prelude\<close>: Python values (\<open>pyval\<close>), dictionaries, exceptions as values, stateful calls that may raise
    (\<open>act\<close>, \<open>preserves\<close> with its collection of rules), strings.  Rounding of float arithmetic and characters
    beyond Latin-1 are not modelled; what belongs to the interpreter is a field of \<open>pyrt\<close>.
  \<^item> \<open>Rows\<close>: tables as lists of rows, keys, updates, sorting.

  \<^bold>\<open>Theories of the runtime.\<close>
  \<^item> \<open>Predicates\<close> (\<open>predicates.py\<close>): the evaluator decides the formula on comparable facts.
  \<^item> \<open>Whiteboard\<close> (\<open>whiteboard.py\<close>): sequence numbers, batches, replay of changes; locale \<open>whiteboard_spec\<close>.
  \<^item> \<open>Ids\<close> (\<open>ids.py\<close>): the canonical JSON text determines its value up to key order.
  \<^item> \<open>Models\<close>, \<open>PlannerSignals\<close>, \<open>PromptView\<close>, \<open>PromptSchema\<close> (\<open>models.py\<close>): data contracts, everything the prompt
    derives from the facts and the last results, and the published schema of the prompt.
  \<^item> \<open>RuntimeDb\<close> (\<open>runtime_db.py\<close>): integrity, the state machine of runs, the journal; locale \<open>journal_spec\<close>.
  \<^item> \<open>Control\<close> (\<open>safety.py\<close>, \<open>runtime_control.py\<close>, the locks of \<open>engine.py\<close>); locale \<open>lock_table\<close>.
  \<^item> \<open>Runtime\<close> (\<open>human.py\<close>, \<open>registry.py\<close>, \<open>planning_context.py\<close>): the assembled state \<open>sys\<close>, the environment
    \<open>env\<close>, the compiler of worlds; locale \<open>sys_frame\<close> for what every call of the runtime keeps.
  \<^item> \<open>Engine\<close> (\<open>engine.py\<close>, \<open>packs/base.py\<close>): validation and execution of plans; locales \<open>run_frame\<close> and
    \<open>plan_frame\<close>, interpreted by the notebook of runs, the locks and the history.
  \<^item> \<open>Openrouter\<close> (\<open>openrouter_observability.py\<close>), \<open>Planner\<close> (\<open>planner.py\<close>): the planners, the reading of an
    answer, the deterministic corrections, the round trip of plans.
  \<^item> \<open>MainLoop\<close> (\<open>main.py\<close>): one cycle with its gates, and the loop; locale \<open>loop_frame\<close>.
  \<^item> \<open>Bgcode\<close>, \<open>Meatpack\<close> (\<open>bgcode_decode.py\<close>): the container grammar, the decoder against a reference encoder.
  \<^item> \<open>SimPacks\<close> (\<open>sim_printer\<close>, \<open>sim_arm\<close>): both simulated packs, as a refinement of one part that is in one place.

  \<^item> \<open>PrusaDriver\<close> (\<open>prusa_core_one_plus/driver.py\<close>, \<open>types.py\<close>): the driver of a real printer.  \<open>prusa_env\<close> answers the
    n-th HTTP request and serial command in any way; \<open>dstate\<close> records what was sent.  The lemmas show what each call
    hands to the printer, that a call which returns was confirmed by a later reading, and that the waits end.
  \<^item> \<open>PrusaPack\<close> (\<open>prusa_core_one_plus/pack.py\<close>): settling and cooling down, the actions offered for a world and their
    realisation; what is offered is gated and bounded, and realising an action writes once.
  \<^item> \<open>PrusaState\<close> (\<open>pack.py\<close>): corrections of a snapshot, the phase of a print, trends, the eligibility of the six tuning
    families and \<open>normalize\<close>.  Its last theorems follow an offered action back to the raw state that was published.
  \<^item> \<open>JobSections\<close> (\<open>prusa_core_one_plus/job_notebook.py\<close>): a G-code file cut into sections, the machine followed through
    them (\<open>machine\<close>, \<open>metrics\<close>), tags and facts; the sections partition the file.
  \<^item> \<open>JobNotebook\<close> (\<open>job_notebook.py\<close>, \<open>types.py\<close>): the notes derived from the sections, the active section of a progress and
    the selection of notes for it.

  \<^bold>\<open>Theories of the agent.\<close>
  \<^item> \<open>LlmParser\<close> (\<open>agent/parser.py\<close>): what a parsed decision may be, and exactly when the parser raises.
  \<^item> \<open>Ledger\<close> (\<open>ledger/db.py\<close>, \<open>ledger/diary.py\<close>): proposals, keys, status, approvals, episodes, diaries; the
    invariant \<open>ledger_ok\<close> with the functional result of every operation.
  \<^item> \<open>Dispatch\<close> (\<open>engine/dispatch.py\<close>, \<open>engine/reconcile.py\<close>, \<open>tools/registry.py\<close>): the gates, polling and recovery.
    The relation \<open>agent_step\<close> interleaves proposals, approvals, engine rounds, power failures and restarts; the
    invariant of its reachable states gives the theorems.
  \<^item> \<open>AgentMemory\<close> (\<open>JOB_CONTEXT.md\<close> of \<open>agent/loop.py\<close>, \<open>tools/builtins/remember.py\<close>): the two text files as
    refinements of a record and of a list of at most fifty entries.
  \<^item> \<open>AgentLoop\<close> (\<open>agent/loop.py\<close>, \<open>state_manager.py\<close>, \<open>change_detector.py\<close>): the cycle and its guards; locale
    \<open>agent_inv\<close> for what every cycle keeps, interpreted three times.
  \<^item> \<open>Watchdog5\<close> (\<open>safety/estop.py\<close>, \<open>kernel.py\<close>, \<open>kernel_main.py\<close>): the stop transport and both kernels.

  \<^bold>\<open>How the outside is modelled.\<close>  Clocks, identifiers, digests, the language model, HTTP, hardware, \<open>flock\<close> and the writes
  of other threads are functions of an environment record, indexed by a counter in the state: the n-th reading or
  call may answer anything, and every theorem holds for all of them.  Only documented behaviour is assumed where a theorem
  needs it (\<open>sha256\<close> and \<open>uuid4\<close> do not collide, a digest and a tool name hold no colon).

  \<^bold>\<open>Bounds and fuel.\<close>  The wait of the engine takes fuel (\<open>e_fuel\<close>), and \<open>wait_loop_returns\<close> shows how much is
  enough; the loop of the runtime is bounded by the requested cycles, and \<open>loop_ends\<close> shows that they suffice; with
  \<open>--forever\<close> every cycle is followed by the next (\<open>loop_goes_on\<close>).  \<open>dv_power\<close> counts the commits and tool calls left before
  a power failure, so a crash can fall between any two of them.  The kernel and the agent loop are iterated any number of rounds.
  A wait of the Prusa driver carries the time left until its deadline; a reading of the clock takes at least a nanosecond
  of it and whatever more \<open>pe_elapsed\<close> says, so the loop is total, and \<open>wait_ends\<close> bounds its calls.

  \<^bold>\<open>Not modelled.\<close>  Of the Prusa pack \<open>publish_raw_state\<close> with its vision threads, the files of the job notebook and the HTTP and serial
  transports: they read cameras, disks and ports, and what they publish is the dictionary that \<open>normalize\<close> takes;
  the smoke tests of the runtime and its offline evaluation; of the agent the prompt, the transport of the language model, chat, dashboard, serial and network services, device packs
  and the replay harness.  These are hardware and service access that the modelled code sees only as answers.
  Threads are modelled by what they write between two reads; logging, sleeping, argument parsing, SQL schema creation and
  pydantic's own type checks are left out.
\<close>

end
